(* ===== verification/SipPrelude.thy ===== *)
theory SipPrelude
  imports Main "HOL-Library.Word"
begin

text \<open>
  Prelude of the development: the machine-integer types of
  \<open>native/libimsstack/protocol/interface/sip/SipDatatypes.h\<close>, the collections of rewrite rules
  the component theories fill, and the generic facts on lists, options and words they share.
  Nothing here models code by itself, apart from the integer types.
\<close>

unbundle bit_operations_syntax

section \<open>Machine integers\<close>

type_synonym SIP_UINT16 = "16 word"
type_synonym SIP_UINT32 = "32 word"

section \<open>Collections\<close>

named_theorems sip_str \<open>comparison of C strings as equations on strings\<close>
named_theorems txn_get \<open>reading a transaction out of an updated stack\<close>
named_theorems txn_frame \<open>components of the stack an operation leaves alone\<close>
named_theorems handler_defs \<open>the definitions of the FSM handlers\<close>

section \<open>Lists\<close>

fun update_first :: "('a \<Rightarrow> bool) \<Rightarrow> ('a \<Rightarrow> 'a) \<Rightarrow> 'a list \<Rightarrow> 'a list" where
  "update_first P f [] = []"
| "update_first P f (x # xs) = (if P x then f x # xs else x # update_first P f xs)"

fun remove_first :: "('a \<Rightarrow> bool) \<Rightarrow> 'a list \<Rightarrow> 'a list" where
  "remove_first P [] = []"
| "remove_first P (x # xs) = (if P x then xs else x # remove_first P xs)"

lemma update_first_length [simp]: "length (update_first P f xs) = length xs"
  by (induction xs) auto

lemma update_first_none: "\<forall>x\<in>set xs. \<not> P x \<Longrightarrow> update_first P f xs = xs"
  by (induction xs) auto

lemma update_first_map: "(\<And>x. g (f x) = g x) \<Longrightarrow> map g (update_first P f xs) = map g xs"
  by (induction xs) auto

lemma remove_first_none: "\<forall>x\<in>set xs. \<not> P x \<Longrightarrow> remove_first P xs = xs"
  by (induction xs) auto

lemma remove_first_subset: "set (remove_first P xs) \<subseteq> set xs"
  by (induction xs) auto

lemma remove_first_length:
  "find P xs \<noteq> None \<Longrightarrow> Suc (length (remove_first P xs)) = length xs"
  by (induction xs) (auto split: if_splits)

lemma find_None: "find P xs = None \<longleftrightarrow> (\<forall>x\<in>set xs. \<not> P x)"
  by (induction xs) auto

lemma find_SomeD: "find P xs = Some x \<Longrightarrow> x \<in> set xs \<and> P x"
  by (induction xs) (auto split: if_splits)

lemma find_append: "find P (xs @ ys) = (case find P xs of Some x \<Rightarrow> Some x | None \<Rightarrow> find P ys)"
  by (induction xs) auto

text \<open>The position of the first match, by structural recursion.\<close>

fun first_match :: "('a \<Rightarrow> bool) \<Rightarrow> 'a list \<Rightarrow> nat option" where
  "first_match P [] = None"
| "first_match P (x # xs) = (if P x then Some 0 else map_option Suc (first_match P xs))"

lemma first_match_None: "first_match P xs = None \<longleftrightarrow> (\<forall>x\<in>set xs. \<not> P x)"
  by (induction xs) auto

lemma first_match_SomeD:
  "first_match P xs = Some n \<Longrightarrow> n < length xs \<and> P (xs ! n) \<and> (\<forall>m<n. \<not> P (xs ! m))"
proof (induction xs arbitrary: n)
  case (Cons x xs)
  then show ?case
    by (cases n) (auto split: if_splits simp: less_Suc_eq_0_disj nth_Cons')
qed simp

lemma first_match_nth: "first_match P xs = Some n \<Longrightarrow> find P xs = Some (xs ! n)"
  by (induction xs arbitrary: n) (auto split: if_splits)

lemma first_match_find_None: "first_match P xs = None \<longleftrightarrow> find P xs = None"
  by (simp add: first_match_None find_None)

lemma remove_first_nth:
  "first_match P xs = Some n \<Longrightarrow> remove_first P xs = take n xs @ drop (Suc n) xs"
  by (induction xs arbitrary: n) (auto split: if_splits)

lemma remove_first_append:
  "remove_first P (xs @ ys) =
     (if find P xs = None then xs @ remove_first P ys else remove_first P xs @ ys)"
  by (induction xs) auto

section \<open>Words\<close>

lemma unat_plus_no_overflow:
  fixes a b :: "'a::len word"
  assumes "unat a + unat b < 2 ^ LENGTH('a)"
  shows "unat (a + b) = unat a + unat b"
  using assms by (simp add: unat_word_ariths)

lemma unat_minus_le:
  fixes a b :: "'a::len word"
  shows "b \<le> a \<Longrightarrow> unat (a - b) = unat a - unat b"
  by (simp add: unat_sub)

lemma unat_double_no_overflow:
  fixes a :: "'a::len word"
  assumes "2 * unat a < 2 ^ LENGTH('a)"
  shows "unat (push_bit (Suc 0) a) = 2 * unat a"
proof -
  have "push_bit (Suc 0) a = 2 * a" by (simp add: push_bit_eq_mult mult.commute)
  then show ?thesis using assms by (auto simp: unat_word_ariths)
qed

lemma word_zero_iff_unat: "(a :: 'a::len word) = 0 \<longleftrightarrow> unat a = 0"
  by (simp add: unat_eq_0)

lemma word_pos_iff_unat: "(0 :: 'a::len word) < a \<longleftrightarrow> 0 < unat a"
  by (simp add: word_less_nat_alt)

end
