(* ===== verification/SipString.thy ===== *)
theory SipString
  imports SipPrelude
begin

text \<open>
  C strings of the SIP stack (\<open>protocol/include/sip/platform/SipString.h\<close> and
  \<open>protocol/sip/platform/SipString.cpp\<close>). A \<open>SIP_CHAR*\<close> is \<open>None\<close> for \<open>SIP_NULL\<close> and
  \<open>Some s\<close> otherwise, where \<open>s\<close> is what stands before the terminating NUL. The comparison
  functions are translated with their loops; the lemmas at the end say when they return
  \<open>SIP_EQUALS\<close> (which is 0), and NULL never compares equal, not even with NULL.
\<close>

type_synonym cstr = "string option"

definition SIP_TOLOWER :: "char \<Rightarrow> char" where
  "SIP_TOLOWER c =
     (if (65 :: nat) \<le> of_char c \<and> of_char c \<le> (90 :: nat)
      then char_of (of_char c - 65 + 97 :: nat) else c)"

fun SipPf_Strcmp_loop :: "string \<Rightarrow> string \<Rightarrow> int" where
  "SipPf_Strcmp_loop (c # cs) (d # ds) =
     (if c \<noteq> d then of_char c - of_char d else SipPf_Strcmp_loop cs ds)"
| "SipPf_Strcmp_loop [] [] = 0"
| "SipPf_Strcmp_loop _ _ = -1"

definition SipPf_Strcmp :: "cstr \<Rightarrow> cstr \<Rightarrow> int" where
  "SipPf_Strcmp p q =
     (case (p, q) of (Some a, Some b) \<Rightarrow> SipPf_Strcmp_loop a b | _ \<Rightarrow> -1)"

fun SipPf_Stricmp_loop :: "string \<Rightarrow> string \<Rightarrow> int" where
  "SipPf_Stricmp_loop (c # cs) (d # ds) =
     (if SIP_TOLOWER c \<noteq> SIP_TOLOWER d then of_char (SIP_TOLOWER c) - of_char (SIP_TOLOWER d)
      else SipPf_Stricmp_loop cs ds)"
| "SipPf_Stricmp_loop [] [] = 0"
| "SipPf_Stricmp_loop _ _ = -1"

definition SipPf_Stricmp :: "cstr \<Rightarrow> cstr \<Rightarrow> int" where
  "SipPf_Stricmp p q =
     (case (p, q) of (Some a, Some b) \<Rightarrow> SipPf_Stricmp_loop a b | _ \<Rightarrow> -1)"

text \<open>\<open>SipPf_Strdup\<close> copies a string; NULL stays NULL.\<close>

definition SipPf_Strdup :: "cstr \<Rightarrow> cstr" where
  "SipPf_Strdup p = (case p of None \<Rightarrow> None | Some s \<Rightarrow> Some s)"

lemma SipPf_Strdup_id [simp]: "SipPf_Strdup p = p"
  by (simp add: SipPf_Strdup_def split: option.splits)

text \<open>
  \<open>SipPf_Atoi\<close>: at most ten characters (eleven with a leading minus) are read, characters
  that are neither digits nor a dot are skipped, a dot ends the number. The accumulator has 32
  bits, a signed integer of the code: where it overflows the model wraps.
\<close>

fun SipPf_Atoi_loop :: "string \<Rightarrow> SIP_UINT32 \<Rightarrow> SIP_UINT32" where
  "SipPf_Atoi_loop [] v = v"
| "SipPf_Atoi_loop (c # cs) v =
     (if (48 :: nat) \<le> of_char c \<and> of_char c \<le> (57 :: nat)
      then SipPf_Atoi_loop cs (v * 10 + (of_char c - 48))
      else if c = CHR ''.'' then v
      else SipPf_Atoi_loop cs v)"

definition SipPf_Atoi :: "cstr \<Rightarrow> int" where
  "SipPf_Atoi p =
     (case p of None \<Rightarrow> 0
      | Some s \<Rightarrow>
          (let neg = (s \<noteq> [] \<and> hd s = CHR ''-'');
               n = (if 11 < length s \<and> neg then 11 else if 10 < length s then 10 else length s);
               v = SipPf_Atoi_loop (take n s) 0
           in sint (if neg then v * (- 1) else v)))"

lemma of_char_int_eq_iff: "(of_char c :: int) = of_char d \<longleftrightarrow> c = d"
  by simp

lemma SipPf_Strcmp_loop_0: "SipPf_Strcmp_loop a b = 0 \<longleftrightarrow> a = b"
  by (induction a b rule: SipPf_Strcmp_loop.induct) auto

lemma SipPf_Stricmp_loop_0:
  "SipPf_Stricmp_loop a b = 0 \<longleftrightarrow> map SIP_TOLOWER a = map SIP_TOLOWER b"
  by (induction a b rule: SipPf_Stricmp_loop.induct) auto

lemma SipPf_Strcmp_0 [sip_str]:
  "SipPf_Strcmp p q = 0 \<longleftrightarrow> (\<exists>s. p = Some s \<and> q = Some s)"
  by (auto simp: SipPf_Strcmp_def SipPf_Strcmp_loop_0 split: option.splits)

lemma SipPf_Stricmp_0 [sip_str]:
  "SipPf_Stricmp p q = 0 \<longleftrightarrow>
     (\<exists>a b. p = Some a \<and> q = Some b \<and> map SIP_TOLOWER a = map SIP_TOLOWER b)"
  by (auto simp: SipPf_Stricmp_def SipPf_Stricmp_loop_0 split: option.splits)

lemma SipPf_Strcmp_sym0: "SipPf_Strcmp p q = 0 \<longleftrightarrow> SipPf_Strcmp q p = 0"
  by (auto simp: sip_str)

end
