(* ===== verification/SipMsg.thy ===== *)
theory SipMsg
  imports SipString
begin

text \<open>
  SIP messages as far as the transaction layer looks at them
  (\<open>protocol/interface/sip/msg/SipMessage.h\<close>, \<open>protocol/sip/msg/SipMessage.cpp\<close>,
  \<open>protocol/interface/sip/msg/SipMsgUtil.h\<close>): the start line, the header fields that take part
  in transaction matching or that \<open>SipTxn::PrepareACK\<close> copies, and the body. A header that the
  message does not carry is \<open>None\<close>; a header with several values is represented by its
  topmost one, which is what \<open>GetHdrObj\<close> returns, but for Route, whose whole list is copied.
  Parsing and encoding are not modelled here.
\<close>

section \<open>Message data\<close>

datatype sip_msg_type = REQ_TYPE | RESP_TYPE | TYPE_INVALID

datatype sip_method =
    METHOD_INVITE | METHOD_ACK | METHOD_OPTIONS | METHOD_BYE | METHOD_CANCEL
  | METHOD_REGISTER | METHOD_INFO | METHOD_PRACK | METHOD_SUBSCRIBE | METHOD_NOTIFY
  | METHOD_UPDATE | METHOD_MESSAGE | METHOD_REFER | METHOD_PUBLISH
  | METHOD_END | METHOD_UNKNOWN | METHOD_INVALID

record SipViaHeader =
  via_protocol_name :: cstr
  via_transport :: cstr
  via_branch :: cstr
  via_host :: cstr
  via_port :: SIP_UINT16

record SipCSeqHeader =
  cseq_method :: cstr
  cseq_num :: SIP_UINT32

record SipNameAddrHeader =
  na_addr :: string
  na_tag :: cstr

record SipRequestLine =
  rl_method :: cstr
  rl_uri :: string

record SipMessage =
  m_eSipMsgType :: sip_msg_type
  m_pReqLine :: "SipRequestLine option"
  m_pStatusLine :: "cstr option" \<comment> \<open>the status code text of the status line\<close>
  hdr_via :: "SipViaHeader option"
  hdr_cseq :: "SipCSeqHeader option"
  hdr_from :: "SipNameAddrHeader option"
  hdr_to :: "SipNameAddrHeader option"
  hdr_call_id :: "cstr option" \<comment> \<open>the value of the header\<close>
  hdr_rseq :: "SIP_UINT32 option"
  hdr_rack :: "SIP_UINT32 option" \<comment> \<open>its response-num\<close>
  hdr_max_forwards :: "nat option"
  hdr_user_agent :: "string option"
  hdr_pani :: "string option" \<comment> \<open>P-Access-Network-Info\<close>
  hdr_route :: "string list"
  msg_body :: string

definition SipMessage_new :: "sip_msg_type \<Rightarrow> SipMessage" where
  "SipMessage_new ty = \<lparr> m_eSipMsgType = ty, m_pReqLine = None, m_pStatusLine = None,
     hdr_via = None, hdr_cseq = None, hdr_from = None, hdr_to = None, hdr_call_id = None,
     hdr_rseq = None, hdr_rack = None, hdr_max_forwards = None, hdr_user_agent = None,
     hdr_pani = None, hdr_route = [], msg_body = [] \<rparr>"

section \<open>Accessors\<close>

definition SipMessage_GetMethod :: "SipMessage \<Rightarrow> cstr" where
  "SipMessage_GetMethod m =
     (if m_eSipMsgType m = REQ_TYPE
      then (case m_pReqLine m of None \<Rightarrow> None | Some rl \<Rightarrow> rl_method rl)
      else case m_pStatusLine m of None \<Rightarrow> None
        | Some _ \<Rightarrow> (case hdr_cseq m of None \<Rightarrow> None | Some c \<Rightarrow> cseq_method c))"

definition SipMethodArray :: "(string \<times> sip_method) list" where
  "SipMethodArray =
     [(''INVITE'', METHOD_INVITE), (''ACK'', METHOD_ACK), (''OPTIONS'', METHOD_OPTIONS),
      (''BYE'', METHOD_BYE), (''CANCEL'', METHOD_CANCEL), (''REGISTER'', METHOD_REGISTER),
      (''INFO'', METHOD_INFO), (''PRACK'', METHOD_PRACK), (''SUBSCRIBE'', METHOD_SUBSCRIBE),
      (''NOTIFY'', METHOD_NOTIFY), (''UPDATE'', METHOD_UPDATE), (''MESSAGE'', METHOD_MESSAGE),
      (''REFER'', METHOD_REFER), (''PUBLISH'', METHOD_PUBLISH)]"

definition SipMessage_GetMethodType :: "SipMessage \<Rightarrow> sip_method" where
  "SipMessage_GetMethodType m =
     (case SipMessage_GetMethod m of None \<Rightarrow> METHOD_INVALID
      | Some name \<Rightarrow>
          (case find (\<lambda>(s, _). SipPf_Stricmp (Some name) (Some s) = 0) SipMethodArray of
             Some (_, ty) \<Rightarrow> ty | None \<Rightarrow> METHOD_UNKNOWN))"

text \<open>
  \<open>SipMessage::GetStatusCode\<close> (an unsigned 16-bit value, 0 for "invalid"), and the signed
  16-bit reading through \<open>SipStatusLine::GetStatusCode\<close> that the FSM handlers use.
\<close>

definition SipMessage_GetStatusCode :: "SipMessage \<Rightarrow> SIP_UINT16" where
  "SipMessage_GetStatusCode m =
     (if m_eSipMsgType m \<noteq> RESP_TYPE then 0
      else case m_pStatusLine m of None \<Rightarrow> 0
        | Some code \<Rightarrow> (case code of None \<Rightarrow> 0 | Some _ \<Rightarrow> word_of_int (SipPf_Atoi code)))"

definition SipStatusLine_code :: "SipMessage \<Rightarrow> int" where
  "SipStatusLine_code m =
     (case m_pStatusLine m of None \<Rightarrow> 0
      | Some code \<Rightarrow>
          (case code of None \<Rightarrow> 0
           | Some _ \<Rightarrow> sint (word_of_int (SipPf_Atoi code) :: SIP_UINT16)))"

definition GetRSeqNum_RSEQ :: "SipMessage \<Rightarrow> SIP_UINT32" where
  "GetRSeqNum_RSEQ m = (case hdr_rseq m of None \<Rightarrow> 0 | Some n \<Rightarrow> n)"

definition GetRSeqNum_RACK :: "SipMessage \<Rightarrow> SIP_UINT32" where
  "GetRSeqNum_RACK m = (case hdr_rack m of None \<Rightarrow> 0 | Some n \<Rightarrow> n)"

section \<open>Classes of status codes\<close>

definition IsProvisionalResponse :: "SIP_UINT16 \<Rightarrow> bool" where
  "IsProvisionalResponse n \<longleftrightarrow> 100 \<le> n \<and> n < 200"

definition IsSuccessfulResponse :: "SIP_UINT16 \<Rightarrow> bool" where
  "IsSuccessfulResponse n \<longleftrightarrow> 200 \<le> n \<and> n < 300"

definition IsFailureResponse :: "SIP_UINT16 \<Rightarrow> bool" where
  "IsFailureResponse n \<longleftrightarrow> 300 \<le> n"

definition IsNonProvisionalResponse :: "SIP_UINT16 \<Rightarrow> bool" where
  "IsNonProvisionalResponse n \<longleftrightarrow> 200 \<le> n"

lemmas status_class_defs =
  IsProvisionalResponse_def IsSuccessfulResponse_def IsFailureResponse_def
  IsNonProvisionalResponse_def

section \<open>Mandatory parameters of a transaction\<close>

text \<open>
  \<open>SipMessage::CheckTxnMandatoryParams\<close>: \<open>None\<close> for \<open>SIP_FALSE\<close>, otherwise the message
  type and the method type it stores through its output parameters.
\<close>

definition CheckTxnMandatoryParams :: "SipMessage \<Rightarrow> (sip_msg_type \<times> sip_method) option" where
  "CheckTxnMandatoryParams m =
     (let eMsgType = m_eSipMsgType m; eMethodType = SipMessage_GetMethodType m in
      if eMsgType = TYPE_INVALID then None
      else if eMethodType = METHOD_INVALID then None
      else if hdr_to m = None then None
      else if hdr_from m = None then None
      else if hdr_cseq m = None then None
      else if hdr_call_id m = None then None
      else if hdr_via m = None then None
      else if eMsgType = REQ_TYPE \<and> m_pReqLine m = None then None
      else if eMsgType \<noteq> REQ_TYPE \<and> m_pStatusLine m = None then None
      else Some (eMsgType, eMethodType))"

lemma CheckTxnMandatoryParams_Some:
  "CheckTxnMandatoryParams m = Some (ty, me) \<longleftrightarrow>
     ty = m_eSipMsgType m \<and> me = SipMessage_GetMethodType m \<and>
     ty \<noteq> TYPE_INVALID \<and> me \<noteq> METHOD_INVALID \<and>
     hdr_to m \<noteq> None \<and> hdr_from m \<noteq> None \<and> hdr_cseq m \<noteq> None \<and> hdr_call_id m \<noteq> None \<and>
     hdr_via m \<noteq> None \<and> (ty = REQ_TYPE \<longrightarrow> m_pReqLine m \<noteq> None) \<and>
     (ty \<noteq> REQ_TYPE \<longrightarrow> m_pStatusLine m \<noteq> None)"
  by (auto simp: CheckTxnMandatoryParams_def Let_def)

lemma SipMessage_GetMethodType_not_END: "SipMessage_GetMethodType m \<noteq> METHOD_END"
  by (auto simp: SipMessage_GetMethodType_def SipMethodArray_def split: option.splits if_splits)

end
