(* ===== verification/SipKey.thy ===== *)
theory SipKey
  imports SipMsg
begin

text \<open>
  Transaction keys: \<open>SipTxnKey\<close> (\<open>protocol/sip/txn/SipTxnKey.cpp\<close>) with its two constructors,
  its copy operation \<open>Init\<close> and the comparison \<open>CompareKeys\<close> that decides which transaction a
  message belongs to, and the comparison \<open>CompareKeysForRPR\<close> used for reliable provisional
  responses. The strings of a key are C strings, so each can be NULL.
\<close>

section \<open>Error codes\<close>

text \<open>Values of \<open>SipStackError.h\<close> that the transaction layer stores into \<open>*pnError\<close>.\<close>

definition EERR_MALLOCFAILED :: nat where "EERR_MALLOCFAILED = 101"
definition E_ERR_PF_MALLOCFAILED :: nat where "E_ERR_PF_MALLOCFAILED = 130"
definition ETXN_ALREADYTRANSACTIONINPROCESSERROR :: nat where
  "ETXN_ALREADYTRANSACTIONINPROCESSERROR = 0"
definition ETXN_FSMEVENTERROR :: nat where "ETXN_FSMEVENTERROR = 10"
definition ETXN_STACKERROR :: nat where "ETXN_STACKERROR = 11"
definition EMSGERR_INVALIDMSGTYPE :: nat where "EMSGERR_INVALIDMSGTYPE = 312"
definition EMSGERR_INVALIDSTATUSCODE :: nat where "EMSGERR_INVALIDSTATUSCODE = 319"
definition EMSGERR_REQLINEMISSING :: nat where "EMSGERR_REQLINEMISSING = 371"
definition EMSGERR_FROMMISSING :: nat where "EMSGERR_FROMMISSING = 392"
definition EMSGERR_TOMISSING :: nat where "EMSGERR_TOMISSING = 393"

lemmas error_code_defs =
  EERR_MALLOCFAILED_def E_ERR_PF_MALLOCFAILED_def ETXN_ALREADYTRANSACTIONINPROCESSERROR_def
  ETXN_FSMEVENTERROR_def ETXN_STACKERROR_def EMSGERR_INVALIDMSGTYPE_def
  EMSGERR_INVALIDSTATUSCODE_def EMSGERR_REQLINEMISSING_def EMSGERR_FROMMISSING_def
  EMSGERR_TOMISSING_def

section \<open>The key\<close>

datatype sip_txn_type =
  INVITE_CLIENT | INVITE_SERVER | NON_INVITE_CLIENT | NON_INVITE_SERVER | INVALID

definition RULE_NONE :: SIP_UINT32 where "RULE_NONE = 0"
definition RULE_COMPARE_TO_TAG :: SIP_UINT32 where "RULE_COMPARE_TO_TAG = 1"
definition RULE_COMPARE_VIA_BRANCH :: SIP_UINT32 where "RULE_COMPARE_VIA_BRANCH = 2"
definition RULE_COMPARE_RSEQ :: SIP_UINT32 where "RULE_COMPARE_RSEQ = 4"

lemmas rule_defs =
  RULE_NONE_def RULE_COMPARE_TO_TAG_def RULE_COMPARE_VIA_BRANCH_def RULE_COMPARE_RSEQ_def

record SipTxnKey =
  m_nRSeqNum :: SIP_UINT32
  m_eMsgType :: sip_msg_type
  m_pszViaBranchParam :: cstr
  m_pszViaHost :: cstr
  m_nViaHostPort :: SIP_UINT16
  m_pszMethod :: cstr
  m_nCseqNum :: SIP_UINT32
  m_pRequestUri :: "string option"
  m_pszToTag :: cstr
  m_pszFromTag :: cstr
  m_pszCallId :: cstr
  m_nRespCode :: SIP_UINT16
  key_eTxnType :: sip_txn_type
  m_nRules :: SIP_UINT32

definition SipTxnKey_new :: SipTxnKey where
  "SipTxnKey_new = \<lparr> m_nRSeqNum = 0, m_eMsgType = TYPE_INVALID, m_pszViaBranchParam = None,
     m_pszViaHost = None, m_nViaHostPort = 0, m_pszMethod = None, m_nCseqNum = 0,
     m_pRequestUri = None, m_pszToTag = None, m_pszFromTag = None, m_pszCallId = None,
     m_nRespCode = 0, key_eTxnType = INVALID,
     m_nRules = RULE_COMPARE_TO_TAG OR RULE_COMPARE_VIA_BRANCH \<rparr>"

definition HasRule :: "SipTxnKey \<Rightarrow> SIP_UINT32 \<Rightarrow> bool" where
  "HasRule k nRule \<longleftrightarrow> m_nRules k AND nRule \<noteq> 0"

definition AddRule :: "SIP_UINT32 \<Rightarrow> SipTxnKey \<Rightarrow> SipTxnKey" where
  "AddRule nRule k = k\<lparr>m_nRules := m_nRules k OR nRule\<rparr>"

definition SetRules :: "SIP_UINT32 \<Rightarrow> SipTxnKey \<Rightarrow> SipTxnKey" where
  "SetRules nRules k = k\<lparr>m_nRules := nRules\<rparr>"

definition SetRSeq :: "SIP_UINT32 \<Rightarrow> SipTxnKey \<Rightarrow> SipTxnKey" where
  "SetRSeq n k = k\<lparr>m_nRSeqNum := n\<rparr>"

definition SetToTag :: "cstr \<Rightarrow> SipTxnKey \<Rightarrow> SipTxnKey" where
  "SetToTag tag k = k\<lparr>m_pszToTag := SipPf_Strdup tag\<rparr>"

definition SetResponseCode :: "SIP_UINT16 \<Rightarrow> SipTxnKey \<Rightarrow> SipTxnKey" where
  "SetResponseCode n k = k\<lparr>m_nRespCode := n\<rparr>"

definition SetTxnType :: "sip_txn_type \<Rightarrow> SipTxnKey \<Rightarrow> SipTxnKey" where
  "SetTxnType ty k = k\<lparr>key_eTxnType := ty\<rparr>"

section \<open>Constructors\<close>

text \<open>
  \<open>SipTxnKey(SipMessage*, pnError)\<close>: the key and the new value of \<open>*pnError\<close>. Each early
  return keeps what was read so far.
\<close>

definition SipTxnKey_of_msg :: "SipMessage \<Rightarrow> nat \<Rightarrow> SipTxnKey \<times> nat" where
  "SipTxnKey_of_msg m err =
     (let k = SipTxnKey_new\<lparr>m_eMsgType := m_eSipMsgType m\<rparr> in
      if m_eSipMsgType m = TYPE_INVALID then (k, EMSGERR_INVALIDMSGTYPE)
      else case hdr_via m of None \<Rightarrow> (k, err)
      | Some via \<Rightarrow>
         (let k = k\<lparr>m_pszViaBranchParam := via_branch via,
                    m_pszViaHost := SipPf_Strdup (via_host via), m_nViaHostPort := via_port via\<rparr>
          in if m_eSipMsgType m = REQ_TYPE \<and> m_pReqLine m = None then (k, EMSGERR_REQLINEMISSING)
          else
            (let k = (if m_eSipMsgType m = REQ_TYPE
                      then (case m_pReqLine m of None \<Rightarrow> k
                            | Some rl \<Rightarrow> k\<lparr>m_pRequestUri := Some (rl_uri rl),
                                           m_pszMethod := SipPf_Strdup (rl_method rl),
                                           m_nCseqNum := (case hdr_cseq m of None \<Rightarrow> 0
                                                          | Some c \<Rightarrow> cseq_num c)\<rparr>)
                      else (case hdr_cseq m of None \<Rightarrow> k
                            | Some c \<Rightarrow> k\<lparr>m_pszMethod := SipPf_Strdup (cseq_method c),
                                          m_nCseqNum := cseq_num c\<rparr>)
                           \<lparr>m_nRespCode := SipMessage_GetStatusCode m\<rparr>)
             in case hdr_to m of None \<Rightarrow> (k, EMSGERR_TOMISSING)
             | Some to \<Rightarrow>
                (let k = k\<lparr>m_pszToTag := na_tag to\<rparr> in
                 case hdr_from m of None \<Rightarrow> (k, EMSGERR_FROMMISSING)
                 | Some from \<Rightarrow>
                    (let k = k\<lparr>m_pszFromTag := na_tag from\<rparr>;
                         k = (case hdr_call_id m of None \<Rightarrow> k
                              | Some cid \<Rightarrow> k\<lparr>m_pszCallId := SipPf_Strdup cid\<rparr>);
                         k = (case hdr_rseq m of None \<Rightarrow> k | Some n \<Rightarrow> SetRSeq n k)
                     in (k, err))))))"

text \<open>
  The copy constructor, \<open>SipTxnKey::Init\<close> on a fresh key. A NULL source leaves the fresh key.
  Branch, host, method, From tag and Call-ID must not be NULL: \<open>SipPf_Strdup\<close> of NULL is NULL,
  which \<open>Init\<close> takes for a failed allocation; it then clears the key, but for the branch, whose
  branch returns without clearing.
\<close>

definition SipTxnKey_Init :: "SipTxnKey option \<Rightarrow> nat \<Rightarrow> SipTxnKey \<times> nat" where
  "SipTxnKey_Init src err =
     (case src of None \<Rightarrow> (SipTxnKey_new, err)
      | Some s \<Rightarrow>
         (let k = SipTxnKey_new\<lparr>m_nRSeqNum := m_nRSeqNum s, m_eMsgType := m_eMsgType s,
                   m_nRespCode := m_nRespCode s, key_eTxnType := key_eTxnType s,
                   m_nRules := m_nRules s, m_pszViaBranchParam := SipPf_Strdup (m_pszViaBranchParam s)\<rparr>
          in if m_pszViaBranchParam k = None then (k, E_ERR_PF_MALLOCFAILED)
          else if SipPf_Strdup (m_pszViaHost s) = None then (SipTxnKey_new, E_ERR_PF_MALLOCFAILED)
          else
            (let k = k\<lparr>m_pszViaHost := SipPf_Strdup (m_pszViaHost s),
                       m_nViaHostPort := m_nViaHostPort s\<rparr> in
             if SipPf_Strdup (m_pszMethod s) = None then (SipTxnKey_new, E_ERR_PF_MALLOCFAILED)
             else
               (let k = k\<lparr>m_pszMethod := SipPf_Strdup (m_pszMethod s), m_nCseqNum := m_nCseqNum s,
                          m_pRequestUri := m_pRequestUri s, m_pszToTag := SipPf_Strdup (m_pszToTag s)\<rparr> in
                if SipPf_Strdup (m_pszFromTag s) = None then (SipTxnKey_new, E_ERR_PF_MALLOCFAILED)
                else if SipPf_Strdup (m_pszCallId s) = None then (SipTxnKey_new, E_ERR_PF_MALLOCFAILED)
                else (k\<lparr>m_pszFromTag := SipPf_Strdup (m_pszFromTag s),
                        m_pszCallId := SipPf_Strdup (m_pszCallId s)\<rparr>, err)))))"

section \<open>Comparison\<close>

abbreviation METHOD_NAME_ACK :: cstr where "METHOD_NAME_ACK \<equiv> Some ''ACK''"
abbreviation METHOD_NAME_CANCEL :: cstr where "METHOD_NAME_CANCEL \<equiv> Some ''CANCEL''"
abbreviation METHOD_NAME_INVITE :: cstr where "METHOD_NAME_INVITE \<equiv> Some ''INVITE''"

text \<open>
  \<open>k.CompareKeys(g)\<close>, as "returns \<open>SIP_MATCHES\<close>": \<open>k\<close> is the stored key, \<open>g\<close> the key
  generated from a message.
\<close>

definition CompareKeys :: "SipTxnKey \<Rightarrow> SipTxnKey \<Rightarrow> bool" where
  "CompareKeys k g =
     (if key_eTxnType g \<noteq> key_eTxnType k then False
      else if HasRule g RULE_COMPARE_VIA_BRANCH
              \<and> SipPf_Stricmp (m_pszViaBranchParam k) (m_pszViaBranchParam g) \<noteq> 0
              \<and> \<not> (SipPf_Strcmp METHOD_NAME_ACK (m_pszMethod g) = 0
                   \<and> (key_eTxnType g = INVITE_SERVER \<and> key_eTxnType k = INVITE_SERVER)
                   \<and> IsSuccessfulResponse (m_nRespCode k)) then False
      else if m_nCseqNum k \<noteq> m_nCseqNum g then False
      else if SipPf_Strcmp METHOD_NAME_ACK (m_pszMethod g) \<noteq> 0
              \<and> SipPf_Strcmp (m_pszMethod k) (m_pszMethod g) \<noteq> 0 then False
      else if SipPf_Strcmp METHOD_NAME_ACK (m_pszMethod g) = 0
              \<and> SipPf_Strcmp (m_pszMethod k) METHOD_NAME_CANCEL = 0 then False
      else if SipPf_Strcmp (m_pszCallId k) (m_pszCallId g) \<noteq> 0 then False
      else if SipPf_Stricmp (m_pszFromTag k) (m_pszFromTag g) \<noteq> 0 then False
      else if HasRule k RULE_COMPARE_TO_TAG \<and> HasRule g RULE_COMPARE_TO_TAG
              \<and> m_pszToTag k \<noteq> None \<and> m_pszToTag g \<noteq> None
              \<and> SipPf_Stricmp (m_pszToTag k) (m_pszToTag g) \<noteq> 0 then False
      else if HasRule g RULE_COMPARE_RSEQ \<and> m_nRSeqNum k \<noteq> 0 \<and> m_nRSeqNum g \<noteq> 0
              \<and> m_nRSeqNum k \<noteq> m_nRSeqNum g then False
      else True)"

definition CompareKeysForRPR :: "SipTxnKey \<Rightarrow> SipTxnKey \<Rightarrow> bool" where
  "CompareKeysForRPR k g =
     (if SipPf_Strcmp (m_pszMethod k) METHOD_NAME_INVITE \<noteq> 0 then False
      else if SipPf_Strcmp (m_pszCallId k) (m_pszCallId g) \<noteq> 0 then False
      else if SipPf_Stricmp (m_pszFromTag k) (m_pszFromTag g) \<noteq> 0 then False
      else if HasRule g RULE_COMPARE_TO_TAG \<and> m_pszToTag k \<noteq> None \<and> m_pszToTag g \<noteq> None
              \<and> SipPf_Stricmp (m_pszToTag k) (m_pszToTag g) \<noteq> 0 then False
      else if HasRule g RULE_COMPARE_RSEQ \<and> m_nRSeqNum k \<noteq> 0 \<and> m_nRSeqNum g \<noteq> 0
              \<and> m_nRSeqNum k \<noteq> m_nRSeqNum g then False
      else True)"

section \<open>Facts\<close>

text \<open>The strings that \<open>Init\<close> insists on are there.\<close>

definition complete_key :: "SipTxnKey \<Rightarrow> bool" where
  "complete_key k \<longleftrightarrow> m_pszViaBranchParam k \<noteq> None \<and> m_pszViaHost k \<noteq> None \<and>
     m_pszMethod k \<noteq> None \<and> m_pszFromTag k \<noteq> None \<and> m_pszCallId k \<noteq> None"

lemma SipTxnKey_Init_complete: "complete_key k \<Longrightarrow> SipTxnKey_Init (Some k) err = (k, err)"
  by (auto simp: SipTxnKey_Init_def complete_key_def SipTxnKey_new_def)

lemma CompareKeys_refl: "complete_key k \<Longrightarrow> CompareKeys k k"
  by (auto simp: CompareKeys_def complete_key_def sip_str)

text \<open>The key of a message that has the mandatory parts.\<close>

lemma SipTxnKey_of_msg_mandatory:
  assumes "CheckTxnMandatoryParams m = Some (ty, me)"
  obtains via c t frm cid where "hdr_via m = Some via" "hdr_cseq m = Some c" "hdr_to m = Some t"
    "hdr_from m = Some frm" "hdr_call_id m = Some cid"
    "\<And>err. SipTxnKey_of_msg m err =
      (\<lparr> m_nRSeqNum = (case hdr_rseq m of None \<Rightarrow> 0 | Some n \<Rightarrow> n), m_eMsgType = ty,
         m_pszViaBranchParam = via_branch via, m_pszViaHost = via_host via,
         m_nViaHostPort = via_port via,
         m_pszMethod = (if ty = REQ_TYPE then (case m_pReqLine m of None \<Rightarrow> None | Some rl \<Rightarrow> rl_method rl)
                        else cseq_method c),
         m_nCseqNum = cseq_num c,
         m_pRequestUri = (if ty = REQ_TYPE then map_option rl_uri (m_pReqLine m) else None),
         m_pszToTag = na_tag t, m_pszFromTag = na_tag frm, m_pszCallId = cid,
         m_nRespCode = (if ty = REQ_TYPE then 0 else SipMessage_GetStatusCode m),
         key_eTxnType = INVALID, m_nRules = RULE_COMPARE_TO_TAG OR RULE_COMPARE_VIA_BRANCH \<rparr>, err)"
proof -
  from assms have c: "ty = m_eSipMsgType m" "ty \<noteq> TYPE_INVALID" "ty = REQ_TYPE \<longrightarrow> m_pReqLine m \<noteq> None"
    unfolding CheckTxnMandatoryParams_Some by blast+
  from assms obtain via cs t frm cid where f: "hdr_via m = Some via" "hdr_cseq m = Some cs"
    "hdr_to m = Some t" "hdr_from m = Some frm" "hdr_call_id m = Some cid"
    unfolding CheckTxnMandatoryParams_Some not_None_eq by blast
  show thesis
  proof (rule that [OF f])
    fix err
    show "SipTxnKey_of_msg m err =
      (\<lparr> m_nRSeqNum = (case hdr_rseq m of None \<Rightarrow> 0 | Some n \<Rightarrow> n), m_eMsgType = ty,
         m_pszViaBranchParam = via_branch via, m_pszViaHost = via_host via,
         m_nViaHostPort = via_port via,
         m_pszMethod = (if ty = REQ_TYPE then (case m_pReqLine m of None \<Rightarrow> None | Some rl \<Rightarrow> rl_method rl)
                        else cseq_method cs),
         m_nCseqNum = cseq_num cs,
         m_pRequestUri = (if ty = REQ_TYPE then map_option rl_uri (m_pReqLine m) else None),
         m_pszToTag = na_tag t, m_pszFromTag = na_tag frm, m_pszCallId = cid,
         m_nRespCode = (if ty = REQ_TYPE then 0 else SipMessage_GetStatusCode m),
         key_eTxnType = INVALID, m_nRules = RULE_COMPARE_TO_TAG OR RULE_COMPARE_VIA_BRANCH \<rparr>, err)"
      using c f
      by (cases "m_pReqLine m"; cases "hdr_rseq m")
         (auto simp: SipTxnKey_of_msg_def SipTxnKey_new_def SetRSeq_def Let_def)
  qed
qed

lemma SipTxnKey_of_msg_ok:
  assumes "CheckTxnMandatoryParams m = Some x"
  shows "SipTxnKey_of_msg m err = (fst (SipTxnKey_of_msg m 0), err)"
  using assms by (cases x) (auto elim: SipTxnKey_of_msg_mandatory)

lemma SipTxnKey_of_msg_type:
  "CheckTxnMandatoryParams m = Some (ty, me) \<Longrightarrow> m_eMsgType (fst (SipTxnKey_of_msg m err)) = ty"
  by (erule SipTxnKey_of_msg_mandatory) simp

definition msg_key :: "sip_txn_type \<Rightarrow> SipMessage \<Rightarrow> SipTxnKey" where
  "msg_key ty m = SetTxnType ty (fst (SipTxnKey_of_msg m 0))"

end
