(* ===== verification/ImsMap.thy ===== *)
theory ImsMap
  imports SipPrelude
begin

text \<open>
  The platform's map (\<open>platform/interface/util/ImsMap.h\<close>): a vector of pairs kept sorted by key
  (\<open>platform/interface/util/ImsSortedVector.h\<close>). A lookup scans the vector from the front
  (\<open>std::find\<close>), an insertion goes to the upper bound of the new key or replaces the pair that
  has it. Negative indices are \<open>None\<close>. The contract of a finite map is stated as a locale and
  the implementation is shown to keep it.
\<close>

type_synonym ('k, 'v) ImsMap = "('k \<times> 'v) list"

section \<open>The sorted vector of pairs\<close>

definition ImsMap_GetIndexOfKey :: "('k, 'v) ImsMap \<Rightarrow> 'k \<Rightarrow> nat option" where
  "ImsMap_GetIndexOfKey m k = first_match (\<lambda>p. fst p = k) m"

text \<open>\<open>std::upper_bound\<close>: the first position whose key is above \<open>k\<close>.\<close>

fun ImsMap_GetOrderOf :: "('k::linorder, 'v) ImsMap \<Rightarrow> 'k \<Rightarrow> nat" where
  "ImsMap_GetOrderOf [] k = 0"
| "ImsMap_GetOrderOf (p # m) k = (if k < fst p then 0 else Suc (ImsMap_GetOrderOf m k))"

definition ImsMap_Add :: "'k::linorder \<Rightarrow> 'v \<Rightarrow> ('k, 'v) ImsMap \<Rightarrow> ('k, 'v) ImsMap" where
  "ImsMap_Add k v m =
     (case ImsMap_GetIndexOfKey m k of
        None \<Rightarrow> (let n = ImsMap_GetOrderOf m k in take n m @ (k, v) # drop n m)
      | Some n \<Rightarrow> m[n := (k, v)])"

definition ImsMap_GetValueAt :: "('k, 'v) ImsMap \<Rightarrow> nat \<Rightarrow> 'v" where
  "ImsMap_GetValueAt m n = snd (m ! n)"

definition ImsMap_SetValueAt :: "nat \<Rightarrow> 'v \<Rightarrow> ('k, 'v) ImsMap \<Rightarrow> bool \<times> ('k, 'v) ImsMap" where
  "ImsMap_SetValueAt n v m =
     (if n < length m then (True, m[n := (fst (m ! n), v)]) else (False, m))"

definition ImsMap_RemoveAt :: "nat \<Rightarrow> ('k, 'v) ImsMap \<Rightarrow> ('k, 'v) ImsMap" where
  "ImsMap_RemoveAt n m = take n m @ drop (Suc n) m"

definition ImsMap_Remove :: "'k \<Rightarrow> ('k, 'v) ImsMap \<Rightarrow> ('k, 'v) ImsMap" where
  "ImsMap_Remove k m =
     (case ImsMap_GetIndexOfKey m k of None \<Rightarrow> m | Some n \<Rightarrow> ImsMap_RemoveAt n m)"

definition ImsMap_inv :: "('k::linorder, 'v) ImsMap \<Rightarrow> bool" where
  "ImsMap_inv m \<longleftrightarrow> sorted_wrt (<) (map fst m)"

section \<open>The contract of a finite map\<close>

locale finite_map =
  fixes invar :: "'m \<Rightarrow> bool"
    and empty :: 'm
    and lookup :: "'m \<Rightarrow> 'k \<Rightarrow> 'v option"
    and add :: "'k \<Rightarrow> 'v \<Rightarrow> 'm \<Rightarrow> 'm"
    and remove :: "'k \<Rightarrow> 'm \<Rightarrow> 'm"
  assumes invar_empty: "invar empty"
    and invar_add: "invar m \<Longrightarrow> invar (add k v m)"
    and invar_remove: "invar m \<Longrightarrow> invar (remove k m)"
    and lookup_empty: "lookup empty k = None"
    and lookup_add: "invar m \<Longrightarrow> lookup (add k v m) k' = (if k' = k then Some v else lookup m k')"
    and lookup_remove: "invar m \<Longrightarrow> lookup (remove k m) k' = (if k' = k then None else lookup m k')"
begin

lemma add_remove_lookup: "invar m \<Longrightarrow> lookup (remove k (add k v m)) k' = lookup (remove k m) k'"
  by (simp add: lookup_remove lookup_add invar_add)

lemma add_add_lookup: "invar m \<Longrightarrow> lookup (add k v (add k w m)) k' = lookup (add k v m) k'"
  by (simp add: lookup_add invar_add)

lemma invar_fold_add: "invar m \<Longrightarrow> invar (fold (\<lambda>(k, v). add k v) kvs m)"
  by (induction kvs arbitrary: m) (auto simp: invar_add)

lemma lookup_fold_add:
  "invar m \<Longrightarrow> lookup (fold (\<lambda>(k, v). add k v) kvs m) k' =
     (case map_of (rev kvs) k' of None \<Rightarrow> lookup m k' | Some v \<Rightarrow> Some v)"
  by (induction kvs arbitrary: m)
     (auto simp: invar_add lookup_add map_add_def split: option.splits if_splits)

end

section \<open>The implementation keeps the contract\<close>

lemma upper_bound_split:
  "sorted_wrt (<) (map fst m) \<Longrightarrow> k \<notin> fst ` set m \<Longrightarrow>
   (\<forall>p\<in>set (take (ImsMap_GetOrderOf m k) m). fst p < k)
   \<and> (\<forall>p\<in>set (drop (ImsMap_GetOrderOf m k) m). k < fst p)"
  by (induction m) (auto simp: less_le intro: order_trans)

lemma GetIndexOfKey_None: "ImsMap_GetIndexOfKey m k = None \<longleftrightarrow> k \<notin> fst ` set m"
  by (auto simp: ImsMap_GetIndexOfKey_def first_match_None)

lemma GetIndexOfKey_SomeD:
  "ImsMap_GetIndexOfKey m k = Some n \<Longrightarrow> n < length m \<and> fst (m ! n) = k"
  by (auto simp: ImsMap_GetIndexOfKey_def dest: first_match_SomeD)

lemma sorted_wrt_take_drop:
  "sorted_wrt P xs \<Longrightarrow> sorted_wrt P (take n xs) \<and> sorted_wrt P (drop n xs)"
  by (metis append_take_drop_id sorted_wrt_append)

lemma ImsMap_inv_split:
  "ImsMap_inv m \<Longrightarrow> ImsMap_inv (take n m) \<and> ImsMap_inv (drop n m)"
  using sorted_wrt_take_drop [of "(<)" "map fst m" n]
  by (simp add: ImsMap_inv_def take_map drop_map)

lemma ImsMap_inv_append:
  "ImsMap_inv (xs @ ys) \<longleftrightarrow>
     ImsMap_inv xs \<and> ImsMap_inv ys \<and> (\<forall>p\<in>set xs. \<forall>q\<in>set ys. fst p < fst q)"
  by (simp add: ImsMap_inv_def sorted_wrt_append)

lemma ImsMap_inv_Cons:
  "ImsMap_inv (p # m) \<longleftrightarrow> (\<forall>q\<in>set m. fst p < fst q) \<and> ImsMap_inv m"
  by (simp add: ImsMap_inv_def)

lemma ImsMap_inv_update: "ImsMap_inv (m[n := p]) = ImsMap_inv m"
  if "n < length m" "fst p = fst (m ! n)"
proof -
  have "map fst (m[n := p]) = map fst m"
    using that by (metis list_update_id map_update nth_map)
  then show ?thesis by (simp add: ImsMap_inv_def)
qed

lemma ImsMap_inv_Add: "ImsMap_inv m \<Longrightarrow> ImsMap_inv (ImsMap_Add k v m)"
proof (cases "ImsMap_GetIndexOfKey m k")
  case None
  assume m: "ImsMap_inv m"
  let ?n = "ImsMap_GetOrderOf m k"
  have s: "(\<forall>p\<in>set (take ?n m). fst p < k) \<and> (\<forall>p\<in>set (drop ?n m). k < fst p)"
    using upper_bound_split [of m k] m None by (simp add: ImsMap_inv_def GetIndexOfKey_None)
  from ImsMap_inv_split [OF m, of ?n] s show ?thesis
    by (auto simp: ImsMap_Add_def None Let_def ImsMap_inv_append ImsMap_inv_Cons
             intro: order_less_trans)
next
  case (Some n)
  then show "ImsMap_inv m \<Longrightarrow> ?thesis"
    using GetIndexOfKey_SomeD [OF Some] by (simp add: ImsMap_Add_def ImsMap_inv_update)
qed

lemma ImsMap_inv_RemoveAt: "ImsMap_inv m \<Longrightarrow> ImsMap_inv (ImsMap_RemoveAt n m)"
proof -
  assume m: "ImsMap_inv m"
  then have "ImsMap_inv (take n m @ drop n m)" by simp
  then show ?thesis
    by (cases "n < length m")
       (auto simp: ImsMap_RemoveAt_def ImsMap_inv_append ImsMap_inv_Cons
             simp flip: Cons_nth_drop_Suc)
qed

lemma map_of_GetIndexOfKey:
  "map_of m k = (case ImsMap_GetIndexOfKey m k of None \<Rightarrow> None | Some n \<Rightarrow> Some (snd (m ! n)))"
  unfolding ImsMap_GetIndexOfKey_def
  by (induction m) (auto split: option.splits)

lemma ImsMap_lookup_Add:
  "map_of (ImsMap_Add k v m) k' = (if k' = k then Some v else map_of m k')"
proof (cases "ImsMap_GetIndexOfKey m k")
  case None
  let ?n = "ImsMap_GetOrderOf m k"
  from None have "k \<notin> fst ` set (take ?n m)"
    using set_take_subset [of ?n m] by (auto simp: GetIndexOfKey_None)
  then have "map_of (take ?n m) k = None" by (simp add: map_of_eq_None_iff)
  moreover have "map_of m = map_of (drop ?n m) ++ map_of (take ?n m)"
    by (simp flip: map_of_append)
  ultimately show ?thesis
    by (simp add: ImsMap_Add_def None Let_def map_add_def split: option.splits)
next
  case (Some n)
  then have "n < length m \<and> fst (m ! n) = k \<and> (\<forall>i<n. fst (m ! i) \<noteq> k)"
    by (auto simp: ImsMap_GetIndexOfKey_def dest: first_match_SomeD)
  then have "map_of (m[n := (k, v)]) k' = (if k' = k then Some v else map_of m k')"
  proof (induction m arbitrary: n)
    case (Cons p m)
    show ?case
    proof (cases n)
      case 0
      with Cons.prems show ?thesis by (cases p) auto
    next
      case (Suc l)
      with Cons.prems have "fst p \<noteq> k" by (metis nth_Cons_0 zero_less_Suc)
      moreover have "\<forall>i<l. fst (m ! i) \<noteq> k" using Cons.prems Suc by (metis Suc_less_eq nth_Cons_Suc)
      ultimately show ?thesis using Cons Suc by (cases p) auto
    qed
  qed simp
  then show ?thesis by (simp add: ImsMap_Add_def Some)
qed

lemma ImsMap_lookup_Remove:
  "ImsMap_inv m \<Longrightarrow> map_of (ImsMap_Remove k m) k' = (if k' = k then None else map_of m k')"
proof (cases "ImsMap_GetIndexOfKey m k")
  case None
  then show ?thesis
    by (auto simp: ImsMap_Remove_def map_of_GetIndexOfKey split: option.splits)
next
  case (Some n)
  assume m: "ImsMap_inv m"
  from GetIndexOfKey_SomeD [OF Some] have n: "n < length m" "fst (m ! n) = k" by auto
  then have e: "m = take n m @ (k, snd (m ! n)) # drop (Suc n) m"
    by (metis id_take_nth_drop prod.collapse)
  with m have "ImsMap_inv (take n m @ (k, snd (m ! n)) # drop (Suc n) m)" by simp
  then have "map_of (take n m) k = None" "map_of (drop (Suc n) m) k = None"
    by (force simp: ImsMap_inv_append ImsMap_inv_Cons map_of_eq_None_iff)+
  moreover have "map_of m = map_of (drop (Suc n) m) ++ [k \<mapsto> snd (m ! n)] ++ map_of (take n m)"
    by (subst e) simp
  ultimately show ?thesis
    by (auto simp: ImsMap_Remove_def Some ImsMap_RemoveAt_def map_add_def split: option.splits)
qed

interpretation imsmap: finite_map ImsMap_inv "[]" map_of ImsMap_Add ImsMap_Remove
proof
  show "ImsMap_inv (ImsMap_Remove k m)" if "ImsMap_inv m" for k :: 'a and m :: "('a, 'b) ImsMap"
    using that by (simp add: ImsMap_Remove_def ImsMap_inv_RemoveAt split: option.splits)
qed (simp_all add: ImsMap_inv_Add ImsMap_lookup_Add ImsMap_lookup_Remove, simp add: ImsMap_inv_def)

end
