(* ===== verification/SipStackState.thy ===== *)
theory SipStackState
  imports SipKey ImsMap
begin

text \<open>
  The transaction table (\<open>engine/sipcore/SipStackState.cpp\<close>,
  \<open>engine/sipcore/SipStackTransaction.cpp\<close>): a map from the hash of the Call-ID to the list of
  the transactions with that hash. An entry is a key, stored by value because its key object
  belongs to the entry alone, and the address of a transaction object. What the entry's
  constructor and destructor do to the transaction's reference count is modelled where
  transaction objects are (theory \<open>SipTxn\<close>). The contract of the table, that of a plain list of
  entries searched from the front, is a locale; the lemmas show that hashing does not change
  what a search finds.
\<close>

section \<open>Hash of a string\<close>

text \<open>\<open>AString::GetHashCode\<close>; characters are read as unsigned.\<close>

definition GetHashCode_step :: "SIP_UINT32 \<Rightarrow> char \<Rightarrow> SIP_UINT32" where
  "GetHashCode_step nHValue c =
     (let nHValue = push_bit 4 nHValue + of_char c;
          nHTmp = nHValue AND 0xF0000000;
          nHValue = (if nHTmp \<noteq> 0 then nHValue XOR drop_bit 24 nHTmp else nHValue)
      in nHValue AND NOT nHTmp)"

definition GetHashCode :: "cstr \<Rightarrow> SIP_UINT32" where
  "GetHashCode pszValue =
     (case pszValue of None \<Rightarrow> 0 | Some s \<Rightarrow> fold (\<lambda>c h. GetHashCode_step h c) s 0)"

section \<open>The table\<close>

type_synonym SipStackTransaction = "SipTxnKey \<times> nat"
type_synonym txn_aggregate = "(SIP_UINT32, SipStackTransaction list) ImsMap"

datatype txn_option = TXN_FETCH | TXN_CREATE | TXN_REMOVE

definition SipStackTransaction_CompareKey :: "SipTxnKey \<Rightarrow> SipStackTransaction \<Rightarrow> bool" where
  "SipStackTransaction_CompareKey pKey e = CompareKeys (fst e) pKey"

definition SipStackState_AddTransaction ::
    "SipTxnKey \<Rightarrow> nat \<Rightarrow> txn_aggregate \<Rightarrow> bool \<times> txn_aggregate" where
  "SipStackState_AddTransaction pKey pTxn m =
     (let nKey = GetHashCode (m_pszCallId pKey) in
      case ImsMap_GetIndexOfKey m nKey of
        Some nKeyIndex \<Rightarrow>
          (True, snd (ImsMap_SetValueAt nKeyIndex (ImsMap_GetValueAt m nKeyIndex @ [(pKey, pTxn)]) m))
      | None \<Rightarrow> (True, ImsMap_Add nKey [(pKey, pTxn)] m))"

definition SipStackState_FindTransaction ::
    "SipTxnKey \<Rightarrow> txn_aggregate \<Rightarrow> SipStackTransaction option" where
  "SipStackState_FindTransaction pKey m =
     (case ImsMap_GetIndexOfKey m (GetHashCode (m_pszCallId pKey)) of
        None \<Rightarrow> None
      | Some nKeyIndex \<Rightarrow> find (SipStackTransaction_CompareKey pKey) (ImsMap_GetValueAt m nKeyIndex))"

definition SipStackState_RemoveTransaction ::
    "SipTxnKey \<Rightarrow> txn_option \<Rightarrow> txn_aggregate \<Rightarrow> SipStackTransaction option \<times> txn_aggregate" where
  "SipStackState_RemoveTransaction pKey nOption m =
     (case ImsMap_GetIndexOfKey m (GetHashCode (m_pszCallId pKey)) of
        None \<Rightarrow> (None, m)
      | Some nKeyIndex \<Rightarrow>
          (let objTransactions = ImsMap_GetValueAt m nKeyIndex in
           case first_match (SipStackTransaction_CompareKey pKey) objTransactions of
             None \<Rightarrow> (None, m)
           | Some i \<Rightarrow>
               (Some (objTransactions ! i),
                if nOption = TXN_REMOVE then
                  (let objTransactions' = take i objTransactions @ drop (Suc i) objTransactions;
                       m' = snd (ImsMap_SetValueAt nKeyIndex objTransactions' m)
                   in if objTransactions' = [] then ImsMap_RemoveAt nKeyIndex m' else m')
                else m)))"

definition SipStackState_GetTransactionCount :: "txn_aggregate \<Rightarrow> nat" where
  "SipStackState_GetTransactionCount m = sum_list (map (\<lambda>p. length (snd p)) m)"

text \<open>
  Writing through the key pointer that a fetch returned: the key of the entry of transaction
  \<open>i\<close> changes. A transaction object is entered at most once.
\<close>

definition entry_key_update ::
    "nat \<Rightarrow> (SipTxnKey \<Rightarrow> SipTxnKey) \<Rightarrow> txn_aggregate \<Rightarrow> txn_aggregate" where
  "entry_key_update i f m =
     map (\<lambda>(h, es). (h, map (\<lambda>(k, t). (if t = i then f k else k, t)) es)) m"

section \<open>What the table stands for\<close>

definition db_entries :: "txn_aggregate \<Rightarrow> SipStackTransaction list" where
  "db_entries m = concat (map snd m)"

definition db_inv :: "txn_aggregate \<Rightarrow> bool" where
  "db_inv m \<longleftrightarrow> ImsMap_inv m \<and>
     (\<forall>(h, es)\<in>set m. es \<noteq> [] \<and> (\<forall>e\<in>set es. GetHashCode (m_pszCallId (fst e)) = h))"

text \<open>
  The contract: a table stands for a list of entries, a search finds the first match, an
  insertion adds one entry and loses none, a removal takes out exactly the entry the search
  finds.
\<close>

locale txn_store =
  fixes invar :: "'m \<Rightarrow> bool"
    and entries :: "'m \<Rightarrow> 'e list"
    and matches :: "'k \<Rightarrow> 'e \<Rightarrow> bool"
    and find_in :: "'k \<Rightarrow> 'm \<Rightarrow> 'e option"
    and add :: "'e \<Rightarrow> 'm \<Rightarrow> 'm"
    and remove :: "'k \<Rightarrow> 'm \<Rightarrow> 'm"
  assumes invar_add: "invar m \<Longrightarrow> invar (add e m)"
    and invar_remove: "invar m \<Longrightarrow> invar (remove k m)"
    and find_in_entries: "invar m \<Longrightarrow> find_in k m = find (matches k) (entries m)"
    and entries_add: "invar m \<Longrightarrow> \<exists>xs ys. entries m = xs @ ys \<and> entries (add e m) = xs @ e # ys"
    and entries_remove: "invar m \<Longrightarrow> entries (remove k m) = remove_first (matches k) (entries m)"
begin

lemma find_in_None: "invar m \<Longrightarrow> find_in k m = None \<longleftrightarrow> (\<forall>e\<in>set (entries m). \<not> matches k e)"
  by (simp add: find_in_entries find_None)

lemma find_in_mem: "invar m \<Longrightarrow> find_in k m = Some e \<Longrightarrow> e \<in> set (entries m) \<and> matches k e"
  by (auto simp: find_in_entries dest: find_SomeD)

lemma find_after_add:
  assumes "invar m" and "find_in k m = None" and "matches k e"
  shows "find_in k (add e m) = Some e"
proof -
  obtain xs ys where e: "entries m = xs @ ys" "entries (add e m) = xs @ e # ys"
    using entries_add [OF assms(1)] by blast
  moreover have "find (matches k) xs = None"
    using assms(1,2) e by (simp add: find_in_None find_None)
  ultimately show ?thesis
    using assms by (simp add: find_in_entries invar_add find_append)
qed

lemma find_add_other:
  assumes "invar m" and "\<not> matches k e"
  shows "find_in k (add e m) = find_in k m"
proof -
  obtain xs ys where "entries m = xs @ ys" "entries (add e m) = xs @ e # ys"
    using entries_add [OF assms(1)] by blast
  with assms show ?thesis
    by (simp add: find_in_entries invar_add find_append split: option.splits)
qed

lemma set_entries_add: "invar m \<Longrightarrow> set (entries (add e m)) = insert e (set (entries m))"
  using entries_add [of m e] by auto

lemma set_entries_remove: "invar m \<Longrightarrow> set (entries (remove k m)) \<subseteq> set (entries m)"
  by (simp add: entries_remove remove_first_subset)

lemma length_entries_remove:
  "invar m \<Longrightarrow> find_in k m \<noteq> None \<Longrightarrow>
     Suc (length (entries (remove k m))) = length (entries m)"
  by (simp add: find_in_entries entries_remove remove_first_length)

lemma remove_absent: "invar m \<Longrightarrow> find_in k m = None \<Longrightarrow> entries (remove k m) = entries m"
  by (simp add: find_in_None entries_remove remove_first_none)

lemma remove_after_add:
  assumes "invar m" and "find_in k m = None" and "matches k e"
  shows "entries (remove k (add e m)) = entries m"
proof -
  obtain xs ys where e: "entries m = xs @ ys" "entries (add e m) = xs @ e # ys"
    using entries_add [OF assms(1)] by blast
  moreover have "find (matches k) xs = None"
    using assms(1,2) e by (simp add: find_in_None find_None)
  ultimately show ?thesis
    using assms by (simp add: entries_remove invar_add remove_first_append)
qed

end

section \<open>The implementation keeps the contract\<close>

lemma CompareKeys_call_id: "CompareKeys k g \<Longrightarrow> m_pszCallId k = m_pszCallId g"
  by (auto simp: CompareKeys_def sip_str split: if_splits)

lemma CompareKeys_txn_type: "CompareKeys k g \<Longrightarrow> key_eTxnType k = key_eTxnType g"
  by (auto simp: CompareKeys_def split: if_splits)

lemma CompareKey_hash:
  "SipStackTransaction_CompareKey k e \<Longrightarrow>
     GetHashCode (m_pszCallId (fst e)) = GetHashCode (m_pszCallId k)"
  by (simp add: SipStackTransaction_CompareKey_def CompareKeys_call_id)

lemma db_entries_append [simp]: "db_entries (xs @ ys) = db_entries xs @ db_entries ys"
  by (simp add: db_entries_def)

lemma db_entries_Cons [simp]: "db_entries (p # m) = snd p @ db_entries m"
  by (simp add: db_entries_def)

lemma db_entries_Nil [simp]: "db_entries [] = []"
  by (simp add: db_entries_def)

text \<open>A table split at the bucket of a key: no entry before or after it can match the key.\<close>

lemma bucket_split:
  assumes m: "db_inv m" and n: "ImsMap_GetIndexOfKey m (GetHashCode (m_pszCallId k)) = Some n"
  obtains xs es ys where "m = xs @ (GetHashCode (m_pszCallId k), es) # ys" "length xs = n"
    "snd (m ! n) = es"
    "find (SipStackTransaction_CompareKey k) (db_entries xs) = None"
    "find (SipStackTransaction_CompareKey k) (db_entries ys) = None"
proof -
  let ?h = "GetHashCode (m_pszCallId k)"
  from GetIndexOfKey_SomeD [OF n] have nn: "n < length m" "fst (m ! n) = ?h" by auto
  let ?xs = "take n m" and ?ys = "drop (Suc n) m" and ?es = "snd (m ! n)"
  from nn have e: "m = ?xs @ (?h, ?es) # ?ys" by (metis id_take_nth_drop prod.collapse)
  with m have i: "ImsMap_inv (?xs @ (?h, ?es) # ?ys)" by (simp add: db_inv_def)
  have sub: "set ?xs \<subseteq> set m" "set ?ys \<subseteq> set m"
    by (auto dest: in_set_takeD in_set_dropD)
  have no: "\<not> SipStackTransaction_CompareKey k e"
    if "p \<in> set ?xs \<union> set ?ys" "e \<in> set (snd p)" for p e
  proof
    assume "SipStackTransaction_CompareKey k e"
    then have "GetHashCode (m_pszCallId (fst e)) = ?h" by (rule CompareKey_hash)
    moreover have "p \<in> set m" using that(1) sub by auto
    then have "GetHashCode (m_pszCallId (fst e)) = fst p"
      using m that(2) by (cases p) (auto simp: db_inv_def)
    moreover have "fst p \<noteq> ?h"
      using i that(1) by (fastforce simp: ImsMap_inv_append ImsMap_inv_Cons)
    ultimately show False by simp
  qed
  show thesis
  proof (rule that [of ?xs ?es ?ys])
    show "find (SipStackTransaction_CompareKey k) (db_entries ?xs) = None"
      using no by (auto simp: find_None db_entries_def)
    show "find (SipStackTransaction_CompareKey k) (db_entries ?ys) = None"
      using no by (auto simp: find_None db_entries_def)
  qed (use e nn in auto)
qed

lemma no_bucket:
  assumes m: "db_inv m" and n: "ImsMap_GetIndexOfKey m (GetHashCode (m_pszCallId k)) = None"
  shows "find (SipStackTransaction_CompareKey k) (db_entries m) = None"
proof -
  have "\<not> SipStackTransaction_CompareKey k e" if "p \<in> set m" "e \<in> set (snd p)" for p e
  proof
    assume "SipStackTransaction_CompareKey k e"
    then have "GetHashCode (m_pszCallId (fst e)) = GetHashCode (m_pszCallId k)"
      by (rule CompareKey_hash)
    moreover have "GetHashCode (m_pszCallId (fst e)) = fst p"
      using m that by (cases p) (auto simp: db_inv_def)
    moreover have "fst p \<noteq> GetHashCode (m_pszCallId k)"
      using n that(1) by (metis GetIndexOfKey_None image_eqI)
    ultimately show False by simp
  qed
  then show ?thesis by (auto simp: find_None db_entries_def)
qed

lemma FindTransaction_entries:
  assumes m: "db_inv m"
  shows "SipStackState_FindTransaction k m =
     find (SipStackTransaction_CompareKey k) (db_entries m)"
proof (cases "ImsMap_GetIndexOfKey m (GetHashCode (m_pszCallId k))")
  case None
  then show ?thesis using no_bucket [OF m None]
    by (simp add: SipStackState_FindTransaction_def)
next
  case (Some n)
  from bucket_split [OF m Some] obtain xs es ys where b:
    "m = xs @ (GetHashCode (m_pszCallId k), es) # ys" "snd (m ! n) = es"
    "find (SipStackTransaction_CompareKey k) (db_entries xs) = None"
    "find (SipStackTransaction_CompareKey k) (db_entries ys) = None" by metis
  then have "db_entries m = db_entries xs @ es @ db_entries ys" by simp
  with b(2-4) show ?thesis
    by (simp add: SipStackState_FindTransaction_def Some ImsMap_GetValueAt_def find_append
             split: option.splits)
qed

text \<open>Adding: the new entry goes to the end of its bucket.\<close>

lemma AddTransaction_ok [simp]: "fst (SipStackState_AddTransaction k i m)"
  by (simp add: SipStackState_AddTransaction_def Let_def split: option.splits)

lemma AddTransaction_entries:
  assumes m: "db_inv m"
  shows "db_inv (snd (SipStackState_AddTransaction k i m)) \<and>
     (\<exists>xs ys. db_entries m = xs @ ys \<and>
        db_entries (snd (SipStackState_AddTransaction k i m)) = xs @ (k, i) # ys)"
proof (cases "ImsMap_GetIndexOfKey m (GetHashCode (m_pszCallId k))")
  case None
  let ?h = "GetHashCode (m_pszCallId k)" and ?n = "ImsMap_GetOrderOf m (GetHashCode (m_pszCallId k))"
  have a: "snd (SipStackState_AddTransaction k i m) = take ?n m @ (?h, [(k, i)]) # drop ?n m"
    by (simp add: SipStackState_AddTransaction_def None ImsMap_Add_def Let_def)
  have "ImsMap_inv (snd (SipStackState_AddTransaction k i m))"
    using m ImsMap_inv_Add [of m ?h "[(k, i)]"]
    by (simp add: SipStackState_AddTransaction_def None db_inv_def)
  moreover have "db_entries m = db_entries (take ?n m) @ db_entries (drop ?n m)"
    by (metis append_take_drop_id db_entries_append)
  ultimately show ?thesis
    using m by (fastforce simp: a db_inv_def dest: in_set_takeD in_set_dropD)
next
  case (Some n)
  from bucket_split [OF m Some] obtain xs es ys where b:
    "m = xs @ (GetHashCode (m_pszCallId k), es) # ys" "length xs = n" "snd (m ! n) = es" by metis
  from GetIndexOfKey_SomeD [OF Some] have n: "n < length m" "fst (m ! n) = GetHashCode (m_pszCallId k)"
    by auto
  have a: "snd (SipStackState_AddTransaction k i m)
      = m[n := (GetHashCode (m_pszCallId k), es @ [(k, i)])]"
    using n b(3) by (simp add: SipStackState_AddTransaction_def Some Let_def ImsMap_SetValueAt_def
                               ImsMap_GetValueAt_def)
  have u: "m[n := (GetHashCode (m_pszCallId k), es @ [(k, i)])]
      = xs @ (GetHashCode (m_pszCallId k), es @ [(k, i)]) # ys"
    unfolding b(1) b(2) [symmetric] by (simp add: list_update_append)
  have inv: "ImsMap_inv (m[n := (GetHashCode (m_pszCallId k), es @ [(k, i)])])"
    using m n by (simp add: ImsMap_inv_update db_inv_def)
  have "db_inv (snd (SipStackState_AddTransaction k i m))"
    using m inv unfolding a u by (auto simp: db_inv_def b(1))
  moreover have "db_entries m = (db_entries xs @ es) @ db_entries ys" by (simp add: b(1))
  moreover have "db_entries (snd (SipStackState_AddTransaction k i m))
      = (db_entries xs @ es) @ (k, i) # db_entries ys" by (simp add: a u)
  ultimately show ?thesis by blast
qed

text \<open>Removing: the entry the search finds goes, and an emptied bucket with it.\<close>

lemma RemoveTransaction_found:
  "fst (SipStackState_RemoveTransaction k opt m) = SipStackState_FindTransaction k m"
  by (auto simp: SipStackState_RemoveTransaction_def SipStackState_FindTransaction_def Let_def
                 first_match_nth first_match_find_None split: option.splits)

lemma RemoveTransaction_keep:
  "opt \<noteq> TXN_REMOVE \<Longrightarrow> snd (SipStackState_RemoveTransaction k opt m) = m"
  by (simp add: SipStackState_RemoveTransaction_def Let_def split: option.splits)

lemma RemoveTransaction_entries:
  assumes m: "db_inv m"
  shows "db_inv (snd (SipStackState_RemoveTransaction k TXN_REMOVE m)) \<and>
     db_entries (snd (SipStackState_RemoveTransaction k TXN_REMOVE m))
       = remove_first (SipStackTransaction_CompareKey k) (db_entries m)"
    (is "db_inv ?m' \<and> _ = remove_first ?P _")
proof (cases "ImsMap_GetIndexOfKey m (GetHashCode (m_pszCallId k))")
  case None
  from no_bucket [OF m None] have "remove_first ?P (db_entries m) = db_entries m"
    by (simp add: find_None remove_first_none)
  with m show ?thesis by (simp add: SipStackState_RemoveTransaction_def None)
next
  case (Some n)
  let ?h = "GetHashCode (m_pszCallId k)"
  from bucket_split [OF m Some] obtain xs es ys where b:
    "m = xs @ (?h, es) # ys" "length xs = n" "snd (m ! n) = es"
    "find ?P (db_entries xs) = None" "find ?P (db_entries ys) = None" by metis
  have ent: "db_entries m = db_entries xs @ es @ db_entries ys" by (simp add: b(1))
  have ys: "remove_first ?P (db_entries ys) = db_entries ys"
    using b(5) by (simp add: find_None remove_first_none)
  have ix: "ImsMap_inv (xs @ (?h, es) # ys)" using m by (simp add: b(1) db_inv_def)
  show ?thesis
  proof (cases "first_match ?P es")
    case f: None
    then have fn: "find ?P es = None" by (simp add: first_match_find_None)
    have "?m' = m"
      by (simp add: SipStackState_RemoveTransaction_def Some Let_def ImsMap_GetValueAt_def b(3) f)
    moreover have "remove_first ?P (db_entries m) = db_entries m"
      using b(4,5) fn by (simp add: ent find_None) (rule remove_first_none, auto)
    ultimately show ?thesis using m by simp
  next
    case f: (Some i)
    then have fs: "find ?P es \<noteq> None" by (simp flip: first_match_find_None)
    let ?es = "remove_first ?P es"
    have es: "take i es @ drop (Suc i) es = ?es" using f by (simp add: remove_first_nth)
    have n: "n < length m" "m ! n = (?h, es)" using b(2) by (auto simp: b(1))
    have up: "m[n := (?h, es')] = xs @ (?h, es') # ys" for es'
      unfolding b(1) b(2) [symmetric] by (simp add: list_update_append)
    have m': "?m' = (if ?es = [] then xs @ ys else xs @ (?h, ?es) # ys)"
      using n b(2) f
      by (simp add: SipStackState_RemoveTransaction_def Some Let_def ImsMap_GetValueAt_def
                    ImsMap_SetValueAt_def ImsMap_RemoveAt_def es up)
    have "remove_first ?P (db_entries m) = db_entries xs @ ?es @ db_entries ys"
      using b(4) fs by (auto simp: ent remove_first_append)
    moreover have "db_inv ?m'"
    proof -
      have "ImsMap_inv (xs @ ys)" using ix by (auto simp: ImsMap_inv_append ImsMap_inv_Cons)
      moreover have "ImsMap_inv (xs @ (?h, ?es) # ys)"
        using ix by (auto simp: ImsMap_inv_append ImsMap_inv_Cons)
      ultimately show ?thesis
        using m remove_first_subset [of ?P es] unfolding m' by (auto simp: db_inv_def b(1))
    qed
    ultimately show ?thesis by (simp add: m')
  qed
qed

interpretation txn_db: txn_store db_inv db_entries SipStackTransaction_CompareKey
    SipStackState_FindTransaction
    "\<lambda>e m. snd (SipStackState_AddTransaction (fst e) (snd e) m)"
    "\<lambda>k m. snd (SipStackState_RemoveTransaction k TXN_REMOVE m)"
  using AddTransaction_entries RemoveTransaction_entries
  by unfold_locales (auto simp: FindTransaction_entries)

section \<open>Writing through the key of an entry\<close>

lemma entry_key_update_entries:
  "db_entries (entry_key_update i f m) =
     map (\<lambda>(k, t). (if t = i then f k else k, t)) (db_entries m)"
  by (induction m) (auto simp: entry_key_update_def)

lemma entry_key_update_inv:
  assumes "\<And>k. m_pszCallId (f k) = m_pszCallId k" and "db_inv m"
  shows "db_inv (entry_key_update i f m)"
proof -
  have "map fst (entry_key_update i f m) = map fst m"
    by (induction m) (auto simp: entry_key_update_def)
  then have "ImsMap_inv (entry_key_update i f m)"
    using assms(2) by (simp add: db_inv_def ImsMap_inv_def)
  with assms show ?thesis by (fastforce simp: db_inv_def entry_key_update_def)
qed

lemma key_update_call_id [simp]:
  "m_pszCallId (SetToTag t k) = m_pszCallId k"
  "m_pszCallId (SetResponseCode n k) = m_pszCallId k"
  "m_pszCallId (SetRSeq r k) = m_pszCallId k"
  "m_pszCallId (SetTxnType ty k) = m_pszCallId k"
  by (simp_all add: SetToTag_def SetResponseCode_def SetRSeq_def SetTxnType_def)

lemma db_inv_Nil [simp]: "db_inv []"
  by (simp add: db_inv_def ImsMap_inv_def)

end
