(* ===== verification/SipTxnUtil.thy ===== *)
theory SipTxnUtil
  imports SipKey
begin

text \<open>
  The process-wide list of keys of reliable provisional responses
  (\<open>protocol/sip/txn/SipTxnUtil.cpp\<close>). The list object \<open>s_txnKeyList\<close> is an argument of the
  operations; a key that \<open>SearchTxnKey\<close> returns is named by its position, because its caller may
  update it in place. The user's key has its rules replaced for the time of a search and
  restored before every return, so it is unchanged and no result.
\<close>

section \<open>Operations\<close>

definition AddTxnKey :: "SipTxnKey \<Rightarrow> SipTxnKey list \<Rightarrow> SipTxnKey list" where
  "AddTxnKey k ks = ks @ [k]"

definition IsTxnKeyMatched :: "SipTxnKey \<Rightarrow> SipTxnKey \<Rightarrow> bool" where
  "IsTxnKeyMatched pUserTxnkey pStoredTxnKey = CompareKeysForRPR pStoredTxnKey pUserTxnkey"

text \<open>
  The search loop. Its index is a \<open>SIP_UINT16\<close> while the size it is compared with is a
  \<open>SIP_UINT32\<close>; \<open>None\<close> says that the loop does not end.
\<close>

partial_function (option) SearchTxnKey_loop ::
    "SipTxnKey \<Rightarrow> SipTxnKey list \<Rightarrow> SIP_UINT16 \<Rightarrow> nat option option" where
  "SearchTxnKey_loop g ks nIndex =
     (if unat nIndex < length ks then
        (if \<not> CompareKeysForRPR (ks ! unat nIndex) g then SearchTxnKey_loop g ks (nIndex + 1)
         else Some (Some (unat nIndex)))
      else Some None)"

definition SearchTxnKey_rules :: "bool \<Rightarrow> SipTxnKey \<Rightarrow> SipTxnKey" where
  "SearchTxnKey_rules bCheckRSeq g =
     (let g = SetRules RULE_COMPARE_TO_TAG g in
      if bCheckRSeq then AddRule RULE_COMPARE_RSEQ g else g)"

text \<open>
  \<open>SearchTxnKey\<close> gives \<open>None\<close> for \<open>SIP_NULL\<close>. A list of more than 65535 keys, on which the loop
  may run forever, is outside the model (see \<open>SearchTxnKey_loop_hangs\<close>): it reads as not found.
\<close>

definition SearchTxnKey :: "SipTxnKey option \<Rightarrow> bool \<Rightarrow> SipTxnKey list \<Rightarrow> nat option" where
  "SearchTxnKey pUserTxnkey bCheckRSeq ks =
     (case pUserTxnkey of None \<Rightarrow> None
      | Some g \<Rightarrow>
          if length ks = 0 then None
          else case SearchTxnKey_loop (SearchTxnKey_rules bCheckRSeq g) ks 0 of
            None \<Rightarrow> None | Some r \<Rightarrow> r)"

function DeleteTxnKey_loop :: "SipTxnKey \<Rightarrow> nat \<Rightarrow> SipTxnKey list \<Rightarrow> SipTxnKey list" where
  "DeleteTxnKey_loop g nIndex ks =
     (if nIndex < length ks then
        (if IsTxnKeyMatched g (ks ! nIndex)
         then DeleteTxnKey_loop g nIndex (take nIndex ks @ drop (Suc nIndex) ks)
         else DeleteTxnKey_loop g (Suc nIndex) ks)
      else ks)"
  by pat_completeness auto
termination by (relation "measure (\<lambda>(g, n, ks). length ks - n)") auto

declare DeleteTxnKey_loop.simps [simp del]

definition DeleteTxnKey_rules :: "bool \<Rightarrow> SipTxnKey \<Rightarrow> SipTxnKey" where
  "DeleteTxnKey_rules bCheckToTag g =
     (let g = SetRules RULE_NONE g in
      if bCheckToTag then AddRule RULE_COMPARE_TO_TAG g else g)"

definition DeleteTxnKey ::
    "SipTxnKey option \<Rightarrow> bool \<Rightarrow> SipTxnKey list \<Rightarrow> bool \<times> SipTxnKey list" where
  "DeleteTxnKey pUserTxnkey bCheckToTag ks =
     (case pUserTxnkey of None \<Rightarrow> (False, ks)
      | Some g \<Rightarrow>
          if length ks = 0 then (False, ks)
          else (True, DeleteTxnKey_loop (DeleteTxnKey_rules bCheckToTag g) 0 ks))"

section \<open>Facts\<close>

text \<open>The rules the two operations put into the user's key.\<close>

lemma HasRule_Search_rules [simp]:
  "HasRule (SearchTxnKey_rules b g) RULE_COMPARE_TO_TAG"
  "HasRule (SearchTxnKey_rules b g) RULE_COMPARE_RSEQ \<longleftrightarrow> b"
  by (simp_all add: SearchTxnKey_rules_def HasRule_def SetRules_def AddRule_def rule_defs Let_def)

lemma HasRule_Delete_rules [simp]:
  "HasRule (DeleteTxnKey_rules b g) RULE_COMPARE_TO_TAG \<longleftrightarrow> b"
  "\<not> HasRule (DeleteTxnKey_rules b g) RULE_COMPARE_RSEQ"
  by (simp_all add: DeleteTxnKey_rules_def HasRule_def SetRules_def AddRule_def rule_defs Let_def)

lemma rules_fields [simp]:
  "m_pszCallId (SearchTxnKey_rules b g) = m_pszCallId g"
  "m_pszFromTag (SearchTxnKey_rules b g) = m_pszFromTag g"
  "m_pszToTag (SearchTxnKey_rules b g) = m_pszToTag g"
  "m_nRSeqNum (SearchTxnKey_rules b g) = m_nRSeqNum g"
  "m_pszCallId (DeleteTxnKey_rules b g) = m_pszCallId g"
  "m_pszFromTag (DeleteTxnKey_rules b g) = m_pszFromTag g"
  "m_pszToTag (DeleteTxnKey_rules b g) = m_pszToTag g"
  "m_nRSeqNum (DeleteTxnKey_rules b g) = m_nRSeqNum g"
  by (simp_all add: SearchTxnKey_rules_def DeleteTxnKey_rules_def SetRules_def AddRule_def Let_def)

lemma SearchTxnKey_loop_below:
  assumes "length ks < 2 ^ 16"
  shows "unat n \<le> length ks \<Longrightarrow>
     SearchTxnKey_loop g ks n =
       Some (map_option ((+) (unat n)) (first_match (\<lambda>k. CompareKeysForRPR k g) (drop (unat n) ks)))"
proof (induction "length ks - unat n" arbitrary: n)
  case 0
  then show ?case by (subst SearchTxnKey_loop.simps) simp
next
  case (Suc d)
  then have lt: "unat n < length ks" by simp
  with assms have s: "unat (n + 1) = Suc (unat n)"
    by (simp add: unat_plus_no_overflow)
  have dr: "drop (unat n) ks = (ks ! unat n) # drop (Suc (unat n)) ks"
    using lt by (simp add: Cons_nth_drop_Suc)
  show ?case
  proof (cases "CompareKeysForRPR (ks ! unat n) g")
    case True
    then show ?thesis by (subst SearchTxnKey_loop.simps) (simp add: lt dr)
  next
    case False
    have "SearchTxnKey_loop g ks (n + 1) = Some (map_option ((+) (unat (n + 1)))
            (first_match (\<lambda>k. CompareKeysForRPR k g) (drop (unat (n + 1)) ks)))"
      using Suc lt s by simp
    then show ?thesis
      by (subst SearchTxnKey_loop.simps)
         (auto simp: lt dr False s option.map_comp comp_def intro!: option.map_cong)
  qed
qed

lemma SearchTxnKey_loop_hangs:
  assumes "2 ^ 16 \<le> length ks" and "\<forall>k\<in>set ks. \<not> CompareKeysForRPR k g"
  shows "SearchTxnKey_loop g ks n = None"
proof -
  have lt: "unat m < length ks" for m :: SIP_UINT16
    proof -
    have "unat m < 2 ^ LENGTH(16)" by (rule unsigned_less)
    with assms(1) show ?thesis by simp
  qed
  have "SearchTxnKey_loop g' ks' n = Some y \<Longrightarrow> g' = g \<Longrightarrow> ks' = ks \<Longrightarrow> False" for g' ks' y
  proof (induction rule: SearchTxnKey_loop.raw_induct [rotated, consumes 1])
    case (1 SearchTxnKey_loop g' ks' n y)
    have "\<not> CompareKeysForRPR (ks' ! unat n) g'"
      using lt [of n] assms(2) by (simp add: 1)
    with 1 lt [of n] show ?case by simp
  qed
  then show ?thesis by (cases "SearchTxnKey_loop g ks n") blast+
qed

lemma SearchTxnKey_eq:
  assumes "length ks < 2 ^ 16"
  shows "SearchTxnKey (Some g) b ks =
     first_match (\<lambda>k. CompareKeysForRPR k (SearchTxnKey_rules b g)) ks"
  using SearchTxnKey_loop_below [OF assms, of 0 "SearchTxnKey_rules b g"]
  by (simp add: SearchTxnKey_def option.map_id0 option.map_ident_strong)

lemma DeleteTxnKey_loop_filter:
  "n \<le> length ks \<Longrightarrow>
   DeleteTxnKey_loop g n ks = take n ks @ filter (\<lambda>k. \<not> IsTxnKeyMatched g k) (drop n ks)"
proof (induction g n ks rule: DeleteTxnKey_loop.induct)
  case (1 g n ks)
  show ?case
  proof (cases "n < length ks")
    case True
    then have dr: "drop n ks = (ks ! n) # drop (Suc n) ks"
      by (simp add: Cons_nth_drop_Suc)
    show ?thesis
    proof (cases "IsTxnKeyMatched g (ks ! n)")
      case m: True
      from 1(1) [OF True m] True m show ?thesis
        by (subst DeleteTxnKey_loop.simps) (simp add: dr min_def)
    next
      case m: False
      from 1(2) [OF True m] True m show ?thesis
        by (subst DeleteTxnKey_loop.simps) (simp add: dr take_Suc_conv_app_nth)
    qed
  next
    case False
    then show ?thesis by (subst DeleteTxnKey_loop.simps) (simp add: "1.prems")
  qed
qed

lemma DeleteTxnKey_filter:
  "snd (DeleteTxnKey (Some g) b ks) =
     filter (\<lambda>k. \<not> IsTxnKeyMatched (DeleteTxnKey_rules b g) k) ks"
  using DeleteTxnKey_loop_filter [of 0 ks "DeleteTxnKey_rules b g"]
  by (auto simp: DeleteTxnKey_def)

end
