(* ===== verification/SipTimers.thy ===== *)
theory SipTimers
  imports SipPrelude
begin

text \<open>
  Timer values of the transaction layer: the timer types of \<open>SipTxn.h\<close>, the values kept by
  \<open>SipConfiguration\<close> (\<open>protocol/interface/sip/SipConfiguration.h\<close>,
  \<open>protocol/sip/SipConfiguration.cpp\<close>) and the per-transaction \<open>SipTxnTimerValues\<close>
  (\<open>protocol/sip/txn/SipTxnTimerValues.cpp\<close>) with its selective update. Durations are
  milliseconds in 32-bit unsigned integers.
\<close>

section \<open>Timer types\<close>

datatype sip_timer =
    TIMER_T1 | TIMER_T2 | TIMER_T4 | TIMER_A | TIMER_B | TIMER_C | TIMER_D | TIMER_E
  | TIMER_F | TIMER_G | TIMER_H | TIMER_I | TIMER_J | TIMER_K | TIMER_L | TIMER_M
  | TIMER_OTHER | TIMER_TYPE_INVALID

section \<open>Stack-wide configuration\<close>

record SipConfiguration =
  bPANIHeaderForACK :: bool
  m_nT1 :: SIP_UINT32
  m_nT2 :: SIP_UINT32
  m_nT4 :: SIP_UINT32
  m_nTimerB :: SIP_UINT32
  m_nTimerC :: SIP_UINT32
  m_nTimerCr :: SIP_UINT32
  m_nTimerD_T3 :: SIP_UINT32
  m_nTimerF_T3 :: SIP_UINT32
  m_nTimerH :: SIP_UINT32
  m_nTimerI_T4 :: SIP_UINT32
  m_nTimerJ_T3 :: SIP_UINT32
  m_nTimerK_T4 :: SIP_UINT32
  m_nTimerL :: SIP_UINT32
  m_nTimerM :: SIP_UINT32

text \<open>The constructor's defaults: T1 = 2000 ms, T2 = 16000 ms (3GPP values).\<close>

definition SipConfiguration_default :: SipConfiguration where
  "SipConfiguration_default =
     (let t1 = 2000; t2 = 16000; t4 = t2 + 1000 in
      \<lparr> bPANIHeaderForACK = False, m_nT1 = t1, m_nT2 = t2, m_nT4 = t4, m_nTimerB = 64 * t1,
        m_nTimerC = 180000, m_nTimerCr = 180000, m_nTimerD_T3 = 64 * t1, m_nTimerF_T3 = 64 * t1,
        m_nTimerH = 64 * t1, m_nTimerI_T4 = t4, m_nTimerJ_T3 = 64 * t1, m_nTimerK_T4 = t4,
        m_nTimerL = 64 * t1, m_nTimerM = 64 * t1 \<rparr>)"

section \<open>Timer values of a transaction\<close>

record SipTxnTimerValues =
  m_nT1Value :: SIP_UINT32
  m_nT2Value :: SIP_UINT32
  m_nT4Value :: SIP_UINT32
  m_nTimerA_Value :: SIP_UINT32
  m_nTimerB_Value :: SIP_UINT32
  m_nTimerD_Value :: SIP_UINT32
  m_nTimerE_Value :: SIP_UINT32
  m_nTimerF_Value :: SIP_UINT32
  m_nTimerG_Value :: SIP_UINT32
  m_nTimerH_Value :: SIP_UINT32
  m_nTimerI_Value :: SIP_UINT32
  m_nTimerJ_Value :: SIP_UINT32
  m_nTimerK_Value :: SIP_UINT32
  m_nTimerL_Value :: SIP_UINT32
  m_nTimerM_Value :: SIP_UINT32

definition SipTxnTimerValues_new :: "SipConfiguration \<Rightarrow> SipTxnTimerValues" where
  "SipTxnTimerValues_new c =
     \<lparr> m_nT1Value = m_nT1 c, m_nT2Value = m_nT2 c, m_nT4Value = m_nT4 c, 
       m_nTimerA_Value = m_nT1 c, m_nTimerB_Value = m_nTimerB c, m_nTimerD_Value = m_nTimerD_T3 c, 
       m_nTimerE_Value = m_nT1 c, m_nTimerF_Value = m_nTimerF_T3 c, m_nTimerG_Value = m_nT1 c, 
       m_nTimerH_Value = m_nTimerH c, m_nTimerI_Value = m_nTimerI_T4 c, m_nTimerJ_Value = m_nTimerJ_T3 c, 
       m_nTimerK_Value = m_nTimerK_T4 c, m_nTimerL_Value = m_nTimerL c, m_nTimerM_Value = m_nTimerM c \<rparr>"

fun SetTimerValue :: "sip_timer \<Rightarrow> SIP_UINT32 \<Rightarrow> SipTxnTimerValues \<Rightarrow> SipTxnTimerValues" where
  "SetTimerValue TIMER_T1 d v = v\<lparr>m_nT1Value := d\<rparr>"
| "SetTimerValue TIMER_T2 d v = v\<lparr>m_nT2Value := d\<rparr>"
| "SetTimerValue TIMER_T4 d v = v\<lparr>m_nT4Value := d\<rparr>"
| "SetTimerValue TIMER_A d v = v\<lparr>m_nTimerA_Value := d\<rparr>"
| "SetTimerValue TIMER_B d v = v\<lparr>m_nTimerB_Value := d\<rparr>"
| "SetTimerValue TIMER_D d v = v\<lparr>m_nTimerD_Value := d\<rparr>"
| "SetTimerValue TIMER_E d v = v\<lparr>m_nTimerE_Value := d\<rparr>"
| "SetTimerValue TIMER_F d v = v\<lparr>m_nTimerF_Value := d\<rparr>"
| "SetTimerValue TIMER_G d v = v\<lparr>m_nTimerG_Value := d\<rparr>"
| "SetTimerValue TIMER_H d v = v\<lparr>m_nTimerH_Value := d\<rparr>"
| "SetTimerValue TIMER_I d v = v\<lparr>m_nTimerI_Value := d\<rparr>"
| "SetTimerValue TIMER_J d v = v\<lparr>m_nTimerJ_Value := d\<rparr>"
| "SetTimerValue TIMER_K d v = v\<lparr>m_nTimerK_Value := d\<rparr>"
| "SetTimerValue TIMER_L d v = v\<lparr>m_nTimerL_Value := d\<rparr>"
| "SetTimerValue TIMER_M d v = v\<lparr>m_nTimerM_Value := d\<rparr>"
| "SetTimerValue _ d v = v"

fun GetTimerValue :: "SipTxnTimerValues \<Rightarrow> sip_timer \<Rightarrow> SIP_UINT32" where
  "GetTimerValue v TIMER_T1 = m_nT1Value v"
| "GetTimerValue v TIMER_T2 = m_nT2Value v"
| "GetTimerValue v TIMER_T4 = m_nT4Value v"
| "GetTimerValue v TIMER_A = m_nTimerA_Value v"
| "GetTimerValue v TIMER_B = m_nTimerB_Value v"
| "GetTimerValue v TIMER_D = m_nTimerD_Value v"
| "GetTimerValue v TIMER_E = m_nTimerE_Value v"
| "GetTimerValue v TIMER_F = m_nTimerF_Value v"
| "GetTimerValue v TIMER_G = m_nTimerG_Value v"
| "GetTimerValue v TIMER_H = m_nTimerH_Value v"
| "GetTimerValue v TIMER_I = m_nTimerI_Value v"
| "GetTimerValue v TIMER_J = m_nTimerJ_Value v"
| "GetTimerValue v TIMER_K = m_nTimerK_Value v"
| "GetTimerValue v TIMER_L = m_nTimerL_Value v"
| "GetTimerValue v TIMER_M = m_nTimerM_Value v"
| "GetTimerValue v _ = 0"

text \<open>The option bits \<open>TV_T1\<close>, \<open>TV_T2\<close>, \dots of \<open>SipTxnTimerValues.h\<close>.\<close>

fun timer_bit :: "sip_timer \<Rightarrow> SIP_UINT32" where
  "timer_bit TIMER_T1 = 0x0001"
| "timer_bit TIMER_T2 = 0x0002"
| "timer_bit TIMER_T4 = 0x0004"
| "timer_bit TIMER_A = 0x0008"
| "timer_bit TIMER_B = 0x0010"
| "timer_bit TIMER_D = 0x0020"
| "timer_bit TIMER_E = 0x0040"
| "timer_bit TIMER_F = 0x0080"
| "timer_bit TIMER_G = 0x0100"
| "timer_bit TIMER_H = 0x0200"
| "timer_bit TIMER_I = 0x0400"
| "timer_bit TIMER_J = 0x0800"
| "timer_bit TIMER_K = 0x1000"
| "timer_bit TIMER_L = 0x2000"
| "timer_bit TIMER_M = 0x4000"
| "timer_bit _ = 0"

definition TV_ALL :: SIP_UINT32 where
  "TV_ALL = 0x7FFF"

definition IsTimerSet :: "SIP_UINT32 \<Rightarrow> SIP_UINT32 \<Rightarrow> bool" where
  "IsTimerSet nTimerOptions nType \<longleftrightarrow> nTimerOptions AND nType \<noteq> 0"

text \<open>One conditional assignment of \<open>UpdateSipTimers\<close>.\<close>

definition update_one :: "SIP_UINT32 \<Rightarrow> SipTxnTimerValues \<Rightarrow> sip_timer \<Rightarrow> SipTxnTimerValues
    \<Rightarrow> SipTxnTimerValues" where
  "update_one opts src ty v =
     (if IsTimerSet opts (timer_bit ty) then SetTimerValue ty (GetTimerValue src ty) v else v)"

text \<open>The timers \<open>UpdateSipTimers\<close> looks at, in its order.\<close>

definition stored_timers :: "sip_timer list" where
  "stored_timers = [TIMER_T1, TIMER_T2, TIMER_T4, TIMER_A, TIMER_B, TIMER_D, TIMER_E, TIMER_F
     , TIMER_G, TIMER_H, TIMER_I, TIMER_J, TIMER_K, TIMER_L, TIMER_M]"

definition UpdateSipTimers :: "SIP_UINT32 \<Rightarrow> SipTxnTimerValues option \<Rightarrow> SipTxnTimerValues
    \<Rightarrow> bool \<times> SipTxnTimerValues" where
  "UpdateSipTimers nTimerOptions src v =
     (case src of None \<Rightarrow> (False, v)
      | Some s \<Rightarrow>
          if \<not> IsTimerSet nTimerOptions TV_ALL then (False, v)
          else (True, fold (update_one nTimerOptions s) stored_timers v))"

section \<open>Facts\<close>

lemma GetTimerValue_SetTimerValue:
  "GetTimerValue (SetTimerValue a d v) b =
     (if a = b \<and> a \<in> set stored_timers then d else GetTimerValue v b)"
  by (cases a; cases b) (simp_all add: stored_timers_def)

lemma GetTimerValue_not_stored: "b \<notin> set stored_timers \<Longrightarrow> GetTimerValue v b = 0"
  by (cases b) (simp_all add: stored_timers_def)

lemma GetTimerValue_update_one:
  "GetTimerValue (update_one opts src a v) b =
     (if a = b \<and> IsTimerSet opts (timer_bit a) then GetTimerValue src b else GetTimerValue v b)"
  by (cases "b \<in> set stored_timers")
     (auto simp: update_one_def GetTimerValue_SetTimerValue GetTimerValue_not_stored)

lemma IsTimerSet_0 [simp]: "\<not> IsTimerSet opts 0"
  by (simp add: IsTimerSet_def)

lemma timer_bit_not_stored: "b \<notin> set stored_timers \<Longrightarrow> timer_bit b = 0"
  by (cases b) (simp_all add: stored_timers_def)

lemma GetTimerValue_fold_update:
  "GetTimerValue (fold (update_one opts src) ts v) b =
     (if b \<in> set ts \<and> IsTimerSet opts (timer_bit b) then GetTimerValue src b
      else GetTimerValue v b)"
  by (induction ts arbitrary: v) (auto simp: GetTimerValue_update_one)

lemma UpdateSipTimers_get:
  assumes "IsTimerSet opts TV_ALL"
  shows "GetTimerValue (snd (UpdateSipTimers opts (Some src) v)) b =
     (if IsTimerSet opts (timer_bit b) then GetTimerValue src b else GetTimerValue v b)"
  using assms
  by (auto simp: UpdateSipTimers_def GetTimerValue_fold_update timer_bit_not_stored)

end
