(* ===== verification/SipTxn.thy ===== *)
theory SipTxn
  imports SipStackState SipTxnUtil SipTimers
begin

text \<open>
  Transaction objects and the state of the stack (\<open>protocol/include/sip/txn/SipTxn.h\<close>,
  \<open>protocol/sip/txn/SipTxn.cpp\<close>, \<open>SipTxnFsmData.h\<close>, \<open>SipTimeoutData.cpp\<close>,
  \<open>protocol/sip/SipRefBase.cpp\<close>, \<open>engine/sipcore/SipTransactionCallback.cpp\<close>).

  Transaction objects live in a heap indexed by address, because the table, the handlers and
  the user-data pointers share them. An object whose reference count is 0 has been destroyed.
  The record \<open>SipStack\<close> holds everything the layer keeps between calls: the heap, the table, the
  list of provisional-response keys, the armed timers, the caller's error cell, the observable
  outputs and the environment. The environment (\<open>SipEnv\<close>) stands for what the layer calls but
  does not contain: whether a transaction callback is registered, whether the timer service and
  the network accept a request, the TU's \<open>CreateAckRequest\<close>, and \<open>SipMessage::Encode\<close>.
\<close>

section \<open>Enumerations\<close>

datatype msg_dir = SEND | RECV | INVALID_DIR

datatype txn_status =
    STATUS_NEW_REQ_RECVD | STATUS_VALID_MESSAGE | STATUS_IGNORE_REQ | STATUS_IGNORE_RESP
  | STATUS_STRAY_RESP | STATUS_RETRANSMISSION | STATUS_ERROR_ON_SEND | STATUS_INVALID_MESSAGE
  | STATUS_STRAY_PRACK | STATUS_ACK_RETRANSMISSION | STATUS_INVALID

datatype transp_protocol =
    PROTOCOL_INVALID | PROTOCOL_TCP | PROTOCOL_UDP | PROTOCOL_TLS | PROTOCOL_SCTP
  | PROTOCOL_OTHERS | PROTOCOL_END

datatype inv_cli_event =
    INV_CLI_SEND_INV_REQ_EVT | INV_CLI_TIMER_A_B_TIME_OUT_EVT | INV_CLI_TIMER_D_TIME_OUT_EVT
  | INV_CLI_RECV_1XX_RESP_EVT | INV_CLI_RECV_2XX_RESP_EVT | INV_CLI_RECV_FAILURE_RESP_EVT
  | INV_CLI_TRANSP_ERROR_EVT | INV_CLI_TIMER_M_TIME_OUT_EVT | INV_CLI_INVALID_EVT

datatype inv_cli_state =
    INV_CLI_IDLE_ST | INV_CLI_CALLING_ST | INV_CLI_PROCEEDING_ST | INV_CLI_ACCEPTED_ST
  | INV_CLI_COMPLETED_ST | INV_CLI_TERMINATED_ST | INV_CLI_INVALID_ST

datatype inv_ser_event =
    INV_SER_RECV_INV_REQ_EVT | INV_SER_SEND_NON_100_PROV_RESP_EVT | INV_SER_SEND_FAILURE_RESP_EVT
  | INV_SER_SEND_2XX_RESP_EVT | INV_SER_TRANSP_ERROR_EVT | INV_SER_RECV_ACK_REQ_EVT
  | INV_SER_TIMER_G_H_TIME_OUT_EVT | INV_SER_TIMER_I_TIME_OUT_EVT | INV_SER_TIMER_L_TIME_OUT_EVT
  | INV_SER_INVALID_EVT

datatype inv_ser_state =
    INV_SER_IDLE_ST | INV_SER_PROCEEDING_ST | INV_SER_ACCEPTED_ST | INV_SER_COMPLETED_ST
  | INV_SER_CONFIRMED_ST | INV_SER_TERMINATED_ST | INV_SER_INVALID_ST

datatype non_inv_cli_event =
    NON_INV_CLI_SEND_NON_INV_REQ_EVT | NON_INV_CLI_TIMER_E_F_TIME_OUT_EVT
  | NON_INV_CLI_RECV_1XX_RESP_EVT | NON_INV_CLI_RECV_FINAL_RESP_EVT
  | NON_INV_CLI_TRANSP_ERROR_EVT | NON_INV_CLI_TIMER_K_TIME_OUT_EVT | NON_INV_CLI_INVALID_EVT

datatype non_inv_cli_state =
    NON_INV_CLI_IDLE_ST | NON_INV_CLI_TRYING_ST | NON_INV_CLI_PROCEEDING_ST
  | NON_INV_CLI_COMPLETED_ST | NON_INV_CLI_TERMINATED_ST | NON_INV_CLI_INVALID_ST

datatype non_inv_ser_event =
    NON_INV_SER_RECV_NON_INV_REQ_EVT | NON_INV_SER_SEND_1XX_RESP_EVT
  | NON_INV_SER_SEND_FINAL_RESP_EVT | NON_INV_SER_TRANSP_ERROR_EVT
  | NON_INV_SER_TIMER_J_TIME_OUT_EVT | NON_INV_SER_INVALID_EVT

datatype non_inv_ser_state =
    NON_INV_SER_IDLE_ST | NON_INV_SER_TRYING_ST | NON_INV_SER_PROCEEDING_ST
  | NON_INV_SER_COMPLETED_ST | NON_INV_SER_TERMINATED_ST | NON_INV_SER_INVALID_ST

text \<open>
  The code keeps the state and the event of every machine in the same integers and reads them
  by the transaction's type; here they carry the machine they belong to.
\<close>

datatype txn_state =
    INV_CLI inv_cli_state | INV_SER inv_ser_state
  | NON_INV_CLI non_inv_cli_state | NON_INV_SER non_inv_ser_state | NO_STATE

datatype txn_event =
    EVT_INV_CLI inv_cli_event | EVT_INV_SER inv_ser_event
  | EVT_NON_INV_CLI non_inv_cli_event | EVT_NON_INV_SER non_inv_ser_event

section \<open>Records\<close>

record SipTransportParameter =
  m_pHostAddress :: cstr
  m_nPort :: SIP_UINT16
  m_nTranspProtocol :: transp_protocol

record SipTransportInfo =
  m_pActualDestParam :: "SipTransportParameter option"
  m_pTranspParamUser :: SipTransportParameter
  m_pSentBuffer :: string
  m_pSentSipMsg :: "SipMessage option"

record SipTimerContext =
  m_nTimerOptions :: SIP_UINT32
  m_pTxnSipTxnTimers :: "SipTxnTimerValues option"

text \<open>
  A context object of the TU, with its identity and the type of the TU's transaction state that
  its data points to (\<open>SipStack::GetTransactionState\<close>).
\<close>

datatype tstate_type = TYPE_CLIENT | TYPE_SERVER

record SipTxnContext =
  ctx_id :: nat
  ctx_tstate :: "tstate_type option"
  m_pSipTimerContext :: "SipTimerContext option"

record ISipUserData =
  m_pvUserData :: "SipTxnContext option"
  m_bDeleteFlag :: bool
  ud_pSipMsg :: "SipMessage option"

definition ISipUserData_new :: "SipTxnContext option \<Rightarrow> ISipUserData" where
  "ISipUserData_new ctx = \<lparr> m_pvUserData = ctx, m_bDeleteFlag = False, ud_pSipMsg = None \<rparr>"

record SipTxn =
  m_eTxnType :: sip_txn_type
  m_pTxnKey :: "SipTxnKey option"
  m_pSipMsg :: "SipMessage option"
  m_pTranspInfo :: "SipTransportInfo option"
  m_pUserData :: "ISipUserData option"
  m_nTxnState :: txn_state
  m_nRetransmissionCount :: SIP_UINT16
  m_eTimerType :: sip_timer
  m_pvTimerId :: "nat option"
  m_nMaxDuration :: SIP_UINT32
  m_nDurationExpired :: SIP_UINT32
  m_nCurrentDuration :: SIP_UINT32
  m_bRprTxnTerminated :: bool
  m_bAckReceived :: bool
  m_objTxnTimerValues :: SipTxnTimerValues
  m_nRefCount :: int

record SipTimeoutData =
  td_eTxnType :: sip_txn_type
  td_eTimerType :: sip_timer
  td_pTxnKey :: "SipTxnKey option"

text \<open>
  \<open>SipTxnFsmData\<close>. The user-data pointer it hands out, \<open>m_pOutUserData\<close>, points into a
  transaction object: it is the address of that transaction.
\<close>

record SipTxnFsmData =
  m_pSipMsgIn :: SipMessage
  m_pTranspParam :: "SipTransportParameter option"
  fd_pUserData :: "ISipUserData option"
  m_pSendSipMsg :: "SipMessage option"
  m_eTxnStatus :: txn_status
  m_pOutUserData :: "nat option"
  fd_pTranspInfo :: "SipTransportInfo option"
  m_bTxnTerminated :: bool
  m_bTxnCreated :: bool

definition SipTxnFsmData_new :: "SipMessage \<Rightarrow> SipTransportParameter option \<Rightarrow> ISipUserData option
    \<Rightarrow> SipTxnFsmData" where
  "SipTxnFsmData_new m tp ud =
     \<lparr> m_pSipMsgIn = m, m_pTranspParam = tp, fd_pUserData = ud, m_pSendSipMsg = None,
       m_eTxnStatus = STATUS_INVALID, m_pOutUserData = None, fd_pTranspInfo = None,
       m_bTxnTerminated = False, m_bTxnCreated = False \<rparr>"

datatype sip_output =
    OUT_SEND string "SipTransportParameter option" \<comment> \<open>\<open>ISipNetworkUtil::SendToNetwork\<close>\<close>
  | OUT_TIMER_EXPIRED sip_timer nat \<comment> \<open>the TU of a context learns of an expired timer\<close>
  | OUT_CLEAR_FORKED nat \<comment> \<open>\<open>ClearAllForkedTransactions\<close> of the TU of a context\<close>
  | OUT_DESTROY_CTX nat \<comment> \<open>\<open>DestroyTxnContext\<close> of a context object\<close>
  | OUT_PRE_SENT SipMessage \<comment> \<open>\<open>PreProcessMessageSentByStack\<close>\<close>
  | OUT_POST_SENT SipMessage string \<comment> \<open>\<open>PostProcessMessageSentByStack\<close>\<close>

record SipEnv =
  env_callback :: bool
  env_timer_ok :: "nat \<Rightarrow> bool" \<comment> \<open>does the request for the n-th timer handle succeed\<close>
  env_send_ok :: "nat \<Rightarrow> bool" \<comment> \<open>does the network accept the n-th output\<close>
  env_create_ack :: "SipMessage \<Rightarrow> ISipUserData option \<Rightarrow> SipMessage option"
  env_encode :: "SipMessage \<Rightarrow> string option"
  env_config :: SipConfiguration

record SipStack =
  m_txns :: "nat \<Rightarrow> SipTxn"
  m_nNextTxn :: nat
  m_objTxnAggregate :: txn_aggregate
  s_txnKeyList :: "SipTxnKey list"
  m_timers :: "nat \<Rightarrow> (SIP_UINT32 \<times> SipTimeoutData) option"
  m_nNextTimer :: nat
  m_pnError :: nat
  m_outputs :: "sip_output list"
  m_env :: SipEnv

section \<open>Access to the heap\<close>

definition txn :: "nat \<Rightarrow> SipStack \<Rightarrow> SipTxn" where
  "txn i u = m_txns u i"

definition upd_txn :: "nat \<Rightarrow> (SipTxn \<Rightarrow> SipTxn) \<Rightarrow> SipStack \<Rightarrow> SipStack" where
  "upd_txn i f u = u\<lparr>m_txns := (m_txns u)(i := f (m_txns u i))\<rparr>"

definition emit :: "sip_output \<Rightarrow> SipStack \<Rightarrow> SipStack" where
  "emit x u = u\<lparr>m_outputs := m_outputs u @ [x]\<rparr>"

section \<open>Construction and reference counts\<close>

definition idle_state :: "sip_txn_type \<Rightarrow> txn_state" where
  "idle_state ty =
     (case ty of INVITE_CLIENT \<Rightarrow> INV_CLI INV_CLI_IDLE_ST
      | INVITE_SERVER \<Rightarrow> INV_SER INV_SER_IDLE_ST
      | NON_INVITE_CLIENT \<Rightarrow> NON_INV_CLI NON_INV_CLI_IDLE_ST
      | NON_INVITE_SERVER \<Rightarrow> NON_INV_SER NON_INV_SER_IDLE_ST
      | INVALID \<Rightarrow> NO_STATE)"

text \<open>
  The constructor with its five arguments: the object and the new value of \<open>*pnError\<close>. Its
  copy of the key is dropped when the error cell reads \<open>E_ERR_PF_MALLOCFAILED\<close>.
\<close>

definition SipTxn_construct :: "SipConfiguration \<Rightarrow> sip_txn_type \<Rightarrow> SipTxnKey \<Rightarrow> SipMessage
    \<Rightarrow> SipTimerContext option \<Rightarrow> nat \<Rightarrow> SipTxn \<times> nat" where
  "SipTxn_construct cfg ty key msg tctx err =
     (let (k, err) = SipTxnKey_Init (Some key) err;
          tv = SipTxnTimerValues_new cfg;
          tv = (case tctx of None \<Rightarrow> tv
                | Some c \<Rightarrow> if m_pTxnSipTxnTimers c \<noteq> None
                           then snd (UpdateSipTimers (m_nTimerOptions c) (m_pTxnSipTxnTimers c) tv)
                           else tv)
      in (\<lparr> m_eTxnType = ty,
            m_pTxnKey = (if err = E_ERR_PF_MALLOCFAILED then None else Some k),
            m_pSipMsg = Some msg, m_pTranspInfo = None, m_pUserData = None,
            m_nTxnState = idle_state ty, m_nRetransmissionCount = 0,
            m_eTimerType = TIMER_TYPE_INVALID, m_pvTimerId = None, m_nMaxDuration = 0,
            m_nDurationExpired = 0, m_nCurrentDuration = 0, m_bRprTxnTerminated = False,
            m_bAckReceived = False, m_objTxnTimerValues = tv, m_nRefCount = 1 \<rparr>, err))"

definition SipTxn_new :: "sip_txn_type \<Rightarrow> SipTxnKey \<Rightarrow> SipMessage \<Rightarrow> SipTimerContext option
    \<Rightarrow> SipStack \<Rightarrow> nat \<times> SipStack" where
  "SipTxn_new ty key msg tctx u =
     (let (t, err) = SipTxn_construct (env_config (m_env u)) ty key msg tctx (m_pnError u);
          i = m_nNextTxn u
      in (i, u\<lparr>m_txns := (m_txns u)(i := t), m_nNextTxn := Suc i, m_pnError := err\<rparr>))"

definition Increment :: "nat \<Rightarrow> SipStack \<Rightarrow> SipStack" where
  "Increment i u = upd_txn i (\<lambda>t. t\<lparr>m_nRefCount := m_nRefCount t + 1\<rparr>) u"

text \<open>\<open>~SipTxn\<close> releases what the object owns.\<close>

definition SipTxn_destroy :: "SipTxn \<Rightarrow> SipTxn" where
  "SipTxn_destroy t = t\<lparr>m_pTranspInfo := None, m_pUserData := None, m_pTxnKey := None,
                        m_pSipMsg := None\<rparr>"

definition SipDelete :: "nat \<Rightarrow> SipStack \<Rightarrow> SipStack" where
  "SipDelete i u =
     upd_txn i (\<lambda>t. let t = t\<lparr>m_nRefCount := m_nRefCount t - 1\<rparr>
                    in if m_nRefCount t = 0 then SipTxn_destroy t else t) u"

section \<open>The table\<close>

text \<open>
  \<open>FetchTransaction\<close> through the registered callback; without one every caller goes on as
  after \<open>SIP_FALSE\<close>. With \<open>TXN_CREATE\<close> and no match the given transaction is entered, with one
  more reference (the constructor of \<open>SipStackTransaction\<close>); with a match the output parameter
  is the transaction found, whatever the option.
\<close>

definition FetchTransaction :: "SipTxnKey \<Rightarrow> txn_option \<Rightarrow> nat option \<Rightarrow> SipStack
    \<Rightarrow> bool \<times> nat option \<times> SipStack" where
  "FetchTransaction k opt pTxn u =
     (if \<not> env_callback (m_env u) then (False, pTxn, u)
      else case SipStackState_FindTransaction k (m_objTxnAggregate u) of
        None \<Rightarrow>
          if opt = TXN_CREATE then
            (case pTxn of None \<Rightarrow> (False, pTxn, u)
             | Some i \<Rightarrow>
                 (let u = Increment i u;
                      (ok, m) = SipStackState_AddTransaction k i (m_objTxnAggregate u)
                  in (ok, pTxn, u\<lparr>m_objTxnAggregate := m\<rparr>)))
          else (False, None, u)
      | Some e \<Rightarrow> (True, Some (snd e), u))"

text \<open>
  \<open>ReleaseTransaction\<close> with \<open>OPT_REMOVE\<close>: the entry goes, and with it the entry's reference.
\<close>

definition ReleaseTransaction :: "SipTxnKey \<Rightarrow> SipStack \<Rightarrow> nat option \<times> SipStack" where
  "ReleaseTransaction k u =
     (if \<not> env_callback (m_env u) then (None, u)
      else case SipStackState_RemoveTransaction k TXN_REMOVE (m_objTxnAggregate u) of
        (None, m) \<Rightarrow> (None, u)
      | (Some e, m) \<Rightarrow> (Some (snd e), SipDelete (snd e) (u\<lparr>m_objTxnAggregate := m\<rparr>)))"

definition SipTxn_RemoveFromTxnPool :: "SipTxnKey option \<Rightarrow> SipStack \<Rightarrow> SipStack" where
  "SipTxn_RemoveFromTxnPool pTxnKey u =
     (case pTxnKey of None \<Rightarrow> u
      | Some k \<Rightarrow>
          (case ReleaseTransaction k u of
             (None, u) \<Rightarrow> u
           | (Some i, u) \<Rightarrow> SipDelete i u))"

definition RemoveFromTxnPool :: "nat \<Rightarrow> SipStack \<Rightarrow> SipStack" where
  "RemoveFromTxnPool i u = SipTxn_RemoveFromTxnPool (m_pTxnKey (txn i u)) u"

text \<open>Writing through the key pointer that \<open>FetchTransaction\<close> hands out.\<close>

definition upd_out_key :: "nat \<Rightarrow> (SipTxnKey \<Rightarrow> SipTxnKey) \<Rightarrow> SipStack \<Rightarrow> SipStack" where
  "upd_out_key i f u = u\<lparr>m_objTxnAggregate := entry_key_update i f (m_objTxnAggregate u)\<rparr>"

section \<open>Fields of a transaction\<close>

definition SetTxnState :: "nat \<Rightarrow> txn_state \<Rightarrow> SipStack \<Rightarrow> SipStack" where
  "SetTxnState i st u = upd_txn i (\<lambda>t. t\<lparr>m_nTxnState := st\<rparr>) u"

definition SetMaxDuration :: "nat \<Rightarrow> SIP_UINT32 \<Rightarrow> SipStack \<Rightarrow> SipStack" where
  "SetMaxDuration i d u = upd_txn i (\<lambda>t. t\<lparr>m_nMaxDuration := d\<rparr>) u"

definition SetCurrentDuration :: "nat \<Rightarrow> SIP_UINT32 \<Rightarrow> SipStack \<Rightarrow> SipStack" where
  "SetCurrentDuration i d u = upd_txn i (\<lambda>t. t\<lparr>m_nCurrentDuration := d\<rparr>) u"

definition SetTimerId :: "nat \<Rightarrow> nat option \<Rightarrow> SipStack \<Rightarrow> SipStack" where
  "SetTimerId i h u = upd_txn i (\<lambda>t. t\<lparr>m_pvTimerId := h\<rparr>) u"

definition IncreaseTxnCount :: "nat \<Rightarrow> SipStack \<Rightarrow> SipStack" where
  "IncreaseTxnCount i u =
     upd_txn i (\<lambda>t. t\<lparr>m_nRetransmissionCount := m_nRetransmissionCount t + 1\<rparr>) u"

definition IncreaseDurationExpired :: "nat \<Rightarrow> SIP_UINT32 \<Rightarrow> SipStack \<Rightarrow> SipStack" where
  "IncreaseDurationExpired i d u =
     upd_txn i (\<lambda>t. t\<lparr>m_nDurationExpired := m_nDurationExpired t + d\<rparr>) u"

definition SetRprTxnTerminated :: "nat \<Rightarrow> bool \<Rightarrow> SipStack \<Rightarrow> SipStack" where
  "SetRprTxnTerminated i b u = upd_txn i (\<lambda>t. t\<lparr>m_bRprTxnTerminated := b\<rparr>) u"

definition SetAckReceived :: "nat \<Rightarrow> bool \<Rightarrow> SipStack \<Rightarrow> SipStack" where
  "SetAckReceived i b u = upd_txn i (\<lambda>t. t\<lparr>m_bAckReceived := b\<rparr>) u"

definition InitRetransmissionInfo :: "nat \<Rightarrow> SipStack \<Rightarrow> SipStack" where
  "InitRetransmissionInfo i u =
     upd_txn i (\<lambda>t. t\<lparr>m_nRetransmissionCount := 0, m_nMaxDuration := 0, m_nDurationExpired := 0,
                     m_nCurrentDuration := 0\<rparr>) u"

definition Txn_SetResponseCode :: "nat \<Rightarrow> SIP_UINT16 \<Rightarrow> SipStack \<Rightarrow> SipStack" where
  "Txn_SetResponseCode i n u =
     upd_txn i (\<lambda>t. t\<lparr>m_pTxnKey := map_option (SetResponseCode n) (m_pTxnKey t)\<rparr>) u"

definition SetUserData :: "nat \<Rightarrow> ISipUserData \<Rightarrow> SipStack \<Rightarrow> SipStack" where
  "SetUserData i ud u = upd_txn i (\<lambda>t. t\<lparr>m_pUserData := Some ud\<rparr>) u"

definition UpdateTranspInfo :: "nat \<Rightarrow> SipTransportInfo option \<Rightarrow> SipStack \<Rightarrow> SipStack" where
  "UpdateTranspInfo i ti u = upd_txn i (\<lambda>t. t\<lparr>m_pTranspInfo := ti\<rparr>) u"

text \<open>\<open>GetUserData\<close>: the pointer to the user data the transaction owns.\<close>

definition GetUserData :: "nat \<Rightarrow> SipStack \<Rightarrow> nat option" where
  "GetUserData i u = (if m_pUserData (txn i u) = None then None else Some i)"

text \<open>\<open>pUserData->SetUserData(p)\<close> and \<open>pUserData->GetUserData()\<close> through such a pointer.\<close>

definition UserData_Set :: "nat option \<Rightarrow> SipTxnContext option \<Rightarrow> SipStack \<Rightarrow> SipStack" where
  "UserData_Set pUserData ctx u =
     (case pUserData of None \<Rightarrow> u
      | Some i \<Rightarrow> upd_txn i (\<lambda>t. t\<lparr>m_pUserData := map_option (\<lambda>d. d\<lparr>m_pvUserData := ctx\<rparr>)
                                                     (m_pUserData t)\<rparr>) u)"

definition UserData_Get :: "nat option \<Rightarrow> SipStack \<Rightarrow> SipTxnContext option" where
  "UserData_Get pUserData u =
     (case pUserData of None \<Rightarrow> None
      | Some i \<Rightarrow> (case m_pUserData (txn i u) of None \<Rightarrow> None | Some d \<Rightarrow> m_pvUserData d))"

definition UserData_SetDeleteFlag :: "nat option \<Rightarrow> bool \<Rightarrow> SipStack \<Rightarrow> SipStack" where
  "UserData_SetDeleteFlag pUserData b u =
     (case pUserData of None \<Rightarrow> u
      | Some i \<Rightarrow> upd_txn i (\<lambda>t. t\<lparr>m_pUserData := map_option (\<lambda>d. d\<lparr>m_bDeleteFlag := b\<rparr>)
                                                     (m_pUserData t)\<rparr>) u)"

definition GetMsgSentProto :: "nat \<Rightarrow> SipStack \<Rightarrow> transp_protocol" where
  "GetMsgSentProto i u =
     (case m_pTranspInfo (txn i u) of None \<Rightarrow> PROTOCOL_INVALID
      | Some ti \<Rightarrow> (case m_pActualDestParam ti of None \<Rightarrow> PROTOCOL_INVALID
                   | Some p \<Rightarrow> m_nTranspProtocol p))"

definition terminated_state :: "sip_txn_type \<Rightarrow> txn_state \<Rightarrow> bool" where
  "terminated_state ty st \<longleftrightarrow>
     (case ty of INVITE_CLIENT \<Rightarrow> st = INV_CLI INV_CLI_TERMINATED_ST
      | NON_INVITE_CLIENT \<Rightarrow> st = NON_INV_CLI NON_INV_CLI_TERMINATED_ST
      | INVITE_SERVER \<Rightarrow> st = INV_SER INV_SER_TERMINATED_ST
      | NON_INVITE_SERVER \<Rightarrow> st = NON_INV_SER NON_INV_SER_TERMINATED_ST
      | INVALID \<Rightarrow> False)"

definition IsTxnTerminated :: "nat \<Rightarrow> SipStack \<Rightarrow> bool" where
  "IsTxnTerminated i u = terminated_state (m_eTxnType (txn i u)) (m_nTxnState (txn i u))"

definition timer_value :: "nat \<Rightarrow> sip_timer \<Rightarrow> SipStack \<Rightarrow> SIP_UINT32" where
  "timer_value i ty u = GetTimerValue (m_objTxnTimerValues (txn i u)) ty"

section \<open>Reading the stack after an update\<close>

lemma txn_upd_txn: "txn j (upd_txn i f u) = (if j = i then f (txn i u) else txn j u)"
  by (simp add: txn_def upd_txn_def)

lemma txn_upd_same [simp]: "txn i (upd_txn i f u) = f (txn i u)"
  by (simp add: txn_upd_txn)

lemma txn_upd_other [simp]: "j \<noteq> i \<Longrightarrow> txn j (upd_txn i f u) = txn j u"
  by (simp add: txn_upd_txn)

lemma upd_txn_frame [simp]:
  "m_nNextTxn (upd_txn i f u) = m_nNextTxn u"
  "m_objTxnAggregate (upd_txn i f u) = m_objTxnAggregate u"
  "s_txnKeyList (upd_txn i f u) = s_txnKeyList u"
  "m_timers (upd_txn i f u) = m_timers u"
  "m_nNextTimer (upd_txn i f u) = m_nNextTimer u"
  "m_pnError (upd_txn i f u) = m_pnError u"
  "m_outputs (upd_txn i f u) = m_outputs u"
  "m_env (upd_txn i f u) = m_env u"
  by (simp_all add: upd_txn_def)

lemma emit_frame [simp]:
  "txn i (emit x u) = txn i u"
  "m_nNextTxn (emit x u) = m_nNextTxn u"
  "m_objTxnAggregate (emit x u) = m_objTxnAggregate u"
  "s_txnKeyList (emit x u) = s_txnKeyList u"
  "m_timers (emit x u) = m_timers u"
  "m_nNextTimer (emit x u) = m_nNextTimer u"
  "m_pnError (emit x u) = m_pnError u"
  "m_outputs (emit x u) = m_outputs u @ [x]"
  "m_env (emit x u) = m_env u"
  by (simp_all add: emit_def txn_def)

lemma txn_field_frame [simp]:
  "txn i (u\<lparr>m_nNextTxn := a\<rparr>) = txn i u"
  "txn i (u\<lparr>m_objTxnAggregate := b\<rparr>) = txn i u"
  "txn i (u\<lparr>s_txnKeyList := c\<rparr>) = txn i u"
  "txn i (u\<lparr>m_timers := d\<rparr>) = txn i u"
  "txn i (u\<lparr>m_nNextTimer := e\<rparr>) = txn i u"
  "txn i (u\<lparr>m_pnError := f\<rparr>) = txn i u"
  "txn i (u\<lparr>m_outputs := g\<rparr>) = txn i u"
  by (simp_all add: txn_def)

lemma txn_alloc [simp]:
  "txn j (u\<lparr>m_txns := (m_txns u)(i := t), m_nNextTxn := n, m_pnError := e\<rparr>) =
     (if j = i then t else txn j u)"
  by (simp add: txn_def)

lemmas txn_set_defs =
  SetTxnState_def SetMaxDuration_def SetCurrentDuration_def SetTimerId_def IncreaseTxnCount_def
  IncreaseDurationExpired_def SetRprTxnTerminated_def SetAckReceived_def
  InitRetransmissionInfo_def Txn_SetResponseCode_def SetUserData_def UpdateTranspInfo_def
  Increment_def

text \<open>The operations that never move a machine: every transaction keeps its type and state.\<close>

lemma SipDelete_state [simp]:
  "m_nTxnState (txn j (SipDelete i u)) = m_nTxnState (txn j u)"
  "m_eTxnType (txn j (SipDelete i u)) = m_eTxnType (txn j u)"
  by (cases "j = i"; simp add: SipDelete_def SipTxn_destroy_def Let_def)+

lemma SipDelete_frame [simp]:
  "m_objTxnAggregate (SipDelete i u) = m_objTxnAggregate u"
  "s_txnKeyList (SipDelete i u) = s_txnKeyList u"
  "m_timers (SipDelete i u) = m_timers u"
  "m_pnError (SipDelete i u) = m_pnError u"
  "m_outputs (SipDelete i u) = m_outputs u"
  "m_env (SipDelete i u) = m_env u"
  "m_nNextTxn (SipDelete i u) = m_nNextTxn u"
  "m_nNextTimer (SipDelete i u) = m_nNextTimer u"
  by (simp_all add: SipDelete_def)

lemma Increment_state [simp]:
  "m_nTxnState (txn j (Increment i u)) = m_nTxnState (txn j u)"
  "m_eTxnType (txn j (Increment i u)) = m_eTxnType (txn j u)"
  by (cases "j = i"; simp add: Increment_def)+

lemma SetTimerId_state [simp]:
  "m_nTxnState (txn j (SetTimerId i h u)) = m_nTxnState (txn j u)"
  "m_eTxnType (txn j (SetTimerId i h u)) = m_eTxnType (txn j u)"
  by (cases "j = i"; simp add: SetTimerId_def)+

lemma UserData_Set_state [simp]:
  "m_nTxnState (txn j (UserData_Set p ctx u)) = m_nTxnState (txn j u)"
  "m_eTxnType (txn j (UserData_Set p ctx u)) = m_eTxnType (txn j u)"
  by (auto simp: UserData_Set_def txn_upd_txn split: option.splits)

lemma FetchTransaction_state [simp]:
  "m_nTxnState (txn j (snd (snd (FetchTransaction k opt p u)))) = m_nTxnState (txn j u)"
  "m_eTxnType (txn j (snd (snd (FetchTransaction k opt p u)))) = m_eTxnType (txn j u)"
  by (simp_all add: FetchTransaction_def Let_def split: option.splits prod.splits)

lemma ReleaseTransaction_state [simp]:
  "m_nTxnState (txn j (snd (ReleaseTransaction k u))) = m_nTxnState (txn j u)"
  "m_eTxnType (txn j (snd (ReleaseTransaction k u))) = m_eTxnType (txn j u)"
  by (simp_all add: ReleaseTransaction_def split: option.splits prod.splits)

lemma RemoveFromTxnPool_state [simp]:
  "m_nTxnState (txn j (SipTxn_RemoveFromTxnPool k u)) = m_nTxnState (txn j u)"
  "m_eTxnType (txn j (SipTxn_RemoveFromTxnPool k u)) = m_eTxnType (txn j u)"
  by (simp_all add: SipTxn_RemoveFromTxnPool_def split_beta split: option.splits)

lemma FetchTransaction_fetch:
  "FetchTransaction k TXN_FETCH p u =
     (if \<not> env_callback (m_env u) then (False, p, u)
      else case SipStackState_FindTransaction k (m_objTxnAggregate u) of
        None \<Rightarrow> (False, None, u) | Some e \<Rightarrow> (True, Some (snd e), u))"
  by (simp add: FetchTransaction_def)

end
