(* ===== verification/SipTxnTimeout.thy ===== *)
theory SipTxnTimeout
  imports SipTxn
begin

text \<open>
  Timers of a transaction: starting and stopping them (\<open>SipTxn::StartTxnTimer\<close>,
  \<open>StopTxnTimer\<close>, \<open>AbortTxn\<close>), the timeout handlers of the four machines
  (\<open>SipInviteClientTxn.cpp\<close>, \<open>SipInviteServerTxn.cpp\<close>, \<open>SipNonInviteClientTxn.cpp\<close>,
  \<open>SipNonInviteServerTxn.cpp\<close>) and the expiry callback \<open>CbkTxnTimeout\<close>.

  In the code \<open>StartTxnTimer\<close> with a zero duration runs \<open>CbkTxnTimeout\<close> at once, which runs a
  timeout handler, which may start a timer, but only with a positive duration. The model follows
  this order: first the branch for positive durations, then the timeout handlers, then the
  callback, then \<open>StartTxnTimer\<close> as a whole; \<open>StartTxnTimer_pos\<close> says that the timeout handlers
  call what the code calls.
\<close>

section \<open>The timer service\<close>

definition SipTimeoutData_new :: "sip_txn_type \<Rightarrow> sip_timer \<Rightarrow> SipTxnKey option \<Rightarrow> SipTimeoutData" where
  "SipTimeoutData_new ty tm pTxnKey =
     (let (k, nError) = SipTxnKey_Init pTxnKey 0
      in \<lparr> td_eTxnType = ty, td_eTimerType = tm,
           td_pTxnKey = (if nError = E_ERR_PF_MALLOCFAILED then None else Some k) \<rparr>)"

definition StartTimer :: "SIP_UINT32 \<Rightarrow> SipTimeoutData \<Rightarrow> SipStack \<Rightarrow> nat option \<times> SipStack" where
  "StartTimer nDuration td u =
     (let h = m_nNextTimer u in
      if env_timer_ok (m_env u) h
      then (Some h, u\<lparr>m_timers := (m_timers u)(h \<mapsto> (nDuration, td)), m_nNextTimer := Suc h\<rparr>)
      else (None, u\<lparr>m_nNextTimer := Suc h\<rparr>))"

definition StopTimer :: "nat \<Rightarrow> SipStack \<Rightarrow> SipStack" where
  "StopTimer h u = u\<lparr>m_timers := (m_timers u)(h := None)\<rparr>"

text \<open>\<open>StartTxnTimer\<close> for \<open>nDuration > 0\<close>.\<close>

definition StartTxnTimer_nonzero ::
    "nat \<Rightarrow> sip_timer \<Rightarrow> SIP_UINT32 \<Rightarrow> SipStack \<Rightarrow> bool \<times> SipStack" where
  "StartTxnTimer_nonzero i eTimerType nDuration u =
     (let td = SipTimeoutData_new (m_eTxnType (txn i u)) eTimerType (m_pTxnKey (txn i u)) in
      if \<not> env_callback (m_env u) then (False, u)
      else (case StartTimer nDuration td u of
              (None, u) \<Rightarrow> (False, SetTimerId i None u)
            | (Some h, u) \<Rightarrow>
                (True, upd_txn i (\<lambda>t. t\<lparr>m_pvTimerId := Some h, m_eTimerType := eTimerType,
                                       m_nCurrentDuration := nDuration\<rparr>) u)))"

definition StopTxnTimer :: "nat \<Rightarrow> SipStack \<Rightarrow> bool \<times> SipStack" where
  "StopTxnTimer i u =
     (case m_pvTimerId (txn i u) of
        None \<Rightarrow> (True, u)
      | Some h \<Rightarrow>
          if \<not> env_callback (m_env u) then (False, u)
          else (True, SetTimerId i None (StopTimer h u)))"

definition upd_key_list :: "(SipTxnKey list \<Rightarrow> SipTxnKey list) \<Rightarrow> SipStack \<Rightarrow> SipStack" where
  "upd_key_list f u = u\<lparr>s_txnKeyList := f (s_txnKeyList u)\<rparr>"

abbreviation SipTxnUtil_DeleteTxnKey :: "SipTxnKey option \<Rightarrow> bool \<Rightarrow> SipStack \<Rightarrow> SipStack" where
  "SipTxnUtil_DeleteTxnKey k bCheckToTag u \<equiv>
     upd_key_list (\<lambda>ks. snd (DeleteTxnKey k bCheckToTag ks)) u"

definition AbortTxn :: "nat \<Rightarrow> SipStack \<Rightarrow> SipStack" where
  "AbortTxn i u =
     (let u = (case m_pvTimerId (txn i u) of
                 None \<Rightarrow> u
               | Some h \<Rightarrow> if env_callback (m_env u) then SetTimerId i None (StopTimer h u) else u)
      in SipTxnUtil_DeleteTxnKey (m_pTxnKey (txn i u)) True u)"

section \<open>Timeout handlers\<close>

text \<open>The last part of the handlers that retransmit: start the timer for what is due next.\<close>

definition restart_timer :: "nat \<Rightarrow> sip_timer \<Rightarrow> SIP_UINT32 \<Rightarrow> SipStack \<Rightarrow> bool \<times> SipStack" where
  "restart_timer i eTimerType nDuration u =
     (if nDuration > 0 then
        (case StartTxnTimer_nonzero i eTimerType nDuration u of
           (False, u) \<Rightarrow> (False, u)
         | (True, u) \<Rightarrow>
             (True, SetCurrentDuration i nDuration
                      (IncreaseDurationExpired i nDuration (IncreaseTxnCount i u))))
      else (True, u))"

text \<open>"Timer T1 already fired": the first expiry finds no elapsed time and counts T1.\<close>

definition first_expiry :: "nat \<Rightarrow> SipStack \<Rightarrow> SIP_UINT32 \<times> SipStack" where
  "first_expiry i u =
     (let nDurationExpired = m_nDurationExpired (txn i u) in
      if nDurationExpired = 0
      then (let nT1Val = timer_value i TIMER_T1 u in (nT1Val, IncreaseDurationExpired i nT1Val u))
      else (nDurationExpired, u))"

text \<open>"Update the timer duration": never past the maximum.\<close>

definition clamp_duration :: "SIP_UINT32 \<Rightarrow> SIP_UINT32 \<Rightarrow> SIP_UINT32 \<Rightarrow> SIP_UINT32" where
  "clamp_duration nDurationExpired nMaxDuration nDuration =
     (if nDurationExpired + nDuration \<ge> nMaxDuration then nMaxDuration - nDurationExpired
      else nDuration)"

definition SIP_MIN :: "SIP_UINT32 \<Rightarrow> SIP_UINT32 \<Rightarrow> SIP_UINT32" where
  "SIP_MIN a b = (if a < b then a else b)"

subsection \<open>INVITE client\<close>

definition InvCli_CallingState_Timer_A_B_Timeout ::
    "nat \<Rightarrow> SipTimeoutData \<Rightarrow> SipStack \<Rightarrow> bool \<times> SipStack" where
  "InvCli_CallingState_Timer_A_B_Timeout i td u =
     (let nT1Val = timer_value i TIMER_T1 u;
          (nDurationExpired, u) = first_expiry i u;
          nReTxCount = m_nRetransmissionCount (txn i u);
          nMaxDuration = m_nMaxDuration (txn i u)
      in if GetMsgSentProto i u = PROTOCOL_UDP then
           (if nDurationExpired \<ge> nMaxDuration
            then restart_timer i TIMER_A 0 (SetTxnState i (INV_CLI INV_CLI_TERMINATED_ST) u)
            else
              (let nReTxCount = nReTxCount + 1;
                   nPow2 = push_bit (unat nReTxCount) (1 :: SIP_UINT32);
                   nDuration = nPow2 * nT1Val
               in restart_timer i TIMER_A (clamp_duration nDurationExpired nMaxDuration nDuration) u))
         else restart_timer i TIMER_A 0 (SetTxnState i (INV_CLI INV_CLI_TERMINATED_ST) u))"

definition InvCli_AcceptedState_Timer_M_Timeout ::
    "nat \<Rightarrow> SipTimeoutData \<Rightarrow> SipStack \<Rightarrow> bool \<times> SipStack" where
  "InvCli_AcceptedState_Timer_M_Timeout i td u =
     (True, SetTxnState i (INV_CLI INV_CLI_TERMINATED_ST)
              (SipTxnUtil_DeleteTxnKey (m_pTxnKey (txn i u)) False u))"

definition InvCli_CompletedState_Timer_D_Timeout ::
    "nat \<Rightarrow> SipTimeoutData \<Rightarrow> SipStack \<Rightarrow> bool \<times> SipStack" where
  "InvCli_CompletedState_Timer_D_Timeout i td u =
     (True, SetTxnState i (INV_CLI INV_CLI_TERMINATED_ST) u)"

subsection \<open>INVITE server\<close>

definition InvSer_ProceedingState_Timer_G_H_Timeout ::
    "nat \<Rightarrow> SipTimeoutData \<Rightarrow> SipStack \<Rightarrow> bool \<times> SipStack" where
  "InvSer_ProceedingState_Timer_G_H_Timeout i td u =
     (let (nDurationExpired, u) = first_expiry i u;
          nMaxDuration = m_nMaxDuration (txn i u)
      in if td_eTimerType td = TIMER_G then
           (if nDurationExpired \<ge> nMaxDuration then (True, SetRprTxnTerminated i True u)
            else
              (let nCurrentDuration = m_nCurrentDuration (txn i u);
                   nDuration = push_bit 1 nCurrentDuration
               in restart_timer i TIMER_G (clamp_duration nDurationExpired nMaxDuration nDuration) u))
         else (True, u))"

definition InvSer_AcceptedState_Timer_L_Timeout ::
    "nat \<Rightarrow> SipTimeoutData \<Rightarrow> SipStack \<Rightarrow> bool \<times> SipStack" where
  "InvSer_AcceptedState_Timer_L_Timeout i td u =
     (True, SetTxnState i (INV_SER INV_SER_TERMINATED_ST) u)"

definition InvSer_CompletedState_Timer_G_H_Timeout ::
    "nat \<Rightarrow> SipTimeoutData \<Rightarrow> SipStack \<Rightarrow> bool \<times> SipStack" where
  "InvSer_CompletedState_Timer_G_H_Timeout i td u =
     (let (nDurationExpired, u) = first_expiry i u;
          nMaxDuration = m_nMaxDuration (txn i u)
      in if GetMsgSentProto i u = PROTOCOL_UDP then
           (if nDurationExpired \<ge> nMaxDuration
            then restart_timer i TIMER_G 0 (SetTxnState i (INV_SER INV_SER_TERMINATED_ST) u)
            else
              (let nCurrentDuration = m_nCurrentDuration (txn i u);
                   nNextDuration = push_bit 1 nCurrentDuration;
                   nDuration = SIP_MIN nNextDuration (timer_value i TIMER_T2 u)
               in restart_timer i TIMER_G (clamp_duration nDurationExpired nMaxDuration nDuration) u))
         else restart_timer i TIMER_G 0 (SetTxnState i (INV_SER INV_SER_TERMINATED_ST) u))"

definition InvSer_ConfirmedState_Timer_I_Timeout ::
    "nat \<Rightarrow> SipTimeoutData \<Rightarrow> SipStack \<Rightarrow> bool \<times> SipStack" where
  "InvSer_ConfirmedState_Timer_I_Timeout i td u =
     (True, SetTxnState i (INV_SER INV_SER_TERMINATED_ST) u)"

subsection \<open>Non-INVITE client\<close>

definition NonInvCli_HandleTimeout ::
    "nat \<Rightarrow> SipTimeoutData \<Rightarrow> SipStack \<Rightarrow> bool \<times> SipStack" where
  "NonInvCli_HandleTimeout i td u =
     (let (nDurationExpired, u) = first_expiry i u;
          nMaxDuration = m_nMaxDuration (txn i u)
      in if GetMsgSentProto i u = PROTOCOL_UDP then
           (if nDurationExpired \<ge> nMaxDuration
            then restart_timer i TIMER_E 0 (SetTxnState i (NON_INV_CLI NON_INV_CLI_TERMINATED_ST) u)
            else
              (let nDurationT2 = timer_value i TIMER_T2 u;
                   nDuration =
                     (if m_nTxnState (txn i u) = NON_INV_CLI NON_INV_CLI_TRYING_ST
                      then SIP_MIN (push_bit 1 (m_nCurrentDuration (txn i u))) nDurationT2
                      else nDurationT2)
               in restart_timer i TIMER_E (clamp_duration nDurationExpired nMaxDuration nDuration) u))
         else restart_timer i TIMER_E 0 (SetTxnState i (NON_INV_CLI NON_INV_CLI_TERMINATED_ST) u))"

definition NonInvCli_TryingState_Timer_E_F_Timeout ::
    "nat \<Rightarrow> SipTimeoutData \<Rightarrow> SipStack \<Rightarrow> bool \<times> SipStack" where
  "NonInvCli_TryingState_Timer_E_F_Timeout i td u = NonInvCli_HandleTimeout i td u"

definition NonInvCli_ProceedingState_Timer_E_F_Timeout ::
    "nat \<Rightarrow> SipTimeoutData \<Rightarrow> SipStack \<Rightarrow> bool \<times> SipStack" where
  "NonInvCli_ProceedingState_Timer_E_F_Timeout i td u = NonInvCli_HandleTimeout i td u"

definition NonInvCli_CompletedState_Timer_K_Timeout ::
    "nat \<Rightarrow> SipTimeoutData \<Rightarrow> SipStack \<Rightarrow> bool \<times> SipStack" where
  "NonInvCli_CompletedState_Timer_K_Timeout i td u =
     (True, SetTxnState i (NON_INV_CLI NON_INV_CLI_TERMINATED_ST) u)"

subsection \<open>Non-INVITE server\<close>

definition NonInvSer_CompletedState_Timer_J_Timeout ::
    "nat \<Rightarrow> SipTimeoutData \<Rightarrow> SipStack \<Rightarrow> bool \<times> SipStack" where
  "NonInvSer_CompletedState_Timer_J_Timeout i td u =
     (True, SetTxnState i (NON_INV_SER NON_INV_SER_TERMINATED_ST) u)"

subsection \<open>The timeout columns of the four tables\<close>

text \<open>
  \<open>HandleInvalidStateEvent\<close>: only the INVITE client's one writes the error cell.
\<close>

definition InvCli_HandleInvalidStateEvent :: "SipStack \<Rightarrow> bool \<times> SipStack" where
  "InvCli_HandleInvalidStateEvent u = (False, u\<lparr>m_pnError := ETXN_FSMEVENTERROR\<rparr>)"

definition InvSer_HandleInvalidStateEvent :: "SipStack \<Rightarrow> bool \<times> SipStack" where
  "InvSer_HandleInvalidStateEvent u = (False, u)"

definition NonInvCli_HandleInvalidStateEvent :: "SipStack \<Rightarrow> bool \<times> SipStack" where
  "NonInvCli_HandleInvalidStateEvent u = (False, u)"

definition NonInvSer_HandleInvalidStateEvent :: "SipStack \<Rightarrow> bool \<times> SipStack" where
  "NonInvSer_HandleInvalidStateEvent u = (False, u)"

fun InvCli_timeout_fsm :: "inv_cli_state \<Rightarrow> inv_cli_event \<Rightarrow> nat \<Rightarrow> SipTimeoutData \<Rightarrow> SipStack
    \<Rightarrow> bool \<times> SipStack" where
  "InvCli_timeout_fsm INV_CLI_CALLING_ST INV_CLI_TIMER_A_B_TIME_OUT_EVT =
     InvCli_CallingState_Timer_A_B_Timeout"
| "InvCli_timeout_fsm INV_CLI_ACCEPTED_ST INV_CLI_TIMER_M_TIME_OUT_EVT =
     InvCli_AcceptedState_Timer_M_Timeout"
| "InvCli_timeout_fsm INV_CLI_COMPLETED_ST INV_CLI_TIMER_D_TIME_OUT_EVT =
     InvCli_CompletedState_Timer_D_Timeout"
| "InvCli_timeout_fsm _ _ = (\<lambda>i td. InvCli_HandleInvalidStateEvent)"

fun InvSer_timeout_fsm :: "inv_ser_state \<Rightarrow> inv_ser_event \<Rightarrow> nat \<Rightarrow> SipTimeoutData \<Rightarrow> SipStack
    \<Rightarrow> bool \<times> SipStack" where
  "InvSer_timeout_fsm INV_SER_PROCEEDING_ST INV_SER_TIMER_G_H_TIME_OUT_EVT =
     InvSer_ProceedingState_Timer_G_H_Timeout"
| "InvSer_timeout_fsm INV_SER_ACCEPTED_ST INV_SER_TIMER_L_TIME_OUT_EVT =
     InvSer_AcceptedState_Timer_L_Timeout"
| "InvSer_timeout_fsm INV_SER_COMPLETED_ST INV_SER_TIMER_G_H_TIME_OUT_EVT =
     InvSer_CompletedState_Timer_G_H_Timeout"
| "InvSer_timeout_fsm INV_SER_CONFIRMED_ST INV_SER_TIMER_I_TIME_OUT_EVT =
     InvSer_ConfirmedState_Timer_I_Timeout"
| "InvSer_timeout_fsm _ _ = (\<lambda>i td. InvSer_HandleInvalidStateEvent)"

fun NonInvCli_timeout_fsm :: "non_inv_cli_state \<Rightarrow> non_inv_cli_event \<Rightarrow> nat \<Rightarrow> SipTimeoutData
    \<Rightarrow> SipStack \<Rightarrow> bool \<times> SipStack" where
  "NonInvCli_timeout_fsm NON_INV_CLI_TRYING_ST NON_INV_CLI_TIMER_E_F_TIME_OUT_EVT =
     NonInvCli_TryingState_Timer_E_F_Timeout"
| "NonInvCli_timeout_fsm NON_INV_CLI_PROCEEDING_ST NON_INV_CLI_TIMER_E_F_TIME_OUT_EVT =
     NonInvCli_ProceedingState_Timer_E_F_Timeout"
| "NonInvCli_timeout_fsm NON_INV_CLI_COMPLETED_ST NON_INV_CLI_TIMER_K_TIME_OUT_EVT =
     NonInvCli_CompletedState_Timer_K_Timeout"
| "NonInvCli_timeout_fsm _ _ = (\<lambda>i td. NonInvCli_HandleInvalidStateEvent)"

fun NonInvSer_timeout_fsm :: "non_inv_ser_state \<Rightarrow> non_inv_ser_event \<Rightarrow> nat \<Rightarrow> SipTimeoutData
    \<Rightarrow> SipStack \<Rightarrow> bool \<times> SipStack" where
  "NonInvSer_timeout_fsm NON_INV_SER_COMPLETED_ST NON_INV_SER_TIMER_J_TIME_OUT_EVT =
     NonInvSer_CompletedState_Timer_J_Timeout"
| "NonInvSer_timeout_fsm _ _ = (\<lambda>i td. NonInvSer_HandleInvalidStateEvent)"

text \<open>\<open>InvokeFsm\<close> on the timeout events.\<close>

definition InvokeFsm_timeout :: "nat \<Rightarrow> txn_event \<Rightarrow> SipTimeoutData \<Rightarrow> SipStack \<Rightarrow> bool \<times> SipStack" where
  "InvokeFsm_timeout i nEvent td u =
     (case (m_eTxnType (txn i u), m_nTxnState (txn i u), nEvent) of
        (INVITE_CLIENT, INV_CLI st, EVT_INV_CLI ev) \<Rightarrow> InvCli_timeout_fsm st ev i td u
      | (INVITE_SERVER, INV_SER st, EVT_INV_SER ev) \<Rightarrow> InvSer_timeout_fsm st ev i td u
      | (NON_INVITE_CLIENT, NON_INV_CLI st, EVT_NON_INV_CLI ev) \<Rightarrow> NonInvCli_timeout_fsm st ev i td u
      | (NON_INVITE_SERVER, NON_INV_SER st, EVT_NON_INV_SER ev) \<Rightarrow> NonInvSer_timeout_fsm st ev i td u
      | _ \<Rightarrow> (False, u))"

section \<open>Expiry of a timer\<close>

definition DestroyTxnContext :: "SipTxnContext option \<Rightarrow> SipStack \<Rightarrow> SipStack" where
  "DestroyTxnContext pContext u =
     (case pContext of None \<Rightarrow> u | Some c \<Rightarrow> emit (OUT_DESTROY_CTX (ctx_id c)) u)"

text \<open>
  \<open>SipTransactionCallback::NotifyTimerExpired\<close>: the transaction forgets its context before the
  context is destroyed; the wait timers D, I, J, K, L and M are not reported to the TU.
\<close>

definition NotifyTimerExpired :: "nat option \<Rightarrow> sip_timer \<Rightarrow> SipStack \<Rightarrow> SipStack" where
  "NotifyTimerExpired pUserData nTimerType u =
     (let pTxnContext = UserData_Get pUserData u;
          u = UserData_Set pUserData None u
      in if nTimerType \<in> {TIMER_D, TIMER_I, TIMER_J, TIMER_K, TIMER_L, TIMER_M} then
           (let u = (case pTxnContext of None \<Rightarrow> u
                     | Some c \<Rightarrow> if nTimerType = TIMER_M \<and> ctx_tstate c \<noteq> None
                                then emit (OUT_CLEAR_FORKED (ctx_id c)) u else u)
            in DestroyTxnContext pTxnContext u)
         else
           (let u = (case pTxnContext of None \<Rightarrow> u
                     | Some c \<Rightarrow> if ctx_tstate c \<noteq> None
                                then emit (OUT_TIMER_EXPIRED nTimerType (ctx_id c)) u else u)
            in DestroyTxnContext pTxnContext u))"

text \<open>The event of a timer in a machine; \<open>None\<close> where the code logs a stack bug.\<close>

definition timeout_event :: "sip_txn_type \<Rightarrow> sip_timer \<Rightarrow> txn_event option" where
  "timeout_event eTxnType eTimerType =
     (case eTxnType of
        INVITE_CLIENT \<Rightarrow>
          (if eTimerType = TIMER_A \<or> eTimerType = TIMER_B
           then Some (EVT_INV_CLI INV_CLI_TIMER_A_B_TIME_OUT_EVT)
           else if eTimerType = TIMER_D then Some (EVT_INV_CLI INV_CLI_TIMER_D_TIME_OUT_EVT)
           else if eTimerType = TIMER_M then Some (EVT_INV_CLI INV_CLI_TIMER_M_TIME_OUT_EVT)
           else None)
      | NON_INVITE_CLIENT \<Rightarrow>
          (if eTimerType = TIMER_E \<or> eTimerType = TIMER_F
           then Some (EVT_NON_INV_CLI NON_INV_CLI_TIMER_E_F_TIME_OUT_EVT)
           else if eTimerType = TIMER_K
           then Some (EVT_NON_INV_CLI NON_INV_CLI_TIMER_K_TIME_OUT_EVT)
           else None)
      | INVITE_SERVER \<Rightarrow>
          (if eTimerType = TIMER_G \<or> eTimerType = TIMER_H
           then Some (EVT_INV_SER INV_SER_TIMER_G_H_TIME_OUT_EVT)
           else if eTimerType = TIMER_I then Some (EVT_INV_SER INV_SER_TIMER_I_TIME_OUT_EVT)
           else if eTimerType = TIMER_L then Some (EVT_INV_SER INV_SER_TIMER_L_TIME_OUT_EVT)
           else None)
      | NON_INVITE_SERVER \<Rightarrow>
          (if eTimerType = TIMER_J then Some (EVT_NON_INV_SER NON_INV_SER_TIMER_J_TIME_OUT_EVT)
           else None)
      | INVALID \<Rightarrow> None)"

text \<open>
  \<open>ISipNetworkUtil::SendToNetwork\<close>: the attempt is an output, the environment says whether it
  succeeds.
\<close>

definition Network_Send :: "SipTransportInfo \<Rightarrow> SipStack \<Rightarrow> bool \<times> SipStack" where
  "Network_Send ti u =
     (env_send_ok (m_env u) (length (m_outputs u)),
      emit (OUT_SEND (m_pSentBuffer ti) (m_pActualDestParam ti)) u)"

text \<open>
  \<open>CbkTxnTimeout\<close>. The error cell of the FSM call is a local variable of the callback; the
  caller's one is put back. A timeout without key cannot be looked up.
\<close>

definition CbkTxnTimeout :: "SipTimeoutData \<Rightarrow> nat option \<Rightarrow> SipStack \<Rightarrow> SipStack" where
  "CbkTxnTimeout td pvTimerId u =
     (case td_pTxnKey td of None \<Rightarrow> u
      | Some pTxnKey \<Rightarrow>
     (case FetchTransaction pTxnKey TXN_FETCH None u of
        (True, Some i, u) \<Rightarrow>
          (let u = Increment i u in
           if pvTimerId \<noteq> m_pvTimerId (txn i u) then SipDelete i u
           else
             (let u = SetTimerId i None u; pUserData = GetUserData i u in
              if IsTxnTerminated i u then
                (let u = NotifyTimerExpired pUserData TIMER_TYPE_INVALID u;
                     u = SipTxn_RemoveFromTxnPool (Some pTxnKey) u
                 in SipDelete i u)
              else
                case timeout_event (m_eTxnType (txn i u)) (td_eTimerType td) of
                  None \<Rightarrow> SipDelete i u
                | Some nEvent \<Rightarrow>
                    (let pnError = m_pnError u in
                     case InvokeFsm_timeout i nEvent td (u\<lparr>m_pnError := 0\<rparr>) of
                       (False, u) \<Rightarrow> SipDelete i (u\<lparr>m_pnError := pnError\<rparr>)
                     | (True, u) \<Rightarrow>
                         (let u = u\<lparr>m_pnError := pnError\<rparr>;
                              bTxnTerminated = IsTxnTerminated i u
                          in if bTxnTerminated \<or> m_bRprTxnTerminated (txn i u) then
                               (let u = NotifyTimerExpired pUserData (td_eTimerType td) u in
                                if bTxnTerminated
                                then SipDelete i (SipTxn_RemoveFromTxnPool (Some pTxnKey) u)
                                else u)
                             else
                               (case m_pTranspInfo (txn i u) of
                                  Some ti \<Rightarrow> SipDelete i (snd (Network_Send ti u))
                                | None \<Rightarrow> SipDelete i u)))))
      | (_, _, u) \<Rightarrow> u))"

text \<open>The platform's timer \<open>h\<close> expires: it is one-shot and hands its data to the callback.\<close>

definition Timer_TimerExpired :: "nat \<Rightarrow> SipStack \<Rightarrow> SipStack" where
  "Timer_TimerExpired h u =
     (case m_timers u h of None \<Rightarrow> u
      | Some (_, td) \<Rightarrow> CbkTxnTimeout td (Some h) (StopTimer h u))"

section \<open>Starting a timer of a transaction\<close>

definition StartTxnTimer ::
    "nat \<Rightarrow> sip_timer \<Rightarrow> SIP_UINT32 \<Rightarrow> SipStack \<Rightarrow> bool \<times> SipStack" where
  "StartTxnTimer i eTimerType nDuration u =
     (if nDuration > 0 then StartTxnTimer_nonzero i eTimerType nDuration u
      else
        (let td = SipTimeoutData_new (m_eTxnType (txn i u)) eTimerType (m_pTxnKey (txn i u));
             u = upd_txn i (\<lambda>t. t\<lparr>m_eTimerType := eTimerType, m_nCurrentDuration := nDuration\<rparr>) u;
             u = SetTimerId i None u
         in (True, CbkTxnTimeout td None u)))"

lemma StartTxnTimer_pos:
  "nDuration > 0 \<Longrightarrow> StartTxnTimer i ty nDuration u = StartTxnTimer_nonzero i ty nDuration u"
  by (simp add: StartTxnTimer_def)

lemma restart_timer_StartTxnTimer:
  "restart_timer i ty d u =
     (if d > 0 then
        (case StartTxnTimer i ty d u of
           (False, u) \<Rightarrow> (False, u)
         | (True, u) \<Rightarrow>
             (True, SetCurrentDuration i d (IncreaseDurationExpired i d (IncreaseTxnCount i u))))
      else (True, u))"
  by (simp add: restart_timer_def StartTxnTimer_pos)

section \<open>Event data\<close>

text \<open>
  What the \<open>pvData\<close> argument of an FSM handler points to; a handler reads it as the kind of
  data its column of the table is invoked with.
\<close>

datatype pvData = FSM_DATA SipTxnFsmData | TIMEOUT_DATA SipTimeoutData | TRANSP_ERROR_DATA

type_synonym fsm_handler = "nat \<Rightarrow> pvData \<Rightarrow> SipStack \<Rightarrow> bool \<times> pvData \<times> SipStack"

definition on_message :: "(nat \<Rightarrow> SipTxnFsmData \<Rightarrow> SipStack \<Rightarrow> bool \<times> SipTxnFsmData \<times> SipStack)
    \<Rightarrow> fsm_handler" where
  "on_message h i pv u =
     (case pv of FSM_DATA d \<Rightarrow> (case h i d u of (b, d, u) \<Rightarrow> (b, FSM_DATA d, u))
      | _ \<Rightarrow> (False, pv, u))"

definition on_timeout :: "(nat \<Rightarrow> SipTimeoutData \<Rightarrow> SipStack \<Rightarrow> bool \<times> SipStack) \<Rightarrow> fsm_handler" where
  "on_timeout h i pv u =
     (case pv of TIMEOUT_DATA td \<Rightarrow> (case h i td u of (b, u) \<Rightarrow> (b, pv, u))
      | _ \<Rightarrow> (False, pv, u))"

definition on_transp_error :: "(nat \<Rightarrow> SipStack \<Rightarrow> bool \<times> SipStack) \<Rightarrow> fsm_handler" where
  "on_transp_error h i pv u = (case h i u of (b, u) \<Rightarrow> (b, pv, u))"

definition on_invalid :: "(SipStack \<Rightarrow> bool \<times> SipStack) \<Rightarrow> fsm_handler" where
  "on_invalid h i pv u = (case h u of (b, u) \<Rightarrow> (b, pv, u))"

text \<open>Handlers build keys from messages and copy keys through \<open>pnError\<close>.\<close>

definition new_key_of_msg :: "SipMessage \<Rightarrow> SipStack \<Rightarrow> SipTxnKey \<times> SipStack" where
  "new_key_of_msg m u =
     (let (k, err) = SipTxnKey_of_msg m (m_pnError u) in (k, u\<lparr>m_pnError := err\<rparr>))"

definition new_key_copy :: "SipTxnKey option \<Rightarrow> SipStack \<Rightarrow> SipTxnKey \<times> SipStack" where
  "new_key_copy k u =
     (let (k, err) = SipTxnKey_Init k (m_pnError u) in (k, u\<lparr>m_pnError := err\<rparr>))"

section \<open>Steps the handlers share\<close>

text \<open>
  The first steps of the idle handlers of all machines: copy the key, enter the transaction
  into the table under the copy, add the table's reference. \<open>None\<close>: the handler fails here.
  The transaction may be replaced by one the table already has.
\<close>

definition add_to_db :: "nat \<Rightarrow> SipStack \<Rightarrow> (nat \<times> SipTxnKey) option \<times> SipStack" where
  "add_to_db i u =
     (let (pNewTxnKey, u) = new_key_copy (m_pTxnKey (txn i u)) u in
      if m_pnError u = E_ERR_PF_MALLOCFAILED then (None, u)
      else case FetchTransaction pNewTxnKey TXN_CREATE (Some i) u of
        (True, Some i, u) \<Rightarrow> (Some (i, pNewTxnKey), Increment i u)
      | (_, _, u) \<Rightarrow> (None, u))"

text \<open>"Set Userdata into Txn object": a new user-data object with the caller's context.\<close>

definition copy_user_data :: "nat \<Rightarrow> SipTxnFsmData \<Rightarrow> SipStack \<Rightarrow> SipStack" where
  "copy_user_data i d u =
     (case fd_pUserData d of None \<Rightarrow> u
      | Some ud \<Rightarrow> SetUserData i (ISipUserData_new (m_pvUserData ud)) u)"

text \<open>
  The transport parameter is only missing when no message is being sent; \<open>SendMsg\<close> rejects a
  NULL one before the FSM is reached.
\<close>

definition send_protocol :: "SipTxnFsmData \<Rightarrow> transp_protocol" where
  "send_protocol d =
     (case m_pTranspParam d of None \<Rightarrow> PROTOCOL_INVALID | Some p \<Rightarrow> m_nTranspProtocol p)"

section \<open>What these steps leave alone\<close>

text \<open>
  A case on a pair with a success flag, as a conditional: the form the proofs below compute
  with.
\<close>

lemmas step_simps = Let_def split_beta bool.case_eq_if

lemma fst_StartTxnTimer_zero [simp]: "fst (StartTxnTimer i ty 0 u)"
  by (simp add: StartTxnTimer_def step_simps)

lemma upd_key_list_frame [simp]:
  "txn i (upd_key_list f u) = txn i u"
  "m_objTxnAggregate (upd_key_list f u) = m_objTxnAggregate u"
  "s_txnKeyList (upd_key_list f u) = f (s_txnKeyList u)"
  "m_timers (upd_key_list f u) = m_timers u"
  "m_nNextTimer (upd_key_list f u) = m_nNextTimer u"
  "m_pnError (upd_key_list f u) = m_pnError u"
  "m_outputs (upd_key_list f u) = m_outputs u"
  "m_env (upd_key_list f u) = m_env u"
  "m_nNextTxn (upd_key_list f u) = m_nNextTxn u"
  by (simp_all add: upd_key_list_def)

lemma upd_out_key_frame [simp]:
  "txn i (upd_out_key j f u) = txn i u"
  "s_txnKeyList (upd_out_key j f u) = s_txnKeyList u"
  "m_timers (upd_out_key j f u) = m_timers u"
  "m_pnError (upd_out_key j f u) = m_pnError u"
  "m_outputs (upd_out_key j f u) = m_outputs u"
  "m_env (upd_out_key j f u) = m_env u"
  "m_objTxnAggregate (upd_out_key j f u) = entry_key_update j f (m_objTxnAggregate u)"
  by (simp_all add: upd_out_key_def)

lemma StopTimer_frame [simp]:
  "txn i (StopTimer h u) = txn i u"
  "m_objTxnAggregate (StopTimer h u) = m_objTxnAggregate u"
  "s_txnKeyList (StopTimer h u) = s_txnKeyList u"
  "m_timers (StopTimer h u) = (m_timers u)(h := None)"
  "m_nNextTimer (StopTimer h u) = m_nNextTimer u"
  "m_pnError (StopTimer h u) = m_pnError u"
  "m_outputs (StopTimer h u) = m_outputs u"
  "m_env (StopTimer h u) = m_env u"
  by (simp_all add: StopTimer_def)

lemma StartTimer_state [simp]: "txn j (snd (StartTimer d td u)) = txn j u"
  by (simp add: StartTimer_def Let_def)

lemma StopTxnTimer_state [simp]:
  "m_nTxnState (txn j (snd (StopTxnTimer i u))) = m_nTxnState (txn j u)"
  "m_eTxnType (txn j (snd (StopTxnTimer i u))) = m_eTxnType (txn j u)"
  by (simp_all add: StopTxnTimer_def split: option.splits)

lemma StartTxnTimer_nonzero_state [simp]:
  "m_nTxnState (txn j (snd (StartTxnTimer_nonzero i ty d u))) = m_nTxnState (txn j u)"
  "m_eTxnType (txn j (snd (StartTxnTimer_nonzero i ty d u))) = m_eTxnType (txn j u)"
  by (cases "j = i"; simp add: StartTxnTimer_nonzero_def StartTimer_def step_simps)+

lemma restart_timer_state [simp]:
  "m_nTxnState (txn j (snd (restart_timer i ty d u))) = m_nTxnState (txn j u)"
  "m_eTxnType (txn j (snd (restart_timer i ty d u))) = m_eTxnType (txn j u)"
  by (cases "j = i"; simp add: restart_timer_def step_simps IncreaseTxnCount_def
        IncreaseDurationExpired_def SetCurrentDuration_def)+

lemma restart_timer_0 [simp]: "restart_timer i ty 0 u = (True, u)"
  by (simp add: restart_timer_def)

lemma first_expiry_state [simp]:
  "m_nTxnState (txn j (snd (first_expiry i u))) = m_nTxnState (txn j u)"
  "m_eTxnType (txn j (snd (first_expiry i u))) = m_eTxnType (txn j u)"
  by (cases "j = i"; simp add: first_expiry_def Let_def IncreaseDurationExpired_def)+

lemma DestroyTxnContext_frame [simp]:
  "txn j (DestroyTxnContext c u) = txn j u"
  "m_env (DestroyTxnContext c u) = m_env u"
  "m_objTxnAggregate (DestroyTxnContext c u) = m_objTxnAggregate u"
  "m_timers (DestroyTxnContext c u) = m_timers u"
  "s_txnKeyList (DestroyTxnContext c u) = s_txnKeyList u"
  by (simp_all add: DestroyTxnContext_def split: option.splits)

lemma NotifyTimerExpired_state [simp]:
  "m_nTxnState (txn j (NotifyTimerExpired p ty u)) = m_nTxnState (txn j u)"
  "m_eTxnType (txn j (NotifyTimerExpired p ty u)) = m_eTxnType (txn j u)"
  by (simp_all add: NotifyTimerExpired_def Let_def split: option.splits)

lemma Network_Send_frame [simp]:
  "txn j (snd (Network_Send ti u)) = txn j u"
  "m_env (snd (Network_Send ti u)) = m_env u"
  "m_objTxnAggregate (snd (Network_Send ti u)) = m_objTxnAggregate u"
  "m_timers (snd (Network_Send ti u)) = m_timers u"
  "s_txnKeyList (snd (Network_Send ti u)) = s_txnKeyList u"
  by (simp_all add: Network_Send_def)

lemma SetTxnState_state [simp]:
  "m_nTxnState (txn j (SetTxnState i st u)) = (if j = i then st else m_nTxnState (txn j u))"
  "m_eTxnType (txn j (SetTxnState i st u)) = m_eTxnType (txn j u)"
  by (cases "j = i"; simp add: SetTxnState_def)+

lemma txn_setters_state [simp]:
  "m_nTxnState (txn j (SetMaxDuration i d u)) = m_nTxnState (txn j u)"
  "m_eTxnType (txn j (SetMaxDuration i d u)) = m_eTxnType (txn j u)"
  "m_nTxnState (txn j (SetCurrentDuration i d u)) = m_nTxnState (txn j u)"
  "m_eTxnType (txn j (SetCurrentDuration i d u)) = m_eTxnType (txn j u)"
  "m_nTxnState (txn j (IncreaseDurationExpired i d u)) = m_nTxnState (txn j u)"
  "m_eTxnType (txn j (IncreaseDurationExpired i d u)) = m_eTxnType (txn j u)"
  "m_nTxnState (txn j (SetRprTxnTerminated i b u)) = m_nTxnState (txn j u)"
  "m_eTxnType (txn j (SetRprTxnTerminated i b u)) = m_eTxnType (txn j u)"
  "m_nTxnState (txn j (SetAckReceived i b u)) = m_nTxnState (txn j u)"
  "m_eTxnType (txn j (SetAckReceived i b u)) = m_eTxnType (txn j u)"
  "m_nTxnState (txn j (InitRetransmissionInfo i u)) = m_nTxnState (txn j u)"
  "m_eTxnType (txn j (InitRetransmissionInfo i u)) = m_eTxnType (txn j u)"
  "m_nTxnState (txn j (SetUserData i ud u)) = m_nTxnState (txn j u)"
  "m_eTxnType (txn j (SetUserData i ud u)) = m_eTxnType (txn j u)"
  by (cases "j = i"; simp add: txn_set_defs)+

text \<open>The timeout handlers and the expiry callback, as far as states of transactions go.\<close>

lemmas timeout_handler_defs =
  InvCli_CallingState_Timer_A_B_Timeout_def InvCli_AcceptedState_Timer_M_Timeout_def
  InvCli_CompletedState_Timer_D_Timeout_def InvSer_ProceedingState_Timer_G_H_Timeout_def
  InvSer_AcceptedState_Timer_L_Timeout_def InvSer_CompletedState_Timer_G_H_Timeout_def
  InvSer_ConfirmedState_Timer_I_Timeout_def NonInvCli_HandleTimeout_def
  NonInvCli_TryingState_Timer_E_F_Timeout_def NonInvCli_ProceedingState_Timer_E_F_Timeout_def
  NonInvCli_CompletedState_Timer_K_Timeout_def NonInvSer_CompletedState_Timer_J_Timeout_def
  InvCli_HandleInvalidStateEvent_def InvSer_HandleInvalidStateEvent_def
  NonInvCli_HandleInvalidStateEvent_def NonInvSer_HandleInvalidStateEvent_def

lemma timeout_fsm_type [simp]:
  "m_eTxnType (txn j (snd (InvCli_timeout_fsm st1 e1 i td u))) = m_eTxnType (txn j u)"
  "m_eTxnType (txn j (snd (InvSer_timeout_fsm st2 e2 i td u))) = m_eTxnType (txn j u)"
  "m_eTxnType (txn j (snd (NonInvCli_timeout_fsm st3 e3 i td u))) = m_eTxnType (txn j u)"
  "m_eTxnType (txn j (snd (NonInvSer_timeout_fsm st4 e4 i td u))) = m_eTxnType (txn j u)"
  subgoal by (cases "(st1, e1)" rule: InvCli_timeout_fsm.cases; simp add: timeout_handler_defs step_simps)
  subgoal by (cases "(st2, e2)" rule: InvSer_timeout_fsm.cases; simp add: timeout_handler_defs step_simps)
  subgoal by (cases "(st3, e3)" rule: NonInvCli_timeout_fsm.cases; simp add: timeout_handler_defs step_simps)
  subgoal by (cases "(st4, e4)" rule: NonInvSer_timeout_fsm.cases; simp add: timeout_handler_defs step_simps)
  done

lemma timeout_fsm_other:
  "j \<noteq> i \<Longrightarrow> m_nTxnState (txn j (snd (InvCli_timeout_fsm st1 e1 i td u))) = m_nTxnState (txn j u)"
  "j \<noteq> i \<Longrightarrow> m_nTxnState (txn j (snd (InvSer_timeout_fsm st2 e2 i td u))) = m_nTxnState (txn j u)"
  "j \<noteq> i \<Longrightarrow> m_nTxnState (txn j (snd (NonInvCli_timeout_fsm st3 e3 i td u))) = m_nTxnState (txn j u)"
  "j \<noteq> i \<Longrightarrow> m_nTxnState (txn j (snd (NonInvSer_timeout_fsm st4 e4 i td u))) = m_nTxnState (txn j u)"
  subgoal by (cases "(st1, e1)" rule: InvCli_timeout_fsm.cases; simp add: timeout_handler_defs step_simps)
  subgoal by (cases "(st2, e2)" rule: InvSer_timeout_fsm.cases; simp add: timeout_handler_defs step_simps)
  subgoal by (cases "(st3, e3)" rule: NonInvCli_timeout_fsm.cases; simp add: timeout_handler_defs step_simps)
  subgoal by (cases "(st4, e4)" rule: NonInvSer_timeout_fsm.cases; simp add: timeout_handler_defs step_simps)
  done

lemma InvokeFsm_timeout_type [simp]:
  "m_eTxnType (txn j (snd (InvokeFsm_timeout i ev td u))) = m_eTxnType (txn j u)"
  by (simp add: InvokeFsm_timeout_def split: sip_txn_type.splits txn_state.splits txn_event.splits)

lemma InvokeFsm_timeout_other:
  "j \<noteq> i \<Longrightarrow> m_nTxnState (txn j (snd (InvokeFsm_timeout i ev td u))) = m_nTxnState (txn j u)"
  by (simp add: InvokeFsm_timeout_def timeout_fsm_other
        split: sip_txn_type.splits txn_state.splits txn_event.splits)

lemma InvokeFsm_timeout_proceeding:
  assumes "m_nTxnState (txn i u) = INV_SER INV_SER_PROCEEDING_ST"
  shows "m_nTxnState (txn i (snd (InvokeFsm_timeout i ev td u))) = INV_SER INV_SER_PROCEEDING_ST"
proof -
  have "m_nTxnState (txn i (snd (InvSer_timeout_fsm INV_SER_PROCEEDING_ST e i td u)))
      = INV_SER INV_SER_PROCEEDING_ST" for e
    using assms by (cases e; simp add: timeout_handler_defs step_simps)
  with assms show ?thesis
    by (simp add: InvokeFsm_timeout_def split: sip_txn_type.splits txn_event.splits)
qed

lemma CbkTxnTimeout_type [simp]:
  "m_eTxnType (txn j (CbkTxnTimeout td h u)) = m_eTxnType (txn j u)"
  by (simp add: CbkTxnTimeout_def FetchTransaction_fetch step_simps split: option.splits)

text \<open>An INVITE server that is proceeding is still so after any expiry.\<close>

lemma CbkTxnTimeout_proceeding:
  assumes "m_nTxnState (txn j u) = INV_SER INV_SER_PROCEEDING_ST"
  shows "m_nTxnState (txn j (CbkTxnTimeout td h u)) = INV_SER INV_SER_PROCEEDING_ST"
proof -
  have inv: "m_nTxnState (txn j (snd (InvokeFsm_timeout i ev td v))) = INV_SER INV_SER_PROCEEDING_ST"
    if "m_nTxnState (txn j v) = INV_SER INV_SER_PROCEEDING_ST" for i ev v
    using that by (cases "j = i") (simp_all add: InvokeFsm_timeout_other InvokeFsm_timeout_proceeding)
  show ?thesis
    using assms
    by (simp add: CbkTxnTimeout_def FetchTransaction_fetch step_simps inv split: option.splits)
qed

lemma StartTxnTimer_type [simp]:
  "m_eTxnType (txn j (snd (StartTxnTimer i ty d u))) = m_eTxnType (txn j u)"
  by (cases "j = i"; simp add: StartTxnTimer_def Let_def)

lemma StartTxnTimer_proceeding:
  "m_nTxnState (txn j u) = INV_SER INV_SER_PROCEEDING_ST \<Longrightarrow>
   m_nTxnState (txn j (snd (StartTxnTimer i ty d u))) = INV_SER INV_SER_PROCEEDING_ST"
  by (cases "j = i"; simp add: StartTxnTimer_def Let_def CbkTxnTimeout_proceeding)

lemma StartTxnTimer_fail_state:
  "\<not> fst (StartTxnTimer i ty d u) \<Longrightarrow>
   m_nTxnState (txn j (snd (StartTxnTimer i ty d u))) = m_nTxnState (txn j u)"
  by (auto simp: StartTxnTimer_def Let_def split: if_splits)

section \<open>Entering the table\<close>

text \<open>No transaction of the table matches the copy that the idle handlers make of the key.\<close>

definition not_in_table :: "nat \<Rightarrow> SipStack \<Rightarrow> bool" where
  "not_in_table i u \<longleftrightarrow>
     SipStackState_FindTransaction (fst (SipTxnKey_Init (m_pTxnKey (txn i u)) (m_pnError u)))
       (m_objTxnAggregate u) = None"

lemma add_to_db_state [simp]:
  "m_nTxnState (txn j (snd (add_to_db i u))) = m_nTxnState (txn j u)"
  "m_eTxnType (txn j (snd (add_to_db i u))) = m_eTxnType (txn j u)"
  by (simp_all add: add_to_db_def new_key_copy_def step_simps split: option.splits)

lemma add_to_db_new:
  "not_in_table i u \<Longrightarrow> fst (add_to_db i u) = Some jk \<Longrightarrow> fst jk = i"
  by (auto simp: not_in_table_def add_to_db_def new_key_copy_def step_simps FetchTransaction_def
           split: if_splits option.splits)

lemma copy_user_data_state [simp]:
  "m_nTxnState (txn j (copy_user_data i d u)) = m_nTxnState (txn j u)"
  "m_eTxnType (txn j (copy_user_data i d u)) = m_eTxnType (txn j u)"
  by (simp_all add: copy_user_data_def split: option.splits)

lemma new_key_state [simp]:
  "txn j (snd (new_key_of_msg m u)) = txn j u"
  "txn j (snd (new_key_copy k u)) = txn j u"
  by (simp_all add: new_key_of_msg_def new_key_copy_def split_beta)

end
