(* ===== verification/SipInviteClientTxn.thy ===== *)
theory SipInviteClientTxn
  imports SipTxnTimeout
begin

text \<open>
  The INVITE client transaction (\<open>protocol/sip/txn/SipInviteClientTxn.cpp\<close>): the handlers of
  message events and transport errors and the state table. Its timeout handlers are in
  \<open>SipTxnTimeout\<close>. The ACK for a failure response is built by \<open>SipTxn::PrepareACK\<close>
  (\<open>SipTxn.cpp\<close>) unless the TU supplies one.
\<close>

definition SIP_MAX_HOP :: nat where "SIP_MAX_HOP = 70"

definition PrepareACK :: "bool \<Rightarrow> SipMessage \<Rightarrow> SipMessage \<Rightarrow> SipMessage" where
  "PrepareACK bPANI pInvite pSipRespMsg =
     (let ack = SipMessage_new REQ_TYPE;
          ack = ack\<lparr>hdr_call_id := hdr_call_id pInvite\<rparr>;
          ack = ack\<lparr>hdr_from := hdr_from pSipRespMsg\<rparr>;
          ack = (case m_pReqLine pInvite of None \<Rightarrow> ack
                 | Some rl \<Rightarrow> ack\<lparr>m_pReqLine := Some \<lparr> rl_method = METHOD_NAME_ACK, rl_uri = rl_uri rl \<rparr>\<rparr>);
          ack = ack\<lparr>hdr_to := hdr_to pSipRespMsg\<rparr>;
          ack = ack\<lparr>hdr_via := hdr_via pInvite\<rparr>;
          ack = (case hdr_cseq pInvite of None \<Rightarrow> ack
                 | Some c \<Rightarrow> ack\<lparr>hdr_cseq := Some (c\<lparr>cseq_method := METHOD_NAME_ACK\<rparr>)\<rparr>);
          ack = ack\<lparr>hdr_max_forwards := Some SIP_MAX_HOP\<rparr>;
          ack = ack\<lparr>hdr_user_agent := hdr_user_agent pInvite\<rparr>;
          ack = (if bPANI then ack\<lparr>hdr_pani := hdr_pani pInvite\<rparr> else ack);
          ack = ack\<lparr>hdr_route := hdr_route pInvite\<rparr>
      in ack)"

definition Txn_PrepareACK :: "nat \<Rightarrow> SipMessage \<Rightarrow> SipStack \<Rightarrow> SipMessage option" where
  "Txn_PrepareACK i pSipRespMsg u =
     (case m_pSipMsg (txn i u) of None \<Rightarrow> None
      | Some pInvite \<Rightarrow>
          Some (PrepareACK (bPANIHeaderForACK (env_config (m_env u))) pInvite pSipRespMsg))"

definition InvCli_HandleFailureResponse :: "nat \<Rightarrow> SipTxnFsmData \<Rightarrow> SipStack
    \<Rightarrow> bool \<times> txn_state \<times> SipTxnFsmData \<times> SipStack" where
  "InvCli_HandleFailureResponse i d u =
     (let pSipAckMsg = (if env_callback (m_env u)
                        then env_create_ack (m_env u) (m_pSipMsgIn d) (m_pUserData (txn i u))
                        else None);
          pSipAckMsg = (case pSipAckMsg of None \<Rightarrow> Txn_PrepareACK i (m_pSipMsgIn d) u
                        | Some m \<Rightarrow> Some m)
      in case pSipAckMsg of
           None \<Rightarrow> (False, NO_STATE, d, u)
         | Some ack \<Rightarrow>
             (case StartTxnTimer i TIMER_D (timer_value i TIMER_D u) u of
                (False, u) \<Rightarrow> (False, NO_STATE, d, u)
              | (True, u) \<Rightarrow>
                  (True, INV_CLI INV_CLI_COMPLETED_ST, d\<lparr>m_pSendSipMsg := Some ack\<rparr>, u)))"

section \<open>Idle\<close>

definition InvCli_IdleState_SendInviteRequest ::
    "nat \<Rightarrow> SipTxnFsmData \<Rightarrow> SipStack \<Rightarrow> bool \<times> SipTxnFsmData \<times> SipStack" where
  "InvCli_IdleState_SendInviteRequest i d u =
     (case add_to_db i u of
        (None, u) \<Rightarrow> (False, d, u)
      | (Some (i, _), u) \<Rightarrow>
          (let nDurationTB = timer_value i TIMER_B u;
               eTranspProtocol = send_protocol d;
               (ok, u) = (if eTranspProtocol = PROTOCOL_UDP
                          then StartTxnTimer i TIMER_A (timer_value i TIMER_T1 u) u
                          else StartTxnTimer i TIMER_B nDurationTB u)
           in if \<not> ok then (False, d, RemoveFromTxnPool i u)
              else
                (let u = SetMaxDuration i nDurationTB u;
                     u = copy_user_data i d u;
                     d = d\<lparr>m_pOutUserData := GetUserData i u, m_bTxnCreated := True\<rparr>
                 in (True, d, SetTxnState i (INV_CLI INV_CLI_CALLING_ST) u))))"

section \<open>Calling\<close>

definition InvCli_CallingState_Receive1xxResponse ::
    "nat \<Rightarrow> SipTxnFsmData \<Rightarrow> SipStack \<Rightarrow> bool \<times> SipTxnFsmData \<times> SipStack" where
  "InvCli_CallingState_Receive1xxResponse i d u =
     (let (_, u) = StopTxnTimer i u;
          d = d\<lparr>m_pOutUserData := GetUserData i u, m_eTxnStatus := STATUS_VALID_MESSAGE\<rparr>;
          pMsgIn = m_pSipMsgIn d;
          u = (if SipStatusLine_code pMsgIn \<noteq> 100 \<and> hdr_rseq pMsgIn \<noteq> None
               then (let (k, u) = new_key_of_msg pMsgIn u in upd_key_list (AddTxnKey k) u)
               else u)
      in (True, d, SetTxnState i (INV_CLI INV_CLI_PROCEEDING_ST) u))"

definition InvCli_CallingState_Receive2xxResponse ::
    "nat \<Rightarrow> SipTxnFsmData \<Rightarrow> SipStack \<Rightarrow> bool \<times> SipTxnFsmData \<times> SipStack" where
  "InvCli_CallingState_Receive2xxResponse i d u =
     (let (_, u) = StopTxnTimer i u;
          d = d\<lparr>m_pOutUserData := GetUserData i u, m_eTxnStatus := STATUS_VALID_MESSAGE\<rparr>
      in case StartTxnTimer i TIMER_M (timer_value i TIMER_M u) u of
           (False, u) \<Rightarrow> (False, d, u)
         | (True, u) \<Rightarrow> (True, d, SetTxnState i (INV_CLI INV_CLI_ACCEPTED_ST) u))"

definition InvCli_CallingState_ReceiveFailureResponse ::
    "nat \<Rightarrow> SipTxnFsmData \<Rightarrow> SipStack \<Rightarrow> bool \<times> SipTxnFsmData \<times> SipStack" where
  "InvCli_CallingState_ReceiveFailureResponse i d u =
     (let (_, u) = StopTxnTimer i u in
      case InvCli_HandleFailureResponse i d u of
        (False, _, d, u) \<Rightarrow> (False, d, u)
      | (True, nNewTxnState, d, u) \<Rightarrow>
          (let d = (if nNewTxnState = INV_CLI INV_CLI_TERMINATED_ST
                    then d\<lparr>m_bTxnTerminated := True\<rparr> else d);
               d = d\<lparr>m_pOutUserData := GetUserData i u, m_eTxnStatus := STATUS_VALID_MESSAGE\<rparr>
           in (True, d, SetTxnState i nNewTxnState u)))"

definition InvCli_CallingState_TransportError :: "nat \<Rightarrow> SipStack \<Rightarrow> bool \<times> SipStack" where
  "InvCli_CallingState_TransportError i u =
     (let (_, u) = StopTxnTimer i u
      in (True, SetTxnState i (INV_CLI INV_CLI_TERMINATED_ST) u))"

section \<open>Proceeding\<close>

text \<open>
  A reliable provisional response: one whose RSeq is already listed is a retransmission; when
  the dialog is listed with another RSeq, only the next number is accepted and listed; otherwise
  the response is the first of its dialog and its key is listed.
\<close>

definition InvCli_ProceedingState_Receive1xxResponse ::
    "nat \<Rightarrow> SipTxnFsmData \<Rightarrow> SipStack \<Rightarrow> bool \<times> SipTxnFsmData \<times> SipStack" where
  "InvCli_ProceedingState_Receive1xxResponse i d u =
     (let d = d\<lparr>m_pOutUserData := GetUserData i u, m_eTxnStatus := STATUS_VALID_MESSAGE\<rparr>;
          pMsgIn = m_pSipMsgIn d
      in if SipStatusLine_code pMsgIn \<noteq> 100 \<and> hdr_rseq pMsgIn \<noteq> None then
           (let (pTempTxnKey, u) = new_key_of_msg pMsgIn u in
            case SearchTxnKey (Some pTempTxnKey) True (s_txnKeyList u) of
              Some _ \<Rightarrow> (True, d\<lparr>m_eTxnStatus := STATUS_RETRANSMISSION\<rparr>, u)
            | None \<Rightarrow>
                (case SearchTxnKey (Some pTempTxnKey) False (s_txnKeyList u) of
                   Some n \<Rightarrow>
                     (let nRseq = m_nRSeqNum pTempTxnKey;
                          pINVTxnKey = s_txnKeyList u ! n
                      in if m_nRSeqNum pINVTxnKey + 1 \<noteq> nRseq
                         then (True, d\<lparr>m_eTxnStatus := STATUS_STRAY_RESP\<rparr>, u)
                         else (True, d\<lparr>m_eTxnStatus := STATUS_VALID_MESSAGE\<rparr>,
                               upd_key_list (\<lambda>ks. ks[n := SetRSeq nRseq (ks ! n)]) u))
                 | None \<Rightarrow>
                     (True, d\<lparr>m_eTxnStatus := STATUS_VALID_MESSAGE\<rparr>,
                      upd_key_list (AddTxnKey pTempTxnKey) u)))
         else (True, d, u))"

definition InvCli_ProceedingState_Receive2xxResponse ::
    "nat \<Rightarrow> SipTxnFsmData \<Rightarrow> SipStack \<Rightarrow> bool \<times> SipTxnFsmData \<times> SipStack" where
  "InvCli_ProceedingState_Receive2xxResponse i d u =
     (let d = d\<lparr>m_pOutUserData := GetUserData i u, m_eTxnStatus := STATUS_VALID_MESSAGE\<rparr>;
          (pTempTxnKey, u) = new_key_of_msg (m_pSipMsgIn d) u;
          u = SipTxnUtil_DeleteTxnKey (Some pTempTxnKey) True u
      in case StartTxnTimer i TIMER_M (timer_value i TIMER_M u) u of
           (False, u) \<Rightarrow> (False, d, u)
         | (True, u) \<Rightarrow> (True, d, SetTxnState i (INV_CLI INV_CLI_ACCEPTED_ST) u))"

definition InvCli_ProceedingState_ReceiveFailureResponse ::
    "nat \<Rightarrow> SipTxnFsmData \<Rightarrow> SipStack \<Rightarrow> bool \<times> SipTxnFsmData \<times> SipStack" where
  "InvCli_ProceedingState_ReceiveFailureResponse i d u =
     (let u = SipTxnUtil_DeleteTxnKey (m_pTxnKey (txn i u)) False u in
      case InvCli_HandleFailureResponse i d u of
        (False, _, d, u) \<Rightarrow> (False, d, u)
      | (True, nNewTxnState, d, u) \<Rightarrow>
          (let d = (if nNewTxnState = INV_CLI INV_CLI_TERMINATED_ST
                    then d\<lparr>m_bTxnTerminated := True\<rparr> else d);
               d = d\<lparr>m_pOutUserData := GetUserData i u, m_eTxnStatus := STATUS_VALID_MESSAGE\<rparr>
           in (True, d, SetTxnState i nNewTxnState u)))"

definition InvCli_ProceedingState_TransportError :: "nat \<Rightarrow> SipStack \<Rightarrow> bool \<times> SipStack" where
  "InvCli_ProceedingState_TransportError i u =
     (True, SetTxnState i (INV_CLI INV_CLI_TERMINATED_ST) u)"

section \<open>Accepted\<close>

definition InvCli_AcceptedState_Receive1xxResponse ::
    "nat \<Rightarrow> SipTxnFsmData \<Rightarrow> SipStack \<Rightarrow> bool \<times> SipTxnFsmData \<times> SipStack" where
  "InvCli_AcceptedState_Receive1xxResponse i d u =
     (let d = d\<lparr>m_pOutUserData := GetUserData i u, m_eTxnStatus := STATUS_IGNORE_RESP\<rparr>;
          (pTempTxnKey, u) = new_key_of_msg (m_pSipMsgIn d) u;
          d = (if SearchTxnKey (Some pTempTxnKey) True (s_txnKeyList u) \<noteq> None
               then d\<lparr>m_eTxnStatus := STATUS_RETRANSMISSION\<rparr> else d)
      in (True, d, u))"

definition InvCli_AcceptedState_Receive2xxResponse ::
    "nat \<Rightarrow> SipTxnFsmData \<Rightarrow> SipStack \<Rightarrow> bool \<times> SipTxnFsmData \<times> SipStack" where
  "InvCli_AcceptedState_Receive2xxResponse i d u =
     (let (pTempTxnKey, u) = new_key_of_msg (m_pSipMsgIn d) u;
          u = SipTxnUtil_DeleteTxnKey (Some pTempTxnKey) True u
      in (True, d\<lparr>m_pOutUserData := GetUserData i u, m_eTxnStatus := STATUS_VALID_MESSAGE\<rparr>, u))"

definition InvCli_AcceptedState_ReceiveFailureResponse ::
    "nat \<Rightarrow> SipTxnFsmData \<Rightarrow> SipStack \<Rightarrow> bool \<times> SipTxnFsmData \<times> SipStack" where
  "InvCli_AcceptedState_ReceiveFailureResponse i d u =
     (let (pTempTxnKey, u) = new_key_of_msg (m_pSipMsgIn d) u;
          u = SipTxnUtil_DeleteTxnKey (Some pTempTxnKey) True u
      in (True, d\<lparr>m_pOutUserData := GetUserData i u, m_eTxnStatus := STATUS_IGNORE_RESP\<rparr>, u))"

definition InvCli_AcceptedState_TransportError :: "nat \<Rightarrow> SipStack \<Rightarrow> bool \<times> SipStack" where
  "InvCli_AcceptedState_TransportError i u =
     (let (_, u) = StopTxnTimer i u;
          u = SipTxnUtil_DeleteTxnKey (m_pTxnKey (txn i u)) False u
      in (True, SetTxnState i (INV_CLI INV_CLI_TERMINATED_ST) u))"

section \<open>Completed\<close>

definition InvCli_CompletedState_Receive1xxResponse ::
    "nat \<Rightarrow> SipTxnFsmData \<Rightarrow> SipStack \<Rightarrow> bool \<times> SipTxnFsmData \<times> SipStack" where
  "InvCli_CompletedState_Receive1xxResponse i d u =
     (True, d\<lparr>m_pOutUserData := GetUserData i u, m_eTxnStatus := STATUS_IGNORE_RESP\<rparr>, u)"

definition InvCli_CompletedState_ReceiveFailureResponse ::
    "nat \<Rightarrow> SipTxnFsmData \<Rightarrow> SipStack \<Rightarrow> bool \<times> SipTxnFsmData \<times> SipStack" where
  "InvCli_CompletedState_ReceiveFailureResponse i d u =
     (True, d\<lparr>m_eTxnStatus := STATUS_RETRANSMISSION, m_pOutUserData := GetUserData i u,
              fd_pTranspInfo := m_pTranspInfo (txn i u)\<rparr>, u)"

definition InvCli_CompletedState_TransportError :: "nat \<Rightarrow> SipStack \<Rightarrow> bool \<times> SipStack" where
  "InvCli_CompletedState_TransportError i u =
     (let (_, u) = StopTxnTimer i u
      in (True, SetTxnState i (INV_CLI INV_CLI_TERMINATED_ST) u))"

section \<open>The state table\<close>

fun gpfSipInvClientTxnFsm :: "inv_cli_state \<Rightarrow> inv_cli_event \<Rightarrow> fsm_handler" where
  "gpfSipInvClientTxnFsm INV_CLI_IDLE_ST INV_CLI_SEND_INV_REQ_EVT =
     on_message InvCli_IdleState_SendInviteRequest"
| "gpfSipInvClientTxnFsm INV_CLI_CALLING_ST INV_CLI_TIMER_A_B_TIME_OUT_EVT =
     on_timeout InvCli_CallingState_Timer_A_B_Timeout"
| "gpfSipInvClientTxnFsm INV_CLI_CALLING_ST INV_CLI_RECV_1XX_RESP_EVT =
     on_message InvCli_CallingState_Receive1xxResponse"
| "gpfSipInvClientTxnFsm INV_CLI_CALLING_ST INV_CLI_RECV_2XX_RESP_EVT =
     on_message InvCli_CallingState_Receive2xxResponse"
| "gpfSipInvClientTxnFsm INV_CLI_CALLING_ST INV_CLI_RECV_FAILURE_RESP_EVT =
     on_message InvCli_CallingState_ReceiveFailureResponse"
| "gpfSipInvClientTxnFsm INV_CLI_CALLING_ST INV_CLI_TRANSP_ERROR_EVT =
     on_transp_error InvCli_CallingState_TransportError"
| "gpfSipInvClientTxnFsm INV_CLI_PROCEEDING_ST INV_CLI_RECV_1XX_RESP_EVT =
     on_message InvCli_ProceedingState_Receive1xxResponse"
| "gpfSipInvClientTxnFsm INV_CLI_PROCEEDING_ST INV_CLI_RECV_2XX_RESP_EVT =
     on_message InvCli_ProceedingState_Receive2xxResponse"
| "gpfSipInvClientTxnFsm INV_CLI_PROCEEDING_ST INV_CLI_RECV_FAILURE_RESP_EVT =
     on_message InvCli_ProceedingState_ReceiveFailureResponse"
| "gpfSipInvClientTxnFsm INV_CLI_PROCEEDING_ST INV_CLI_TRANSP_ERROR_EVT =
     on_transp_error InvCli_ProceedingState_TransportError"
| "gpfSipInvClientTxnFsm INV_CLI_ACCEPTED_ST INV_CLI_RECV_1XX_RESP_EVT =
     on_message InvCli_AcceptedState_Receive1xxResponse"
| "gpfSipInvClientTxnFsm INV_CLI_ACCEPTED_ST INV_CLI_RECV_2XX_RESP_EVT =
     on_message InvCli_AcceptedState_Receive2xxResponse"
| "gpfSipInvClientTxnFsm INV_CLI_ACCEPTED_ST INV_CLI_RECV_FAILURE_RESP_EVT =
     on_message InvCli_AcceptedState_ReceiveFailureResponse"
| "gpfSipInvClientTxnFsm INV_CLI_ACCEPTED_ST INV_CLI_TRANSP_ERROR_EVT =
     on_transp_error InvCli_AcceptedState_TransportError"
| "gpfSipInvClientTxnFsm INV_CLI_ACCEPTED_ST INV_CLI_TIMER_M_TIME_OUT_EVT =
     on_timeout InvCli_AcceptedState_Timer_M_Timeout"
| "gpfSipInvClientTxnFsm INV_CLI_COMPLETED_ST INV_CLI_TIMER_D_TIME_OUT_EVT =
     on_timeout InvCli_CompletedState_Timer_D_Timeout"
| "gpfSipInvClientTxnFsm INV_CLI_COMPLETED_ST INV_CLI_RECV_1XX_RESP_EVT =
     on_message InvCli_CompletedState_Receive1xxResponse"
| "gpfSipInvClientTxnFsm INV_CLI_COMPLETED_ST INV_CLI_RECV_FAILURE_RESP_EVT =
     on_message InvCli_CompletedState_ReceiveFailureResponse"
| "gpfSipInvClientTxnFsm INV_CLI_COMPLETED_ST INV_CLI_TRANSP_ERROR_EVT =
     on_transp_error InvCli_CompletedState_TransportError"
| "gpfSipInvClientTxnFsm _ _ = on_invalid InvCli_HandleInvalidStateEvent"

end
