(* ===== verification/SipInviteServerTxn.thy ===== *)
theory SipInviteServerTxn
  imports SipTxnTimeout
begin

text \<open>
  The INVITE server transaction (\<open>protocol/sip/txn/SipInviteServerTxn.cpp\<close>): the handlers of
  message events and transport errors and the state table. Its timeout handlers are in
  \<open>SipTxnTimeout\<close>.
\<close>

section \<open>Idle\<close>

definition InvSer_IdleState_ReceiveInviteRequest ::
    "nat \<Rightarrow> SipTxnFsmData \<Rightarrow> SipStack \<Rightarrow> bool \<times> SipTxnFsmData \<times> SipStack" where
  "InvSer_IdleState_ReceiveInviteRequest i d u =
     (case add_to_db i u of
        (None, u) \<Rightarrow> (False, d, u)
      | (Some (i, _), u) \<Rightarrow>
          (let u = copy_user_data i d u;
               d = d\<lparr>m_pOutUserData := GetUserData i u, m_bTxnCreated := True,
                     m_eTxnStatus := STATUS_NEW_REQ_RECVD\<rparr>
           in (True, d, SetTxnState i (INV_SER INV_SER_PROCEEDING_ST) u)))"

section \<open>Proceeding\<close>

definition InvSer_ProceedingState_ReceiveInviteRequest ::
    "nat \<Rightarrow> SipTxnFsmData \<Rightarrow> SipStack \<Rightarrow> bool \<times> SipTxnFsmData \<times> SipStack" where
  "InvSer_ProceedingState_ReceiveInviteRequest i d u =
     (let d = d\<lparr>m_pOutUserData := GetUserData i u, fd_pTranspInfo := m_pTranspInfo (txn i u)\<rparr>;
          d = (if fd_pTranspInfo d \<noteq> None then d\<lparr>m_eTxnStatus := STATUS_RETRANSMISSION\<rparr>
               else d\<lparr>m_eTxnStatus := STATUS_IGNORE_REQ\<rparr>)
      in (True, d, u))"

text \<open>What every response sent in this state does first.\<close>

definition InvSer_stop_retransmission :: "nat \<Rightarrow> SipStack \<Rightarrow> SipStack" where
  "InvSer_stop_retransmission i u =
     (let (_, u) = StopTxnTimer i u;
          u = SipTxnUtil_DeleteTxnKey (m_pTxnKey (txn i u)) False u
      in InitRetransmissionInfo i u)"

definition InvSer_ProceedingState_SendNon100ProvisionalResponse ::
    "nat \<Rightarrow> SipTxnFsmData \<Rightarrow> SipStack \<Rightarrow> bool \<times> SipTxnFsmData \<times> SipStack" where
  "InvSer_ProceedingState_SendNon100ProvisionalResponse i d u =
     (let u = InvSer_stop_retransmission i u;
          pMsgIn = m_pSipMsgIn d;
          bRSeqExist = (hdr_rseq pMsgIn \<noteq> None);
          nStatusCode = SipStatusLine_code pMsgIn
      in if nStatusCode > 100 \<and> nStatusCode < 200 \<and> bRSeqExist then
           (let (pTxnKey, u) = new_key_copy (m_pTxnKey (txn i u)) u;
                u = upd_key_list (AddTxnKey (SetRSeq (GetRSeqNum_RSEQ pMsgIn) pTxnKey)) u;
                nDurationT1 = timer_value i TIMER_T1 u
            in case StartTxnTimer i TIMER_G nDurationT1 u of
                 (False, u) \<Rightarrow> (False, d, u)
               | (True, u) \<Rightarrow>
                   (True, d\<lparr>m_eTxnStatus := STATUS_VALID_MESSAGE\<rparr>,
                    SetMaxDuration i (nDurationT1 * 64) u))
         else (True, d\<lparr>m_eTxnStatus := STATUS_VALID_MESSAGE\<rparr>, u))"

definition InvSer_ProceedingState_SendFailureResponse ::
    "nat \<Rightarrow> SipTxnFsmData \<Rightarrow> SipStack \<Rightarrow> bool \<times> SipTxnFsmData \<times> SipStack" where
  "InvSer_ProceedingState_SendFailureResponse i d u =
     (let u = InvSer_stop_retransmission i u;
          nDurationTH = timer_value i TIMER_H u;
          (ok, u) = (if send_protocol d = PROTOCOL_UDP
                     then StartTxnTimer i TIMER_G (timer_value i TIMER_T1 u) u
                     else (case StartTxnTimer i TIMER_H nDurationTH u of
                             (False, u) \<Rightarrow> (False, u)
                           | (True, u) \<Rightarrow> (True, IncreaseDurationExpired i nDurationTH u)))
      in if \<not> ok then (False, d, u)
         else
           (let u = SetMaxDuration i nDurationTH u;
                d = d\<lparr>m_eTxnStatus := STATUS_VALID_MESSAGE\<rparr>
            in (True, d, SetTxnState i (INV_SER INV_SER_COMPLETED_ST) u)))"

text \<open>
  A 2xx response: Timer L absorbs what is still on its way; the To tag of the response goes into
  the key of the table's entry, so that the ACK, which has its own branch, finds the transaction.
\<close>

definition InvSer_ProceedingState_Send2xxResponse ::
    "nat \<Rightarrow> SipTxnFsmData \<Rightarrow> SipStack \<Rightarrow> bool \<times> SipTxnFsmData \<times> SipStack" where
  "InvSer_ProceedingState_Send2xxResponse i d u =
     (let u = InvSer_stop_retransmission i u;
          nDurationTL = timer_value i TIMER_L u
      in case StartTxnTimer i TIMER_L nDurationTL u of
           (True, u) \<Rightarrow>
             (let d = d\<lparr>m_eTxnStatus := STATUS_VALID_MESSAGE\<rparr>;
                  u = SetMaxDuration i nDurationTL u;
                  u = IncreaseDurationExpired i nDurationTL u;
                  u = SetTxnState i (INV_SER INV_SER_ACCEPTED_ST) u;
                  u = (case m_pTxnKey (txn i u) of None \<Rightarrow> u
                       | Some k \<Rightarrow>
                           (case FetchTransaction k TXN_FETCH None u of
                              (True, Some j, u) \<Rightarrow>
                                (case hdr_to (m_pSipMsgIn d) of None \<Rightarrow> u
                                 | Some pToHdr \<Rightarrow>
                                     (case na_tag pToHdr of None \<Rightarrow> u
                                      | Some tag \<Rightarrow> upd_out_key j (SetToTag (Some tag)) u))
                            | (_, _, u) \<Rightarrow> u))
              in (True, d, u))
         | (False, u) \<Rightarrow>
             (let d = d\<lparr>m_eTxnStatus := STATUS_VALID_MESSAGE, m_bTxnTerminated := True,
                        m_pOutUserData := GetUserData i u\<rparr>
              in (True, d, SetTxnState i (INV_SER INV_SER_TERMINATED_ST) u)))"

definition InvSer_ProceedingState_TransportError :: "nat \<Rightarrow> SipStack \<Rightarrow> bool \<times> SipStack" where
  "InvSer_ProceedingState_TransportError i u = (True, u)"

section \<open>Accepted\<close>

definition InvSer_AcceptedState_ReceiveInviteRequest ::
    "nat \<Rightarrow> SipTxnFsmData \<Rightarrow> SipStack \<Rightarrow> bool \<times> SipTxnFsmData \<times> SipStack" where
  "InvSer_AcceptedState_ReceiveInviteRequest i d u =
     (True, d\<lparr>m_eTxnStatus := STATUS_IGNORE_REQ, m_pOutUserData := GetUserData i u,
              fd_pTranspInfo := m_pTranspInfo (txn i u)\<rparr>, u)"

definition InvSer_AcceptedState_Send2xxResponse ::
    "nat \<Rightarrow> SipTxnFsmData \<Rightarrow> SipStack \<Rightarrow> bool \<times> SipTxnFsmData \<times> SipStack" where
  "InvSer_AcceptedState_Send2xxResponse i d u =
     (True, d\<lparr>m_eTxnStatus := STATUS_VALID_MESSAGE, m_pOutUserData := GetUserData i u\<rparr>, u)"

definition InvSer_AcceptedState_TransportError :: "nat \<Rightarrow> SipStack \<Rightarrow> bool \<times> SipStack" where
  "InvSer_AcceptedState_TransportError i u = (True, u)"

definition InvSer_AcceptedState_ReceiveAckRequest ::
    "nat \<Rightarrow> SipTxnFsmData \<Rightarrow> SipStack \<Rightarrow> bool \<times> SipTxnFsmData \<times> SipStack" where
  "InvSer_AcceptedState_ReceiveAckRequest i d u =
     (let (d, u) = (if m_bAckReceived (txn i u)
                    then (d\<lparr>m_eTxnStatus := STATUS_ACK_RETRANSMISSION\<rparr>, u)
                    else (d\<lparr>m_eTxnStatus := STATUS_VALID_MESSAGE\<rparr>, SetAckReceived i True u))
      in (True, d\<lparr>m_pOutUserData := GetUserData i u\<rparr>, u))"

section \<open>Completed\<close>

definition InvSer_CompletedState_ReceiveInviteRequest ::
    "nat \<Rightarrow> SipTxnFsmData \<Rightarrow> SipStack \<Rightarrow> bool \<times> SipTxnFsmData \<times> SipStack" where
  "InvSer_CompletedState_ReceiveInviteRequest i d u =
     (True, d\<lparr>m_eTxnStatus := STATUS_RETRANSMISSION, m_pOutUserData := GetUserData i u,
              fd_pTranspInfo := m_pTranspInfo (txn i u)\<rparr>, u)"

definition InvSer_CompletedState_TransportError :: "nat \<Rightarrow> SipStack \<Rightarrow> bool \<times> SipStack" where
  "InvSer_CompletedState_TransportError i u = (True, u)"

definition InvSer_CompletedState_ReceiveAckRequest ::
    "nat \<Rightarrow> SipTxnFsmData \<Rightarrow> SipStack \<Rightarrow> bool \<times> SipTxnFsmData \<times> SipStack" where
  "InvSer_CompletedState_ReceiveAckRequest i d u =
     (let (_, u) = StopTxnTimer i u;
          eTranspMsgSentProtocol = GetMsgSentProto i u;
          d = d\<lparr>m_eTxnStatus := STATUS_VALID_MESSAGE\<rparr>
      in if eTranspMsgSentProtocol = PROTOCOL_UDP then
           (let nDurationTI = timer_value i TIMER_I u;
                d = d\<lparr>m_pOutUserData := GetUserData i u\<rparr>
            in case StartTxnTimer i TIMER_I nDurationTI u of
                 (False, u) \<Rightarrow> (False, d, u)
               | (True, u) \<Rightarrow> (True, d, SetTxnState i (INV_SER INV_SER_CONFIRMED_ST) u))
         else
           (True, d\<lparr>m_bTxnTerminated := True, m_pOutUserData := GetUserData i u\<rparr>,
            SetTxnState i (INV_SER INV_SER_TERMINATED_ST) u))"

section \<open>Confirmed\<close>

definition InvSer_ConfirmedState_ReceiveAckRequest ::
    "nat \<Rightarrow> SipTxnFsmData \<Rightarrow> SipStack \<Rightarrow> bool \<times> SipTxnFsmData \<times> SipStack" where
  "InvSer_ConfirmedState_ReceiveAckRequest i d u =
     (True, d\<lparr>m_pOutUserData := GetUserData i u, m_eTxnStatus := STATUS_VALID_MESSAGE\<rparr>, u)"

section \<open>The state table\<close>

fun gpfSipInvSerTxnFsm :: "inv_ser_state \<Rightarrow> inv_ser_event \<Rightarrow> fsm_handler" where
  "gpfSipInvSerTxnFsm INV_SER_IDLE_ST INV_SER_RECV_INV_REQ_EVT =
     on_message InvSer_IdleState_ReceiveInviteRequest"
| "gpfSipInvSerTxnFsm INV_SER_PROCEEDING_ST INV_SER_RECV_INV_REQ_EVT =
     on_message InvSer_ProceedingState_ReceiveInviteRequest"
| "gpfSipInvSerTxnFsm INV_SER_PROCEEDING_ST INV_SER_SEND_NON_100_PROV_RESP_EVT =
     on_message InvSer_ProceedingState_SendNon100ProvisionalResponse"
| "gpfSipInvSerTxnFsm INV_SER_PROCEEDING_ST INV_SER_SEND_FAILURE_RESP_EVT =
     on_message InvSer_ProceedingState_SendFailureResponse"
| "gpfSipInvSerTxnFsm INV_SER_PROCEEDING_ST INV_SER_SEND_2XX_RESP_EVT =
     on_message InvSer_ProceedingState_Send2xxResponse"
| "gpfSipInvSerTxnFsm INV_SER_PROCEEDING_ST INV_SER_TRANSP_ERROR_EVT =
     on_transp_error InvSer_ProceedingState_TransportError"
| "gpfSipInvSerTxnFsm INV_SER_PROCEEDING_ST INV_SER_TIMER_G_H_TIME_OUT_EVT =
     on_timeout InvSer_ProceedingState_Timer_G_H_Timeout"
| "gpfSipInvSerTxnFsm INV_SER_ACCEPTED_ST INV_SER_RECV_INV_REQ_EVT =
     on_message InvSer_AcceptedState_ReceiveInviteRequest"
| "gpfSipInvSerTxnFsm INV_SER_ACCEPTED_ST INV_SER_SEND_2XX_RESP_EVT =
     on_message InvSer_AcceptedState_Send2xxResponse"
| "gpfSipInvSerTxnFsm INV_SER_ACCEPTED_ST INV_SER_TRANSP_ERROR_EVT =
     on_transp_error InvSer_AcceptedState_TransportError"
| "gpfSipInvSerTxnFsm INV_SER_ACCEPTED_ST INV_SER_RECV_ACK_REQ_EVT =
     on_message InvSer_AcceptedState_ReceiveAckRequest"
| "gpfSipInvSerTxnFsm INV_SER_ACCEPTED_ST INV_SER_TIMER_L_TIME_OUT_EVT =
     on_timeout InvSer_AcceptedState_Timer_L_Timeout"
| "gpfSipInvSerTxnFsm INV_SER_COMPLETED_ST INV_SER_RECV_INV_REQ_EVT =
     on_message InvSer_CompletedState_ReceiveInviteRequest"
| "gpfSipInvSerTxnFsm INV_SER_COMPLETED_ST INV_SER_TRANSP_ERROR_EVT =
     on_transp_error InvSer_CompletedState_TransportError"
| "gpfSipInvSerTxnFsm INV_SER_COMPLETED_ST INV_SER_RECV_ACK_REQ_EVT =
     on_message InvSer_CompletedState_ReceiveAckRequest"
| "gpfSipInvSerTxnFsm INV_SER_COMPLETED_ST INV_SER_TIMER_G_H_TIME_OUT_EVT =
     on_timeout InvSer_CompletedState_Timer_G_H_Timeout"
| "gpfSipInvSerTxnFsm INV_SER_CONFIRMED_ST INV_SER_RECV_ACK_REQ_EVT =
     on_message InvSer_ConfirmedState_ReceiveAckRequest"
| "gpfSipInvSerTxnFsm INV_SER_CONFIRMED_ST INV_SER_TIMER_I_TIME_OUT_EVT =
     on_timeout InvSer_ConfirmedState_Timer_I_Timeout"
| "gpfSipInvSerTxnFsm _ _ = on_invalid InvSer_HandleInvalidStateEvent"

end
