(* ===== verification/SipNonInviteClientTxn.thy ===== *)
theory SipNonInviteClientTxn
  imports SipTxnTimeout
begin

text \<open>
  The non-INVITE client transaction (\<open>protocol/sip/txn/SipNonInviteClientTxn.cpp\<close>): the
  handlers of message events and transport errors and the state table. Its timeout handlers are
  in \<open>SipTxnTimeout\<close>.
\<close>

definition NonInvCli_HandleFinalResponse :: "nat \<Rightarrow> SipStack \<Rightarrow> bool \<times> txn_state \<times> SipStack" where
  "NonInvCli_HandleFinalResponse i u =
     (let (_, u) = StopTxnTimer i u in
      if GetMsgSentProto i u = PROTOCOL_UDP then
        (let nDurationTK = timer_value i TIMER_K u in
         case StartTxnTimer i TIMER_K nDurationTK u of
           (False, u) \<Rightarrow> (False, NO_STATE, u)
         | (True, u) \<Rightarrow>
             (True, NON_INV_CLI NON_INV_CLI_COMPLETED_ST, SetCurrentDuration i nDurationTK u))
      else (True, NON_INV_CLI NON_INV_CLI_TERMINATED_ST, u))"

section \<open>Idle\<close>

definition NonInvCli_IdleState_SendNonInviteRequest ::
    "nat \<Rightarrow> SipTxnFsmData \<Rightarrow> SipStack \<Rightarrow> bool \<times> SipTxnFsmData \<times> SipStack" where
  "NonInvCli_IdleState_SendNonInviteRequest i d u =
     (case add_to_db i u of
        (None, u) \<Rightarrow> (False, d, u)
      | (Some (i, pNewTxnKey), u) \<Rightarrow>
          (let nDurationTF = timer_value i TIMER_F u;
               (ok, u) = (if send_protocol d = PROTOCOL_UDP
                          then StartTxnTimer i TIMER_E (timer_value i TIMER_T1 u) u
                          else StartTxnTimer i TIMER_F nDurationTF u)
           in if \<not> ok then (False, d, RemoveFromTxnPool i u)
              else
                (let u = SetMaxDuration i nDurationTF u;
                     u = copy_user_data i d u;
                     d = d\<lparr>m_pOutUserData := GetUserData i u, m_bTxnCreated := True\<rparr>;
                     u = SetTxnState i (NON_INV_CLI NON_INV_CLI_TRYING_ST) u;
                     u = (if SipPf_Strcmp (m_pszMethod pNewTxnKey) METHOD_NAME_CANCEL = 0
                          then SipTxnUtil_DeleteTxnKey (m_pTxnKey (txn i u)) False u else u)
                 in (True, d, u))))"

section \<open>Trying\<close>

definition NonInvCli_TryingState_Receive1xxResponse ::
    "nat \<Rightarrow> SipTxnFsmData \<Rightarrow> SipStack \<Rightarrow> bool \<times> SipTxnFsmData \<times> SipStack" where
  "NonInvCli_TryingState_Receive1xxResponse i d u =
     (True, d\<lparr>m_pOutUserData := GetUserData i u, m_eTxnStatus := STATUS_VALID_MESSAGE\<rparr>,
      SetTxnState i (NON_INV_CLI NON_INV_CLI_PROCEEDING_ST) u)"

definition NonInvCli_TryingState_ReceiveFinalResponse ::
    "nat \<Rightarrow> SipTxnFsmData \<Rightarrow> SipStack \<Rightarrow> bool \<times> SipTxnFsmData \<times> SipStack" where
  "NonInvCli_TryingState_ReceiveFinalResponse i d u =
     (case NonInvCli_HandleFinalResponse i u of
        (False, _, u) \<Rightarrow> (False, d, u)
      | (True, nNewTxnState, u) \<Rightarrow>
          (let d = (if nNewTxnState = NON_INV_CLI NON_INV_CLI_TERMINATED_ST
                    then d\<lparr>m_bTxnTerminated := True\<rparr> else d);
               d = d\<lparr>m_pOutUserData := GetUserData i u, m_eTxnStatus := STATUS_VALID_MESSAGE\<rparr>
           in (True, d, SetTxnState i nNewTxnState u)))"

definition NonInvCli_TryingState_TransportError :: "nat \<Rightarrow> SipStack \<Rightarrow> bool \<times> SipStack" where
  "NonInvCli_TryingState_TransportError i u =
     (let (_, u) = StopTxnTimer i u
      in (True, SetTxnState i (NON_INV_CLI NON_INV_CLI_TERMINATED_ST) u))"

section \<open>Proceeding\<close>

definition NonInvCli_ProceedingState_Receive1xxResponse ::
    "nat \<Rightarrow> SipTxnFsmData \<Rightarrow> SipStack \<Rightarrow> bool \<times> SipTxnFsmData \<times> SipStack" where
  "NonInvCli_ProceedingState_Receive1xxResponse i d u =
     (True, d\<lparr>m_pOutUserData := GetUserData i u, m_eTxnStatus := STATUS_VALID_MESSAGE\<rparr>, u)"

definition NonInvCli_ProceedingState_ReceiveFinalResponse ::
    "nat \<Rightarrow> SipTxnFsmData \<Rightarrow> SipStack \<Rightarrow> bool \<times> SipTxnFsmData \<times> SipStack" where
  "NonInvCli_ProceedingState_ReceiveFinalResponse i d u =
     (case NonInvCli_HandleFinalResponse i u of
        (False, _, u) \<Rightarrow> (False, d, u)
      | (True, nNewTxnState, u) \<Rightarrow>
          (let d = (if nNewTxnState = NON_INV_CLI NON_INV_CLI_TERMINATED_ST
                    then d\<lparr>m_bTxnTerminated := True\<rparr> else d);
               d = d\<lparr>m_eTxnStatus := STATUS_VALID_MESSAGE, m_pOutUserData := GetUserData i u\<rparr>
           in (True, d, SetTxnState i nNewTxnState u)))"

definition NonInvCli_ProceedingState_TransportError :: "nat \<Rightarrow> SipStack \<Rightarrow> bool \<times> SipStack" where
  "NonInvCli_ProceedingState_TransportError i u =
     (let (_, u) = StopTxnTimer i u
      in (True, SetTxnState i (NON_INV_CLI NON_INV_CLI_TERMINATED_ST) u))"

section \<open>Completed\<close>

definition NonInvCli_CompletedState_Receive1xxResponse ::
    "nat \<Rightarrow> SipTxnFsmData \<Rightarrow> SipStack \<Rightarrow> bool \<times> SipTxnFsmData \<times> SipStack" where
  "NonInvCli_CompletedState_Receive1xxResponse i d u =
     (True, d\<lparr>m_pOutUserData := GetUserData i u, m_eTxnStatus := STATUS_IGNORE_RESP\<rparr>, u)"

definition NonInvCli_CompletedState_ReceiveFinalResponse ::
    "nat \<Rightarrow> SipTxnFsmData \<Rightarrow> SipStack \<Rightarrow> bool \<times> SipTxnFsmData \<times> SipStack" where
  "NonInvCli_CompletedState_ReceiveFinalResponse i d u =
     (True, d\<lparr>m_pOutUserData := GetUserData i u, m_eTxnStatus := STATUS_IGNORE_RESP\<rparr>, u)"

definition NonInvCli_CompletedState_TransportError :: "nat \<Rightarrow> SipStack \<Rightarrow> bool \<times> SipStack" where
  "NonInvCli_CompletedState_TransportError i u =
     (let (_, u) = StopTxnTimer i u
      in (True, SetTxnState i (NON_INV_CLI NON_INV_CLI_TERMINATED_ST) u))"

section \<open>The state table\<close>

fun gpfSipNonInvClientTxnFsm :: "non_inv_cli_state \<Rightarrow> non_inv_cli_event \<Rightarrow> fsm_handler" where
  "gpfSipNonInvClientTxnFsm NON_INV_CLI_IDLE_ST NON_INV_CLI_SEND_NON_INV_REQ_EVT =
     on_message NonInvCli_IdleState_SendNonInviteRequest"
| "gpfSipNonInvClientTxnFsm NON_INV_CLI_TRYING_ST NON_INV_CLI_TIMER_E_F_TIME_OUT_EVT =
     on_timeout NonInvCli_TryingState_Timer_E_F_Timeout"
| "gpfSipNonInvClientTxnFsm NON_INV_CLI_TRYING_ST NON_INV_CLI_RECV_1XX_RESP_EVT =
     on_message NonInvCli_TryingState_Receive1xxResponse"
| "gpfSipNonInvClientTxnFsm NON_INV_CLI_TRYING_ST NON_INV_CLI_RECV_FINAL_RESP_EVT =
     on_message NonInvCli_TryingState_ReceiveFinalResponse"
| "gpfSipNonInvClientTxnFsm NON_INV_CLI_TRYING_ST NON_INV_CLI_TRANSP_ERROR_EVT =
     on_transp_error NonInvCli_TryingState_TransportError"
| "gpfSipNonInvClientTxnFsm NON_INV_CLI_PROCEEDING_ST NON_INV_CLI_TIMER_E_F_TIME_OUT_EVT =
     on_timeout NonInvCli_ProceedingState_Timer_E_F_Timeout"
| "gpfSipNonInvClientTxnFsm NON_INV_CLI_PROCEEDING_ST NON_INV_CLI_RECV_1XX_RESP_EVT =
     on_message NonInvCli_ProceedingState_Receive1xxResponse"
| "gpfSipNonInvClientTxnFsm NON_INV_CLI_PROCEEDING_ST NON_INV_CLI_RECV_FINAL_RESP_EVT =
     on_message NonInvCli_ProceedingState_ReceiveFinalResponse"
| "gpfSipNonInvClientTxnFsm NON_INV_CLI_PROCEEDING_ST NON_INV_CLI_TRANSP_ERROR_EVT =
     on_transp_error NonInvCli_ProceedingState_TransportError"
| "gpfSipNonInvClientTxnFsm NON_INV_CLI_COMPLETED_ST NON_INV_CLI_RECV_1XX_RESP_EVT =
     on_message NonInvCli_CompletedState_Receive1xxResponse"
| "gpfSipNonInvClientTxnFsm NON_INV_CLI_COMPLETED_ST NON_INV_CLI_RECV_FINAL_RESP_EVT =
     on_message NonInvCli_CompletedState_ReceiveFinalResponse"
| "gpfSipNonInvClientTxnFsm NON_INV_CLI_COMPLETED_ST NON_INV_CLI_TRANSP_ERROR_EVT =
     on_transp_error NonInvCli_CompletedState_TransportError"
| "gpfSipNonInvClientTxnFsm NON_INV_CLI_COMPLETED_ST NON_INV_CLI_TIMER_K_TIME_OUT_EVT =
     on_timeout NonInvCli_CompletedState_Timer_K_Timeout"
| "gpfSipNonInvClientTxnFsm _ _ = on_invalid NonInvCli_HandleInvalidStateEvent"

end
