(* ===== verification/SipNonInviteServerTxn.thy ===== *)
theory SipNonInviteServerTxn
  imports SipTxnTimeout
begin

text \<open>
  The non-INVITE server transaction (\<open>protocol/sip/txn/SipNonInviteServerTxn.cpp\<close>): the
  handlers of message events and transport errors and the state table. Its timeout handler is in
  \<open>SipTxnTimeout\<close>. A new PRACK stops the retransmissions of the provisional response it
  acknowledges.
\<close>

definition NonInvSer_SendFinalResponse ::
    "nat \<Rightarrow> SipTxnFsmData \<Rightarrow> SipStack \<Rightarrow> bool \<times> txn_state \<times> SipStack" where
  "NonInvSer_SendFinalResponse i d u =
     (if send_protocol d = PROTOCOL_UDP then
        (let nDurationTJ = timer_value i TIMER_J u in
         case StartTxnTimer i TIMER_J nDurationTJ u of
           (False, u) \<Rightarrow> (False, NO_STATE, u)
         | (True, u) \<Rightarrow>
             (True, NON_INV_SER NON_INV_SER_COMPLETED_ST, SetCurrentDuration i nDurationTJ u))
      else (True, NON_INV_SER NON_INV_SER_TERMINATED_ST, u))"

section \<open>Idle\<close>

text \<open>
  The PRACK part of the idle handler. The key object the handler writes the RAck number into is
  the one it has just entered into the table.
\<close>

definition NonInvSer_process_prack ::
    "nat \<Rightarrow> SipTxnKey \<Rightarrow> SipTxnFsmData \<Rightarrow> SipStack \<Rightarrow> SipTxnFsmData \<times> SipStack" where
  "NonInvSer_process_prack i pNewTxnKey d u =
     (let nRseqNum = GetRSeqNum_RACK (m_pSipMsgIn d);
          u = upd_out_key i (SetRSeq nRseqNum) u;
          pNewTxnKey = SetRSeq nRseqNum pNewTxnKey
      in case SearchTxnKey (Some pNewTxnKey) True (s_txnKeyList u) of
           Some n \<Rightarrow>
             (case FetchTransaction (s_txnKeyList u ! n) TXN_FETCH None u of
                (True, pInvSerTxn, u) \<Rightarrow>
                  (let u = (case pInvSerTxn of None \<Rightarrow> u | Some j \<Rightarrow> snd (StopTxnTimer j u))
                   in (d, SipTxnUtil_DeleteTxnKey (Some pNewTxnKey) True u))
              | (False, _, u) \<Rightarrow> (d, u))
         | None \<Rightarrow>
             (case SearchTxnKey (Some pNewTxnKey) False (s_txnKeyList u) of
                Some _ \<Rightarrow> (d\<lparr>m_eTxnStatus := STATUS_STRAY_PRACK\<rparr>, u)
              | None \<Rightarrow> (d, u)))"

definition NonInvSer_IdleState_ReceiveNonInviteRequest ::
    "nat \<Rightarrow> SipTxnFsmData \<Rightarrow> SipStack \<Rightarrow> bool \<times> SipTxnFsmData \<times> SipStack" where
  "NonInvSer_IdleState_ReceiveNonInviteRequest i d u =
     (if \<not> env_callback (m_env u) then (False, d, u)
      else case add_to_db i u of
        (None, u) \<Rightarrow> (False, d, u)
      | (Some (i, pNewTxnKey), u) \<Rightarrow>
          (let u = copy_user_data i d u;
               d = d\<lparr>m_pOutUserData := GetUserData i u, m_bTxnCreated := True,
                     m_eTxnStatus := STATUS_NEW_REQ_RECVD\<rparr>;
               u = SetTxnState i (NON_INV_SER NON_INV_SER_TRYING_ST) u
           in if SipMessage_GetMethodType (m_pSipMsgIn d) = METHOD_PRACK
              then (let (d, u) = NonInvSer_process_prack i pNewTxnKey d u in (True, d, u))
              else (True, d, u)))"

section \<open>Trying\<close>

definition NonInvSer_TryingState_ReceiveNonInviteRequest ::
    "nat \<Rightarrow> SipTxnFsmData \<Rightarrow> SipStack \<Rightarrow> bool \<times> SipTxnFsmData \<times> SipStack" where
  "NonInvSer_TryingState_ReceiveNonInviteRequest i d u =
     (True, d\<lparr>m_pOutUserData := GetUserData i u, m_eTxnStatus := STATUS_IGNORE_REQ\<rparr>, u)"

definition NonInvSer_TryingState_Send1xxResponse ::
    "nat \<Rightarrow> SipTxnFsmData \<Rightarrow> SipStack \<Rightarrow> bool \<times> SipTxnFsmData \<times> SipStack" where
  "NonInvSer_TryingState_Send1xxResponse i d u =
     (True, d\<lparr>m_eTxnStatus := STATUS_VALID_MESSAGE\<rparr>,
      SetTxnState i (NON_INV_SER NON_INV_SER_PROCEEDING_ST) u)"

definition NonInvSer_TryingState_SendFinalResponse ::
    "nat \<Rightarrow> SipTxnFsmData \<Rightarrow> SipStack \<Rightarrow> bool \<times> SipTxnFsmData \<times> SipStack" where
  "NonInvSer_TryingState_SendFinalResponse i d u =
     (case NonInvSer_SendFinalResponse i d u of
        (False, _, u) \<Rightarrow> (False, d, u)
      | (True, nNewTxnState, u) \<Rightarrow>
          (let d = (if nNewTxnState = NON_INV_SER NON_INV_SER_TERMINATED_ST
                    then d\<lparr>m_bTxnTerminated := True, m_pOutUserData := GetUserData i u\<rparr> else d);
               d = d\<lparr>m_eTxnStatus := STATUS_VALID_MESSAGE\<rparr>
           in (True, d, SetTxnState i nNewTxnState u)))"

definition NonInvSer_TryingState_TransportError :: "nat \<Rightarrow> SipStack \<Rightarrow> bool \<times> SipStack" where
  "NonInvSer_TryingState_TransportError i u =
     (True, SetTxnState i (NON_INV_SER NON_INV_SER_TERMINATED_ST) u)"

section \<open>Proceeding\<close>

definition NonInvSer_ProceedingState_ReceiveNonInviteRequest ::
    "nat \<Rightarrow> SipTxnFsmData \<Rightarrow> SipStack \<Rightarrow> bool \<times> SipTxnFsmData \<times> SipStack" where
  "NonInvSer_ProceedingState_ReceiveNonInviteRequest i d u =
     (True, d\<lparr>m_eTxnStatus := STATUS_RETRANSMISSION, m_pOutUserData := GetUserData i u,
              fd_pTranspInfo := m_pTranspInfo (txn i u)\<rparr>, u)"

definition NonInvSer_ProceedingState_Send1xxResponse ::
    "nat \<Rightarrow> SipTxnFsmData \<Rightarrow> SipStack \<Rightarrow> bool \<times> SipTxnFsmData \<times> SipStack" where
  "NonInvSer_ProceedingState_Send1xxResponse i d u =
     (True, d\<lparr>m_eTxnStatus := STATUS_VALID_MESSAGE\<rparr>, u)"

definition NonInvSer_ProceedingState_SendFinalResponse ::
    "nat \<Rightarrow> SipTxnFsmData \<Rightarrow> SipStack \<Rightarrow> bool \<times> SipTxnFsmData \<times> SipStack" where
  "NonInvSer_ProceedingState_SendFinalResponse i d u =
     (case NonInvSer_SendFinalResponse i d u of
        (False, _, u) \<Rightarrow> (False, d, u)
      | (True, nNewTxnState, u) \<Rightarrow>
          (let d = (if nNewTxnState = NON_INV_SER NON_INV_SER_TERMINATED_ST
                    then d\<lparr>m_bTxnTerminated := True, m_pOutUserData := GetUserData i u\<rparr> else d);
               d = d\<lparr>m_eTxnStatus := STATUS_VALID_MESSAGE\<rparr>
           in (True, d, SetTxnState i nNewTxnState u)))"

definition NonInvSer_ProceedingState_TransportError :: "nat \<Rightarrow> SipStack \<Rightarrow> bool \<times> SipStack" where
  "NonInvSer_ProceedingState_TransportError i u =
     (True, SetTxnState i (NON_INV_SER NON_INV_SER_TERMINATED_ST) u)"

section \<open>Completed\<close>

definition NonInvSer_CompletedState_ReceiveNonInviteRequest ::
    "nat \<Rightarrow> SipTxnFsmData \<Rightarrow> SipStack \<Rightarrow> bool \<times> SipTxnFsmData \<times> SipStack" where
  "NonInvSer_CompletedState_ReceiveNonInviteRequest i d u =
     (True, d\<lparr>m_eTxnStatus := STATUS_RETRANSMISSION, m_pOutUserData := GetUserData i u,
              fd_pTranspInfo := m_pTranspInfo (txn i u)\<rparr>, u)"

definition NonInvSer_CompletedState_TransportError :: "nat \<Rightarrow> SipStack \<Rightarrow> bool \<times> SipStack" where
  "NonInvSer_CompletedState_TransportError i u =
     (let (_, u) = StopTxnTimer i u
      in (True, SetTxnState i (NON_INV_SER NON_INV_SER_TERMINATED_ST) u))"

section \<open>The state table\<close>

fun gpfSipNonInvSerTxnFsm :: "non_inv_ser_state \<Rightarrow> non_inv_ser_event \<Rightarrow> fsm_handler" where
  "gpfSipNonInvSerTxnFsm NON_INV_SER_IDLE_ST NON_INV_SER_RECV_NON_INV_REQ_EVT =
     on_message NonInvSer_IdleState_ReceiveNonInviteRequest"
| "gpfSipNonInvSerTxnFsm NON_INV_SER_TRYING_ST NON_INV_SER_RECV_NON_INV_REQ_EVT =
     on_message NonInvSer_TryingState_ReceiveNonInviteRequest"
| "gpfSipNonInvSerTxnFsm NON_INV_SER_TRYING_ST NON_INV_SER_SEND_1XX_RESP_EVT =
     on_message NonInvSer_TryingState_Send1xxResponse"
| "gpfSipNonInvSerTxnFsm NON_INV_SER_TRYING_ST NON_INV_SER_SEND_FINAL_RESP_EVT =
     on_message NonInvSer_TryingState_SendFinalResponse"
| "gpfSipNonInvSerTxnFsm NON_INV_SER_TRYING_ST NON_INV_SER_TRANSP_ERROR_EVT =
     on_transp_error NonInvSer_TryingState_TransportError"
| "gpfSipNonInvSerTxnFsm NON_INV_SER_PROCEEDING_ST NON_INV_SER_RECV_NON_INV_REQ_EVT =
     on_message NonInvSer_ProceedingState_ReceiveNonInviteRequest"
| "gpfSipNonInvSerTxnFsm NON_INV_SER_PROCEEDING_ST NON_INV_SER_SEND_1XX_RESP_EVT =
     on_message NonInvSer_ProceedingState_Send1xxResponse"
| "gpfSipNonInvSerTxnFsm NON_INV_SER_PROCEEDING_ST NON_INV_SER_SEND_FINAL_RESP_EVT =
     on_message NonInvSer_ProceedingState_SendFinalResponse"
| "gpfSipNonInvSerTxnFsm NON_INV_SER_PROCEEDING_ST NON_INV_SER_TRANSP_ERROR_EVT =
     on_transp_error NonInvSer_ProceedingState_TransportError"
| "gpfSipNonInvSerTxnFsm NON_INV_SER_COMPLETED_ST NON_INV_SER_RECV_NON_INV_REQ_EVT =
     on_message NonInvSer_CompletedState_ReceiveNonInviteRequest"
| "gpfSipNonInvSerTxnFsm NON_INV_SER_COMPLETED_ST NON_INV_SER_TRANSP_ERROR_EVT =
     on_transp_error NonInvSer_CompletedState_TransportError"
| "gpfSipNonInvSerTxnFsm NON_INV_SER_COMPLETED_ST NON_INV_SER_TIMER_J_TIME_OUT_EVT =
     on_timeout NonInvSer_CompletedState_Timer_J_Timeout"
| "gpfSipNonInvSerTxnFsm _ _ = on_invalid NonInvSer_HandleInvalidStateEvent"

end
