(* ===== verification/SipTxnFsm.thy ===== *)
theory SipTxnFsm
  imports SipInviteClientTxn SipInviteServerTxn SipNonInviteClientTxn SipNonInviteServerTxn
begin

text \<open>
  The dispatcher \<open>SipTxn::InvokeFsm\<close> (\<open>protocol/sip/txn/SipTxn.cpp\<close>) over the four state tables,
  the abstract transition systems of the four machines and the proofs that every step of the
  code is one of theirs.
\<close>

section \<open>Dispatch\<close>

definition InvokeFsm :: "nat \<Rightarrow> txn_event \<Rightarrow> pvData \<Rightarrow> SipStack \<Rightarrow> bool \<times> pvData \<times> SipStack" where
  "InvokeFsm i nEvent pvData u =
     (case (m_eTxnType (txn i u), m_nTxnState (txn i u), nEvent) of
        (INVITE_CLIENT, INV_CLI st, EVT_INV_CLI ev) \<Rightarrow> gpfSipInvClientTxnFsm st ev i pvData u
      | (INVITE_SERVER, INV_SER st, EVT_INV_SER ev) \<Rightarrow> gpfSipInvSerTxnFsm st ev i pvData u
      | (NON_INVITE_CLIENT, NON_INV_CLI st, EVT_NON_INV_CLI ev) \<Rightarrow>
          gpfSipNonInvClientTxnFsm st ev i pvData u
      | (NON_INVITE_SERVER, NON_INV_SER st, EVT_NON_INV_SER ev) \<Rightarrow>
          gpfSipNonInvSerTxnFsm st ev i pvData u
      | _ \<Rightarrow> (False, pvData, u))"

section \<open>The abstract machines\<close>

text \<open>
  RFC 3261, section 17, with the Accepted states of RFC 6026. A step names the state, the event
  and the next state. The client's reliable transports are not singled out: the code lets the
  INVITE client pass through Completed on every transport.
\<close>

inductive inv_cli_step :: "inv_cli_state \<Rightarrow> inv_cli_event \<Rightarrow> inv_cli_state \<Rightarrow> bool" where
  "inv_cli_step INV_CLI_IDLE_ST INV_CLI_SEND_INV_REQ_EVT INV_CLI_CALLING_ST"
| "inv_cli_step INV_CLI_CALLING_ST INV_CLI_TIMER_A_B_TIME_OUT_EVT INV_CLI_CALLING_ST"
| "inv_cli_step INV_CLI_CALLING_ST INV_CLI_TIMER_A_B_TIME_OUT_EVT INV_CLI_TERMINATED_ST"
| "inv_cli_step INV_CLI_CALLING_ST INV_CLI_RECV_1XX_RESP_EVT INV_CLI_PROCEEDING_ST"
| "inv_cli_step INV_CLI_CALLING_ST INV_CLI_RECV_2XX_RESP_EVT INV_CLI_ACCEPTED_ST"
| "inv_cli_step INV_CLI_CALLING_ST INV_CLI_RECV_FAILURE_RESP_EVT INV_CLI_COMPLETED_ST"
| "inv_cli_step INV_CLI_CALLING_ST INV_CLI_TRANSP_ERROR_EVT INV_CLI_TERMINATED_ST"
| "inv_cli_step INV_CLI_PROCEEDING_ST INV_CLI_RECV_1XX_RESP_EVT INV_CLI_PROCEEDING_ST"
| "inv_cli_step INV_CLI_PROCEEDING_ST INV_CLI_RECV_2XX_RESP_EVT INV_CLI_ACCEPTED_ST"
| "inv_cli_step INV_CLI_PROCEEDING_ST INV_CLI_RECV_FAILURE_RESP_EVT INV_CLI_COMPLETED_ST"
| "inv_cli_step INV_CLI_PROCEEDING_ST INV_CLI_TRANSP_ERROR_EVT INV_CLI_TERMINATED_ST"
| "inv_cli_step INV_CLI_ACCEPTED_ST INV_CLI_RECV_1XX_RESP_EVT INV_CLI_ACCEPTED_ST"
| "inv_cli_step INV_CLI_ACCEPTED_ST INV_CLI_RECV_2XX_RESP_EVT INV_CLI_ACCEPTED_ST"
| "inv_cli_step INV_CLI_ACCEPTED_ST INV_CLI_RECV_FAILURE_RESP_EVT INV_CLI_ACCEPTED_ST"
| "inv_cli_step INV_CLI_ACCEPTED_ST INV_CLI_TRANSP_ERROR_EVT INV_CLI_TERMINATED_ST"
| "inv_cli_step INV_CLI_ACCEPTED_ST INV_CLI_TIMER_M_TIME_OUT_EVT INV_CLI_TERMINATED_ST"
| "inv_cli_step INV_CLI_COMPLETED_ST INV_CLI_TIMER_D_TIME_OUT_EVT INV_CLI_TERMINATED_ST"
| "inv_cli_step INV_CLI_COMPLETED_ST INV_CLI_RECV_1XX_RESP_EVT INV_CLI_COMPLETED_ST"
| "inv_cli_step INV_CLI_COMPLETED_ST INV_CLI_RECV_FAILURE_RESP_EVT INV_CLI_COMPLETED_ST"
| "inv_cli_step INV_CLI_COMPLETED_ST INV_CLI_TRANSP_ERROR_EVT INV_CLI_TERMINATED_ST"

inductive inv_ser_step :: "inv_ser_state \<Rightarrow> inv_ser_event \<Rightarrow> inv_ser_state \<Rightarrow> bool" where
  "inv_ser_step INV_SER_IDLE_ST INV_SER_RECV_INV_REQ_EVT INV_SER_PROCEEDING_ST"
| "inv_ser_step INV_SER_PROCEEDING_ST INV_SER_RECV_INV_REQ_EVT INV_SER_PROCEEDING_ST"
| "inv_ser_step INV_SER_PROCEEDING_ST INV_SER_SEND_NON_100_PROV_RESP_EVT INV_SER_PROCEEDING_ST"
| "inv_ser_step INV_SER_PROCEEDING_ST INV_SER_SEND_FAILURE_RESP_EVT INV_SER_COMPLETED_ST"
| "inv_ser_step INV_SER_PROCEEDING_ST INV_SER_SEND_2XX_RESP_EVT INV_SER_ACCEPTED_ST"
| "inv_ser_step INV_SER_PROCEEDING_ST INV_SER_SEND_2XX_RESP_EVT INV_SER_TERMINATED_ST"
| "inv_ser_step INV_SER_PROCEEDING_ST INV_SER_TRANSP_ERROR_EVT INV_SER_PROCEEDING_ST"
| "inv_ser_step INV_SER_PROCEEDING_ST INV_SER_TIMER_G_H_TIME_OUT_EVT INV_SER_PROCEEDING_ST"
| "inv_ser_step INV_SER_ACCEPTED_ST INV_SER_RECV_INV_REQ_EVT INV_SER_ACCEPTED_ST"
| "inv_ser_step INV_SER_ACCEPTED_ST INV_SER_SEND_2XX_RESP_EVT INV_SER_ACCEPTED_ST"
| "inv_ser_step INV_SER_ACCEPTED_ST INV_SER_TRANSP_ERROR_EVT INV_SER_ACCEPTED_ST"
| "inv_ser_step INV_SER_ACCEPTED_ST INV_SER_RECV_ACK_REQ_EVT INV_SER_ACCEPTED_ST"
| "inv_ser_step INV_SER_ACCEPTED_ST INV_SER_TIMER_L_TIME_OUT_EVT INV_SER_TERMINATED_ST"
| "inv_ser_step INV_SER_COMPLETED_ST INV_SER_RECV_INV_REQ_EVT INV_SER_COMPLETED_ST"
| "inv_ser_step INV_SER_COMPLETED_ST INV_SER_TRANSP_ERROR_EVT INV_SER_COMPLETED_ST"
| "inv_ser_step INV_SER_COMPLETED_ST INV_SER_RECV_ACK_REQ_EVT INV_SER_CONFIRMED_ST"
| "inv_ser_step INV_SER_COMPLETED_ST INV_SER_RECV_ACK_REQ_EVT INV_SER_TERMINATED_ST"
| "inv_ser_step INV_SER_COMPLETED_ST INV_SER_TIMER_G_H_TIME_OUT_EVT INV_SER_COMPLETED_ST"
| "inv_ser_step INV_SER_COMPLETED_ST INV_SER_TIMER_G_H_TIME_OUT_EVT INV_SER_TERMINATED_ST"
| "inv_ser_step INV_SER_CONFIRMED_ST INV_SER_RECV_ACK_REQ_EVT INV_SER_CONFIRMED_ST"
| "inv_ser_step INV_SER_CONFIRMED_ST INV_SER_TIMER_I_TIME_OUT_EVT INV_SER_TERMINATED_ST"

inductive non_inv_cli_step :: "non_inv_cli_state \<Rightarrow> non_inv_cli_event \<Rightarrow> non_inv_cli_state \<Rightarrow> bool" where
  "non_inv_cli_step NON_INV_CLI_IDLE_ST NON_INV_CLI_SEND_NON_INV_REQ_EVT NON_INV_CLI_TRYING_ST"
| "non_inv_cli_step NON_INV_CLI_TRYING_ST NON_INV_CLI_TIMER_E_F_TIME_OUT_EVT NON_INV_CLI_TRYING_ST"
| "non_inv_cli_step NON_INV_CLI_TRYING_ST NON_INV_CLI_TIMER_E_F_TIME_OUT_EVT NON_INV_CLI_TERMINATED_ST"
| "non_inv_cli_step NON_INV_CLI_TRYING_ST NON_INV_CLI_RECV_1XX_RESP_EVT NON_INV_CLI_PROCEEDING_ST"
| "non_inv_cli_step NON_INV_CLI_TRYING_ST NON_INV_CLI_RECV_FINAL_RESP_EVT NON_INV_CLI_COMPLETED_ST"
| "non_inv_cli_step NON_INV_CLI_TRYING_ST NON_INV_CLI_RECV_FINAL_RESP_EVT NON_INV_CLI_TERMINATED_ST"
| "non_inv_cli_step NON_INV_CLI_TRYING_ST NON_INV_CLI_TRANSP_ERROR_EVT NON_INV_CLI_TERMINATED_ST"
| "non_inv_cli_step NON_INV_CLI_PROCEEDING_ST NON_INV_CLI_TIMER_E_F_TIME_OUT_EVT NON_INV_CLI_PROCEEDING_ST"
| "non_inv_cli_step NON_INV_CLI_PROCEEDING_ST NON_INV_CLI_TIMER_E_F_TIME_OUT_EVT NON_INV_CLI_TERMINATED_ST"
| "non_inv_cli_step NON_INV_CLI_PROCEEDING_ST NON_INV_CLI_RECV_1XX_RESP_EVT NON_INV_CLI_PROCEEDING_ST"
| "non_inv_cli_step NON_INV_CLI_PROCEEDING_ST NON_INV_CLI_RECV_FINAL_RESP_EVT NON_INV_CLI_COMPLETED_ST"
| "non_inv_cli_step NON_INV_CLI_PROCEEDING_ST NON_INV_CLI_RECV_FINAL_RESP_EVT NON_INV_CLI_TERMINATED_ST"
| "non_inv_cli_step NON_INV_CLI_PROCEEDING_ST NON_INV_CLI_TRANSP_ERROR_EVT NON_INV_CLI_TERMINATED_ST"
| "non_inv_cli_step NON_INV_CLI_COMPLETED_ST NON_INV_CLI_RECV_1XX_RESP_EVT NON_INV_CLI_COMPLETED_ST"
| "non_inv_cli_step NON_INV_CLI_COMPLETED_ST NON_INV_CLI_RECV_FINAL_RESP_EVT NON_INV_CLI_COMPLETED_ST"
| "non_inv_cli_step NON_INV_CLI_COMPLETED_ST NON_INV_CLI_TRANSP_ERROR_EVT NON_INV_CLI_TERMINATED_ST"
| "non_inv_cli_step NON_INV_CLI_COMPLETED_ST NON_INV_CLI_TIMER_K_TIME_OUT_EVT NON_INV_CLI_TERMINATED_ST"

inductive non_inv_ser_step :: "non_inv_ser_state \<Rightarrow> non_inv_ser_event \<Rightarrow> non_inv_ser_state \<Rightarrow> bool" where
  "non_inv_ser_step NON_INV_SER_IDLE_ST NON_INV_SER_RECV_NON_INV_REQ_EVT NON_INV_SER_TRYING_ST"
| "non_inv_ser_step NON_INV_SER_TRYING_ST NON_INV_SER_RECV_NON_INV_REQ_EVT NON_INV_SER_TRYING_ST"
| "non_inv_ser_step NON_INV_SER_TRYING_ST NON_INV_SER_SEND_1XX_RESP_EVT NON_INV_SER_PROCEEDING_ST"
| "non_inv_ser_step NON_INV_SER_TRYING_ST NON_INV_SER_SEND_FINAL_RESP_EVT NON_INV_SER_COMPLETED_ST"
| "non_inv_ser_step NON_INV_SER_TRYING_ST NON_INV_SER_SEND_FINAL_RESP_EVT NON_INV_SER_TERMINATED_ST"
| "non_inv_ser_step NON_INV_SER_TRYING_ST NON_INV_SER_TRANSP_ERROR_EVT NON_INV_SER_TERMINATED_ST"
| "non_inv_ser_step NON_INV_SER_PROCEEDING_ST NON_INV_SER_RECV_NON_INV_REQ_EVT NON_INV_SER_PROCEEDING_ST"
| "non_inv_ser_step NON_INV_SER_PROCEEDING_ST NON_INV_SER_SEND_1XX_RESP_EVT NON_INV_SER_PROCEEDING_ST"
| "non_inv_ser_step NON_INV_SER_PROCEEDING_ST NON_INV_SER_SEND_FINAL_RESP_EVT NON_INV_SER_COMPLETED_ST"
| "non_inv_ser_step NON_INV_SER_PROCEEDING_ST NON_INV_SER_SEND_FINAL_RESP_EVT NON_INV_SER_TERMINATED_ST"
| "non_inv_ser_step NON_INV_SER_PROCEEDING_ST NON_INV_SER_TRANSP_ERROR_EVT NON_INV_SER_TERMINATED_ST"
| "non_inv_ser_step NON_INV_SER_COMPLETED_ST NON_INV_SER_RECV_NON_INV_REQ_EVT NON_INV_SER_COMPLETED_ST"
| "non_inv_ser_step NON_INV_SER_COMPLETED_ST NON_INV_SER_TRANSP_ERROR_EVT NON_INV_SER_TERMINATED_ST"
| "non_inv_ser_step NON_INV_SER_COMPLETED_ST NON_INV_SER_TIMER_J_TIME_OUT_EVT NON_INV_SER_TERMINATED_ST"

declare inv_cli_step.intros [intro]
declare inv_ser_step.intros [intro]
declare non_inv_cli_step.intros [intro]
declare non_inv_ser_step.intros [intro]

inductive_cases inv_cli_step_terminatedE [elim!]: "inv_cli_step INV_CLI_TERMINATED_ST ev st"
inductive_cases inv_ser_step_terminatedE [elim!]: "inv_ser_step INV_SER_TERMINATED_ST ev st"
inductive_cases non_inv_cli_step_terminatedE [elim!]:
  "non_inv_cli_step NON_INV_CLI_TERMINATED_ST ev st"
inductive_cases non_inv_ser_step_terminatedE [elim!]:
  "non_inv_ser_step NON_INV_SER_TERMINATED_ST ev st"

section \<open>Refinement\<close>

lemmas inv_cli_handler_defs =
  InvCli_IdleState_SendInviteRequest_def InvCli_CallingState_Receive1xxResponse_def
  InvCli_CallingState_Receive2xxResponse_def InvCli_CallingState_ReceiveFailureResponse_def
  InvCli_CallingState_TransportError_def InvCli_ProceedingState_Receive1xxResponse_def
  InvCli_ProceedingState_Receive2xxResponse_def InvCli_ProceedingState_ReceiveFailureResponse_def
  InvCli_ProceedingState_TransportError_def InvCli_AcceptedState_Receive1xxResponse_def
  InvCli_AcceptedState_Receive2xxResponse_def InvCli_AcceptedState_ReceiveFailureResponse_def
  InvCli_AcceptedState_TransportError_def InvCli_CompletedState_Receive1xxResponse_def
  InvCli_CompletedState_ReceiveFailureResponse_def InvCli_CompletedState_TransportError_def
  InvCli_HandleFailureResponse_def

lemmas dispatch_defs = on_message_def on_timeout_def on_transp_error_def on_invalid_def

text \<open>The next state of a transaction after a step, and whether the step succeeded.\<close>

lemma gpfSipInvClientTxnFsm_step:
  assumes "m_nTxnState (txn i u) = INV_CLI st"
    and "st = INV_CLI_IDLE_ST \<Longrightarrow> not_in_table i u"
  shows "\<exists>st'. m_nTxnState (txn i (snd (snd (gpfSipInvClientTxnFsm st ev i pv u)))) = INV_CLI st'
     \<and> (if fst (gpfSipInvClientTxnFsm st ev i pv u) then inv_cli_step st ev st' else st' = st)"
  using assms
  by (cases "(st, ev)" rule: gpfSipInvClientTxnFsm.cases; cases pv;
      auto simp: dispatch_defs inv_cli_handler_defs timeout_handler_defs step_simps
                 StartTxnTimer_fail_state RemoveFromTxnPool_def
           dest: add_to_db_new split: option.splits)

lemmas inv_ser_handler_defs =
  InvSer_IdleState_ReceiveInviteRequest_def InvSer_ProceedingState_ReceiveInviteRequest_def
  InvSer_ProceedingState_SendNon100ProvisionalResponse_def
  InvSer_ProceedingState_SendFailureResponse_def InvSer_ProceedingState_Send2xxResponse_def
  InvSer_ProceedingState_TransportError_def InvSer_AcceptedState_ReceiveInviteRequest_def
  InvSer_AcceptedState_Send2xxResponse_def InvSer_AcceptedState_TransportError_def
  InvSer_AcceptedState_ReceiveAckRequest_def InvSer_CompletedState_ReceiveInviteRequest_def
  InvSer_CompletedState_TransportError_def InvSer_CompletedState_ReceiveAckRequest_def
  InvSer_ConfirmedState_ReceiveAckRequest_def

lemma InvSer_stop_retransmission_state [simp]:
  "m_nTxnState (txn j (InvSer_stop_retransmission i u)) = m_nTxnState (txn j u)"
  "m_eTxnType (txn j (InvSer_stop_retransmission i u)) = m_eTxnType (txn j u)"
  by (simp_all add: InvSer_stop_retransmission_def step_simps)

lemma gpfSipInvSerTxnFsm_step:
  assumes "m_nTxnState (txn i u) = INV_SER st"
    and "st = INV_SER_IDLE_ST \<Longrightarrow> not_in_table i u"
  shows "\<exists>st'. m_nTxnState (txn i (snd (snd (gpfSipInvSerTxnFsm st ev i pv u)))) = INV_SER st'
     \<and> (if fst (gpfSipInvSerTxnFsm st ev i pv u) then inv_ser_step st ev st' else st' = st)"
  using assms
  by (cases "(st, ev)" rule: gpfSipInvSerTxnFsm.cases; cases pv;
      auto simp: dispatch_defs inv_ser_handler_defs timeout_handler_defs step_simps
                 StartTxnTimer_fail_state StartTxnTimer_proceeding FetchTransaction_fetch
           dest: add_to_db_new split: option.splits)

lemmas non_inv_cli_handler_defs =
  NonInvCli_IdleState_SendNonInviteRequest_def NonInvCli_TryingState_Receive1xxResponse_def
  NonInvCli_TryingState_ReceiveFinalResponse_def NonInvCli_TryingState_TransportError_def
  NonInvCli_ProceedingState_Receive1xxResponse_def
  NonInvCli_ProceedingState_ReceiveFinalResponse_def NonInvCli_ProceedingState_TransportError_def
  NonInvCli_CompletedState_Receive1xxResponse_def NonInvCli_CompletedState_ReceiveFinalResponse_def
  NonInvCli_CompletedState_TransportError_def NonInvCli_HandleFinalResponse_def

lemma gpfSipNonInvClientTxnFsm_step:
  assumes "m_nTxnState (txn i u) = NON_INV_CLI st"
    and "st = NON_INV_CLI_IDLE_ST \<Longrightarrow> not_in_table i u"
  shows "\<exists>st'. m_nTxnState (txn i (snd (snd (gpfSipNonInvClientTxnFsm st ev i pv u)))) = NON_INV_CLI st'
     \<and> (if fst (gpfSipNonInvClientTxnFsm st ev i pv u) then non_inv_cli_step st ev st' else st' = st)"
  using assms
  by (cases "(st, ev)" rule: gpfSipNonInvClientTxnFsm.cases; cases pv;
      auto simp: dispatch_defs non_inv_cli_handler_defs timeout_handler_defs step_simps
                 StartTxnTimer_fail_state RemoveFromTxnPool_def
           dest: add_to_db_new split: option.splits)

lemmas non_inv_ser_handler_defs =
  NonInvSer_IdleState_ReceiveNonInviteRequest_def NonInvSer_TryingState_ReceiveNonInviteRequest_def
  NonInvSer_TryingState_Send1xxResponse_def NonInvSer_TryingState_SendFinalResponse_def
  NonInvSer_TryingState_TransportError_def NonInvSer_ProceedingState_ReceiveNonInviteRequest_def
  NonInvSer_ProceedingState_Send1xxResponse_def NonInvSer_ProceedingState_SendFinalResponse_def
  NonInvSer_ProceedingState_TransportError_def NonInvSer_CompletedState_ReceiveNonInviteRequest_def
  NonInvSer_CompletedState_TransportError_def NonInvSer_SendFinalResponse_def

lemma NonInvSer_process_prack_state [simp]:
  "m_nTxnState (txn j (snd (NonInvSer_process_prack i k d u))) = m_nTxnState (txn j u)"
  "m_eTxnType (txn j (snd (NonInvSer_process_prack i k d u))) = m_eTxnType (txn j u)"
  by (simp_all add: NonInvSer_process_prack_def step_simps FetchTransaction_fetch
        split: option.splits)

lemma gpfSipNonInvSerTxnFsm_step:
  assumes "m_nTxnState (txn i u) = NON_INV_SER st"
    and "st = NON_INV_SER_IDLE_ST \<Longrightarrow> not_in_table i u"
  shows "\<exists>st'. m_nTxnState (txn i (snd (snd (gpfSipNonInvSerTxnFsm st ev i pv u)))) = NON_INV_SER st'
     \<and> (if fst (gpfSipNonInvSerTxnFsm st ev i pv u) then non_inv_ser_step st ev st' else st' = st)"
  using assms
  by (cases "(st, ev)" rule: gpfSipNonInvSerTxnFsm.cases; cases pv;
      auto simp: dispatch_defs non_inv_ser_handler_defs timeout_handler_defs step_simps
                 StartTxnTimer_fail_state
           dest: add_to_db_new split: option.splits)

end
