(* ===== verification/SipTxnHandler.thy ===== *)
theory SipTxnHandler
  imports SipTxnFsm
begin

text \<open>
  The transaction handler (\<open>protocol/sip/txn/SipTxnHandler.cpp\<close>): which machine a message
  belongs to, looking the transaction up or creating it, turning a status code into an event,
  running the machine and releasing what it leaves. \<open>SipTxnInfo\<close> is what a call reports to the
  stack manager; its user-data pointer is the address of a transaction.
\<close>

record SipTxnInfo =
  ti_pSendSipMsg :: "SipMessage option"
  ti_pUserData :: "nat option"
  ti_pTranspInfo :: "SipTransportInfo option"
  ti_eTxnStatus :: txn_status
  ti_bTxnTerminated :: bool
  ti_bTxnCreated :: bool

definition SipTxnInfo_new :: SipTxnInfo where
  "SipTxnInfo_new = \<lparr> ti_pSendSipMsg = None, ti_pUserData = None, ti_pTranspInfo = None,
     ti_eTxnStatus = STATUS_INVALID, ti_bTxnTerminated = False, ti_bTxnCreated = False \<rparr>"

text \<open>The value of the enumerator \<open>SipTxn::INVALID\<close>, which two branches store as an error.\<close>

definition SipTxn_INVALID :: nat where "SipTxn_INVALID = 4"

section \<open>Types and events\<close>

definition GetTxnType :: "msg_dir \<Rightarrow> sip_method \<Rightarrow> sip_msg_type \<Rightarrow> sip_txn_type" where
  "GetTxnType eMsgDir eMethodType eMsgType =
     (if eMsgDir = INVALID_DIR \<or> eMethodType = METHOD_INVALID \<or> eMsgType = TYPE_INVALID then INVALID
      else if eMsgDir = SEND then
        (if eMsgType = REQ_TYPE then
           (if eMethodType = METHOD_INVITE \<or> eMethodType = METHOD_ACK then INVITE_CLIENT
            else NON_INVITE_CLIENT)
         else
           (if eMethodType = METHOD_INVITE then INVITE_SERVER else NON_INVITE_SERVER))
      else
        (if eMsgType = REQ_TYPE then
           (if eMethodType = METHOD_INVITE \<or> eMethodType = METHOD_ACK then INVITE_SERVER
            else NON_INVITE_SERVER)
         else
           (if eMethodType = METHOD_INVITE then INVITE_CLIENT else NON_INVITE_CLIENT)))"

definition GetNonInvCliFsmEvt :: "SIP_UINT16 \<Rightarrow> non_inv_cli_event" where
  "GetNonInvCliFsmEvt nStatusCode =
     (if IsProvisionalResponse nStatusCode then NON_INV_CLI_RECV_1XX_RESP_EVT
      else if IsNonProvisionalResponse nStatusCode then NON_INV_CLI_RECV_FINAL_RESP_EVT
      else NON_INV_CLI_INVALID_EVT)"

definition GetNonInvSerFsmEvt :: "SIP_UINT16 \<Rightarrow> non_inv_ser_event" where
  "GetNonInvSerFsmEvt nStatusCode =
     (if IsProvisionalResponse nStatusCode then NON_INV_SER_SEND_1XX_RESP_EVT
      else if IsNonProvisionalResponse nStatusCode then NON_INV_SER_SEND_FINAL_RESP_EVT
      else NON_INV_SER_INVALID_EVT)"

definition GetInvCliFsmEvt :: "SIP_UINT16 \<Rightarrow> inv_cli_event" where
  "GetInvCliFsmEvt nStatusCode =
     (if IsProvisionalResponse nStatusCode then INV_CLI_RECV_1XX_RESP_EVT
      else if IsSuccessfulResponse nStatusCode then INV_CLI_RECV_2XX_RESP_EVT
      else if IsFailureResponse nStatusCode then INV_CLI_RECV_FAILURE_RESP_EVT
      else INV_CLI_INVALID_EVT)"

definition GetInvSerFsmEvt :: "SIP_UINT16 \<Rightarrow> inv_ser_event" where
  "GetInvSerFsmEvt nStatusCode =
     (if IsProvisionalResponse nStatusCode then INV_SER_SEND_NON_100_PROV_RESP_EVT
      else if IsSuccessfulResponse nStatusCode then INV_SER_SEND_2XX_RESP_EVT
      else if IsFailureResponse nStatusCode then INV_SER_SEND_FAILURE_RESP_EVT
      else INV_SER_INVALID_EVT)"

section \<open>The table\<close>

text \<open>\<open>GetTxnObjFromDb\<close>: success, the transaction, whether it exists.\<close>

definition GetTxnObjFromDb :: "SipTxnKey \<Rightarrow> SipStack \<Rightarrow> bool \<times> nat option \<times> bool \<times> SipStack" where
  "GetTxnObjFromDb pTxnKey u =
     (case FetchTransaction pTxnKey TXN_FETCH None u of
        (bTxnExist, pTxn, u) \<Rightarrow>
          if bTxnExist \<and> pTxn = None then (False, pTxn, False, u\<lparr>m_pnError := ETXN_STACKERROR\<rparr>)
          else (True, pTxn, bTxnExist, u))"

section \<open>Validation\<close>

definition ValidateRecvTxn :: "SipMessage \<Rightarrow> sip_txn_type option" where
  "ValidateRecvTxn pSipMsg =
     (case CheckTxnMandatoryParams pSipMsg of
        None \<Rightarrow> None
      | Some (eMsgType, eMethodType) \<Rightarrow>
          (let eTxnType = GetTxnType RECV eMethodType eMsgType
           in if eTxnType = INVALID then None else Some eTxnType))"

definition ValidateSendTxn :: "SipMessage \<Rightarrow> SipStack \<Rightarrow> (sip_txn_type \<times> SipTxnKey) option \<times> SipStack" where
  "ValidateSendTxn pSipMsg u =
     (case CheckTxnMandatoryParams pSipMsg of
        None \<Rightarrow> (None, u)
      | Some (eMsgType, eMethodType) \<Rightarrow>
          (let eTxnType = GetTxnType SEND eMethodType eMsgType
           in if eTxnType = INVALID then (None, u)
              else
                (let (pTxnKey, u) = new_key_of_msg pSipMsg u
                 in if m_pnError u = EERR_MALLOCFAILED then (None, u)
                    else (Some (eTxnType, pTxnKey), u))))"

section \<open>Sending\<close>

definition timer_context :: "SipTxnFsmData \<Rightarrow> SipTimerContext option" where
  "timer_context d =
     (case fd_pUserData d of None \<Rightarrow> None
      | Some ud \<Rightarrow> (case m_pvUserData ud of None \<Rightarrow> None | Some c \<Rightarrow> m_pSipTimerContext c))"

text \<open>\<open>InvokeFsm\<close> on a message event.\<close>

definition InvokeFsm_message :: "nat \<Rightarrow> txn_event \<Rightarrow> SipTxnFsmData \<Rightarrow> SipStack
    \<Rightarrow> bool \<times> SipTxnFsmData \<times> SipStack" where
  "InvokeFsm_message i nEvent d u =
     (case InvokeFsm i nEvent (FSM_DATA d) u of
        (b, FSM_DATA d, u) \<Rightarrow> (b, d, u)
      | (b, _, u) \<Rightarrow> (b, d, u))"

definition HandleClientTxnSend :: "sip_txn_type \<Rightarrow> SipTxnKey \<Rightarrow> SipTxnFsmData \<Rightarrow> SipStack
    \<Rightarrow> bool \<times> SipTxnFsmData \<times> SipStack" where
  "HandleClientTxnSend eTxnType pTxnKey d u =
     (let (i, u) = SipTxn_new eTxnType pTxnKey (m_pSipMsgIn d) (timer_context d) u in
      if m_pnError u = E_ERR_PF_MALLOCFAILED then (False, d, SipDelete i u)
      else
        (let nEvent = (if eTxnType = INVITE_CLIENT then EVT_INV_CLI INV_CLI_SEND_INV_REQ_EVT
                       else EVT_NON_INV_CLI NON_INV_CLI_SEND_NON_INV_REQ_EVT)
         in case InvokeFsm_message i nEvent d u of (ok, d, u) \<Rightarrow> (ok, d, SipDelete i u)))"

definition update_server_timers :: "nat \<Rightarrow> SipTxnFsmData \<Rightarrow> SipStack \<Rightarrow> SipStack" where
  "update_server_timers i d u =
     (case timer_context d of None \<Rightarrow> u
      | Some c \<Rightarrow>
          upd_txn i (\<lambda>t. t\<lparr>m_objTxnTimerValues :=
            snd (UpdateSipTimers (m_nTimerOptions c) (m_pTxnSipTxnTimers c)
                   (m_objTxnTimerValues t))\<rparr>) u)"

definition HandleServerTxnSend :: "sip_txn_type \<Rightarrow> SipTxnKey \<Rightarrow> SipTxnFsmData \<Rightarrow> SipStack
    \<Rightarrow> bool \<times> SipTxnFsmData \<times> SipStack" where
  "HandleServerTxnSend eTxnType pTxnKey d u =
     (case GetTxnObjFromDb pTxnKey u of
        (True, Some i, True, u) \<Rightarrow>
          (let u = Increment i u;
               nStatusCode = SipMessage_GetStatusCode (m_pSipMsgIn d);
               nEvent = (if eTxnType = INVITE_SERVER then EVT_INV_SER (GetInvSerFsmEvt nStatusCode)
                         else EVT_NON_INV_SER (GetNonInvSerFsmEvt nStatusCode));
               u = (if eTxnType = INVITE_SERVER
                    then upd_out_key i (SetResponseCode nStatusCode)
                           (Txn_SetResponseCode i nStatusCode u)
                    else u)
           in if nEvent = EVT_INV_SER INV_SER_INVALID_EVT
                 \<or> nEvent = EVT_NON_INV_SER NON_INV_SER_INVALID_EVT
              then (False, d, (SipDelete i u)\<lparr>m_pnError := EMSGERR_INVALIDSTATUSCODE\<rparr>)
              else
                (let u = update_server_timers i d u
                 in case InvokeFsm_message i nEvent d u of
                      (bStatus, d, u) \<Rightarrow> (bStatus, d, SipDelete i u)))
      | (_, _, _, u) \<Rightarrow> (False, d, u))"

text \<open>
  \<open>OnSendTxn\<close>: success, the key it hands out through \<open>ppTxnKey\<close>, the information record.
\<close>

definition OnSendTxn :: "SipMessage \<Rightarrow> SipTransportParameter option \<Rightarrow> ISipUserData option \<Rightarrow> SipStack
    \<Rightarrow> bool \<times> SipTxnKey option \<times> SipTxnInfo \<times> SipStack" where
  "OnSendTxn pSipMsg pTranspParam pUserData u =
     (let d = SipTxnFsmData_new pSipMsg pTranspParam pUserData; info = SipTxnInfo_new in
      case ValidateSendTxn pSipMsg u of
        (None, u) \<Rightarrow> (False, None, info, u)
      | (Some (eTxnType, pTxnKey), u) \<Rightarrow>
         (let pTxnKey = SetTxnType eTxnType pTxnKey in
          case GetTxnObjFromDb pTxnKey u of
            (False, _, _, u) \<Rightarrow> (False, None, info, u)
          | (True, _, bTxnExist, u) \<Rightarrow>
             if bTxnExist \<and> m_eMsgType pTxnKey = REQ_TYPE
             then (False, None, info, u\<lparr>m_pnError := ETXN_ALREADYTRANSACTIONINPROCESSERROR\<rparr>)
             else if \<not> bTxnExist \<and> m_eMsgType pTxnKey = RESP_TYPE
             then (if SipMessage_GetMethodType pSipMsg = METHOD_INVITE
                      \<and> IsSuccessfulResponse (SipMessage_GetStatusCode pSipMsg)
                   then (True, Some pTxnKey, info, u) else (False, None, info, u))
             else if \<not> bTxnExist \<and> m_eMsgType pTxnKey = REQ_TYPE
                     \<and> SipMessage_GetMethodType pSipMsg = METHOD_ACK
             then (True, Some pTxnKey, info, u)
             else if eTxnType = INVALID
             then (False, None, info, u\<lparr>m_pnError := SipTxn_INVALID\<rparr>)
             else
               (case (if eTxnType = INVITE_CLIENT \<or> eTxnType = NON_INVITE_CLIENT
                      then HandleClientTxnSend eTxnType pTxnKey d u
                      else HandleServerTxnSend eTxnType pTxnKey d u) of
                  (False, d, u) \<Rightarrow> (False, None, info, u)
                | (True, d, u) \<Rightarrow>
                    (let info = info\<lparr>ti_bTxnTerminated := m_bTxnTerminated d,
                                     ti_bTxnCreated := m_bTxnCreated d\<rparr>;
                         info = (if m_bTxnCreated d \<or> m_bTxnTerminated d
                                 then info\<lparr>ti_pUserData := m_pOutUserData d\<rparr> else info)
                     in (True, Some pTxnKey, info, u)))))"

section \<open>Receiving\<close>

definition HandleClientTxnRecv :: "sip_txn_type \<Rightarrow> SipTxnKey \<Rightarrow> SipTxnFsmData \<Rightarrow> SipStack
    \<Rightarrow> bool \<times> SipTxnFsmData \<times> SipStack" where
  "HandleClientTxnRecv eTxnType pTxnKey d u =
     (case GetTxnObjFromDb pTxnKey u of
        (True, Some i, True, u) \<Rightarrow>
          (let u = Increment i u;
               nStatusCode = SipMessage_GetStatusCode (m_pSipMsgIn d);
               nEvent = (if eTxnType = INVITE_CLIENT then EVT_INV_CLI (GetInvCliFsmEvt nStatusCode)
                         else EVT_NON_INV_CLI (GetNonInvCliFsmEvt nStatusCode))
           in if nEvent = EVT_INV_CLI INV_CLI_INVALID_EVT
                 \<or> nEvent = EVT_NON_INV_CLI NON_INV_CLI_INVALID_EVT
              then (False, d, (SipDelete i u)\<lparr>m_pnError := EMSGERR_INVALIDSTATUSCODE\<rparr>)
              else (case InvokeFsm_message i nEvent d u of
                      (bStatus, d, u) \<Rightarrow> (bStatus, d, SipDelete i u)))
      | (_, _, _, u) \<Rightarrow> (False, d, u))"

text \<open>
  An ACK takes over the response code of the INVITE's key, so that the caller's key, which is
  the second result, keeps matching the transaction.
\<close>

definition HandleServerTxnRecv :: "sip_txn_type \<Rightarrow> SipTxnKey \<Rightarrow> SipTxnFsmData \<Rightarrow> SipStack
    \<Rightarrow> bool \<times> SipTxnKey \<times> SipTxnFsmData \<times> SipStack" where
  "HandleServerTxnRecv eTxnType pTxnKey d u =
     (case GetTxnObjFromDb pTxnKey u of
        (False, _, _, u) \<Rightarrow> (False, pTxnKey, d, u)
      | (True, pTxn, _, u) \<Rightarrow>
         (let u = (case pTxn of None \<Rightarrow> u | Some i \<Rightarrow> Increment i u);
              eMethod = SipMessage_GetMethodType (m_pSipMsgIn d);
              (nEvent, pTxnKey) =
                (if eTxnType = INVITE_SERVER then
                   (if eMethod = METHOD_INVITE then (EVT_INV_SER INV_SER_RECV_INV_REQ_EVT, pTxnKey)
                    else
                      (EVT_INV_SER INV_SER_RECV_ACK_REQ_EVT,
                       (case pTxn of None \<Rightarrow> pTxnKey
                        | Some i \<Rightarrow>
                            (case m_pTxnKey (txn i u) of None \<Rightarrow> pTxnKey
                             | Some k \<Rightarrow> SetResponseCode (m_nRespCode k) pTxnKey))))
                 else (EVT_NON_INV_SER NON_INV_SER_RECV_NON_INV_REQ_EVT, pTxnKey));
              (i, u) = (case pTxn of
                          None \<Rightarrow> SipTxn_new eTxnType pTxnKey (m_pSipMsgIn d) (timer_context d) u
                        | Some i \<Rightarrow> (i, u))
          in case InvokeFsm_message i nEvent d u of
               (ok, d, u) \<Rightarrow> (ok, pTxnKey, d, SipDelete i u)))"

text \<open>\<open>OnRecvTxn\<close>: success, the caller's key, the information record.\<close>

definition OnRecvTxn :: "SipMessage \<Rightarrow> SipTxnKey \<Rightarrow> ISipUserData option \<Rightarrow> SipStack
    \<Rightarrow> bool \<times> SipTxnKey \<times> SipTxnInfo \<times> SipStack" where
  "OnRecvTxn pSipMsg pTxnKey pUserData u =
     (let d = SipTxnFsmData_new pSipMsg None pUserData; info = SipTxnInfo_new in
      case ValidateRecvTxn pSipMsg of
        None \<Rightarrow> (False, pTxnKey, info, u)
      | Some eTxnType \<Rightarrow>
         (let pTxnKey = SetTxnType eTxnType pTxnKey in
          if eTxnType = INVALID then (False, pTxnKey, info, u\<lparr>m_pnError := SipTxn_INVALID\<rparr>)
          else
            (case (if eTxnType = INVITE_CLIENT \<or> eTxnType = NON_INVITE_CLIENT
                   then (case HandleClientTxnRecv eTxnType pTxnKey d u of
                           (ok, d, u) \<Rightarrow> (ok, pTxnKey, d, u))
                   else HandleServerTxnRecv eTxnType pTxnKey d u) of
               (False, pTxnKey, d, u) \<Rightarrow> (False, pTxnKey, info, u)
             | (True, pTxnKey, d, u) \<Rightarrow>
                 (let info = (if eTxnType = INVITE_CLIENT \<or> eTxnType = INVITE_SERVER
                              then info\<lparr>ti_pSendSipMsg := m_pSendSipMsg d\<rparr> else info);
                      info = (if m_eTxnStatus d = STATUS_RETRANSMISSION
                              then info\<lparr>ti_pTranspInfo := fd_pTranspInfo d\<rparr> else info);
                      info = info\<lparr>ti_pUserData := m_pOutUserData d,
                                  ti_bTxnTerminated := m_bTxnTerminated d,
                                  ti_bTxnCreated := m_bTxnCreated d,
                                  ti_eTxnStatus := m_eTxnStatus d\<rparr>
                  in (True, pTxnKey, info, u)))))"

section \<open>Termination\<close>

text \<open>
  \<open>NotifyTxnTermination\<close> and \<open>SipTransactionCallback::NotifyTransactionTerminated\<close>: a context is
  only destroyed when the user data carries the delete flag.
\<close>

definition NotifyTxnTermination :: "nat \<Rightarrow> SipStack \<Rightarrow> SipStack" where
  "NotifyTxnTermination i u =
     (if \<not> env_callback (m_env u) then u
      else case m_pUserData (txn i u) of
        None \<Rightarrow> u
      | Some ud \<Rightarrow>
          if \<not> m_bDeleteFlag ud then u
          else (case m_pvUserData ud of
                  None \<Rightarrow> u
                | Some c \<Rightarrow>
                    (let u = (if ctx_tstate c = Some TYPE_CLIENT
                              then emit (OUT_CLEAR_FORKED (ctx_id c)) u else u);
                         u = DestroyTxnContext (Some c) u
                     in UserData_Set (Some i) None u)))"

definition TerminateTxn :: "SipTxnKey option \<Rightarrow> SipStack \<Rightarrow> bool \<times> SipStack" where
  "TerminateTxn pTxnKey u =
     (case pTxnKey of None \<Rightarrow> (False, u)
      | Some k \<Rightarrow>
          (case ReleaseTransaction k u of
             (None, u) \<Rightarrow> (False, u)
           | (Some i, u) \<Rightarrow>
               (let u = AbortTxn i u;
                    u = UserData_SetDeleteFlag (GetUserData i u) True u;
                    u = NotifyTxnTermination i u
                in (True, SipDelete i u))))"

definition DeleteTxn :: "SipTxnKey option \<Rightarrow> SipStack \<Rightarrow> bool \<times> SipStack" where
  "DeleteTxn pTxnKey u =
     (case pTxnKey of None \<Rightarrow> (False, u)
      | Some k \<Rightarrow>
          (case ReleaseTransaction k u of
             (None, u) \<Rightarrow> (False, u)
           | (Some i, u) \<Rightarrow> (True, SipDelete i (NotifyTxnTermination i u))))"

definition OnSendTranspError :: "SipTxnKey option \<Rightarrow> SipStack \<Rightarrow> bool \<times> SipStack" where
  "OnSendTranspError pTxnKey u =
     (case pTxnKey of None \<Rightarrow> (False, u) | Some k \<Rightarrow> TerminateTxn (Some k) u)"

definition UpdateTxnDetails :: "SipTxnKey option \<Rightarrow> SipTransportInfo option \<Rightarrow> SipStack
    \<Rightarrow> bool \<times> SipStack" where
  "UpdateTxnDetails pTxnKey pTranspInfo u =
     (case pTxnKey of None \<Rightarrow> (False, u)
      | Some k \<Rightarrow>
          (case GetTxnObjFromDb k u of
             (True, Some i, True, u) \<Rightarrow>
               (True, SipDelete i (UpdateTranspInfo i pTranspInfo (Increment i u)))
           | (_, _, _, u) \<Rightarrow> (False, u)))"

section \<open>Transport errors\<close>

definition transp_error_event :: "sip_txn_type \<Rightarrow> txn_event option" where
  "transp_error_event eTxnType =
     (case eTxnType of
        INVITE_CLIENT \<Rightarrow> Some (EVT_INV_CLI INV_CLI_TRANSP_ERROR_EVT)
      | NON_INVITE_CLIENT \<Rightarrow> Some (EVT_NON_INV_CLI NON_INV_CLI_TRANSP_ERROR_EVT)
      | INVITE_SERVER \<Rightarrow> Some (EVT_INV_SER INV_SER_TRANSP_ERROR_EVT)
      | NON_INVITE_SERVER \<Rightarrow> Some (EVT_NON_INV_SER NON_INV_SER_TRANSP_ERROR_EVT)
      | INVALID \<Rightarrow> None)"

definition OnRecvTranspError :: "SipTxnKey option \<Rightarrow> SipStack \<Rightarrow> bool \<times> SipStack" where
  "OnRecvTranspError pTxnKey u =
     (case pTxnKey of None \<Rightarrow> (False, u)
      | Some k \<Rightarrow>
          (case GetTxnObjFromDb k u of
             (True, Some i, _, u) \<Rightarrow>
               (case (case transp_error_event (m_eTxnType (txn i u)) of
                        None \<Rightarrow> (True, u\<lparr>m_pnError := SipTxn_INVALID\<rparr>)
                      | Some nEvent \<Rightarrow>
                          (case InvokeFsm i nEvent TRANSP_ERROR_DATA u of (ok, _, u) \<Rightarrow> (ok, u))) of
                  (False, u) \<Rightarrow> (False, u)
                | (True, u) \<Rightarrow>
                    if IsTxnTerminated i u then (True, snd (DeleteTxn (Some k) u)) else (True, u))
           | (_, _, _, u) \<Rightarrow> (False, u)))"

end
