(* ===== verification/SipStackManager.thy ===== *)
theory SipStackManager
  imports SipTxnHandler
begin

text \<open>
  The transport handler (\<open>protocol/sip/transport/SipTransportHandler.cpp\<close>) and the stack
  manager (\<open>protocol/sip/SipStackManager.cpp\<close>), the entry points of the layer: sending a
  message, receiving one, terminating a transaction, and transport errors. The caller's
  user-data object is an argument and a result; it is dereferenced unconditionally on the
  ordinary paths, so it is not optional.
\<close>

section \<open>Transport handler\<close>

definition OnSendTransp :: "SipMessage \<Rightarrow> SipTransportParameter option \<Rightarrow> string
    \<Rightarrow> SipTransportInfo option" where
  "OnSendTransp pSipMsg pTranspParam pSipBuffer =
     (case pTranspParam of None \<Rightarrow> None
      | Some p \<Rightarrow>
          Some \<lparr> m_pActualDestParam = Some p, m_pTranspParamUser = p,
                 m_pSentBuffer = pSipBuffer, m_pSentSipMsg = Some pSipMsg \<rparr>)"

definition GetTxnKeyFromSipMsg :: "SipMessage \<Rightarrow> SipStack \<Rightarrow> SipTxnKey option \<times> SipStack" where
  "GetTxnKeyFromSipMsg pSipMsg u =
     (case CheckTxnMandatoryParams pSipMsg of
        None \<Rightarrow> (None, u)
      | Some _ \<Rightarrow>
          (let (pTxnKey, u) = new_key_of_msg pSipMsg u
           in if m_pnError u = EERR_MALLOCFAILED then (None, u) else (Some pTxnKey, u)))"

definition recv_txn_type :: "SipTxnKey \<Rightarrow> sip_txn_type" where
  "recv_txn_type pTxnKey =
     (if m_eMsgType pTxnKey = REQ_TYPE then
        (if SipPf_Strcmp METHOD_NAME_ACK (m_pszMethod pTxnKey) = 0
            \<or> SipPf_Strcmp METHOD_NAME_INVITE (m_pszMethod pTxnKey) = 0
         then INVITE_SERVER else NON_INVITE_SERVER)
      else
        (if SipPf_Strcmp METHOD_NAME_INVITE (m_pszMethod pTxnKey) = 0
         then INVITE_CLIENT else NON_INVITE_CLIENT))"

text \<open>\<open>OnRecvTransp\<close>: \<open>None\<close> for \<open>SIP_FALSE\<close>, else the status, whether the transaction exists and
  the key.\<close>

definition OnRecvTransp :: "SipMessage \<Rightarrow> SipStack
    \<Rightarrow> (txn_status \<times> bool \<times> SipTxnKey) option \<times> SipStack" where
  "OnRecvTransp pSipMsg u =
     (case GetTxnKeyFromSipMsg pSipMsg u of
        (None, u) \<Rightarrow> (None, u)
      | (Some pTxnKey, u) \<Rightarrow>
         (let pTxnKey = SetTxnType (recv_txn_type pTxnKey) pTxnKey in
          case GetTxnObjFromDb pTxnKey u of
            (False, _, _, u) \<Rightarrow> (None, u)
          | (True, _, bTxnExist, u) \<Rightarrow>
             if \<not> bTxnExist then
               (if m_eMsgType pTxnKey = RESP_TYPE then
                  (if SipMessage_GetMethodType pSipMsg = METHOD_INVITE
                      \<and> IsSuccessfulResponse (SipMessage_GetStatusCode pSipMsg)
                   then (Some (STATUS_VALID_MESSAGE, bTxnExist, pTxnKey), u)
                   else (Some (STATUS_STRAY_RESP, bTxnExist, pTxnKey), u))
                else (Some (STATUS_NEW_REQ_RECVD, bTxnExist, pTxnKey), u))
             else (Some (STATUS_VALID_MESSAGE, bTxnExist, pTxnKey), u)))"

subsection \<open>Falling back to UDP\<close>

text \<open>\<open>SipPf_Strstr\<close>: the position of the first occurrence.\<close>

fun SipPf_Strstr :: "string \<Rightarrow> string \<Rightarrow> nat option" where
  "SipPf_Strstr s pat =
     (if take (length pat) s = pat then Some 0
      else case s of [] \<Rightarrow> None | _ # s' \<Rightarrow> map_option Suc (SipPf_Strstr s' pat))"

definition CRLF :: string where "CRLF = [CHR 0x0D, CHR 0x0A]"

definition change_via_buffer :: "string \<Rightarrow> transp_protocol \<Rightarrow> string option" where
  "change_via_buffer pSipBuffer eChangeProto =
     (case (case SipPf_Strstr pSipBuffer (CRLF @ ''Via:'') of
              None \<Rightarrow> SipPf_Strstr pSipBuffer (CRLF @ ''v:'') | Some n \<Rightarrow> Some n) of
        None \<Rightarrow> None
      | Some n \<Rightarrow>
          if eChangeProto = PROTOCOL_TCP then
            (case SipPf_Strstr (drop n pSipBuffer) ''/UDP'' of None \<Rightarrow> None
             | Some m \<Rightarrow> Some (pSipBuffer[n + m + 1 := CHR ''T'', n + m + 2 := CHR ''C'']))
          else if eChangeProto = PROTOCOL_UDP then
            (case SipPf_Strstr (drop n pSipBuffer) ''/TCP'' of None \<Rightarrow> None
             | Some m \<Rightarrow> Some (pSipBuffer[n + m + 1 := CHR ''U'', n + m + 2 := CHR ''D'']))
          else None)"

text \<open>
  \<open>UpdateViaSipMsg\<close> on the stored transport information. The buffer is changed before the stored
  message is looked at, so a message without Via fails with the buffer already changed.
\<close>

definition UpdateViaSipMsg :: "transp_protocol \<Rightarrow> SipTransportInfo \<Rightarrow> bool \<times> SipTransportInfo" where
  "UpdateViaSipMsg eChangeProto ti =
     (case change_via_buffer (m_pSentBuffer ti) eChangeProto of
        None \<Rightarrow> (False, ti)
      | Some buf \<Rightarrow>
          (let ti = ti\<lparr>m_pSentBuffer := buf\<rparr> in
           case m_pSentSipMsg ti of None \<Rightarrow> (True, ti)
           | Some m \<Rightarrow>
               (case hdr_via m of None \<Rightarrow> (False, ti)
                | Some via \<Rightarrow>
                    (True, ti\<lparr>m_pSentSipMsg := Some (m\<lparr>hdr_via := Some (via\<lparr>via_protocol_name :=
                       Some (if eChangeProto = PROTOCOL_TCP then ''TCP'' else ''UDP'')\<rparr>)\<rparr>)\<rparr>))))"

text \<open>
  \<open>OnRecvTanspError\<close> of the transport handler: success, the status, the transport information
  to send again (the one the transaction owns).
\<close>

definition Transp_OnRecvTanspError :: "SipTxnKey \<Rightarrow> SipStack
    \<Rightarrow> bool \<times> txn_status \<times> SipTransportInfo option \<times> SipStack" where
  "Transp_OnRecvTanspError pTxnKey u =
     (case GetTxnObjFromDb pTxnKey u of
        (True, Some i, True, u) \<Rightarrow>
          (let u = Increment i u in
           case m_pTranspInfo (txn i u) of
             None \<Rightarrow> (False, STATUS_INVALID, None, (SipDelete i u)\<lparr>m_pnError := ETXN_STACKERROR\<rparr>)
           | Some ti \<Rightarrow>
              (case m_pActualDestParam ti of
                 None \<Rightarrow> (False, STATUS_INVALID, None, (SipDelete i u)\<lparr>m_pnError := ETXN_STACKERROR\<rparr>)
               | Some p \<Rightarrow>
                   if m_nTranspProtocol p = PROTOCOL_INVALID
                   then (False, STATUS_INVALID, None, SipDelete i u)
                   else if m_nTranspProtocol p = PROTOCOL_TCP then
                     (case UpdateViaSipMsg PROTOCOL_UDP ti of
                        (False, ti) \<Rightarrow>
                          (False, STATUS_INVALID, None, SipDelete i (UpdateTranspInfo i (Some ti) u))
                      | (True, ti) \<Rightarrow>
                          (let ti = ti\<lparr>m_pActualDestParam :=
                                         Some (p\<lparr>m_nTranspProtocol := PROTOCOL_UDP\<rparr>)\<rparr>;
                               u = UpdateTranspInfo i (Some ti) u
                           in (True, STATUS_RETRANSMISSION, Some ti, SipDelete i u)))
                   else (True, STATUS_INVALID, None, SipDelete i u)))
      | (_, _, _, u) \<Rightarrow> (False, STATUS_INVALID, None, u))"

section \<open>Stack manager\<close>

definition SendToNetwork :: "SipTransportInfo option \<Rightarrow> SipStack \<Rightarrow> bool \<times> SipStack" where
  "SendToNetwork pTranspInfo u =
     (case pTranspInfo of None \<Rightarrow> (False, u) | Some ti \<Rightarrow> Network_Send ti u)"

text \<open>
  What \<open>SendMsg\<close> does once the message is on the network: success, the key it returns, the
  caller's user data.
\<close>

definition SendMsg_finish :: "SipMessage \<Rightarrow> SipTxnKey option \<Rightarrow> SipTxnInfo \<Rightarrow> SipTransportInfo
    \<Rightarrow> ISipUserData \<Rightarrow> SipStack \<Rightarrow> bool \<times> SipTxnKey option \<times> ISipUserData \<times> SipStack" where
  "SendMsg_finish pSipMsg pTxnKey objTxnInfo ti pUserData u =
     (if ti_bTxnTerminated objTxnInfo then
        (let pUserData = pUserData\<lparr>m_pvUserData := UserData_Get (ti_pUserData objTxnInfo) u,
                                   m_bDeleteFlag := True\<rparr>;
             u = UserData_Set (ti_pUserData objTxnInfo) None u;
             u = snd (DeleteTxn pTxnKey u)
         in (True, None, pUserData, u))
      else case pTxnKey of
        None \<Rightarrow> (True, None, pUserData, u)
      | Some k \<Rightarrow>
          (case UpdateTxnDetails (Some k) (Some ti) u of
             (ok, u) \<Rightarrow>
               if \<not> ok \<and> SipMessage_GetMethodType pSipMsg \<noteq> METHOD_ACK
               then (False, None, pUserData,
                     if ti_bTxnCreated objTxnInfo
                     then UserData_Set (ti_pUserData objTxnInfo) None u else u)
               else (True,
                     if ti_bTxnCreated objTxnInfo then Some k
                     else if SipMessage_GetMethodType pSipMsg = METHOD_INVITE
                             \<and> IsSuccessfulResponse (SipMessage_GetStatusCode pSipMsg)
                     then Some k else None,
                     pUserData, u)))"

definition SendMsg :: "SipMessage \<Rightarrow> SipTransportParameter option \<Rightarrow> ISipUserData \<Rightarrow> string
    \<Rightarrow> SipStack \<Rightarrow> bool \<times> SipTxnKey option \<times> ISipUserData \<times> SipStack" where
  "SendMsg pSipMsg pTranspParam pUserData pSipBuffer u =
     (if pTranspParam = None then (False, None, pUserData, u)
      else case OnSendTxn pSipMsg pTranspParam (Some pUserData) u of
        (False, _, _, u) \<Rightarrow> (False, None, pUserData, u)
      | (True, pTxnKey, objTxnInfo, u) \<Rightarrow>
         (let forget = (\<lambda>u. if ti_bTxnCreated objTxnInfo
                            then UserData_Set (ti_pUserData objTxnInfo) None u else u)
          in case OnSendTransp pSipMsg pTranspParam pSipBuffer of
               None \<Rightarrow> (False, None, pUserData, forget (snd (OnSendTranspError pTxnKey u)))
             | Some ti \<Rightarrow>
                 (case SendToNetwork (Some ti) u of
                    (False, u) \<Rightarrow> (False, None, pUserData, forget u)
                  | (True, u) \<Rightarrow>
                     (case SendMsg_finish pSipMsg pTxnKey objTxnInfo ti pUserData u of
                        (False, key, pUserData, u) \<Rightarrow> (False, key, pUserData, u)
                      | (True, key, pUserData, u) \<Rightarrow>
                          (True, key,
                           if ti_bTxnCreated objTxnInfo then pUserData\<lparr>m_pvUserData := None\<rparr>
                           else pUserData, u)))))"

text \<open>
  The message a machine asked for (the ACK of a failure response): \<open>True\<close> as first component
  says that \<open>OnRecvMessage\<close> returns here.
\<close>

definition OnRecvMessage_send :: "SipTxnKey \<Rightarrow> SipTransportParameter option \<Rightarrow> SipTxnInfo
    \<Rightarrow> ISipUserData \<Rightarrow> SipStack \<Rightarrow> bool \<times> ISipUserData \<times> SipStack" where
  "OnRecvMessage_send pTxnKey pTranspParam objTxnInfo pUserData u =
     (case ti_pSendSipMsg objTxnInfo of
        None \<Rightarrow> (False, pUserData, u)
      | Some msg \<Rightarrow>
          if ti_pUserData objTxnInfo = None then (False, pUserData, u)
          else case env_encode (m_env u) msg of
            None \<Rightarrow> (True, pUserData, snd (OnSendTranspError (Some pTxnKey) u))
          | Some buf \<Rightarrow>
              (case OnSendTransp msg pTranspParam buf of
                 None \<Rightarrow> (True, pUserData, snd (OnSendTranspError (Some pTxnKey) u))
               | Some ti \<Rightarrow>
                   (let u = (if env_callback (m_env u) then emit (OUT_PRE_SENT msg) u else u);
                        pUserData = pUserData\<lparr>ud_pSipMsg := Some msg\<rparr>
                    in case SendToNetwork (Some ti) u of
                         (False, u) \<Rightarrow> (True, pUserData, u)
                       | (True, u) \<Rightarrow>
                          (let u = (if env_callback (m_env u)
                                    then emit (OUT_POST_SENT msg (m_pSentBuffer ti)) u else u);
                               u = snd (UpdateTxnDetails (Some pTxnKey) (Some ti) u)
                           in (False, pUserData, u)))))"

text \<open>The end of \<open>OnRecvMessage\<close>: a terminated transaction is deleted; the key it returns.\<close>

definition OnRecvMessage_finish :: "SipMessage \<Rightarrow> SipTxnKey \<Rightarrow> SipTxnInfo \<Rightarrow> ISipUserData
    \<Rightarrow> SipStack \<Rightarrow> SipTxnKey option \<times> ISipUserData \<times> SipStack" where
  "OnRecvMessage_finish pSipMsg pTxnKey objTxnInfo pUserData u =
     (if ti_bTxnTerminated objTxnInfo then
        (let u = UserData_Set (ti_pUserData objTxnInfo) None u;
             pUserData = pUserData\<lparr>m_bDeleteFlag := True\<rparr>;
             u = snd (DeleteTxn (Some pTxnKey) u)
         in (if SipMessage_GetMethodType pSipMsg = METHOD_ACK then Some pTxnKey else None,
             pUserData, u))
      else if ti_bTxnCreated objTxnInfo \<or> SipMessage_GetMethodType pSipMsg = METHOD_ACK
      then (Some pTxnKey, pUserData, u)
      else if SipMessage_GetMethodType pSipMsg = METHOD_INVITE
              \<and> IsSuccessfulResponse (SipMessage_GetStatusCode pSipMsg)
      then (Some pTxnKey, pUserData, u)
      else (None, pUserData, u))"

definition OnRecvMessage :: "SipMessage \<Rightarrow> SipTransportParameter option \<Rightarrow> ISipUserData \<Rightarrow> SipStack
    \<Rightarrow> bool \<times> txn_status \<times> SipTxnKey option \<times> ISipUserData \<times> SipStack" where
  "OnRecvMessage pSipMsg pTranspParam pUserData u =
     (if pTranspParam = None then (False, STATUS_INVALID, None, pUserData, u)
      else case OnRecvTransp pSipMsg u of
        (None, u) \<Rightarrow> (False, STATUS_INVALID, None, pUserData, u)
      | (Some (eTxnStatus, bTxnExist, pTxnKey), u) \<Rightarrow>
         if eTxnStatus = STATUS_STRAY_RESP then (True, eTxnStatus, None, pUserData, u)
         else if \<not> bTxnExist \<and> m_eSipMsgType pSipMsg = RESP_TYPE
                 \<and> SipMessage_GetMethodType pSipMsg = METHOD_INVITE
                 \<and> IsSuccessfulResponse (SipMessage_GetStatusCode pSipMsg)
         then (True, STATUS_IGNORE_RESP, None, pUserData, u)
         else case OnRecvTxn pSipMsg pTxnKey (Some pUserData) u of
           (False, _, _, u) \<Rightarrow> (False, STATUS_INVALID_MESSAGE, None, pUserData, u)
         | (True, pTxnKey, objTxnInfo, u) \<Rightarrow>
            (let eTxnStatus = ti_eTxnStatus objTxnInfo;
                 pUserData =
                   (if ti_bTxnCreated objTxnInfo then pUserData\<lparr>m_pvUserData := None\<rparr>
                    else if ti_pUserData objTxnInfo \<noteq> None
                    then pUserData\<lparr>m_pvUserData := UserData_Get (ti_pUserData objTxnInfo) u\<rparr>
                    else pUserData)
             in if eTxnStatus \<in> {STATUS_IGNORE_REQ, STATUS_IGNORE_RESP, STATUS_STRAY_RESP,
                                  STATUS_STRAY_PRACK}
                then (True, eTxnStatus, None, pUserData, u)
                else if eTxnStatus = STATUS_ACK_RETRANSMISSION
                then (True, eTxnStatus, Some pTxnKey, pUserData, u)
                else if eTxnStatus \<notin> {STATUS_NEW_REQ_RECVD, STATUS_RETRANSMISSION,
                                        STATUS_VALID_MESSAGE}
                then (False, eTxnStatus, None, pUserData, u)
                else if eTxnStatus = STATUS_RETRANSMISSION
                then (True, eTxnStatus, None, pUserData,
                      snd (SendToNetwork (ti_pTranspInfo objTxnInfo) u))
                else
                  (case OnRecvMessage_send pTxnKey pTranspParam objTxnInfo pUserData u of
                     (True, pUserData, u) \<Rightarrow> (True, eTxnStatus, None, pUserData, u)
                   | (False, pUserData, u) \<Rightarrow>
                       (case OnRecvMessage_finish pSipMsg pTxnKey objTxnInfo pUserData u of
                          (key, pUserData, u) \<Rightarrow> (True, eTxnStatus, key, pUserData, u)))))"

definition Mngr_OnRecvTanspError :: "SipTxnKey \<Rightarrow> SipStack \<Rightarrow> bool \<times> SipStack" where
  "Mngr_OnRecvTanspError pTxnKey u =
     (case Transp_OnRecvTanspError pTxnKey u of
        (False, _, _, u) \<Rightarrow> (False, u)
      | (True, eTxnStatus, pTranspInfo, u) \<Rightarrow>
          (case (if eTxnStatus = STATUS_RETRANSMISSION then SendToNetwork pTranspInfo u
                 else (False, u)) of
             (True, u) \<Rightarrow> (True, u)
           | (False, u) \<Rightarrow> OnRecvTranspError (Some pTxnKey) u))"

definition Mngr_TerminateTxn :: "SipTxnKey option \<Rightarrow> SipStack \<Rightarrow> bool \<times> SipStack" where
  "Mngr_TerminateTxn pTxnKey u = TerminateTxn pTxnKey u"

end
