(* ===== verification/SipExample.thy ===== *)
theory SipExample
  imports SipStackManager
begin

text \<open>
  A call as it looks on the wire, to apply the theorems to: an INVITE over UDP, its ACK, a PRACK
  and a MESSAGE, responses to them, and a stack with an empty table in an environment that
  grants every request.
\<close>

definition SipTxn_free :: SipTxn where
  "SipTxn_free = \<lparr> m_eTxnType = INVALID, m_pTxnKey = None, m_pSipMsg = None, m_pTranspInfo = None,
     m_pUserData = None, m_nTxnState = NO_STATE, m_nRetransmissionCount = 0,
     m_eTimerType = TIMER_TYPE_INVALID, m_pvTimerId = None, m_nMaxDuration = 0,
     m_nDurationExpired = 0, m_nCurrentDuration = 0, m_bRprTxnTerminated = False,
     m_bAckReceived = False,
     m_objTxnTimerValues = SipTxnTimerValues_new SipConfiguration_default, m_nRefCount = 0 \<rparr>"

definition SipStack_init :: "SipEnv \<Rightarrow> SipStack" where
  "SipStack_init env = \<lparr> m_txns = (\<lambda>_. SipTxn_free), m_nNextTxn = 0, m_objTxnAggregate = [],
     s_txnKeyList = [], m_timers = (\<lambda>_. None), m_nNextTimer = 0, m_pnError = 0, m_outputs = [],
     m_env = env \<rparr>"

definition ex_env :: SipEnv where
  "ex_env = \<lparr> env_callback = True, env_timer_ok = (\<lambda>_. True), env_send_ok = (\<lambda>_. True),
     env_create_ack = (\<lambda>_ _. None), env_encode = (\<lambda>_. Some ''encoded''),
     env_config = SipConfiguration_default \<rparr>"

definition ex_stack :: SipStack where
  "ex_stack = SipStack_init ex_env"

definition ex_request :: "string \<Rightarrow> SipMessage" where
  "ex_request name = (SipMessage_new REQ_TYPE)
     \<lparr>m_pReqLine := Some \<lparr> rl_method = Some name, rl_uri = ''sip:bob@home'' \<rparr>,
      hdr_via := Some \<lparr> via_protocol_name = Some ''SIP'', via_transport = Some ''UDP'',
                        via_branch = Some ''z9hG4bK7'',
                        via_host = Some ''10.0.0.1'', via_port = 5060 \<rparr>,
      hdr_cseq := Some \<lparr> cseq_method = Some name, cseq_num = 1 \<rparr>,
      hdr_from := Some \<lparr> na_addr = ''sip:alice@home'', na_tag = Some ''a1'' \<rparr>,
      hdr_to := Some \<lparr> na_addr = ''sip:bob@home'', na_tag = None \<rparr>,
      hdr_call_id := Some (Some ''c1'')\<rparr>"

definition ex_invite :: SipMessage where
  "ex_invite = ex_request ''INVITE''"

definition ex_response :: "string \<Rightarrow> string \<Rightarrow> SipMessage" where
  "ex_response name code = (ex_request name)
     \<lparr>m_eSipMsgType := RESP_TYPE, m_pReqLine := None, m_pStatusLine := Some (Some code),
      hdr_to := Some \<lparr> na_addr = ''sip:bob@home'', na_tag = Some ''b1'' \<rparr>\<rparr>"

definition ex_param :: "transp_protocol \<Rightarrow> SipTransportParameter" where
  "ex_param proto = \<lparr> m_pHostAddress = Some ''10.0.0.2'', m_nPort = 5060, m_nTranspProtocol = proto \<rparr>"

definition ex_context :: SipTxnContext where
  "ex_context = \<lparr> ctx_id = 7, ctx_tstate = Some TYPE_CLIENT, m_pSipTimerContext = None \<rparr>"

definition ex_user_data :: ISipUserData where
  "ex_user_data = ISipUserData_new (Some ex_context)"

lemmas ex_defs = ex_stack_def SipStack_init_def ex_env_def ex_invite_def ex_request_def
  ex_response_def ex_param_def ex_context_def ex_user_data_def SipMessage_new_def
  ISipUserData_new_def

lemma ex_invite_params:
  "CheckTxnMandatoryParams ex_invite = Some (REQ_TYPE, METHOD_INVITE)"
  by code_simp

lemma ex_request_key:
  "fst (SipTxnKey_of_msg (ex_request name) 0) = SipTxnKey_new
     \<lparr>m_eMsgType := REQ_TYPE, m_pszViaBranchParam := Some ''z9hG4bK7'',
      m_pszViaHost := Some ''10.0.0.1'', m_nViaHostPort := 5060, m_pszMethod := Some name,
      m_nCseqNum := 1, m_pRequestUri := Some ''sip:bob@home'', m_pszFromTag := Some ''a1'',
      m_pszCallId := Some ''c1''\<rparr>"
  by (simp add: SipTxnKey_of_msg_def ex_defs SipTxnKey_new_def)

end
