(* ===== verification/SipSchedule.thy ===== *)
theory SipSchedule
  imports SipTxnTimeout
begin

text \<open>
  When the retransmission timers fire. A machine that retransmits waits for a duration computed
  from the previous one, cut so that the elapsed time never passes the maximum, and gives up
  when it has reached it. The contract of such a back-off is a locale over natural numbers; it
  is interpreted on the computations of Timer A, Timer E, Timer G for provisional and for final
  responses, and each expiry of the code's timer is shown to be one step of the back-off.
\<close>

section \<open>The back-off\<close>

text \<open>
  The waits after the first expiry: \<open>c\<close> retransmissions done, last wait \<open>cur\<close>, \<open>e\<close> elapsed.
\<close>

fun waits :: "nat \<Rightarrow> (nat \<Rightarrow> nat \<Rightarrow> nat) \<Rightarrow> nat \<Rightarrow> nat \<Rightarrow> nat \<Rightarrow> nat \<Rightarrow> nat list" where
  "waits 0 step tmax c cur e = []"
| "waits (Suc n) step tmax c cur e =
     (if e \<ge> tmax then []
      else let d = min (step c cur) (tmax - e) in d # waits n step tmax (Suc c) d (e + d))"

locale backoff =
  fixes step :: "nat \<Rightarrow> nat \<Rightarrow> nat"
  assumes step_pos: "0 < cur \<Longrightarrow> 0 < step c cur"
begin

lemma waits_pos: "0 < cur \<Longrightarrow> \<forall>d\<in>set (waits n step tmax c cur e). 0 < d"
proof (induction n arbitrary: c cur e)
  case (Suc n)
  show ?case
  proof (cases "e \<ge> tmax")
    case False
    then have "0 < min (step c cur) (tmax - e)" using step_pos [OF Suc.prems] by simp
    with Suc.IH [OF this] False show ?thesis by (simp add: Let_def)
  qed simp
qed simp

lemma waits_sum_le: "e \<le> tmax \<Longrightarrow> e + sum_list (waits n step tmax c cur e) \<le> tmax"
proof (induction n arbitrary: c cur e)
  case (Suc n)
  let ?d = "min (step c cur) (tmax - e)"
  show ?case
  proof (cases "e \<ge> tmax")
    case False
    then have "e + ?d \<le> tmax" by simp
    from Suc.IH [OF this, of "Suc c" ?d] False show ?thesis by (simp add: Let_def add.assoc)
  qed (use Suc.prems in simp)
qed simp

text \<open>With fuel for one wait per time unit the waits add up to the maximum exactly.\<close>

lemma waits_sum:
  "0 < cur \<Longrightarrow> e \<le> tmax \<Longrightarrow> tmax - e \<le> n \<Longrightarrow>
     e + sum_list (waits n step tmax c cur e) = tmax"
proof (induction n arbitrary: c cur e)
  case (Suc n)
  let ?d = "min (step c cur) (tmax - e)"
  show ?case
  proof (cases "e \<ge> tmax")
    case False
    then have d: "0 < ?d" using step_pos [OF Suc.prems(1)] by simp
    with False Suc.prems(3) have "e + ?d \<le> tmax" "tmax - (e + ?d) \<le> n" by auto
    from Suc.IH [OF d this, of "Suc c"] False show ?thesis by (simp add: Let_def add.assoc)
  qed (use Suc.prems in simp)
qed simp

lemma waits_length: "0 < cur \<Longrightarrow> length (waits n step tmax c cur e) \<le> tmax - e"
proof (induction n arbitrary: c cur e)
  case (Suc n)
  let ?d = "min (step c cur) (tmax - e)"
  show ?case
  proof (cases "e \<ge> tmax")
    case False
    then have d: "0 < ?d" using step_pos [OF Suc.prems] by simp
    have "length (waits (Suc n) step tmax c cur e)
        = Suc (length (waits n step tmax (Suc c) ?d (e + ?d)))"
      using False by (simp add: Let_def)
    also have "\<dots> \<le> Suc (tmax - (e + ?d))" using Suc.IH [OF d] by simp
    also have "\<dots> \<le> tmax - e" using d False by simp
    finally show ?thesis .
  qed simp
qed simp

end

text \<open>What the four handlers wait for, as functions of the count and the last wait.\<close>

definition timer_A_step :: "nat \<Rightarrow> nat \<Rightarrow> nat \<Rightarrow> nat" where
  "timer_A_step t1 c cur = 2 ^ Suc c * t1"

definition timer_E_step :: "bool \<Rightarrow> nat \<Rightarrow> nat \<Rightarrow> nat \<Rightarrow> nat" where
  "timer_E_step trying t2 c cur = (if trying then min (2 * cur) t2 else t2)"

definition timer_G_step :: "nat \<Rightarrow> nat \<Rightarrow> nat \<Rightarrow> nat" where
  "timer_G_step t2 c cur = min (2 * cur) t2"

definition timer_G_rpr_step :: "nat \<Rightarrow> nat \<Rightarrow> nat" where
  "timer_G_rpr_step c cur = 2 * cur"

text \<open>
  A positive T1 and T2, as \<open>Suc\<close>: the interpretations need no hypothesis then.
\<close>

interpretation timer_A: backoff "timer_A_step (Suc t1)" for t1
  by unfold_locales (simp add: timer_A_step_def)

interpretation timer_E: backoff "timer_E_step trying (Suc t2)" for trying t2
  by unfold_locales (simp add: timer_E_step_def)

interpretation timer_G: backoff "timer_G_step (Suc t2)" for t2
  by unfold_locales (simp add: timer_G_step_def)

interpretation timer_G_rpr: backoff timer_G_rpr_step
  by unfold_locales (simp add: timer_G_rpr_step_def)

section \<open>One expiry that retransmits\<close>

text \<open>
  Transaction \<open>i\<close> is in the table under a key that \<open>k\<close> finds, its timer \<open>h\<close> of type \<open>ty\<close> is
  armed, and it has sent what \<open>ti\<close> holds.
\<close>

definition armed :: "nat \<Rightarrow> nat \<Rightarrow> sip_timer \<Rightarrow> SipTxnKey \<Rightarrow> SipTransportInfo \<Rightarrow> SipStack \<Rightarrow> bool" where
  "armed i h ty k ti u \<longleftrightarrow>
     env_callback (m_env u) \<and>
     (\<exists>d. m_timers u h = Some (d, \<lparr> td_eTxnType = m_eTxnType (txn i u), td_eTimerType = ty,
                                   td_pTxnKey = Some k \<rparr>)) \<and>
     m_pvTimerId (txn i u) = Some h \<and> m_pTxnKey (txn i u) = Some k \<and>
     SipTxnKey_Init (Some k) 0 = (k, 0) \<and>
     (\<exists>e. SipStackState_FindTransaction k (m_objTxnAggregate u) = Some (e, i)) \<and>
     m_pTranspInfo (txn i u) = Some ti \<and> \<not> m_bRprTxnTerminated (txn i u) \<and>
     m_nRefCount (txn i u) \<noteq> 0"

text \<open>The transaction after an expiry that starts the timer again for \<open>d\<close>.\<close>

definition after_retransmission :: "sip_timer \<Rightarrow> nat \<Rightarrow> SIP_UINT32 \<Rightarrow> SipTxn \<Rightarrow> SipTxn" where
  "after_retransmission ty h d t =
     t\<lparr>m_pvTimerId := Some h, m_eTimerType := ty, m_nCurrentDuration := d,
       m_nRetransmissionCount := m_nRetransmissionCount t + 1,
       m_nDurationExpired :=
         (if m_nDurationExpired t = 0 then GetTimerValue (m_objTxnTimerValues t) TIMER_T1
          else m_nDurationExpired t) + d\<rparr>"

lemma Timer_TimerExpired_retransmits:
  assumes a: "armed i h ty k ti u"
    and ev: "timeout_event (m_eTxnType (txn i u)) ty = Some ev"
    and ok: "env_timer_ok (m_env u) (m_nNextTimer u)"
    and nt: "\<not> IsTxnTerminated i u"
    and d: "0 < d"
    and hand: "\<And>v. txn i v = (txn i u)\<lparr>m_pvTimerId := None, m_nRefCount := m_nRefCount (txn i u) + 1\<rparr>
      \<Longrightarrow> InvokeFsm_timeout i ev \<lparr> td_eTxnType = m_eTxnType (txn i u), td_eTimerType = ty,
            td_pTxnKey = Some k \<rparr> v = restart_timer i ty d (snd (first_expiry i v))"
  shows "txn i (Timer_TimerExpired h u) = after_retransmission ty (m_nNextTimer u) d (txn i u)"
    and "armed i (m_nNextTimer u) ty k ti (Timer_TimerExpired h u)"
    and "m_timers (Timer_TimerExpired h u) =
      (m_timers u)(h := None, m_nNextTimer u \<mapsto> (d, \<lparr> td_eTxnType = m_eTxnType (txn i u),
                                                    td_eTimerType = ty, td_pTxnKey = Some k \<rparr>))"
    and "m_outputs (Timer_TimerExpired h u) =
      m_outputs u @ [OUT_SEND (m_pSentBuffer ti) (m_pActualDestParam ti)]"
    and "m_objTxnAggregate (Timer_TimerExpired h u) = m_objTxnAggregate u"
    and "m_env (Timer_TimerExpired h u) = m_env u"
    and "m_nNextTimer (Timer_TimerExpired h u) = Suc (m_nNextTimer u)"
proof -
  let ?td = "\<lparr> td_eTxnType = m_eTxnType (txn i u), td_eTimerType = ty, td_pTxnKey = Some k \<rparr>"
  let ?v = "(SetTimerId i None (Increment i (StopTimer h u)))\<lparr>m_pnError := 0\<rparr>"
  let ?w = "snd (restart_timer i ty d (snd (first_expiry i ?v)))"
  from a obtain d0 e where f: "env_callback (m_env u)" "m_timers u h = Some (d0, ?td)"
    "m_pvTimerId (txn i u) = Some h" "m_pTxnKey (txn i u) = Some k"
    "SipTxnKey_Init (Some k) 0 = (k, 0)"
    "SipStackState_FindTransaction k (m_objTxnAggregate u) = Some (e, i)"
    "m_pTranspInfo (txn i u) = Some ti" "\<not> m_bRprTxnTerminated (txn i u)"
    "m_nRefCount (txn i u) \<noteq> 0"
    unfolding armed_def by blast
  have v: "txn i ?v = (txn i u)\<lparr>m_pvTimerId := None, m_nRefCount := m_nRefCount (txn i u) + 1\<rparr>"
    by (simp add: SetTimerId_def Increment_def)
  have w: "fst (restart_timer i ty d (snd (first_expiry i ?v)))"
    "txn i ?w = (after_retransmission ty (m_nNextTimer u) d (txn i u))
                  \<lparr>m_nRefCount := m_nRefCount (txn i u) + 1\<rparr>"
    using d ok f by (simp_all add: restart_timer_def StartTxnTimer_nonzero_def StartTimer_def
       first_expiry_def timer_value_def v step_simps txn_set_defs after_retransmission_def)
  have c: "Timer_TimerExpired h u =
      SipDelete i (emit (OUT_SEND (m_pSentBuffer ti) (m_pActualDestParam ti))
        (?w\<lparr>m_pnError := m_pnError u\<rparr>))"
    using f ev nt hand [OF v] w
    by (simp add: Timer_TimerExpired_def CbkTxnTimeout_def FetchTransaction_fetch step_simps
                  IsTxnTerminated_def SetTimerId_def Increment_def Network_Send_def
                  after_retransmission_def)
  show "txn i (Timer_TimerExpired h u) = after_retransmission ty (m_nNextTimer u) d (txn i u)"
    unfolding c using f(9) by (simp add: SipDelete_def w after_retransmission_def)
  have fr: "m_objTxnAggregate ?w = m_objTxnAggregate u" "m_env ?w = m_env u"
    "m_nNextTimer ?w = Suc (m_nNextTimer u)" "m_outputs ?w = m_outputs u"
    "m_timers ?w = (m_timers u)(h := None, m_nNextTimer u \<mapsto> (d, ?td))"
    using d ok f by (simp_all add: restart_timer_def StartTxnTimer_nonzero_def StartTimer_def
       first_expiry_def timer_value_def v step_simps txn_set_defs SipTimeoutData_new_def
       E_ERR_PF_MALLOCFAILED_def)
  show t: "m_timers (Timer_TimerExpired h u) = (m_timers u)(h := None, m_nNextTimer u \<mapsto> (d, ?td))"
    and "m_outputs (Timer_TimerExpired h u) =
      m_outputs u @ [OUT_SEND (m_pSentBuffer ti) (m_pActualDestParam ti)]"
    and "m_objTxnAggregate (Timer_TimerExpired h u) = m_objTxnAggregate u"
    and "m_env (Timer_TimerExpired h u) = m_env u"
    and "m_nNextTimer (Timer_TimerExpired h u) = Suc (m_nNextTimer u)"
    unfolding c by (simp_all add: fr)
  show "armed i (m_nNextTimer u) ty k ti (Timer_TimerExpired h u)"
    unfolding armed_def t using f unfolding c
    by (simp add: fr SipDelete_def w after_retransmission_def)
qed

section \<open>One expiry that gives up\<close>

text \<open>What the TU of a context is told when a transaction times out.\<close>

definition timeout_outputs :: "sip_timer \<Rightarrow> SipTxnContext option \<Rightarrow> sip_output list" where
  "timeout_outputs ty ctx =
     (case ctx of None \<Rightarrow> []
      | Some c \<Rightarrow> (if ctx_tstate c \<noteq> None then [OUT_TIMER_EXPIRED ty (ctx_id c)] else [])
                  @ [OUT_DESTROY_CTX (ctx_id c)])"

lemma NotifyTimerExpired_outputs:
  "ty \<notin> {TIMER_D, TIMER_I, TIMER_J, TIMER_K, TIMER_L, TIMER_M} \<Longrightarrow>
   m_outputs (NotifyTimerExpired p ty u) = m_outputs u @ timeout_outputs ty (UserData_Get p u)"
  by (simp add: NotifyTimerExpired_def Let_def timeout_outputs_def DestroyTxnContext_def
                UserData_Set_def split: option.splits)

lemma UserData_Set_frame [simp]:
  "m_objTxnAggregate (UserData_Set p c u) = m_objTxnAggregate u"
  "s_txnKeyList (UserData_Set p c u) = s_txnKeyList u"
  "m_timers (UserData_Set p c u) = m_timers u"
  "m_outputs (UserData_Set p c u) = m_outputs u"
  "m_env (UserData_Set p c u) = m_env u"
  "m_pvTimerId (txn j (UserData_Set p c u)) = m_pvTimerId (txn j u)"
  "m_nRefCount (txn j (UserData_Set p c u)) = m_nRefCount (txn j u)"
  "m_bRprTxnTerminated (txn j (UserData_Set p c u)) = m_bRprTxnTerminated (txn j u)"
  by (auto simp: UserData_Set_def txn_upd_txn split: option.splits)

lemma NotifyTimerExpired_frame [simp]:
  "m_objTxnAggregate (NotifyTimerExpired p ty u) = m_objTxnAggregate u"
  "s_txnKeyList (NotifyTimerExpired p ty u) = s_txnKeyList u"
  "m_timers (NotifyTimerExpired p ty u) = m_timers u"
  "m_env (NotifyTimerExpired p ty u) = m_env u"
  "m_pvTimerId (txn j (NotifyTimerExpired p ty u)) = m_pvTimerId (txn j u)"
  "m_nRefCount (txn j (NotifyTimerExpired p ty u)) = m_nRefCount (txn j u)"
  by (simp_all add: NotifyTimerExpired_def Let_def split: option.splits)

lemma SipDelete_refcount [simp]:
  "m_nRefCount (txn j (SipDelete i u)) = m_nRefCount (txn j u) - (if j = i then 1 else 0)"
  "m_pvTimerId (txn j (SipDelete i u)) = m_pvTimerId (txn j u)"
  by (cases "j = i"; simp add: SipDelete_def SipTxn_destroy_def Let_def)+

lemma SetTxnState_fields [simp]:
  "m_pvTimerId (txn j (SetTxnState i st u)) = m_pvTimerId (txn j u)"
  "m_nRefCount (txn j (SetTxnState i st u)) = m_nRefCount (txn j u)"
  "m_objTxnAggregate (SetTxnState i st u) = m_objTxnAggregate u"
  "m_timers (SetTxnState i st u) = m_timers u"
  "m_outputs (SetTxnState i st u) = m_outputs u"
  "m_env (SetTxnState i st u) = m_env u"
  by (cases "j = i"; simp add: SetTxnState_def)+

lemma first_expiry_frame [simp]:
  "m_objTxnAggregate (snd (first_expiry i u)) = m_objTxnAggregate u"
  "s_txnKeyList (snd (first_expiry i u)) = s_txnKeyList u"
  "m_timers (snd (first_expiry i u)) = m_timers u"
  "m_outputs (snd (first_expiry i u)) = m_outputs u"
  "m_env (snd (first_expiry i u)) = m_env u"
  "m_pvTimerId (txn j (snd (first_expiry i u))) = m_pvTimerId (txn j u)"
  "m_nRefCount (txn j (snd (first_expiry i u))) = m_nRefCount (txn j u)"
  "m_pUserData (txn j (snd (first_expiry i u))) = m_pUserData (txn j u)"
  by (cases "j = i"; simp add: first_expiry_def Let_def txn_set_defs)+

lemma RemoveFromTxnPool_found:
  assumes "env_callback (m_env u)" and "SipStackState_FindTransaction k (m_objTxnAggregate u) = Some (e, i)"
  shows "SipTxn_RemoveFromTxnPool (Some k) u =
     SipDelete i (SipDelete i (u\<lparr>m_objTxnAggregate :=
       snd (SipStackState_RemoveTransaction k TXN_REMOVE (m_objTxnAggregate u))\<rparr>))"
  using assms RemoveTransaction_found [where k = k and opt = TXN_REMOVE and m = "m_objTxnAggregate u"]
  by (cases "SipStackState_RemoveTransaction k TXN_REMOVE (m_objTxnAggregate u)")
     (simp add: SipTxn_RemoveFromTxnPool_def ReleaseTransaction_def)

lemma Timer_TimerExpired_gives_up:
  assumes a: "armed i h ty k ti u"
    and ev: "timeout_event (m_eTxnType (txn i u)) ty = Some ev"
    and nt: "\<not> IsTxnTerminated i u"
    and ty: "ty \<notin> {TIMER_D, TIMER_I, TIMER_J, TIMER_K, TIMER_L, TIMER_M}"
    and st: "terminated_state (m_eTxnType (txn i u)) st"
    and hand: "\<And>v. txn i v = (txn i u)\<lparr>m_pvTimerId := None, m_nRefCount := m_nRefCount (txn i u) + 1\<rparr>
      \<Longrightarrow> InvokeFsm_timeout i ev \<lparr> td_eTxnType = m_eTxnType (txn i u), td_eTimerType = ty,
            td_pTxnKey = Some k \<rparr> v = (True, SetTxnState i st (snd (first_expiry i v)))"
  shows "m_nTxnState (txn i (Timer_TimerExpired h u)) = st"
    and "m_pvTimerId (txn i (Timer_TimerExpired h u)) = None"
    and "m_nRefCount (txn i (Timer_TimerExpired h u)) = m_nRefCount (txn i u) - 2"
    and "m_timers (Timer_TimerExpired h u) = (m_timers u)(h := None)"
    and "m_outputs (Timer_TimerExpired h u) =
      m_outputs u @ timeout_outputs ty (UserData_Get (GetUserData i u) u)"
    and "m_objTxnAggregate (Timer_TimerExpired h u) =
      snd (SipStackState_RemoveTransaction k TXN_REMOVE (m_objTxnAggregate u))"
proof -
  let ?td = "\<lparr> td_eTxnType = m_eTxnType (txn i u), td_eTimerType = ty, td_pTxnKey = Some k \<rparr>"
  let ?v = "(SetTimerId i None (Increment i (StopTimer h u)))\<lparr>m_pnError := 0\<rparr>"
  let ?w = "(SetTxnState i st (snd (first_expiry i ?v)))\<lparr>m_pnError := m_pnError u\<rparr>"
  let ?x = "NotifyTimerExpired (GetUserData i u) ty ?w"
  from a obtain d0 e where f: "env_callback (m_env u)" "m_timers u h = Some (d0, ?td)"
    "m_pvTimerId (txn i u) = Some h"
    "SipStackState_FindTransaction k (m_objTxnAggregate u) = Some (e, i)"
    unfolding armed_def by blast
  have v: "txn i ?v = (txn i u)\<lparr>m_pvTimerId := None, m_nRefCount := m_nRefCount (txn i u) + 1\<rparr>"
    by (simp add: SetTimerId_def Increment_def)
  have ud: "GetUserData i (SetTimerId i None (Increment i (StopTimer h u))) = GetUserData i u"
    by (simp add: GetUserData_def SetTimerId_def Increment_def)
  have c: "Timer_TimerExpired h u = SipDelete i (SipTxn_RemoveFromTxnPool (Some k) ?x)"
    using f ev nt st hand [OF v]
    by (simp add: Timer_TimerExpired_def CbkTxnTimeout_def FetchTransaction_fetch step_simps
                  IsTxnTerminated_def SetTimerId_def Increment_def ud [unfolded SetTimerId_def Increment_def])
  have w: "m_objTxnAggregate ?w = m_objTxnAggregate u" "m_env ?w = m_env u"
    "m_timers ?w = (m_timers u)(h := None)" "m_outputs ?w = m_outputs u"
    "m_pvTimerId (txn i ?w) = None" "m_nRefCount (txn i ?w) = m_nRefCount (txn i u) + 1"
    "UserData_Get (GetUserData i u) ?w = UserData_Get (GetUserData i u) u"
    by (simp_all add: SetTxnState_def SetTimerId_def Increment_def UserData_Get_def GetUserData_def
                      split: option.splits)
  have r: "Timer_TimerExpired h u = SipDelete i (SipDelete i (SipDelete i (?x\<lparr>m_objTxnAggregate :=
      snd (SipStackState_RemoveTransaction k TXN_REMOVE (m_objTxnAggregate u))\<rparr>)))"
    unfolding c using f by (subst RemoveFromTxnPool_found [of _ _ e i]) (simp_all add: w)
  show "m_nTxnState (txn i (Timer_TimerExpired h u)) = st"
    "m_pvTimerId (txn i (Timer_TimerExpired h u)) = None"
    "m_nRefCount (txn i (Timer_TimerExpired h u)) = m_nRefCount (txn i u) - 2"
    "m_timers (Timer_TimerExpired h u) = (m_timers u)(h := None)"
    "m_outputs (Timer_TimerExpired h u) =
      m_outputs u @ timeout_outputs ty (UserData_Get (GetUserData i u) u)"
    "m_objTxnAggregate (Timer_TimerExpired h u) =
      snd (SipStackState_RemoveTransaction k TXN_REMOVE (m_objTxnAggregate u))"
    unfolding r using ty w by (simp_all add: NotifyTimerExpired_outputs)
qed

section \<open>The handlers as steps of their back-off\<close>

text \<open>The elapsed time an expiry starts from.\<close>

definition elapsed :: "nat \<Rightarrow> SipStack \<Rightarrow> SIP_UINT32" where
  "elapsed i u = (if m_nDurationExpired (txn i u) = 0 then timer_value i TIMER_T1 u
                  else m_nDurationExpired (txn i u))"

lemma fst_first_expiry [simp]: "fst (first_expiry i u) = elapsed i u"
  by (simp add: first_expiry_def elapsed_def Let_def)

lemma first_expiry_fields [simp]:
  "m_nMaxDuration (txn i (snd (first_expiry i u))) = m_nMaxDuration (txn i u)"
  "m_nCurrentDuration (txn i (snd (first_expiry i u))) = m_nCurrentDuration (txn i u)"
  "m_nRetransmissionCount (txn i (snd (first_expiry i u))) = m_nRetransmissionCount (txn i u)"
  "timer_value i ty (snd (first_expiry i u)) = timer_value i ty u"
  "GetMsgSentProto i (snd (first_expiry i u)) = GetMsgSentProto i u"
  by (simp_all add: first_expiry_def timer_value_def GetMsgSentProto_def txn_set_defs Let_def)

lemma InvCli_calling_timeout:
  assumes "m_eTxnType (txn i v) = INVITE_CLIENT" and "m_nTxnState (txn i v) = INV_CLI INV_CLI_CALLING_ST"
    and "GetMsgSentProto i v = PROTOCOL_UDP"
  shows "InvokeFsm_timeout i (EVT_INV_CLI INV_CLI_TIMER_A_B_TIME_OUT_EVT) td v =
    (if elapsed i v \<ge> m_nMaxDuration (txn i v)
     then (True, SetTxnState i (INV_CLI INV_CLI_TERMINATED_ST) (snd (first_expiry i v)))
     else restart_timer i TIMER_A (clamp_duration (elapsed i v) (m_nMaxDuration (txn i v))
            (push_bit (unat (m_nRetransmissionCount (txn i v) + 1)) 1 * timer_value i TIMER_T1 v))
            (snd (first_expiry i v)))"
  using assms
  by (simp add: InvokeFsm_timeout_def InvCli_CallingState_Timer_A_B_Timeout_def split_beta Let_def)

lemma NonInvCli_timeout:
  assumes "m_eTxnType (txn i v) = NON_INVITE_CLIENT"
    and "m_nTxnState (txn i v) = NON_INV_CLI st"
    and "st = (if trying then NON_INV_CLI_TRYING_ST else NON_INV_CLI_PROCEEDING_ST)"
    and "GetMsgSentProto i v = PROTOCOL_UDP"
  shows "InvokeFsm_timeout i (EVT_NON_INV_CLI NON_INV_CLI_TIMER_E_F_TIME_OUT_EVT) td v =
    (if elapsed i v \<ge> m_nMaxDuration (txn i v)
     then (True, SetTxnState i (NON_INV_CLI NON_INV_CLI_TERMINATED_ST) (snd (first_expiry i v)))
     else restart_timer i TIMER_E (clamp_duration (elapsed i v) (m_nMaxDuration (txn i v))
            (if trying then SIP_MIN (push_bit 1 (m_nCurrentDuration (txn i v))) (timer_value i TIMER_T2 v)
             else timer_value i TIMER_T2 v))
            (snd (first_expiry i v)))"
  using assms
  by (cases trying; simp add: InvokeFsm_timeout_def NonInvCli_TryingState_Timer_E_F_Timeout_def
        NonInvCli_ProceedingState_Timer_E_F_Timeout_def NonInvCli_HandleTimeout_def split_beta Let_def)

lemma InvSer_completed_timeout:
  assumes "m_eTxnType (txn i v) = INVITE_SERVER" and "m_nTxnState (txn i v) = INV_SER INV_SER_COMPLETED_ST"
    and "GetMsgSentProto i v = PROTOCOL_UDP"
  shows "InvokeFsm_timeout i (EVT_INV_SER INV_SER_TIMER_G_H_TIME_OUT_EVT) td v =
    (if elapsed i v \<ge> m_nMaxDuration (txn i v)
     then (True, SetTxnState i (INV_SER INV_SER_TERMINATED_ST) (snd (first_expiry i v)))
     else restart_timer i TIMER_G (clamp_duration (elapsed i v) (m_nMaxDuration (txn i v))
            (SIP_MIN (push_bit 1 (m_nCurrentDuration (txn i v))) (timer_value i TIMER_T2 v)))
            (snd (first_expiry i v)))"
  using assms
  by (simp add: InvokeFsm_timeout_def InvSer_CompletedState_Timer_G_H_Timeout_def split_beta Let_def)

lemma InvSer_proceeding_timeout:
  assumes "m_eTxnType (txn i v) = INVITE_SERVER" and "m_nTxnState (txn i v) = INV_SER INV_SER_PROCEEDING_ST"
    and "td_eTimerType td = TIMER_G"
  shows "InvokeFsm_timeout i (EVT_INV_SER INV_SER_TIMER_G_H_TIME_OUT_EVT) td v =
    (if elapsed i v \<ge> m_nMaxDuration (txn i v)
     then (True, SetRprTxnTerminated i True (snd (first_expiry i v)))
     else restart_timer i TIMER_G (clamp_duration (elapsed i v) (m_nMaxDuration (txn i v))
            (push_bit 1 (m_nCurrentDuration (txn i v))))
            (snd (first_expiry i v)))"
  using assms
  by (simp add: InvokeFsm_timeout_def InvSer_ProceedingState_Timer_G_H_Timeout_def split_beta Let_def)

text \<open>The words of the handlers as natural numbers.\<close>

lemma unat_clamp_duration:
  assumes "e < m" and "unat e + unat d < 2 ^ 32"
  shows "unat (clamp_duration e m d) = min (unat d) (unat m - unat e)"
proof -
  have s: "unat (e + d) = unat e + unat d" using assms(2) by (simp add: unat_plus_no_overflow)
  have m: "unat (m - e) = unat m - unat e" using assms(1) by (simp add: unat_minus_le less_imp_le)
  show ?thesis
    unfolding clamp_duration_def using assms(1) s m
    by (auto simp: word_le_nat_alt word_less_nat_alt)
qed

lemma unat_SIP_MIN: "unat (SIP_MIN a b) = min (unat a) (unat b)"
  by (simp add: SIP_MIN_def word_less_nat_alt min_def)

lemma unat_pow2_times:
  assumes "2 ^ n * unat t < 2 ^ 32" and "0 < unat t"
  shows "unat (push_bit n (1 :: SIP_UINT32) * t) = 2 ^ n * unat t"
proof -
  have "(2 :: nat) ^ n * 1 \<le> 2 ^ n * unat t" using assms(2) by (intro mult_le_mono2) simp
  with assms(1) have n: "(2 :: nat) ^ n < 2 ^ 32" by linarith
  have "push_bit n (1 :: SIP_UINT32) = of_nat (2 ^ n)" by (simp add: push_bit_eq_mult)
  with n have "unat (push_bit n (1 :: SIP_UINT32)) = 2 ^ n"
    by (simp only: unat_of_nat) (simp add: take_bit_nat_eq_self)
  then show ?thesis using assms(1) by (simp add: unat_word_ariths)
qed

section \<open>Runs of expiries\<close>

text \<open>The timer the transaction waits for expires.\<close>

definition expire_timer :: "nat \<Rightarrow> SipStack \<Rightarrow> SipStack" where
  "expire_timer i u =
     (case m_pvTimerId (txn i u) of None \<Rightarrow> u | Some h \<Rightarrow> Timer_TimerExpired h u)"

text \<open>
  The timer that the timer service runs for transaction \<open>i\<close>: its type, and how long the service
  was asked to wait.
\<close>

definition started_timer :: "nat \<Rightarrow> SipStack \<Rightarrow> (sip_timer \<times> nat) option" where
  "started_timer i u =
     (case m_pvTimerId (txn i u) of None \<Rightarrow> None
      | Some h \<Rightarrow> map_option (\<lambda>t. (td_eTimerType (snd t), unat (fst t))) (m_timers u h))"

definition timer_wait :: "nat \<Rightarrow> SipStack \<Rightarrow> nat" where
  "timer_wait i u = (case started_timer i u of None \<Rightarrow> 0 | Some t \<Rightarrow> snd t)"

text \<open>
  Transaction \<open>i\<close> is in state \<open>st\<close> with its retransmission timer armed; \<open>c\<close> retransmissions are
  done (the code counts them in 16 bits), \<open>e\<close> is the time elapsed when the timer now running
  expires, \<open>cur\<close> its duration, in the transaction and in the timer service. The timer service grants every request.
\<close>

definition running :: "nat \<Rightarrow> sip_txn_type \<Rightarrow> txn_state \<Rightarrow> sip_timer \<Rightarrow> SipTxnKey \<Rightarrow> SipTransportInfo
    \<Rightarrow> nat \<Rightarrow> nat \<Rightarrow> nat \<Rightarrow> nat \<Rightarrow> SipStack \<Rightarrow> bool" where
  "running i ety st ty k ti tmax c e cur u \<longleftrightarrow>
     (\<exists>h. armed i h ty k ti u) \<and> (\<forall>n. env_timer_ok (m_env u) n) \<and>
     m_eTxnType (txn i u) = ety \<and> m_nTxnState (txn i u) = st \<and>
     unat (m_nMaxDuration (txn i u)) = tmax \<and> unat (m_nRetransmissionCount (txn i u)) = c mod 2 ^ 16 \<and>
     unat (elapsed i u) = e \<and> unat (m_nCurrentDuration (txn i u)) = cur \<and>
     started_timer i u = Some (ty, cur) \<and> 0 < e"

text \<open>What an expiry that retransmits \<open>ti\<close> leaves alone.\<close>

definition retransmits :: "nat \<Rightarrow> SipTransportInfo \<Rightarrow> SipStack \<Rightarrow> SipStack \<Rightarrow> bool" where
  "retransmits i ti u u' \<longleftrightarrow>
     m_outputs u' = m_outputs u @ [OUT_SEND (m_pSentBuffer ti) (m_pActualDestParam ti)] \<and>
     m_objTxnAggregate u' = m_objTxnAggregate u \<and>
     m_objTxnTimerValues (txn i u') = m_objTxnTimerValues (txn i u) \<and>
     m_pUserData (txn i u') = m_pUserData (txn i u) \<and>
     m_nRefCount (txn i u') = m_nRefCount (txn i u)"

lemma running_expire:
  assumes r: "running i ety st ty k ti tmax c e cur u"
    and ev: "timeout_event ety ty = Some ev" and nt: "\<not> terminated_state ety st"
    and d: "0 < d" and no: "e + unat d < 2 ^ 32"
    and hand: "\<And>v. txn i v = (txn i u)\<lparr>m_pvTimerId := None, m_nRefCount := m_nRefCount (txn i u) + 1\<rparr>
      \<Longrightarrow> InvokeFsm_timeout i ev \<lparr> td_eTxnType = ety, td_eTimerType = ty, td_pTxnKey = Some k \<rparr> v
          = restart_timer i ty d (snd (first_expiry i v))"
  shows "running i ety st ty k ti tmax (c + 1) (e + unat d) (unat d) (expire_timer i u)"
    and "retransmits i ti u (expire_timer i u)"
proof -
  obtain h where a: "armed i h ty k ti u" and f: "\<And>n. env_timer_ok (m_env u) n"
    "m_eTxnType (txn i u) = ety" "m_nTxnState (txn i u) = st"
    "unat (m_nMaxDuration (txn i u)) = tmax" "unat (m_nRetransmissionCount (txn i u)) = c mod 2 ^ 16"
    "unat (elapsed i u) = e" "0 < e"
    using r unfolding running_def by blast
  have h: "expire_timer i u = Timer_TimerExpired h u"
    using a by (simp add: armed_def expire_timer_def)
  have nt': "\<not> IsTxnTerminated i u" using nt f by (simp add: IsTxnTerminated_def)
  note step = Timer_TimerExpired_retransmits
    [OF a _ _ nt' d, of ev, unfolded f(2), OF ev f(1) hand, folded h]
  let ?u' = "expire_timer i u"
  have el: "m_nDurationExpired (txn i ?u') = elapsed i u + d"
    by (simp add: step(1) after_retransmission_def elapsed_def timer_value_def)
  have un: "unat (elapsed i u + d) = e + unat d"
    using no f(6) by (simp add: unat_plus_no_overflow)
  then have "elapsed i u + d \<noteq> 0" using f(7) by (metis add_is_0 not_gr_zero unat_0)
  then have e': "unat (elapsed i ?u') = e + unat d" by (simp add: elapsed_def [of i ?u'] el un)
  have c': "unat (m_nRetransmissionCount (txn i u) + 1) = (c + 1) mod 2 ^ 16"
    using f(5) by (simp add: unat_word_ariths mod_Suc_eq)
  have txn: "txn i ?u' = after_retransmission ty (m_nNextTimer u) d (txn i u)" by (rule step(1))
  have ar: "armed i (m_nNextTimer u) ty k ti ?u'" by (rule step(2))
  have env: "m_env ?u' = m_env u" by (rule step(6))
  have tw: "started_timer i ?u' = Some (ty, unat d)"
    by (simp add: started_timer_def step(3) txn after_retransmission_def)
  show "running i ety st ty k ti tmax (c + 1) (e + unat d) (unat d) ?u'"
    unfolding running_def
    using ar f e' c' tw by (auto simp: env txn after_retransmission_def)
  show "retransmits i ti u ?u'"
    unfolding retransmits_def
    by (simp add: step(4) step(5) txn after_retransmission_def)
qed

lemma running_gives_up:
  assumes r: "running i ety st ty k ti tmax c e cur u"
    and ev: "timeout_event ety ty = Some ev" and nt: "\<not> terminated_state ety st"
    and ty: "ty \<notin> {TIMER_D, TIMER_I, TIMER_J, TIMER_K, TIMER_L, TIMER_M}"
    and st: "terminated_state ety st'"
    and hand: "\<And>v. txn i v = (txn i u)\<lparr>m_pvTimerId := None, m_nRefCount := m_nRefCount (txn i u) + 1\<rparr>
      \<Longrightarrow> InvokeFsm_timeout i ev \<lparr> td_eTxnType = ety, td_eTimerType = ty, td_pTxnKey = Some k \<rparr> v
          = (True, SetTxnState i st' (snd (first_expiry i v)))"
  shows "m_nTxnState (txn i (expire_timer i u)) = st'"
    and "m_pvTimerId (txn i (expire_timer i u)) = None"
    and "m_nRefCount (txn i (expire_timer i u)) = m_nRefCount (txn i u) - 2"
    and "m_outputs (expire_timer i u) =
      m_outputs u @ timeout_outputs ty (UserData_Get (GetUserData i u) u)"
    and "m_objTxnAggregate (expire_timer i u) =
      snd (SipStackState_RemoveTransaction k TXN_REMOVE (m_objTxnAggregate u))"
proof -
  obtain h where a: "armed i h ty k ti u" and f: "m_eTxnType (txn i u) = ety" "m_nTxnState (txn i u) = st"
    using r unfolding running_def by blast
  have h: "expire_timer i u = Timer_TimerExpired h u"
    using a by (simp add: armed_def expire_timer_def)
  have nt': "\<not> IsTxnTerminated i u" using nt f by (simp add: IsTxnTerminated_def)
  note g = Timer_TimerExpired_gives_up
    [OF a _ nt' ty, of ev st', unfolded f(1), OF ev st hand, folded h]
  show "m_nTxnState (txn i (expire_timer i u)) = st'" by (rule g(1))
  show "m_pvTimerId (txn i (expire_timer i u)) = None" by (rule g(2))
  show "m_nRefCount (txn i (expire_timer i u)) = m_nRefCount (txn i u) - 2" by (rule g(3))
  show "m_outputs (expire_timer i u) =
      m_outputs u @ timeout_outputs ty (UserData_Get (GetUserData i u) u)" by (rule g(5))
  show "m_objTxnAggregate (expire_timer i u) =
      snd (SipStackState_RemoveTransaction k TXN_REMOVE (m_objTxnAggregate u))" by (rule g(6))
qed

end
