(* ===== verification/SipRetransmission.thy ===== *)
theory SipRetransmission
  imports SipSchedule
begin

text \<open>
  Whole runs of the retransmission timers: a locale states what one expiry does to a transaction
  that retransmits, its lemmas follow the transaction until it gives up, and it is interpreted on
  the timer handlers of the four machines.
\<close>

section \<open>Runs\<close>

text \<open>Let the timer of transaction \<open>i\<close> expire \<open>n\<close> times; the durations for which it was
  started each time.\<close>

fun expiries :: "nat \<Rightarrow> nat \<Rightarrow> SipStack \<Rightarrow> nat list \<times> SipStack" where
  "expiries 0 i u = ([], u)"
| "expiries (Suc n) i u =
     (let u' = expire_timer i u; r = expiries n i u'
      in (timer_wait i u' # fst r, snd r))"

definition sent_copies :: "nat \<Rightarrow> SipTransportInfo \<Rightarrow> sip_output list" where
  "sent_copies n ti = replicate n (OUT_SEND (m_pSentBuffer ti) (m_pActualDestParam ti))"

locale retransmitter = backoff step for step +
  fixes run :: "nat \<Rightarrow> nat \<Rightarrow> nat \<Rightarrow> SipStack \<Rightarrow> bool"
    and i tmax :: nat and ti :: SipTransportInfo
  assumes run_cur: "run c e cur u \<Longrightarrow> 0 < cur \<and> e \<le> tmax \<and> timer_wait i u = cur"
    and run_step: "run c e cur u \<Longrightarrow> e < tmax \<Longrightarrow> d = min (step c cur) (tmax - e) \<Longrightarrow>
      run (Suc c) (e + d) d (expire_timer i u) \<and> retransmits i ti u (expire_timer i u)"
begin

text \<open>What holds after the expiries of \<open>ws\<close>.\<close>

lemma run_waits:
  "run c e cur u \<Longrightarrow> ws = waits n step tmax c cur e \<Longrightarrow> r = expiries (length ws) i u \<Longrightarrow>
     fst r = ws \<and> (\<exists>cur'. run (c + length ws) (e + sum_list ws) cur' (snd r)) \<and>
     m_outputs (snd r) = m_outputs u @ sent_copies (length ws) ti \<and>
     m_objTxnAggregate (snd r) = m_objTxnAggregate u \<and>
     m_pUserData (txn i (snd r)) = m_pUserData (txn i u) \<and>
     m_nRefCount (txn i (snd r)) = m_nRefCount (txn i u)"
proof (induction n arbitrary: c e cur u ws r)
  case (Suc n)
  let ?u' = "expire_timer i u"
  define d where "d = min (step c cur) (tmax - e)"
  show ?case
  proof (cases "e \<ge> tmax")
    case False
    define ws' where "ws' = waits n step tmax (Suc c) d (e + d)"
    have ws: "ws = d # ws'" using Suc.prems(2) False by (simp add: ws'_def d_def Let_def)
    from run_step [OF Suc.prems(1) _ d_def] False
    have s: "run (Suc c) (e + d) d ?u'" "retransmits i ti u ?u'" by auto
    show ?thesis
      using Suc.IH [OF s(1) ws'_def refl] run_cur [OF s(1)] s(2)
      by (simp add: Suc.prems(3) ws Let_def retransmits_def sent_copies_def add.assoc)
  qed (use Suc.prems in \<open>auto simp: sent_copies_def\<close>)
qed (auto simp: sent_copies_def)

text \<open>With enough fuel the run ends at the maximum.\<close>

lemma run_until_max:
  assumes r: "run c e cur u" and ws: "ws = waits (tmax - e) step tmax c cur e"
    and u': "u' = snd (expiries (length ws) i u)"
  shows "\<exists>cur'. run (c + length ws) tmax cur' u'"
    and "fst (expiries (length ws) i u) = ws" and "e + sum_list ws = tmax"
proof -
  show s: "e + sum_list ws = tmax" using run_cur [OF r] waits_sum [of cur e tmax "tmax - e" c] ws by simp
  show "\<exists>cur'. run (c + length ws) tmax cur' u'" "fst (expiries (length ws) i u) = ws"
    using run_waits [OF r ws refl] s u' by auto
qed

end

section \<open>Timer A: an INVITE client transaction over UDP\<close>

definition over_udp :: "SipTransportInfo \<Rightarrow> bool" where
  "over_udp ti \<longleftrightarrow> (case m_pActualDestParam ti of None \<Rightarrow> False
                   | Some p \<Rightarrow> m_nTranspProtocol p = PROTOCOL_UDP)"

lemma running_state:
  "running i ety st ty k ti tmax c e cur u \<Longrightarrow> m_eTxnType (txn i u) = ety"
  "running i ety st ty k ti tmax c e cur u \<Longrightarrow> m_nTxnState (txn i u) = st"
  by (simp_all add: running_def)

lemma running_udp:
  "running i ety st ty k ti tmax c e cur u \<Longrightarrow> over_udp ti \<Longrightarrow> GetMsgSentProto i u = PROTOCOL_UDP"
  by (auto simp: running_def armed_def over_udp_def GetMsgSentProto_def split: option.splits)

text \<open>The transaction the handler sees: its timer id is cleared and it is held once more.\<close>

lemma expiring_fields:
  assumes "txn i v = (txn i u)\<lparr>m_pvTimerId := None, m_nRefCount := m_nRefCount (txn i u) + 1\<rparr>"
  shows "elapsed i v = elapsed i u" "timer_value i ty v = timer_value i ty u"
    "m_nMaxDuration (txn i v) = m_nMaxDuration (txn i u)"
    "m_nRetransmissionCount (txn i v) = m_nRetransmissionCount (txn i u)"
    "m_nCurrentDuration (txn i v) = m_nCurrentDuration (txn i u)"
    "GetMsgSentProto i v = GetMsgSentProto i u"
    "m_eTxnType (txn i v) = m_eTxnType (txn i u)" "m_nTxnState (txn i v) = m_nTxnState (txn i u)"
  by (simp_all add: assms elapsed_def timer_value_def GetMsgSentProto_def)

text \<open>The duration a handler computes, cut at the maximum, is the wait of the back-off.\<close>

lemma clamped_wait:
  assumes r: "running i ety st ty k ti tmax c e cur u"
    and e: "e < tmax" and x: "unat x = s" and s: "0 < s" "e + s < 2 ^ 32"
    and d: "w = clamp_duration (elapsed i u) (m_nMaxDuration (txn i u)) x"
  shows "unat w = min s (tmax - e)" "0 < w" "e + unat w < 2 ^ 32"
    "\<not> elapsed i u \<ge> m_nMaxDuration (txn i u)"
proof -
  have f: "unat (m_nMaxDuration (txn i u)) = tmax" "unat (elapsed i u) = e"
    using r by (auto simp: running_def)
  then have lt: "elapsed i u < m_nMaxDuration (txn i u)" using e by (simp add: word_less_nat_alt)
  then show "\<not> elapsed i u \<ge> m_nMaxDuration (txn i u)" by simp
  show w: "unat w = min s (tmax - e)"
    using unat_clamp_duration [OF lt, of x] s x f d by simp
  then have "0 < unat w" using s(1) e by simp
  then show "0 < w" by (simp add: word_less_nat_alt)
  show "e + unat w < 2 ^ 32" using s(2) unfolding w by linarith
qed

text \<open>
  The elapsed time is at least the sum of the doublings so far, unless the last wait was cut to
  end at the maximum; with a maximum below \<open>2 ^ 30\<close> no 32-bit sum of the handler wraps.
\<close>

definition calling_run :: "nat \<Rightarrow> SipTxnKey \<Rightarrow> SipTransportInfo \<Rightarrow> nat \<Rightarrow> nat \<Rightarrow> nat \<Rightarrow> nat \<Rightarrow> nat
    \<Rightarrow> SipStack \<Rightarrow> bool" where
  "calling_run i k ti t1 tmax c e cur u \<longleftrightarrow>
     running i INVITE_CLIENT (INV_CLI INV_CLI_CALLING_ST) TIMER_A k ti tmax c e cur u \<and>
     over_udp ti \<and> unat (timer_value i TIMER_T1 u) = Suc t1 \<and>
     tmax < 2 ^ 30 \<and> e \<le> tmax \<and> 0 < cur \<and> ((2 ^ Suc c - 1) * Suc t1 \<le> e \<or> e = tmax)"

lemma retransmits_timer_value:
  "retransmits i ti u u' \<Longrightarrow> timer_value i ty u' = timer_value i ty u"
  by (simp add: retransmits_def timer_value_def)

lemma two_pow_bound: "2 ^ Suc c * Suc t1 < (2 :: nat) ^ n \<Longrightarrow> Suc c < n"
proof -
  assume a: "2 ^ Suc c * Suc t1 < (2 :: nat) ^ n"
  have "(2 :: nat) ^ Suc c * 1 \<le> 2 ^ Suc c * Suc t1" by (intro mult_le_mono2) simp
  with a have "(2 :: nat) ^ Suc c < 2 ^ n" by linarith
  then show ?thesis by (rule power_less_imp_less_exp [rotated]) simp
qed

lemma calling_run_step:
  assumes r: "calling_run i k ti t1 tmax c e cur u" and e: "e < tmax"
    and d: "d = min (timer_A_step (Suc t1) c cur) (tmax - e)"
  shows "calling_run i k ti t1 tmax (Suc c) (e + d) d (expire_timer i u) \<and>
         retransmits i ti u (expire_timer i u)"
proof -
  let ?x = "push_bit (unat (m_nRetransmissionCount (txn i u) + 1)) 1 * timer_value i TIMER_T1 u"
  let ?w = "clamp_duration (elapsed i u) (m_nMaxDuration (txn i u)) ?x"
  have f: "running i INVITE_CLIENT (INV_CLI INV_CLI_CALLING_ST) TIMER_A k ti tmax c e cur u"
    "over_udp ti" "unat (timer_value i TIMER_T1 u) = Suc t1" "tmax < 2 ^ 30"
    "(2 ^ Suc c - 1) * Suc t1 \<le> e"
    using r e by (auto simp: calling_run_def)
  have "(1 :: nat) \<le> 2 ^ c" by simp
  then have "(1 :: nat) \<le> 2 ^ Suc c - 1" unfolding power_Suc by linarith
  then have "1 * Suc t1 \<le> (2 ^ Suc c - 1) * Suc t1" by (rule mult_le_mono1)
  then have t1: "Suc t1 \<le> e" using f(5) by (simp only: mult_1_left)
  have p: "2 ^ Suc c * Suc t1 \<le> e + Suc t1" using f(5) by (simp add: diff_mult_distrib)
  with t1 e f(4) have b: "2 ^ Suc c * Suc t1 < 2 ^ 31" by simp
  then have "Suc c < 31" by (rule two_pow_bound)
  then have cnt: "unat (m_nRetransmissionCount (txn i u) + 1) = Suc c"
    using f(1) by (simp add: running_def unat_word_ariths)
  have x: "unat ?x = timer_A_step (Suc t1) c cur"
    unfolding cnt timer_A_step_def using unat_pow2_times [of "Suc c" "timer_value i TIMER_T1 u"] b f(3)
    by simp
  have s: "0 < timer_A_step (Suc t1) c cur" "e + timer_A_step (Suc t1) c cur < 2 ^ 32"
    using b e f(4) by (simp_all add: timer_A_step_def)
  note w = clamped_wait [OF f(1) e x s refl, folded d]
  have hand: "InvokeFsm_timeout i (EVT_INV_CLI INV_CLI_TIMER_A_B_TIME_OUT_EVT) td v
      = restart_timer i TIMER_A ?w (snd (first_expiry i v))"
    if "txn i v = (txn i u)\<lparr>m_pvTimerId := None, m_nRefCount := m_nRefCount (txn i u) + 1\<rparr>" for v td
    using w(4)
    by (simp add: InvCli_calling_timeout expiring_fields [OF that] running_state [OF f(1)]
                  running_udp [OF f(1,2)])
  note st = running_expire [OF f(1) _ _ w(2,3) hand, unfolded w(1)]
  have "timeout_event INVITE_CLIENT TIMER_A = Some (EVT_INV_CLI INV_CLI_TIMER_A_B_TIME_OUT_EVT)"
    "\<not> terminated_state INVITE_CLIENT (INV_CLI INV_CLI_CALLING_ST)"
    by (simp_all add: timeout_event_def terminated_state_def)
  note st = st [OF this]
  have "(2 ^ Suc (Suc c) - 1) * Suc t1 = 2 ^ Suc c * Suc t1 + (2 ^ Suc c - 1) * Suc t1"
  proof -
    have "2 ^ Suc (Suc c) * Suc t1 = 2 * (2 ^ Suc c * Suc t1)" by simp
    moreover have "1 * Suc t1 \<le> 2 ^ Suc c * Suc t1" by (rule mult_le_mono1) simp
    ultimately show ?thesis by (simp only: diff_mult_distrib)
  qed
  then have "(2 ^ Suc (Suc c) - 1) * Suc t1 \<le> e + d \<or> e + d = tmax"
    using f(5) e by (auto simp only: d timer_A_step_def min_def split: if_splits)
  moreover have "0 < d" "e + d \<le> tmax" using s(1) e unfolding d by linarith+
  ultimately show ?thesis
    using st f(2,3,4) retransmits_timer_value [OF st(2)] by (simp add: calling_run_def)
qed

interpretation calling: retransmitter "timer_A_step (Suc t1)" "calling_run i k ti t1 tmax" i tmax ti
  for i k ti t1 tmax
  by unfold_locales (simp add: calling_run_def running_def timer_wait_def, erule (2) calling_run_step)

text \<open>The last expiry of a run: \<open>i\<close> is terminated, out of the table, and its TU told so.\<close>

definition gave_up :: "nat \<Rightarrow> txn_state \<Rightarrow> sip_timer \<Rightarrow> SipTxnKey \<Rightarrow> SipStack \<Rightarrow> SipStack \<Rightarrow> bool" where
  "gave_up i st ty k u u' \<longleftrightarrow>
     m_nTxnState (txn i u') = st \<and> m_pvTimerId (txn i u') = None \<and>
     m_nRefCount (txn i u') = m_nRefCount (txn i u) - 2 \<and>
     m_outputs u' = m_outputs u @ timeout_outputs ty (UserData_Get (GetUserData i u) u) \<and>
     m_objTxnAggregate u' = snd (SipStackState_RemoveTransaction k TXN_REMOVE (m_objTxnAggregate u))"

lemma running_gave_up:
  assumes "running i ety st ty k ti tmax c tmax cur u"
    and "timeout_event ety ty = Some ev" and "\<not> terminated_state ety st"
    and "ty \<notin> {TIMER_D, TIMER_I, TIMER_J, TIMER_K, TIMER_L, TIMER_M}"
    and "terminated_state ety st'"
    and "\<And>v. txn i v = (txn i u)\<lparr>m_pvTimerId := None, m_nRefCount := m_nRefCount (txn i u) + 1\<rparr>
      \<Longrightarrow> InvokeFsm_timeout i ev \<lparr> td_eTxnType = ety, td_eTimerType = ty, td_pTxnKey = Some k \<rparr> v
          = (True, SetTxnState i st' (snd (first_expiry i v)))"
  shows "gave_up i st' ty k u (expire_timer i u)"
  unfolding gave_up_def using running_gives_up [OF assms] by simp

lemma running_at_max:
  "running i ety st ty k ti tmax c tmax cur u \<Longrightarrow> elapsed i u \<ge> m_nMaxDuration (txn i u)"
  by (simp add: running_def word_le_nat_alt)

lemma calling_gives_up:
  assumes "calling_run i k ti t1 tmax c tmax cur u"
  shows "gave_up i (INV_CLI INV_CLI_TERMINATED_ST) TIMER_A k u (expire_timer i u)"
proof -
  have f: "running i INVITE_CLIENT (INV_CLI INV_CLI_CALLING_ST) TIMER_A k ti tmax c tmax cur u"
    "over_udp ti" using assms by (simp_all add: calling_run_def)
  show ?thesis
  proof (rule running_gave_up [OF f(1)])
    fix v assume v: "txn i v = (txn i u)\<lparr>m_pvTimerId := None, m_nRefCount := m_nRefCount (txn i u) + 1\<rparr>"
    show "InvokeFsm_timeout i (EVT_INV_CLI INV_CLI_TIMER_A_B_TIME_OUT_EVT)
        \<lparr> td_eTxnType = INVITE_CLIENT, td_eTimerType = TIMER_A, td_pTxnKey = Some k \<rparr> v
      = (True, SetTxnState i (INV_CLI INV_CLI_TERMINATED_ST) (snd (first_expiry i v)))"
      using running_at_max [OF f(1)]
      by (simp add: InvCli_calling_timeout expiring_fields [OF v] running_state [OF f(1)]
                    running_udp [OF f])
  qed (simp_all add: timeout_event_def terminated_state_def)
qed

lemma waits_64_T1:
  assumes "0 < t" and "c = 0" and "n = 64 * t - t"
  shows "waits n (timer_A_step t) (64 * t) 0 t t = [2 * t, 4 * t, 8 * t, 16 * t, 32 * t, t]"
proof -
  obtain m where "n = Suc (Suc (Suc (Suc (Suc (Suc (Suc m))))))"
    using assms by (intro that [of "n - 7"]) simp
  then show ?thesis using assms(1) by (simp add: timer_A_step_def Let_def min_def)
qed

section \<open>Timer E: a non-INVITE client transaction over UDP\<close>

definition request_run :: "nat \<Rightarrow> bool \<Rightarrow> SipTxnKey \<Rightarrow> SipTransportInfo \<Rightarrow> nat \<Rightarrow> nat \<Rightarrow> nat \<Rightarrow> nat
    \<Rightarrow> nat \<Rightarrow> SipStack \<Rightarrow> bool" where
  "request_run i trying k ti t2 tmax c e cur u \<longleftrightarrow>
     running i NON_INVITE_CLIENT
       (NON_INV_CLI (if trying then NON_INV_CLI_TRYING_ST else NON_INV_CLI_PROCEEDING_ST))
       TIMER_E k ti tmax c e cur u \<and>
     over_udp ti \<and> unat (timer_value i TIMER_T2 u) = Suc t2 \<and> Suc t2 < 2 ^ 30 \<and>
     tmax < 2 ^ 30 \<and> e \<le> tmax \<and> 0 < cur \<and> cur < 2 ^ 30"

text \<open>Twice a duration below \<open>2 ^ 30\<close> does not wrap.\<close>

lemma unat_double: "unat (x :: SIP_UINT32) < 2 ^ 30 \<Longrightarrow> unat (push_bit 1 x) = 2 * unat x"
  by (simp add: push_bit_eq_mult unat_word_ariths)

lemma request_run_step:
  assumes r: "request_run i trying k ti t2 tmax c e cur u" and e: "e < tmax"
    and d: "d = min (timer_E_step trying (Suc t2) c cur) (tmax - e)"
  shows "request_run i trying k ti t2 tmax (Suc c) (e + d) d (expire_timer i u) \<and>
         retransmits i ti u (expire_timer i u)"
proof -
  let ?st = "if trying then NON_INV_CLI_TRYING_ST else NON_INV_CLI_PROCEEDING_ST"
  let ?x = "if trying then SIP_MIN (push_bit 1 (m_nCurrentDuration (txn i u))) (timer_value i TIMER_T2 u)
            else timer_value i TIMER_T2 u"
  let ?w = "clamp_duration (elapsed i u) (m_nMaxDuration (txn i u)) ?x"
  have f: "running i NON_INVITE_CLIENT (NON_INV_CLI ?st) TIMER_E k ti tmax c e cur u"
    "over_udp ti" "unat (timer_value i TIMER_T2 u) = Suc t2" "Suc t2 < 2 ^ 30" "tmax < 2 ^ 30"
    "0 < cur" "cur < 2 ^ 30"
    using r by (auto simp: request_run_def)
  have cur: "unat (m_nCurrentDuration (txn i u)) = cur" using f(1) by (simp add: running_def)
  have x: "unat ?x = timer_E_step trying (Suc t2) c cur"
    using unat_double [of "m_nCurrentDuration (txn i u)"] f(3,7) cur
    by (simp add: timer_E_step_def unat_SIP_MIN)
  have "timer_E_step trying (Suc t2) c cur \<le> Suc t2" by (simp add: timer_E_step_def)
  moreover have "0 < timer_E_step trying (Suc t2) c cur" using f(6) by (simp add: timer_E_step_def)
  ultimately have s: "0 < timer_E_step trying (Suc t2) c cur" "e + timer_E_step trying (Suc t2) c cur < 2 ^ 32"
    using e f(4,5) by simp_all
  note w = clamped_wait [OF f(1) e x s refl, folded d]
  have hand: "InvokeFsm_timeout i (EVT_NON_INV_CLI NON_INV_CLI_TIMER_E_F_TIME_OUT_EVT) td v
      = restart_timer i TIMER_E ?w (snd (first_expiry i v))"
    if "txn i v = (txn i u)\<lparr>m_pvTimerId := None, m_nRefCount := m_nRefCount (txn i u) + 1\<rparr>" for v td
    using w(4)
    by (simp add: NonInvCli_timeout [OF _ _ refl] expiring_fields [OF that] running_state [OF f(1)]
                  running_udp [OF f(1,2)] del: if_split cong: if_cong)
  note st = running_expire [OF f(1) _ _ w(2,3) hand, unfolded w(1)]
  have "timeout_event NON_INVITE_CLIENT TIMER_E = Some (EVT_NON_INV_CLI NON_INV_CLI_TIMER_E_F_TIME_OUT_EVT)"
    "\<not> terminated_state NON_INVITE_CLIENT (NON_INV_CLI ?st)"
    by (simp_all add: timeout_event_def terminated_state_def)
  note st = st [OF this]
  have "0 < d" "d < 2 ^ 30" "e + d \<le> tmax" using s(1) e f(5) unfolding d by linarith+
  then show ?thesis
    using st f(2-5) retransmits_timer_value [OF st(2)] by (simp add: request_run_def)
qed

interpretation request: retransmitter "timer_E_step trying (Suc t2)"
    "request_run i trying k ti t2 tmax" i tmax ti for i trying k ti t2 tmax
  by unfold_locales (simp add: request_run_def running_def timer_wait_def, erule (2) request_run_step)

lemma request_gives_up:
  assumes "request_run i trying k ti t2 tmax c tmax cur u"
  shows "gave_up i (NON_INV_CLI NON_INV_CLI_TERMINATED_ST) TIMER_E k u (expire_timer i u)"
proof -
  let ?st = "if trying then NON_INV_CLI_TRYING_ST else NON_INV_CLI_PROCEEDING_ST"
  have f: "running i NON_INVITE_CLIENT (NON_INV_CLI ?st) TIMER_E k ti tmax c tmax cur u"
    "over_udp ti" using assms by (simp_all add: request_run_def)
  show ?thesis
  proof (rule running_gave_up [OF f(1)])
    fix v assume v: "txn i v = (txn i u)\<lparr>m_pvTimerId := None, m_nRefCount := m_nRefCount (txn i u) + 1\<rparr>"
    show "InvokeFsm_timeout i (EVT_NON_INV_CLI NON_INV_CLI_TIMER_E_F_TIME_OUT_EVT)
        \<lparr> td_eTxnType = NON_INVITE_CLIENT, td_eTimerType = TIMER_E, td_pTxnKey = Some k \<rparr> v
      = (True, SetTxnState i (NON_INV_CLI NON_INV_CLI_TERMINATED_ST) (snd (first_expiry i v)))"
      using running_at_max [OF f(1)]
      by (simp add: NonInvCli_timeout [OF _ _ refl] expiring_fields [OF v] running_state [OF f(1)]
                    running_udp [OF f])
  qed (simp_all add: timeout_event_def terminated_state_def)
qed

section \<open>Timer G: the final response of an INVITE server transaction over UDP\<close>

definition final_run :: "nat \<Rightarrow> SipTxnKey \<Rightarrow> SipTransportInfo \<Rightarrow> nat \<Rightarrow> nat \<Rightarrow> nat \<Rightarrow> nat \<Rightarrow> nat
    \<Rightarrow> SipStack \<Rightarrow> bool" where
  "final_run i k ti t2 tmax c e cur u \<longleftrightarrow>
     running i INVITE_SERVER (INV_SER INV_SER_COMPLETED_ST) TIMER_G k ti tmax c e cur u \<and>
     over_udp ti \<and> unat (timer_value i TIMER_T2 u) = Suc t2 \<and> Suc t2 < 2 ^ 30 \<and>
     tmax < 2 ^ 30 \<and> e \<le> tmax \<and> 0 < cur \<and> cur < 2 ^ 30"

lemma final_run_step:
  assumes r: "final_run i k ti t2 tmax c e cur u" and e: "e < tmax"
    and d: "d = min (timer_G_step (Suc t2) c cur) (tmax - e)"
  shows "final_run i k ti t2 tmax (Suc c) (e + d) d (expire_timer i u) \<and>
         retransmits i ti u (expire_timer i u)"
proof -
  let ?x = "SIP_MIN (push_bit 1 (m_nCurrentDuration (txn i u))) (timer_value i TIMER_T2 u)"
  let ?w = "clamp_duration (elapsed i u) (m_nMaxDuration (txn i u)) ?x"
  have f: "running i INVITE_SERVER (INV_SER INV_SER_COMPLETED_ST) TIMER_G k ti tmax c e cur u"
    "over_udp ti" "unat (timer_value i TIMER_T2 u) = Suc t2" "Suc t2 < 2 ^ 30" "tmax < 2 ^ 30"
    "0 < cur" "cur < 2 ^ 30"
    using r by (auto simp: final_run_def)
  have x: "unat ?x = timer_G_step (Suc t2) c cur"
    using unat_double [of "m_nCurrentDuration (txn i u)"] f(1,3,7)
    by (simp add: timer_G_step_def unat_SIP_MIN running_def)
  have "timer_G_step (Suc t2) c cur \<le> Suc t2" by (simp add: timer_G_step_def)
  moreover have "0 < timer_G_step (Suc t2) c cur" using f(6) by (simp add: timer_G_step_def)
  ultimately have s: "0 < timer_G_step (Suc t2) c cur" "e + timer_G_step (Suc t2) c cur < 2 ^ 32"
    using e f(4,5) by simp_all
  note w = clamped_wait [OF f(1) e x s refl, folded d]
  have hand: "InvokeFsm_timeout i (EVT_INV_SER INV_SER_TIMER_G_H_TIME_OUT_EVT) td v
      = restart_timer i TIMER_G ?w (snd (first_expiry i v))"
    if "txn i v = (txn i u)\<lparr>m_pvTimerId := None, m_nRefCount := m_nRefCount (txn i u) + 1\<rparr>" for v td
    using w(4)
    by (simp add: InvSer_completed_timeout expiring_fields [OF that] running_state [OF f(1)]
                  running_udp [OF f(1,2)])
  note st = running_expire [OF f(1) _ _ w(2,3) hand, unfolded w(1)]
  have "timeout_event INVITE_SERVER TIMER_G = Some (EVT_INV_SER INV_SER_TIMER_G_H_TIME_OUT_EVT)"
    "\<not> terminated_state INVITE_SERVER (INV_SER INV_SER_COMPLETED_ST)"
    by (simp_all add: timeout_event_def terminated_state_def)
  note st = st [OF this]
  have "0 < d" "d < 2 ^ 30" "e + d \<le> tmax" using s(1) e f(5) unfolding d by linarith+
  then show ?thesis
    using st f(2-5) retransmits_timer_value [OF st(2)] by (simp add: final_run_def)
qed

interpretation final: retransmitter "timer_G_step (Suc t2)" "final_run i k ti t2 tmax" i tmax ti
  for i k ti t2 tmax
  by unfold_locales (simp add: final_run_def running_def timer_wait_def, erule (2) final_run_step)

lemma final_gives_up:
  assumes "final_run i k ti t2 tmax c tmax cur u"
  shows "gave_up i (INV_SER INV_SER_TERMINATED_ST) TIMER_G k u (expire_timer i u)"
proof -
  have f: "running i INVITE_SERVER (INV_SER INV_SER_COMPLETED_ST) TIMER_G k ti tmax c tmax cur u"
    "over_udp ti" using assms by (simp_all add: final_run_def)
  show ?thesis
  proof (rule running_gave_up [OF f(1)])
    fix v assume v: "txn i v = (txn i u)\<lparr>m_pvTimerId := None, m_nRefCount := m_nRefCount (txn i u) + 1\<rparr>"
    show "InvokeFsm_timeout i (EVT_INV_SER INV_SER_TIMER_G_H_TIME_OUT_EVT)
        \<lparr> td_eTxnType = INVITE_SERVER, td_eTimerType = TIMER_G, td_pTxnKey = Some k \<rparr> v
      = (True, SetTxnState i (INV_SER INV_SER_TERMINATED_ST) (snd (first_expiry i v)))"
      using running_at_max [OF f(1)]
      by (simp add: InvSer_completed_timeout expiring_fields [OF v] running_state [OF f(1)]
                    running_udp [OF f])
  qed (simp_all add: timeout_event_def terminated_state_def)
qed

section \<open>Timer G: a reliable provisional response\<close>

definition reliable_run :: "nat \<Rightarrow> SipTxnKey \<Rightarrow> SipTransportInfo \<Rightarrow> nat \<Rightarrow> nat \<Rightarrow> nat \<Rightarrow> nat
    \<Rightarrow> SipStack \<Rightarrow> bool" where
  "reliable_run i k ti tmax c e cur u \<longleftrightarrow>
     running i INVITE_SERVER (INV_SER INV_SER_PROCEEDING_ST) TIMER_G k ti tmax c e cur u \<and>
     tmax < 2 ^ 30 \<and> e \<le> tmax \<and> 0 < cur \<and> cur < 2 ^ 30"

lemma reliable_run_step:
  assumes r: "reliable_run i k ti tmax c e cur u" and e: "e < tmax"
    and d: "d = min (timer_G_rpr_step c cur) (tmax - e)"
  shows "reliable_run i k ti tmax (Suc c) (e + d) d (expire_timer i u) \<and>
         retransmits i ti u (expire_timer i u)"
proof -
  let ?x = "push_bit 1 (m_nCurrentDuration (txn i u))"
  let ?w = "clamp_duration (elapsed i u) (m_nMaxDuration (txn i u)) ?x"
  have f: "running i INVITE_SERVER (INV_SER INV_SER_PROCEEDING_ST) TIMER_G k ti tmax c e cur u"
    "tmax < 2 ^ 30" "0 < cur" "cur < 2 ^ 30"
    using r by (auto simp: reliable_run_def)
  have x: "unat ?x = timer_G_rpr_step c cur"
    using unat_double [of "m_nCurrentDuration (txn i u)"] f(1,4)
    by (simp add: timer_G_rpr_step_def running_def)
  have s: "0 < timer_G_rpr_step c cur" "e + timer_G_rpr_step c cur < 2 ^ 32"
    using e f(2,3,4) by (simp_all add: timer_G_rpr_step_def)
  note w = clamped_wait [OF f(1) e x s refl, folded d]
  let ?td = "\<lparr> td_eTxnType = INVITE_SERVER, td_eTimerType = TIMER_G, td_pTxnKey = Some k \<rparr>"
  have hand: "InvokeFsm_timeout i (EVT_INV_SER INV_SER_TIMER_G_H_TIME_OUT_EVT) ?td v
      = restart_timer i TIMER_G ?w (snd (first_expiry i v))"
    if "txn i v = (txn i u)\<lparr>m_pvTimerId := None, m_nRefCount := m_nRefCount (txn i u) + 1\<rparr>" for v
    using w(4)
    by (simp add: InvSer_proceeding_timeout expiring_fields [OF that] running_state [OF f(1)])
  note st = running_expire [OF f(1) _ _ w(2,3) hand, unfolded w(1)]
  have "timeout_event INVITE_SERVER TIMER_G = Some (EVT_INV_SER INV_SER_TIMER_G_H_TIME_OUT_EVT)"
    "\<not> terminated_state INVITE_SERVER (INV_SER INV_SER_PROCEEDING_ST)"
    by (simp_all add: timeout_event_def terminated_state_def)
  note st = st [OF this]
  have "0 < d" "d < 2 ^ 30" "e + d \<le> tmax" using s(1) e f(2) unfolding d by linarith+
  then show ?thesis using st f(2) by (simp add: reliable_run_def)
qed

interpretation reliable: retransmitter timer_G_rpr_step "reliable_run i k ti tmax" i tmax ti
  for i k ti tmax
  by unfold_locales (simp add: reliable_run_def running_def timer_wait_def, erule (2) reliable_run_step)

end
