(* ===== verification/SipCallFacts.thy ===== *)
theory SipCallFacts
  imports SipExample SipRetransmission
begin

text \<open>
  Facts that the theories on calls share: what entering the table, starting a timer, building a
  transaction and sending do to each field of the stack, and what \<open>OnSendTxn\<close> and
  \<open>OnRecvTransp\<close> have done by the time a machine runs.
\<close>

section \<open>A working environment\<close>

text \<open>
  The callback is registered, the timer service and the network grant every request, no error is
  pending, and the table is well-formed.
\<close>

definition working :: "SipStack \<Rightarrow> bool" where
  "working u \<longleftrightarrow> env_callback (m_env u) \<and> (\<forall>n. env_timer_ok (m_env u) n) \<and>
     (\<forall>n. env_send_ok (m_env u) n) \<and> m_pnError u = 0 \<and> db_inv (m_objTxnAggregate u)"

definition enter_table :: "nat \<Rightarrow> SipTxnKey \<Rightarrow> SipStack \<Rightarrow> SipStack" where
  "enter_table i k u =
     (Increment i u)\<lparr>m_objTxnAggregate := snd (SipStackState_AddTransaction k i (m_objTxnAggregate u))\<rparr>"

lemma Increment_frame [simp]:
  "m_objTxnAggregate (Increment i u) = m_objTxnAggregate u"
  "s_txnKeyList (Increment i u) = s_txnKeyList u"
  "m_timers (Increment i u) = m_timers u"
  "m_nNextTimer (Increment i u) = m_nNextTimer u"
  "m_nNextTxn (Increment i u) = m_nNextTxn u"
  "m_pnError (Increment i u) = m_pnError u"
  "m_outputs (Increment i u) = m_outputs u"
  "m_env (Increment i u) = m_env u"
  by (simp_all add: Increment_def)

lemma txn_Increment:
  "txn i (Increment i u) = (txn i u)\<lparr>m_nRefCount := m_nRefCount (txn i u) + 1\<rparr>"
  by (simp add: Increment_def)

lemma set_error_same [simp]: "m_pnError u = e \<Longrightarrow> u\<lparr>m_pnError := e\<rparr> = u"
  by auto

lemma add_to_db_fresh:
  assumes "m_pTxnKey (txn i u) = Some k" and "complete_key k" and "env_callback (m_env u)"
    and "m_pnError u = 0" and "SipStackState_FindTransaction k (m_objTxnAggregate u) = None"
  shows "add_to_db i u = (Some (i, k), Increment i (enter_table i k u))"
  using assms
  by (simp add: add_to_db_def new_key_copy_def SipTxnKey_Init_complete FetchTransaction_def Let_def
    split_beta enter_table_def E_ERR_PF_MALLOCFAILED_def)

lemma SipTxn_construct_complete:
  assumes "complete_key k"
  shows "snd (SipTxn_construct cfg ty k m None 0) = 0"
    and "fst (SipTxn_construct cfg ty k m None 0) =
     \<lparr> m_eTxnType = ty, m_pTxnKey = Some k, m_pSipMsg = Some m, m_pTranspInfo = None, m_pUserData = None,
            m_nTxnState = idle_state ty, m_nRetransmissionCount = 0,
            m_eTimerType = TIMER_TYPE_INVALID, m_pvTimerId = None, m_nMaxDuration = 0,
            m_nDurationExpired = 0, m_nCurrentDuration = 0, m_bRprTxnTerminated = False,
            m_bAckReceived = False, m_objTxnTimerValues = SipTxnTimerValues_new cfg, m_nRefCount = 1 \<rparr>"
  using assms by (simp_all add: SipTxn_construct_def SipTxnKey_Init_complete E_ERR_PF_MALLOCFAILED_def)


lemma StartTxnTimer_granted:
  assumes "0 < dur" and "env_callback (m_env v)" and "env_timer_ok (m_env v) (m_nNextTimer v)"
  shows "StartTxnTimer i ty dur v =
     (True, upd_txn i (\<lambda>t. t\<lparr>m_pvTimerId := Some (m_nNextTimer v), m_eTimerType := ty,
                               m_nCurrentDuration := dur\<rparr>)
        (v\<lparr>m_timers := (m_timers v)(m_nNextTimer v \<mapsto>
              (dur, SipTimeoutData_new (m_eTxnType (txn i v)) ty (m_pTxnKey (txn i v)))),
           m_nNextTimer := Suc (m_nNextTimer v)\<rparr>))"
  using assms by (simp add: StartTxnTimer_pos StartTxnTimer_nonzero_def StartTimer_def Let_def)

lemma SipTimeoutData_new_complete:
  "complete_key k \<Longrightarrow> SipTimeoutData_new ty tm (Some k) = \<lparr> td_eTxnType = ty, td_eTimerType = tm,
     td_pTxnKey = Some k \<rparr>"
  by (simp add: SipTimeoutData_new_def SipTxnKey_Init_complete E_ERR_PF_MALLOCFAILED_def)

lemma enter_table_fields [simp]:
  "txn j (enter_table i k u) = txn j (Increment i u)"
  "m_objTxnAggregate (enter_table i k u) = snd (SipStackState_AddTransaction k i (m_objTxnAggregate u))"
  "s_txnKeyList (enter_table i k u) = s_txnKeyList u"
  "m_timers (enter_table i k u) = m_timers u"
  "m_nNextTimer (enter_table i k u) = m_nNextTimer u"
  "m_nNextTxn (enter_table i k u) = m_nNextTxn u"
  "m_pnError (enter_table i k u) = m_pnError u"
  "m_outputs (enter_table i k u) = m_outputs u"
  "m_env (enter_table i k u) = m_env u"
  by (simp_all add: enter_table_def)

lemma copy_user_data_fields [simp]:
  "txn i (copy_user_data i d u) = (case fd_pUserData d of None \<Rightarrow> txn i u
     | Some ud \<Rightarrow> (txn i u)\<lparr>m_pUserData := Some (ISipUserData_new (m_pvUserData ud))\<rparr>)"
  "m_objTxnAggregate (copy_user_data i d u) = m_objTxnAggregate u"
  "s_txnKeyList (copy_user_data i d u) = s_txnKeyList u"
  "m_timers (copy_user_data i d u) = m_timers u"
  "m_nNextTimer (copy_user_data i d u) = m_nNextTimer u"
  "m_nNextTxn (copy_user_data i d u) = m_nNextTxn u"
  "m_pnError (copy_user_data i d u) = m_pnError u"
  "m_outputs (copy_user_data i d u) = m_outputs u"
  "m_env (copy_user_data i d u) = m_env u"
  by (simp_all add: copy_user_data_def SetUserData_def split: option.splits)

lemma GetUserData_copy: "fd_pUserData d \<noteq> None \<Longrightarrow> GetUserData i (copy_user_data i d u) = Some i"
  by (auto simp: GetUserData_def)

text \<open>A new transaction whose key is complete and that has no timer context of its own.\<close>

lemma SipTxn_new_complete:
  assumes "complete_key k" and "m_pnError u = 0"
  shows "fst (SipTxn_new ty k m None u) = m_nNextTxn u"
    and "snd (SipTxn_new ty k m None u) = u\<lparr>m_txns := (m_txns u)(m_nNextTxn u :=
      fst (SipTxn_construct (env_config (m_env u)) ty k m None 0)), m_nNextTxn := Suc (m_nNextTxn u)\<rparr>"
  using assms SipTxn_construct_complete(1) [OF assms(1), of "env_config (m_env u)" ty m]
  by (simp_all add: SipTxn_new_def split_beta Let_def)

lemma SipTxn_new_frame [simp]:
  "m_objTxnAggregate (snd (SipTxn_new ty k m c u)) = m_objTxnAggregate u"
  "s_txnKeyList (snd (SipTxn_new ty k m c u)) = s_txnKeyList u"
  "m_timers (snd (SipTxn_new ty k m c u)) = m_timers u"
  "m_nNextTimer (snd (SipTxn_new ty k m c u)) = m_nNextTimer u"
  "m_outputs (snd (SipTxn_new ty k m c u)) = m_outputs u"
  "m_env (snd (SipTxn_new ty k m c u)) = m_env u"
  by (simp_all add: SipTxn_new_def split_beta Let_def)

lemma new_key_of_msg_ok:
  "CheckTxnMandatoryParams m = Some x \<Longrightarrow>
     new_key_of_msg m u = (fst (SipTxnKey_of_msg m 0), u\<lparr>m_pnError := m_pnError u\<rparr>)"
  by (simp add: new_key_of_msg_def SipTxnKey_of_msg_ok [of m x "m_pnError u"])

lemma msg_key_type:
  "CheckTxnMandatoryParams m = Some (ty, me) \<Longrightarrow> m_eMsgType (msg_key t m) = ty"
  by (simp add: msg_key_def SetTxnType_def SipTxnKey_of_msg_type)

text \<open>What \<open>OnSendTxn\<close> does before a machine runs, for a request that starts a transaction.\<close>

lemma OnSendTxn_new_request:
  assumes m: "CheckTxnMandatoryParams m = Some (REQ_TYPE, me)" and a: "me \<noteq> METHOD_ACK"
    and ty: "ty = GetTxnType SEND me REQ_TYPE" and k: "k = msg_key ty m" and w: "working u"
    and f: "SipStackState_FindTransaction k (m_objTxnAggregate u) = None"
    and r: "HandleClientTxnSend ty k (SipTxnFsmData_new m tp ud) u = (True, d, u')"
  shows "OnSendTxn m tp ud u = (True, Some k, SipTxnInfo_new
     \<lparr>ti_bTxnTerminated := m_bTxnTerminated d, ti_bTxnCreated := m_bTxnCreated d,
      ti_pUserData := (if m_bTxnCreated d \<or> m_bTxnTerminated d then m_pOutUserData d else None)\<rparr>, u')"
proof -
  have me: "me = SipMessage_GetMethodType m" "me \<noteq> METHOD_INVALID"
    using m unfolding CheckTxnMandatoryParams_Some by blast+
  then have t: "ty \<in> {INVITE_CLIENT, NON_INVITE_CLIENT}" "ty \<noteq> INVALID"
    by (auto simp: ty GetTxnType_def)
  have e: "m_pnError u = 0" "env_callback (m_env u)" using w by (simp_all add: working_def)
  have v: "ValidateSendTxn m u = (Some (ty, fst (SipTxnKey_of_msg m 0)), u)"
    using t e by (simp add: ValidateSendTxn_def m new_key_of_msg_ok [OF m] ty [symmetric]
                            EERR_MALLOCFAILED_def)
  have g: "GetTxnObjFromDb k u = (True, None, False, u)"
    by (simp add: GetTxnObjFromDb_def FetchTransaction_fetch f e)
  have kt: "m_eMsgType k = REQ_TYPE" using msg_key_type [OF m] by (simp add: k)
  have k': "SetTxnType ty (fst (SipTxnKey_of_msg m 0)) = k" by (simp add: k msg_key_def)
  show ?thesis
    using t a me(1) r
    by (auto simp: OnSendTxn_def v k' g kt SipTxnInfo_new_def Let_def)
qed


lemma SipDelete_Increment_upd:
  assumes "m_nRefCount (f ((txn i u)\<lparr>m_nRefCount := m_nRefCount (txn i u) + 1\<rparr>)) = m_nRefCount (txn i u) + 1"
    and "m_nRefCount (txn i u) \<noteq> 0"
  shows "txn i (SipDelete i (upd_txn i f (Increment i u)))
    = (f ((txn i u)\<lparr>m_nRefCount := m_nRefCount (txn i u) + 1\<rparr>))\<lparr>m_nRefCount := m_nRefCount (txn i u)\<rparr>"
  using assms by (simp add: SipDelete_def txn_Increment Let_def)

lemma matches_self: "complete_key k \<Longrightarrow> SipStackTransaction_CompareKey k (k, i)"
  by (simp add: SipStackTransaction_CompareKey_def CompareKeys_refl)

end
