(* ===== verification/SipInvariant.thy ===== *)
theory SipInvariant
  imports SipCallFacts
begin

text \<open>
  What every operation of the layer keeps true: the table is well-formed, the keys of
  transactions and of table entries name the transaction's type, and the state of a transaction
  is one of its own machine.
\<close>

section \<open>The invariant\<close>

fun machine_of :: "txn_state \<Rightarrow> sip_txn_type" where
  "machine_of (INV_CLI _) = INVITE_CLIENT"
| "machine_of (INV_SER _) = INVITE_SERVER"
| "machine_of (NON_INV_CLI _) = NON_INVITE_CLIENT"
| "machine_of (NON_INV_SER _) = NON_INVITE_SERVER"
| "machine_of NO_STATE = INVALID"

definition typed :: "SipStack \<Rightarrow> bool" where
  "typed u \<longleftrightarrow> (\<forall>j. machine_of (m_nTxnState (txn j u)) = m_eTxnType (txn j u))"

definition own_keys :: "SipStack \<Rightarrow> bool" where
  "own_keys u \<longleftrightarrow>
     (\<forall>j k. m_pTxnKey (txn j u) = Some k \<longrightarrow> key_eTxnType k = m_eTxnType (txn j u))"

definition entry_keys :: "SipStack \<Rightarrow> bool" where
  "entry_keys u \<longleftrightarrow> (\<forall>k j. (k, j) \<in> set (db_entries (m_objTxnAggregate u)) \<longrightarrow>
     j < m_nNextTxn u \<and> (m_pszCallId k \<noteq> None \<longrightarrow> key_eTxnType k = m_eTxnType (txn j u)))"

definition stack_inv :: "SipStack \<Rightarrow> bool" where
  "stack_inv u \<longleftrightarrow> db_inv (m_objTxnAggregate u) \<and> typed u \<and> own_keys u \<and> entry_keys u"

lemma inv_cong:
  assumes "\<And>j. m_nTxnState (txn j u') = m_nTxnState (txn j u)"
    and "\<And>j. m_eTxnType (txn j u') = m_eTxnType (txn j u)"
    and "\<And>j. m_pTxnKey (txn j u') \<in> {m_pTxnKey (txn j u), None}"
    and "m_objTxnAggregate u' = m_objTxnAggregate u" and "m_nNextTxn u' = m_nNextTxn u"
  shows "stack_inv u \<Longrightarrow> stack_inv u'"
  using assms unfolding stack_inv_def typed_def own_keys_def entry_keys_def
  by (metis empty_iff insert_iff option.distinct(1))

section \<open>Updates of one transaction\<close>

lemma inv_upd_txn:
  assumes "\<And>t. m_nTxnState (f t) = m_nTxnState t" and "\<And>t. m_eTxnType (f t) = m_eTxnType t"
    and "\<And>t. m_pTxnKey (f t) \<in> {m_pTxnKey t, None}"
  shows "stack_inv u \<Longrightarrow> stack_inv (upd_txn i f u)"
  by (rule inv_cong [rotated -1]) (use assms in \<open>auto simp: txn_upd_txn\<close>)

lemma next_frame [simp]:
  "m_nNextTxn (StopTimer h u) = m_nNextTxn u" "m_nNextTxn (upd_out_key i f u) = m_nNextTxn u"
  by (simp_all add: StopTimer_def upd_out_key_def)

lemma inv_fields [simp]:
  "stack_inv (emit x u) = stack_inv u" "stack_inv (u\<lparr>m_pnError := e\<rparr>) = stack_inv u" "stack_inv (u\<lparr>m_timers := t\<rparr>) = stack_inv u"
  "stack_inv (u\<lparr>m_nNextTimer := n\<rparr>) = stack_inv u" "stack_inv (upd_key_list f u) = stack_inv u" "stack_inv (StopTimer h u) = stack_inv u"
  by (simp_all add: stack_inv_def typed_def own_keys_def entry_keys_def)

lemma inv_setters [simp]:
  assumes "stack_inv u"
  shows "stack_inv (SetMaxDuration i d u)" "stack_inv (SetCurrentDuration i d u)" "stack_inv (SetTimerId i h u)"
    "stack_inv (IncreaseTxnCount i u)" "stack_inv (IncreaseDurationExpired i d u)" "stack_inv (SetRprTxnTerminated i b u)"
    "stack_inv (SetAckReceived i b u)" "stack_inv (InitRetransmissionInfo i u)" "stack_inv (SetUserData i ud u)"
    "stack_inv (UpdateTranspInfo i ti u)" "stack_inv (Increment i u)" "stack_inv (UserData_Set p ctx u)"
    "stack_inv (UserData_SetDeleteFlag p b u)"
  unfolding txn_set_defs UserData_Set_def UserData_SetDeleteFlag_def
  by (auto intro!: inv_upd_txn simp: assms split: option.split)

lemma inv_SipDelete [simp]: "stack_inv u \<Longrightarrow> stack_inv (SipDelete i u)"
  unfolding SipDelete_def by (rule inv_upd_txn) (auto simp: SipTxn_destroy_def Let_def)

lemma inv_SetTxnState:
  assumes "stack_inv u" and "machine_of st = m_eTxnType (txn i u)"
  shows "stack_inv (SetTxnState i st u)"
proof -
  have k: "m_pTxnKey (txn j (SetTxnState i st u)) = m_pTxnKey (txn j u)" for j
    by (cases "j = i"; simp add: SetTxnState_def)
  have a: "m_objTxnAggregate (SetTxnState i st u) = m_objTxnAggregate u"
    "m_nNextTxn (SetTxnState i st u) = m_nNextTxn u" by (simp_all add: SetTxnState_def)
  show ?thesis
    using assms by (auto simp: stack_inv_def typed_def own_keys_def entry_keys_def k a)
qed

lemma inv_Txn_SetResponseCode [simp]:
  assumes "stack_inv u"
  shows "stack_inv (Txn_SetResponseCode i n u)"
proof -
  have t: "m_nTxnState (txn j (Txn_SetResponseCode i n u)) = m_nTxnState (txn j u)"
    "m_eTxnType (txn j (Txn_SetResponseCode i n u)) = m_eTxnType (txn j u)"
    "m_pTxnKey (txn j (Txn_SetResponseCode i n u)) =
       (if j = i then map_option (SetResponseCode n) (m_pTxnKey (txn i u)) else m_pTxnKey (txn j u))" for j
    by (cases "j = i"; simp add: Txn_SetResponseCode_def)+
  have a: "m_objTxnAggregate (Txn_SetResponseCode i n u) = m_objTxnAggregate u"
    "m_nNextTxn (Txn_SetResponseCode i n u) = m_nNextTxn u"
    by (simp_all add: Txn_SetResponseCode_def)
  show ?thesis
    using assms by (auto simp: stack_inv_def typed_def own_keys_def entry_keys_def t a SetResponseCode_def)
qed

lemma inv_upd_out_key:
  assumes "stack_inv u" and "\<And>k. key_eTxnType (f k) = key_eTxnType k" and "\<And>k. m_pszCallId (f k) = m_pszCallId k"
  shows "stack_inv (upd_out_key i f u)"
  using assms entry_key_update_inv [of f "m_objTxnAggregate u" i]
  by (auto simp: stack_inv_def typed_def own_keys_def entry_keys_def entry_key_update_entries)

lemma inv_upd_out_key_SetResponseCode [simp]: "stack_inv u \<Longrightarrow> stack_inv (upd_out_key i (SetResponseCode n) u)"
  and inv_upd_out_key_SetToTag [simp]: "stack_inv u \<Longrightarrow> stack_inv (upd_out_key i (SetToTag t) u)"
  and inv_upd_out_key_SetRSeq [simp]: "stack_inv u \<Longrightarrow> stack_inv (upd_out_key i (SetRSeq r) u)"
  by (auto intro!: inv_upd_out_key simp: SetResponseCode_def SetToTag_def SetRSeq_def)

section \<open>The table\<close>

lemma inv_entries_subset:
  assumes "stack_inv u" and "db_inv m" and "set (db_entries m) \<subseteq> set (db_entries (m_objTxnAggregate u))"
  shows "stack_inv (u\<lparr>m_objTxnAggregate := m\<rparr>)"
  using assms by (simp add: stack_inv_def typed_def own_keys_def entry_keys_def) blast

lemma inv_ReleaseTransaction [simp]: "stack_inv u \<Longrightarrow> stack_inv (snd (ReleaseTransaction k u))"
proof -
  assume i: "stack_inv u"
  then have d: "db_inv (m_objTxnAggregate u)" by (simp add: stack_inv_def)
  have "stack_inv (u\<lparr>m_objTxnAggregate := snd (SipStackState_RemoveTransaction k TXN_REMOVE (m_objTxnAggregate u))\<rparr>)"
    by (rule inv_entries_subset [OF i txn_db.invar_remove [OF d] txn_db.set_entries_remove [OF d]])
  then show ?thesis
    using i by (auto simp: ReleaseTransaction_def split: option.split prod.split)
qed

lemma inv_RemoveFromTxnPool [simp]: "stack_inv u \<Longrightarrow> stack_inv (SipTxn_RemoveFromTxnPool k u)"
  using inv_ReleaseTransaction
  by (simp add: SipTxn_RemoveFromTxnPool_def split_beta split: option.split)

lemma inv_FetchTransaction_fetch [simp]: "snd (snd (FetchTransaction k TXN_FETCH p u)) = u"
  by (simp add: FetchTransaction_fetch split: option.split)

lemma found_type:
  assumes "stack_inv u" and "SipStackState_FindTransaction k (m_objTxnAggregate u) = Some e"
  shows "m_eTxnType (txn (snd e) u) = key_eTxnType k"
proof -
  have d: "db_inv (m_objTxnAggregate u)" using assms(1) by (simp add: stack_inv_def)
  from txn_db.find_in_mem [OF d assms(2)]
  have "e \<in> set (db_entries (m_objTxnAggregate u))" "CompareKeys (fst e) k"
    by (auto simp: SipStackTransaction_CompareKey_def)
  moreover from this have "m_pszCallId (fst e) \<noteq> None" "key_eTxnType (fst e) = key_eTxnType k"
    by (auto simp: CompareKeys_def sip_str split: if_splits)
  moreover have "entry_keys u" using assms(1) by (simp add: stack_inv_def)
  ultimately show ?thesis unfolding entry_keys_def by (metis prod.collapse)
qed

lemma no_call_id_not_found:
  "db_inv m \<Longrightarrow> m_pszCallId k = None \<Longrightarrow> SipStackState_FindTransaction k m = None"
  by (auto simp: FindTransaction_entries find_None SipStackTransaction_CompareKey_def CompareKeys_def
      sip_str split: if_splits)

text \<open>The copy of the transaction's own key that the idle handlers enter into the table.\<close>

lemma own_key_copy:
  assumes "stack_inv u" and "snd (SipTxnKey_Init (m_pTxnKey (txn i u)) (m_pnError u)) \<noteq> E_ERR_PF_MALLOCFAILED"
    and "k = fst (SipTxnKey_Init (m_pTxnKey (txn i u)) (m_pnError u))" and "m_pszCallId k \<noteq> None"
  shows "key_eTxnType k = m_eTxnType (txn i u)"
proof (cases "m_pTxnKey (txn i u)")
  case None
  then show ?thesis using assms by (simp add: SipTxnKey_Init_def SipTxnKey_new_def)
next
  case (Some k')
  then have "complete_key k'"
    using assms(2) by (simp add: SipTxnKey_Init_def complete_key_def Let_def split: if_splits)
  then show ?thesis using assms Some by (auto simp: SipTxnKey_Init_complete stack_inv_def own_keys_def)
qed

lemma inv_add_to_db:
  assumes "stack_inv u" and "i < m_nNextTxn u"
  shows "stack_inv (snd (add_to_db i u))"
    and "fst (add_to_db i u) = Some jk \<Longrightarrow> m_eTxnType (txn (fst jk) u) = m_eTxnType (txn i u)"
proof -
  define k where "k = fst (SipTxnKey_Init (m_pTxnKey (txn i u)) (m_pnError u))"
  define e where "e = snd (SipTxnKey_Init (m_pTxnKey (txn i u)) (m_pnError u))"
  let ?u = "u\<lparr>m_pnError := e\<rparr>"
  have n: "new_key_copy (m_pTxnKey (txn i u)) u = (k, ?u)"
    by (simp add: new_key_copy_def split_beta k_def e_def)
  have o: "m_pszCallId k \<noteq> None \<Longrightarrow> e \<noteq> E_ERR_PF_MALLOCFAILED \<Longrightarrow> key_eTxnType k = m_eTxnType (txn i u)"
    using own_key_copy [OF assms(1), of i k] by (simp add: k_def e_def)
  have d: "db_inv (m_objTxnAggregate u)" using assms(1) by (simp add: stack_inv_def)
  let ?m = "snd (SipStackState_AddTransaction k i (m_objTxnAggregate u))"
  have add: "stack_inv ((Increment i ?u)\<lparr>m_objTxnAggregate := ?m\<rparr>)"
    if "e \<noteq> E_ERR_PF_MALLOCFAILED"
  proof -
    have s: "set (db_entries ?m) = insert (k, i) (set (db_entries (m_objTxnAggregate u)))"
      using txn_db.set_entries_add [OF d, of "(k, i)"] by simp
    have x: "m_nTxnState (txn j (Increment i ?u)) = m_nTxnState (txn j u)"
      "m_eTxnType (txn j (Increment i ?u)) = m_eTxnType (txn j u)"
      "m_pTxnKey (txn j (Increment i ?u)) = m_pTxnKey (txn j u)" for j
      by (cases "j = i"; simp add: Increment_def)+
    show ?thesis
      using assms o that txn_db.invar_add [OF d, of "(k, i)"]
      by (simp add: stack_inv_def typed_def own_keys_def entry_keys_def s x)
  qed
  show "stack_inv (snd (add_to_db i u))"
    using assms add by (auto simp: add_to_db_def n FetchTransaction_def Let_def split_beta split: option.split)
  show "m_eTxnType (txn (fst jk) u) = m_eTxnType (txn i u)" if a: "fst (add_to_db i u) = Some jk"
  proof (cases "SipStackState_FindTransaction k (m_objTxnAggregate u)")
    case None
    with a show ?thesis
      by (auto simp: add_to_db_def n FetchTransaction_def Let_def split_beta split: if_splits option.splits)
  next
    case (Some f)
    have c: "m_pszCallId k \<noteq> None" using no_call_id_not_found [OF d, of k] Some by auto
    have "e \<noteq> E_ERR_PF_MALLOCFAILED" and f: "fst jk = snd f"
      using a Some by (auto simp: add_to_db_def n FetchTransaction_def Let_def split: if_splits)
    then show ?thesis using found_type [OF assms(1) Some] o c by simp
  qed
qed

section \<open>Timers\<close>

lemma inv_StopTxnTimer [simp]: "stack_inv u \<Longrightarrow> stack_inv (snd (StopTxnTimer i u))"
  by (simp add: StopTxnTimer_def split: option.split)

lemma inv_StartTimer [simp]: "stack_inv (snd (StartTimer d td u)) = stack_inv u"
proof -
  have "stack_inv (u\<lparr>m_timers := t, m_nNextTimer := n\<rparr>) = stack_inv u" for t n
    by (simp add: stack_inv_def typed_def own_keys_def entry_keys_def)
  then show ?thesis by (simp add: StartTimer_def Let_def)
qed

lemma inv_timer_fields: "stack_inv u \<Longrightarrow> stack_inv (upd_txn i (\<lambda>t. t\<lparr>m_pvTimerId := h, m_eTimerType := ty,
    m_nCurrentDuration := d\<rparr>) u)"
  "stack_inv u \<Longrightarrow> stack_inv (upd_txn i (\<lambda>t. t\<lparr>m_eTimerType := ty, m_nCurrentDuration := d\<rparr>) u)"
  by (auto intro!: inv_upd_txn)

lemma inv_StartTxnTimer_nonzero [simp]: "stack_inv u \<Longrightarrow> stack_inv (snd (StartTxnTimer_nonzero i ty d u))"
  using inv_StartTimer [of d "SipTimeoutData_new (m_eTxnType (txn i u)) ty (m_pTxnKey (txn i u))" u]
  by (auto simp: StartTxnTimer_nonzero_def Let_def inv_timer_fields simp del: inv_StartTimer
      split: option.split prod.split)

lemma inv_restart_timer [simp]: "stack_inv u \<Longrightarrow> stack_inv (snd (restart_timer i ty d u))"
  by (simp add: restart_timer_def step_simps)

lemma inv_first_expiry [simp]: "stack_inv u \<Longrightarrow> stack_inv (snd (first_expiry i u))"
  by (simp add: first_expiry_def Let_def)

lemma inv_DestroyTxnContext [simp]: "stack_inv (DestroyTxnContext c u) = stack_inv u"
  by (simp add: DestroyTxnContext_def split: option.split)

lemma inv_NotifyTimerExpired [simp]: "stack_inv u \<Longrightarrow> stack_inv (NotifyTimerExpired p ty u)"
  by (simp add: NotifyTimerExpired_def Let_def split: option.split)

lemma inv_Network_Send [simp]: "stack_inv (snd (Network_Send ti u)) = stack_inv u"
  by (simp add: Network_Send_def)

lemma inv_AbortTxn [simp]: "stack_inv u \<Longrightarrow> stack_inv (AbortTxn i u)"
  by (simp add: AbortTxn_def Let_def split: option.split)

lemma inv_timeout_fsms:
  assumes "stack_inv u"
  shows "m_eTxnType (txn i u) = INVITE_CLIENT \<Longrightarrow> stack_inv (snd (InvCli_timeout_fsm st1 e1 i td u))"
    "m_eTxnType (txn i u) = INVITE_SERVER \<Longrightarrow> stack_inv (snd (InvSer_timeout_fsm st2 e2 i td u))"
    "m_eTxnType (txn i u) = NON_INVITE_CLIENT \<Longrightarrow> stack_inv (snd (NonInvCli_timeout_fsm st3 e3 i td u))"
    "m_eTxnType (txn i u) = NON_INVITE_SERVER \<Longrightarrow> stack_inv (snd (NonInvSer_timeout_fsm st4 e4 i td u))"
  subgoal by (cases "(st1, e1)" rule: InvCli_timeout_fsm.cases;
      simp add: timeout_handler_defs step_simps assms inv_SetTxnState)
  subgoal by (cases "(st2, e2)" rule: InvSer_timeout_fsm.cases;
      simp add: timeout_handler_defs step_simps assms inv_SetTxnState)
  subgoal by (cases "(st3, e3)" rule: NonInvCli_timeout_fsm.cases;
      simp add: timeout_handler_defs step_simps assms inv_SetTxnState)
  subgoal by (cases "(st4, e4)" rule: NonInvSer_timeout_fsm.cases;
      simp add: timeout_handler_defs step_simps assms inv_SetTxnState)
  done

lemma inv_InvokeFsm_timeout [simp]: "stack_inv u \<Longrightarrow> stack_inv (snd (InvokeFsm_timeout i ev td u))"
  by (simp add: InvokeFsm_timeout_def inv_timeout_fsms
      split: sip_txn_type.splits txn_state.splits txn_event.splits)

lemma inv_CbkTxnTimeout [simp]: "stack_inv u \<Longrightarrow> stack_inv (CbkTxnTimeout td h u)"
  by (simp add: CbkTxnTimeout_def FetchTransaction_fetch step_simps split: option.splits)

lemma inv_Timer_TimerExpired [simp]: "stack_inv u \<Longrightarrow> stack_inv (Timer_TimerExpired h u)"
  by (simp add: Timer_TimerExpired_def split: option.splits)

lemma inv_StartTxnTimer [simp]: "stack_inv u \<Longrightarrow> stack_inv (snd (StartTxnTimer i ty d u))"
  by (simp add: StartTxnTimer_def Let_def inv_timer_fields)

section \<open>The machines\<close>

lemma inv_copy_user_data [simp]: "stack_inv u \<Longrightarrow> stack_inv (copy_user_data i d u)"
  by (simp add: copy_user_data_def split: option.split)

lemma inv_new_key [simp]:
  "stack_inv (snd (new_key_of_msg m u)) = stack_inv u" "stack_inv (snd (new_key_copy k u)) = stack_inv u"
  by (simp_all add: new_key_of_msg_def new_key_copy_def split_beta)

lemma inv_InvSer_stop_retransmission [simp]: "stack_inv u \<Longrightarrow> stack_inv (InvSer_stop_retransmission i u)"
  by (simp add: InvSer_stop_retransmission_def split_beta Let_def)

lemma inv_RemoveFromTxnPool_i [simp]: "stack_inv u \<Longrightarrow> stack_inv (RemoveFromTxnPool i u)"
  by (simp add: RemoveFromTxnPool_def)

lemma inv_add_to_db_state [simp]: "stack_inv u \<Longrightarrow> i < m_nNextTxn u \<Longrightarrow> stack_inv (snd (add_to_db i u))"
  by (rule inv_add_to_db)

lemma inv_add_to_db_type:
  "stack_inv u \<Longrightarrow> i < m_nNextTxn u \<Longrightarrow> fst (add_to_db i u) = Some (a, b) \<Longrightarrow> m_eTxnType (txn a u) = m_eTxnType (txn i u)"
  using inv_add_to_db(2) [of u i "(a, b)"] by simp

lemma inv_process_prack [simp]: "stack_inv u \<Longrightarrow> stack_inv (snd (NonInvSer_process_prack i k d u))"
  by (simp add: NonInvSer_process_prack_def step_simps FetchTransaction_fetch split: option.splits)

lemma inv_gpfSipInvClientTxnFsm:
  assumes "stack_inv u" and "m_eTxnType (txn i u) = INVITE_CLIENT" and "i < m_nNextTxn u"
  shows "stack_inv (snd (snd (gpfSipInvClientTxnFsm st ev i pv u)))"
  using assms inv_add_to_db_type [OF assms(1,3)]
  by (cases "(st, ev)" rule: gpfSipInvClientTxnFsm.cases; cases pv;
      simp add: dispatch_defs inv_cli_handler_defs inv_timeout_fsms step_simps inv_SetTxnState
        timeout_handler_defs split: option.split)

lemma inv_gpfSipInvSerTxnFsm:
  assumes "stack_inv u" and "m_eTxnType (txn i u) = INVITE_SERVER" and "i < m_nNextTxn u"
  shows "stack_inv (snd (snd (gpfSipInvSerTxnFsm st ev i pv u)))"
  using assms inv_add_to_db_type [OF assms(1,3)]
  by (cases "(st, ev)" rule: gpfSipInvSerTxnFsm.cases; cases pv;
      simp add: dispatch_defs inv_ser_handler_defs inv_timeout_fsms step_simps inv_SetTxnState
        timeout_handler_defs FetchTransaction_fetch split: option.split)

lemma inv_gpfSipNonInvClientTxnFsm:
  assumes "stack_inv u" and "m_eTxnType (txn i u) = NON_INVITE_CLIENT" and "i < m_nNextTxn u"
  shows "stack_inv (snd (snd (gpfSipNonInvClientTxnFsm st ev i pv u)))"
  using assms inv_add_to_db_type [OF assms(1,3)]
  by (cases "(st, ev)" rule: gpfSipNonInvClientTxnFsm.cases; cases pv;
      simp add: dispatch_defs non_inv_cli_handler_defs inv_timeout_fsms step_simps inv_SetTxnState
        timeout_handler_defs split: option.split)

lemma inv_gpfSipNonInvSerTxnFsm:
  assumes "stack_inv u" and "m_eTxnType (txn i u) = NON_INVITE_SERVER" and "i < m_nNextTxn u"
  shows "stack_inv (snd (snd (gpfSipNonInvSerTxnFsm st ev i pv u)))"
  using assms inv_add_to_db_type [OF assms(1,3)]
  by (cases "(st, ev)" rule: gpfSipNonInvSerTxnFsm.cases; cases pv;
      simp add: dispatch_defs non_inv_ser_handler_defs inv_timeout_fsms step_simps inv_SetTxnState
        timeout_handler_defs split: option.split)

lemma inv_InvokeFsm [simp]:
  "stack_inv u \<Longrightarrow> i < m_nNextTxn u \<Longrightarrow> stack_inv (snd (snd (InvokeFsm i ev pv u)))"
  by (simp add: InvokeFsm_def inv_gpfSipInvClientTxnFsm inv_gpfSipInvSerTxnFsm
      inv_gpfSipNonInvClientTxnFsm inv_gpfSipNonInvSerTxnFsm
      split: sip_txn_type.split txn_state.split txn_event.split)

lemma inv_InvokeFsm_message [simp]:
  "stack_inv u \<Longrightarrow> i < m_nNextTxn u \<Longrightarrow> stack_inv (snd (snd (InvokeFsm_message i ev d u)))"
proof -
  assume a: "stack_inv u" "i < m_nNextTxn u"
  obtain b pv v where r: "InvokeFsm i ev (FSM_DATA d) u = (b, pv, v)" by (metis prod.collapse)
  then have "stack_inv v" using inv_InvokeFsm [OF a, of ev "FSM_DATA d"] by simp
  then show ?thesis by (simp add: InvokeFsm_message_def r split: pvData.split)
qed

section \<open>The handlers\<close>

lemma found_bound:
  assumes "stack_inv u" and "SipStackState_FindTransaction k (m_objTxnAggregate u) = Some e"
  shows "snd e < m_nNextTxn u"
proof -
  have "db_inv (m_objTxnAggregate u)" using assms(1) by (simp add: stack_inv_def)
  from txn_db.find_in_mem [OF this assms(2)] have "e \<in> set (db_entries (m_objTxnAggregate u))" by simp
  moreover have "entry_keys u" using assms(1) by (simp add: stack_inv_def)
  ultimately show ?thesis unfolding entry_keys_def by (metis prod.collapse)
qed

lemma found_bound_pair:
  "stack_inv u \<Longrightarrow> SipStackState_FindTransaction k (m_objTxnAggregate u) = Some (e, i) \<Longrightarrow> i < m_nNextTxn u"
  using found_bound [of u k "(e, i)"] by simp

lemma txn_m_txns [simp]: "txn j (u\<lparr>m_txns := (m_txns u)(i := t)\<rparr>) = (if j = i then t else txn j u)"
  by (simp add: txn_def)

lemma inv_SipTxn_new:
  assumes "stack_inv u" and "key_eTxnType k = ty"
  shows "stack_inv (snd (SipTxn_new ty k m c u))" and "fst (SipTxn_new ty k m c u) < m_nNextTxn (snd (SipTxn_new ty k m c u))"
proof -
  obtain t err where t: "SipTxn_construct (env_config (m_env u)) ty k m c (m_pnError u) = (t, err)"
    by fastforce
  have f: "m_eTxnType t = ty" "m_nTxnState t = idle_state ty"
    "\<And>k'. m_pTxnKey t = Some k' \<Longrightarrow> key_eTxnType k' = ty"
    using t assms(2)
    by (auto simp: SipTxn_construct_def SipTxnKey_Init_def Let_def split: if_splits prod.splits)
  have u: "snd (SipTxn_new ty k m c u) =
      u\<lparr>m_txns := (m_txns u)(m_nNextTxn u := t), m_nNextTxn := Suc (m_nNextTxn u), m_pnError := err\<rparr>"
    "fst (SipTxn_new ty k m c u) = m_nNextTxn u"
    by (simp_all add: SipTxn_new_def t Let_def)
  have mi: "machine_of (idle_state ty) = ty" by (cases ty) (simp_all add: idle_state_def)
  show "stack_inv (snd (SipTxn_new ty k m c u))"
    using assms(1) f mi unfolding u
    by (auto simp: stack_inv_def typed_def own_keys_def entry_keys_def less_Suc_eq)
  show "fst (SipTxn_new ty k m c u) < m_nNextTxn (snd (SipTxn_new ty k m c u))"
    unfolding u(2) by (simp add: u(1))
qed

lemma inv_GetTxnObjFromDb [simp]: "stack_inv (snd (snd (snd (GetTxnObjFromDb k u)))) = stack_inv u"
  by (simp add: GetTxnObjFromDb_def FetchTransaction_fetch split: option.split)

lemma GetTxnObjFromDb_eq:
  "GetTxnObjFromDb k u =
    (if \<not> env_callback (m_env u) then (True, None, False, u)
     else case SipStackState_FindTransaction k (m_objTxnAggregate u) of
       None \<Rightarrow> (True, None, False, u) | Some e \<Rightarrow> (True, Some (snd e), True, u))"
  by (simp add: GetTxnObjFromDb_def FetchTransaction_fetch split: option.split)

lemma inv_HandleClientTxnSend [simp]:
  "stack_inv u \<Longrightarrow> key_eTxnType k = ty \<Longrightarrow> stack_inv (snd (snd (HandleClientTxnSend ty k d u)))"
  using inv_SipTxn_new [of u k ty "m_pSipMsgIn d" "timer_context d"]
  by (simp add: HandleClientTxnSend_def step_simps)

lemma inv_update_server_timers [simp]: "stack_inv u \<Longrightarrow> stack_inv (update_server_timers i d u)"
  by (auto simp: update_server_timers_def intro!: inv_upd_txn split: option.split)

lemma next_handler_frame [simp]:
  "m_nNextTxn (Txn_SetResponseCode i n u) = m_nNextTxn u"
  "m_nNextTxn (update_server_timers i d u) = m_nNextTxn u"
  by (simp_all add: Txn_SetResponseCode_def update_server_timers_def split: option.split)

lemma inv_HandleServerTxnSend [simp]:
  "stack_inv u \<Longrightarrow> stack_inv (snd (snd (HandleServerTxnSend ty k d u)))"
  by (auto simp: HandleServerTxnSend_def GetTxnObjFromDb_eq step_simps found_bound_pair split: option.split)

lemma inv_OnSendTxn [simp]:
  assumes "stack_inv u"
  shows "stack_inv (snd (snd (snd (OnSendTxn m tp ud u))))"
proof -
  have v: "stack_inv (snd (ValidateSendTxn m u))"
    using assms inv_new_key(1) [of m u]
    by (auto simp: ValidateSendTxn_def step_simps Let_def split: option.split)
  have k: "key_eTxnType (SetTxnType ty k) = ty" for ty k by (simp add: SetTxnType_def)
  show ?thesis
    using v by (auto simp: OnSendTxn_def step_simps GetTxnObjFromDb_eq k split: option.split)
qed

lemma inv_HandleClientTxnRecv [simp]:
  "stack_inv u \<Longrightarrow> stack_inv (snd (snd (HandleClientTxnRecv ty k d u)))"
  by (auto simp: HandleClientTxnRecv_def GetTxnObjFromDb_eq step_simps found_bound_pair split: option.split)

lemma inv_HandleServerTxnRecv [simp]:
  assumes "stack_inv u" and "key_eTxnType k = ty"
  shows "stack_inv (snd (snd (snd (HandleServerTxnRecv ty k d u))))"
proof (cases "\<not> env_callback (m_env u) \<or> SipStackState_FindTransaction k (m_objTxnAggregate u) = None")
  case True
  then show ?thesis
    using assms inv_SipTxn_new [OF assms, of "m_pSipMsgIn d" "timer_context d"]
    by (auto simp: HandleServerTxnRecv_def GetTxnObjFromDb_eq split_beta Let_def)
next
  case False
  then obtain e i where "SipStackState_FindTransaction k (m_objTxnAggregate u) = Some (e, i)" by auto
  then show ?thesis
    using assms(1) False found_bound_pair [OF assms(1), of k e i]
    by (auto simp: HandleServerTxnRecv_def GetTxnObjFromDb_eq split_beta Let_def)
qed

lemma inv_OnRecvTxn [simp]: "stack_inv u \<Longrightarrow> stack_inv (snd (snd (snd (OnRecvTxn m k ud u))))"
proof -
  assume a: "stack_inv u"
  have "key_eTxnType (SetTxnType ty k) = ty" for ty by (simp add: SetTxnType_def)
  then show ?thesis using a by (auto simp: OnRecvTxn_def step_simps split: option.split)
qed

lemma inv_NotifyTxnTermination [simp]: "stack_inv u \<Longrightarrow> stack_inv (NotifyTxnTermination i u)"
  by (simp add: NotifyTxnTermination_def Let_def split: option.split)

lemma inv_TerminateTxn [simp]: "stack_inv u \<Longrightarrow> stack_inv (snd (TerminateTxn k u))"
  by (simp add: TerminateTxn_def step_simps split: option.split)

lemma inv_DeleteTxn [simp]: "stack_inv u \<Longrightarrow> stack_inv (snd (DeleteTxn k u))"
  by (simp add: DeleteTxn_def step_simps split: option.split)

lemma inv_OnSendTranspError [simp]: "stack_inv u \<Longrightarrow> stack_inv (snd (OnSendTranspError k u))"
  by (simp add: OnSendTranspError_def split: option.split)

lemma inv_UpdateTxnDetails [simp]: "stack_inv u \<Longrightarrow> stack_inv (snd (UpdateTxnDetails k ti u))"
  by (auto simp: UpdateTxnDetails_def GetTxnObjFromDb_eq split: option.split)

lemma inv_OnRecvTranspError [simp]: "stack_inv u \<Longrightarrow> stack_inv (snd (OnRecvTranspError k u))"
  by (auto simp: OnRecvTranspError_def GetTxnObjFromDb_eq step_simps found_bound_pair split: option.split)

section \<open>The stack manager\<close>

lemma inv_OnRecvTransp [simp]: "stack_inv u \<Longrightarrow> stack_inv (snd (OnRecvTransp m u))"
proof -
  assume a: "stack_inv u"
  then have "stack_inv (snd (GetTxnKeyFromSipMsg m u))"
    using inv_new_key(1) [of m u] by (simp add: GetTxnKeyFromSipMsg_def step_simps split: option.split)
  then show ?thesis by (auto simp: OnRecvTransp_def step_simps GetTxnObjFromDb_eq split: option.split)
qed

lemma inv_SendToNetwork [simp]: "stack_inv (snd (SendToNetwork ti u)) = stack_inv u"
  by (simp add: SendToNetwork_def split: option.split)

lemma inv_Transp_OnRecvTanspError [simp]:
  "stack_inv u \<Longrightarrow> stack_inv (snd (snd (snd (Transp_OnRecvTanspError k u))))"
  by (auto simp: Transp_OnRecvTanspError_def GetTxnObjFromDb_eq step_simps split: option.split)

lemma inv_SendMsg_finish [simp]:
  "stack_inv u \<Longrightarrow> stack_inv (snd (snd (snd (SendMsg_finish m k info ti ud u))))"
  by (auto simp: SendMsg_finish_def step_simps split: option.split)

lemma inv_SendMsg [simp]: "stack_inv u \<Longrightarrow> stack_inv (snd (snd (snd (SendMsg m p ud buf u))))"
  by (auto simp: SendMsg_def step_simps split: option.split)

lemma inv_OnRecvMessage_send [simp]:
  "stack_inv u \<Longrightarrow> stack_inv (snd (snd (OnRecvMessage_send k p info ud u)))"
  by (auto simp: OnRecvMessage_send_def step_simps split: option.split)

lemma inv_OnRecvMessage_finish [simp]:
  "stack_inv u \<Longrightarrow> stack_inv (snd (snd (OnRecvMessage_finish m k info ud u)))"
  by (auto simp: OnRecvMessage_finish_def step_simps)

lemma inv_OnRecvMessage [simp]:
  "stack_inv u \<Longrightarrow> stack_inv (snd (snd (snd (snd (OnRecvMessage m p ud u)))))"
  by (auto simp: OnRecvMessage_def step_simps split: option.split)

lemma inv_Mngr_OnRecvTanspError [simp]: "stack_inv u \<Longrightarrow> stack_inv (snd (Mngr_OnRecvTanspError k u))"
  by (auto simp: Mngr_OnRecvTanspError_def step_simps)

end
