(* ===== verification/SipRefCount.thy ===== *)
theory SipRefCount
  imports SipInvariant
begin

text \<open>
  Reference counts: between calls, a transaction is held at least twice by each of its entries
  in the table, so that no entry ever refers to a destroyed transaction. The balance of a
  transaction is what its count exceeds that by; the lemmas say what each operation does to it.
\<close>

section \<open>The balance\<close>

definition refs :: "nat \<Rightarrow> txn_aggregate \<Rightarrow> nat" where
  "refs j m = count_list (map snd (db_entries m)) j"

definition balance :: "nat \<Rightarrow> SipStack \<Rightarrow> int" where
  "balance j u = m_nRefCount (txn j u) - 2 * int (refs j (m_objTxnAggregate u))"

lemma refs_entry_key_update [simp]: "refs j (entry_key_update i f m) = refs j m"
proof -
  have "map snd (db_entries (entry_key_update i f m)) = map snd (db_entries m)"
    by (simp add: entry_key_update_entries comp_def split_beta)
  then show ?thesis by (simp add: refs_def)
qed

lemma refs_append [simp]: "refs j (m @ m') = refs j m + refs j m'"
  by (simp add: refs_def)

lemma refs_Cons [simp]: "refs j (p # m) = count_list (map snd (snd p)) j + refs j m"
  by (simp add: refs_def)

lemma refs_split:
  assumes "n < length m"
  shows "refs j m = refs j (take n m) + count_list (map snd (snd (m ! n))) j + refs j (drop (Suc n) m)"
proof -
  have "refs j m = refs j (take n m @ m ! n # drop (Suc n) m)"
    using id_take_nth_drop [OF assms] by simp
  then show ?thesis by simp
qed

lemma refs_update: "n < length m \<Longrightarrow> refs j (m[n := (h, es)]) =
    refs j (take n m) + count_list (map snd es) j + refs j (drop (Suc n) m)"
  by (simp add: upd_conv_take_nth_drop)

lemma refs_AddTransaction:
  "refs j (snd (SipStackState_AddTransaction k i m)) = refs j m + (if j = i then 1 else 0)"
proof (cases "ImsMap_GetIndexOfKey m (GetHashCode (m_pszCallId k))")
  case None
  let ?n = "ImsMap_GetOrderOf m (GetHashCode (m_pszCallId k))"
  have "refs j (take ?n m @ drop ?n m) = refs j (take ?n m) + refs j (drop ?n m)" by (rule refs_append)
  then show ?thesis
    using None by (simp add: SipStackState_AddTransaction_def ImsMap_Add_def Let_def)
next
  case (Some n)
  then have n: "n < length m" by (auto dest: GetIndexOfKey_SomeD)
  then show ?thesis
    using Some by (simp add: SipStackState_AddTransaction_def Let_def ImsMap_SetValueAt_def
        ImsMap_GetValueAt_def refs_update refs_split [OF n])
qed

lemma count_list_remove:
  assumes "i < length xs"
  shows "count_list (map snd (take i xs @ drop (Suc i) xs)) j + (if snd (xs ! i) = j then 1 else 0)
     = count_list (map snd xs) j"
proof -
  have "count_list (map snd xs) j = count_list (map snd (take i xs @ xs ! i # drop (Suc i) xs)) j"
    using id_take_nth_drop [OF assms] by simp
  then show ?thesis by simp
qed

lemma refs_RemoveTransaction:
  assumes "r = SipStackState_RemoveTransaction k TXN_REMOVE m"
  shows "refs j (snd r) + (case fst r of None \<Rightarrow> 0 | Some e \<Rightarrow> if snd e = j then 1 else 0) = refs j m"
proof (cases "ImsMap_GetIndexOfKey m (GetHashCode (m_pszCallId k))")
  case (Some n)
  then have n: "n < length m" by (auto dest: GetIndexOfKey_SomeD)
  let ?es = "snd (m ! n)"
  show ?thesis
  proof (cases "first_match (SipStackTransaction_CompareKey k) ?es")
    case f: (Some i)
    then have i: "i < length ?es" by (auto dest: first_match_SomeD)
    let ?es' = "take i ?es @ drop (Suc i) ?es" and ?h = "fst (m ! n)"
    have "refs j (snd r) = refs j (m[n := (?h, ?es')])"
    proof (cases "?es' = []")
      case True
      have "snd r = ImsMap_RemoveAt n (m[n := (?h, ?es')])"
        using True n f Some by (simp add: assms SipStackState_RemoveTransaction_def Let_def
            ImsMap_GetValueAt_def ImsMap_SetValueAt_def)
      moreover have "count_list (map snd ?es') j = 0" using True by (metis count_list.simps(1) list.map(1))
      ultimately show ?thesis using n by (simp add: ImsMap_RemoveAt_def refs_update)
    next
      case False
      then show ?thesis
        using n f Some by (auto simp: assms SipStackState_RemoveTransaction_def Let_def
            ImsMap_GetValueAt_def ImsMap_SetValueAt_def)
    qed
    moreover have "fst r = Some (?es ! i)"
      using f Some by (simp add: assms SipStackState_RemoveTransaction_def Let_def ImsMap_GetValueAt_def)
    ultimately show ?thesis
      using count_list_remove [OF i, of j] n
      by (simp add: refs_update refs_split [OF n])
  qed (use Some in \<open>simp add: assms SipStackState_RemoveTransaction_def Let_def ImsMap_GetValueAt_def\<close>)
qed (simp add: assms SipStackState_RemoveTransaction_def)

section \<open>What the operations do to it\<close>

lemma balance_upd_txn: "(\<And>t. m_nRefCount (f t) = m_nRefCount t) \<Longrightarrow> balance j (upd_txn i f u) = balance j u"
  by (simp add: balance_def txn_upd_txn)

lemma balance_fields [simp]:
  "balance j (emit x u) = balance j u" "balance j (u\<lparr>m_pnError := e\<rparr>) = balance j u"
  "balance j (u\<lparr>m_timers := t\<rparr>) = balance j u" "balance j (u\<lparr>m_nNextTimer := n\<rparr>) = balance j u"
  "balance j (u\<lparr>m_timers := t, m_nNextTimer := n\<rparr>) = balance j u"
  "balance j (upd_key_list f u) = balance j u" "balance j (StopTimer h u) = balance j u"
  "balance j (upd_out_key i g u) = balance j u"
  by (simp_all add: balance_def)

lemma balance_setters [simp]:
  "balance j (SetTxnState i st u) = balance j u" "balance j (SetMaxDuration i d u) = balance j u"
  "balance j (SetCurrentDuration i d u) = balance j u" "balance j (SetTimerId i h u) = balance j u"
  "balance j (IncreaseTxnCount i u) = balance j u" "balance j (IncreaseDurationExpired i d u) = balance j u"
  "balance j (SetRprTxnTerminated i b u) = balance j u" "balance j (SetAckReceived i b u) = balance j u"
  "balance j (InitRetransmissionInfo i u) = balance j u" "balance j (SetUserData i ud u) = balance j u"
  "balance j (UpdateTranspInfo i ti u) = balance j u" "balance j (UserData_Set p ctx u) = balance j u"
  "balance j (UserData_SetDeleteFlag p b u) = balance j u" "balance j (Txn_SetResponseCode i n u) = balance j u"
  unfolding SetTxnState_def SetMaxDuration_def SetCurrentDuration_def SetTimerId_def IncreaseTxnCount_def
    IncreaseDurationExpired_def SetRprTxnTerminated_def SetAckReceived_def InitRetransmissionInfo_def
    SetUserData_def UpdateTranspInfo_def UserData_Set_def UserData_SetDeleteFlag_def Txn_SetResponseCode_def
  by (auto intro!: balance_upd_txn split: option.split)

lemma balance_Increment [simp]: "balance j (Increment i u) = balance j u + (if j = i then 1 else 0)"
  by (cases "j = i"; simp add: balance_def txn_Increment) (simp add: Increment_def)

lemma balance_SipDelete [simp]: "balance j (SipDelete i u) = balance j u - (if j = i then 1 else 0)"
  by (simp add: balance_def)

lemma balance_ReleaseTransaction [simp]:
  "balance j (snd (ReleaseTransaction k u)) =
     balance j u + (if fst (ReleaseTransaction k u) = Some j then 1 else 0)"
proof -
  obtain e m where r: "SipStackState_RemoveTransaction k TXN_REMOVE (m_objTxnAggregate u) = (e, m)"
    by fastforce
  have "refs j m + (case e of None \<Rightarrow> 0 | Some e \<Rightarrow> if snd e = j then 1 else 0) = refs j (m_objTxnAggregate u)"
    using refs_RemoveTransaction [OF r [symmetric], of j] by simp
  then show ?thesis
    by (cases e) (auto simp: ReleaseTransaction_def r balance_def)
qed

lemma balance_RemoveFromTxnPool [simp]: "balance j (SipTxn_RemoveFromTxnPool k u) = balance j u"
  using balance_ReleaseTransaction [of j _ u]
  by (auto simp: SipTxn_RemoveFromTxnPool_def split_beta split: option.split)

lemma balance_RemoveFromTxnPool_i [simp]: "balance j (RemoveFromTxnPool i u) = balance j u"
  by (simp add: RemoveFromTxnPool_def)

lemma balance_add_to_db: "balance j u \<le> balance j (snd (add_to_db i u))"
proof -
  have a: "balance j (v\<lparr>m_objTxnAggregate := snd (SipStackState_AddTransaction k i (m_objTxnAggregate v))\<rparr>)
      = balance j v - (if j = i then 2 else 0)" for v k
    by (simp add: balance_def refs_AddTransaction)
  have n: "balance j (snd (new_key_copy k v)) = balance j v" for k v
    by (simp add: new_key_copy_def split_beta)
  have e: "m_objTxnAggregate (snd (new_key_copy k v)) = m_objTxnAggregate v" for k v
    by (simp add: new_key_copy_def split_beta)
  let ?v = "snd (new_key_copy (m_pTxnKey (txn i u)) u)"
  show ?thesis
    using a [where v = "Increment i ?v"] n [of "m_pTxnKey (txn i u)" u]
    by (auto simp: add_to_db_def FetchTransaction_def split_beta Let_def split: option.split)
qed

section \<open>Timers and machines\<close>

text \<open>Rules for the steps that may raise a balance, in the form the chains below need.\<close>

lemma balance_StopTxnTimer [simp]: "balance j (snd (StopTxnTimer i u)) = balance j u"
  by (simp add: StopTxnTimer_def split: option.split)

lemma balance_timer_fields: "balance j (upd_txn i (\<lambda>t. t\<lparr>m_pvTimerId := h, m_eTimerType := ty,
    m_nCurrentDuration := d\<rparr>) u) = balance j u"
  "balance j (upd_txn i (\<lambda>t. t\<lparr>m_eTimerType := ty, m_nCurrentDuration := d\<rparr>) u) = balance j u"
  by (simp_all add: balance_upd_txn)

lemma balance_StartTxnTimer_nonzero [simp]: "balance j (snd (StartTxnTimer_nonzero i ty d u)) = balance j u"
  by (auto simp: StartTxnTimer_nonzero_def StartTimer_def Let_def balance_timer_fields split: option.split)

lemma balance_restart_timer [simp]: "balance j (snd (restart_timer i ty d u)) = balance j u"
  by (simp add: restart_timer_def step_simps)

lemma balance_first_expiry [simp]: "balance j (snd (first_expiry i u)) = balance j u"
  by (simp add: first_expiry_def Let_def)

lemma balance_NotifyTimerExpired [simp]: "balance j (NotifyTimerExpired p ty u) = balance j u"
  by (simp add: NotifyTimerExpired_def DestroyTxnContext_def Let_def split: option.split)

lemma balance_Network_Send [simp]: "balance j (snd (Network_Send ti u)) = balance j u"
  by (simp add: Network_Send_def)

lemma balance_AbortTxn [simp]: "balance j (AbortTxn i u) = balance j u"
  by (simp add: AbortTxn_def Let_def split: option.split)

lemma balance_timeout_fsms [simp]:
  "balance j (snd (InvCli_timeout_fsm st1 e1 i td u)) = balance j u"
  "balance j (snd (InvSer_timeout_fsm st2 e2 i td u)) = balance j u"
  "balance j (snd (NonInvCli_timeout_fsm st3 e3 i td u)) = balance j u"
  "balance j (snd (NonInvSer_timeout_fsm st4 e4 i td u)) = balance j u"
  subgoal by (cases "(st1, e1)" rule: InvCli_timeout_fsm.cases; simp add: timeout_handler_defs step_simps)
  subgoal by (cases "(st2, e2)" rule: InvSer_timeout_fsm.cases; simp add: timeout_handler_defs step_simps)
  subgoal by (cases "(st3, e3)" rule: NonInvCli_timeout_fsm.cases; simp add: timeout_handler_defs step_simps)
  subgoal by (cases "(st4, e4)" rule: NonInvSer_timeout_fsm.cases; simp add: timeout_handler_defs step_simps)
  done

lemma balance_InvokeFsm_timeout [simp]: "balance j (snd (InvokeFsm_timeout i ev td u)) = balance j u"
  by (simp add: InvokeFsm_timeout_def split: sip_txn_type.splits txn_state.splits txn_event.splits)

text \<open>An expiry keeps every balance, but for the one that ends the retransmission of a reliable
  provisional response: there the callback returns without giving back its reference.\<close>

lemma balance_CbkTxnTimeout: "balance j u \<le> balance j (CbkTxnTimeout td h u)"
  by (auto simp: CbkTxnTimeout_def FetchTransaction_fetch step_simps split: option.split)

lemma balance_Timer_TimerExpired: "balance j u \<le> balance j (Timer_TimerExpired h u)"
  using balance_CbkTxnTimeout [of j "StopTimer h u"]
  by (simp add: Timer_TimerExpired_def split: option.split)

lemma balance_CbkTxnTimeout_le [simp]: "b \<le> balance j u \<Longrightarrow> b \<le> balance j (CbkTxnTimeout td h u)"
  by (rule order_trans [OF _ balance_CbkTxnTimeout])

lemma balance_StartTxnTimer [simp]:
  "b \<le> balance j u \<Longrightarrow> b \<le> balance j (snd (StartTxnTimer i ty d u))"
  by (simp add: StartTxnTimer_def Let_def balance_timer_fields)

lemma balance_add_to_db_le [simp]: "b \<le> balance j u \<Longrightarrow> b \<le> balance j (snd (add_to_db i u))"
  by (rule order_trans [OF _ balance_add_to_db])

lemma balance_copy_user_data [simp]: "balance j (copy_user_data i d u) = balance j u"
  by (simp add: copy_user_data_def split: option.split)

lemma balance_new_key [simp]:
  "balance j (snd (new_key_of_msg m u)) = balance j u" "balance j (snd (new_key_copy k u)) = balance j u"
  by (simp_all add: new_key_of_msg_def new_key_copy_def split_beta)

lemma balance_InvSer_stop_retransmission [simp]: "balance j (InvSer_stop_retransmission i u) = balance j u"
  by (simp add: InvSer_stop_retransmission_def split_beta Let_def)

lemma balance_process_prack [simp]: "balance j (snd (NonInvSer_process_prack i k d u)) = balance j u"
  by (simp add: NonInvSer_process_prack_def step_simps FetchTransaction_fetch split: option.split)

lemma balance_fsms:
  "balance j u \<le> balance j (snd (snd (gpfSipInvClientTxnFsm st1 e1 i pv u)))"
  "balance j u \<le> balance j (snd (snd (gpfSipInvSerTxnFsm st2 e2 i pv u)))"
  "balance j u \<le> balance j (snd (snd (gpfSipNonInvClientTxnFsm st3 e3 i pv u)))"
  "balance j u \<le> balance j (snd (snd (gpfSipNonInvSerTxnFsm st4 e4 i pv u)))"
  subgoal by (cases "(st1, e1)" rule: gpfSipInvClientTxnFsm.cases; cases pv;
      simp add: dispatch_defs inv_cli_handler_defs step_simps timeout_handler_defs split: option.split)
  subgoal by (cases "(st2, e2)" rule: gpfSipInvSerTxnFsm.cases; cases pv;
      simp add: dispatch_defs inv_ser_handler_defs step_simps timeout_handler_defs FetchTransaction_fetch
        split: option.split)
  subgoal by (cases "(st3, e3)" rule: gpfSipNonInvClientTxnFsm.cases; cases pv;
      simp add: dispatch_defs non_inv_cli_handler_defs step_simps timeout_handler_defs split: option.split)
  subgoal by (cases "(st4, e4)" rule: gpfSipNonInvSerTxnFsm.cases; cases pv;
      simp add: dispatch_defs non_inv_ser_handler_defs step_simps timeout_handler_defs split: option.split)
  done

lemma balance_InvokeFsm: "balance j u \<le> balance j (snd (snd (InvokeFsm i ev pv u)))"
  by (simp add: InvokeFsm_def balance_fsms split: sip_txn_type.split txn_state.split txn_event.split)

lemma balance_InvokeFsm_message: "balance j u \<le> balance j (snd (snd (InvokeFsm_message i ev d u)))"
proof -
  obtain b pv v where r: "InvokeFsm i ev (FSM_DATA d) u = (b, pv, v)" by (metis prod.collapse)
  then have "balance j u \<le> balance j v" using balance_InvokeFsm [of j u i ev "FSM_DATA d"] by simp
  then show ?thesis by (simp add: InvokeFsm_message_def r split: pvData.split)
qed

section \<open>The handlers\<close>

text \<open>A handler that holds the transaction for the time of the machine's step.\<close>

lemma balance_held:
  "balance j (Increment i u) \<le> balance j v \<Longrightarrow> balance j u \<le> balance j (SipDelete i v)"
  by simp

lemma balance_HandleServerTxnSend: "balance j u \<le> balance j (snd (snd (HandleServerTxnSend ty k d u)))"
proof (cases "\<not> env_callback (m_env u) \<or> SipStackState_FindTransaction k (m_objTxnAggregate u) = None")
  case False
  then obtain e i where f: "SipStackState_FindTransaction k (m_objTxnAggregate u) = Some (e, i)"
    "env_callback (m_env u)" by auto
  have t: "balance j (update_server_timers i d v) = balance j v" for v
    by (auto simp: update_server_timers_def intro!: balance_upd_txn split: option.split)
  have h: "balance j (Increment i u) \<le> balance j (snd (snd (InvokeFsm_message i ev d (update_server_timers i d v))))"
    if "balance j v = balance j (Increment i u)" for ev v
    using balance_InvokeFsm_message [of j "update_server_timers i d v" i ev d] that by (simp add: t)
  show ?thesis
    using h [THEN balance_held] f
    by (auto simp: HandleServerTxnSend_def GetTxnObjFromDb_eq step_simps)
qed (auto simp: HandleServerTxnSend_def GetTxnObjFromDb_eq)

lemma balance_HandleClientTxnRecv: "balance j u \<le> balance j (snd (snd (HandleClientTxnRecv ty k d u)))"
proof (cases "\<not> env_callback (m_env u) \<or> SipStackState_FindTransaction k (m_objTxnAggregate u) = None")
  case False
  then obtain e i where "SipStackState_FindTransaction k (m_objTxnAggregate u) = Some (e, i)"
    "env_callback (m_env u)" by auto
  then show ?thesis
    using balance_InvokeFsm_message [of j "Increment i u" i, THEN balance_held]
    by (auto simp: HandleClientTxnRecv_def GetTxnObjFromDb_eq step_simps)
qed (auto simp: HandleClientTxnRecv_def GetTxnObjFromDb_eq)

text \<open>Between calls every balance is at least zero: no entry refers to a destroyed transaction.\<close>

definition live :: "SipStack \<Rightarrow> bool" where
  "live u \<longleftrightarrow> stack_inv u \<and> (\<forall>j. 0 \<le> balance j u)"

lemma live_mono: "live u \<Longrightarrow> stack_inv v \<Longrightarrow> (\<And>j. balance j u \<le> balance j v) \<Longrightarrow> live v"
  by (simp add: live_def) (meson order_trans)

lemma fresh_refs: "stack_inv u \<Longrightarrow> refs (m_nNextTxn u) (m_objTxnAggregate u) = 0"
  by (fastforce simp: refs_def count_list_0_iff stack_inv_def entry_keys_def)

lemma balance_SipTxn_new:
  assumes "live u" and "fst (SipTxn_new ty k m c u) = i"
  shows "(if j = i then 1 else 0) \<le> balance j (snd (SipTxn_new ty k m c u))"
proof -
  obtain t err where t: "SipTxn_construct (env_config (m_env u)) ty k m c (m_pnError u) = (t, err)"
    by fastforce
  then have "m_nRefCount t = 1" by (auto simp: SipTxn_construct_def Let_def split: prod.splits)
  then show ?thesis
    using assms fresh_refs [of u] by (auto simp: SipTxn_new_def t Let_def balance_def live_def)
qed

text \<open>A new transaction, a step of its machine, and the creator's reference given back.\<close>

lemma live_new_step:
  assumes "live u" and n: "SipTxn_new ty k m c u = (i, v)" and k: "key_eTxnType k = ty"
    and w: "\<And>j. balance j v \<le> balance j w" "stack_inv w"
  shows "live (SipDelete i w)"
proof -
  have "(if j = i then 1 else 0) \<le> balance j w" for j
    using balance_SipTxn_new [OF assms(1), of ty k m c i j] n w(1) [of j] by simp
  then show ?thesis using w(2) by (auto simp: live_def)
qed

lemma live_HandleClientTxnSend:
  assumes "live u" and k: "key_eTxnType k = ty"
  shows "live (snd (snd (HandleClientTxnSend ty k d u)))"
proof -
  obtain i v where n: "SipTxn_new ty k (m_pSipMsgIn d) (timer_context d) u = (i, v)" by fastforce
  have u: "stack_inv u" using assms(1) by (simp add: live_def)
  have v: "stack_inv v" "i < m_nNextTxn v"
    using inv_SipTxn_new [OF u k, of "m_pSipMsgIn d" "timer_context d"] n by simp_all
  show ?thesis
    using live_new_step [OF assms(1) n k] v balance_InvokeFsm_message
    by (simp add: HandleClientTxnSend_def n step_simps)
qed

lemma live_HandleServerTxnRecv:
  assumes "live u" and k: "key_eTxnType k = ty"
  shows "live (snd (snd (snd (HandleServerTxnRecv ty k d u))))"
proof (cases "\<not> env_callback (m_env u) \<or> SipStackState_FindTransaction k (m_objTxnAggregate u) = None")
  case True
  obtain i v where n: "SipTxn_new ty k (m_pSipMsgIn d) (timer_context d) u = (i, v)" by fastforce
  have u: "stack_inv u" using assms(1) by (simp add: live_def)
  have v: "stack_inv v" "i < m_nNextTxn v"
    using inv_SipTxn_new [OF u k, of "m_pSipMsgIn d" "timer_context d"] n by simp_all
  show ?thesis
    using live_new_step [OF assms(1) n k] v balance_InvokeFsm_message True n
    by (auto simp: HandleServerTxnRecv_def GetTxnObjFromDb_eq split_beta Let_def)
next
  case False
  then obtain e i where "SipStackState_FindTransaction k (m_objTxnAggregate u) = Some (e, i)"
    "env_callback (m_env u)" by auto
  then show ?thesis
    using assms inv_HandleServerTxnRecv [of u k ty d]
      balance_InvokeFsm_message [of _ "Increment i u" i, THEN balance_held]
    by (intro live_mono [OF assms(1)])
       (auto simp: HandleServerTxnRecv_def GetTxnObjFromDb_eq split_beta Let_def live_def)
qed

lemma live_inv [simp]: "live u \<Longrightarrow> stack_inv u"
  by (simp add: live_def)

lemma live_OnSendTxn [simp]:
  assumes "live u"
  shows "live (snd (snd (snd (OnSendTxn m tp ud u))))"
proof -
  have k: "key_eTxnType (SetTxnType ty k) = ty" for ty k by (simp add: SetTxnType_def)
  have e: "live (w\<lparr>m_pnError := e\<rparr>) = live w" for w e by (simp add: live_def)
  have v: "live (snd (ValidateSendTxn m u))"
    using assms e [where w = u and e = "snd (SipTxnKey_of_msg m (m_pnError u))"]
    by (auto simp: ValidateSendTxn_def new_key_of_msg_def split_beta Let_def split: option.split)
  then have s: "live (snd (snd (HandleServerTxnSend ty k d (snd (ValidateSendTxn m u)))))" for ty k d
    by (rule live_mono) (simp_all add: v balance_HandleServerTxnSend)
  show ?thesis
    using v s live_HandleClientTxnSend [OF v k]
    by (auto simp: OnSendTxn_def step_simps GetTxnObjFromDb_eq e split: option.split)
qed

lemma live_OnRecvTxn [simp]:
  assumes "live u"
  shows "live (snd (snd (snd (OnRecvTxn m k ud u))))"
proof -
  have k: "key_eTxnType (SetTxnType ty k) = ty" for ty by (simp add: SetTxnType_def)
  have e: "live (w\<lparr>m_pnError := e\<rparr>) = live w" for w e by (simp add: live_def)
  have c: "live (snd (snd (HandleClientTxnRecv ty k d u)))" for ty k d
    by (rule live_mono [OF assms]) (simp_all add: assms balance_HandleClientTxnRecv)
  show ?thesis
    using assms c live_HandleServerTxnRecv [OF assms k]
    by (auto simp: OnRecvTxn_def step_simps e split: option.split)
qed

lemma balance_NotifyTxnTermination [simp]: "balance j (NotifyTxnTermination i u) = balance j u"
  by (simp add: NotifyTxnTermination_def DestroyTxnContext_def Let_def split: option.split)

lemma balance_TerminateTxn [simp]: "balance j (snd (TerminateTxn k u)) = balance j u"
  using balance_ReleaseTransaction [of j _ u]
  by (auto simp: TerminateTxn_def step_simps split: option.split)

lemma balance_DeleteTxn [simp]: "balance j (snd (DeleteTxn k u)) = balance j u"
  using balance_ReleaseTransaction [of j _ u]
  by (auto simp: DeleteTxn_def step_simps split: option.split)

lemma balance_OnSendTranspError [simp]: "balance j (snd (OnSendTranspError k u)) = balance j u"
  by (simp add: OnSendTranspError_def split: option.split)

lemma balance_UpdateTxnDetails [simp]: "balance j (snd (UpdateTxnDetails k ti u)) = balance j u"
  by (auto simp: UpdateTxnDetails_def GetTxnObjFromDb_eq split: option.split)

lemma balance_OnRecvTranspError: "balance j u \<le> balance j (snd (OnRecvTranspError k u))"
  using balance_InvokeFsm [of j u]
  by (auto simp: OnRecvTranspError_def GetTxnObjFromDb_eq step_simps split: option.split)

section \<open>The entry points\<close>

lemma live_fields [simp]:
  "live (emit x u) = live u" "live (u\<lparr>m_pnError := e\<rparr>) = live u"
  by (simp_all add: live_def)

lemma live_same:
  assumes "live u"
  shows "live (UserData_Set p c u)" "live (snd (TerminateTxn k u))" "live (snd (DeleteTxn k u))"
    "live (snd (OnSendTranspError k u))" "live (snd (UpdateTxnDetails k ti u))"
    "live (snd (SendToNetwork t u))"
proof -
  have n: "balance j (snd (SendToNetwork t u)) = balance j u" for j
    by (simp add: SendToNetwork_def split: option.split)
  show "live (UserData_Set p c u)" "live (snd (TerminateTxn k u))" "live (snd (DeleteTxn k u))"
    "live (snd (OnSendTranspError k u))" "live (snd (UpdateTxnDetails k ti u))"
    "live (snd (SendToNetwork t u))"
    using assms by (auto intro!: live_mono [OF assms] simp: n)
qed

lemmas live_same_simps [simp] = live_same

lemma live_OnRecvTransp [simp]: "live u \<Longrightarrow> live (snd (OnRecvTransp m u))"
proof -
  assume a: "live u"
  have "live (snd (GetTxnKeyFromSipMsg m u))"
    using a live_fields(2) [where u = u and e = "snd (SipTxnKey_of_msg m (m_pnError u))"]
    by (auto simp: GetTxnKeyFromSipMsg_def new_key_of_msg_def step_simps split: option.split)
  then show ?thesis by (auto simp: OnRecvTransp_def step_simps GetTxnObjFromDb_eq split: option.split)
qed

lemma live_SendMsg [simp]: "live u \<Longrightarrow> live (snd (snd (snd (SendMsg m p ud buf u))))"
  by (auto simp: SendMsg_def SendMsg_finish_def step_simps split: option.split)

lemma live_OnRecvMessage_send [simp]: "live u \<Longrightarrow> live (snd (snd (OnRecvMessage_send k p info ud u)))"
  by (auto simp: OnRecvMessage_send_def step_simps split: option.split)

lemma live_OnRecvMessage_finish [simp]: "live u \<Longrightarrow> live (snd (snd (OnRecvMessage_finish m k info ud u)))"
  by (auto simp: OnRecvMessage_finish_def step_simps)

lemma live_OnRecvMessage [simp]: "live u \<Longrightarrow> live (snd (snd (snd (snd (OnRecvMessage m p ud u)))))"
  by (auto simp: OnRecvMessage_def step_simps split: option.split)

lemma live_Mngr_OnRecvTanspError [simp]: "live u \<Longrightarrow> live (snd (Mngr_OnRecvTanspError k u))"
proof -
  assume a: "live u"
  have "balance j (snd (snd (snd (Transp_OnRecvTanspError k u)))) = balance j u" for j
    by (auto simp: Transp_OnRecvTanspError_def GetTxnObjFromDb_eq step_simps split: option.split)
  then have t: "live (snd (snd (snd (Transp_OnRecvTanspError k u))))"
    using a by (auto intro!: live_mono [OF a])
  have o: "live (snd (OnRecvTranspError k v))" if "live v" for v k
    by (rule live_mono [OF that]) (simp_all add: that balance_OnRecvTranspError)
  show ?thesis using t o by (auto simp: Mngr_OnRecvTanspError_def step_simps)
qed

lemma live_Timer_TimerExpired [simp]: "live u \<Longrightarrow> live (Timer_TimerExpired h u)"
  by (rule live_mono) (auto intro: balance_Timer_TimerExpired)

end
