(* ===== verification/SipClientCalls.thy ===== *)
theory SipClientCalls
  imports SipCallFacts
begin

text \<open>
  Client transactions from the stack manager's entry points: sending an INVITE and never hearing
  back, and a failure response, which is acknowledged.
\<close>

section \<open>Sending an INVITE over UDP\<close>

lemma InvCli_Idle_sends:
  assumes k: "m_pTxnKey (txn i v) = Some k" "complete_key k"
    and w: "env_callback (m_env v)" "env_timer_ok (m_env v) (m_nNextTimer v)" "m_pnError v = 0"
    and f: "SipStackState_FindTransaction k (m_objTxnAggregate v) = None"
    and p: "send_protocol d = PROTOCOL_UDP" and t: "0 < timer_value i TIMER_T1 v"
    and d: "fd_pUserData d = Some ud"
    and r: "r = InvCli_IdleState_SendInviteRequest i d v"
  shows "fst r" and "fst (snd r) = d\<lparr>m_pOutUserData := Some i, m_bTxnCreated := True\<rparr>"
    and "txn i (snd (snd r)) = (txn i v)\<lparr>m_nRefCount := m_nRefCount (txn i v) + 2,
      m_pvTimerId := Some (m_nNextTimer v), m_eTimerType := TIMER_A,
      m_nCurrentDuration := timer_value i TIMER_T1 v, m_nMaxDuration := timer_value i TIMER_B v,
      m_pUserData := Some (ISipUserData_new (m_pvUserData ud)),
      m_nTxnState := INV_CLI INV_CLI_CALLING_ST\<rparr>"
    and "m_timers (snd (snd r)) = (m_timers v)(m_nNextTimer v \<mapsto> (timer_value i TIMER_T1 v,
      \<lparr> td_eTxnType = m_eTxnType (txn i v), td_eTimerType = TIMER_A, td_pTxnKey = Some k \<rparr>))"
    and "m_objTxnAggregate (snd (snd r)) = snd (SipStackState_AddTransaction k i (m_objTxnAggregate v))"
    and "m_outputs (snd (snd r)) = m_outputs v" and "m_env (snd (snd r)) = m_env v"
    and "m_pnError (snd (snd r)) = 0"
proof -
  note a = add_to_db_fresh [OF k w(1,3) f]
  have tv: "timer_value i ty (Increment i (enter_table i k v)) = timer_value i ty v" for ty
    by (simp add: timer_value_def Increment_def)
  have ty: "m_eTxnType (txn i (Increment i (enter_table i k v))) = m_eTxnType (txn i v)"
    "m_pTxnKey (txn i (Increment i (enter_table i k v))) = Some k"
    by (simp_all add: Increment_def k)
  let ?w = "Increment i (enter_table i k v)"
  have s: "StartTxnTimer i TIMER_A (timer_value i TIMER_T1 ?w) ?w =
     (True, upd_txn i (\<lambda>t. t\<lparr>m_pvTimerId := Some (m_nNextTimer v), m_eTimerType := TIMER_A,
                               m_nCurrentDuration := timer_value i TIMER_T1 v\<rparr>)
        (?w\<lparr>m_timers := (m_timers v)(m_nNextTimer v \<mapsto> (timer_value i TIMER_T1 v,
          \<lparr> td_eTxnType = m_eTxnType (txn i v), td_eTimerType = TIMER_A, td_pTxnKey = Some k \<rparr>)),
           m_nNextTimer := Suc (m_nNextTimer v)\<rparr>))"
    using t w by (simp add: StartTxnTimer_granted tv ty SipTimeoutData_new_complete [OF k(2)])
  have r': "r = (True, d\<lparr>m_pOutUserData := Some i, m_bTxnCreated := True\<rparr>,
      SetTxnState i (INV_CLI INV_CLI_CALLING_ST) (copy_user_data i d
        (SetMaxDuration i (timer_value i TIMER_B v) (snd (StartTxnTimer i TIMER_A (timer_value i TIMER_T1 ?w) ?w)))))"
    unfolding r InvCli_IdleState_SendInviteRequest_def
    using p s by (simp add: a Let_def tv GetUserData_copy d)
  show "fst r" "fst (snd r) = d\<lparr>m_pOutUserData := Some i, m_bTxnCreated := True\<rparr>"
    by (simp_all add: r')
  show "txn i (snd (snd r)) = (txn i v)\<lparr>m_nRefCount := m_nRefCount (txn i v) + 2,
      m_pvTimerId := Some (m_nNextTimer v), m_eTimerType := TIMER_A,
      m_nCurrentDuration := timer_value i TIMER_T1 v, m_nMaxDuration := timer_value i TIMER_B v,
      m_pUserData := Some (ISipUserData_new (m_pvUserData ud)),
      m_nTxnState := INV_CLI INV_CLI_CALLING_ST\<rparr>"
    by (simp add: r' s d SetTxnState_def SetMaxDuration_def txn_Increment)
  show "m_timers (snd (snd r)) = (m_timers v)(m_nNextTimer v \<mapsto> (timer_value i TIMER_T1 v,
      \<lparr> td_eTxnType = m_eTxnType (txn i v), td_eTimerType = TIMER_A, td_pTxnKey = Some k \<rparr>))"
    and "m_objTxnAggregate (snd (snd r)) = snd (SipStackState_AddTransaction k i (m_objTxnAggregate v))"
    and "m_outputs (snd (snd r)) = m_outputs v" and "m_env (snd (snd r)) = m_env v"
    and "m_pnError (snd (snd r)) = 0"
    using w by (simp_all add: r' s SetTxnState_def SetMaxDuration_def)
qed


lemma HandleClientTxnSend_INVITE:
  assumes k: "complete_key k" and w: "working u"
    and f: "SipStackState_FindTransaction k (m_objTxnAggregate u) = None"
    and p: "m_nTranspProtocol p = PROTOCOL_UDP" and t: "0 < m_nT1 (env_config (m_env u))"
    and tc: "timer_context d = None"
    and d: "fd_pUserData d = Some ud" "m_pTranspParam d = Some p"
    and i: "i = m_nNextTxn u" and h: "h = m_nNextTimer u" and r: "r = HandleClientTxnSend INVITE_CLIENT k d u"
  shows "fst r" and "fst (snd r) = d\<lparr>m_pOutUserData := Some i, m_bTxnCreated := True\<rparr>"
    and "txn i (snd (snd r)) = (fst (SipTxn_construct (env_config (m_env u)) INVITE_CLIENT k (m_pSipMsgIn d) None 0))
      \<lparr>m_nRefCount := 2, m_pvTimerId := Some h, m_eTimerType := TIMER_A,
       m_nCurrentDuration := m_nT1 (env_config (m_env u)),
       m_nMaxDuration := m_nTimerB (env_config (m_env u)),
       m_pUserData := Some (ISipUserData_new (m_pvUserData ud)),
       m_nTxnState := INV_CLI INV_CLI_CALLING_ST\<rparr>"
    and "m_timers (snd (snd r)) h = Some (m_nT1 (env_config (m_env u)),
      \<lparr> td_eTxnType = INVITE_CLIENT, td_eTimerType = TIMER_A, td_pTxnKey = Some k \<rparr>)"
    and "m_objTxnAggregate (snd (snd r)) = snd (SipStackState_AddTransaction k i (m_objTxnAggregate u))"
    and "m_outputs (snd (snd r)) = m_outputs u" and "m_env (snd (snd r)) = m_env u"
    and "m_pnError (snd (snd r)) = 0"
proof -
  let ?t = "fst (SipTxn_construct (env_config (m_env u)) INVITE_CLIENT k (m_pSipMsgIn d) None 0)"
  from w have u: "env_callback (m_env u)" "env_timer_ok (m_env u) (m_nNextTimer u)" "m_pnError u = 0"
    by (simp_all add: working_def)
  obtain v where n: "SipTxn_new INVITE_CLIENT k (m_pSipMsgIn d) None u = (i, v)"
    using SipTxn_new_complete(1) [OF k u(3), of INVITE_CLIENT "m_pSipMsgIn d"] i by (metis prod.collapse)
  have v': "v = snd (SipTxn_new INVITE_CLIENT k (m_pSipMsgIn d) None u)" using n by simp
  have v: "txn i v = ?t" "m_pnError v = 0"
    unfolding v' SipTxn_new_complete(2) [OF k u(3)] by (simp_all add: txn_def i u)
  have vf: "m_objTxnAggregate v = m_objTxnAggregate u" "m_timers v = m_timers u"
    "m_nNextTimer v = m_nNextTimer u" "m_outputs v = m_outputs u" "m_env v = m_env u"
    by (simp_all add: v')
  let ?s = "InvCli_IdleState_SendInviteRequest i d v"
  have tf: "m_eTxnType ?t = INVITE_CLIENT" "m_nTxnState ?t = INV_CLI INV_CLI_IDLE_ST"
    "m_pTxnKey ?t = Some k" "m_nRefCount ?t = 1" "m_objTxnTimerValues ?t = SipTxnTimerValues_new (env_config (m_env u))"
    by (simp_all add: SipTxn_construct_complete [OF k] idle_state_def)
  have tv: "timer_value i TIMER_T1 v = m_nT1 (env_config (m_env u))"
    "timer_value i TIMER_B v = m_nTimerB (env_config (m_env u))"
    by (simp_all add: timer_value_def v tf SipTxnTimerValues_new_def)
  have "send_protocol d = PROTOCOL_UDP" by (simp add: send_protocol_def d p)
  note s = InvCli_Idle_sends [OF _ k, where v = v and i = i and r = ?s and d = d,
     unfolded v(1), OF tf(3) _ _ v(2) _ this _ d(1) refl]
  note s = s [unfolded vf tv tf v, OF u(1,2) f t]
  have r': "r = (fst ?s, fst (snd ?s), SipDelete i (snd (snd ?s)))"
    unfolding r HandleClientTxnSend_def
    by (simp add: tc n v E_ERR_PF_MALLOCFAILED_def InvokeFsm_message_def InvokeFsm_def tf on_message_def split_beta)
  show "fst r" "fst (snd r) = d\<lparr>m_pOutUserData := Some i, m_bTxnCreated := True\<rparr>"
    using s by (simp_all add: r')
  show "txn i (snd (snd r)) = ?t
      \<lparr>m_nRefCount := 2, m_pvTimerId := Some h, m_eTimerType := TIMER_A,
       m_nCurrentDuration := m_nT1 (env_config (m_env u)),
       m_nMaxDuration := m_nTimerB (env_config (m_env u)),
       m_pUserData := Some (ISipUserData_new (m_pvUserData ud)),
       m_nTxnState := INV_CLI INV_CLI_CALLING_ST\<rparr>"
    using s by (simp add: r' SipDelete_def Let_def h)
  show "m_timers (snd (snd r)) h = Some (m_nT1 (env_config (m_env u)),
      \<lparr> td_eTxnType = INVITE_CLIENT, td_eTimerType = TIMER_A, td_pTxnKey = Some k \<rparr>)"
    "m_objTxnAggregate (snd (snd r)) = snd (SipStackState_AddTransaction k i (m_objTxnAggregate u))"
    "m_outputs (snd (snd r)) = m_outputs u" "m_env (snd (snd r)) = m_env u"
    "m_pnError (snd (snd r)) = 0"
    using s by (simp_all add: r' h)
qed


text \<open>An INVITE client transaction that is in the table and has a TU.\<close>

definition client_in_table :: "nat \<Rightarrow> inv_cli_state \<Rightarrow> SipTxnKey \<Rightarrow> SipStack \<Rightarrow> bool" where
  "client_in_table i st k u \<longleftrightarrow>
     m_eTxnType (txn i u) = INVITE_CLIENT \<and> m_nTxnState (txn i u) = INV_CLI st \<and>
     (\<exists>e. SipStackState_FindTransaction k (m_objTxnAggregate u) = Some (e, i)) \<and>
     (\<exists>k'. m_pTxnKey (txn i u) = Some k' \<and> complete_key k') \<and>
     m_pUserData (txn i u) \<noteq> None \<and> 0 < m_nRefCount (txn i u)"

lemma SendMsg_INVITE_udp:
  assumes m: "CheckTxnMandatoryParams m = Some (REQ_TYPE, METHOD_INVITE)"
    and k: "k = msg_key INVITE_CLIENT m" "complete_key k" and w: "working u"
    and f: "SipStackState_FindTransaction k (m_objTxnAggregate u) = None"
    and p: "m_nTranspProtocol p = PROTOCOL_UDP"
    and t: "0 < m_nT1 (env_config (m_env u))" "m_nT1 (env_config (m_env u)) \<le> m_nTimerB (env_config (m_env u))"
      "m_nTimerB (env_config (m_env u)) < 2 ^ 30"
    and tc: "timer_context (SipTxnFsmData_new m (Some p) (Some ud)) = None"
    and i: "i = m_nNextTxn u"
    and ti: "ti = \<lparr> m_pActualDestParam = Some p, m_pTranspParamUser = p, m_pSentBuffer = buf, m_pSentSipMsg = Some m \<rparr>"
    and u': "u' = snd (snd (snd (SendMsg m (Some p) ud buf u)))"
  shows "SendMsg m (Some p) ud buf u = (True, Some k, ud\<lparr>m_pvUserData := None\<rparr>, u')"
    and "calling_run i k ti (unat (m_nT1 (env_config (m_env u))) - 1)
           (unat (m_nTimerB (env_config (m_env u)))) 0 (unat (m_nT1 (env_config (m_env u))))
           (unat (m_nT1 (env_config (m_env u)))) u'"
    and "m_outputs u' = m_outputs u @ [OUT_SEND buf (Some p)]"
    and "m_objTxnAggregate u' = snd (SipStackState_AddTransaction k i (m_objTxnAggregate u))"
    and "m_nRefCount (txn i u') = 2"
    and "m_pUserData (txn i u') = Some (ISipUserData_new (m_pvUserData ud))"
    and "client_in_table i INV_CLI_CALLING_ST k u'" and "working u'" and "m_env u' = m_env u"
    and "m_pSipMsg (txn i u') = Some m"
    and "m_objTxnTimerValues (txn i u') = SipTxnTimerValues_new (env_config (m_env u))"
proof -
  let ?d = "SipTxnFsmData_new m (Some p) (Some ud)"
  let ?r = "HandleClientTxnSend INVITE_CLIENT k ?d u"
  let ?cfg = "env_config (m_env u)"
  have d: "fd_pUserData ?d = Some ud" "m_pTranspParam ?d = Some p" "m_pSipMsgIn ?d = m"
    "m_bTxnTerminated ?d = False"
    by (simp_all add: SipTxnFsmData_new_def)
  note c = HandleClientTxnSend_INVITE [OF k(2) w f p t(1) tc d(1,2) i refl refl, unfolded d(3)]
  obtain u1 where r: "?r = (True, ?d\<lparr>m_pOutUserData := Some i, m_bTxnCreated := True\<rparr>, u1)"
    using c(1,2) by (metis (full_types) prod.collapse)
  note c = c(3-8) [unfolded r, simplified snd_conv]
  let ?info = "SipTxnInfo_new\<lparr>ti_bTxnTerminated := False, ti_bTxnCreated := True, ti_pUserData := Some i\<rparr>"
  have o: "OnSendTxn m (Some p) (Some ud) u = (True, Some k, ?info, u1)"
    using OnSendTxn_new_request [OF m _ _ k(1) w f r] by (simp add: GetTxnType_def d(4))
  have tr: "OnSendTransp m (Some p) buf = Some ti" by (simp add: OnSendTransp_def ti)
  let ?u2 = "emit (OUT_SEND buf (Some p)) u1"
  have n: "Network_Send ti u1 = (True, ?u2)"
    using w by (simp add: Network_Send_def c working_def ti)
  have db: "db_inv (m_objTxnAggregate u)" and cb: "env_callback (m_env u)"
    using w by (simp_all add: working_def)
  have fnd: "SipStackState_FindTransaction k (m_objTxnAggregate u1) = Some (k, i)"
    using txn_db.find_after_add [OF db f matches_self [OF k(2)], of i] by (simp add: c)
  let ?u3 = "SipDelete i (UpdateTranspInfo i (Some ti) (Increment i ?u2))"
  have up: "UpdateTxnDetails (Some k) (Some ti) ?u2 = (True, ?u3)"
    using fnd cb by (simp add: UpdateTxnDetails_def GetTxnObjFromDb_def FetchTransaction_fetch c)
  have s: "SendMsg m (Some p) ud buf u = (True, Some k, ud\<lparr>m_pvUserData := None\<rparr>, ?u3)"
    by (simp add: SendMsg_def o tr SendToNetwork_def n SendMsg_finish_def up SipTxnInfo_new_def)
  then show "SendMsg m (Some p) ud buf u = (True, Some k, ud\<lparr>m_pvUserData := None\<rparr>, u')"
    by (simp add: u')
  have u3: "u' = ?u3" by (simp add: u' s)
  have x: "txn i ?u3 = (txn i u1)\<lparr>m_pTranspInfo := Some ti\<rparr>"
    unfolding UpdateTranspInfo_def by (subst SipDelete_Increment_upd) (simp_all add: c)
  note tc = SipTxn_construct_complete [OF k(2)]
  show "m_outputs u' = m_outputs u @ [OUT_SEND buf (Some p)]"
    and "m_objTxnAggregate u' = snd (SipStackState_AddTransaction k i (m_objTxnAggregate u))"
    by (simp_all add: u3 c UpdateTranspInfo_def)
  show "m_nRefCount (txn i u') = 2"
    and "m_pUserData (txn i u') = Some (ISipUserData_new (m_pvUserData ud))"
    by (simp_all add: u3 x c)
  have fr: "m_env u' = m_env u" "m_timers u' (m_nNextTimer u) = Some (m_nT1 ?cfg,
      \<lparr> td_eTxnType = INVITE_CLIENT, td_eTimerType = TIMER_A, td_pTxnKey = Some k \<rparr>)"
    "SipStackState_FindTransaction k (m_objTxnAggregate u') = Some (k, i)"
    using fnd by (simp_all add: u3 c UpdateTranspInfo_def)
  have x: "txn i u' = (txn i u1)\<lparr>m_pTranspInfo := Some ti\<rparr>" using x by (simp add: u3)
  show "m_env u' = m_env u" by (rule fr(1))
  show "m_pSipMsg (txn i u') = Some m"
    "m_objTxnTimerValues (txn i u') = SipTxnTimerValues_new ?cfg" by (simp_all add: x c tc)
  show "client_in_table i INV_CLI_CALLING_ST k u'"
    using fr(3) k(2) by (simp add: client_in_table_def x c tc)
  show "working u'"
    using w txn_db.invar_add [OF db, of "(k, i)"] fr(1)
    by (simp add: working_def u3 c UpdateTranspInfo_def)
  have el: "elapsed i u' = m_nT1 ?cfg"
    by (simp add: elapsed_def timer_value_def x c tc SipTxnTimerValues_new_def)
  have t1: "0 < unat (m_nT1 ?cfg)" using t(1) by (simp add: word_less_nat_alt)
  have ar: "armed i (m_nNextTimer u) TIMER_A k ti u'"
    using cb by (simp add: armed_def fr x c tc SipTxnKey_Init_complete [OF k(2)])
  have tw: "started_timer i u' = Some (TIMER_A, unat (m_nT1 ?cfg))"
    by (simp add: started_timer_def fr x c)
  have ru: "running i INVITE_CLIENT (INV_CLI INV_CLI_CALLING_ST) TIMER_A k ti (unat (m_nTimerB ?cfg)) 0
      (unat (m_nT1 ?cfg)) (unat (m_nT1 ?cfg)) u'"
    unfolding running_def using ar w t1 el tw by (auto simp: fr x c tc working_def)
  have "over_udp ti" by (simp add: over_udp_def ti p)
  moreover have "timer_value i TIMER_T1 u' = m_nT1 ?cfg"
    by (simp add: timer_value_def x c tc SipTxnTimerValues_new_def)
  ultimately show "calling_run i k ti (unat (m_nT1 ?cfg) - 1) (unat (m_nTimerB ?cfg)) 0
      (unat (m_nT1 ?cfg)) (unat (m_nT1 ?cfg)) u'"
    unfolding calling_run_def using ru t t1 by (simp add: word_le_nat_alt word_less_nat_alt)
qed


text \<open>C1:
  An INVITE sent over UDP that nobody answers, with Timer B at 64 T1 as configured by default:
  the request goes out and the timer service is asked to wait T1 for Timer A of its transaction.
  When the timer has expired six times the stack has sent six more copies, and asked after them
  for waits of 2, 4, 8, 16, 32 and 1 times T1: 64 T1 with the first wait. The next expiry sends
  nothing: the transaction terminates, its TU is told once, the table is what it was before the
  call and no reference to the transaction is left.
\<close>

theorem SendMsg_INVITE_unanswered:
  assumes "CheckTxnMandatoryParams m = Some (REQ_TYPE, METHOD_INVITE)"
    and "complete_key (msg_key INVITE_CLIENT m)" and "working u"
    and "SipStackState_FindTransaction (msg_key INVITE_CLIENT m) (m_objTxnAggregate u) = None"
    and "m_nTranspProtocol p = PROTOCOL_UDP"
    and "T1 = unat (m_nT1 (env_config (m_env u)))"
    and "unat (m_nTimerB (env_config (m_env u))) = 64 * T1" and "0 < T1" and "64 * T1 < 2 ^ 30"
    and "timer_context (SipTxnFsmData_new m (Some p) (Some ud)) = None"
    and "SendMsg m (Some p) ud buf u = (ok, key, ud', u0)"
    and "expiries 6 (m_nNextTxn u) u0 = (ds, u1)"
    and "u2 = expire_timer (m_nNextTxn u) u1"
  shows "ok \<and> m_outputs u0 = m_outputs u @ [OUT_SEND buf (Some p)] \<and>
    started_timer (m_nNextTxn u) u0 = Some (TIMER_A, T1) \<and> T1 + sum_list ds = 64 * T1 \<and>
    ds = [2 * T1, 4 * T1, 8 * T1, 16 * T1, 32 * T1, T1] \<and>
    m_outputs u1 = m_outputs u @ replicate 7 (OUT_SEND buf (Some p)) \<and>
    m_outputs u2 = m_outputs u1 @ timeout_outputs TIMER_A (m_pvUserData ud) \<and>
    m_nTxnState (txn (m_nNextTxn u) u2) = INV_CLI INV_CLI_TERMINATED_ST \<and>
    m_nRefCount (txn (m_nNextTxn u) u2) = 0 \<and>
    db_entries (m_objTxnAggregate u2) = db_entries (m_objTxnAggregate u)"
proof -
  let ?i = "m_nNextTxn u" and ?k = "msg_key INVITE_CLIENT m" and ?cfg = "env_config (m_env u)"
  obtain t1 where t1: "T1 = Suc t1" using assms(8) by (cases T1) auto
  define ti where "ti = \<lparr> m_pActualDestParam = Some p, m_pTranspParamUser = p, m_pSentBuffer = buf,
    m_pSentSipMsg = Some m \<rparr>"
  have cfg: "0 < m_nT1 ?cfg" "m_nT1 ?cfg \<le> m_nTimerB ?cfg" "m_nTimerB ?cfg < 2 ^ 30"
    using assms(6-9) by (simp_all add: word_less_nat_alt word_le_nat_alt)
  have u0: "u0 = snd (snd (snd (SendMsg m (Some p) ud buf u)))" using assms(11) by simp
  note s = SendMsg_INVITE_udp [OF assms(1) refl assms(2-5) cfg assms(10) refl ti_def u0]
  have ok: "ok" using s(1) assms(11) by simp
  have run: "calling_run ?i ?k ti t1 (64 * T1) 0 T1 T1 u0"
    using s(2) assms(6,7) t1 by (metis diff_Suc_1)
  then have t0: "started_timer ?i u0 = Some (TIMER_A, T1)" by (simp add: calling_run_def running_def)
  let ?ws = "[2 * T1, 4 * T1, 8 * T1, 16 * T1, 32 * T1, T1]"
  have ws: "?ws = waits (64 * T1 - T1) (timer_A_step (Suc t1)) (64 * T1) 0 T1 T1"
    using waits_64_T1 [OF assms(8), of 0] t1 by simp
  have "length ?ws = 6" by simp
  then have r: "(ds, u1) = expiries (length ?ws) ?i u0" using assms(12) by (simp only:)
  note w = calling.run_waits [OF run ws r, unfolded fst_conv snd_conv]
  have "T1 + sum_list ?ws = 64 * T1" by simp
  then obtain cur where "calling_run ?i ?k ti t1 (64 * T1) (0 + length ?ws) (64 * T1) cur u1"
    using w by metis
  note g = calling_gives_up [OF this, folded assms(13)]
  have ud: "UserData_Get (GetUserData ?i u1) u1 = m_pvUserData ud"
    using w s(6) by (simp add: UserData_Get_def GetUserData_def ISipUserData_new_def)
  have db: "db_inv (m_objTxnAggregate u)" using assms(3) by (simp add: working_def)
  have "db_entries (m_objTxnAggregate u2) = db_entries (m_objTxnAggregate u)"
    using txn_db.remove_after_add [OF db assms(4) matches_self [OF assms(2)], of ?i] g w s(4)
    by (simp add: gave_up_def)
  then show ?thesis
    using ok w g s(3,5) ud t0
    by (simp add: gave_up_def sent_copies_def ti_def eval_nat_numeral)
qed

theorem SendMsg_INVITE_unanswered_witness:
  "let r = SendMsg ex_invite (Some (ex_param PROTOCOL_UDP)) ex_user_data ''INVITE sip:bob@home'' ex_stack;
       e = expiries 6 0 (snd (snd (snd r)));
       u2 = expire_timer 0 (snd e)
   in fst r \<and> started_timer 0 (snd (snd (snd r))) = Some (TIMER_A, 2000) \<and> fst e = [4000, 8000, 16000, 32000, 64000, 2000] \<and>
      m_outputs u2 = replicate 7 (OUT_SEND ''INVITE sip:bob@home'' (Some (ex_param PROTOCOL_UDP)))
        @ [OUT_TIMER_EXPIRED TIMER_A 7, OUT_DESTROY_CTX 7] \<and>
      m_nRefCount (txn 0 u2) = 0 \<and> db_entries (m_objTxnAggregate u2) = []"
proof -
  let ?p = "ex_param PROTOCOL_UDP" and ?buf = "''INVITE sip:bob@home''"
  obtain ok key ud' u0 where s: "SendMsg ex_invite (Some ?p) ex_user_data ?buf ex_stack = (ok, key, ud', u0)"
    by (metis prod.collapse)
  have n: "m_nNextTxn ex_stack = 0" by (simp add: ex_defs)
  obtain ds u1 where e: "expiries 6 0 u0 = (ds, u1)" by (metis prod.collapse)
  have k: "complete_key (msg_key INVITE_CLIENT ex_invite)"
    by (simp add: msg_key_def ex_invite_def ex_request_key complete_key_def SetTxnType_def)
  show ?thesis
    unfolding s Let_def fst_conv snd_conv e
    using SendMsg_INVITE_unanswered [OF ex_invite_params k _ _ _ refl _ _ _ _ s e [folded n] refl]
    by (simp add: ex_defs working_def SipStackState_FindTransaction_def ImsMap_GetIndexOfKey_def
        SipConfiguration_default_def timer_context_def SipTxnFsmData_new_def timeout_outputs_def Let_def)
qed

section \<open>Receiving a response\<close>

lemma SipDelete_Increment [simp]: "m_nRefCount (txn i u) \<noteq> 0 \<Longrightarrow> SipDelete i (Increment i u) = u"
  by (simp add: SipDelete_def Increment_def upd_txn_def txn_def Let_def)

text \<open>
  Up to the run of the machine, for a response to an INVITE whose transaction is in the table.
  The method name of the CSeq is the exact one: \<open>recv_txn_type\<close> compares case-sensitively.
\<close>

definition invite_response :: "SipMessage \<Rightarrow> bool" where
  "invite_response m \<longleftrightarrow> CheckTxnMandatoryParams m = Some (RESP_TYPE, METHOD_INVITE) \<and>
     m_pszMethod (fst (SipTxnKey_of_msg m 0)) = METHOD_NAME_INVITE"

lemma OnRecvTransp_response:
  assumes m: "invite_response m" and w: "working u"
    and f: "SipStackState_FindTransaction (msg_key INVITE_CLIENT m) (m_objTxnAggregate u) = Some (e, i)"
  shows "OnRecvTransp m u = (Some (STATUS_VALID_MESSAGE, True, msg_key INVITE_CLIENT m), u)"
proof -
  have c: "CheckTxnMandatoryParams m = Some (RESP_TYPE, METHOD_INVITE)"
    and n: "m_pszMethod (fst (SipTxnKey_of_msg m 0)) = METHOD_NAME_INVITE"
    using m by (simp_all add: invite_response_def)
  have ty: "recv_txn_type (fst (SipTxnKey_of_msg m 0)) = INVITE_CLIENT"
    using SipTxnKey_of_msg_type [OF c, of 0] by (simp add: recv_txn_type_def n sip_str)
  have e: "m_pnError u = 0" "env_callback (m_env u)" using w by (simp_all add: working_def)
  show ?thesis
    using e f by (simp add: OnRecvTransp_def GetTxnKeyFromSipMsg_def c new_key_of_msg_ok [OF c]
        EERR_MALLOCFAILED_def ty msg_key_def [symmetric] GetTxnObjFromDb_def FetchTransaction_fetch)
qed

lemma OnRecvTxn_response:
  assumes m: "invite_response m" and w: "working u"
    and f: "SipStackState_FindTransaction (msg_key INVITE_CLIENT m) (m_objTxnAggregate u) = Some (e, i)"
    and ev: "ev = GetInvCliFsmEvt (SipMessage_GetStatusCode m)" "ev \<noteq> INV_CLI_INVALID_EVT"
    and r: "InvokeFsm_message i (EVT_INV_CLI ev) (SipTxnFsmData_new m None (Some ud)) (Increment i u)
      = (True, d, v)"
  shows "OnRecvTxn m (msg_key INVITE_CLIENT m) (Some ud) u = (True, msg_key INVITE_CLIENT m,
     \<lparr> ti_pSendSipMsg = m_pSendSipMsg d, ti_pUserData = m_pOutUserData d,
       ti_pTranspInfo = (if m_eTxnStatus d = STATUS_RETRANSMISSION then fd_pTranspInfo d else None),
       ti_eTxnStatus = m_eTxnStatus d, ti_bTxnTerminated = m_bTxnTerminated d,
       ti_bTxnCreated = m_bTxnCreated d \<rparr>, SipDelete i v)"
proof -
  have c: "CheckTxnMandatoryParams m = Some (RESP_TYPE, METHOD_INVITE)"
    using m by (simp add: invite_response_def)
  have e: "env_callback (m_env u)" using w by (simp add: working_def)
  have v: "ValidateRecvTxn m = Some INVITE_CLIENT" by (simp add: ValidateRecvTxn_def c GetTxnType_def)
  have k: "SetTxnType INVITE_CLIENT (msg_key INVITE_CLIENT m) = msg_key INVITE_CLIENT m"
    by (simp add: msg_key_def SetTxnType_def)
  have h: "HandleClientTxnRecv INVITE_CLIENT (msg_key INVITE_CLIENT m) (SipTxnFsmData_new m None (Some ud)) u
      = (True, d, SipDelete i v)"
    using e f ev r by (simp add: HandleClientTxnRecv_def GetTxnObjFromDb_def FetchTransaction_fetch
        SipTxnFsmData_new_def Let_def)
  show ?thesis by (simp add: OnRecvTxn_def v k h SipTxnInfo_new_def Let_def)
qed

section \<open>A failure response is acknowledged\<close>

text \<open>The ACK: the TU's, or the one the transaction builds.\<close>

definition failure_ack :: "nat \<Rightarrow> SipMessage \<Rightarrow> SipStack \<Rightarrow> SipMessage option" where
  "failure_ack i m u =
     (case env_create_ack (m_env u) m (m_pUserData (txn i u)) of
        Some ack \<Rightarrow> Some ack | None \<Rightarrow> Txn_PrepareACK i m u)"

lemma StopTxnTimer_frame [simp]:
  "m_objTxnAggregate (snd (StopTxnTimer i u)) = m_objTxnAggregate u"
  "s_txnKeyList (snd (StopTxnTimer i u)) = s_txnKeyList u"
  "m_nNextTimer (snd (StopTxnTimer i u)) = m_nNextTimer u"
  "m_pnError (snd (StopTxnTimer i u)) = m_pnError u"
  "m_outputs (snd (StopTxnTimer i u)) = m_outputs u"
  "m_env (snd (StopTxnTimer i u)) = m_env u"
  by (simp_all add: StopTxnTimer_def SetTimerId_def split: option.splits)

lemma StopTxnTimer_txn:
  "env_callback (m_env u) \<Longrightarrow> txn i (snd (StopTxnTimer i u)) = (txn i u)\<lparr>m_pvTimerId := None\<rparr>"
  by (simp add: StopTxnTimer_def SetTimerId_def split: option.splits)

lemma HandleFailureResponse_granted:
  assumes t: "m_eTxnType (txn i v) = INVITE_CLIENT"
    and k: "m_pTxnKey (txn i v) = Some k" "complete_key k"
    and w: "env_callback (m_env v)" "env_timer_ok (m_env v) (m_nNextTimer v)"
    and a: "failure_ack i (m_pSipMsgIn d) v = Some ack" and td: "0 < timer_value i TIMER_D v"
  shows "InvCli_HandleFailureResponse i d v =
     (True, INV_CLI INV_CLI_COMPLETED_ST, d\<lparr>m_pSendSipMsg := Some ack\<rparr>,
      upd_txn i (\<lambda>t. t\<lparr>m_pvTimerId := Some (m_nNextTimer v), m_eTimerType := TIMER_D,
                         m_nCurrentDuration := timer_value i TIMER_D v\<rparr>)
        (v\<lparr>m_timers := (m_timers v)(m_nNextTimer v \<mapsto> (timer_value i TIMER_D v,
             \<lparr> td_eTxnType = INVITE_CLIENT, td_eTimerType = TIMER_D, td_pTxnKey = Some k \<rparr>)),
           m_nNextTimer := Suc (m_nNextTimer v)\<rparr>))"
  using a unfolding failure_ack_def InvCli_HandleFailureResponse_def
  by (simp add: Let_def w StartTxnTimer_granted [OF td w] t k SipTimeoutData_new_complete [OF k(2)]
           split: option.splits)

text \<open>What the handlers have done before that: the retransmission timer is stopped, or the keys of
  the dialog's provisional responses are dropped.\<close>

definition before_failure :: "inv_cli_state \<Rightarrow> nat \<Rightarrow> SipStack \<Rightarrow> SipStack" where
  "before_failure st i v =
     (if st = INV_CLI_CALLING_ST then snd (StopTxnTimer i v)
      else SipTxnUtil_DeleteTxnKey (m_pTxnKey (txn i v)) False v)"

lemma before_failure_frame [simp]:
  "m_objTxnAggregate (before_failure st i u) = m_objTxnAggregate u"
  "m_nNextTimer (before_failure st i u) = m_nNextTimer u"
  "m_pnError (before_failure st i u) = m_pnError u"
  "m_outputs (before_failure st i u) = m_outputs u"
  "m_env (before_failure st i u) = m_env u"
  by (simp_all add: before_failure_def)

lemma before_failure_txn:
  "env_callback (m_env u) \<Longrightarrow> txn i (before_failure st i u)
     = (if st = INV_CLI_CALLING_ST then (txn i u)\<lparr>m_pvTimerId := None\<rparr> else txn i u)"
  by (simp add: before_failure_def StopTxnTimer_txn)

lemma failure_handler:
  assumes st: "st \<in> {INV_CLI_CALLING_ST, INV_CLI_PROCEEDING_ST}"
    and t: "m_eTxnType (txn i v) = INVITE_CLIENT" "m_nTxnState (txn i v) = INV_CLI st"
    and k: "m_pTxnKey (txn i v) = Some k" "complete_key k"
    and w: "env_callback (m_env v)" "env_timer_ok (m_env v) (m_nNextTimer v)"
    and a: "failure_ack i (m_pSipMsgIn d) v = Some ack"
    and td: "0 < timer_value i TIMER_D v"
    and r: "r = InvokeFsm_message i (EVT_INV_CLI INV_CLI_RECV_FAILURE_RESP_EVT) d v"
  shows "fst r" and "fst (snd r) = d\<lparr>m_pSendSipMsg := Some ack, m_pOutUserData := GetUserData i v,
      m_eTxnStatus := STATUS_VALID_MESSAGE\<rparr>"
    and "txn i (snd (snd r)) = (txn i v)\<lparr>m_pvTimerId := Some (m_nNextTimer v), m_eTimerType := TIMER_D,
      m_nCurrentDuration := timer_value i TIMER_D v, m_nTxnState := INV_CLI INV_CLI_COMPLETED_ST\<rparr>"
    and "m_timers (snd (snd r)) (m_nNextTimer v) = Some (timer_value i TIMER_D v,
      \<lparr> td_eTxnType = INVITE_CLIENT, td_eTimerType = TIMER_D, td_pTxnKey = Some k \<rparr>)"
    and "m_objTxnAggregate (snd (snd r)) = m_objTxnAggregate v"
    and "m_outputs (snd (snd r)) = m_outputs v" and "m_env (snd (snd r)) = m_env v"
    and "m_pnError (snd (snd r)) = m_pnError v"
proof -
  let ?b = "before_failure st i v"
  have tv: "timer_value i TIMER_D ?b = timer_value i TIMER_D v"
    "failure_ack i (m_pSipMsgIn d) ?b = failure_ack i (m_pSipMsgIn d) v"
    "m_eTxnType (txn i ?b) = INVITE_CLIENT" "m_pTxnKey (txn i ?b) = Some k"
    using t k by (simp_all add: timer_value_def failure_ack_def Txn_PrepareACK_def
        before_failure_txn [OF w(1)] split: option.splits)
  note h = HandleFailureResponse_granted [where v = ?b and i = i and d = d, unfolded tv
      before_failure_frame, OF refl refl k(2) w a td]
  let ?s = "snd (snd (snd (InvCli_HandleFailureResponse i d ?b)))"
  have r': "r = (True, d\<lparr>m_pSendSipMsg := Some ack, m_pOutUserData := GetUserData i ?s,
      m_eTxnStatus := STATUS_VALID_MESSAGE\<rparr>, SetTxnState i (INV_CLI INV_CLI_COMPLETED_ST) ?s)"
    using st h t
    by (auto simp: r InvokeFsm_message_def InvokeFsm_def on_message_def before_failure_def split_beta
        InvCli_CallingState_ReceiveFailureResponse_def InvCli_ProceedingState_ReceiveFailureResponse_def
        Let_def)
  have g: "GetUserData i ?s = GetUserData i v"
    using h by (simp add: GetUserData_def before_failure_txn [OF w(1)])
  show "fst r" "fst (snd r) = d\<lparr>m_pSendSipMsg := Some ack, m_pOutUserData := GetUserData i v,
      m_eTxnStatus := STATUS_VALID_MESSAGE\<rparr>"
    by (simp_all add: r' g)
  show "txn i (snd (snd r)) = (txn i v)\<lparr>m_pvTimerId := Some (m_nNextTimer v), m_eTimerType := TIMER_D,
      m_nCurrentDuration := timer_value i TIMER_D v, m_nTxnState := INV_CLI INV_CLI_COMPLETED_ST\<rparr>"
    using h by (simp add: r' SetTxnState_def before_failure_txn [OF w(1)])
  show "m_timers (snd (snd r)) (m_nNextTimer v) = Some (timer_value i TIMER_D v,
      \<lparr> td_eTxnType = INVITE_CLIENT, td_eTimerType = TIMER_D, td_pTxnKey = Some k \<rparr>)"
    "m_objTxnAggregate (snd (snd r)) = m_objTxnAggregate v"
    "m_outputs (snd (snd r)) = m_outputs v" "m_env (snd (snd r)) = m_env v"
    "m_pnError (snd (snd r)) = m_pnError v"
    using h by (simp_all add: r' SetTxnState_def)
qed


lemma GetInvCliFsmEvt_failure:
  "IsFailureResponse n \<Longrightarrow> GetInvCliFsmEvt n = INV_CLI_RECV_FAILURE_RESP_EVT"
  by (auto simp: GetInvCliFsmEvt_def status_class_defs word_le_nat_alt word_less_nat_alt)

lemma failure_response_step:
  assumes m: "invite_response m" and w: "working u"
    and c: "client_in_table i st (msg_key INVITE_CLIENT m) u"
    and st: "st \<in> {INV_CLI_CALLING_ST, INV_CLI_PROCEEDING_ST}"
    and sc: "IsFailureResponse (SipMessage_GetStatusCode m)"
    and a: "failure_ack i m u = Some ack" and buf: "env_encode (m_env u) ack = Some buf"
    and td: "0 < timer_value i TIMER_D u"
    and r: "OnRecvMessage m (Some p) ud u = (ok, status, key, ud', u')"
  shows "ok \<and> status = STATUS_VALID_MESSAGE \<and>
    m_outputs u' = m_outputs u @ [OUT_PRE_SENT ack, OUT_SEND buf (Some p), OUT_POST_SENT ack buf] \<and>
    m_nTxnState (txn i u') = INV_CLI INV_CLI_COMPLETED_ST \<and>
    (\<exists>h td. m_pvTimerId (txn i u') = Some h \<and> m_timers u' h = Some (timer_value i TIMER_D u, td) \<and>
       td_eTimerType td = TIMER_D) \<and>
    m_pTranspInfo (txn i u') = Some \<lparr> m_pActualDestParam = Some p, m_pTranspParamUser = p,
       m_pSentBuffer = buf, m_pSentSipMsg = Some ack \<rparr> \<and>
    m_nRefCount (txn i u') = m_nRefCount (txn i u) \<and> m_objTxnAggregate u' = m_objTxnAggregate u \<and>
    client_in_table i INV_CLI_COMPLETED_ST (msg_key INVITE_CLIENT m) u' \<and> working u'"
proof -
  let ?k = "msg_key INVITE_CLIENT m" and ?d = "SipTxnFsmData_new m None (Some ud)"
  let ?ti = "\<lparr> m_pActualDestParam = Some p, m_pTranspParamUser = p, m_pSentBuffer = buf,
    m_pSentSipMsg = Some ack \<rparr>"
  obtain e k' ud0 where f: "SipStackState_FindTransaction ?k (m_objTxnAggregate u) = Some (e, i)"
    and k': "m_pTxnKey (txn i u) = Some k'" "complete_key k'"
    and t: "m_eTxnType (txn i u) = INVITE_CLIENT" "m_nTxnState (txn i u) = INV_CLI st"
    and ud: "m_pUserData (txn i u) = Some ud0" and rc: "0 < m_nRefCount (txn i u)"
    using c unfolding client_in_table_def by blast
  have ww: "env_callback (m_env u)" "env_timer_ok (m_env u) n" "env_send_ok (m_env u) n" for n
    using w by (simp_all add: working_def)
  have ev: "INV_CLI_RECV_FAILURE_RESP_EVT = GetInvCliFsmEvt (SipMessage_GetStatusCode m)"
    using sc by (rule GetInvCliFsmEvt_failure [symmetric])
  let ?v = "Increment i u"
  have inc: "timer_value i TIMER_D ?v = timer_value i TIMER_D u" "failure_ack i m ?v = failure_ack i m u"
    "GetUserData i ?v = Some i"
    using ud by (simp_all add: timer_value_def failure_ack_def Txn_PrepareACK_def GetUserData_def
        txn_Increment split: option.splits)
  define x where "x = InvokeFsm_message i (EVT_INV_CLI INV_CLI_RECV_FAILURE_RESP_EVT) ?d ?v"
  have dm: "m_pSipMsgIn ?d = m" by (simp add: SipTxnFsmData_new_def)
  note h = failure_handler [where v = ?v and i = i and d = ?d, OF st _ _ _ k'(2) _ _ _ _ x_def,
      unfolded dm inc, simplified txn_Increment Increment_frame, simplified, OF t k'(1) ww(1,2) a td]
  obtain v where v: "x = (True, ?d\<lparr>m_pSendSipMsg := Some ack, m_pOutUserData := Some i,
      m_eTxnStatus := STATUS_VALID_MESSAGE\<rparr>, v)"
    using h(1,2) by (metis (full_types) prod.collapse)
  note h = h(3-8) [unfolded v snd_conv]
  note o = OnRecvTxn_response [OF m w f ev _ v [unfolded x_def]]
  have tr: "OnSendTransp ack (Some p) buf = Some ?ti" by (simp add: OnSendTransp_def)
  let ?w = "emit (OUT_POST_SENT ack buf) (emit (OUT_SEND buf (Some p)) (emit (OUT_PRE_SENT ack) (SipDelete i v)))"
  have up: "UpdateTxnDetails (Some ?k) (Some ?ti) ?w
      = (True, SipDelete i (UpdateTranspInfo i (Some ?ti) (Increment i ?w)))"
    using f ww(1) by (simp add: UpdateTxnDetails_def GetTxnObjFromDb_def FetchTransaction_fetch h)
  have u': "u' = SipDelete i (UpdateTranspInfo i (Some ?ti) (Increment i ?w))"
    and ok: "ok" "status = STATUS_VALID_MESSAGE"
    using r o buf ww up
    by (auto simp: OnRecvMessage_def OnRecvTransp_response [OF m w f] OnRecvMessage_send_def tr
        SendToNetwork_def Network_Send_def h SipTxnFsmData_new_def OnRecvMessage_finish_def Let_def
        split: if_splits)
  have y: "txn i (SipDelete i v) = (txn i v)\<lparr>m_nRefCount := m_nRefCount (txn i u)\<rparr>"
    using rc by (simp add: SipDelete_def h Let_def)
  have x: "txn i u' = (txn i (SipDelete i v))\<lparr>m_pTranspInfo := Some ?ti\<rparr>"
    unfolding u' UpdateTranspInfo_def using rc by (subst SipDelete_Increment_upd) (simp_all add: y)
  have fr: "m_outputs u' = m_outputs u @ [OUT_PRE_SENT ack, OUT_SEND buf (Some p), OUT_POST_SENT ack buf]"
    "m_timers u' = m_timers v" "m_objTxnAggregate u' = m_objTxnAggregate u"
    by (simp_all add: u' UpdateTranspInfo_def h)
  have "client_in_table i INV_CLI_COMPLETED_ST ?k u'"
    using f k' t ud rc by (simp add: client_in_table_def fr x y h txn_Increment)
  moreover have "working u'"
    using w by (simp add: working_def u' UpdateTranspInfo_def h)
  ultimately show ?thesis using ok fr h by (simp add: x y)
qed

text \<open>C3:
  A failure response to an INVITE, in the state Calling or Proceeding, over any transport: the
  ACK (the TU's, or the one the transaction builds) goes out between the two callbacks that tell
  the TU, the transaction is Completed with Timer D armed, and it keeps the ACK as what to send
  again.
\<close>

theorem failure_response_acknowledged:
  assumes m: "invite_response m" and w: "working u"
    and c: "client_in_table i st (msg_key INVITE_CLIENT m) u"
    and st: "st \<in> {INV_CLI_CALLING_ST, INV_CLI_PROCEEDING_ST}"
    and sc: "IsFailureResponse (SipMessage_GetStatusCode m)"
    and a: "failure_ack i m u = Some ack" and buf: "env_encode (m_env u) ack = Some buf"
    and td: "0 < timer_value i TIMER_D u"
    and r: "OnRecvMessage m (Some p) ud u = (ok, status, key, ud', u')"
  shows "ok \<and> status = STATUS_VALID_MESSAGE \<and>
    m_outputs u' = m_outputs u @ [OUT_PRE_SENT ack, OUT_SEND buf (Some p), OUT_POST_SENT ack buf] \<and>
    m_nTxnState (txn i u') = INV_CLI INV_CLI_COMPLETED_ST \<and>
    (\<exists>h td. m_pvTimerId (txn i u') = Some h \<and> m_timers u' h = Some (timer_value i TIMER_D u, td) \<and>
       td_eTimerType td = TIMER_D) \<and>
    m_pTranspInfo (txn i u') = Some \<lparr> m_pActualDestParam = Some p, m_pTranspParamUser = p,
       m_pSentBuffer = buf, m_pSentSipMsg = Some ack \<rparr> \<and>
    m_nRefCount (txn i u') = m_nRefCount (txn i u) \<and> m_objTxnAggregate u' = m_objTxnAggregate u"
  using failure_response_step [OF assms] by blast


text \<open>C4:
  Once the ACK has been sent, every further copy of the failure response is answered with the
  same ACK to the same destination, and nothing else of the stack changes: no TU callback, no
  timer, no state.
\<close>

theorem failure_response_retransmitted:
  assumes m: "invite_response m" and w: "working u"
    and c: "client_in_table i INV_CLI_COMPLETED_ST (msg_key INVITE_CLIENT m) u"
    and sc: "IsFailureResponse (SipMessage_GetStatusCode m)"
    and ti: "m_pTranspInfo (txn i u) = Some ti"
  shows "\<exists>ud'. OnRecvMessage m (Some p) ud u = (True, STATUS_RETRANSMISSION, None, ud',
     emit (OUT_SEND (m_pSentBuffer ti) (m_pActualDestParam ti)) u)"
proof -
  let ?k = "msg_key INVITE_CLIENT m" and ?d = "SipTxnFsmData_new m None (Some ud)"
  obtain e where f: "SipStackState_FindTransaction ?k (m_objTxnAggregate u) = Some (e, i)"
    and t: "m_eTxnType (txn i u) = INVITE_CLIENT" "m_nTxnState (txn i u) = INV_CLI INV_CLI_COMPLETED_ST"
    and rc: "0 < m_nRefCount (txn i u)"
    using c unfolding client_in_table_def by blast
  have ww: "env_send_ok (m_env u) n" for n using w by (simp add: working_def)
  have v: "InvokeFsm_message i (EVT_INV_CLI INV_CLI_RECV_FAILURE_RESP_EVT) ?d (Increment i u) =
     (True, ?d\<lparr>m_eTxnStatus := STATUS_RETRANSMISSION, m_pOutUserData := GetUserData i u,
               fd_pTranspInfo := Some ti\<rparr>, Increment i u)"
    using t ti by (simp add: InvokeFsm_message_def InvokeFsm_def on_message_def txn_Increment
        InvCli_CompletedState_ReceiveFailureResponse_def GetUserData_def)
  note o = OnRecvTxn_response [OF m w f GetInvCliFsmEvt_failure [OF sc, symmetric] _ v]
  show ?thesis
    using o rc by (simp add: OnRecvMessage_def OnRecvTransp_response [OF m w f] SendToNetwork_def
        Network_Send_def ww SipTxnFsmData_new_def Let_def)
qed

section \<open>Example calls\<close>

lemma ex_response_params:
  "invite_response (ex_response ''INVITE'' code)"
  by (simp add: invite_response_def CheckTxnMandatoryParams_def SipMessage_GetMethodType_def
      SipMessage_GetMethod_def SipMethodArray_def SipPf_Stricmp_def SipTxnKey_of_msg_def
      SipTxnKey_new_def SetRSeq_def ex_defs Let_def)

lemma ex_keys_match:
  "CompareKeys (msg_key INVITE_CLIENT ex_invite) (msg_key INVITE_CLIENT (ex_response ''INVITE'' code))"
  by (simp add: CompareKeys_def msg_key_def SetTxnType_def SipTxnKey_of_msg_def
      SipTxnKey_new_def SetRSeq_def ex_defs Let_def sip_str)

lemma ex_invite_key: "complete_key (msg_key INVITE_CLIENT ex_invite)"
  by (simp add: msg_key_def ex_invite_def ex_request_key complete_key_def SetTxnType_def)

text \<open>The INVITE of the example has been sent.\<close>

lemma ex_calling:
  obtains key ud' u where
    "SendMsg ex_invite (Some (ex_param PROTOCOL_UDP)) ex_user_data ''INVITE'' ex_stack = (True, key, ud', u)"
    "working u" "m_env u = ex_env" "m_pSipMsg (txn 0 u) = Some ex_invite"
    "m_outputs u = [OUT_SEND ''INVITE'' (Some (ex_param PROTOCOL_UDP))]"
    "m_objTxnTimerValues (txn 0 u) = SipTxnTimerValues_new SipConfiguration_default"
    "\<And>code. client_in_table 0 INV_CLI_CALLING_ST (msg_key INVITE_CLIENT (ex_response ''INVITE'' code)) u"
proof -
  let ?p = "ex_param PROTOCOL_UDP"
  let ?u = "snd (snd (snd (SendMsg ex_invite (Some ?p) ex_user_data ''INVITE'' ex_stack)))"
  have st: "working ex_stack" "m_objTxnAggregate ex_stack = []" "m_nNextTxn ex_stack = 0"
    "m_env ex_stack = ex_env" "m_outputs ex_stack = []" "env_config ex_env = SipConfiguration_default"
    by (simp_all add: ex_defs working_def)
  have f: "SipStackState_FindTransaction k (m_objTxnAggregate ex_stack) = None" for k
    by (simp add: st FindTransaction_entries)
  have cfg: "0 < m_nT1 SipConfiguration_default"
    "m_nT1 SipConfiguration_default \<le> m_nTimerB SipConfiguration_default"
    "m_nTimerB SipConfiguration_default < 2 ^ 30"
    by (simp_all add: SipConfiguration_default_def Let_def)
  have p: "m_nTranspProtocol ?p = PROTOCOL_UDP"
    "timer_context (SipTxnFsmData_new ex_invite (Some ?p) (Some ex_user_data)) = None"
    by (simp_all add: ex_defs timer_context_def SipTxnFsmData_new_def)
  note s = SendMsg_INVITE_udp [OF ex_invite_params refl ex_invite_key st(1) f p(1) _ _ _ p(2) refl refl
    refl, where buf = "''INVITE''", unfolded st, unfolded st(2-6), OF cfg]
  show thesis
  proof (rule that [OF s(1) s(8)])
    show "m_env ?u = ex_env" "m_pSipMsg (txn 0 ?u) = Some ex_invite"
      "m_outputs ?u = [OUT_SEND ''INVITE'' (Some ?p)]"
      "m_objTxnTimerValues (txn 0 ?u) = SipTxnTimerValues_new SipConfiguration_default"
      using s by simp_all
    fix code
    have "SipStackState_FindTransaction (msg_key INVITE_CLIENT (ex_response ''INVITE'' code)) (m_objTxnAggregate ?u)
        = Some (msg_key INVITE_CLIENT ex_invite, 0)"
      using txn_db.find_after_add [of "[]" "msg_key INVITE_CLIENT (ex_response ''INVITE'' code)"
          "(msg_key INVITE_CLIENT ex_invite, 0)"] ex_keys_match [of code] s(4)
      by (simp add: FindTransaction_entries SipStackTransaction_CompareKey_def)
    then show "client_in_table 0 INV_CLI_CALLING_ST (msg_key INVITE_CLIENT (ex_response ''INVITE'' code)) ?u"
      using s(7) by (simp add: client_in_table_def)
  qed
qed

lemma ex_ack:
  assumes "m_env u = ex_env" and "m_pSipMsg (txn 0 u) = Some ex_invite"
  shows "failure_ack 0 m u = Some (PrepareACK False ex_invite m)"
  using assms by (simp add: failure_ack_def Txn_PrepareACK_def ex_env_def SipConfiguration_default_def Let_def)

lemma ex_failure: "IsFailureResponse (SipMessage_GetStatusCode (ex_response ''INVITE'' ''486''))"
  by (simp add: SipMessage_GetStatusCode_def ex_defs SipPf_Atoi_def IsFailureResponse_def)

theorem failure_response_acknowledged_witness:
  "let r = SendMsg ex_invite (Some (ex_param PROTOCOL_UDP)) ex_user_data ''INVITE'' ex_stack;
       m = ex_response ''INVITE'' ''486'';
       ack = PrepareACK False ex_invite m;
       v = OnRecvMessage m (Some (ex_param PROTOCOL_UDP)) ex_user_data (snd (snd (snd r)))
   in fst v \<and> fst (snd v) = STATUS_VALID_MESSAGE \<and>
      m_outputs (snd (snd (snd (snd v)))) =
        [OUT_SEND ''INVITE'' (Some (ex_param PROTOCOL_UDP)), OUT_PRE_SENT ack,
         OUT_SEND ''encoded'' (Some (ex_param PROTOCOL_UDP)), OUT_POST_SENT ack ''encoded'']"
proof -
  let ?m = "ex_response ''INVITE'' ''486''"
  obtain key ud' u where u:
    "SendMsg ex_invite (Some (ex_param PROTOCOL_UDP)) ex_user_data ''INVITE'' ex_stack = (True, key, ud', u)"
    "working u" "m_env u = ex_env" "m_pSipMsg (txn 0 u) = Some ex_invite"
    "m_outputs u = [OUT_SEND ''INVITE'' (Some (ex_param PROTOCOL_UDP))]"
    "m_objTxnTimerValues (txn 0 u) = SipTxnTimerValues_new SipConfiguration_default"
    "client_in_table 0 INV_CLI_CALLING_ST (msg_key INVITE_CLIENT ?m) u"
    by (rule ex_calling) blast
  obtain ok status k ud2 u2 where r: "OnRecvMessage ?m (Some (ex_param PROTOCOL_UDP)) ex_user_data u
      = (ok, status, k, ud2, u2)" by (metis prod.collapse)
  have td: "0 < timer_value 0 TIMER_D u"
    by (simp add: timer_value_def u(6) SipTxnTimerValues_new_def SipConfiguration_default_def Let_def)
  have b: "env_encode (m_env u) (PrepareACK False ex_invite ?m) = Some ''encoded''"
    by (simp add: u(3) ex_env_def)
  show ?thesis
    using failure_response_acknowledged [OF ex_response_params u(2,7) _ ex_failure ex_ack [OF u(3,4)] b td r]
    by (simp add: u(1,5) r)
qed

theorem failure_response_retransmitted_witness:
  "let r = SendMsg ex_invite (Some (ex_param PROTOCOL_UDP)) ex_user_data ''INVITE'' ex_stack;
       m = ex_response ''INVITE'' ''486'';
       v = OnRecvMessage m (Some (ex_param PROTOCOL_UDP)) ex_user_data (snd (snd (snd r)));
       w = OnRecvMessage m (Some (ex_param PROTOCOL_UDP)) ex_user_data (snd (snd (snd (snd v))))
   in fst w \<and> fst (snd w) = STATUS_RETRANSMISSION \<and>
      m_outputs (snd (snd (snd (snd w)))) = m_outputs (snd (snd (snd (snd v))))
        @ [OUT_SEND ''encoded'' (Some (ex_param PROTOCOL_UDP))]"
proof -
  let ?m = "ex_response ''INVITE'' ''486''"
  obtain key ud' u where u:
    "SendMsg ex_invite (Some (ex_param PROTOCOL_UDP)) ex_user_data ''INVITE'' ex_stack = (True, key, ud', u)"
    "working u" "m_env u = ex_env" "m_pSipMsg (txn 0 u) = Some ex_invite"
    "m_objTxnTimerValues (txn 0 u) = SipTxnTimerValues_new SipConfiguration_default"
    "client_in_table 0 INV_CLI_CALLING_ST (msg_key INVITE_CLIENT ?m) u"
    by (rule ex_calling) blast
  obtain ok status k ud2 u2 where r: "OnRecvMessage ?m (Some (ex_param PROTOCOL_UDP)) ex_user_data u
      = (ok, status, k, ud2, u2)" by (metis prod.collapse)
  have td: "0 < timer_value 0 TIMER_D u"
    by (simp add: timer_value_def u(5) SipTxnTimerValues_new_def SipConfiguration_default_def Let_def)
  have b: "env_encode (m_env u) (PrepareACK False ex_invite ?m) = Some ''encoded''"
    by (simp add: u(3) ex_env_def)
  note s = failure_response_step [OF ex_response_params u(2,6) _ ex_failure ex_ack [OF u(3,4)] b td r, simplified]
  obtain ud3 where w: "OnRecvMessage ?m (Some (ex_param PROTOCOL_UDP)) ex_user_data u2 =
     (True, STATUS_RETRANSMISSION, None, ud3, emit (OUT_SEND ''encoded'' (Some (ex_param PROTOCOL_UDP))) u2)"
    using failure_response_retransmitted [OF ex_response_params _ _ ex_failure, of u2 0] s by fastforce
  show ?thesis by (simp add: u(1) r w)
qed

end
