(* ===== verification/SipReach.thy ===== *)
theory SipReach
  imports SipRefCount SipClientCalls
begin

text \<open>
  The stack as a transition system: the calls of the stack manager, the expiry of a timer, and
  changes of the environment, in any order. What holds of every reachable stack.
\<close>

section \<open>Reachable stacks\<close>

inductive stack_step :: "SipStack \<Rightarrow> SipStack \<Rightarrow> bool" where
  send: "stack_step u (snd (snd (snd (SendMsg m p ud buf u))))"
| receive: "stack_step u (snd (snd (snd (snd (OnRecvMessage m p ud u)))))"
| terminate: "stack_step u (snd (Mngr_TerminateTxn k u))"
| transport_error: "stack_step u (snd (Mngr_OnRecvTanspError key u))"
| expiry: "stack_step u (Timer_TimerExpired h u)"
| environment: "stack_step u (u\<lparr>m_env := env\<rparr>)"
| error_cell: "stack_step u (u\<lparr>m_pnError := e\<rparr>)"

inductive reachable :: "SipStack \<Rightarrow> bool" where
  init: "reachable (SipStack_init env)"
| step: "reachable u \<Longrightarrow> stack_step u u' \<Longrightarrow> reachable u'"

lemma live_init: "live (SipStack_init env)"
  by (simp add: live_def stack_inv_def typed_def own_keys_def entry_keys_def SipStack_init_def txn_def
      SipTxn_free_def balance_def refs_def)

lemma live_environment: "live (u\<lparr>m_env := env\<rparr>) = live u"
  by (simp add: live_def stack_inv_def typed_def own_keys_def entry_keys_def balance_def txn_def)

lemma reachable_live: "reachable u \<Longrightarrow> live u"
proof (induction rule: reachable.induct)
  case (step u u')
  from step(2,3) show ?case
    by cases (simp_all add: live_environment Mngr_TerminateTxn_def)
qed (rule live_init)

lemma reachable_send: "reachable u \<Longrightarrow> SendMsg m p ud buf u = (ok, k, ud', u') \<Longrightarrow> reachable u'"
  using reachable.step [OF _ stack_step.send, of u m p ud buf] by simp

section \<open>Properties\<close>

text \<open>C9:
  Memory safety of the table: in every reachable stack an entry of the table refers to a
  transaction that has been allocated and not been destroyed; its reference count is at least
  twice the number of its entries. No reference count is ever negative.
\<close>

theorem reachable_entries_alive:
  assumes "reachable u" and "(k, j) \<in> set (db_entries (m_objTxnAggregate u))"
  shows "j < m_nNextTxn u \<and> 2 \<le> m_nRefCount (txn j u) \<and>
    2 * int (count_list (map snd (db_entries (m_objTxnAggregate u))) j) \<le> m_nRefCount (txn j u) \<and>
    0 \<le> m_nRefCount (txn i u)"
proof -
  have l: "stack_inv u" "0 \<le> balance n u" for n using reachable_live [OF assms(1)] by (simp_all add: live_def)
  then have "j < m_nNextTxn u" using assms(2) unfolding stack_inv_def entry_keys_def by blast
  moreover have "count_list (map snd (db_entries (m_objTxnAggregate u))) j \<noteq> 0"
    using image_eqI [of j snd "(k, j)", OF _ assms(2)] by (simp add: count_list_0_iff)
  ultimately show ?thesis using l(2) [of j] l(2) [of i] by (auto simp: balance_def refs_def)
qed

text \<open>C10:
  Type safety of the machines: in every reachable stack the state of each transaction is a state
  of the machine of its type, the code of which reads it; the key a transaction owns names its
  type; and a key finds only transactions of the type it names.
\<close>

theorem reachable_typed:
  assumes "reachable u"
  shows "machine_of (m_nTxnState (txn j u)) = m_eTxnType (txn j u) \<and>
    (case m_pTxnKey (txn j u) of None \<Rightarrow> True | Some k \<Rightarrow> key_eTxnType k = m_eTxnType (txn j u)) \<and>
    (case SipStackState_FindTransaction key (m_objTxnAggregate u) of None \<Rightarrow> True
     | Some e \<Rightarrow> m_eTxnType (txn (snd e) u) = key_eTxnType key)"
proof -
  have i: "stack_inv u" using reachable_live [OF assms] by simp
  then show ?thesis
    using found_type [OF i] by (auto simp: stack_inv_def typed_def own_keys_def split: option.split)
qed

text \<open>
  In every reachable stack the table is well-formed: its buckets are sorted by hash value without
  repetition, none is empty, and each holds only keys whose Call-ID has that hash value. So a
  search finds the first match of all entries.
\<close>

theorem reachable_table:
  assumes "reachable u"
  shows "db_inv (m_objTxnAggregate u) \<and>
    SipStackState_FindTransaction k (m_objTxnAggregate u) =
      find (\<lambda>e. CompareKeys (fst e) k) (db_entries (m_objTxnAggregate u))"
proof -
  have d: "db_inv (m_objTxnAggregate u)" using reachable_live [OF assms] by (simp add: live_def stack_inv_def)
  moreover have "SipStackTransaction_CompareKey k = (\<lambda>e. CompareKeys (fst e) k)"
    by (simp add: fun_eq_iff SipStackTransaction_CompareKey_def)
  ultimately show ?thesis using FindTransaction_entries [OF d, of k] by simp
qed

section \<open>Example\<close>

lemma reachable_ex_calling:
  obtains u k where "reachable u" "(k, 0) \<in> set (db_entries (m_objTxnAggregate u))"
    "m_outputs u = [OUT_SEND ''INVITE'' (Some (ex_param PROTOCOL_UDP))]"
proof -
  obtain key ud' u where u:
    "SendMsg ex_invite (Some (ex_param PROTOCOL_UDP)) ex_user_data ''INVITE'' ex_stack = (True, key, ud', u)"
    "m_outputs u = [OUT_SEND ''INVITE'' (Some (ex_param PROTOCOL_UDP))]"
    "client_in_table 0 INV_CLI_CALLING_ST (msg_key INVITE_CLIENT (ex_response ''INVITE'' ''486'')) u"
    by (rule ex_calling) blast
  have r: "reachable u"
    using reachable_send [OF _ u(1)] reachable.init by (simp add: ex_stack_def)
  then have d: "db_inv (m_objTxnAggregate u)"
    using reachable_live by (simp add: live_def stack_inv_def)
  obtain e where "SipStackState_FindTransaction (msg_key INVITE_CLIENT (ex_response ''INVITE'' ''486''))
      (m_objTxnAggregate u) = Some (e, 0)"
    using u(3) by (auto simp: client_in_table_def)
  from txn_db.find_in_mem [OF d this] show thesis by (intro that [OF r _ u(2)]) auto
qed

theorem reachable_entries_alive_witness:
  "\<exists>u k. (k, 0) \<in> set (db_entries (m_objTxnAggregate u)) \<and> 2 \<le> m_nRefCount (txn 0 u) \<and>
    m_outputs u = [OUT_SEND ''INVITE'' (Some (ex_param PROTOCOL_UDP))]"
proof -
  obtain u k where u: "reachable u" "(k, 0) \<in> set (db_entries (m_objTxnAggregate u))"
    "m_outputs u = [OUT_SEND ''INVITE'' (Some (ex_param PROTOCOL_UDP))]" by (rule reachable_ex_calling)
  show ?thesis using reachable_entries_alive [OF u(1,2), of 0] u by blast
qed

theorem reachable_typed_witness:
  "\<exists>u k. (k, 0) \<in> set (db_entries (m_objTxnAggregate u)) \<and>
    machine_of (m_nTxnState (txn 0 u)) = m_eTxnType (txn 0 u)"
proof -
  obtain u k where u: "reachable u" "(k, 0) \<in> set (db_entries (m_objTxnAggregate u))"
    "m_outputs u = [OUT_SEND ''INVITE'' (Some (ex_param PROTOCOL_UDP))]" by (rule reachable_ex_calling)
  show ?thesis using reachable_typed [OF u(1), of 0] u(2) by blast
qed

theorem reachable_table_witness:
  "\<exists>(u::SipStack) k. (k, 0) \<in> set (db_entries (m_objTxnAggregate u)) \<and> db_inv (m_objTxnAggregate u)"
proof -
  obtain u k where u: "reachable u" "(k, 0) \<in> set (db_entries (m_objTxnAggregate u))"
    "m_outputs u = [OUT_SEND ''INVITE'' (Some (ex_param PROTOCOL_UDP))]" by (rule reachable_ex_calling)
  show ?thesis
    using reachable_table [OF u(1), of "msg_key INVITE_CLIENT (ex_response ''INVITE'' ''486'')"] u(2) by blast
qed

end
