(* ===== verification/SipCleanUp.thy ===== *)
theory SipCleanUp
  imports SipReach
begin

text \<open>
  The end of the stack: \<open>SipStackState::CleanUp\<close> (\<open>engine/sipcore/SipStackState.cpp\<close>), which takes
  down every transaction of the table, and why it cannot do so.
\<close>

section \<open>Clean up\<close>

text \<open>
  Entries are objects that two places delete: \<open>ReleaseTransaction\<close>, which the termination of a
  transaction runs through its callback, and the loop of \<open>CleanUp\<close> itself. The model keeps the
  transactions whose entry the loop has deleted (a transaction is entered at most once), and using an
  entry after it was deleted is a fault.
\<close>

datatype table_fault = ENTRY_USED_AFTER_DELETE

text \<open>The entries that a search for a key compares, the last one of them the first that matches.\<close>

fun up_to_match :: "SipTxnKey \<Rightarrow> SipStackTransaction list \<Rightarrow> SipStackTransaction list" where
  "up_to_match pKey [] = []"
| "up_to_match pKey (e # es) = e # (if SipStackTransaction_CompareKey pKey e then [] else up_to_match pKey es)"

definition searched :: "SipTxnKey \<Rightarrow> SipStack \<Rightarrow> SipStackTransaction list" where
  "searched pKey u =
     (if \<not> env_callback (m_env u) then []
      else case ImsMap_GetIndexOfKey (m_objTxnAggregate u) (GetHashCode (m_pszCallId pKey)) of
             None \<Rightarrow> []
           | Some nKeyIndex \<Rightarrow> up_to_match pKey (ImsMap_GetValueAt (m_objTxnAggregate u) nKeyIndex))"

text \<open>The entry that the termination of a key releases and deletes.\<close>

definition released :: "SipTxnKey \<Rightarrow> SipStack \<Rightarrow> SipStackTransaction option" where
  "released pKey u =
     (if env_callback (m_env u) then SipStackState_FindTransaction pKey (m_objTxnAggregate u) else None)"

text \<open>
  The two loops, over the table as it is at each moment; \<open>aDeleted\<close> are the transactions whose entry
  the loop has deleted. After the termination of its transaction \<open>pTransaction\<close> is deleted, and its key
  is read for a trace. The destructor of an entry gives up its reference to the transaction.
\<close>

partial_function (option) CleanUp_loop :: "nat list \<Rightarrow> nat \<Rightarrow> nat \<Rightarrow> SipStack \<Rightarrow> (table_fault + SipStack) option" where
  "CleanUp_loop aDeleted i j u =
     (if i \<ge> length (m_objTxnAggregate u) then Some (Inr u)
      else
        (let objTransactions = ImsMap_GetValueAt (m_objTxnAggregate u) i
         in if j \<ge> length objTransactions then CleanUp_loop aDeleted (Suc i) 0 u
            else
              (let pTransaction = objTransactions ! j; pKey = fst pTransaction
               in if \<exists>e\<in>set (pTransaction # searched pKey u). snd e \<in> set aDeleted
                  then Some (Inl ENTRY_USED_AFTER_DELETE)
                  else if map_option snd (released pKey u) = Some (snd pTransaction)
                  then Some (Inl ENTRY_USED_AFTER_DELETE)
                  else CleanUp_loop (snd pTransaction # aDeleted) i (Suc j)
                         (SipDelete (snd pTransaction) (snd (Mngr_TerminateTxn (Some pKey) u))))))"

definition SipStackState_CleanUp :: "SipStack \<Rightarrow> (table_fault + SipStack) option" where
  "SipStackState_CleanUp u =
     (if m_objTxnAggregate u = [] then Some (Inr u)
      else map_option (map_sum id (\<lambda>u. u\<lparr>m_objTxnAggregate := []\<rparr>)) (CleanUp_loop [] 0 0 u))"

section \<open>What it does\<close>

text \<open>
  In every reachable stack whose callbacks are registered, a table with a transaction whose entry has
  a complete key cannot be cleaned up: already for the first entry the termination releases and deletes
  the entry that the loop goes on to read and to delete again.
\<close>

theorem CleanUp_deletes_twice:
  assumes r: "reachable u" and c: "env_callback (m_env u)"
    and e: "db_entries (m_objTxnAggregate u) = (k, i) # es" and k: "complete_key k"
  shows "SipStackState_CleanUp u = Some (Inl ENTRY_USED_AFTER_DELETE)"
proof -
  have d: "db_inv (m_objTxnAggregate u)" using reachable_live [OF r] by (simp add: live_def stack_inv_def)
  obtain h b m where m: "m_objTxnAggregate u = (h, b) # m"
    using e by (cases "m_objTxnAggregate u") (auto simp: db_entries_def)
  moreover have "b \<noteq> []" using d m by (simp add: db_inv_def)
  ultimately obtain b' where b: "b = (k, i) # b'" using e by (cases b) (auto simp: db_entries_def)
  have "released k u = Some (k, i)"
    using c matches_self [OF k, of i] by (simp add: released_def FindTransaction_entries [OF d] e)
  then have "CleanUp_loop [] 0 0 u = Some (Inl ENTRY_USED_AFTER_DELETE)"
    by (subst CleanUp_loop.simps) (simp add: m b ImsMap_GetValueAt_def)
  then show ?thesis by (simp add: SipStackState_CleanUp_def m)
qed

theorem CleanUp_deletes_twice_witness:
  "\<exists>u. reachable u \<and> SipStackState_CleanUp u = Some (Inl ENTRY_USED_AFTER_DELETE)"
proof -
  let ?p = "ex_param PROTOCOL_UDP" and ?k = "msg_key INVITE_CLIENT ex_invite"
  let ?r = "SendMsg ex_invite (Some ?p) ex_user_data ''INVITE'' ex_stack"
  define u where "u = snd (snd (snd ?r))"
  have k: "complete_key ?k"
    by (simp add: msg_key_def ex_invite_def ex_request_key complete_key_def SetTxnType_def)
  have f: "SipStackState_FindTransaction ?k (m_objTxnAggregate ex_stack) = None"
    by (simp add: ex_defs SipStackState_FindTransaction_def ImsMap_GetIndexOfKey_def)
  note s = SendMsg_INVITE_udp [OF ex_invite_params refl k _ f _ _ _ _ _ refl refl u_def]
  have a: "m_objTxnAggregate u = snd (SipStackState_AddTransaction ?k (m_nNextTxn ex_stack) (m_objTxnAggregate ex_stack))"
    "m_env u = m_env ex_stack"
    by (rule s(4) s(9); simp add: ex_defs working_def SipConfiguration_default_def timer_context_def SipTxnFsmData_new_def Let_def)+
  have "SendMsg ex_invite (Some ?p) ex_user_data ''INVITE'' ex_stack = (fst ?r, fst (snd ?r), fst (snd (snd ?r)), u)"
    by (simp add: u_def)
  then have r: "reachable u" using reachable_send [OF _] reachable.init by (metis ex_stack_def)
  have "db_entries (m_objTxnAggregate u) = [(?k, 0)]"
    by (simp add: a ex_defs SipStackState_AddTransaction_def ImsMap_GetIndexOfKey_def ImsMap_Add_def db_entries_def Let_def)
  from CleanUp_deletes_twice [OF r _ this k] have "SipStackState_CleanUp u = Some (Inl ENTRY_USED_AFTER_DELETE)"
    by (simp add: a ex_defs)
  with r show ?thesis by blast
qed

end
