(* ===== verification/SipTable.thy ===== *)
theory SipTable
  imports SipCallFacts
begin

text \<open>
  What the data structures of the layer promise: copies of keys, the hashed table of
  transactions, the list of keys of reliable provisional responses, and timer values with
  options.
\<close>

section \<open>Copies of keys\<close>

text \<open>
  Copying a key gives the key and leaves the error alone exactly when branch, host, method, From
  tag and Call-ID are not NULL. Otherwise the error is that of a failed allocation, and the copy
  is an empty key, but for a NULL branch, where the numbers copied so far stay.
\<close>

theorem SipTxnKey_Init_copy:
  "SipTxnKey_Init (Some k) err =
    (if complete_key k then (k, err)
     else if m_pszViaBranchParam k = None then
       (SipTxnKey_new\<lparr>m_nRSeqNum := m_nRSeqNum k, m_eMsgType := m_eMsgType k,
          m_nRespCode := m_nRespCode k, key_eTxnType := key_eTxnType k, m_nRules := m_nRules k\<rparr>,
        E_ERR_PF_MALLOCFAILED)
     else (SipTxnKey_new, E_ERR_PF_MALLOCFAILED))"
  by (auto simp: SipTxnKey_Init_def complete_key_def SipTxnKey_new_def)

section \<open>The table of transactions\<close>

text \<open>C34:
  The table, hashed by Call-ID, behaves as one list of entries: a search gives the first entry
  whose key matches, a removal takes out exactly that entry, an insertion puts in one entry and
  keeps the others in their order, and the count is the length of the list.
\<close>

theorem table_refines_list:
  assumes "db_inv m"
  shows "SipStackState_FindTransaction k m = find (SipStackTransaction_CompareKey k) (db_entries m) \<and>
    SipStackState_RemoveTransaction k TXN_REMOVE m =
      (find (SipStackTransaction_CompareKey k) (db_entries m),
       snd (SipStackState_RemoveTransaction k TXN_REMOVE m)) \<and>
    db_entries (snd (SipStackState_RemoveTransaction k TXN_REMOVE m)) =
      remove_first (SipStackTransaction_CompareKey k) (db_entries m) \<and>
    db_inv (snd (SipStackState_RemoveTransaction k TXN_REMOVE m)) \<and>
    (\<exists>xs ys. db_entries m = xs @ ys \<and>
       db_entries (snd (SipStackState_AddTransaction k i m)) = xs @ (k, i) # ys) \<and>
    db_inv (snd (SipStackState_AddTransaction k i m)) \<and>
    SipStackState_GetTransactionCount m = length (db_entries m)"
  using FindTransaction_entries [OF assms] RemoveTransaction_entries [OF assms]
    AddTransaction_entries [OF assms] RemoveTransaction_found [of k TXN_REMOVE m]
  by (auto simp: prod_eq_iff SipStackState_GetTransactionCount_def db_entries_def length_concat comp_def)

text \<open>Two dialogs of the same caller and a third one, to search in.\<close>

definition ex_key :: "string \<Rightarrow> string \<Rightarrow> SipTxnKey" where
  "ex_key cid branch = SipTxnKey_new\<lparr>m_eMsgType := REQ_TYPE, m_pszViaBranchParam := Some branch,
     m_pszViaHost := Some ''h'', m_pszMethod := Some ''INVITE'', m_nCseqNum := 1,
     m_pszFromTag := Some ''a'', m_pszCallId := Some cid, key_eTxnType := INVITE_CLIENT\<rparr>"

lemma ex_key_complete: "complete_key (ex_key cid branch)"
  by (simp add: complete_key_def ex_key_def)

lemma ex_key_match:
  "CompareKeys (ex_key c b) (ex_key c' b') \<longleftrightarrow> c = c' \<and> map SIP_TOLOWER b = map SIP_TOLOWER b'"
  by (auto simp: CompareKeys_def ex_key_def SipTxnKey_new_def sip_str HasRule_def rule_defs SipPf_Stricmp_0)

theorem table_refines_list_witness:
  "let m = snd (SipStackState_AddTransaction (ex_key ''c1'' ''b1'') 0 [])
   in SipStackState_FindTransaction (ex_key ''c1'' ''b1'') m = Some (ex_key ''c1'' ''b1'', 0) \<and>
      SipStackState_FindTransaction (ex_key ''c2'' ''b1'') m = None"
proof -
  let ?m = "snd (SipStackState_AddTransaction (ex_key ''c1'' ''b1'') 0 [])"
  have i: "db_inv ?m" and e: "db_entries ?m = [(ex_key ''c1'' ''b1'', 0)]"
    using txn_db.invar_add [of "[]" "(ex_key ''c1'' ''b1'', 0)"] AddTransaction_entries [of "[]"]
    by (auto simp: Cons_eq_append_conv)
  show ?thesis
    using table_refines_list [OF i] by (simp add: Let_def e SipStackTransaction_CompareKey_def ex_key_match)
qed

text \<open>
  A transaction that has just been entered is found by every message key that its key matches,
  unless an older entry matches it; every other key finds what it found before; and removing it
  again leaves the entries that were there before.
\<close>

theorem added_transaction:
  assumes "db_inv m" and "SipStackState_FindTransaction g m = None" and "CompareKeys k g"
    and "\<not> CompareKeys k g'"
  shows "SipStackState_FindTransaction g (snd (SipStackState_AddTransaction k i m)) = Some (k, i) \<and>
    SipStackState_FindTransaction g' (snd (SipStackState_AddTransaction k i m))
      = SipStackState_FindTransaction g' m \<and>
    db_entries (snd (SipStackState_RemoveTransaction g TXN_REMOVE
      (snd (SipStackState_AddTransaction k i m)))) = db_entries m"
  using txn_db.find_after_add [of m g "(k, i)"] txn_db.find_add_other [of m g' "(k, i)"]
    txn_db.remove_after_add [of m g "(k, i)"] assms
  by (simp add: SipStackTransaction_CompareKey_def)

theorem added_transaction_witness:
  "let m = snd (SipStackState_AddTransaction (ex_key ''c1'' ''b1'') 0 []);
       m' = snd (SipStackState_AddTransaction (ex_key ''c1'' ''b2'') 1 m)
   in SipStackState_FindTransaction (ex_key ''c1'' ''B2'') m' = Some (ex_key ''c1'' ''b2'', 1) \<and>
      SipStackState_FindTransaction (ex_key ''c1'' ''b1'') m' = Some (ex_key ''c1'' ''b1'', 0)"
proof -
  let ?m = "snd (SipStackState_AddTransaction (ex_key ''c1'' ''b1'') 0 [])"
  have i: "db_inv ?m" and e: "db_entries ?m = [(ex_key ''c1'' ''b1'', 0)]"
    using txn_db.invar_add [of "[]" "(ex_key ''c1'' ''b1'', 0)"] AddTransaction_entries [of "[]"]
    by (auto simp: Cons_eq_append_conv)
  have l: "SIP_TOLOWER (CHR ''B'') = CHR ''b''" "SIP_TOLOWER (CHR ''b'') = CHR ''b''"
    "SIP_TOLOWER (CHR ''1'') = CHR ''1''" "SIP_TOLOWER (CHR ''2'') = CHR ''2''" by code_simp+
  have n: "SipStackState_FindTransaction (ex_key ''c1'' ''B2'') ?m = None"
    and y: "SipStackState_FindTransaction (ex_key ''c1'' ''b1'') ?m = Some (ex_key ''c1'' ''b1'', 0)"
    by (simp_all add: FindTransaction_entries i e SipStackTransaction_CompareKey_def ex_key_match l)
  have c: "CompareKeys (ex_key ''c1'' ''b2'') (ex_key ''c1'' ''B2'')"
    "\<not> CompareKeys (ex_key ''c1'' ''b2'') (ex_key ''c1'' ''b1'')"
    by (simp_all add: ex_key_match l)
  show ?thesis using added_transaction [OF i n c, of 1] by (simp add: Let_def y)
qed

section \<open>Keys of reliable provisional responses\<close>

lemma SearchTxnKey_loop_found:
  "first_match (\<lambda>k. CompareKeysForRPR k g) (drop (unat n) (take (2 ^ 16) ks)) = Some p \<Longrightarrow>
     SearchTxnKey_loop g ks n = Some (Some (unat n + p))"
proof (induction p arbitrary: n)
  case 0
  let ?P = "\<lambda>k. CompareKeysForRPR k g" and ?ks = "take (2 ^ 16) ks"
  have lt: "unat n < length ?ks" using first_match_SomeD [OF 0] by simp
  moreover have "?P (drop (unat n) ?ks ! 0)" using first_match_SomeD [OF 0] by blast
  then have "?P (ks ! unat n)" using lt by simp
  ultimately show ?case by (subst SearchTxnKey_loop.simps) simp
next
  case (Suc p)
  let ?P = "\<lambda>k. CompareKeysForRPR k g" and ?ks = "take (2 ^ 16) ks"
  have lt: "unat n + Suc p < length ?ks" and "\<not> ?P (drop (unat n) ?ks ! 0)"
    using first_match_SomeD [OF Suc.prems] by auto
  then have np: "\<not> ?P (ks ! unat n)" by simp
  have "unat n + 1 < 2 ^ 16" using lt by simp
  then have s: "unat (n + 1) = Suc (unat n)" by (simp add: unat_plus_no_overflow)
  have "drop (unat n) ?ks = (?ks ! unat n) # drop (Suc (unat n)) ?ks"
    using lt by (subst Cons_nth_drop_Suc) simp_all
  then have "first_match ?P (drop (unat (n + 1)) ?ks) = Some p"
    using Suc.prems np lt s by (auto split: if_splits)
  from Suc.IH [OF this] show ?case
    using lt np s by (subst SearchTxnKey_loop.simps) simp
qed

lemma SearchTxnKey_loop_none:
  "(\<forall>k\<in>set (take (2 ^ 16) ks). \<not> CompareKeysForRPR k g) \<Longrightarrow> 2 ^ 16 \<le> length ks \<Longrightarrow>
     SearchTxnKey_loop g ks n = None"
proof -
  assume a: "\<forall>k\<in>set (take (2 ^ 16) ks). \<not> CompareKeysForRPR k g" "2 ^ 16 \<le> length ks"
  have lt: "unat m < 2 ^ 16" for m :: SIP_UINT16
    using unsigned_less [of m, where 'a = nat] by simp
  have no: "\<not> CompareKeysForRPR (ks ! unat m) g" for m :: SIP_UINT16
  proof -
    have "take (2 ^ 16) ks ! unat m \<in> set (take (2 ^ 16) ks)"
      using lt [of m] a(2) by (intro nth_mem) simp
    then show ?thesis using a(1) lt [of m] by auto
  qed
  have "SearchTxnKey_loop g' ks' n = Some y \<Longrightarrow> g' = g \<Longrightarrow> ks' = ks \<Longrightarrow> False" for g' ks' y
  proof (induction rule: SearchTxnKey_loop.raw_induct [rotated, consumes 1])
    case (1 SearchTxnKey_loop g' ks' n y)
    then show ?case using no [of n] lt [of n] a(2) by simp
  qed
  then show ?thesis by (cases "SearchTxnKey_loop g ks n") blast+
qed

text \<open>
  The search of the list counts its position in 16 bits. It returns the position of the first
  key that matches when one is among the first 65536, and that no key matches when the list is
  shorter; on a longer list without a match among the first 65536 it never returns.
\<close>

theorem SearchTxnKey_returns:
  "SearchTxnKey_loop g ks 0 =
    (case first_match (\<lambda>k. CompareKeysForRPR k g) (take (2 ^ 16) ks) of
       Some n \<Rightarrow> Some (Some n)
     | None \<Rightarrow> if length ks < 2 ^ 16 then Some None else None)"
proof (cases "first_match (\<lambda>k. CompareKeysForRPR k g) (take (2 ^ 16) ks)")
  case (Some n)
  then show ?thesis using SearchTxnKey_loop_found [of g 0 ks n] by simp
next
  case None
  then have no: "\<forall>k\<in>set (take (2 ^ 16) ks). \<not> CompareKeysForRPR k g" by (simp add: first_match_None)
  show ?thesis
  proof (cases "length ks < 2 ^ 16")
    case True
    then show ?thesis using None SearchTxnKey_loop_below [OF True, of 0 g] by simp
  next
    case False
    then show ?thesis using None SearchTxnKey_loop_none [OF no, of 0] by simp
  qed
qed

text \<open>
  Deleting by a key takes out of the list the INVITE keys of the same Call-ID and From tag, with
  the same To tag if that is asked for and both are there, all of them and nothing else, and
  keeps the others in their order.
\<close>

theorem DeleteTxnKey_same_dialog:
  "snd (DeleteTxnKey (Some g) bCheckToTag ks) =
    filter (\<lambda>k. if m_pszMethod k = METHOD_NAME_INVITE \<and> m_pszCallId k = m_pszCallId g \<and> m_pszCallId k \<noteq> None
                   \<and> SipPf_Stricmp (m_pszFromTag k) (m_pszFromTag g) = 0
                then bCheckToTag \<and> m_pszToTag k \<noteq> None \<and> m_pszToTag g \<noteq> None
                     \<and> SipPf_Stricmp (m_pszToTag k) (m_pszToTag g) \<noteq> 0
                else True) ks"
  unfolding DeleteTxnKey_filter
  by (rule filter_cong [OF refl]) (auto simp: IsTxnKeyMatched_def CompareKeysForRPR_def SipPf_Strcmp_0)

section \<open>Timer values\<close>

text \<open>
  \<open>UpdateSipTimers\<close> takes from its source exactly the timers whose bit is set in the options
  and leaves the others; without a source, or without any known bit, it fails and changes
  nothing.
\<close>

theorem UpdateSipTimers_selective:
  "fst (UpdateSipTimers opts src v) = (src \<noteq> None \<and> opts AND TV_ALL \<noteq> 0) \<and>
   GetTimerValue (snd (UpdateSipTimers opts src v)) ty =
     (case src of None \<Rightarrow> GetTimerValue v ty
      | Some s \<Rightarrow> if opts AND timer_bit ty \<noteq> 0 then GetTimerValue s ty else GetTimerValue v ty)"
proof (cases src)
  case (Some s)
  have "timer_bit ty = TV_ALL AND timer_bit ty" by (cases ty) (simp_all add: TV_ALL_def)
  then have b: "opts AND TV_ALL = 0 \<Longrightarrow> opts AND timer_bit ty = 0"
    by (metis and.assoc and_zero_eq zero_and_eq)
  show ?thesis
  proof (cases "opts AND TV_ALL = 0")
    case True
    then show ?thesis using b by (simp add: Some UpdateSipTimers_def IsTimerSet_def)
  next
    case False
    then show ?thesis
      using UpdateSipTimers_get [of opts s v ty] by (simp add: Some IsTimerSet_def) (simp add: UpdateSipTimers_def IsTimerSet_def)
  qed
qed (simp add: UpdateSipTimers_def)

end
