(* ===== verification/SipMatching.thy ===== *)
theory SipMatching
  imports SipExample
begin

text \<open>
  Which transaction a message finds (\<open>SipTxnKey::CompareKeys\<close>): a response finds the request it
  answers and an ACK the INVITE it belongs to, and where the two comparisons of method names
  disagree.
\<close>

section \<open>A response finds its request\<close>

text \<open>A response as RFC 3261, section 8.2.6, builds it from a request.\<close>

definition answers :: "SipMessage \<Rightarrow> SipMessage \<Rightarrow> bool" where
  "answers resp req \<longleftrightarrow>
     m_eSipMsgType resp = RESP_TYPE \<and> m_pStatusLine resp \<noteq> None \<and>
     hdr_via resp = hdr_via req \<and> hdr_from resp = hdr_from req \<and> hdr_cseq resp = hdr_cseq req \<and>
     hdr_call_id resp = hdr_call_id req \<and>
     (\<exists>t s. hdr_to req = Some t \<and> hdr_to resp = Some s \<and> (na_tag t = None \<or> na_tag s = na_tag t))"

text \<open>C7:
  A response built from a request finds the client transaction of that request, whatever To tag
  it adds, provided that the method of the CSeq is the one of the request line.
\<close>

theorem response_matches_request:
  assumes m: "CheckTxnMandatoryParams req = Some (REQ_TYPE, me)" and a: "answers resp req"
    and k: "complete_key (msg_key ty req)"
    and c: "map_option cseq_method (hdr_cseq req) = map_option rl_method (m_pReqLine req)"
  shows "CompareKeys (msg_key ty req) (msg_key ty resp)"
proof -
  from m obtain via c' t frm cid where f: "hdr_via req = Some via" "hdr_cseq req = Some c'"
    "hdr_to req = Some t" "hdr_from req = Some frm" "hdr_call_id req = Some cid"
    by (rule SipTxnKey_of_msg_mandatory)
  have ty: "m_eSipMsgType req = REQ_TYPE" using m by (simp add: CheckTxnMandatoryParams_Some)
  obtain rl where rl: "m_pReqLine req = Some rl" "cseq_method c' = rl_method rl"
    using m c f by (auto simp: CheckTxnMandatoryParams_Some)
  obtain s where s: "hdr_to resp = Some s" "na_tag t = None \<or> na_tag s = na_tag t"
    using a f by (auto simp: answers_def)
  show ?thesis
    using k a s f rl ty
    by (cases "hdr_rseq req"; cases "hdr_rseq resp")
       (auto simp: answers_def msg_key_def SetTxnType_def SipTxnKey_of_msg_def SipTxnKey_new_def SetRSeq_def
        CompareKeys_def complete_key_def sip_str HasRule_def rule_defs Let_def)
qed

theorem response_matches_request_witness:
  "CompareKeys (msg_key INVITE_CLIENT ex_invite)
     (msg_key INVITE_CLIENT (ex_response ''INVITE'' ''180''))"
proof -
  have a: "answers (ex_response ''INVITE'' ''180'') ex_invite" by (simp add: answers_def ex_defs)
  have k: "complete_key (msg_key INVITE_CLIENT ex_invite)"
    by (simp add: msg_key_def ex_invite_def ex_request_key complete_key_def SetTxnType_def)
  have c: "map_option cseq_method (hdr_cseq ex_invite) = map_option rl_method (m_pReqLine ex_invite)"
    by (simp add: ex_defs)
  show ?thesis by (rule response_matches_request [OF ex_invite_params a k c])
qed

section \<open>An ACK finds its INVITE\<close>

text \<open>The method type of a request in terms of its name in lower case.\<close>

definition lower_methods :: "(string \<times> sip_method) list" where
  "lower_methods =
     [(''invite'', METHOD_INVITE), (''ack'', METHOD_ACK), (''options'', METHOD_OPTIONS),
      (''bye'', METHOD_BYE), (''cancel'', METHOD_CANCEL), (''register'', METHOD_REGISTER),
      (''info'', METHOD_INFO), (''prack'', METHOD_PRACK), (''subscribe'', METHOD_SUBSCRIBE),
      (''notify'', METHOD_NOTIFY), (''update'', METHOD_UPDATE), (''message'', METHOD_MESSAGE),
      (''refer'', METHOD_REFER), (''publish'', METHOD_PUBLISH)]"

lemma lower_methods_eq: "map (\<lambda>p. (map SIP_TOLOWER (fst p), snd p)) SipMethodArray = lower_methods"
  by code_simp

lemma find_map_fst:
  "(case find (\<lambda>p. x = g (fst p)) xs of None \<Rightarrow> d | Some p \<Rightarrow> snd p) =
   (case find (\<lambda>p. x = fst p) (map (\<lambda>p. (g (fst p), snd p)) xs) of None \<Rightarrow> d | Some p \<Rightarrow> snd p)"
  by (induction xs) auto

lemma GetMethodType_request:
  assumes "m_eSipMsgType m = REQ_TYPE" and "m_pReqLine m = Some rl" and "rl_method rl = Some name"
  shows "SipMessage_GetMethodType m =
    (case find (\<lambda>p. map SIP_TOLOWER name = fst p) lower_methods of
       None \<Rightarrow> METHOD_UNKNOWN | Some p \<Rightarrow> snd p)"
  unfolding lower_methods_eq [symmetric] find_map_fst [symmetric]
  using assms
  by (simp add: SipMessage_GetMethodType_def SipMessage_GetMethod_def SipPf_Stricmp_0 case_prod_unfold
      split: option.split)

lemma GetMethodType_INVITE_ACK:
  assumes "m_eSipMsgType m = REQ_TYPE" and "m_pReqLine m = Some rl" and "rl_method rl = Some name"
  shows "SipMessage_GetMethodType m = METHOD_INVITE \<longleftrightarrow> map SIP_TOLOWER name = ''invite''"
    and "SipMessage_GetMethodType m = METHOD_ACK \<longleftrightarrow> map SIP_TOLOWER name = ''ack''"
  by (simp_all add: GetMethodType_request [OF assms] lower_methods_def)

lemma lower_names [simp]:
  "map SIP_TOLOWER ''CANCEL'' = ''cancel''" "map SIP_TOLOWER ''INVITE'' = ''invite''"
  "map SIP_TOLOWER ''ACK'' = ''ack''" "map SIP_TOLOWER ''invite'' = ''invite''"
  by code_simp+

lemma METHOD_INVITE_not_CANCEL:
  assumes "CheckTxnMandatoryParams m = Some (REQ_TYPE, METHOD_INVITE)" and "m_pReqLine m = Some rl"
  shows "rl_method rl \<noteq> METHOD_NAME_CANCEL"
proof
  assume c: "rl_method rl = METHOD_NAME_CANCEL"
  have "m_eSipMsgType m = REQ_TYPE" "SipMessage_GetMethodType m = METHOD_INVITE"
    using assms(1) by (auto simp: CheckTxnMandatoryParams_Some)
  with GetMethodType_INVITE_ACK(1) [OF _ assms(2) c] show False by (simp del: list.map)
qed

text \<open>C8:
  The ACK that a client transaction builds for a failure response finds the INVITE server
  transaction of that INVITE at the other end, also after the response code and the To tag of
  the response have been written into the stored key.
\<close>

theorem ack_matches_invite:
  assumes m: "CheckTxnMandatoryParams req = Some (REQ_TYPE, METHOD_INVITE)"
    and k: "complete_key (msg_key INVITE_SERVER req)" and a: "answers resp req"
    and s: "hdr_to resp = Some s"
    and st: "k' \<in> {msg_key INVITE_SERVER req, SetResponseCode n (msg_key INVITE_SERVER req),
                  SetToTag (na_tag s) (SetResponseCode n (msg_key INVITE_SERVER req))}"
  shows "CompareKeys k' (msg_key INVITE_SERVER (PrepareACK b req resp))"
proof -
  obtain via c' t frm cid where f: "hdr_via req = Some via" "hdr_cseq req = Some c'"
    "hdr_to req = Some t" "hdr_from req = Some frm" "hdr_call_id req = Some cid"
    and ky: "\<And>err. SipTxnKey_of_msg req err = (\<lparr> m_nRSeqNum = (case hdr_rseq req of None \<Rightarrow> 0 | Some n \<Rightarrow> n),
         m_eMsgType = REQ_TYPE,
         m_pszViaBranchParam = via_branch via, m_pszViaHost = via_host via,
         m_nViaHostPort = via_port via,
         m_pszMethod = (if REQ_TYPE = REQ_TYPE
           then (case m_pReqLine req of None \<Rightarrow> None | Some rl \<Rightarrow> rl_method rl) else cseq_method c'),
         m_nCseqNum = cseq_num c',
         m_pRequestUri = (if REQ_TYPE = REQ_TYPE then map_option rl_uri (m_pReqLine req) else None),
         m_pszToTag = na_tag t, m_pszFromTag = na_tag frm, m_pszCallId = cid,
         m_nRespCode = (if REQ_TYPE = REQ_TYPE then 0 else SipMessage_GetStatusCode req),
         key_eTxnType = INVALID, m_nRules = RULE_COMPARE_TO_TAG OR RULE_COMPARE_VIA_BRANCH \<rparr>, err)"
    by (rule SipTxnKey_of_msg_mandatory [OF m]) (rule that)
  obtain rl where rl: "m_pReqLine req = Some rl" using m by (auto simp: CheckTxnMandatoryParams_Some)
  have n: "rl_method rl \<noteq> METHOD_NAME_CANCEL" by (rule METHOD_INVITE_not_CANCEL [OF m rl])
  have t: "hdr_from resp = Some frm" "na_tag t = None \<or> na_tag s = na_tag t"
    using a f s by (auto simp: answers_def)
  have g: "msg_key INVITE_SERVER (PrepareACK b req resp) = SipTxnKey_new
     \<lparr>m_eMsgType := REQ_TYPE, m_pszViaBranchParam := via_branch via, m_pszViaHost := via_host via,
      m_nViaHostPort := via_port via, m_pszMethod := METHOD_NAME_ACK, m_nCseqNum := cseq_num c',
      m_pRequestUri := Some (rl_uri rl), m_pszToTag := na_tag s, m_pszFromTag := na_tag frm,
      m_pszCallId := cid, key_eTxnType := INVITE_SERVER\<rparr>"
    using f rl s t(1)
    by (simp add: msg_key_def SetTxnType_def SipTxnKey_of_msg_def PrepareACK_def SipMessage_new_def
                  SipTxnKey_new_def Let_def)
  have k': "m_pszViaBranchParam k' = via_branch via" "m_nCseqNum k' = cseq_num c'"
    "m_pszMethod k' = rl_method rl" "m_pszFromTag k' = na_tag frm" "m_pszCallId k' = cid"
    "key_eTxnType k' = INVITE_SERVER" "m_pszToTag k' \<in> {na_tag t, na_tag s}"
    using st by (auto simp: msg_key_def SetTxnType_def ky rl SetResponseCode_def SetToTag_def)
  have c: "via_branch via \<noteq> None" "na_tag frm \<noteq> None" "cid \<noteq> None"
    using k by (simp_all add: msg_key_def SetTxnType_def ky complete_key_def)
  show ?thesis
    using c n t(2) k' unfolding g
    by (auto simp: CompareKeys_def SipTxnKey_new_def sip_str)
qed

theorem ack_matches_invite_witness:
  "CompareKeys (SetToTag (Some ''b1'') (SetResponseCode 486 (msg_key INVITE_SERVER ex_invite)))
     (msg_key INVITE_SERVER (PrepareACK False ex_invite (ex_response ''INVITE'' ''486'')))"
proof -
  let ?r = "ex_response ''INVITE'' ''486''"
  have a: "answers ?r ex_invite" by (simp add: answers_def ex_defs)
  have k: "complete_key (msg_key INVITE_SERVER ex_invite)"
    by (simp add: msg_key_def ex_invite_def ex_request_key complete_key_def SetTxnType_def)
  have s: "hdr_to ?r = Some \<lparr> na_addr = ''sip:bob@home'', na_tag = Some ''b1'' \<rparr>"
    by (simp add: ex_defs)
  show ?thesis
    using ack_matches_invite [OF ex_invite_params k a s, of _ 486 False] by simp
qed

text \<open>
The ACK of a 2xx response is a request of its own with a fresh branch. For keys that agree in
  everything but the branch, an ACK finds the INVITE server transaction if and only if the
  response code stored in the transaction's key is a 2xx.
\<close>

theorem ack_with_own_branch:
  assumes "complete_key k" and "key_eTxnType k = INVITE_SERVER" and "m_pszMethod k = METHOD_NAME_INVITE"
    and "HasRule k RULE_COMPARE_VIA_BRANCH" and "\<not> HasRule k RULE_COMPARE_RSEQ"
    and "SipPf_Stricmp (m_pszViaBranchParam k) branch \<noteq> 0"
  shows "CompareKeys k (k\<lparr>m_pszMethod := METHOD_NAME_ACK, m_pszViaBranchParam := branch\<rparr>)
     \<longleftrightarrow> IsSuccessfulResponse (m_nRespCode k)"
  using assms by (auto simp: CompareKeys_def complete_key_def sip_str HasRule_def)

theorem ack_with_own_branch_witness:
  "let k = SetResponseCode 200 (msg_key INVITE_SERVER ex_invite)
   in CompareKeys k (k\<lparr>m_pszMethod := METHOD_NAME_ACK, m_pszViaBranchParam := Some ''z9hG4bK8''\<rparr>)"
  using ack_with_own_branch [of "SetResponseCode 200 (msg_key INVITE_SERVER ex_invite)" "Some ''z9hG4bK8''"]
  by (simp add: msg_key_def ex_invite_def ex_request_key complete_key_def SetTxnType_def
      SetResponseCode_def SipTxnKey_new_def HasRule_def rule_defs SipPf_Stricmp_0 SIP_TOLOWER_def
      IsSuccessfulResponse_def Let_def)

section \<open>Directions and method names\<close>

text \<open>The two ends of a transaction agree on its type.\<close>

definition peer_type :: "sip_txn_type \<Rightarrow> sip_txn_type" where
  "peer_type ty =
     (case ty of INVITE_CLIENT \<Rightarrow> INVITE_SERVER | INVITE_SERVER \<Rightarrow> INVITE_CLIENT
      | NON_INVITE_CLIENT \<Rightarrow> NON_INVITE_SERVER | NON_INVITE_SERVER \<Rightarrow> NON_INVITE_CLIENT
      | INVALID \<Rightarrow> INVALID)"

lemma GetTxnType_peer:
  "GetTxnType RECV me ty = peer_type (GetTxnType SEND me ty)"
  by (simp add: GetTxnType_def peer_type_def)

text \<open>
  The transport handler and the transaction handler classify the same received request twice, the
  first by comparing the method name exactly, the second up to letter case. They disagree on
  nothing but names that are INVITE or ACK in another letter case: such a request is looked up as
  a non-INVITE transaction and processed as an INVITE.
\<close>

theorem recv_classification:
  assumes m: "CheckTxnMandatoryParams m = Some (REQ_TYPE, me)"
    and n: "m_pszMethod (fst (SipTxnKey_of_msg m 0)) = Some name"
  shows "recv_txn_type (fst (SipTxnKey_of_msg m 0)) = GetTxnType RECV me REQ_TYPE \<longleftrightarrow>
     (map SIP_TOLOWER name = ''invite'' \<longrightarrow> name = ''INVITE'') \<and>
     (map SIP_TOLOWER name = ''ack'' \<longrightarrow> name = ''ACK'')"
proof -
  obtain rl where rl: "m_eSipMsgType m = REQ_TYPE" "m_pReqLine m = Some rl"
    and me: "me = SipMessage_GetMethodType m" "me \<noteq> METHOD_INVALID"
    using m by (auto simp: CheckTxnMandatoryParams_Some)
  have "rl_method rl = Some name" using m n rl(2) by (auto elim: SipTxnKey_of_msg_mandatory)
  note g = GetMethodType_INVITE_ACK [OF rl this, folded me(1)]
  have ty: "m_eMsgType (fst (SipTxnKey_of_msg m 0)) = REQ_TYPE" by (rule SipTxnKey_of_msg_type [OF m])
  show ?thesis
    using me(2) by (auto simp: recv_txn_type_def GetTxnType_def ty n g SipPf_Strcmp_0 simp del: list.map)
qed

theorem recv_classification_witness:
  "recv_txn_type (fst (SipTxnKey_of_msg (ex_request ''invite'') 0)) \<noteq> GetTxnType RECV METHOD_INVITE REQ_TYPE"
proof -
  have m: "CheckTxnMandatoryParams (ex_request ''invite'') = Some (REQ_TYPE, METHOD_INVITE)" by code_simp
  show ?thesis
    using recv_classification [OF m, of "''invite''"]
    by (simp add: ex_request_key del: list.map)
qed

end
