(* ===== verification/SipServerCalls.thy ===== *)
theory SipServerCalls
  imports SipClientCalls SipMatching
begin

text \<open>
  INVITE server transactions from the stack manager's entry points: a new INVITE, its
  retransmissions, the responses and the ACK.
\<close>

section \<open>Receiving a request\<close>

text \<open>An INVITE or ACK request with its exact name, and the event it is for the machine.\<close>

definition invite_request :: "SipMessage \<Rightarrow> bool" where
  "invite_request m \<longleftrightarrow> CheckTxnMandatoryParams m = Some (REQ_TYPE, METHOD_INVITE) \<and>
     m_pszMethod (fst (SipTxnKey_of_msg m 0)) = METHOD_NAME_INVITE"

definition ack_request :: "SipMessage \<Rightarrow> bool" where
  "ack_request m \<longleftrightarrow> CheckTxnMandatoryParams m = Some (REQ_TYPE, METHOD_ACK) \<and>
     m_pszMethod (fst (SipTxnKey_of_msg m 0)) = METHOD_NAME_ACK"

lemma OnRecvTransp_request:
  assumes m: "invite_request m \<or> ack_request m" and w: "working u"
  shows "OnRecvTransp m u =
    (Some (case SipStackState_FindTransaction (msg_key INVITE_SERVER m) (m_objTxnAggregate u) of
             None \<Rightarrow> (STATUS_NEW_REQ_RECVD, False, msg_key INVITE_SERVER m)
           | Some _ \<Rightarrow> (STATUS_VALID_MESSAGE, True, msg_key INVITE_SERVER m)), u)"
proof -
  obtain me where c: "CheckTxnMandatoryParams m = Some (REQ_TYPE, me)"
    and n: "m_pszMethod (fst (SipTxnKey_of_msg m 0)) \<in> {METHOD_NAME_INVITE, METHOD_NAME_ACK}"
    using m by (auto simp: invite_request_def ack_request_def)
  have ty: "recv_txn_type (fst (SipTxnKey_of_msg m 0)) = INVITE_SERVER"
    using SipTxnKey_of_msg_type [OF c, of 0] n by (auto simp: recv_txn_type_def sip_str)
  have e: "m_pnError u = 0" "env_callback (m_env u)" using w by (simp_all add: working_def)
  show ?thesis
    using e msg_key_type [OF c, of INVITE_SERVER]
    by (simp add: OnRecvTransp_def GetTxnKeyFromSipMsg_def c new_key_of_msg_ok [OF c]
        EERR_MALLOCFAILED_def ty msg_key_def [symmetric] GetTxnObjFromDb_def FetchTransaction_fetch
        split: option.split)
qed

text \<open>The key the caller gets back: an ACK takes over the response code of the transaction.\<close>

definition recv_key :: "nat \<Rightarrow> SipMessage \<Rightarrow> SipStack \<Rightarrow> SipTxnKey" where
  "recv_key i m u =
     (if SipMessage_GetMethodType m = METHOD_INVITE then msg_key INVITE_SERVER m
      else case m_pTxnKey (txn i u) of None \<Rightarrow> msg_key INVITE_SERVER m
        | Some k \<Rightarrow> SetResponseCode (m_nRespCode k) (msg_key INVITE_SERVER m))"

lemma OnRecvTxn_known_request:
  assumes m: "invite_request m \<or> ack_request m" and w: "working u"
    and f: "SipStackState_FindTransaction (msg_key INVITE_SERVER m) (m_objTxnAggregate u) = Some (e, i)"
    and ev: "ev = (if invite_request m then INV_SER_RECV_INV_REQ_EVT else INV_SER_RECV_ACK_REQ_EVT)"
    and r: "InvokeFsm_message i (EVT_INV_SER ev) (SipTxnFsmData_new m None (Some ud)) (Increment i u)
      = (True, d, v)"
  shows "OnRecvTxn m (msg_key INVITE_SERVER m) (Some ud) u = (True, recv_key i m u,
     \<lparr> ti_pSendSipMsg = m_pSendSipMsg d, ti_pUserData = m_pOutUserData d,
       ti_pTranspInfo = (if m_eTxnStatus d = STATUS_RETRANSMISSION then fd_pTranspInfo d else None),
       ti_eTxnStatus = m_eTxnStatus d, ti_bTxnTerminated = m_bTxnTerminated d,
       ti_bTxnCreated = m_bTxnCreated d \<rparr>, SipDelete i v)"
proof -
  obtain me where c: "CheckTxnMandatoryParams m = Some (REQ_TYPE, me)" "me \<in> {METHOD_INVITE, METHOD_ACK}"
    and iv: "invite_request m \<longleftrightarrow> me = METHOD_INVITE"
    using m by (auto simp: invite_request_def ack_request_def)
  have me: "SipMessage_GetMethodType m = me" using c(1) by (auto simp: CheckTxnMandatoryParams_Some)
  have e: "env_callback (m_env u)" using w by (simp add: working_def)
  have v: "ValidateRecvTxn m = Some INVITE_SERVER" using c by (auto simp: ValidateRecvTxn_def GetTxnType_def)
  have k: "SetTxnType INVITE_SERVER (msg_key INVITE_SERVER m) = msg_key INVITE_SERVER m"
    by (simp add: msg_key_def SetTxnType_def)
  have d: "m_pSipMsgIn (SipTxnFsmData_new m None (Some ud)) = m" by (simp add: SipTxnFsmData_new_def)
  have h: "HandleServerTxnRecv INVITE_SERVER (msg_key INVITE_SERVER m) (SipTxnFsmData_new m None (Some ud)) u
      = (True, recv_key i m u, d, SipDelete i v)"
    using e f ev r c(2)
    by (auto simp: HandleServerTxnRecv_def GetTxnObjFromDb_def FetchTransaction_fetch d me iv
        recv_key_def txn_Increment split: option.split)
  show ?thesis by (simp add: OnRecvTxn_def v k h SipTxnInfo_new_def Let_def)
qed

text \<open>An INVITE server transaction in the table, found by \<open>k\<close> and by its own key.\<close>

definition server_in_table :: "nat \<Rightarrow> inv_ser_state \<Rightarrow> SipTxnKey \<Rightarrow> SipStack \<Rightarrow> bool" where
  "server_in_table i st k u \<longleftrightarrow>
     m_eTxnType (txn i u) = INVITE_SERVER \<and> m_nTxnState (txn i u) = INV_SER st \<and>
     (\<exists>e. SipStackState_FindTransaction k (m_objTxnAggregate u) = Some (e, i)) \<and>
     (\<exists>k' e. m_pTxnKey (txn i u) = Some k' \<and> complete_key k' \<and> m_pszMethod k' \<noteq> METHOD_NAME_ACK \<and>
        SipStackState_FindTransaction k' (m_objTxnAggregate u) = Some (e, i)) \<and>
     m_pUserData (txn i u) \<noteq> None \<and> 0 < m_nRefCount (txn i u)"


section \<open>Receiving the ACK\<close>

lemma ack_not_invite: "ack_request m \<Longrightarrow> \<not> invite_request m"
  by (auto simp: ack_request_def invite_request_def)

lemma ack_method: "ack_request m \<Longrightarrow> SipMessage_GetMethodType m = METHOD_ACK"
  by (auto simp: ack_request_def CheckTxnMandatoryParams_Some)

lemma ack_type: "ack_request m \<Longrightarrow> m_eSipMsgType m = REQ_TYPE"
  by (auto simp: ack_request_def CheckTxnMandatoryParams_Some)

text \<open>C6:
  After a 2xx, the first ACK is handed to the TU as valid and every further one as a
  retransmission; both come with the key that still finds the transaction, and neither sends
  anything, moves the transaction or touches a timer.
\<close>

theorem ack_of_2xx:
  assumes m: "ack_request m" and w: "working u"
    and c: "server_in_table i INV_SER_ACCEPTED_ST (msg_key INVITE_SERVER m) u"
  shows "\<exists>ud'. OnRecvMessage m (Some p) ud u =
    (True, if m_bAckReceived (txn i u) then STATUS_ACK_RETRANSMISSION else STATUS_VALID_MESSAGE,
     Some (recv_key i m u), ud', SetAckReceived i True u)"
proof -
  let ?k = "msg_key INVITE_SERVER m" and ?d = "SipTxnFsmData_new m None (Some ud)"
  obtain e where f: "SipStackState_FindTransaction ?k (m_objTxnAggregate u) = Some (e, i)"
    and t: "m_eTxnType (txn i u) = INVITE_SERVER" "m_nTxnState (txn i u) = INV_SER INV_SER_ACCEPTED_ST"
    and rc: "0 < m_nRefCount (txn i u)"
    using c unfolding server_in_table_def by blast
  let ?s = "if m_bAckReceived (txn i u) then STATUS_ACK_RETRANSMISSION else STATUS_VALID_MESSAGE"
  let ?v = "if m_bAckReceived (txn i u) then Increment i u else SetAckReceived i True (Increment i u)"
  have v: "InvokeFsm_message i (EVT_INV_SER INV_SER_RECV_ACK_REQ_EVT) ?d (Increment i u) =
     (True, ?d\<lparr>m_eTxnStatus := ?s, m_pOutUserData := GetUserData i u\<rparr>, ?v)"
    using t by (simp add: InvokeFsm_message_def InvokeFsm_def on_message_def txn_Increment
        InvSer_AcceptedState_ReceiveAckRequest_def GetUserData_def SetAckReceived_def Let_def)
  note o = OnRecvTxn_known_request [OF disjI2 [OF m] w f _ v]
  have "SipDelete i ?v = SetAckReceived i True u"
  proof (cases "m_bAckReceived (txn i u)")
    case True
    then have "(txn i u)\<lparr>m_bAckReceived := True\<rparr> = txn i u" by simp
    then have "SetAckReceived i True u = u"
      by (simp add: SetAckReceived_def upd_txn_def txn_def)
    then show ?thesis using rc True by simp
  next
    case False
    then show ?thesis using rc by (simp add: SetAckReceived_def SipDelete_def Increment_def upd_txn_def txn_def Let_def)
  qed
  then show ?thesis
    using o f by (auto simp: OnRecvMessage_def OnRecvTransp_request [OF disjI2 [OF m] w]
        SipTxnFsmData_new_def OnRecvMessage_send_def OnRecvMessage_finish_def ack_not_invite [OF m]
        ack_method [OF m] ack_type [OF m] Let_def)
qed

text \<open>
  The ACK of a failure response that was sent over UDP: the retransmission timer is cancelled, the
  transaction is Confirmed with Timer I armed, nothing is sent and the TU gets the key.
\<close>

theorem ack_of_failure_response:
  assumes m: "ack_request m" and w: "working u"
    and c: "server_in_table i INV_SER_COMPLETED_ST (msg_key INVITE_SERVER m) u"
    and p: "GetMsgSentProto i u = PROTOCOL_UDP" and ti: "0 < timer_value i TIMER_I u"
    and h: "m_pvTimerId (txn i u) = Some h" "h \<noteq> m_nNextTimer u"
    and r: "OnRecvMessage m (Some tp) ud u = (ok, status, key, ud', u')"
  shows "ok \<and> status = STATUS_VALID_MESSAGE \<and> key = Some (recv_key i m u) \<and>
    m_nTxnState (txn i u') = INV_SER INV_SER_CONFIRMED_ST \<and> m_outputs u' = m_outputs u \<and>
    m_timers u' h = None \<and> m_pvTimerId (txn i u') = Some (m_nNextTimer u) \<and>
    (\<exists>td. m_timers u' (m_nNextTimer u) = Some (timer_value i TIMER_I u, td) \<and>
       td_eTimerType td = TIMER_I) \<and>
    m_nRefCount (txn i u') = m_nRefCount (txn i u) \<and> m_objTxnAggregate u' = m_objTxnAggregate u"
proof -
  let ?k = "msg_key INVITE_SERVER m" and ?d = "SipTxnFsmData_new m None (Some ud)"
  obtain e k' where f: "SipStackState_FindTransaction ?k (m_objTxnAggregate u) = Some (e, i)"
    and t: "m_eTxnType (txn i u) = INVITE_SERVER" "m_nTxnState (txn i u) = INV_SER INV_SER_COMPLETED_ST"
    and k': "m_pTxnKey (txn i u) = Some k'" "complete_key k'" and rc: "0 < m_nRefCount (txn i u)"
    using c unfolding server_in_table_def by blast
  have ww: "env_callback (m_env u)" "env_timer_ok (m_env u) n" for n
    using w by (simp_all add: working_def)
  let ?v = "snd (StopTxnTimer i (Increment i u))"
  have x: "txn i ?v = (txn i u)\<lparr>m_nRefCount := m_nRefCount (txn i u) + 1, m_pvTimerId := None\<rparr>"
    by (simp add: StopTxnTimer_txn ww txn_Increment)
  have tv: "timer_value i TIMER_I ?v = timer_value i TIMER_I u" "GetMsgSentProto i ?v = PROTOCOL_UDP"
    "GetUserData i ?v = GetUserData i u"
    using p by (simp_all add: timer_value_def GetMsgSentProto_def GetUserData_def x)
  let ?w = "upd_txn i (\<lambda>t. t\<lparr>m_pvTimerId := Some (m_nNextTimer u), m_eTimerType := TIMER_I,
      m_nCurrentDuration := timer_value i TIMER_I u\<rparr>)
        (?v\<lparr>m_timers := (m_timers ?v)(m_nNextTimer u \<mapsto> (timer_value i TIMER_I u,
          \<lparr> td_eTxnType = INVITE_SERVER, td_eTimerType = TIMER_I, td_pTxnKey = Some k' \<rparr>)),
           m_nNextTimer := Suc (m_nNextTimer u)\<rparr>)"
  have s: "StartTxnTimer i TIMER_I (timer_value i TIMER_I u) ?v = (True, ?w)"
    using ti by (simp add: StartTxnTimer_granted ww x t k' SipTimeoutData_new_complete [OF k'(2)])
  have v: "InvokeFsm_message i (EVT_INV_SER INV_SER_RECV_ACK_REQ_EVT) ?d (Increment i u) =
     (True, ?d\<lparr>m_eTxnStatus := STATUS_VALID_MESSAGE, m_pOutUserData := GetUserData i u\<rparr>,
      SetTxnState i (INV_SER INV_SER_CONFIRMED_ST) ?w)"
    using t s tv by (simp add: InvokeFsm_message_def InvokeFsm_def on_message_def txn_Increment
        InvSer_CompletedState_ReceiveAckRequest_def split_beta Let_def)
  note o = OnRecvTxn_known_request [OF disjI2 [OF m] w f _ v]
  have u': "u' = SipDelete i (SetTxnState i (INV_SER INV_SER_CONFIRMED_ST) ?w)" "ok"
    "status = STATUS_VALID_MESSAGE" "key = Some (recv_key i m u)"
    using r o f by (auto simp: OnRecvMessage_def OnRecvTransp_request [OF disjI2 [OF m] w]
        SipTxnFsmData_new_def OnRecvMessage_send_def OnRecvMessage_finish_def ack_not_invite [OF m]
        ack_method [OF m] ack_type [OF m] Let_def)
  have "m_timers ?v = (m_timers u)(h := None)"
    using h ww by (simp add: StopTxnTimer_def txn_Increment SetTimerId_def)
  then show ?thesis
    using h(2) rc by (simp add: u' SetTxnState_def SipDelete_def x Let_def)
qed

section \<open>Example calls\<close>

text \<open>The INVITE of the example has been received and its transaction is in state \<open>st\<close>.\<close>

definition ex_server :: "inv_ser_state \<Rightarrow> SipTransportInfo option \<Rightarrow> SipStack" where
  "ex_server st ti =
     (let k = msg_key INVITE_SERVER ex_invite in
      ex_stack\<lparr>m_txns := (\<lambda>_. SipTxn_free)(0 := SipTxn_free
          \<lparr>m_eTxnType := INVITE_SERVER, m_pTxnKey := Some k, m_pSipMsg := Some ex_invite,
           m_pTranspInfo := ti, m_pUserData := Some (ISipUserData_new (Some ex_context)),
           m_nTxnState := INV_SER st, m_nRefCount := 2\<rparr>),
        m_nNextTxn := 1, m_objTxnAggregate := snd (SipStackState_AddTransaction k 0 [])\<rparr>)"

definition ex_ack_request :: SipMessage where
  "ex_ack_request = (ex_request ''ACK'')
     \<lparr>hdr_to := Some \<lparr> na_addr = ''sip:bob@home'', na_tag = Some ''b1'' \<rparr>\<rparr>"

definition ex_sent :: "string \<Rightarrow> SipTransportInfo" where
  "ex_sent buf = \<lparr> m_pActualDestParam = Some (ex_param PROTOCOL_UDP),
     m_pTranspParamUser = ex_param PROTOCOL_UDP, m_pSentBuffer = buf, m_pSentSipMsg = None \<rparr>"

lemma ex_invite_server_key: "complete_key (msg_key INVITE_SERVER ex_invite)"
  by (simp add: msg_key_def ex_invite_def ex_request_key complete_key_def SetTxnType_def)

lemma ex_ack_key: "CompareKeys (msg_key INVITE_SERVER ex_invite) (msg_key INVITE_SERVER ex_ack_request)"
  by (simp add: CompareKeys_def msg_key_def SetTxnType_def SipTxnKey_of_msg_def ex_ack_request_def
      SipTxnKey_new_def SetRSeq_def ex_defs Let_def sip_str)

lemma ex_server_fields [simp]:
  "m_objTxnAggregate (ex_server st ti)
     = snd (SipStackState_AddTransaction (msg_key INVITE_SERVER ex_invite) 0 [])"
  "m_eTxnType (txn 0 (ex_server st ti)) = INVITE_SERVER"
  "m_nTxnState (txn 0 (ex_server st ti)) = INV_SER st"
  "m_pTxnKey (txn 0 (ex_server st ti)) = Some (msg_key INVITE_SERVER ex_invite)"
  "m_pTranspInfo (txn 0 (ex_server st ti)) = ti"
  "m_pUserData (txn 0 (ex_server st ti)) = Some (ISipUserData_new (Some ex_context))"
  "m_nRefCount (txn 0 (ex_server st ti)) = 2"
  "m_bAckReceived (txn 0 (ex_server st ti)) = False"
  "m_bRprTxnTerminated (txn 0 (ex_server st ti)) = False"
  "m_pvTimerId (txn 0 (ex_server st ti)) = None"
  "m_objTxnTimerValues (txn 0 (ex_server st ti)) = SipTxnTimerValues_new SipConfiguration_default"
  "m_outputs (ex_server st ti) = []" "m_env (ex_server st ti) = ex_env"
  "m_nNextTimer (ex_server st ti) = 0" "m_timers (ex_server st ti) = (\<lambda>_. None)"
  by (simp_all add: ex_server_def Let_def txn_def SipTxn_free_def ex_stack_def SipStack_init_def)

lemma ex_server_working: "working (ex_server st ti)"
  using txn_db.invar_add [of "[]" "(msg_key INVITE_SERVER ex_invite, 0)"]
  by (simp add: working_def ex_env_def) (simp add: ex_server_def ex_stack_def SipStack_init_def Let_def)

lemma ex_server_find:
  "CompareKeys (msg_key INVITE_SERVER ex_invite) k \<Longrightarrow>
   SipStackState_FindTransaction k (m_objTxnAggregate (ex_server st ti))
     = Some (msg_key INVITE_SERVER ex_invite, 0)"
  using txn_db.find_after_add [of "[]" k "(msg_key INVITE_SERVER ex_invite, 0)"]
  by (simp add: FindTransaction_entries SipStackTransaction_CompareKey_def)

lemma ex_server_in_table:
  "CompareKeys (msg_key INVITE_SERVER ex_invite) k \<Longrightarrow> server_in_table 0 st k (ex_server st ti)"
  using ex_server_find [OF CompareKeys_refl [OF ex_invite_server_key], of st ti] ex_server_find [of k st ti]
    ex_invite_server_key
  by (simp add: server_in_table_def)
     (simp add: msg_key_def ex_invite_def ex_request_key SetTxnType_def)


lemma ex_ack_is_request: "ack_request ex_ack_request"
  by (simp add: ack_request_def CheckTxnMandatoryParams_def SipMessage_GetMethodType_def
      SipMessage_GetMethod_def SipMethodArray_def SipPf_Stricmp_def SipTxnKey_of_msg_def
      SipTxnKey_new_def SetRSeq_def ex_defs ex_ack_request_def Let_def)


theorem ack_of_2xx_witness:
  "\<exists>ud'. OnRecvMessage ex_ack_request (Some (ex_param PROTOCOL_UDP)) ex_user_data
      (ex_server INV_SER_ACCEPTED_ST (Some (ex_sent ''200 OK''))) =
    (True, STATUS_VALID_MESSAGE, Some (msg_key INVITE_SERVER ex_ack_request), ud',
     SetAckReceived 0 True (ex_server INV_SER_ACCEPTED_ST (Some (ex_sent ''200 OK''))))"
proof -
  let ?u = "ex_server INV_SER_ACCEPTED_ST (Some (ex_sent ''200 OK''))"
  have "recv_key 0 ex_ack_request ?u = msg_key INVITE_SERVER ex_ack_request"
    using ack_method [OF ex_ack_is_request]
    by (simp add: recv_key_def msg_key_def SetTxnType_def SetResponseCode_def ex_ack_request_def
        SipTxnKey_of_msg_def SipTxnKey_new_def SetRSeq_def ex_defs Let_def)
  then show ?thesis
    using ack_of_2xx [OF ex_ack_is_request
        ex_server_working [of INV_SER_ACCEPTED_ST "Some (ex_sent ''200 OK'')"]
        ex_server_in_table [OF ex_ack_key], of "ex_param PROTOCOL_UDP" ex_user_data]
    by simp
qed

text \<open>The 486 of the example has been sent: its retransmission timer, number 0, runs.\<close>

definition ex_busy :: SipStack where
  "ex_busy = (upd_txn 0 (\<lambda>t. t\<lparr>m_pvTimerId := Some 0\<rparr>)
     (ex_server INV_SER_COMPLETED_ST (Some (ex_sent ''486 Busy Here''))))\<lparr>m_nNextTimer := 1\<rparr>"

theorem ack_of_failure_response_witness:
  "let r = OnRecvMessage ex_ack_request (Some (ex_param PROTOCOL_UDP)) ex_user_data ex_busy;
       v = snd (snd (snd (snd r)))
   in fst r \<and> m_nTxnState (txn 0 v) = INV_SER INV_SER_CONFIRMED_ST \<and> m_outputs v = [] \<and>
      map_option fst (m_timers v 1) = Some 17000"
proof -
  let ?u = "ex_server INV_SER_COMPLETED_ST (Some (ex_sent ''486 Busy Here''))"
  have w: "working ex_busy" using ex_server_working [of INV_SER_COMPLETED_ST "Some (ex_sent ''486 Busy Here'')"]
    by (simp add: working_def ex_busy_def)
  have c: "server_in_table 0 INV_SER_COMPLETED_ST (msg_key INVITE_SERVER ex_ack_request) ex_busy"
    using ex_server_in_table [OF ex_ack_key, of INV_SER_COMPLETED_ST "Some (ex_sent ''486 Busy Here'')"]
    by (simp add: server_in_table_def ex_busy_def)
  have p: "GetMsgSentProto 0 ex_busy = PROTOCOL_UDP"
    by (simp add: GetMsgSentProto_def ex_busy_def ex_sent_def ex_param_def)
  have t: "timer_value 0 TIMER_I ex_busy = 17000"
    by (simp add: timer_value_def ex_busy_def SipTxnTimerValues_new_def SipConfiguration_default_def Let_def)
  have h: "m_pvTimerId (txn 0 ex_busy) = Some 0" "0 \<noteq> m_nNextTimer ex_busy" "m_nNextTimer ex_busy = 1"
    "m_outputs ex_busy = []"
    by (simp_all add: ex_busy_def)
  obtain ok status key ud' u' where r: "OnRecvMessage ex_ack_request (Some (ex_param PROTOCOL_UDP))
      ex_user_data ex_busy = (ok, status, key, ud', u')" by (metis prod.collapse)
  show ?thesis
    using ack_of_failure_response [OF ex_ack_is_request w c p _ h(1,2) r] h t r by auto
qed

end
