(* ===== verification/SipServerResponses.thy ===== *)
theory SipServerResponses
  imports SipServerCalls
begin

text \<open>
  INVITE server transactions that answer: what \<open>SendMsg\<close> does with a response, and the
  retransmissions of a failure response that is never acknowledged.
\<close>

section \<open>Finding the transaction of a response\<close>

text \<open>The response code takes part in a comparison with an ACK only.\<close>

lemma SetResponseCode_fields:
  "key_eTxnType (SetResponseCode n k) = key_eTxnType k" "m_nRules (SetResponseCode n k) = m_nRules k"
  "m_pszViaBranchParam (SetResponseCode n k) = m_pszViaBranchParam k"
  "m_nCseqNum (SetResponseCode n k) = m_nCseqNum k" "m_pszMethod (SetResponseCode n k) = m_pszMethod k"
  "m_pszCallId (SetResponseCode n k) = m_pszCallId k" "m_pszFromTag (SetResponseCode n k) = m_pszFromTag k"
  "m_pszToTag (SetResponseCode n k) = m_pszToTag k" "m_nRSeqNum (SetResponseCode n k) = m_nRSeqNum k"
  "HasRule (SetResponseCode n k) r = HasRule k r"
  by (simp_all add: SetResponseCode_def HasRule_def)

lemma CompareKeys_SetResponseCode [simp]:
  "CompareKeys k (SetResponseCode n g) = CompareKeys k g"
  unfolding CompareKeys_def SetResponseCode_fields ..

lemma CompareKeys_SetResponseCode_stored [simp]:
  assumes "m_pszMethod g \<noteq> METHOD_NAME_ACK"
  shows "CompareKeys (SetResponseCode n k) g = CompareKeys k g"
proof -
  have "SipPf_Strcmp METHOD_NAME_ACK (m_pszMethod g) \<noteq> 0" using assms by (auto simp: SipPf_Strcmp_0)
  then show ?thesis unfolding CompareKeys_def SetResponseCode_fields by (simp only: simp_thms if_True if_False)
qed

lemma CompareKey_SetResponseCode [simp]:
  "SipStackTransaction_CompareKey (SetResponseCode n g) = SipStackTransaction_CompareKey g"
  by (simp add: fun_eq_iff SipStackTransaction_CompareKey_def)

lemma Find_SetResponseCode:
  "db_inv m \<Longrightarrow> SipStackState_FindTransaction (SetResponseCode n g) m = SipStackState_FindTransaction g m"
  by (simp add: FindTransaction_entries)

lemma find_map: "find P (map f xs) = map_option f (find (P \<circ> f) xs)"
  by (induction xs) auto

lemma Find_entry_SetResponseCode:
  assumes m: "db_inv m" and g: "m_pszMethod g \<noteq> METHOD_NAME_ACK"
  shows "SipStackState_FindTransaction g (entry_key_update i (SetResponseCode n) m) =
    map_option (\<lambda>(k, t). (if t = i then SetResponseCode n k else k, t)) (SipStackState_FindTransaction g m)"
proof -
  have "SipStackTransaction_CompareKey g \<circ> (\<lambda>(k, t). (if t = i then SetResponseCode n k else k, t))
      = SipStackTransaction_CompareKey g"
    using g by (auto simp: SipStackTransaction_CompareKey_def fun_eq_iff)
  then show ?thesis
    using m entry_key_update_inv [of "SetResponseCode n" m i]
    by (simp add: FindTransaction_entries entry_key_update_entries find_map)
qed

lemma complete_SetResponseCode [simp]:
  "complete_key (SetResponseCode n k) = complete_key k"
  "m_pszMethod (SetResponseCode n k) = m_pszMethod k"
  by (simp_all add: complete_key_def SetResponseCode_def)

section \<open>Sending a response to an INVITE\<close>

definition sent_invite_response :: "SipMessage \<Rightarrow> bool" where
  "sent_invite_response m \<longleftrightarrow> CheckTxnMandatoryParams m = Some (RESP_TYPE, METHOD_INVITE) \<and>
     m_pszMethod (msg_key INVITE_SERVER m) \<noteq> METHOD_NAME_ACK"

text \<open>The stack the machine runs on: the transaction is held and carries the response code.\<close>

definition before_response :: "nat \<Rightarrow> SIP_UINT16 \<Rightarrow> SipStack \<Rightarrow> SipStack" where
  "before_response i n u =
     upd_out_key i (SetResponseCode n) (Txn_SetResponseCode i n (Increment i u))"

lemma before_response_fields [simp]:
  "m_timers (before_response i n u) = m_timers u"
  "s_txnKeyList (before_response i n u) = s_txnKeyList u"
  "m_nNextTimer (before_response i n u) = m_nNextTimer u"
  "m_outputs (before_response i n u) = m_outputs u"
  "m_env (before_response i n u) = m_env u"
  "m_pnError (before_response i n u) = m_pnError u"
  "m_objTxnAggregate (before_response i n u) = entry_key_update i (SetResponseCode n) (m_objTxnAggregate u)"
  by (simp_all add: before_response_def upd_out_key_def Txn_SetResponseCode_def)

lemma before_response_txn:
  "txn i (before_response i n u) = (txn i u)\<lparr>m_nRefCount := m_nRefCount (txn i u) + 1,
     m_pTxnKey := map_option (SetResponseCode n) (m_pTxnKey (txn i u))\<rparr>"
  by (simp add: before_response_def upd_out_key_def Txn_SetResponseCode_def txn_Increment)

lemma OnSendTxn_invite_response:
  assumes m: "sent_invite_response m" and w: "working u"
    and f: "SipStackState_FindTransaction (msg_key INVITE_SERVER m) (m_objTxnAggregate u) = Some (e, i)"
    and ev: "ev = GetInvSerFsmEvt (SipMessage_GetStatusCode m)" "ev \<noteq> INV_SER_INVALID_EVT"
    and tc: "timer_context (SipTxnFsmData_new m tp ud) = None"
    and r: "InvokeFsm_message i (EVT_INV_SER ev) (SipTxnFsmData_new m tp ud)
      (before_response i (SipMessage_GetStatusCode m) u) = (True, d, v)"
  shows "OnSendTxn m tp ud u = (True, Some (msg_key INVITE_SERVER m), SipTxnInfo_new
     \<lparr>ti_bTxnTerminated := m_bTxnTerminated d, ti_bTxnCreated := m_bTxnCreated d,
      ti_pUserData := (if m_bTxnCreated d \<or> m_bTxnTerminated d then m_pOutUserData d else None)\<rparr>,
      SipDelete i v)"
proof -
  have c: "CheckTxnMandatoryParams m = Some (RESP_TYPE, METHOD_INVITE)"
    using m by (simp add: sent_invite_response_def)
  have e: "m_pnError u = 0" "env_callback (m_env u)" using w by (simp_all add: working_def)
  have v: "ValidateSendTxn m u = (Some (INVITE_SERVER, fst (SipTxnKey_of_msg m 0)), u)"
    using e by (simp add: ValidateSendTxn_def c new_key_of_msg_ok [OF c] GetTxnType_def EERR_MALLOCFAILED_def)
  have g: "GetTxnObjFromDb (msg_key INVITE_SERVER m) u = (True, Some i, True, u)"
    using f e by (simp add: GetTxnObjFromDb_def FetchTransaction_fetch)
  have h: "HandleServerTxnSend INVITE_SERVER (msg_key INVITE_SERVER m) (SipTxnFsmData_new m tp ud) u
      = (True, d, SipDelete i v)"
    using ev r tc unfolding before_response_def
    by (simp add: HandleServerTxnSend_def g update_server_timers_def Let_def SipTxnFsmData_new_def)
  show ?thesis
    using msg_key_type [OF c, of INVITE_SERVER]
    by (simp add: OnSendTxn_def v msg_key_def [symmetric] g h SipTxnInfo_new_def Let_def)
qed

section \<open>A failure response over UDP\<close>

lemma InvSer_stop_retransmission_frame [simp]:
  "m_objTxnAggregate (InvSer_stop_retransmission i u) = m_objTxnAggregate u"
  "m_nNextTimer (InvSer_stop_retransmission i u) = m_nNextTimer u"
  "m_pnError (InvSer_stop_retransmission i u) = m_pnError u"
  "m_outputs (InvSer_stop_retransmission i u) = m_outputs u"
  "m_env (InvSer_stop_retransmission i u) = m_env u"
  by (simp_all add: InvSer_stop_retransmission_def split_beta InitRetransmissionInfo_def upd_key_list_def Let_def)

lemma InvSer_stop_retransmission_txn:
  "env_callback (m_env u) \<Longrightarrow> txn i (InvSer_stop_retransmission i u) =
     (txn i u)\<lparr>m_pvTimerId := None, m_nRetransmissionCount := 0, m_nMaxDuration := 0,
       m_nDurationExpired := 0, m_nCurrentDuration := 0\<rparr>"
  by (simp add: InvSer_stop_retransmission_def split_beta InitRetransmissionInfo_def upd_key_list_def
      Let_def StopTxnTimer_txn)

lemma SendFailureResponse_granted:
  assumes t: "m_eTxnType (txn i v) = INVITE_SERVER" and k: "m_pTxnKey (txn i v) = Some k" "complete_key k"
    and w: "env_callback (m_env v)" "env_timer_ok (m_env v) (m_nNextTimer v)"
    and p: "send_protocol d = PROTOCOL_UDP" and t1: "0 < timer_value i TIMER_T1 v"
    and r: "r = InvSer_ProceedingState_SendFailureResponse i d v"
  shows "fst r" and "fst (snd r) = d\<lparr>m_eTxnStatus := STATUS_VALID_MESSAGE\<rparr>"
    and "txn i (snd (snd r)) = (txn i v)\<lparr>m_pvTimerId := Some (m_nNextTimer v), m_eTimerType := TIMER_G,
      m_nCurrentDuration := timer_value i TIMER_T1 v, m_nMaxDuration := timer_value i TIMER_H v,
      m_nRetransmissionCount := 0, m_nDurationExpired := 0, m_nTxnState := INV_SER INV_SER_COMPLETED_ST\<rparr>"
    and "m_timers (snd (snd r)) (m_nNextTimer v) = Some (timer_value i TIMER_T1 v,
      \<lparr> td_eTxnType = INVITE_SERVER, td_eTimerType = TIMER_G, td_pTxnKey = Some k \<rparr>)"
    and "m_objTxnAggregate (snd (snd r)) = m_objTxnAggregate v"
    and "m_outputs (snd (snd r)) = m_outputs v" and "m_env (snd (snd r)) = m_env v"
    and "m_pnError (snd (snd r)) = m_pnError v"
proof -
  let ?w = "InvSer_stop_retransmission i v"
  have x: "txn i ?w = (txn i v)\<lparr>m_pvTimerId := None, m_nRetransmissionCount := 0, m_nMaxDuration := 0,
       m_nDurationExpired := 0, m_nCurrentDuration := 0\<rparr>"
    by (rule InvSer_stop_retransmission_txn [OF w(1)])
  have tv: "timer_value i ty ?w = timer_value i ty v" for ty by (simp add: timer_value_def x)
  have s: "StartTxnTimer i TIMER_G (timer_value i TIMER_T1 v) ?w =
     (True, upd_txn i (\<lambda>t. t\<lparr>m_pvTimerId := Some (m_nNextTimer v), m_eTimerType := TIMER_G,
                               m_nCurrentDuration := timer_value i TIMER_T1 v\<rparr>)
        (?w\<lparr>m_timers := (m_timers ?w)(m_nNextTimer v \<mapsto> (timer_value i TIMER_T1 v,
             \<lparr> td_eTxnType = INVITE_SERVER, td_eTimerType = TIMER_G, td_pTxnKey = Some k \<rparr>)),
           m_nNextTimer := Suc (m_nNextTimer v)\<rparr>))"
    using t1 w by (simp add: StartTxnTimer_granted x t k SipTimeoutData_new_complete [OF k(2)])
  have r': "r = (True, d\<lparr>m_eTxnStatus := STATUS_VALID_MESSAGE\<rparr>, SetTxnState i (INV_SER INV_SER_COMPLETED_ST)
      (SetMaxDuration i (timer_value i TIMER_H v) (snd (StartTxnTimer i TIMER_G (timer_value i TIMER_T1 v) ?w))))"
    unfolding r InvSer_ProceedingState_SendFailureResponse_def
    by (simp add: p tv s Let_def)
  show "fst r" "fst (snd r) = d\<lparr>m_eTxnStatus := STATUS_VALID_MESSAGE\<rparr>" by (simp_all add: r')
  show "txn i (snd (snd r)) = (txn i v)\<lparr>m_pvTimerId := Some (m_nNextTimer v), m_eTimerType := TIMER_G,
      m_nCurrentDuration := timer_value i TIMER_T1 v, m_nMaxDuration := timer_value i TIMER_H v,
      m_nRetransmissionCount := 0, m_nDurationExpired := 0, m_nTxnState := INV_SER INV_SER_COMPLETED_ST\<rparr>"
    by (simp add: r' s x SetTxnState_def SetMaxDuration_def)
  show "m_timers (snd (snd r)) (m_nNextTimer v) = Some (timer_value i TIMER_T1 v,
      \<lparr> td_eTxnType = INVITE_SERVER, td_eTimerType = TIMER_G, td_pTxnKey = Some k \<rparr>)"
    and "m_objTxnAggregate (snd (snd r)) = m_objTxnAggregate v"
    and "m_outputs (snd (snd r)) = m_outputs v" and "m_env (snd (snd r)) = m_env v"
    and "m_pnError (snd (snd r)) = m_pnError v"
    by (simp_all add: r' s SetTxnState_def SetMaxDuration_def)
qed

lemma GetInvSerFsmEvt_failure:
  "IsFailureResponse n \<Longrightarrow> GetInvSerFsmEvt n = INV_SER_SEND_FAILURE_RESP_EVT"
  by (auto simp: GetInvSerFsmEvt_def status_class_defs word_le_nat_alt word_less_nat_alt)

lemma failure_not_2xx: "IsFailureResponse n \<Longrightarrow> \<not> IsSuccessfulResponse n"
  by (auto simp: status_class_defs word_le_nat_alt word_less_nat_alt)

lemma SendMsg_failure_udp:
  assumes m: "sent_invite_response m" and w: "working u"
    and c: "server_in_table i INV_SER_PROCEEDING_ST (msg_key INVITE_SERVER m) u"
    and sc: "IsFailureResponse (SipMessage_GetStatusCode m)"
    and p: "m_nTranspProtocol p = PROTOCOL_UDP" and rp: "\<not> m_bRprTxnTerminated (txn i u)"
    and tc: "timer_context (SipTxnFsmData_new m (Some p) (Some ud)) = None"
    and T: "0 < T1" "T1 \<le> H" "H < 2 ^ 30" "0 < T2" "T2 < 2 ^ 30" "T1 = unat (timer_value i TIMER_T1 u)"
      "T2 = unat (timer_value i TIMER_T2 u)" "H = unat (timer_value i TIMER_H u)"
    and ti: "ti = \<lparr> m_pActualDestParam = Some p, m_pTranspParamUser = p, m_pSentBuffer = buf, m_pSentSipMsg = Some m \<rparr>"
    and u': "u' = snd (snd (snd (SendMsg m (Some p) ud buf u)))"
  shows "SendMsg m (Some p) ud buf u = (True, None, ud, u')"
    and "\<exists>k. final_run i k ti (T2 - 1) H 0 T1 T1 u' \<and>
           SipStackState_FindTransaction k (m_objTxnAggregate u') \<noteq> None"
    and "m_outputs u' = m_outputs u @ [OUT_SEND buf (Some p)]"
    and "m_objTxnAggregate u' = entry_key_update i (SetResponseCode (SipMessage_GetStatusCode m)) (m_objTxnAggregate u)"
    and "m_nRefCount (txn i u') = m_nRefCount (txn i u)" and "m_pUserData (txn i u') = m_pUserData (txn i u)"
    and "working u'"
proof -
  let ?k = "msg_key INVITE_SERVER m" and ?n = "SipMessage_GetStatusCode m"
  let ?d = "SipTxnFsmData_new m (Some p) (Some ud)"
  obtain e e' k' where f: "SipStackState_FindTransaction ?k (m_objTxnAggregate u) = Some (e, i)"
    and t: "m_eTxnType (txn i u) = INVITE_SERVER" "m_nTxnState (txn i u) = INV_SER INV_SER_PROCEEDING_ST"
    and k': "m_pTxnKey (txn i u) = Some k'" "complete_key k'" "m_pszMethod k' \<noteq> METHOD_NAME_ACK"
      "SipStackState_FindTransaction k' (m_objTxnAggregate u) = Some (e', i)"
    and rc: "0 < m_nRefCount (txn i u)"
    using c unfolding server_in_table_def by blast
  have ww: "env_callback (m_env u)" "env_timer_ok (m_env u) n" "env_send_ok (m_env u) n"
    and db: "db_inv (m_objTxnAggregate u)" for n
    using w by (simp_all add: working_def)
  have g: "m_pszMethod ?k \<noteq> METHOD_NAME_ACK" and me: "SipMessage_GetMethodType m = METHOD_INVITE"
    using m by (auto simp: sent_invite_response_def CheckTxnMandatoryParams_Some)
  let ?b = "before_response i ?n u"
  let ?k2 = "SetResponseCode ?n k'"
  have b: "m_eTxnType (txn i ?b) = INVITE_SERVER" "m_nTxnState (txn i ?b) = INV_SER INV_SER_PROCEEDING_ST"
    "m_pTxnKey (txn i ?b) = Some ?k2" "timer_value i ty ?b = timer_value i ty u" for ty
    by (simp_all add: before_response_txn t k' timer_value_def)
  define x where "x = InvSer_ProceedingState_SendFailureResponse i ?d ?b"
  have sp: "send_protocol ?d = PROTOCOL_UDP" by (simp add: send_protocol_def SipTxnFsmData_new_def p)
  have t1: "0 < timer_value i TIMER_T1 u" using T by (simp add: word_less_nat_alt)
  note h = SendFailureResponse_granted [OF b(1,3) _ _ _ sp _ x_def, unfolded b(4) before_response_fields,
      simplified, OF k'(2) ww(1,2) t1]
  obtain v where v: "x = (True, ?d\<lparr>m_eTxnStatus := STATUS_VALID_MESSAGE\<rparr>, v)"
    using h(1,2) by (metis (full_types) prod.collapse)
  note h = h(3-8) [unfolded v snd_conv]
  have r: "InvokeFsm_message i (EVT_INV_SER INV_SER_SEND_FAILURE_RESP_EVT) ?d ?b
      = (True, ?d\<lparr>m_eTxnStatus := STATUS_VALID_MESSAGE\<rparr>, v)"
    using b(1,2) v by (simp add: InvokeFsm_message_def InvokeFsm_def on_message_def x_def)
  note o = OnSendTxn_invite_response [OF m w f GetInvSerFsmEvt_failure [OF sc, symmetric] _ tc r]
  have tr: "OnSendTransp m (Some p) buf = Some ti" by (simp add: OnSendTransp_def ti)
  let ?w = "emit (OUT_SEND buf (Some p)) (SipDelete i v)"
  have n: "Network_Send ti (SipDelete i v) = (True, ?w)" using ww by (simp add: Network_Send_def h ti)
  have fnd: "SipStackState_FindTransaction ?k (m_objTxnAggregate v) = Some (SetResponseCode ?n e, i)"
    "SipStackState_FindTransaction ?k2 (m_objTxnAggregate v) = Some (SetResponseCode ?n e', i)"
    using entry_key_update_inv [of "SetResponseCode ?n" "m_objTxnAggregate u" i] db f k' g
    by (simp_all add: h Find_SetResponseCode Find_entry_SetResponseCode)
  let ?u3 = "SipDelete i (UpdateTranspInfo i (Some ti) (Increment i ?w))"
  have up: "UpdateTxnDetails (Some ?k) (Some ti) ?w = (True, ?u3)"
    using fnd ww by (simp add: UpdateTxnDetails_def GetTxnObjFromDb_def FetchTransaction_fetch h)
  have s: "SendMsg m (Some p) ud buf u = (True, None, ud, ?u3)"
    using o failure_not_2xx [OF sc]
    by (simp add: SendMsg_def tr SendToNetwork_def n SendMsg_finish_def up SipTxnInfo_new_def
        SipTxnFsmData_new_def me)
  then have u3: "u' = ?u3" by (simp add: u')
  show "SendMsg m (Some p) ud buf u = (True, None, ud, u')" by (simp add: s u3)
  have y: "txn i (SipDelete i v) = (txn i v)\<lparr>m_nRefCount := m_nRefCount (txn i u)\<rparr>"
    using rc by (simp add: SipDelete_def h before_response_txn Let_def)
  have x: "txn i u' = (txn i (SipDelete i v))\<lparr>m_pTranspInfo := Some ti\<rparr>"
    unfolding u3 UpdateTranspInfo_def using rc by (subst SipDelete_Increment_upd) (simp_all add: y)
  have x: "txn i u' = (txn i u)\<lparr>m_pTxnKey := Some ?k2, m_pvTimerId := Some (m_nNextTimer u),
      m_eTimerType := TIMER_G, m_nCurrentDuration := timer_value i TIMER_T1 u,
      m_nMaxDuration := timer_value i TIMER_H u, m_nRetransmissionCount := 0, m_nDurationExpired := 0,
      m_nTxnState := INV_SER INV_SER_COMPLETED_ST, m_pTranspInfo := Some ti\<rparr>"
    by (simp add: x y h before_response_txn k')
  have fr: "m_env u' = m_env u" "m_objTxnAggregate u' = m_objTxnAggregate v" "m_timers u' = m_timers v"
    "m_pnError u' = m_pnError u"
    by (simp_all add: u3 h UpdateTranspInfo_def)
  show "m_outputs u' = m_outputs u @ [OUT_SEND buf (Some p)]" by (simp add: u3 h UpdateTranspInfo_def)
  show "m_objTxnAggregate u' = entry_key_update i (SetResponseCode ?n) (m_objTxnAggregate u)"
    by (simp add: fr h)
  show "m_nRefCount (txn i u') = m_nRefCount (txn i u)" "m_pUserData (txn i u') = m_pUserData (txn i u)"
    by (simp_all add: x)
  show "working u'"
    using w entry_key_update_inv [of "SetResponseCode ?n" "m_objTxnAggregate u" i]
    by (simp add: working_def fr h)
  have tv: "timer_value i ty u' = timer_value i ty u" for ty by (simp add: timer_value_def x)
  have el: "elapsed i u' = timer_value i TIMER_T1 u" by (simp add: elapsed_def tv) (simp add: x)
  have ar: "armed i (m_nNextTimer u) TIMER_G ?k2 ti u'"
    using ww fnd(2) rp rc by (simp add: armed_def fr h x t SipTxnKey_Init_complete k'(2))
  have tw: "started_timer i u' = Some (TIMER_G, unat (timer_value i TIMER_T1 u))"
    by (simp add: started_timer_def fr h x)
  have "running i INVITE_SERVER (INV_SER INV_SER_COMPLETED_ST) TIMER_G ?k2 ti H 0 T1 T1 u'"
    unfolding running_def using ar ww T el tw by (auto simp: fr x t)
  then have "final_run i ?k2 ti (T2 - 1) H 0 T1 T1 u'"
    using T p by (simp add: final_run_def tv over_udp_def ti)
  then show "\<exists>k. final_run i k ti (T2 - 1) H 0 T1 T1 u' \<and>
      SipStackState_FindTransaction k (m_objTxnAggregate u') \<noteq> None"
    using fnd(2) by (auto simp: fr)
qed

lemma timer_G_waits_le:
  "\<forall>d\<in>set (waits n (timer_G_step T2) H c cur e). d \<le> T2"
  by (induction n arbitrary: c cur e) (auto simp: timer_G_step_def Let_def)

text \<open>C2:
  A failure response to an INVITE sent over UDP that is never acknowledged: it goes out, the
  timer service is asked to wait T1 for Timer G, and at each expiry of the timer the response goes
  out again, at intervals that double from T1 up to T2 and are at most T2, until exactly Timer H
  has passed. The next expiry sends nothing more: the transaction
  terminates, its TU is told once, and its entry leaves the table.
\<close>

theorem failure_response_unacknowledged:
  assumes m: "sent_invite_response m" and w: "working u"
    and c: "server_in_table i INV_SER_PROCEEDING_ST (msg_key INVITE_SERVER m) u"
    and sc: "IsFailureResponse (SipMessage_GetStatusCode m)"
    and p: "m_nTranspProtocol p = PROTOCOL_UDP" and rp: "\<not> m_bRprTxnTerminated (txn i u)"
    and tc: "timer_context (SipTxnFsmData_new m (Some p) (Some ud)) = None"
    and T: "0 < T1" "T1 \<le> H" "H < 2 ^ 30" "0 < T2" "T2 < 2 ^ 30" "T1 = unat (timer_value i TIMER_T1 u)"
      "T2 = unat (timer_value i TIMER_T2 u)" "H = unat (timer_value i TIMER_H u)"
    and s: "SendMsg m (Some p) ud buf u = (ok, key, ud', u0)"
    and ws: "ws = waits (H - T1) (\<lambda>c cur. min (2 * cur) T2) H 0 T1 T1"
    and e: "expiries (length ws) i u0 = (ds, u1)" and u2: "u2 = expire_timer i u1"
  shows "ok \<and> started_timer i u0 = Some (TIMER_G, T1) \<and> ds = ws \<and> (\<forall>d\<in>set ds. d \<le> T2) \<and> T1 + sum_list ds = H \<and>
    m_outputs u1 = m_outputs u @ replicate (Suc (length ws)) (OUT_SEND buf (Some p)) \<and>
    m_outputs u2 = m_outputs u1 @ timeout_outputs TIMER_G (UserData_Get (GetUserData i u) u) \<and>
    m_nTxnState (txn i u2) = INV_SER INV_SER_TERMINATED_ST \<and>
    m_nRefCount (txn i u2) = m_nRefCount (txn i u) - 2 \<and>
    Suc (length (db_entries (m_objTxnAggregate u2))) = length (db_entries (m_objTxnAggregate u))"
proof -
  define ti where "ti = \<lparr> m_pActualDestParam = Some p, m_pTranspParamUser = p, m_pSentBuffer = buf,
    m_pSentSipMsg = Some m \<rparr>"
  have u0: "u0 = snd (snd (snd (SendMsg m (Some p) ud buf u)))" using s by simp
  note f = SendMsg_failure_udp [OF m w c sc p rp tc T ti_def u0]
  have ok: ok using f(1) s by simp
  obtain t2 where t2: "T2 = Suc t2" using T(4) by (cases T2) auto
  have step: "timer_G_step (Suc t2) = (\<lambda>c cur. min (2 * cur) T2)"
    by (simp add: timer_G_step_def t2 fun_eq_iff)
  obtain k where k: "final_run i k ti t2 H 0 T1 T1 u0"
    "SipStackState_FindTransaction k (m_objTxnAggregate u0) \<noteq> None"
    using f(2) t2 by auto
  have t0: "started_timer i u0 = Some (TIMER_G, T1)"
    using k(1) by (simp add: final_run_def running_def)
  have e': "(ds, u1) = expiries (length ws) i u0" using e by simp
  note r = final.run_until_max [OF k(1), unfolded step, OF ws refl]
  note v = final.run_waits [OF k(1), unfolded step, OF ws e', unfolded fst_conv snd_conv]
  obtain cur where "final_run i k ti t2 H (0 + length ws) H cur u1" using r(1) e by auto
  note g = final_gives_up [OF this, folded u2]
  have d: "\<forall>d\<in>set ws. d \<le> T2"
    using timer_G_waits_le [of "H - T1" T2 H 0 T1 T1] t2 step ws by (simp add: timer_G_step_def)
  have ud: "UserData_Get (GetUserData i u1) u1 = UserData_Get (GetUserData i u) u"
    using v f(6) by (simp add: UserData_Get_def GetUserData_def split: option.split)
  have "Suc (length (db_entries (m_objTxnAggregate u2))) = length (db_entries (m_objTxnAggregate u0))"
    using txn_db.length_entries_remove [of "m_objTxnAggregate u0" k] k(2) g v f(7)
    by (simp add: gave_up_def working_def)
  then show ?thesis
    using ok g v f(3-5) r d ud t0 by (simp add: gave_up_def sent_copies_def ti_def entry_key_update_entries)
qed

theorem failure_response_unacknowledged_witness:
  "let r = SendMsg (ex_response ''INVITE'' ''486'') (Some (ex_param PROTOCOL_UDP)) ex_user_data ''BUSY''
             (ex_server INV_SER_PROCEEDING_ST None);
       e = expiries 10 0 (snd (snd (snd r)));
       u2 = expire_timer 0 (snd e)
   in fst r \<and> started_timer 0 (snd (snd (snd r))) = Some (TIMER_G, 2000) \<and> fst e = [4000, 8000, 16000, 16000, 16000, 16000, 16000, 16000, 16000, 2000] \<and>
      m_outputs u2 = replicate 11 (OUT_SEND ''BUSY'' (Some (ex_param PROTOCOL_UDP)))
        @ [OUT_TIMER_EXPIRED TIMER_G 7, OUT_DESTROY_CTX 7]"
proof -
  let ?u = "ex_server INV_SER_PROCEEDING_ST None" and ?m = "ex_response ''INVITE'' ''486''"
  let ?p = "ex_param PROTOCOL_UDP"
  have m: "sent_invite_response ?m"
    using ex_response_params [of "''486''"]
    by (simp add: sent_invite_response_def invite_response_def msg_key_def SetTxnType_def)
  have k: "CompareKeys (msg_key INVITE_SERVER ex_invite) (msg_key INVITE_SERVER ?m)"
    by (simp add: CompareKeys_def msg_key_def SetTxnType_def SipTxnKey_of_msg_def
      SipTxnKey_new_def SetRSeq_def ex_defs Let_def sip_str)
  have p: "m_nTranspProtocol ?p = PROTOCOL_UDP"
    "timer_context (SipTxnFsmData_new ?m (Some ?p) (Some ex_user_data)) = None"
    by (simp_all add: ex_defs timer_context_def SipTxnFsmData_new_def)
  have tv: "unat (timer_value 0 TIMER_T1 ?u) = 2000" "unat (timer_value 0 TIMER_T2 ?u) = 16000"
    "unat (timer_value 0 TIMER_H ?u) = 128000"
    by (simp_all add: timer_value_def SipTxnTimerValues_new_def SipConfiguration_default_def Let_def)
  define n :: nat where "n = 128000 - 2000 - 11"
  have n: "(128000 :: nat) - 2000 = Suc (Suc (Suc (Suc (Suc (Suc (Suc (Suc (Suc (Suc (Suc n))))))))))"
    by (simp add: n_def)
  let ?ws = "[4000, 8000, 16000, 16000, 16000, 16000, 16000, 16000, 16000, 2000 :: nat]"
  have ws: "?ws = waits (128000 - 2000) (\<lambda>c cur. min (2 * cur) 16000) 128000 0 2000 2000"
    unfolding n by (simp add: Let_def)
  obtain ok key ud' u0 where s: "SendMsg ?m (Some ?p) ex_user_data ''BUSY'' ?u = (ok, key, ud', u0)"
    by (metis prod.collapse)
  obtain ds u1 where e: "expiries (length ?ws) 0 u0 = (ds, u1)" by (metis prod.collapse)
  have l: "length ?ws = 10" by simp
  note e' = e [unfolded l]
  note t = failure_response_unacknowledged [OF m ex_server_working ex_server_in_table [OF k] ex_failure p(1) _ p(2)
    _ _ _ _ _ tv [symmetric] s ws e refl]
  have rep: "replicate 11 x = [x, x, x, x, x, x, x, x, x, x, x]" for x :: sip_output
    by (simp add: eval_nat_numeral)
  show ?thesis
    unfolding s Let_def fst_conv snd_conv e' rep
    using t by (simp add: timeout_outputs_def UserData_Get_def GetUserData_def ISipUserData_new_def ex_context_def)
qed

end
