(* ===== verification/SipMachines.thy ===== *)
theory SipMachines
  imports SipExample SipInvariant
begin

text \<open>
  The four machines as one: each event that \<open>InvokeFsm\<close> accepts is a step of the abstract machine
  of the transaction's type, each event it has no entry for is refused without effect, and no
  step goes back to an earlier phase.
\<close>

section \<open>The machines together\<close>

inductive txn_step :: "txn_state \<Rightarrow> txn_event \<Rightarrow> txn_state \<Rightarrow> bool" where
  "inv_cli_step s ev s' \<Longrightarrow> txn_step (INV_CLI s) (EVT_INV_CLI ev) (INV_CLI s')"
| "inv_ser_step s ev s' \<Longrightarrow> txn_step (INV_SER s) (EVT_INV_SER ev) (INV_SER s')"
| "non_inv_cli_step s ev s' \<Longrightarrow> txn_step (NON_INV_CLI s) (EVT_NON_INV_CLI ev) (NON_INV_CLI s')"
| "non_inv_ser_step s ev s' \<Longrightarrow> txn_step (NON_INV_SER s) (EVT_NON_INV_SER ev) (NON_INV_SER s')"

declare txn_step.intros [intro]

inductive_simps txn_step_inv_cli [simp]: "txn_step (INV_CLI s) ev s'"
inductive_simps txn_step_inv_ser [simp]: "txn_step (INV_SER s) ev s'"
inductive_simps txn_step_non_inv_cli [simp]: "txn_step (NON_INV_CLI s) ev s'"
inductive_simps txn_step_non_inv_ser [simp]: "txn_step (NON_INV_SER s) ev s'"
inductive_cases txn_step_noneE [elim!]: "txn_step NO_STATE ev s'"

text \<open>The phases of a transaction in the order in which it goes through them.\<close>

fun phase :: "txn_state \<Rightarrow> nat" where
  "phase (INV_CLI st) = (case st of INV_CLI_IDLE_ST \<Rightarrow> 0 | INV_CLI_CALLING_ST \<Rightarrow> 1
     | INV_CLI_PROCEEDING_ST \<Rightarrow> 2 | INV_CLI_ACCEPTED_ST \<Rightarrow> 3 | INV_CLI_COMPLETED_ST \<Rightarrow> 3
     | INV_CLI_TERMINATED_ST \<Rightarrow> 5 | INV_CLI_INVALID_ST \<Rightarrow> 6)"
| "phase (INV_SER st) = (case st of INV_SER_IDLE_ST \<Rightarrow> 0 | INV_SER_PROCEEDING_ST \<Rightarrow> 2
     | INV_SER_ACCEPTED_ST \<Rightarrow> 3 | INV_SER_COMPLETED_ST \<Rightarrow> 3 | INV_SER_CONFIRMED_ST \<Rightarrow> 4
     | INV_SER_TERMINATED_ST \<Rightarrow> 5 | INV_SER_INVALID_ST \<Rightarrow> 6)"
| "phase (NON_INV_CLI st) = (case st of NON_INV_CLI_IDLE_ST \<Rightarrow> 0 | NON_INV_CLI_TRYING_ST \<Rightarrow> 1
     | NON_INV_CLI_PROCEEDING_ST \<Rightarrow> 2 | NON_INV_CLI_COMPLETED_ST \<Rightarrow> 3
     | NON_INV_CLI_TERMINATED_ST \<Rightarrow> 5 | NON_INV_CLI_INVALID_ST \<Rightarrow> 6)"
| "phase (NON_INV_SER st) = (case st of NON_INV_SER_IDLE_ST \<Rightarrow> 0 | NON_INV_SER_TRYING_ST \<Rightarrow> 1
     | NON_INV_SER_PROCEEDING_ST \<Rightarrow> 2 | NON_INV_SER_COMPLETED_ST \<Rightarrow> 3
     | NON_INV_SER_TERMINATED_ST \<Rightarrow> 5 | NON_INV_SER_INVALID_ST \<Rightarrow> 6)"
| "phase NO_STATE = 6"

lemma txn_step_phase: "txn_step s ev s' \<Longrightarrow> phase s \<le> phase s' \<and> phase s < 5 \<and> phase s' \<in> {1..5}"
  by (auto elim!: txn_step.cases inv_cli_step.cases inv_ser_step.cases non_inv_cli_step.cases
      non_inv_ser_step.cases)

section \<open>Events without an entry\<close>

lemma undefined_inv_cli:
  "\<forall>s'. \<not> inv_cli_step st ev s' \<Longrightarrow> gpfSipInvClientTxnFsm st ev = on_invalid InvCli_HandleInvalidStateEvent"
  by (cases "(st, ev)" rule: gpfSipInvClientTxnFsm.cases) (auto dest: spec)

lemma undefined_inv_ser:
  "\<forall>s'. \<not> inv_ser_step st ev s' \<Longrightarrow> gpfSipInvSerTxnFsm st ev = on_invalid InvSer_HandleInvalidStateEvent"
  by (cases "(st, ev)" rule: gpfSipInvSerTxnFsm.cases) (auto dest: spec)

lemma undefined_non_inv_cli:
  "\<forall>s'. \<not> non_inv_cli_step st ev s' \<Longrightarrow>
    gpfSipNonInvClientTxnFsm st ev = on_invalid NonInvCli_HandleInvalidStateEvent"
  by (cases "(st, ev)" rule: gpfSipNonInvClientTxnFsm.cases) (auto dest: spec)

lemma undefined_non_inv_ser:
  "\<forall>s'. \<not> non_inv_ser_step st ev s' \<Longrightarrow>
    gpfSipNonInvSerTxnFsm st ev = on_invalid NonInvSer_HandleInvalidStateEvent"
  by (cases "(st, ev)" rule: gpfSipNonInvSerTxnFsm.cases) (auto dest: spec)

section \<open>Steps of the code\<close>

lemma InvokeFsm_machine:
  assumes "machine_of (m_nTxnState (txn i u)) = m_eTxnType (txn i u)"
    and "phase (m_nTxnState (txn i u)) = 0 \<Longrightarrow> not_in_table i u"
    and "InvokeFsm i ev pv u = (ok, pv', u')"
  shows "if ok then txn_step (m_nTxnState (txn i u)) ev (m_nTxnState (txn i u'))
    else m_nTxnState (txn i u') = m_nTxnState (txn i u)"
proof -
  consider
      (inv_cli) st e where "m_nTxnState (txn i u) = INV_CLI st" "ev = EVT_INV_CLI e"
    | (inv_ser) st e where "m_nTxnState (txn i u) = INV_SER st" "ev = EVT_INV_SER e"
    | (non_inv_cli) st e where "m_nTxnState (txn i u) = NON_INV_CLI st" "ev = EVT_NON_INV_CLI e"
    | (non_inv_ser) st e where "m_nTxnState (txn i u) = NON_INV_SER st" "ev = EVT_NON_INV_SER e"
    | (other) "InvokeFsm i ev pv u = (False, pv, u)"
    using assms(1) by (cases "m_nTxnState (txn i u)"; cases ev) (auto simp: InvokeFsm_def split: sip_txn_type.split)
  then show ?thesis
  proof cases
    case inv_cli
    then show ?thesis using gpfSipInvClientTxnFsm_step [of i u st e pv] assms
      by (auto simp: InvokeFsm_def)
  next
    case inv_ser
    then show ?thesis using gpfSipInvSerTxnFsm_step [of i u st e pv] assms
      by (auto simp: InvokeFsm_def)
  next
    case non_inv_cli
    then show ?thesis using gpfSipNonInvClientTxnFsm_step [of i u st e pv] assms
      by (auto simp: InvokeFsm_def)
  next
    case non_inv_ser
    then show ?thesis using gpfSipNonInvSerTxnFsm_step [of i u st e pv] assms
      by (auto simp: InvokeFsm_def)
  next
    case other
    then show ?thesis using assms(3) by simp
  qed
qed

section \<open>Properties\<close>

text \<open>C11:
  Refinement: when \<open>InvokeFsm\<close> succeeds, the transaction's state has made a step of the abstract
  machine of its type (RFC 3261 with the Accepted states of RFC 6026), so that it never goes back
  to an earlier phase and never leaves Terminated; when it fails, the state is as it was. The
  hypotheses: the state belongs to the machine of the type, and a transaction that has not
  started is not in the table yet.
\<close>

theorem InvokeFsm_refines:
  assumes "machine_of (m_nTxnState (txn i u)) = m_eTxnType (txn i u)"
    and "phase (m_nTxnState (txn i u)) = 0 \<Longrightarrow> not_in_table i u"
    and "InvokeFsm i ev pv u = (ok, pv', u')"
  shows "(if ok then txn_step (m_nTxnState (txn i u)) ev (m_nTxnState (txn i u')) \<and>
              phase (m_nTxnState (txn i u)) < 5
          else m_nTxnState (txn i u') = m_nTxnState (txn i u)) \<and>
     phase (m_nTxnState (txn i u)) \<le> phase (m_nTxnState (txn i u'))"
proof -
  let ?s = "m_nTxnState (txn i u)" and ?s' = "m_nTxnState (txn i u')"
  have "if ok then txn_step ?s ev ?s' else ?s' = ?s"
    using InvokeFsm_machine [OF assms(1,2,3)] .
  then show ?thesis using txn_step_phase [of ?s ev ?s'] by (auto split: if_splits)
qed

text \<open>
  Events out of order: an event for which the machine of a transaction has no step is refused.
  The data handed over comes back as it was, no timer, state, table or output changes, and only
  the INVITE client reports it, by the error of an unexpected event.
\<close>

theorem InvokeFsm_undefined:
  assumes "\<forall>s'. \<not> txn_step (m_nTxnState (txn i u)) ev s'"
  shows "InvokeFsm i ev pv u =
    (False, pv, case (m_eTxnType (txn i u), m_nTxnState (txn i u), ev) of
                  (INVITE_CLIENT, INV_CLI _, EVT_INV_CLI _) \<Rightarrow> u\<lparr>m_pnError := ETXN_FSMEVENTERROR\<rparr>
                | _ \<Rightarrow> u)"
  using assms
  by (auto simp: InvokeFsm_def undefined_inv_cli undefined_inv_ser undefined_non_inv_cli
      undefined_non_inv_ser on_invalid_def InvCli_HandleInvalidStateEvent_def
      InvSer_HandleInvalidStateEvent_def NonInvCli_HandleInvalidStateEvent_def
      NonInvSer_HandleInvalidStateEvent_def split: sip_txn_type.split txn_state.split txn_event.split)

section \<open>Examples\<close>

definition ex_started :: "sip_txn_type \<Rightarrow> txn_state \<Rightarrow> SipStack" where
  "ex_started ty st = upd_txn 0 (\<lambda>t. t\<lparr>m_eTxnType := ty, m_nTxnState := st\<rparr>)
     (ex_stack\<lparr>m_nNextTxn := 1\<rparr>)"

lemma ex_started_state [simp]:
  "m_nTxnState (txn 0 (ex_started ty st)) = st" "m_eTxnType (txn 0 (ex_started ty st)) = ty"
  by (simp_all add: ex_started_def txn_def upd_txn_def)

theorem InvokeFsm_refines_witness:
  "let u = ex_started INVITE_CLIENT (INV_CLI INV_CLI_COMPLETED_ST);
       r = InvokeFsm 0 (EVT_INV_CLI INV_CLI_TRANSP_ERROR_EVT) TRANSP_ERROR_DATA u
   in txn_step (m_nTxnState (txn 0 u)) (EVT_INV_CLI INV_CLI_TRANSP_ERROR_EVT)
        (m_nTxnState (txn 0 (snd (snd r))))"
proof -
  let ?u = "ex_started INVITE_CLIENT (INV_CLI INV_CLI_COMPLETED_ST)"
  let ?ev = "EVT_INV_CLI INV_CLI_TRANSP_ERROR_EVT"
  obtain ok pv' u' where r: "InvokeFsm 0 ?ev TRANSP_ERROR_DATA ?u = (ok, pv', u')" by (metis prod.collapse)
  then have ok: "ok"
    by (auto simp: InvokeFsm_def dispatch_defs InvCli_CompletedState_TransportError_def split: prod.splits)
  have "machine_of (m_nTxnState (txn 0 ?u)) = m_eTxnType (txn 0 ?u)" by simp
  moreover have "phase (m_nTxnState (txn 0 ?u)) = 0 \<Longrightarrow> not_in_table 0 ?u" by simp
  ultimately show ?thesis using InvokeFsm_refines [OF _ _ r] ok by (simp only: Let_def r if_True fst_conv snd_conv)
qed

theorem InvokeFsm_undefined_witness:
  "InvokeFsm 0 (EVT_INV_CLI INV_CLI_RECV_2XX_RESP_EVT) TRANSP_ERROR_DATA
     (ex_started INVITE_CLIENT (INV_CLI INV_CLI_COMPLETED_ST)) =
   (False, TRANSP_ERROR_DATA, (ex_started INVITE_CLIENT (INV_CLI INV_CLI_COMPLETED_ST))\<lparr>m_pnError := ETXN_FSMEVENTERROR\<rparr>)"
  using InvokeFsm_undefined [of 0 "ex_started INVITE_CLIENT (INV_CLI INV_CLI_COMPLETED_ST)"
      "EVT_INV_CLI INV_CLI_RECV_2XX_RESP_EVT" TRANSP_ERROR_DATA]
  by (auto elim!: inv_cli_step.cases)

end
