(* ===== verification/SdpParam.thy ===== *)
theory SdpParam
  imports SipString
begin

text \<open>
  The parts of an SDP description that the offer/answer exchange negotiates
  (\<open>native/libimsstack/protocol/sdp\<close>): directions (\<open>offeranswer/SdpParameter.cpp\<close>), the session
  version of the o-line (\<open>Sdp.cpp\<close>), the m-line (\<open>SdpMedia.cpp\<close>), media formats
  (\<open>offeranswer/SdpMediaFormat.cpp\<close>, \<open>SdpAvCodec.cpp\<close>) and media groups
  (\<open>offeranswer/SdpMediaGroup.cpp\<close>). An \<open>AString\<close> is \<open>None\<close> when it is null. Lines that the
  negotiation only copies (information, bandwidth, key, connection, precondition) stand as their
  text.
\<close>

type_synonym AString = cstr

definition AString_EqualsIgnoreCase :: "AString \<Rightarrow> AString \<Rightarrow> bool" where
  "AString_EqualsIgnoreCase p q =
     (case (p, q) of
        (None, None) \<Rightarrow> True
      | (Some a, Some b) \<Rightarrow> length a = length b \<and> map SIP_TOLOWER a = map SIP_TOLOWER b
      | _ \<Rightarrow> False)"

section \<open>The session version\<close>

text \<open>The loop runs from the last character: each 9 becomes 0, the first other one is raised.\<close>

fun IncreaseSessionVersion_loop :: "string \<Rightarrow> string" where
  "IncreaseSessionVersion_loop [] = []"
| "IncreaseSessionVersion_loop (c # cs) =
     (if c = CHR ''9'' then CHR ''0'' # IncreaseSessionVersion_loop cs
      else char_of (of_char c + 1 :: nat) # cs)"

definition Sdp_IncreaseSessionVersion :: "AString \<Rightarrow> AString" where
  "Sdp_IncreaseSessionVersion strValue =
     (case strValue of
        None \<Rightarrow> None
      | Some [] \<Rightarrow> Some []
      | Some v \<Rightarrow>
          (let strNewVersion = rev (IncreaseSessionVersion_loop (rev v))
           in Some (if strNewVersion ! 0 = CHR ''0'' then CHR ''1'' # strNewVersion
                    else strNewVersion)))"

section \<open>Directions and the lines of a description\<close>

datatype sdp_direction =
  DIRECTION_NONE | DIRECTION_INACTIVE | DIRECTION_RECVONLY | DIRECTION_SENDONLY | DIRECTION_SENDRECV

datatype sdp_line =
  TYPE_V | TYPE_O | TYPE_S | TYPE_I | TYPE_U | TYPE_E | TYPE_P | TYPE_C | TYPE_B | TYPE_T | TYPE_R
  | TYPE_Z | TYPE_K | TYPE_A | TYPE_M

datatype sdp_setup = SETUP_NONE | SETUP_ACTIVE | SETUP_PASSIVE | SETUP_ACTPASS | SETUP_HOLDCONN

datatype sdp_connection = CONNECTION_NONE | CONNECTION_NEW | CONNECTION_EXISTING

datatype sdp_attribute = TCAP | ATTRIBUTE string

record SdpParameter =
  m_abLineContains :: "sdp_line set"
  m_bDirectionPresent :: bool
  m_nDirection :: sdp_direction
  m_nPreviousDirection :: sdp_direction
  m_nAttrSetup :: sdp_setup
  m_nAttrConnection :: sdp_connection
  ATTR_CONNECTION_contained :: bool
  ATTR_SETUP_contained :: bool
  m_pInformation :: AString
  m_objBandwidths :: "string list"
  m_pKey :: AString
  m_objAttributes :: "(sdp_attribute \<times> AString) list"

definition SdpParameter_new :: SdpParameter where
  "SdpParameter_new =
     \<lparr> m_abLineContains = {}, m_bDirectionPresent = False, m_nDirection = DIRECTION_NONE,
       m_nPreviousDirection = DIRECTION_NONE, m_nAttrSetup = SETUP_NONE,
       m_nAttrConnection = CONNECTION_NONE, ATTR_CONNECTION_contained = False,
       ATTR_SETUP_contained = False, m_pInformation = None, m_objBandwidths = [], m_pKey = None,
       m_objAttributes = [] \<rparr>"

definition SdpParameter_Clear :: "'a SdpParameter_scheme \<Rightarrow> 'a SdpParameter_scheme" where
  "SdpParameter_Clear p =
     p\<lparr>m_pInformation := None, m_objBandwidths := [], m_pKey := None, m_objAttributes := [],
       ATTR_CONNECTION_contained := False, ATTR_SETUP_contained := False, m_abLineContains := {}\<rparr>"

definition GetAttribute :: "sdp_attribute \<Rightarrow> 'a SdpParameter_scheme \<Rightarrow> (sdp_attribute \<times> AString) option" where
  "GetAttribute nAttribute p = find (\<lambda>a. fst a = nAttribute) (m_objAttributes p)"

definition SetDirection :: "sdp_direction \<Rightarrow> 'a SdpParameter_scheme \<Rightarrow> 'a SdpParameter_scheme" where
  "SetDirection d p =
     p\<lparr>m_nPreviousDirection := m_nDirection p, m_nDirection := d, m_bDirectionPresent := d \<noteq> DIRECTION_NONE\<rparr>"

definition NegotiateDirection :: "sdp_direction \<Rightarrow> 'a SdpParameter_scheme \<Rightarrow> 'a SdpParameter_scheme" where
  "NegotiateDirection nCurrentDirection p =
     (if m_nDirection p = DIRECTION_SENDRECV \<or> m_nDirection p = DIRECTION_NONE then
        (if nCurrentDirection = DIRECTION_SENDONLY then p\<lparr>m_nDirection := DIRECTION_RECVONLY\<rparr>
         else if nCurrentDirection = DIRECTION_RECVONLY then p\<lparr>m_nDirection := DIRECTION_SENDONLY\<rparr>
         else if nCurrentDirection = DIRECTION_SENDRECV then p\<lparr>m_nDirection := DIRECTION_SENDRECV\<rparr>
         else p)
      else if nCurrentDirection = DIRECTION_INACTIVE then p\<lparr>m_nDirection := DIRECTION_INACTIVE\<rparr>
      else p)"

text \<open>The three overloads of \<open>UpdateDirection\<close>: mirror, take over, and the offerer's special case.\<close>

definition UpdateDirection_mirror :: "'a SdpParameter_scheme \<Rightarrow> 'a SdpParameter_scheme" where
  "UpdateDirection_mirror p =
     (if m_nDirection p = DIRECTION_SENDONLY then p\<lparr>m_nDirection := DIRECTION_RECVONLY\<rparr>
      else if m_nDirection p = DIRECTION_RECVONLY then p\<lparr>m_nDirection := DIRECTION_SENDONLY\<rparr>
      else p)"

definition UpdateDirection_from ::
    "'b SdpParameter_scheme \<Rightarrow> 'a SdpParameter_scheme \<Rightarrow> 'a SdpParameter_scheme" where
  "UpdateDirection_from objParam p =
     p\<lparr>m_bDirectionPresent := m_bDirectionPresent objParam,
       m_nPreviousDirection := m_nDirection p, m_nDirection := m_nDirection objParam\<rparr>"

definition UpdateDirection_offerer :: "'a SdpParameter_scheme \<Rightarrow> 'b SdpParameter_scheme
    \<Rightarrow> 'c SdpParameter_scheme \<Rightarrow> 'c SdpParameter_scheme" where
  "UpdateDirection_offerer p objPeer objProposal =
     (let q = (if m_nDirection objPeer = DIRECTION_SENDRECV \<or> m_nDirection objPeer = DIRECTION_NONE then
                 (if m_nDirection p = DIRECTION_SENDONLY
                  then objProposal\<lparr>m_bDirectionPresent := True, m_nDirection := DIRECTION_RECVONLY\<rparr>
                  else if m_nDirection p = DIRECTION_RECVONLY
                  then objProposal\<lparr>m_bDirectionPresent := True, m_nDirection := DIRECTION_SENDONLY\<rparr>
                  else if m_nDirection p = DIRECTION_SENDRECV
                  then objProposal\<lparr>m_bDirectionPresent := True, m_nDirection := DIRECTION_SENDRECV\<rparr>
                  else objProposal)
               else objProposal);
          q = (if m_nDirection p = DIRECTION_INACTIVE
               then q\<lparr>m_bDirectionPresent := True, m_nDirection := DIRECTION_INACTIVE\<rparr> else q)
      in q\<lparr>m_nPreviousDirection := m_nPreviousDirection p\<rparr>)"

definition ValidateDirection :: "'a SdpParameter_scheme \<Rightarrow> 'b SdpParameter_scheme \<Rightarrow> bool" where
  "ValidateDirection p pPeer =
     (if m_nDirection pPeer = DIRECTION_RECVONLY then m_nDirection p \<noteq> DIRECTION_RECVONLY
      else if m_nDirection pPeer = DIRECTION_SENDONLY then m_nDirection p \<noteq> DIRECTION_SENDONLY
      else True)"

definition SdpParameter_UpdateProperties ::
    "'b SdpParameter_scheme \<Rightarrow> 'a SdpParameter_scheme \<Rightarrow> 'a SdpParameter_scheme" where
  "SdpParameter_UpdateProperties objParam p =
     (let p = p\<lparr>m_nPreviousDirection := m_nPreviousDirection objParam\<rparr>;
          lines = m_abLineContains objParam;
          p = (if TYPE_I \<in> lines
               then p\<lparr>m_pInformation := m_pInformation objParam,
                      m_abLineContains := insert TYPE_I (m_abLineContains p)\<rparr> else p);
          p = (if TYPE_B \<in> lines
               then p\<lparr>m_objBandwidths := m_objBandwidths objParam,
                      m_abLineContains := insert TYPE_B (m_abLineContains p)\<rparr> else p);
          p = (if TYPE_K \<in> lines
               then p\<lparr>m_pKey := m_pKey objParam,
                      m_abLineContains := insert TYPE_K (m_abLineContains p)\<rparr> else p);
          p = p\<lparr>ATTR_CONNECTION_contained := ATTR_CONNECTION_contained objParam,
                ATTR_SETUP_contained := ATTR_SETUP_contained objParam\<rparr>;
          p = (if ATTR_SETUP_contained p then p\<lparr>m_nAttrSetup := m_nAttrSetup objParam\<rparr> else p);
          p = (if ATTR_CONNECTION_contained p
               then p\<lparr>m_nAttrConnection := m_nAttrConnection objParam\<rparr> else p)
      in if TYPE_A \<in> lines
         then p\<lparr>m_objAttributes := m_objAttributes objParam,
                m_abLineContains := insert TYPE_A (m_abLineContains p)\<rparr>
         else p)"

section \<open>The m-line\<close>

datatype sdp_media_type =
  TYPE_INVALID | TYPE_AUDIO | TYPE_VIDEO | TYPE_TEXT | TYPE_APPLICATION | TYPE_MESSAGE | TYPE_OTHER

datatype sdp_transport =
  TRANSPORT_INVALID | TRANSPORT_UDP | TRANSPORT_RTP_AVP | TRANSPORT_RTP_AVPF | TRANSPORT_RTP_SAVP
  | TRANSPORT_RTP_SAVPF | TRANSPORT_UDP_TLS_RTP_SAVP | TRANSPORT_TCP | TRANSPORT_TCP_MSRP
  | TRANSPORT_TCP_TLS_MSRP | TRANSPORT_OTHER

record SdpMedia =
  m_nMediaType :: sdp_media_type
  m_strMediaType :: AString
  m_nPort :: int
  m_nNumOfPort :: int
  m_nTransportProtocol :: sdp_transport
  m_strTransportProtocol :: AString
  m_objFormats :: "AString list"

definition IsTokenCharacter :: "char \<Rightarrow> bool" where
  "IsTokenCharacter c =
     (let n = of_char c :: nat
      in n = 0x21 \<or> (0x23 \<le> n \<and> n \<le> 0x27) \<or> (0x2A \<le> n \<and> n \<le> 0x2B) \<or> (0x2D \<le> n \<and> n \<le> 0x2E)
         \<or> (0x30 \<le> n \<and> n \<le> 0x39) \<or> (0x41 \<le> n \<and> n \<le> 0x5A) \<or> (0x5E \<le> n \<and> n \<le> 0x7E))"

definition IsTokenString :: "AString \<Rightarrow> bool" where
  "IsTokenString s = (case s of None \<Rightarrow> False | Some v \<Rightarrow> v \<noteq> [] \<and> list_all IsTokenCharacter v)"

fun MEDIA :: "sdp_media_type \<Rightarrow> AString" where
  "MEDIA TYPE_AUDIO = Some ''audio''"
| "MEDIA TYPE_VIDEO = Some ''video''"
| "MEDIA TYPE_TEXT = Some ''text''"
| "MEDIA TYPE_APPLICATION = Some ''application''"
| "MEDIA TYPE_MESSAGE = Some ''message''"
| "MEDIA _ = None"

fun TRANSPORT :: "sdp_transport \<Rightarrow> AString" where
  "TRANSPORT TRANSPORT_UDP = Some ''udp''"
| "TRANSPORT TRANSPORT_RTP_AVP = Some ''RTP/AVP''"
| "TRANSPORT TRANSPORT_RTP_AVPF = Some ''RTP/AVPF''"
| "TRANSPORT TRANSPORT_RTP_SAVP = Some ''RTP/SAVP''"
| "TRANSPORT TRANSPORT_RTP_SAVPF = Some ''RTP/SAVPF''"
| "TRANSPORT TRANSPORT_UDP_TLS_RTP_SAVP = Some ''UDP/TLS/RTP/SAVP''"
| "TRANSPORT TRANSPORT_TCP = Some ''tcp''"
| "TRANSPORT TRANSPORT_TCP_MSRP = Some ''TCP/MSRP''"
| "TRANSPORT TRANSPORT_TCP_TLS_MSRP = Some ''TCP/TLS/MSRP''"
| "TRANSPORT _ = None"

text \<open>
  \<open>SetValue\<close> leaves what it has written when a later check fails: an unknown transport whose name
  is not given stops it before the formats are taken over.
\<close>

definition SdpMedia_SetValue :: "sdp_media_type \<Rightarrow> int \<Rightarrow> sdp_transport \<Rightarrow> AString list \<Rightarrow> AString
    \<Rightarrow> AString \<Rightarrow> int \<Rightarrow> SdpMedia \<Rightarrow> bool \<times> SdpMedia" where
  "SdpMedia_SetValue nType nPort nTransportProtocol objFormats strOtherType
       strOtherTransportProtocol nNumOfPort m =
     (if nType = TYPE_INVALID then (False, m)
      else if nTransportProtocol = TRANSPORT_INVALID then (False, m)
      else
        (let m = m\<lparr>m_nMediaType := nType\<rparr> in
         if nType = TYPE_OTHER \<and> \<not> IsTokenString strOtherType then (False, m)
         else
           (let m = m\<lparr>m_strMediaType := (if nType = TYPE_OTHER then strOtherType else MEDIA nType),
                      m_nPort := nPort, m_nNumOfPort := nNumOfPort,
                      m_nTransportProtocol := nTransportProtocol\<rparr>
            in if nTransportProtocol = TRANSPORT_OTHER \<and> \<not> IsTokenString strOtherTransportProtocol
               then (False, m)
               else
                 (let m = m\<lparr>m_strTransportProtocol :=
                             (if nTransportProtocol = TRANSPORT_OTHER then strOtherTransportProtocol
                              else TRANSPORT nTransportProtocol)\<rparr>
                  in if list_all IsTokenString objFormats
                     then (True, m\<lparr>m_objFormats := objFormats\<rparr>)
                     else (False, m)))))"

definition SetTransportProtocol :: "sdp_transport \<Rightarrow> AString \<Rightarrow> SdpMedia \<Rightarrow> bool \<times> SdpMedia" where
  "SetTransportProtocol nTransportProtocol strOtherTransportProtocol m =
     (if nTransportProtocol = TRANSPORT_INVALID then (False, m)
      else
        (let m = m\<lparr>m_nTransportProtocol := nTransportProtocol\<rparr>
         in if nTransportProtocol = TRANSPORT_OTHER then
              (if IsTokenString strOtherTransportProtocol
               then (True, m\<lparr>m_strTransportProtocol := strOtherTransportProtocol\<rparr>)
               else (False, m))
            else (True, m\<lparr>m_strTransportProtocol := TRANSPORT nTransportProtocol\<rparr>)))"

definition SdpMedia_new :: SdpMedia where
  "SdpMedia_new =
     \<lparr> m_nMediaType = TYPE_INVALID, m_strMediaType = None, m_nPort = 0, m_nNumOfPort = 0,
       m_nTransportProtocol = TRANSPORT_INVALID, m_strTransportProtocol = None, m_objFormats = [] \<rparr>"

section \<open>Media formats\<close>

datatype sdp_format_type = TYPE_MSRP | TYPE_UDP | TYPE_TCP | FORMAT_TYPE_OTHER

record SdpAvCodec =
  av_strValue :: AString
  m_nPayloadType :: int
  m_strCodecName :: AString
  m_nClockRate :: int
  m_strEncodingParameters :: AString
  m_strFmtp :: AString
  m_nAmrOperationMode :: int

text \<open>A format of an RTP stream is a codec; every other one is a type and a value.\<close>

datatype SdpMediaFormat = FORMAT_RTP SdpAvCodec | FORMAT sdp_format_type AString

fun format_value :: "SdpMediaFormat \<Rightarrow> AString" where
  "format_value (FORMAT_RTP c) = av_strValue c"
| "format_value (FORMAT _ v) = v"

definition IsDynamicPayloadType :: "int \<Rightarrow> bool" where
  "IsDynamicPayloadType nType = (96 \<le> nType \<and> nType \<le> 127)"

definition SdpAvCodec_Equals :: "SdpAvCodec \<Rightarrow> SdpAvCodec \<Rightarrow> bool" where
  "SdpAvCodec_Equals c pCodec =
     (if \<not> IsDynamicPayloadType (m_nPayloadType c) \<and> m_nPayloadType c \<noteq> m_nPayloadType pCodec then False
      else if IsDynamicPayloadType (m_nPayloadType c)
              \<and> \<not> AString_EqualsIgnoreCase (m_strCodecName c) (m_strCodecName pCodec) then False
      else if m_nClockRate c \<noteq> m_nClockRate pCodec then False
      else if m_strCodecName c = Some ''AMR'' \<or> m_strCodecName c = Some ''AMR-WB''
      then m_nAmrOperationMode c = m_nAmrOperationMode pCodec
      else True)"

fun SdpMediaFormat_Equals :: "SdpMediaFormat \<Rightarrow> SdpMediaFormat \<Rightarrow> bool" where
  "SdpMediaFormat_Equals (FORMAT_RTP c) (FORMAT_RTP c') = SdpAvCodec_Equals c c'"
| "SdpMediaFormat_Equals (FORMAT ty v) (FORMAT ty' v') = (ty = ty' \<and> AString_EqualsIgnoreCase v v')"
| "SdpMediaFormat_Equals _ _ = False"

fun IsSameAvCodecPresent :: "SdpMediaFormat list \<Rightarrow> SdpMediaFormat \<Rightarrow> bool" where
  "IsSameAvCodecPresent [] _ = False"
| "IsSameAvCodecPresent (FORMAT_RTP c' # fs) (FORMAT_RTP c) =
     (m_nPayloadType c = m_nPayloadType c' \<or> IsSameAvCodecPresent fs (FORMAT_RTP c))"
| "IsSameAvCodecPresent (FORMAT _ _ # fs) (FORMAT_RTP c) = IsSameAvCodecPresent fs (FORMAT_RTP c)"
| "IsSameAvCodecPresent _ (FORMAT _ _) = False"

fun IsSameNonAvCodecPresent :: "SdpMediaFormat list \<Rightarrow> SdpMediaFormat \<Rightarrow> bool" where
  "IsSameNonAvCodecPresent _ (FORMAT_RTP _) = False"
| "IsSameNonAvCodecPresent [] _ = False"
| "IsSameNonAvCodecPresent (FORMAT ty v # fs) f =
     (SdpMediaFormat_Equals (FORMAT ty v) f \<or> IsSameNonAvCodecPresent fs f)"
| "IsSameNonAvCodecPresent (FORMAT_RTP _ # fs) f = IsSameNonAvCodecPresent fs f"

section \<open>Media groups\<close>

datatype sdp_group = LS | FID | SRF | GROUP_OTHER

record SdpMediaGroup =
  m_nType :: sdp_group
  m_strType :: AString
  m_objMids :: "string list"
  m_objMediaStreamIndexes :: "int list"

definition SdpMediaGroup_new :: SdpMediaGroup where
  "SdpMediaGroup_new =
     \<lparr> m_nType = GROUP_OTHER, m_strType = None, m_objMids = [], m_objMediaStreamIndexes = [] \<rparr>"

text \<open>
  Copying a group leaves its id tags behind: the copy constructor and the assignment take over
  type and stream indexes only.
\<close>

definition SdpMediaGroup_copy :: "SdpMediaGroup \<Rightarrow> SdpMediaGroup" where
  "SdpMediaGroup_copy other =
     \<lparr> m_nType = m_nType other, m_strType = m_strType other, m_objMids = [],
       m_objMediaStreamIndexes = m_objMediaStreamIndexes other \<rparr>"

fun RemoveMediaStream :: "int \<Rightarrow> int list \<Rightarrow> int list option" where
  "RemoveMediaStream nMid [] = None"
| "RemoveMediaStream nMid (i # is) =
     (if nMid = i then Some is else map_option (Cons i) (RemoveMediaStream nMid is))"

definition SdpMediaGroup_ToSdp :: "SdpMediaGroup \<Rightarrow> string" where
  "SdpMediaGroup_ToSdp g =
     ''a=group:'' @ (case m_strType g of None \<Rightarrow> [] | Some t \<Rightarrow> t)
       @ concat (map (\<lambda>mid. CHR '' '' # mid) (m_objMids g)) @ [CHR 0x0D, CHR 0x0A]"

end
