(* ===== verification/SdpMediaParam.thy ===== *)
theory SdpMediaParam
  imports SdpParam
begin

text \<open>
  The media-level parameter of a description and its negotiation with the peer's one
  (\<open>protocol/sdp/offeranswer/SdpMediaParameter.cpp\<close>).
\<close>

section \<open>The media-level parameter\<close>

datatype media_attr = ATTR_MID | ATTR_PTIME | ATTR_QOS_CONF | ATTR_QOS_CURR | ATTR_QOS_DES | ATTR_RCTP

record SdpMediaParameter = SdpParameter +
  m_nMid :: int
  m_objMedia :: SdpMedia
  m_objConnections :: "string list"
  m_objPrevConnections :: "string list"
  m_objMediaFormats :: "SdpMediaFormat list"
  m_abAttributeContains :: "media_attr set"
  m_strAttrMid :: AString
  m_pCurrentStatus :: AString
  m_pDesiredStatus :: AString
  m_pConfirmedStatus :: AString

definition SdpMediaParameter_new :: "int \<Rightarrow> SdpMediaParameter" where
  "SdpMediaParameter_new nMid =
     SdpParameter.extend SdpParameter_new
       \<lparr> m_nMid = nMid, m_objMedia = SdpMedia_new, m_objConnections = [], m_objPrevConnections = [],
         m_objMediaFormats = [], m_abAttributeContains = {}, m_strAttrMid = None,
         m_pCurrentStatus = None, m_pDesiredStatus = None, m_pConfirmedStatus = None \<rparr>"

text \<open>The assignment keeps the identifier of its target; the copy constructor copies all.\<close>

definition SdpMediaParameter_assign :: "SdpMediaParameter \<Rightarrow> SdpMediaParameter \<Rightarrow> SdpMediaParameter" where
  "SdpMediaParameter_assign p other = other\<lparr>m_nMid := m_nMid p\<rparr>"

definition IsQosPreconditionPresent :: "SdpMediaParameter \<Rightarrow> bool" where
  "IsQosPreconditionPresent p =
     (ATTR_QOS_CONF \<in> m_abAttributeContains p \<or> ATTR_QOS_CURR \<in> m_abAttributeContains p
      \<or> ATTR_QOS_DES \<in> m_abAttributeContains p)"

definition MarkRejectedOrRemoved :: "SdpMediaParameter \<Rightarrow> SdpMediaParameter" where
  "MarkRejectedOrRemoved p = p\<lparr>m_objMedia := (m_objMedia p)\<lparr>m_nPort := 0, m_nNumOfPort := 0\<rparr>\<rparr>"

definition RemoveConnections :: "SdpMediaParameter \<Rightarrow> SdpMediaParameter" where
  "RemoveConnections p = p\<lparr>m_objConnections := []\<rparr>"

definition IsMediaAccepted :: "SdpMediaParameter \<Rightarrow> bool" where
  "IsMediaAccepted p = (m_nPort (m_objMedia p) \<noteq> 0)"

definition RemovePrecondition :: "media_attr \<Rightarrow> SdpMediaParameter \<Rightarrow> SdpMediaParameter" where
  "RemovePrecondition nAttribute p =
     (case nAttribute of
        ATTR_QOS_CURR \<Rightarrow>
          p\<lparr>m_pCurrentStatus := None, m_abAttributeContains := m_abAttributeContains p - {ATTR_QOS_CURR}\<rparr>
      | ATTR_QOS_DES \<Rightarrow>
          p\<lparr>m_pDesiredStatus := None, m_abAttributeContains := m_abAttributeContains p - {ATTR_QOS_DES}\<rparr>
      | ATTR_QOS_CONF \<Rightarrow>
          p\<lparr>m_pConfirmedStatus := None, m_abAttributeContains := m_abAttributeContains p - {ATTR_QOS_CONF}\<rparr>
      | _ \<Rightarrow> p)"

definition SdpMediaParameter_UpdateProperties ::
    "SdpMediaParameter \<Rightarrow> SdpMediaParameter \<Rightarrow> SdpMediaParameter" where
  "SdpMediaParameter_UpdateProperties objMediaParam p =
     (let o_media = m_objMedia objMediaParam;
          p = (if m_nPort (m_objMedia p) \<noteq> 0
               then p\<lparr>m_objMedia :=
                      snd (SdpMedia_SetValue (m_nMediaType o_media) (m_nPort o_media)
                             (m_nTransportProtocol o_media) (map format_value (m_objMediaFormats p))
                             (m_strMediaType o_media) None 0 (m_objMedia p))\<rparr>
               else p);
          p = p\<lparr>m_objConnections := []\<rparr>;
          p = (if TYPE_C \<in> m_abLineContains objMediaParam
               then p\<lparr>m_objConnections := m_objConnections objMediaParam,
                      m_abLineContains := insert TYPE_C (m_abLineContains p)\<rparr> else p);
          p = p\<lparr>m_objPrevConnections := m_objPrevConnections objMediaParam\<rparr>;
          p = SdpParameter_UpdateProperties objMediaParam p;
          p = p\<lparr>m_abAttributeContains := m_abAttributeContains objMediaParam\<rparr>;
          p = (if ATTR_MID \<in> m_abAttributeContains p
               then p\<lparr>m_strAttrMid := m_strAttrMid objMediaParam\<rparr> else p)
      in p\<lparr>m_pCurrentStatus := m_pCurrentStatus objMediaParam,
           m_pDesiredStatus := m_pDesiredStatus objMediaParam,
           m_pConfirmedStatus := m_pConfirmedStatus objMediaParam\<rparr>)"

section \<open>Negotiation of the formats\<close>

text \<open>
  What the loops carry: the formats accepted from the local side, the formats of the peer that
  are settled, whether any format matched, and whether the peer's current one did. The order is
  the peer's: the build defines \<open>__IMS_MEDIA_FORMAT_PREFERENCE_ORDER_BY_REMOTE_ENDPOINT__\<close>.
\<close>

record format_match =
  objAcceptedMediaFormats :: "SdpMediaFormat list"
  objPeerMediaFormats :: "SdpMediaFormat list"
  bAtLeastOneCodecMatched :: bool
  bMediaFormatFound :: bool

fun match_local_formats ::
    "bool \<Rightarrow> bool \<Rightarrow> SdpMediaFormat \<Rightarrow> SdpMediaFormat list \<Rightarrow> format_match \<Rightarrow> format_match" where
  "match_local_formats bInitialOffer bIsOffer pPeer [] s = s"
| "match_local_formats bInitialOffer bIsOffer pPeer (pLocal # ls) s =
     (if IsSameAvCodecPresent (objPeerMediaFormats s) pPeer then s
      else if \<not> bIsOffer \<and> IsSameAvCodecPresent (objAcceptedMediaFormats s) pLocal
      then match_local_formats bInitialOffer bIsOffer pPeer ls s
      else if SdpMediaFormat_Equals pPeer pLocal then
        (if bIsOffer \<and> \<not> bInitialOffer \<and> format_value pPeer \<noteq> format_value pLocal
         then match_local_formats bInitialOffer bIsOffer pPeer ls
                (if IsSameAvCodecPresent (objPeerMediaFormats s) pPeer then s
                 else s\<lparr>objPeerMediaFormats := objPeerMediaFormats s @ [pPeer]\<rparr>)
         else match_local_formats bInitialOffer bIsOffer pPeer ls
                (s\<lparr>bAtLeastOneCodecMatched := True,
                   objPeerMediaFormats := objPeerMediaFormats s @ [pPeer],
                   objAcceptedMediaFormats := objAcceptedMediaFormats s @ [pLocal],
                   bMediaFormatFound := True\<rparr>))
      else match_local_formats bInitialOffer bIsOffer pPeer ls s)"

definition add_offered_format :: "SdpMediaFormat \<Rightarrow> format_match \<Rightarrow> format_match" where
  "add_offered_format f s =
     s\<lparr>bAtLeastOneCodecMatched := True, objPeerMediaFormats := objPeerMediaFormats s @ [f],
       objAcceptedMediaFormats := objAcceptedMediaFormats s @ [f]\<rparr>"

fun match_peer_formats ::
    "bool \<Rightarrow> bool \<Rightarrow> SdpMediaFormat list \<Rightarrow> SdpMediaFormat list \<Rightarrow> format_match \<Rightarrow> format_match" where
  "match_peer_formats bInitialOffer bIsOffer locals [] s = s"
| "match_peer_formats bInitialOffer bIsOffer locals (pPeer # ps) s =
     (let s = match_local_formats bInitialOffer bIsOffer pPeer locals (s\<lparr>bMediaFormatFound := False\<rparr>);
          s = (if bIsOffer \<and> \<not> bInitialOffer \<and> \<not> bMediaFormatFound s
                  \<and> \<not> IsSameAvCodecPresent (objPeerMediaFormats s) pPeer
                  \<and> \<not> IsSameNonAvCodecPresent (objPeerMediaFormats s) pPeer
               then add_offered_format pPeer s else s)
      in match_peer_formats bInitialOffer bIsOffer locals ps s)"

fun add_new_formats :: "SdpMediaFormat list \<Rightarrow> format_match \<Rightarrow> format_match" where
  "add_new_formats [] s = s"
| "add_new_formats (f # fs) s =
     add_new_formats fs
       (if IsSameAvCodecPresent (objPeerMediaFormats s) f
           \<or> IsSameNonAvCodecPresent (objPeerMediaFormats s) f
        then s else add_offered_format f s)"

definition negotiate_formats ::
    "bool \<Rightarrow> bool \<Rightarrow> SdpMediaFormat list \<Rightarrow> SdpMediaFormat list \<Rightarrow> format_match" where
  "negotiate_formats bInitialOffer bIsOffer locals peers =
     (let s = match_peer_formats bInitialOffer bIsOffer locals peers
                \<lparr> objAcceptedMediaFormats = [], objPeerMediaFormats = [],
                  bAtLeastOneCodecMatched = False, bMediaFormatFound = False \<rparr>
      in if bIsOffer then
           (let s = add_new_formats peers s
            in if \<not> bInitialOffer \<and> \<not> bAtLeastOneCodecMatched s
               then (let s = s\<lparr>objAcceptedMediaFormats :=
                                objAcceptedMediaFormats s @ objPeerMediaFormats s\<rparr>
                     in if objAcceptedMediaFormats s \<noteq> []
                        then s\<lparr>bAtLeastOneCodecMatched := True\<rparr> else s)
               else s)
         else s)"

section \<open>Comparison with the peer's media\<close>

datatype oa_result =
  RESULT_NOT_CHANGED | RESULT_NOT_DONE | RESULT_SUCCESS | RESULT_FAILURE
  | RESULT_QOS_PRECONDITION_PRESENT | RESULT_NOT_FOUND

text \<open>
  An answer may name another transport when the offer listed capabilities (\<open>tcap\<close>): the local
  m-line then takes it over. Both branches of the code do the same.
\<close>

definition take_over_transport :: "bool \<Rightarrow> SdpMediaParameter \<Rightarrow> SdpMediaParameter \<Rightarrow> SdpMediaParameter" where
  "take_over_transport bIsOffer pPeerParam p =
     (if m_nTransportProtocol (m_objMedia pPeerParam) \<noteq> m_nTransportProtocol (m_objMedia p)
         \<and> \<not> bIsOffer \<and> GetAttribute TCAP p \<noteq> None
      then p\<lparr>m_objMedia := snd (SetTransportProtocol
               (m_nTransportProtocol (m_objMedia pPeerParam)) None (m_objMedia p))\<rparr>
      else p)"

text \<open>
  \<open>Compare\<close> gives the result, the local parameter, the negotiated view of the peer when there is
  one, and the proposal.
\<close>

definition SdpMediaParameter_Compare :: "bool \<Rightarrow> bool \<Rightarrow> SdpMediaParameter \<Rightarrow> SdpMediaParameter
    \<Rightarrow> SdpMediaParameter
    \<Rightarrow> oa_result \<times> SdpMediaParameter \<times> SdpMediaParameter option \<times> SdpMediaParameter" where
  "SdpMediaParameter_Compare bInitialOffer bIsOffer p pPeerParam pProposalParam =
     (let pProposalParam = pProposalParam\<lparr>m_objMedia := m_objMedia pPeerParam\<rparr>;
          live = (m_nPort (m_objMedia pPeerParam) \<noteq> 0)
      in if live \<and> m_nMediaType (m_objMedia pPeerParam) \<noteq> m_nMediaType (m_objMedia p)
         then (RESULT_NOT_FOUND, p, None, pProposalParam)
         else
           (let p = (if live then take_over_transport bIsOffer pPeerParam p else p)
            in if live \<and> m_nTransportProtocol (m_objMedia pPeerParam) \<noteq> m_nTransportProtocol (m_objMedia p)
               then (RESULT_NOT_FOUND, p, None, pProposalParam)
               else
                 (let s = (if live
                           then negotiate_formats bInitialOffer bIsOffer (m_objMediaFormats p)
                                  (m_objMediaFormats pPeerParam)
                           else \<lparr> objAcceptedMediaFormats = [], objPeerMediaFormats = [],
                                  bAtLeastOneCodecMatched = True, bMediaFormatFound = False \<rparr>)
                  in if \<not> bAtLeastOneCodecMatched s then (RESULT_NOT_FOUND, p, None, pProposalParam)
                     else if \<not> ValidateDirection p pPeerParam then (RESULT_FAILURE, p, None, pProposalParam)
                     else
                       (let q = UpdateDirection_from pPeerParam pProposalParam;
                            q = (if live then q\<lparr>m_objMediaFormats := objAcceptedMediaFormats s\<rparr> else q);
                            pNegotiatedPeerParam =
                              q\<lparr>m_objMediaFormats := (if live then objPeerMediaFormats s
                                                      else m_objMediaFormats pPeerParam)\<rparr>;
                            q = q\<lparr>m_nMid := m_nMid p\<rparr>
                        in (RESULT_SUCCESS, p, Some pNegotiatedPeerParam, q)))))"

end
