(* ===== verification/SdpSession.thy ===== *)
theory SdpSession
  imports SdpMediaParam
begin

text \<open>
  A session description as the offer/answer exchange keeps it, and its negotiation with the
  peer's one (\<open>engine/core/SessionParameter.cpp\<close>, \<open>protocol/sdp/offeranswer/SdpSessionParameter.cpp\<close>).
\<close>

section \<open>The session-level parameter\<close>

record SdpOrigin =
  origin_fields :: string
  m_strSessionVersion :: AString

record SdpSessionParameter = SdpParameter +
  m_objVersion :: string
  m_objOrigin :: SdpOrigin
  m_objSessionName :: string
  m_pUri :: AString
  m_pConnection :: AString
  m_pPreviousConnection :: AString
  m_objTimeDescriptions :: "string list"
  m_pTimezone :: AString

definition SdpSessionParameter_new :: SdpSessionParameter where
  "SdpSessionParameter_new =
     SdpParameter.extend SdpParameter_new
       \<lparr> m_objVersion = [], m_objOrigin = \<lparr> origin_fields = [], m_strSessionVersion = None \<rparr>,
         m_objSessionName = [], m_pUri = None, m_pConnection = None, m_pPreviousConnection = None,
         m_objTimeDescriptions = [], m_pTimezone = None \<rparr>"

definition Session_IncreaseSessionVersion :: "SdpSessionParameter \<Rightarrow> SdpSessionParameter" where
  "Session_IncreaseSessionVersion p =
     p\<lparr>m_objOrigin := (m_objOrigin p)\<lparr>m_strSessionVersion :=
         Sdp_IncreaseSessionVersion (m_strSessionVersion (m_objOrigin p))\<rparr>\<rparr>"

definition SdpSessionParameter_Compare ::
    "SdpSessionParameter \<Rightarrow> SdpSessionParameter \<Rightarrow> SdpSessionParameter \<Rightarrow> oa_result \<times> SdpSessionParameter" where
  "SdpSessionParameter_Compare p objPeerParam objProposalParam =
     (if \<not> ValidateDirection p objPeerParam then (RESULT_FAILURE, objProposalParam)
      else (RESULT_SUCCESS, UpdateDirection_from objPeerParam objProposalParam))"

definition SdpSessionParameter_UpdateProperties ::
    "SdpSessionParameter \<Rightarrow> SdpSessionParameter \<Rightarrow> SdpSessionParameter" where
  "SdpSessionParameter_UpdateProperties objSessionParam p =
     (let lines = m_abLineContains objSessionParam;
          p = p\<lparr>m_objVersion := m_objVersion objSessionParam, m_objOrigin := m_objOrigin objSessionParam,
                m_objSessionName := m_objSessionName objSessionParam,
                m_abLineContains := m_abLineContains p \<union> {TYPE_V, TYPE_O, TYPE_S}\<rparr>;
          p = (if TYPE_U \<in> lines
               then p\<lparr>m_pUri := m_pUri objSessionParam,
                      m_abLineContains := insert TYPE_U (m_abLineContains p)\<rparr> else p);
          p = (if TYPE_C \<in> lines
               then p\<lparr>m_pConnection := m_pConnection objSessionParam,
                      m_abLineContains := insert TYPE_C (m_abLineContains p)\<rparr> else p);
          p = (if m_pPreviousConnection objSessionParam \<noteq> None
               then p\<lparr>m_pPreviousConnection := m_pPreviousConnection objSessionParam\<rparr> else p);
          p = p\<lparr>m_objTimeDescriptions := m_objTimeDescriptions objSessionParam,
                m_abLineContains := insert TYPE_T (m_abLineContains p)\<rparr>;
          p = (if TYPE_Z \<in> lines
               then p\<lparr>m_pTimezone := m_pTimezone objSessionParam,
                      m_abLineContains := insert TYPE_Z (m_abLineContains p)\<rparr> else p)
      in SdpParameter_UpdateProperties objSessionParam p)"

section \<open>The session parameter\<close>

record SessionParameter =
  m_strRemoteVersion :: AString
  m_bLastSdpProvidedWithNegotiatedSdp :: bool
  m_objSessionParam :: SdpSessionParameter
  m_objMediaGroups :: "SdpMediaGroup list"
  sp_nMid :: int
  m_objMediaParams :: "SdpMediaParameter list"

definition SessionParameter_new :: SessionParameter where
  "SessionParameter_new =
     \<lparr> m_strRemoteVersion = None, m_bLastSdpProvidedWithNegotiatedSdp = False,
       m_objSessionParam = SdpSessionParameter_new, m_objMediaGroups = [], sp_nMid = 0,
       m_objMediaParams = [] \<rparr>"

text \<open>Copy constructor and assignment: every media parameter is copied, and so is every group.\<close>

definition SessionParameter_copy :: "SessionParameter \<Rightarrow> SessionParameter" where
  "SessionParameter_copy other =
     other\<lparr>m_objMediaGroups := map SdpMediaGroup_copy (m_objMediaGroups other)\<rparr>"

text \<open>\<open>Create\<close> without arguments: only the session-level part, the groups and the media are reset.\<close>

definition SessionParameter_Create :: "SessionParameter \<Rightarrow> SessionParameter" where
  "SessionParameter_Create p =
     p\<lparr>m_objMediaGroups := [], m_objMediaParams := [], m_objSessionParam := SdpSessionParameter_new\<rparr>"

definition CreateMediaParameter :: "SessionParameter \<Rightarrow> SessionParameter" where
  "CreateMediaParameter p =
     (let p = p\<lparr>sp_nMid := int (length (m_objMediaParams p))\<rparr>
      in p\<lparr>m_objMediaParams := m_objMediaParams p @ [SdpMediaParameter_new (sp_nMid p)]\<rparr>)"

definition GetMediaCount :: "SessionParameter \<Rightarrow> nat" where
  "GetMediaCount p = length (m_objMediaParams p)"

definition GetMediaParameter :: "nat \<Rightarrow> SessionParameter \<Rightarrow> SdpMediaParameter option" where
  "GetMediaParameter nMid p =
     (if length (m_objMediaParams p) \<le> nMid then None else Some (m_objMediaParams p ! nMid))"

definition GetMediaGroup :: "string \<Rightarrow> SessionParameter \<Rightarrow> SdpMediaGroup option" where
  "GetMediaGroup strMid p = find (\<lambda>g. strMid \<in> set (m_objMids g)) (m_objMediaGroups p)"

definition SessionParameter_IsSameVersion :: "SessionParameter \<Rightarrow> SessionParameter \<Rightarrow> bool" where
  "SessionParameter_IsSameVersion p pSessionParam = (m_strRemoteVersion p = m_strRemoteVersion pSessionParam)"

definition UpdateRemoteVersion :: "AString \<Rightarrow> SessionParameter \<Rightarrow> SessionParameter" where
  "UpdateRemoteVersion v p = p\<lparr>m_strRemoteVersion := v\<rparr>"

definition SessionParameter_IncreaseSessionVersion :: "SessionParameter \<Rightarrow> SessionParameter" where
  "SessionParameter_IncreaseSessionVersion p =
     p\<lparr>m_objSessionParam := Session_IncreaseSessionVersion (m_objSessionParam p)\<rparr>"

definition SetLastSdpProvidedWithNegotiatedSdp :: "bool \<Rightarrow> SessionParameter \<Rightarrow> SessionParameter" where
  "SetLastSdpProvidedWithNegotiatedSdp b p = p\<lparr>m_bLastSdpProvidedWithNegotiatedSdp := b\<rparr>"

abbreviation sdp_version :: "SessionParameter \<Rightarrow> AString" where
  "sdp_version p \<equiv> m_strSessionVersion (m_objOrigin (m_objSessionParam p))"

text \<open>The first group that streams \<open>nMid\<close> loses it.\<close>

fun RemoveMediaFromGroup :: "int \<Rightarrow> SdpMediaGroup list \<Rightarrow> SdpMediaGroup list" where
  "RemoveMediaFromGroup nMid [] = []"
| "RemoveMediaFromGroup nMid (g # gs) =
     (case RemoveMediaStream nMid (m_objMediaStreamIndexes g) of
        Some is \<Rightarrow> g\<lparr>m_objMediaStreamIndexes := is\<rparr> # gs
      | None \<Rightarrow> g # RemoveMediaFromGroup nMid gs)"

definition RemoveMediaParameter :: "nat \<Rightarrow> bool \<Rightarrow> SessionParameter \<Rightarrow> SessionParameter" where
  "RemoveMediaParameter nMid bRejectedOrRemoved p =
     (if length (m_objMediaParams p) \<le> nMid then p
      else
        (let ms = m_objMediaParams p;
             p = (if bRejectedOrRemoved
                  then p\<lparr>m_objMediaParams := ms[nMid := MarkRejectedOrRemoved (ms ! nMid)]\<rparr>
                  else p\<lparr>m_objMediaParams :=
                         take nMid ms @ map (\<lambda>i. (ms ! i)\<lparr>m_nMid := int (i - 1)\<rparr>) [Suc nMid..<length ms]\<rparr>)
         in p\<lparr>m_objMediaGroups := RemoveMediaFromGroup (int nMid) (m_objMediaGroups p)\<rparr>))"

definition SessionParameter_UpdateDirection :: "SessionParameter option \<Rightarrow> SessionParameter \<Rightarrow> SessionParameter" where
  "SessionParameter_UpdateDirection pOther p =
     (case pOther of
        None \<Rightarrow> p
      | Some other \<Rightarrow>
          p\<lparr>m_objSessionParam := UpdateDirection_from (m_objSessionParam other) (m_objSessionParam p),
            m_objMediaParams :=
              map2 UpdateDirection_from (m_objMediaParams other) (m_objMediaParams p)
                @ drop (length (m_objMediaParams other)) (m_objMediaParams p)\<rparr>)"

section \<open>Negotiation\<close>

definition CompareSessionParameters :: "bool \<Rightarrow> SessionParameter \<Rightarrow> SessionParameter
    \<Rightarrow> SessionParameter \<Rightarrow> SessionParameter \<Rightarrow> oa_result \<times> SessionParameter \<times> SessionParameter" where
  "CompareSessionParameters bIsOffer p pPeerParam pProposalView pPeerView =
     (let pProposalView = pProposalView\<lparr>m_strRemoteVersion := sdp_version pPeerParam\<rparr>;
          mine = m_objSessionParam p;
          peers = m_objSessionParam pPeerParam;
          (nOaResult, q) = SdpSessionParameter_Compare mine peers (m_objSessionParam pProposalView)
      in if nOaResult \<noteq> RESULT_SUCCESS
         then (nOaResult, pProposalView\<lparr>m_objSessionParam := q\<rparr>, pPeerView)
         else
           (let q = (if bIsOffer then q else UpdateDirection_offerer mine peers q);
                q = SdpSessionParameter_UpdateProperties mine q;
                q = UpdateDirection_mirror q
            in (RESULT_SUCCESS, pProposalView\<lparr>m_objSessionParam := q\<rparr>,
                pPeerView\<lparr>m_objSessionParam := peers\<rparr>)))"

text \<open>
  \<open>CompareMediaGroups\<close> without \<open>F_MEDIA_GROUP\<close>: that flag is only set in states in which no offer
  is handled. The peer's groups of a known type are taken over.
\<close>

definition CompareMediaGroups :: "SessionParameter \<Rightarrow> SessionParameter \<Rightarrow> SessionParameter \<Rightarrow> SessionParameter" where
  "CompareMediaGroups p pPeerParam pProposalView =
     (if m_objMediaGroups p = [] \<and> m_objMediaGroups pPeerParam = [] then pProposalView
      else pProposalView\<lparr>m_objMediaGroups :=
             map SdpMediaGroup_copy
               (filter (\<lambda>g. m_nType g \<noteq> GROUP_OTHER) (m_objMediaGroups pPeerParam))\<rparr>)"

text \<open>A stream of the peer that is taken as it is: a new m-line, or a slot that is used again.\<close>

definition new_stream :: "SdpMediaParameter \<Rightarrow> SdpMediaParameter \<Rightarrow> SdpMediaParameter" where
  "new_stream pPeerMedia pProposalMedia =
     UpdateDirection_mirror (RemoveConnections (SdpMediaParameter_assign pProposalMedia pPeerMedia))"

text \<open>
  One stream: the result is the local parameter, the proposal's one, the peer view's one, whether
  the stream matches, and the identifier to be taken out of the local groups when it does not.
\<close>

definition compare_stream :: "bool \<Rightarrow> bool \<Rightarrow> SdpMediaParameter option \<Rightarrow> SdpMediaParameter
    \<Rightarrow> SdpMediaParameter
    \<Rightarrow> SdpMediaParameter option \<times> SdpMediaParameter \<times> SdpMediaParameter \<times> bool \<times> int option" where
  "compare_stream bInitialOffer bIsOffer local pPeerMedia pProposalMedia =
     (case local of
        None \<Rightarrow> (None, new_stream pPeerMedia pProposalMedia, pPeerMedia, True, None)
      | Some pMedia \<Rightarrow>
          if bIsOffer \<and> m_nPort (m_objMedia pMedia) = 0 \<and> m_nPort (m_objMedia pPeerMedia) \<noteq> 0
          then (Some pMedia, new_stream pPeerMedia pProposalMedia, pPeerMedia, True, None)
          else
            (case SdpMediaParameter_Compare bInitialOffer bIsOffer pMedia pPeerMedia pProposalMedia of
               (RESULT_SUCCESS, pMedia, Some pNegotiatedPeerParam, pProposalMedia) \<Rightarrow>
                 (let q = (if bIsOffer then pProposalMedia
                           else UpdateDirection_offerer pMedia pPeerMedia pProposalMedia);
                      q = UpdateDirection_mirror (SdpMediaParameter_UpdateProperties pMedia q)
                  in (Some pMedia, q,
                      SdpMediaParameter_UpdateProperties pPeerMedia pNegotiatedPeerParam, True, None))
             | (_, pMedia, _, pProposalMedia) \<Rightarrow>
                 (let q = MarkRejectedOrRemoved (new_stream pPeerMedia pProposalMedia)
                  in (Some pMedia, q, pPeerMedia, False, Some (m_nMid q)))))"

fun CompareMediaParameters_loop :: "bool \<Rightarrow> bool \<Rightarrow> nat \<Rightarrow> SdpMediaParameter list
    \<Rightarrow> SessionParameter \<times> SessionParameter \<times> SessionParameter \<times> bool \<times> bool
    \<Rightarrow> SessionParameter \<times> SessionParameter \<times> SessionParameter \<times> bool \<times> bool" where
  "CompareMediaParameters_loop bInitialOffer bIsOffer i [] s = s"
| "CompareMediaParameters_loop bInitialOffer bIsOffer i (pPeerMedia # peers)
       (p, pProposalView, pPeerView, bAtLeastOneMatched, bQosPreconditionPresent) =
     (let pProposalView = CreateMediaParameter pProposalView;
          (local, q, view, ok, gone) =
            compare_stream bInitialOffer bIsOffer (GetMediaParameter i p) pPeerMedia
              (last (m_objMediaParams pProposalView));
          p = (case local of None \<Rightarrow> p
               | Some l \<Rightarrow> p\<lparr>m_objMediaParams := (m_objMediaParams p)[i := l]\<rparr>);
          p = (case gone of None \<Rightarrow> p
               | Some mid \<Rightarrow> p\<lparr>m_objMediaGroups := RemoveMediaFromGroup mid (m_objMediaGroups p)\<rparr>);
          pProposalView = pProposalView\<lparr>m_objMediaParams := butlast (m_objMediaParams pProposalView) @ [q]\<rparr>;
          pPeerView = pPeerView\<lparr>m_objMediaParams := m_objMediaParams pPeerView @ [view]\<rparr>
      in CompareMediaParameters_loop bInitialOffer bIsOffer (Suc i) peers
           (p, pProposalView, pPeerView, bAtLeastOneMatched \<or> ok,
            bQosPreconditionPresent \<or> ok \<and> IsQosPreconditionPresent q))"

definition CompareMediaParameters :: "bool \<Rightarrow> bool \<Rightarrow> SessionParameter \<Rightarrow> SessionParameter
    \<Rightarrow> SessionParameter \<Rightarrow> SessionParameter
    \<Rightarrow> oa_result \<times> SessionParameter \<times> SessionParameter \<times> SessionParameter" where
  "CompareMediaParameters bInitialOffer bIsOffer p pPeerParam pProposalView pPeerView =
     (case CompareMediaParameters_loop bInitialOffer bIsOffer 0 (m_objMediaParams pPeerParam)
             (p, pProposalView, pPeerView, False, False) of
        (p, pProposalView, pPeerView, bAtLeastOneMatched, bQosPreconditionPresent) \<Rightarrow>
          (if bAtLeastOneMatched
           then (if bQosPreconditionPresent then RESULT_QOS_PRECONDITION_PRESENT else RESULT_SUCCESS)
           else RESULT_NOT_FOUND, p, pProposalView, pPeerView))"

definition RemovePreconditions :: "SdpMediaParameter \<Rightarrow> SdpMediaParameter" where
  "RemovePreconditions p =
     RemovePrecondition ATTR_QOS_CONF (RemovePrecondition ATTR_QOS_DES (RemovePrecondition ATTR_QOS_CURR p))"

definition RemovePreconditionsIfNotSupport :: "SessionParameter \<Rightarrow> SessionParameter \<Rightarrow> SessionParameter" where
  "RemovePreconditionsIfNotSupport pProposalView pPeerView =
     pProposalView\<lparr>m_objMediaParams :=
       map2 (\<lambda>peer mine. if m_pCurrentStatus peer \<noteq> None \<or> m_pDesiredStatus peer \<noteq> None then mine
                         else RemovePreconditions mine)
            (m_objMediaParams pPeerView) (m_objMediaParams pProposalView)
         @ drop (length (m_objMediaParams pPeerView)) (m_objMediaParams pProposalView)\<rparr>"

text \<open>The answer to a first offer when nothing is known of the media: the offer is taken over.\<close>

definition GenerateAnswer_copy :: "SessionParameter \<Rightarrow> SessionParameter \<Rightarrow> oa_result \<times> SessionParameter \<times> SessionParameter" where
  "GenerateAnswer_copy p pOffer =
     (let pPeerView = (SessionParameter_copy pOffer)\<lparr>m_strRemoteVersion := sdp_version p\<rparr>;
          pProposalView = (SessionParameter_copy p)\<lparr>m_strRemoteVersion := sdp_version pOffer\<rparr>;
          q = UpdateDirection_mirror
                (UpdateDirection_from (m_objSessionParam pOffer) (m_objSessionParam pProposalView))
      in (RESULT_SUCCESS,
          pProposalView\<lparr>m_objSessionParam := q, sp_nMid := sp_nMid pOffer,
            m_objMediaGroups := map SdpMediaGroup_copy (m_objMediaGroups pOffer),
            m_objMediaParams := m_objMediaParams pProposalView
              @ map (\<lambda>m. UpdateDirection_mirror (RemoveConnections m)) (m_objMediaParams pOffer)\<rparr>,
          pPeerView))"

text \<open>
  \<open>GenerateAnswer\<close> (\<open>bIsOffer\<close>) and \<open>ProcessAnswer\<close> (not \<open>bIsOffer\<close>) differ in what they pass on:
  only the former knows the options and the first offer. The result holds the local parameter
  again: a negotiation may change it.
\<close>

definition negotiate :: "bool \<Rightarrow> bool \<Rightarrow> bool \<Rightarrow> SessionParameter \<Rightarrow> SessionParameter
    \<Rightarrow> SessionParameter \<Rightarrow> SessionParameter
    \<Rightarrow> oa_result \<times> SessionParameter \<times> SessionParameter \<times> SessionParameter" where
  "negotiate bInitialOffer bIsOffer media_param p pPeerParam pProposalView pPeerView =
     (case CompareSessionParameters bIsOffer p pPeerParam
             (SessionParameter_Create pProposalView) (SessionParameter_Create pPeerView) of
        (nOaResult, pProposalView, pPeerView) \<Rightarrow>
          if nOaResult \<noteq> RESULT_SUCCESS then (nOaResult, p, pProposalView, pPeerView)
          else
            (let pProposalView = CompareMediaGroups p pPeerParam pProposalView
             in if \<not> media_param then (RESULT_SUCCESS, p, pProposalView, pPeerView)
                else
                  (case CompareMediaParameters bInitialOffer bIsOffer p pPeerParam pProposalView pPeerView of
                     (nOaResult, p, pProposalView, pPeerView) \<Rightarrow>
                       (nOaResult, p,
                        if nOaResult = RESULT_QOS_PRECONDITION_PRESENT
                        then RemovePreconditionsIfNotSupport pProposalView pPeerView
                        else pProposalView, pPeerView))))"

definition GenerateAnswer :: "bool \<Rightarrow> bool \<Rightarrow> SessionParameter \<Rightarrow> SessionParameter
    \<Rightarrow> SessionParameter \<Rightarrow> SessionParameter
    \<Rightarrow> oa_result \<times> SessionParameter \<times> SessionParameter \<times> SessionParameter" where
  "GenerateAnswer media_param bInitialOffer = negotiate bInitialOffer True media_param"

definition ProcessAnswer :: "SessionParameter \<Rightarrow> SessionParameter \<Rightarrow> SessionParameter
    \<Rightarrow> SessionParameter \<Rightarrow> oa_result \<times> SessionParameter \<times> SessionParameter \<times> SessionParameter" where
  "ProcessAnswer = negotiate False False True"

end
