(* ===== verification/SdpOaState.thy ===== *)
theory SdpOaState
  imports SdpSession
begin

text \<open>
  The offer/answer state of a session (\<open>engine/core/SdpOaState.cpp\<close>): which side has an offer
  outstanding, the views of the session each side has, and what a SIP message with or without a
  description does to them.
\<close>

section \<open>Messages\<close>

datatype sip_method = SIP_INVITE | SIP_ACK | SIP_PRACK | SIP_UPDATE | SIP_OTHER

text \<open>
  The body of a message as the parser of \<open>protocol/sdp\<close> leaves it: none, one that cannot be
  decoded, one of which no session parameter can be built, or the session parameter built of it.
\<close>

datatype sdp_body = NO_SDP | SDP_MALFORMED | SDP_UNUSABLE | SDP SessionParameter

record ISipMessage =
  msg_method :: sip_method
  msg_response :: bool
  msg_status :: int
  msg_rpr :: bool
  msg_sdp :: sdp_body

definition IsProvisional :: "int \<Rightarrow> bool" where
  "IsProvisional nStatusCode = (100 < nStatusCode \<and> nStatusCode < 200)"

definition IsFinalSuccess :: "int \<Rightarrow> bool" where
  "IsFinalSuccess nStatusCode = (200 \<le> nStatusCode \<and> nStatusCode < 300)"

definition IsFinal :: "int \<Rightarrow> bool" where
  "IsFinal nStatusCode = (200 \<le> nStatusCode)"

section \<open>State\<close>

datatype oa_state =
  STATE_INVALID | STATE_IDLE | STATE_OFFER_SENT | STATE_OFFER_RECEIVED | STATE_ESTABLISHED
  | STATE_OFFER_CHANGE_SENT | STATE_OFFER_CHANGE_RECEIVED

datatype oa_trigger =
  TRIGGER_NONE | TRIGGER_INVITE | TRIGGER_ACK | TRIGGER_PRACK | TRIGGER_UPDATE | TRIGGER_SUCCESS_RESP
  | TRIGGER_FAILURE_RESP | TRIGGER_RPR | TRIGGER_PROVISIONAL_RESP | TRIGGER_CANCEL | TRIGGER_BYE

datatype oa_offer = OFFER_INVALID | OFFER_NEW | OFFER_REFRESH | OFFER_CHANGE

datatype oa_flow = MESSAGE_SENT | MESSAGE_RECEIVED

datatype oa_mode = MODE_IDLE | MODE_OFFERER | MODE_ANSWERER

record SdpOaState =
  m_nState :: oa_state
  m_nOldState :: oa_state
  m_nMode :: oa_mode
  m_bPreviewModeSupported :: bool
  m_bPreviewMode :: bool
  m_bStateChanged :: bool
  m_bOfferProgress :: bool
  m_bProvisionalRespWithSdp :: bool
  m_bSdpVersionCheck :: bool
  m_bAlwaysIncreaseSdpVersion :: bool
  m_pLastOfferMade :: "SessionParameter option"
  m_pCurrentView :: "SessionParameter option"
  m_pPeerView :: "SessionParameter option"
  m_pProposalView :: "SessionParameter option"
  m_pRefusedView :: "SessionParameter option"
  m_objCapabilities :: SessionParameter

definition SdpOaState_new :: "bool \<Rightarrow> bool \<Rightarrow> SdpOaState" where
  "SdpOaState_new bSdpVersionCheck bAlwaysIncreaseSdpVersion =
     \<lparr> m_nState = STATE_IDLE, m_nOldState = STATE_IDLE, m_nMode = MODE_IDLE,
       m_bPreviewModeSupported = False, m_bPreviewMode = False, m_bStateChanged = False,
       m_bOfferProgress = False, m_bProvisionalRespWithSdp = False,
       m_bSdpVersionCheck = bSdpVersionCheck,
       m_bAlwaysIncreaseSdpVersion = bAlwaysIncreaseSdpVersion, m_pLastOfferMade = None,
       m_pCurrentView = None, m_pPeerView = None, m_pProposalView = None, m_pRefusedView = None,
       m_objCapabilities = SessionParameter_new \<rparr>"

text \<open>The two transition tables.\<close>

fun STATE_SENT :: "oa_state \<Rightarrow> oa_trigger \<Rightarrow> oa_state" where
  "STATE_SENT STATE_IDLE t =
     (if t \<in> {TRIGGER_INVITE, TRIGGER_PRACK, TRIGGER_UPDATE, TRIGGER_SUCCESS_RESP, TRIGGER_RPR,
               TRIGGER_PROVISIONAL_RESP}
      then STATE_OFFER_SENT else STATE_IDLE)"
| "STATE_SENT STATE_OFFER_SENT t =
     (if t \<in> {TRIGGER_SUCCESS_RESP, TRIGGER_FAILURE_RESP, TRIGGER_CANCEL, TRIGGER_BYE}
      then STATE_OFFER_SENT else STATE_INVALID)"
| "STATE_SENT STATE_OFFER_RECEIVED t =
     (if t \<in> {TRIGGER_INVITE, TRIGGER_UPDATE} then STATE_INVALID
      else if t = TRIGGER_FAILURE_RESP then STATE_IDLE
      else if t \<in> {TRIGGER_CANCEL, TRIGGER_BYE} then STATE_OFFER_RECEIVED
      else STATE_ESTABLISHED)"
| "STATE_SENT STATE_ESTABLISHED t =
     (if t \<in> {TRIGGER_ACK, TRIGGER_FAILURE_RESP, TRIGGER_CANCEL, TRIGGER_BYE}
      then STATE_ESTABLISHED else STATE_OFFER_CHANGE_SENT)"
| "STATE_SENT STATE_OFFER_CHANGE_SENT t =
     (if t \<in> {TRIGGER_SUCCESS_RESP, TRIGGER_RPR, TRIGGER_CANCEL, TRIGGER_BYE}
      then STATE_OFFER_CHANGE_SENT else STATE_INVALID)"
| "STATE_SENT STATE_OFFER_CHANGE_RECEIVED t =
     (if t \<in> {TRIGGER_INVITE, TRIGGER_UPDATE} then STATE_INVALID
      else if t \<in> {TRIGGER_CANCEL, TRIGGER_BYE} then STATE_OFFER_CHANGE_RECEIVED
      else STATE_ESTABLISHED)"
| "STATE_SENT STATE_INVALID t = STATE_INVALID"

fun STATE_RECEIVED :: "oa_state \<Rightarrow> oa_trigger \<Rightarrow> oa_state" where
  "STATE_RECEIVED STATE_IDLE t =
     (if t \<in> {TRIGGER_ACK, TRIGGER_CANCEL, TRIGGER_BYE} then STATE_INVALID
      else if t = TRIGGER_FAILURE_RESP then STATE_IDLE
      else STATE_OFFER_RECEIVED)"
| "STATE_RECEIVED STATE_OFFER_SENT t =
     (if t \<in> {TRIGGER_INVITE, TRIGGER_UPDATE} then STATE_INVALID
      else if t = TRIGGER_FAILURE_RESP then STATE_IDLE
      else if t \<in> {TRIGGER_CANCEL, TRIGGER_BYE} then STATE_OFFER_SENT
      else STATE_ESTABLISHED)"
| "STATE_RECEIVED STATE_OFFER_RECEIVED t =
     (if t \<in> {TRIGGER_INVITE, TRIGGER_ACK, TRIGGER_UPDATE} then STATE_INVALID
      else STATE_OFFER_RECEIVED)"
| "STATE_RECEIVED STATE_ESTABLISHED t =
     (if t \<in> {TRIGGER_ACK, TRIGGER_FAILURE_RESP, TRIGGER_CANCEL, TRIGGER_BYE}
      then STATE_ESTABLISHED else STATE_OFFER_CHANGE_RECEIVED)"
| "STATE_RECEIVED STATE_OFFER_CHANGE_SENT t =
     (if t \<in> {TRIGGER_INVITE, TRIGGER_UPDATE} then STATE_INVALID
      else if t \<in> {TRIGGER_CANCEL, TRIGGER_BYE} then STATE_OFFER_CHANGE_SENT
      else STATE_ESTABLISHED)"
| "STATE_RECEIVED STATE_OFFER_CHANGE_RECEIVED t =
     (if t \<in> {TRIGGER_INVITE, TRIGGER_ACK, TRIGGER_UPDATE} then STATE_INVALID
      else STATE_OFFER_CHANGE_RECEIVED)"
| "STATE_RECEIVED STATE_INVALID t = STATE_INVALID"

section \<open>Views\<close>

definition SetCapabilities :: "SdpOaState \<Rightarrow> SdpOaState" where
  "SetCapabilities s =
     (case m_pProposalView s of None \<Rightarrow> s
      | Some v \<Rightarrow> s\<lparr>m_objCapabilities := SessionParameter_copy v\<rparr>)"

definition StartPreviewMode :: "SdpOaState \<Rightarrow> SdpOaState" where
  "StartPreviewMode s = (if m_bPreviewMode s then s else s\<lparr>m_bPreviewMode := True\<rparr>)"

definition StopPreviewMode :: "SdpOaState \<Rightarrow> SdpOaState" where
  "StopPreviewMode s = (if m_bPreviewMode s then s\<lparr>m_bPreviewMode := False\<rparr> else s)"

text \<open>A pointer to one of the views, or NULL: what \<open>GetCurrentCapabilities\<close> returns.\<close>

datatype view_ptr = LAST_OFFER_MADE | CURRENT_VIEW | CAPABILITIES

definition view_at :: "view_ptr \<Rightarrow> SdpOaState \<Rightarrow> SessionParameter option" where
  "view_at v s =
     (case v of LAST_OFFER_MADE \<Rightarrow> m_pLastOfferMade s | CURRENT_VIEW \<Rightarrow> m_pCurrentView s
      | CAPABILITIES \<Rightarrow> Some (m_objCapabilities s))"

definition set_view :: "view_ptr \<Rightarrow> SessionParameter \<Rightarrow> SdpOaState \<Rightarrow> SdpOaState" where
  "set_view v p s =
     (case v of LAST_OFFER_MADE \<Rightarrow> s\<lparr>m_pLastOfferMade := Some p\<rparr>
      | CURRENT_VIEW \<Rightarrow> s\<lparr>m_pCurrentView := Some p\<rparr> | CAPABILITIES \<Rightarrow> s\<lparr>m_objCapabilities := p\<rparr>)"

definition GetCurrentCapabilities :: "SdpOaState \<Rightarrow> view_ptr" where
  "GetCurrentCapabilities s =
     (if m_nState s = STATE_ESTABLISHED then
        (if m_pLastOfferMade s \<noteq> None then LAST_OFFER_MADE else CURRENT_VIEW)
      else if m_nState s = STATE_OFFER_RECEIVED then CAPABILITIES
      else if m_nState s = STATE_OFFER_CHANGE_RECEIVED \<and> m_pLastOfferMade s \<noteq> None
      then LAST_OFFER_MADE
      else CURRENT_VIEW)"

text \<open>A dereference of a view that is NULL ends the process; it is the value \<open>Inl\<close>.\<close>

datatype oa_fault = NULL_VIEW

definition SdpOaState_IncreaseSessionVersion :: "SdpOaState \<Rightarrow> oa_fault + SdpOaState" where
  "SdpOaState_IncreaseSessionVersion s =
     (case m_pCurrentView s of None \<Rightarrow> Inl NULL_VIEW
      | Some v \<Rightarrow>
          Inr (s\<lparr>m_pCurrentView := Some (SessionParameter_IncreaseSessionVersion v),
                 m_objCapabilities := SessionParameter_IncreaseSessionVersion (m_objCapabilities s),
                 m_pLastOfferMade := map_option SessionParameter_IncreaseSessionVersion (m_pLastOfferMade s)\<rparr>))"

definition AbortProposal :: "SdpOaState \<Rightarrow> SdpOaState" where
  "AbortProposal s =
     (if m_pProposalView s = None then s
      else s\<lparr>m_pProposalView := None, m_nMode := MODE_IDLE, m_bOfferProgress := False\<rparr>)"

definition InitiateOffer :: "oa_offer \<Rightarrow> SdpOaState \<Rightarrow> oa_fault + bool \<times> SdpOaState" where
  "InitiateOffer nType s =
     (if nType = OFFER_INVALID then Inr (False, s)
      else if m_nState s \<noteq> STATE_IDLE \<and> m_nState s \<noteq> STATE_ESTABLISHED then Inr (False, s)
      else
        (let propose = (\<lambda>pOffer s.
               Inr (True, s\<lparr>m_pProposalView := Some pOffer, m_nMode := MODE_OFFERER,
                            m_bOfferProgress := True\<rparr>))
         in if nType = OFFER_NEW then propose (SessionParameter_copy (m_objCapabilities s)) s
            else
              (case m_pCurrentView s of
                 None \<Rightarrow> Inl NULL_VIEW
               | Some v \<Rightarrow>
                   if nType = OFFER_REFRESH then propose (SessionParameter_copy v) s
                   else
                     (let pOffer = SessionParameter_IncreaseSessionVersion (SessionParameter_copy v)
                      in if m_bAlwaysIncreaseSdpVersion s
                         then (case SdpOaState_IncreaseSessionVersion s of
                                 Inl f \<Rightarrow> Inl f | Inr s \<Rightarrow> propose pOffer s)
                         else propose pOffer s))))"

datatype oa_status = OA_ERROR | OA_SUCCESS | OA_ALREADY_EXIST | OA_NOT_FOUND | OA_INVALID_STATE

definition CreateProposalView :: "SdpOaState \<Rightarrow> oa_fault + oa_status \<times> SdpOaState" where
  "CreateProposalView s =
     (if m_nState s \<notin> {STATE_IDLE, STATE_OFFER_RECEIVED, STATE_ESTABLISHED, STATE_OFFER_CHANGE_RECEIVED}
      then Inr (OA_INVALID_STATE, s)
      else if m_pProposalView s \<noteq> None then Inr (OA_ALREADY_EXIST, s)
      else (case InitiateOffer OFFER_CHANGE s of
              Inl f \<Rightarrow> Inl f
            | Inr (ok, s) \<Rightarrow> Inr (if ok then OA_SUCCESS else OA_ERROR, s)))"

definition CompleteExchange :: "SdpOaState \<Rightarrow> SdpOaState" where
  "CompleteExchange s =
     (let s = (if m_nState s = STATE_ESTABLISHED then
                 (case m_pProposalView s of
                    None \<Rightarrow> s
                  | Some v \<Rightarrow>
                      (let s = s\<lparr>m_pCurrentView := Some v\<rparr>
                       in if m_nMode s = MODE_ANSWERER
                          then s\<lparr>m_pLastOfferMade :=
                                 map_option (\<lambda>l. UpdateRemoteVersion (m_strRemoteVersion v)
                                   (SessionParameter_UpdateDirection (Some v) l)) (m_pLastOfferMade s)\<rparr>
                          else s))
               else s)
      in s\<lparr>m_pProposalView := None, m_nMode := MODE_IDLE, m_bStateChanged := False\<rparr>)"

definition RestoreState :: "SdpOaState \<Rightarrow> SdpOaState" where
  "RestoreState s =
     (let s = s\<lparr>m_pProposalView := None, m_nMode := MODE_IDLE, m_bStateChanged := False,
                m_bOfferProgress := False\<rparr>
      in case m_nState s of
           STATE_OFFER_SENT \<Rightarrow> s\<lparr>m_nState := STATE_IDLE\<rparr>
         | STATE_OFFER_RECEIVED \<Rightarrow> s\<lparr>m_nState := STATE_IDLE\<rparr>
         | STATE_OFFER_CHANGE_SENT \<Rightarrow> s\<lparr>m_nState := STATE_ESTABLISHED\<rparr>
         | STATE_OFFER_CHANGE_RECEIVED \<Rightarrow> s\<lparr>m_nState := STATE_ESTABLISHED\<rparr>
         | _ \<Rightarrow> s)"

definition CreateRefusedView :: "SdpOaState \<Rightarrow> SdpOaState" where
  "CreateRefusedView s =
     (if m_pRefusedView s \<noteq> None then s
      else s\<lparr>m_pRefusedView := Some (SessionParameter_copy
               (case m_pCurrentView s of Some v \<Rightarrow> v
                | None \<Rightarrow> (case m_pProposalView s of Some v \<Rightarrow> v
                           | None \<Rightarrow> (case m_pPeerView s of Some v \<Rightarrow> v
                                      | None \<Rightarrow> m_objCapabilities s))))\<rparr>)"

definition DestroyRefusedView :: "SdpOaState \<Rightarrow> SdpOaState" where
  "DestroyRefusedView s = s\<lparr>m_pRefusedView := None\<rparr>"

text \<open>Changes the application makes to the proposal, or to the current view when there is none.\<close>

definition SdpOaState_CreateMediaParameter :: "SdpOaState \<Rightarrow> oa_status \<times> SdpOaState" where
  "SdpOaState_CreateMediaParameter s =
     (case m_pProposalView s of
        None \<Rightarrow> (OA_INVALID_STATE, s)
      | Some v \<Rightarrow>
          if \<not> m_bOfferProgress s then (OA_INVALID_STATE, s)
          else (OA_SUCCESS, s\<lparr>m_pProposalView := Some (CreateMediaParameter v)\<rparr>))"

definition edit_view :: "(SessionParameter \<Rightarrow> SessionParameter) \<Rightarrow> SdpOaState \<Rightarrow> SdpOaState" where
  "edit_view f s =
     (case m_pProposalView s of
        Some v \<Rightarrow> s\<lparr>m_pProposalView := Some (f v)\<rparr>
      | None \<Rightarrow> s\<lparr>m_pCurrentView := map_option f (m_pCurrentView s)\<rparr>)"

definition SdpOaState_MarkRejectedOrRemoved :: "nat \<Rightarrow> SdpOaState \<Rightarrow> SdpOaState" where
  "SdpOaState_MarkRejectedOrRemoved nMid = edit_view (RemoveMediaParameter nMid True)"

definition SdpOaState_RemoveMediaParameter :: "nat \<Rightarrow> SdpOaState \<Rightarrow> SdpOaState" where
  "SdpOaState_RemoveMediaParameter nMid = edit_view (RemoveMediaParameter nMid False)"

definition EnablePreviewModeSupport :: "SdpOaState \<Rightarrow> SdpOaState" where
  "EnablePreviewModeSupport s = s\<lparr>m_bPreviewModeSupported := True\<rparr>"

text \<open>What the application may read: the current view of an established exchange, the peer's.\<close>

definition GetMediaCurrentView :: "nat \<Rightarrow> SdpOaState \<Rightarrow> oa_status + SdpMediaParameter" where
  "GetMediaCurrentView nMid s =
     (if m_nState s \<noteq> STATE_ESTABLISHED then Inl OA_INVALID_STATE
      else (case m_pCurrentView s of
              None \<Rightarrow> Inl OA_ERROR
            | Some v \<Rightarrow> (case GetMediaParameter nMid v of None \<Rightarrow> Inl OA_NOT_FOUND | Some m \<Rightarrow> Inr m)))"

definition GetMediaPeerView :: "nat \<Rightarrow> SdpOaState \<Rightarrow> oa_status + SdpMediaParameter" where
  "GetMediaPeerView nMid s =
     (case m_pPeerView s of
        None \<Rightarrow> Inl OA_ERROR
      | Some v \<Rightarrow>
          (case GetMediaParameter nMid v of
             Some m \<Rightarrow> Inr m
           | None \<Rightarrow>
               (case m_pProposalView s of
                  None \<Rightarrow> Inl OA_NOT_FOUND
                | Some w \<Rightarrow> (case GetMediaParameter nMid w of None \<Rightarrow> Inl OA_NOT_FOUND | Some m \<Rightarrow> Inr m))))"

definition GetMediaProposalView :: "nat \<Rightarrow> SdpOaState \<Rightarrow> oa_status + SdpMediaParameter" where
  "GetMediaProposalView nMid s =
     (if m_nState s = STATE_INVALID then Inl OA_INVALID_STATE
      else (case m_pProposalView s of
              None \<Rightarrow> Inl OA_ERROR
            | Some v \<Rightarrow> (case GetMediaParameter nMid v of None \<Rightarrow> Inl OA_NOT_FOUND | Some m \<Rightarrow> Inr m)))"

section \<open>State transitions\<close>

text \<open>
  What a message triggers: \<open>None\<close> when it moves nothing at all. An answer that only repeats what
  a provisional response said is ignored, and the flag of such a response is dropped when the
  transaction completes.
\<close>

definition oa_trigger_of :: "ISipMessage \<Rightarrow> bool \<Rightarrow> SdpOaState \<Rightarrow> oa_trigger option \<times> SdpOaState" where
  "oa_trigger_of m bAllowOaForNonRpr s =
     (case msg_method m of
        SIP_OTHER \<Rightarrow> (None, s)
      | meth \<Rightarrow>
          if \<not> msg_response m then
            (Some (case meth of SIP_ACK \<Rightarrow> TRIGGER_ACK | SIP_PRACK \<Rightarrow> TRIGGER_PRACK
                   | SIP_UPDATE \<Rightarrow> TRIGGER_UPDATE | _ \<Rightarrow> TRIGGER_INVITE), s)
          else if msg_status m = 100 then (None, s)
          else if IsProvisional (msg_status m) then
            (if m_nState s = STATE_ESTABLISHED \<and> m_bProvisionalRespWithSdp s \<and> \<not> msg_rpr m
                \<and> \<not> m_bPreviewMode s
             then (None, s)
             else (Some (if msg_rpr m then TRIGGER_RPR else TRIGGER_PROVISIONAL_RESP), s))
          else if IsFinalSuccess (msg_status m) then
            (if m_nState s = STATE_ESTABLISHED \<and> m_bProvisionalRespWithSdp s \<and> meth = SIP_INVITE
             then (let s = s\<lparr>m_bProvisionalRespWithSdp := False\<rparr>
                   in if \<not> bAllowOaForNonRpr then (None, s) else (Some TRIGGER_SUCCESS_RESP, s))
             else (Some TRIGGER_SUCCESS_RESP, s))
          else
            (Some TRIGGER_FAILURE_RESP,
             if m_bProvisionalRespWithSdp s \<and> meth = SIP_INVITE
             then s\<lparr>m_bProvisionalRespWithSdp := False\<rparr> else s))"

definition oa_sent :: "oa_trigger \<Rightarrow> SdpOaState \<Rightarrow> bool \<times> bool \<times> SdpOaState" where
  "oa_sent t s =
     (let nOldState = m_nState s; nUpdateState = STATE_SENT nOldState t
      in if nUpdateState = STATE_INVALID then (False, False, s)
         else
           (let changed = (nUpdateState \<noteq> nOldState);
                s = s\<lparr>m_nState := nUpdateState\<rparr>;
                s = (if changed then s\<lparr>m_bStateChanged := True\<rparr> else s);
                s = (if nUpdateState \<in> {STATE_OFFER_SENT, STATE_OFFER_CHANGE_SENT}
                     then s\<lparr>m_nMode := MODE_OFFERER\<rparr> else s);
                s = (if nUpdateState = STATE_OFFER_SENT \<or> nOldState = STATE_OFFER_RECEIVED
                     then SetCapabilities s else s)
            in (True, changed, s)))"

definition oa_received :: "sip_method \<Rightarrow> bool \<Rightarrow> oa_trigger \<Rightarrow> SdpOaState \<Rightarrow> bool \<times> bool \<times> SdpOaState" where
  "oa_received meth bMessageWithSdp t s =
     (let nOldState = m_nState s; nUpdateState = STATE_RECEIVED nOldState t
      in if m_bPreviewMode s \<and> nUpdateState = STATE_OFFER_CHANGE_RECEIVED
            \<and> t \<in> {TRIGGER_RPR, TRIGGER_PROVISIONAL_RESP, TRIGGER_SUCCESS_RESP}
         then (True, False, s\<lparr>m_bStateChanged := True\<rparr>)
         else
           (let s = s\<lparr>m_nState := nUpdateState\<rparr>;
                changed = (nUpdateState \<noteq> nOldState \<and> bMessageWithSdp);
                s = (if changed then s\<lparr>m_bStateChanged := True\<rparr> else s);
                s = (if nUpdateState \<in> {STATE_OFFER_RECEIVED, STATE_OFFER_CHANGE_RECEIVED}
                     then s\<lparr>m_nMode := MODE_ANSWERER\<rparr> else s)
            in (True, changed, s)))"

definition UpdateState :: "ISipMessage \<Rightarrow> oa_flow \<Rightarrow> bool \<Rightarrow> bool \<Rightarrow> SdpOaState \<Rightarrow> bool \<times> SdpOaState" where
  "UpdateState m nMessageFlow bIsCallEstablished bAllowOaForNonRpr s =
     (let s = (if nMessageFlow = MESSAGE_SENT then s\<lparr>m_bOfferProgress := False\<rparr> else s);
          s = s\<lparr>m_bStateChanged := False\<rparr>;
          bMessageWithSdp = (msg_sdp m \<noteq> NO_SDP);
          (t, s) = oa_trigger_of m bAllowOaForNonRpr s;
          nOldState = m_nState s
      in case t of
           None \<Rightarrow> (True, s)
         | Some t \<Rightarrow>
             if t = TRIGGER_PROVISIONAL_RESP \<and> \<not> bAllowOaForNonRpr \<and> \<not> m_bPreviewMode s then (True, s)
             else if \<not> bMessageWithSdp \<and> t \<noteq> TRIGGER_FAILURE_RESP then (True, s)
             else if nMessageFlow = MESSAGE_RECEIVED \<and> t = TRIGGER_FAILURE_RESP \<and> msg_method m \<noteq> SIP_INVITE
                     \<and> msg_status m \<in> {401, 407} \<and> \<not> (bIsCallEstablished \<and> msg_method m = SIP_UPDATE)
             then (True, s)
             else if nMessageFlow = MESSAGE_RECEIVED \<and> STATE_RECEIVED nOldState t = STATE_INVALID
             then (False, s)
             else if nMessageFlow = MESSAGE_RECEIVED \<and> msg_method m = SIP_UPDATE
                     \<and> STATE_RECEIVED nOldState t = STATE_OFFER_CHANGE_RECEIVED
                     \<and> (t = TRIGGER_SUCCESS_RESP \<or> m_bPreviewMode s)
             then (True, s)
             else
               (case (if nMessageFlow = MESSAGE_SENT then oa_sent t s
                      else oa_received (msg_method m) bMessageWithSdp t s) of
                  (False, _, s) \<Rightarrow> (False, s)
                | (True, bNeedToChangeOldState, s) \<Rightarrow>
                    (let s = (if t \<in> {TRIGGER_RPR, TRIGGER_PROVISIONAL_RESP} \<and> m_bStateChanged s
                              then s\<lparr>m_bProvisionalRespWithSdp := True\<rparr> else s);
                         s = (if bNeedToChangeOldState then s\<lparr>m_nOldState := nOldState\<rparr> else s)
                     in (True, s))))"

definition UpdateStateOnTransactionCompleted :: "ISipMessage \<Rightarrow> SdpOaState \<Rightarrow> SdpOaState" where
  "UpdateStateOnTransactionCompleted m s =
     (if msg_method m \<noteq> SIP_INVITE then s
      else if IsFinal (msg_status m) then
        (let s = (if m_bProvisionalRespWithSdp s then s\<lparr>m_bProvisionalRespWithSdp := False\<rparr> else s)
         in if msg_sdp m \<noteq> NO_SDP then StopPreviewMode s else s)
      else if msg_rpr m \<and> msg_sdp m \<noteq> NO_SDP then StopPreviewMode s
      else s)"

section \<open>Negotiation\<close>

definition HandleAnswer :: "SessionParameter option \<Rightarrow> bool \<Rightarrow> SdpOaState \<Rightarrow> oa_fault + oa_result \<times> SdpOaState" where
  "HandleAnswer answer bUpdateRemoteVersion s =
     (case answer of
        None \<Rightarrow> Inr (RESULT_FAILURE, s)
      | Some pAnswer \<Rightarrow>
          (let s = (if bUpdateRemoteVersion
                    then s\<lparr>m_pLastOfferMade :=
                           map_option (UpdateRemoteVersion (sdp_version pAnswer)) (m_pLastOfferMade s)\<rparr>
                    else s);
               v = GetCurrentCapabilities s
           in case view_at v s of
                None \<Rightarrow> Inl NULL_VIEW
              | Some pCurrentCapabilities \<Rightarrow>
                  if GetMediaCount pAnswer \<noteq> GetMediaCount pCurrentCapabilities
                  then Inr (RESULT_FAILURE, s)
                  else
                    (case ProcessAnswer pCurrentCapabilities pAnswer SessionParameter_new
                            SessionParameter_new of
                       (nOaResult, caps, proposal, peer) \<Rightarrow>
                         Inr (nOaResult, (set_view v caps s)\<lparr>m_pProposalView := Some proposal,
                                                              m_pPeerView := Some peer\<rparr>))))"

definition HandleOffer :: "SessionParameter option \<Rightarrow> SdpOaState \<Rightarrow> oa_fault + oa_result \<times> SdpOaState" where
  "HandleOffer offer s =
     (case offer of
        None \<Rightarrow> Inr (RESULT_FAILURE, s)
      | Some pOffer \<Rightarrow>
          (let pOffer = UpdateRemoteVersion (sdp_version pOffer) pOffer;
               v = GetCurrentCapabilities s
           in case view_at v s of
                None \<Rightarrow> Inr (RESULT_FAILURE, s)
              | Some caps \<Rightarrow>
                  if m_nState s = STATE_OFFER_RECEIVED \<and> GetMediaCount caps = 0 then
                    (case GenerateAnswer_copy caps pOffer of
                       (nOaResult, proposal, peer) \<Rightarrow>
                         Inr (nOaResult,
                              s\<lparr>m_pProposalView := Some (SetLastSdpProvidedWithNegotiatedSdp True proposal),
                                m_pPeerView := Some peer\<rparr>))
                  else if m_nState s = STATE_OFFER_CHANGE_RECEIVED \<and> m_pCurrentView s = None
                          \<and> (GetMediaCount pOffer = 0
                             \<or> m_bSdpVersionCheck s \<and> SessionParameter_IsSameVersion caps pOffer)
                  then Inl NULL_VIEW
                  else
                    (let media_param = (\<not> (GetMediaCount pOffer = 0
                           \<and> (m_nState s = STATE_OFFER_RECEIVED
                              \<or> m_nState s = STATE_OFFER_CHANGE_RECEIVED
                                \<and> GetMediaCount (the (m_pCurrentView s)) = 0)))
                     in if m_nState s = STATE_OFFER_CHANGE_RECEIVED \<and> m_bSdpVersionCheck s
                           \<and> SessionParameter_IsSameVersion caps pOffer
                        then
                          (let cur = the (m_pCurrentView s);
                               r = (if \<not> m_bLastSdpProvidedWithNegotiatedSdp cur
                                    then SdpOaState_IncreaseSessionVersion
                                           (s\<lparr>m_pCurrentView :=
                                              Some (SetLastSdpProvidedWithNegotiatedSdp True cur)\<rparr>)
                                    else Inr s)
                           in case r of
                                Inl f \<Rightarrow> Inl f
                              | Inr s \<Rightarrow>
                                  Inr (RESULT_NOT_CHANGED,
                                       s\<lparr>m_pProposalView := map_option SessionParameter_copy (m_pCurrentView s),
                                         m_pPeerView := Some (SessionParameter_copy pOffer)\<rparr>))
                        else
                          (case GenerateAnswer media_param (m_nState s \<noteq> STATE_OFFER_CHANGE_RECEIVED)
                                  caps pOffer SessionParameter_new SessionParameter_new of
                             (nOaResult, caps, proposal, peer) \<Rightarrow>
                               (let s = (set_view v caps s)\<lparr>m_pPeerView := Some peer\<rparr>
                                in if nOaResult \<in> {RESULT_SUCCESS, RESULT_QOS_PRECONDITION_PRESENT}
                                      \<and> m_nState s = STATE_OFFER_CHANGE_RECEIVED
                                   then
                                     Inr (nOaResult,
                                       s\<lparr>m_pProposalView := Some (SessionParameter_IncreaseSessionVersion
                                             (SetLastSdpProvidedWithNegotiatedSdp True proposal)),
                                         m_objCapabilities :=
                                           SessionParameter_IncreaseSessionVersion (m_objCapabilities s),
                                         m_pLastOfferMade :=
                                           map_option SessionParameter_IncreaseSessionVersion
                                             (m_pLastOfferMade s)\<rparr>)
                                   else Inr (nOaResult, s\<lparr>m_pProposalView := Some proposal\<rparr>))))))"

definition sdp_of :: "sdp_body \<Rightarrow> SessionParameter option" where
  "sdp_of b = (case b of SDP p \<Rightarrow> Some p | _ \<Rightarrow> None)"

text \<open>A body that cannot be decoded takes back the transition that the message made.\<close>

definition oa_rollback :: "SdpOaState \<Rightarrow> SdpOaState" where
  "oa_rollback s =
     (if m_nState s = STATE_ESTABLISHED \<and> m_nOldState s \<in> {STATE_OFFER_SENT, STATE_OFFER_CHANGE_SENT}
      then s\<lparr>m_nState := m_nOldState s,
             m_nOldState := (if m_nOldState s = STATE_OFFER_SENT then STATE_IDLE else STATE_ESTABLISHED)\<rparr>
      else if m_nState s = STATE_OFFER_RECEIVED \<and> m_nOldState s = STATE_IDLE
              \<or> m_nState s = STATE_OFFER_CHANGE_RECEIVED \<and> m_nOldState s = STATE_ESTABLISHED
      then s\<lparr>m_nMode := MODE_IDLE, m_bStateChanged := False, m_nState := m_nOldState s\<rparr>
      else s)"

text \<open>
  After an answer that did not go through, the offer made before is the last one again; when both
  are there, the former takes over the peer's version first.
\<close>

definition oa_last_offer_after :: "SessionParameter option \<Rightarrow> SessionParameter option \<Rightarrow> SessionParameter option" where
  "oa_last_offer_after pLastOfferMade pPrevLastOfferMade =
     (case (pLastOfferMade, pPrevLastOfferMade) of
        (Some l, Some prev) \<Rightarrow> Some (UpdateRemoteVersion (m_strRemoteVersion l) prev)
      | (_, prev) \<Rightarrow> prev)"

definition HandleOfferAnswer :: "ISipMessage \<Rightarrow> SdpOaState \<Rightarrow> oa_fault + oa_result \<times> SdpOaState" where
  "HandleOfferAnswer m s =
     (if \<not> m_bStateChanged s then Inr (RESULT_NOT_CHANGED, s)
      else if msg_sdp m = NO_SDP then Inr (RESULT_NOT_CHANGED, s)
      else if msg_sdp m = SDP_MALFORMED then Inr (RESULT_FAILURE, oa_rollback s)
      else
        (case m_nState s of
           STATE_ESTABLISHED \<Rightarrow>
             (let offerer = (m_nMode s = MODE_OFFERER);
                  prev = m_pLastOfferMade s;
                  s = (if offerer then s\<lparr>m_pLastOfferMade := m_pProposalView s, m_pProposalView := None\<rparr>
                       else s)
              in case HandleAnswer (sdp_of (msg_sdp m)) (offerer \<or> m_bPreviewMode s) s of
                   Inl f \<Rightarrow> Inl f
                 | Inr (nResult, s) \<Rightarrow>
                     (let bad = (nResult \<in> {RESULT_NOT_DONE, RESULT_FAILURE, RESULT_NOT_FOUND})
                      in Inr (nResult,
                           if offerer then
                             (if bad then s\<lparr>m_pLastOfferMade := oa_last_offer_after (m_pLastOfferMade s) prev\<rparr>
                              else if m_bPreviewModeSupported s \<and> m_nOldState s = STATE_OFFER_SENT
                                      \<and> msg_response m \<and> \<not> (msg_rpr m \<or> IsFinalSuccess (msg_status m))
                              then StartPreviewMode s else s)
                           else if m_bPreviewMode s \<and> \<not> bad \<and> msg_method m = SIP_INVITE
                                   \<and> (msg_rpr m \<or> IsFinalSuccess (msg_status m))
                           then StopPreviewMode s else s)))
         | STATE_OFFER_RECEIVED \<Rightarrow> HandleOffer (sdp_of (msg_sdp m)) s
         | STATE_OFFER_CHANGE_RECEIVED \<Rightarrow> HandleOffer (sdp_of (msg_sdp m)) s
         | _ \<Rightarrow> Inr (RESULT_NOT_CHANGED, s)))"

text \<open>What the TU calls for a received message: the transition, then the negotiation.\<close>

definition oa_receive :: "ISipMessage \<Rightarrow> bool \<Rightarrow> bool \<Rightarrow> SdpOaState \<Rightarrow> bool \<times> (oa_fault + oa_result \<times> SdpOaState)" where
  "oa_receive m est nonrpr s =
     (case UpdateState m MESSAGE_RECEIVED est nonrpr s of
        (ok, s) \<Rightarrow> (ok, if ok then HandleOfferAnswer m s else Inr (RESULT_NOT_CHANGED, s)))"

end
