(* ===== verification/SdpNegotiation.thy ===== *)
theory SdpNegotiation
  imports SdpSession
begin

text \<open>
  What the negotiation of descriptions guarantees: the session version, the directions, the media
  formats, the number and order of the m-lines, and what becomes of media groups.
\<close>

section \<open>The session version\<close>

definition digit :: "char \<Rightarrow> nat" where "digit c = of_char c - 48"

definition is_digit :: "char \<Rightarrow> bool" where "is_digit c = (48 \<le> (of_char c :: nat) \<and> (of_char c :: nat) \<le> 57)"

text \<open>The number that a string of digits stands for, least digit first.\<close>

fun num_le :: "string \<Rightarrow> nat" where
  "num_le [] = 0"
| "num_le (c # cs) = digit c + 10 * num_le cs"

abbreviation num :: "string \<Rightarrow> nat" where "num v \<equiv> num_le (rev v)"

lemma num_le_append: "num_le (xs @ ys) = num_le xs + 10 ^ length xs * num_le ys"
  by (induction xs) (auto simp: algebra_simps)

lemma digit_0 [simp]: "digit (CHR ''0'') = 0" and digit_1 [simp]: "digit (CHR ''1'') = 1"
  and digit_9 [simp]: "digit (CHR ''9'') = 9"
  by (simp_all add: digit_def)

lemma is_digit_9: "is_digit c \<Longrightarrow> c \<noteq> CHR ''9'' \<Longrightarrow> (of_char c :: nat) < 57"
proof -
  assume a: "is_digit c" "c \<noteq> CHR ''9''"
  have "(of_char c :: nat) \<noteq> 57"
  proof
    assume "(of_char c :: nat) = 57"
    then have "(of_char c :: nat) = of_char (CHR ''9'')" by simp
    then show False using a(2) by (simp only: of_char_eq_iff)
  qed
  then show ?thesis using a(1) by (simp add: is_digit_def)
qed

lemma digit_raise:
  assumes "is_digit c" and "c \<noteq> CHR ''9''"
  shows "is_digit (char_of (Suc (of_char c)))" and "digit (char_of (Suc (of_char c))) = Suc (digit c)"
proof -
  have "(of_char (char_of (Suc (of_char c)) :: char) :: nat) = Suc (of_char c)"
    using is_digit_9 [OF assms] by (simp add: of_char_of)
  then show "is_digit (char_of (Suc (of_char c)))" "digit (char_of (Suc (of_char c))) = Suc (digit c)"
    using assms(1) is_digit_9 [OF assms] by (simp_all add: is_digit_def digit_def)
qed

lemma is_digit_0 [simp]: "is_digit (CHR ''0'')" and is_digit_1 [simp]: "is_digit (CHR ''1'')"
  by (simp_all add: is_digit_def)

lemma loop_digits: "list_all is_digit cs \<Longrightarrow> list_all is_digit (IncreaseSessionVersion_loop cs)"
  by (induction cs) (auto simp: digit_raise)

lemma loop_length [simp]: "length (IncreaseSessionVersion_loop cs) = length cs"
  by (induction cs) auto

lemma loop_replicate [simp]:
  "IncreaseSessionVersion_loop (replicate n (CHR ''9'')) = replicate n (CHR ''0'')"
  by (induction n) auto

lemma num_replicate_0 [simp]: "num_le (replicate n (CHR ''0'')) = 0"
  by (induction n) auto

lemma num_replicate_9: "num_le (replicate n (CHR ''9'')) + 1 = 10 ^ n"
  by (induction n) auto

lemma loop_value:
  "list_all is_digit cs \<Longrightarrow> cs \<noteq> replicate (length cs) (CHR ''9'') \<Longrightarrow>
    num_le (IncreaseSessionVersion_loop cs) = num_le cs + 1"
  by (induction cs) (auto simp: digit_raise)

lemma num_bound: "list_all is_digit cs \<Longrightarrow> num_le cs < 10 ^ length cs"
proof (induction cs)
  case (Cons c cs)
  then have "num_le cs + 1 \<le> 10 ^ length cs" "digit c \<le> 9" by (auto simp: digit_def is_digit_def)
  then show ?case by simp
qed simp

lemma leading_zero:
  assumes "list_all is_digit cs" and "cs \<noteq> []"
  shows "last cs = CHR ''0'' \<longleftrightarrow> num_le cs < 10 ^ (length cs - 1)"
proof -
  obtain xs c where cs: "cs = xs @ [c]" using assms(2) by (cases cs rule: rev_cases) auto
  have b: "num_le xs < 10 ^ length xs" "is_digit c" using assms(1) num_bound [of xs] by (auto simp: cs)
  have "digit c = 0 \<longleftrightarrow> c = CHR ''0''"
  proof
    assume "digit c = 0"
    then have "(of_char c :: nat) = of_char (CHR ''0'')" using b(2) by (simp add: digit_def is_digit_def)
    then show "c = CHR ''0''" by (simp only: of_char_eq_iff)
  qed simp
  moreover have "num_le cs = num_le xs + 10 ^ length xs * digit c" by (simp add: cs num_le_append)
  moreover have "\<not> num_le xs + 10 ^ length xs * digit c < 10 ^ length xs" if "digit c \<noteq> 0"
    using mult_le_mono2 [of 1 "digit c" "10 ^ length xs"] that by linarith
  ultimately show ?thesis using b(1) by (cases "digit c = 0") (simp_all add: cs)
qed

text \<open>
The session version of the o-line is raised as a decimal number of any length: for a string of
  digits the result is the next number, and it has one more digit when all were 9. Only if a
  leading zero is left the result has an additional 1 before it.
\<close>

theorem IncreaseSessionVersion_number:
  assumes "list_all is_digit v" and "v \<noteq> []"
  shows "\<exists>w. Sdp_IncreaseSessionVersion (Some v) = Some w \<and> list_all is_digit w \<and>
    num w = num v + 1 + (if num v + 1 < 10 ^ (length v - 1) then 10 ^ length v else 0)"
proof -
  let ?r = "rev v" and ?n = "IncreaseSessionVersion_loop (rev v)"
  have d: "list_all is_digit ?r" "?r \<noteq> []" using assms by (simp_all add: list_all_rev)
  have n: "?n \<noteq> []" using d(2) loop_length [of ?r] by (metis length_0_conv)
  have h: "rev ?n ! 0 = last ?n" using n by (simp add: hd_conv_nth [symmetric] hd_rev)
  have r: "Sdp_IncreaseSessionVersion (Some v) =
      Some (if last ?n = CHR ''0'' then CHR ''1'' # rev ?n else rev ?n)"
    using assms(2) h by (auto simp: Sdp_IncreaseSessionVersion_def Let_def neq_Nil_conv)
  have dn: "list_all is_digit ?n" using loop_digits [OF d(1)] .
  show ?thesis
  proof (cases "?r = replicate (length ?r) (CHR ''9'')")
    case True
    then have z: "?n = replicate (length v) (CHR ''0'')" by (metis length_rev loop_replicate)
    have "num v + 1 = 10 ^ length v" using True num_replicate_9 [of "length v"] by (metis length_rev)
    then show ?thesis using assms(2) by (auto simp: r z num_le_append list_all_iff last_replicate)
  next
    case False
    from loop_value [OF d(1) this] have v: "num_le ?n = num v + 1" .
    then show ?thesis using leading_zero [OF dn n] dn by (auto simp: r num_le_append list_all_rev)
  qed
qed

theorem IncreaseSessionVersion_number_witness:
  "Sdp_IncreaseSessionVersion (Some ''199'') = Some ''200'' \<and> num ''200'' = num ''199'' + 1 \<and>
   (\<exists>w. Sdp_IncreaseSessionVersion (Some ''07'') = Some w \<and> num w = 108)"
proof -
  have n: "num ''07'' = 7" "num ''199'' = 199" "num ''200'' = 200" by code_simp+
  have "list_all is_digit ''07''" by code_simp
  from IncreaseSessionVersion_number [OF this] have "\<exists>w. Sdp_IncreaseSessionVersion (Some ''07'') = Some w \<and> num w = 108"
    by (auto simp: n(1) simp del: num_le.simps rev.simps)
  moreover have "Sdp_IncreaseSessionVersion (Some ''199'') = Some ''200''" by code_simp
  ultimately show ?thesis by (simp only: n) simp
qed

section \<open>Directions\<close>

text \<open>
  A direction as the set of what an endpoint may do, from its own point of view; no attribute
  means both. An answer and the offer meet in what one side may send and the other receive.
\<close>

datatype flow = SEND | RECV

fun flows :: "sdp_direction \<Rightarrow> flow set" where
  "flows DIRECTION_NONE = {SEND, RECV}"
| "flows DIRECTION_INACTIVE = {}"
| "flows DIRECTION_RECVONLY = {RECV}"
| "flows DIRECTION_SENDONLY = {SEND}"
| "flows DIRECTION_SENDRECV = {SEND, RECV}"

fun opposite :: "flow \<Rightarrow> flow" where
  "opposite SEND = RECV"
| "opposite RECV = SEND"

lemma m_nDirection_UpdateProperties [simp]:
  "m_nDirection (SdpParameter_UpdateProperties x p) = m_nDirection p"
  by (simp add: SdpParameter_UpdateProperties_def Let_def)

lemma m_nDirection_Media_UpdateProperties [simp]:
  "m_nDirection (SdpMediaParameter_UpdateProperties x p) = m_nDirection p"
  by (simp add: SdpMediaParameter_UpdateProperties_def Let_def)

lemma m_nDirection_Session_UpdateProperties [simp]:
  "m_nDirection (SdpSessionParameter_UpdateProperties x p) = m_nDirection p"
  by (simp add: SdpSessionParameter_UpdateProperties_def Let_def)

lemma mirror_UpdateProperties:
  "m_nDirection (UpdateDirection_mirror (SdpMediaParameter_UpdateProperties x p)) =
    m_nDirection (UpdateDirection_mirror p)"
  by (simp add: UpdateDirection_mirror_def)

lemma flows_mirror: "flows (m_nDirection (UpdateDirection_mirror p)) = opposite ` flows (m_nDirection p)"
  by (cases "m_nDirection p") (auto simp: UpdateDirection_mirror_def)

lemma direction_of_success:
  assumes "SdpMediaParameter_Compare bInitial bIsOffer p peer pp = (RESULT_SUCCESS, p', view, q)"
  shows "m_nDirection q = m_nDirection peer \<and> m_nDirection p' = m_nDirection p \<and>
    ValidateDirection p peer"
  using assms
  by (auto simp: SdpMediaParameter_Compare_def Let_def UpdateDirection_from_def take_over_transport_def
      ValidateDirection_def split: if_splits)

text \<open>
  Directions agree with RFC 3264. When an answer is processed, a stream that matches gets exactly
  the directions that both sides allow: it may be sent what we offered to send and the peer
  accepts to receive, and the other way round, also when the peer answers sendrecv or nothing to
  a one-way offer. When an offer is answered, the stream's direction is the mirror image of the
  offered one. In both cases a stream that is one-way in the same sense on both sides does not
  match.
\<close>

theorem stream_directions:
  assumes "compare_stream bInitialOffer bIsOffer (Some mine) peer new = (l, q, view, True, gone)"
    and "\<not> (bIsOffer \<and> m_nPort (m_objMedia mine) = 0)"
  shows "flows (m_nDirection q) =
      (if bIsOffer then opposite ` flows (m_nDirection peer)
       else flows (m_nDirection mine) \<inter> opposite ` flows (m_nDirection peer)) \<and>
    \<not> (m_nDirection mine = m_nDirection peer \<and> m_nDirection peer \<in> {DIRECTION_SENDONLY, DIRECTION_RECVONLY})"
proof -
  obtain r p' v q0 where c: "SdpMediaParameter_Compare bInitialOffer bIsOffer mine peer new = (r, p', v, q0)"
    by (metis prod.collapse)
  have s: "r = RESULT_SUCCESS \<and>
      q = UpdateDirection_mirror (SdpMediaParameter_UpdateProperties p'
            (if bIsOffer then q0 else UpdateDirection_offerer p' peer q0))"
    using assms by (auto simp: compare_stream_def c Let_def split: oa_result.splits option.splits if_splits)
  have d: "m_nDirection q0 = m_nDirection peer" "m_nDirection p' = m_nDirection mine"
    "ValidateDirection mine peer"
    using direction_of_success c s by blast+
  show ?thesis
    using d s
    by (cases "m_nDirection mine"; cases "m_nDirection peer")
       (auto simp: flows_mirror ValidateDirection_def UpdateDirection_offerer_def Let_def)
qed

section \<open>Media lines\<close>

text \<open>
  An m-line that answers another: the same media type over the same transport, refused if it was.
  The name of a known media type and of a transport is the other line's or the standard one. Nothing
  is said of the names of media outside the known types: the code does not compare them.
\<close>

definition same_type :: "SdpMedia \<Rightarrow> SdpMedia \<Rightarrow> bool" where
  "same_type a b \<longleftrightarrow>
     m_nMediaType a = m_nMediaType b \<and> m_nTransportProtocol a = m_nTransportProtocol b \<and>
     (m_nMediaType b \<noteq> TYPE_OTHER \<longrightarrow> m_strMediaType a \<in> {m_strMediaType b, MEDIA (m_nMediaType b)}) \<and>
     (m_strTransportProtocol a = m_strTransportProtocol b \<or>
      m_nTransportProtocol b \<noteq> TRANSPORT_OTHER \<and> m_strTransportProtocol a = TRANSPORT (m_nTransportProtocol b))"

definition answers :: "SdpMediaParameter \<Rightarrow> SdpMediaParameter \<Rightarrow> bool" where
  "answers q peer \<longleftrightarrow> same_type (m_objMedia q) (m_objMedia peer) \<and>
     (m_nPort (m_objMedia peer) = 0 \<longrightarrow> m_nPort (m_objMedia q) = 0)"

lemma same_type_refl [simp]: "same_type m m"
  by (simp add: same_type_def)

lemma answers_same [simp]: "m_objMedia q = m_objMedia peer \<Longrightarrow> answers q peer"
  by (simp add: answers_def)

lemma SetValue_same:
  assumes "ty = m_nMediaType m" and "tp = m_nTransportProtocol m"
  shows "same_type (snd (SdpMedia_SetValue ty port tp fs x None n m)) m"
  using assms by (auto simp: SdpMedia_SetValue_def IsTokenString_def same_type_def Let_def)

lemma m_objMedia_SdpParameter_UpdateProperties [simp]:
  "m_objMedia (SdpParameter_UpdateProperties x p) = m_objMedia p"
  by (simp add: SdpParameter_UpdateProperties_def Let_def)

lemma m_objMedia_UpdateDirection [simp]:
  "m_objMedia (UpdateDirection_mirror p) = m_objMedia p"
  "m_objMedia (UpdateDirection_from x p) = m_objMedia p"
  "m_objMedia (UpdateDirection_offerer a b p) = m_objMedia p"
  by (simp_all add: UpdateDirection_mirror_def UpdateDirection_from_def UpdateDirection_offerer_def Let_def)

lemma m_objMedia_new_stream [simp]: "m_objMedia (new_stream peer q) = m_objMedia peer"
  by (simp add: new_stream_def RemoveConnections_def SdpMediaParameter_assign_def)

lemma m_objMedia_UpdateProperties:
  "m_objMedia (SdpMediaParameter_UpdateProperties x p) =
    (if m_nPort (m_objMedia p) \<noteq> 0
     then snd (SdpMedia_SetValue (m_nMediaType (m_objMedia x)) (m_nPort (m_objMedia x))
            (m_nTransportProtocol (m_objMedia x)) (map format_value (m_objMediaFormats p))
            (m_strMediaType (m_objMedia x)) None 0 (m_objMedia p))
     else m_objMedia p)"
  by (simp add: SdpMediaParameter_UpdateProperties_def Let_def)

lemma answers_UpdateProperties:
  assumes "m_objMedia p = m_objMedia peer"
    and "m_nPort (m_objMedia peer) \<noteq> 0 \<Longrightarrow> m_nMediaType (m_objMedia x) = m_nMediaType (m_objMedia peer) \<and>
      m_nTransportProtocol (m_objMedia x) = m_nTransportProtocol (m_objMedia peer)"
  shows "answers (SdpMediaParameter_UpdateProperties x p) peer"
  using assms SetValue_same [of "m_nMediaType (m_objMedia x)" "m_objMedia p" "m_nTransportProtocol (m_objMedia x)"]
  by (auto simp: answers_def m_objMedia_UpdateProperties)

lemma Compare_success_media:
  assumes "SdpMediaParameter_Compare bInitial bIsOffer p peer pp = (RESULT_SUCCESS, p', Some view, q)"
  shows "m_objMedia q = m_objMedia peer \<and> m_objMedia view = m_objMedia peer \<and>
    (m_nPort (m_objMedia peer) \<noteq> 0 \<longrightarrow> m_nMediaType (m_objMedia p') = m_nMediaType (m_objMedia peer) \<and>
      m_nTransportProtocol (m_objMedia p') = m_nTransportProtocol (m_objMedia peer))"
proof -
  have t: "m_nMediaType (m_objMedia (take_over_transport o' peer p)) = m_nMediaType (m_objMedia p)" for o'
    by (simp add: take_over_transport_def SetTransportProtocol_def Let_def)
  show ?thesis
    using assms t by (auto simp: SdpMediaParameter_Compare_def Let_def split: if_splits)
qed

lemma answers_compare_stream:
  assumes "compare_stream bInitialOffer bIsOffer local peer new = (l, q, view, ok, gone)"
  shows "answers q peer \<and> answers view peer \<and> (\<not> ok \<longrightarrow> m_nPort (m_objMedia q) = 0)"
proof (cases local)
  case None
  then show ?thesis using assms by (auto simp: compare_stream_def)
next
  case (Some mine)
  obtain r p' v q0 where c: "SdpMediaParameter_Compare bInitialOffer bIsOffer mine peer new = (r, p', v, q0)"
    by (metis prod.collapse)
  show ?thesis
  proof (cases "r = RESULT_SUCCESS \<and> v \<noteq> None")
    case True
    then obtain v' where v: "r = RESULT_SUCCESS" "v = Some v'" by auto
    note m = Compare_success_media [OF c [unfolded v]]
    have "answers (UpdateDirection_mirror (SdpMediaParameter_UpdateProperties p' q1)) peer"
      if "m_objMedia q1 = m_objMedia peer" for q1
      using answers_UpdateProperties [OF that, of p'] m by (simp add: answers_def)
    moreover have "answers (SdpMediaParameter_UpdateProperties peer v') peer"
      using m by (simp add: answers_UpdateProperties)
    ultimately show ?thesis
      using assms m by (auto simp: compare_stream_def Some c v Let_def split: if_splits)
  next
    case False
    then show ?thesis using assms
      by (auto simp: compare_stream_def Some c Let_def MarkRejectedOrRemoved_def answers_def same_type_def
          split: oa_result.splits option.splits if_splits)
  qed
qed

lemma CreateMediaParameter_params [simp]:
  "m_objMediaParams (CreateMediaParameter p) =
    m_objMediaParams p @ [SdpMediaParameter_new (int (length (m_objMediaParams p)))]"
  by (simp add: CreateMediaParameter_def Let_def)

lemma CompareMediaParameters_loop_lines:
  "CompareMediaParameters_loop a b i peers (p, pp, view, ok, qos) = (p', pp', view', ok', qos') \<Longrightarrow>
    \<exists>qs vs. m_objMediaParams pp' = m_objMediaParams pp @ qs \<and> list_all2 answers qs peers \<and>
      m_objMediaParams view' = m_objMediaParams view @ vs \<and> list_all2 answers vs peers"
proof (induction peers arbitrary: i p pp view ok qos)
  case (Cons peer peers)
  let ?new = "SdpMediaParameter_new (int (length (m_objMediaParams pp)))"
  obtain l q v o' g where c: "compare_stream a b (GetMediaParameter i p) peer ?new = (l, q, v, o', g)"
    by (metis prod.collapse)
  obtain p1 pp1 view1 ok1 qos1 where n:
    "CompareMediaParameters_loop a b (Suc i) peers (p1, pp1, view1, ok1, qos1) = (p', pp', view', ok', qos')"
    "m_objMediaParams pp1 = m_objMediaParams pp @ [q]"
    "m_objMediaParams view1 = m_objMediaParams view @ [v]"
    using Cons.prems by (simp add: c Let_def)
  from Cons.IH [OF n(1)] show ?case using answers_compare_stream [OF c] n(2,3)
    by (metis append.assoc append_Cons append_Nil list_all2_Cons)
qed auto

lemma RemovePreconditions_lines:
  "list_all2 answers (m_objMediaParams pp) peers \<Longrightarrow>
   length (m_objMediaParams view) = length peers \<Longrightarrow>
   list_all2 answers (m_objMediaParams (RemovePreconditionsIfNotSupport pp view)) peers"
proof -
  have "answers (RemovePreconditions q) peer = answers q peer" for q peer
    by (simp add: answers_def RemovePreconditions_def RemovePrecondition_def)
  then show "list_all2 answers (m_objMediaParams pp) peers \<Longrightarrow> length (m_objMediaParams view) = length peers \<Longrightarrow>
      list_all2 answers (m_objMediaParams (RemovePreconditionsIfNotSupport pp view)) peers"
    by (auto simp: RemovePreconditionsIfNotSupport_def list_all2_conv_all_nth)
qed

lemma CompareSessionParameters_params:
  "CompareSessionParameters b p peer pp view = (r, pp', view') \<Longrightarrow>
    m_objMediaParams pp' = m_objMediaParams pp \<and> m_objMediaParams view' = m_objMediaParams view"
  by (auto simp: CompareSessionParameters_def Let_def split: prod.splits if_splits)

lemma negotiate_lines:
  assumes "negotiate bInitialOffer bIsOffer True p peer pp view = (r, p', pp', view')"
    and "r \<in> {RESULT_SUCCESS, RESULT_QOS_PRECONDITION_PRESENT, RESULT_NOT_FOUND}"
  shows "list_all2 answers (m_objMediaParams pp') (m_objMediaParams peer) \<and>
    list_all2 answers (m_objMediaParams view') (m_objMediaParams peer) \<and>
    GetMediaCount pp' = GetMediaCount peer \<and> GetMediaCount view' = GetMediaCount peer"
proof -
  obtain r1 pp1 view1 where c: "CompareSessionParameters bIsOffer p peer (SessionParameter_Create pp)
      (SessionParameter_Create view) = (r1, pp1, view1)" by (metis prod.collapse)
  have "r1 \<in> {RESULT_SUCCESS, RESULT_FAILURE}"
    using c by (auto simp: CompareSessionParameters_def SdpSessionParameter_Compare_def Let_def split: if_splits)
  then have r1: "r1 = RESULT_SUCCESS" using assms by (auto simp: negotiate_def c)
  let ?pp2 = "CompareMediaGroups p peer pp1"
  have e: "m_objMediaParams ?pp2 = []" "m_objMediaParams view1 = []"
    using CompareSessionParameters_params [OF c]
    by (simp_all add: CompareMediaGroups_def SessionParameter_Create_def)
  obtain p3 pp3 view3 ok qos where l:
    "CompareMediaParameters_loop bInitialOffer bIsOffer 0 (m_objMediaParams peer) (p, ?pp2, view1, False, False)
      = (p3, pp3, view3, ok, qos)" by (metis prod.collapse)
  have lines: "list_all2 answers (m_objMediaParams pp3) (m_objMediaParams peer)"
    "list_all2 answers (m_objMediaParams view3) (m_objMediaParams peer)"
    using CompareMediaParameters_loop_lines [OF l] by (auto simp: e)
  moreover have "view' = view3 \<and> (pp' = pp3 \<or> pp' = RemovePreconditionsIfNotSupport pp3 view3)"
    using assms by (auto simp: negotiate_def c r1 CompareMediaParameters_def l Let_def split: if_splits)
  ultimately show ?thesis
    using RemovePreconditions_lines [OF lines(1)] by (auto simp: GetMediaCount_def dest: list_all2_lengthD)
qed

lemma CompareMediaParameters_loop_version:
  "CompareMediaParameters_loop a b i peers (p, pp, view, ok, qos) = (p', pp', view', ok', qos') \<Longrightarrow>
    m_strRemoteVersion pp' = m_strRemoteVersion pp \<and> m_objSessionParam pp' = m_objSessionParam pp"
proof (induction peers arbitrary: i p pp view ok qos)
  case (Cons peer peers)
  let ?new = "SdpMediaParameter_new (int (length (m_objMediaParams pp)))"
  obtain l q v o' g where c: "compare_stream a b (GetMediaParameter i p) peer ?new = (l, q, v, o', g)"
    by (metis prod.collapse)
  from Cons.prems show ?case
    using Cons.IH by (simp add: c Let_def) (force simp: CreateMediaParameter_def Let_def dest: Cons.IH)
qed simp

lemma negotiate_version:
  assumes "negotiate a b True p peer pp view = (r, p', pp', view')"
    and "r \<in> {RESULT_SUCCESS, RESULT_QOS_PRECONDITION_PRESENT}"
  shows "m_strRemoteVersion pp' = sdp_version peer"
  using assms
  by (auto simp: negotiate_def CompareMediaParameters_def CompareMediaGroups_def CompareSessionParameters_def
      RemovePreconditionsIfNotSupport_def Let_def
      split: prod.splits if_splits dest!: CompareMediaParameters_loop_version)

text \<open>C31:
  Media lines follow RFC 3264, section 6. When an offer or an answer is negotiated with its media
  (\<open>media_param\<close>) and the result is success, a present precondition or that no line matched (that
  is, when the session part did not fail), the description it proposes and its view of the peer have
  exactly as many m-lines as the peer's description, each of the same media type over the same
  transport as the peer's line at that place, and one that the peer has refused is refused. A line of
  a known type and its transport are named as in the peer's line or by their standard names; for
  media outside the known types the type alone is the same (see \<open>other_media_not_compared\<close>).
\<close>

theorem negotiated_lines:
  assumes "negotiate bInitialOffer bIsOffer True p peer pp view = (r, p', pp', view')"
    and "r \<in> {RESULT_SUCCESS, RESULT_QOS_PRECONDITION_PRESENT, RESULT_NOT_FOUND}"
  shows "list_all2 answers (m_objMediaParams pp') (m_objMediaParams peer) \<and>
    list_all2 answers (m_objMediaParams view') (m_objMediaParams peer) \<and>
    GetMediaCount pp' = GetMediaCount peer \<and> GetMediaCount view' = GetMediaCount peer"
  by (rule negotiate_lines [OF assms])

text \<open>
  The names of media outside the known types are not compared: a live line for one of them is accepted
  for any other, and the answer has the name of the local line.
\<close>

lemma other_media_not_compared:
  assumes "compare_stream bInitialOffer bIsOffer (Some mine) peer new = (l, q, view, True, gone)"
    and "m_nMediaType (m_objMedia peer) = TYPE_OTHER" and "m_nPort (m_objMedia peer) \<noteq> 0"
    and "m_nPort (m_objMedia mine) \<noteq> 0" and "IsTokenString (m_strMediaType (m_objMedia mine))"
    and "m_nTransportProtocol (m_objMedia peer) \<noteq> TRANSPORT_INVALID"
  shows "m_strMediaType (m_objMedia q) = m_strMediaType (m_objMedia mine)"
proof -
  obtain r p' v q0 where c: "SdpMediaParameter_Compare bInitialOffer bIsOffer mine peer new = (r, p', v, q0)"
    by (metis prod.collapse)
  obtain v' where v: "r = RESULT_SUCCESS" "v = Some v'"
    using assms(1,4) by (auto simp: compare_stream_def c Let_def split: oa_result.splits option.splits)
  have n: "m_strMediaType (m_objMedia (take_over_transport o' peer p)) = m_strMediaType (m_objMedia p)" for o' p
    by (simp add: take_over_transport_def SetTransportProtocol_def Let_def)
  have p': "m_strMediaType (m_objMedia p') = m_strMediaType (m_objMedia mine)"
    using c v assms(3) n by (auto simp: SdpMediaParameter_Compare_def Let_def split: if_splits)
  note m = Compare_success_media [OF c [unfolded v]]
  define q1 where "q1 = (if bIsOffer then q0 else UpdateDirection_offerer p' peer q0)"
  have q1: "m_objMedia q1 = m_objMedia peer" using m by (simp add: q1_def)
  have "q = UpdateDirection_mirror (SdpMediaParameter_UpdateProperties p' q1)"
    using assms(1,4) v by (simp add: compare_stream_def c Let_def q1_def)
  then show ?thesis
    using m p' q1 assms(2,3,5,6)
    by (simp add: m_objMedia_UpdateProperties SdpMedia_SetValue_def Let_def)
qed

section \<open>Media formats\<close>

fun payloads :: "SdpMediaFormat list \<Rightarrow> int list" where
  "payloads [] = []"
| "payloads (FORMAT_RTP c # fs) = m_nPayloadType c # payloads fs"
| "payloads (FORMAT _ _ # fs) = payloads fs"

lemma payloads_append [simp]: "payloads (fs @ gs) = payloads fs @ payloads gs"
  by (induction fs rule: payloads.induct) auto

lemma IsSameAvCodecPresent_iff:
  "IsSameAvCodecPresent fs f \<longleftrightarrow> (\<exists>c. f = FORMAT_RTP c \<and> m_nPayloadType c \<in> set (payloads fs))"
  by (induction fs f rule: IsSameAvCodecPresent.induct) auto

text \<open>What the loops keep while an answer is processed.\<close>

definition matched :: "SdpMediaFormat list \<Rightarrow> SdpMediaFormat list \<Rightarrow> format_match \<Rightarrow> bool" where
  "matched locals peers s \<longleftrightarrow>
     list_all2 SdpMediaFormat_Equals (objPeerMediaFormats s) (objAcceptedMediaFormats s) \<and>
     set (objAcceptedMediaFormats s) \<subseteq> set locals \<and> set (objPeerMediaFormats s) \<subseteq> set peers \<and>
     distinct (payloads (objPeerMediaFormats s)) \<and> distinct (payloads (objAcceptedMediaFormats s)) \<and>
     (bAtLeastOneCodecMatched s \<longleftrightarrow> objAcceptedMediaFormats s \<noteq> [])"

lemma matched_found [simp]: "matched locals peers (s\<lparr>bMediaFormatFound := b\<rparr>) = matched locals peers s"
  by (simp add: matched_def)

lemma distinct_payloads_snoc:
  "distinct (payloads fs) \<Longrightarrow> \<not> IsSameAvCodecPresent fs f \<Longrightarrow> distinct (payloads (fs @ [f]))"
  by (cases f) (auto simp: IsSameAvCodecPresent_iff)

lemma matched_add:
  assumes "matched locals peers s" and "SdpMediaFormat_Equals p l" and "p \<in> set peers" and "l \<in> set locals"
    and "\<not> IsSameAvCodecPresent (objPeerMediaFormats s) p" and "\<not> IsSameAvCodecPresent (objAcceptedMediaFormats s) l"
  shows "matched locals peers (s\<lparr>bAtLeastOneCodecMatched := True,
    objPeerMediaFormats := objPeerMediaFormats s @ [p],
    objAcceptedMediaFormats := objAcceptedMediaFormats s @ [l], bMediaFormatFound := True\<rparr>)"
  using assms distinct_payloads_snoc [of "objPeerMediaFormats s" p]
    distinct_payloads_snoc [of "objAcceptedMediaFormats s" l]
  by (simp add: matched_def list_all2_appendI)

lemma match_local_formats_matched:
  "matched locals peers s \<Longrightarrow> p \<in> set peers \<Longrightarrow> set ls \<subseteq> set locals \<Longrightarrow>
    matched locals peers (match_local_formats a False p ls s)"
proof (induction ls arbitrary: s)
  case (Cons l ls)
  then show ?case using matched_add [of locals peers s p l] by simp
qed simp

lemma match_local_formats_some:
  "matched locals peers s \<Longrightarrow> p \<in> set peers \<Longrightarrow> set ls \<subseteq> set locals \<Longrightarrow>
    objAcceptedMediaFormats (match_local_formats a False p ls s) \<noteq> [] \<longleftrightarrow>
      objAcceptedMediaFormats s \<noteq> [] \<or> (\<exists>l\<in>set ls. SdpMediaFormat_Equals p l)"
proof (induction ls arbitrary: s)
  case (Cons l ls)
  show ?case
  proof (cases "objAcceptedMediaFormats s = []")
    case True
    then have "objPeerMediaFormats s = []" using Cons.prems by (simp add: matched_def)
    then show ?thesis using True Cons.IH [of s] Cons.prems Cons.IH [OF matched_add [of locals peers s p l]]
      by (auto simp: IsSameAvCodecPresent_iff)
  next
    case False
    have "objAcceptedMediaFormats s \<noteq> [] \<Longrightarrow> objAcceptedMediaFormats (match_local_formats a False p ls s) \<noteq> []"
      for ls s by (induction ls arbitrary: s) auto
    then show ?thesis using False by blast
  qed
qed simp

lemma match_peer_formats_matched:
  assumes "matched locals peers s" and "set ps \<subseteq> set peers"
  shows "matched locals peers (match_peer_formats a False locals ps s) \<and>
    (objAcceptedMediaFormats (match_peer_formats a False locals ps s) \<noteq> [] \<longleftrightarrow>
      objAcceptedMediaFormats s \<noteq> [] \<or> (\<exists>p\<in>set ps. \<exists>l\<in>set locals. SdpMediaFormat_Equals p l))"
  using assms
proof (induction ps arbitrary: s)
  case (Cons p ps)
  let ?s = "match_local_formats a False p locals (s\<lparr>bMediaFormatFound := False\<rparr>)"
  have "matched locals peers ?s"
    using match_local_formats_matched [of locals peers "s\<lparr>bMediaFormatFound := False\<rparr>" p locals a] Cons.prems
    by simp
  moreover have "objAcceptedMediaFormats ?s \<noteq> [] \<longleftrightarrow>
      objAcceptedMediaFormats s \<noteq> [] \<or> (\<exists>l\<in>set locals. SdpMediaFormat_Equals p l)"
    using match_local_formats_some [of locals peers "s\<lparr>bMediaFormatFound := False\<rparr>" p locals a] Cons.prems
    by simp
  ultimately show ?case using Cons.IH [of ?s] Cons.prems by (auto simp: Let_def)
qed simp

text \<open>
  Formats of an answer: the formats that are kept pair each kept format of the answer with an
  equal one of the offer, none else; they are in the order of the answer, no payload type is kept
  twice, and there is at least one exactly when the offer and the answer share one.
\<close>

theorem answered_formats:
  "let s = negotiate_formats bInitialOffer False offered answered
   in list_all2 SdpMediaFormat_Equals (objPeerMediaFormats s) (objAcceptedMediaFormats s) \<and>
      set (objAcceptedMediaFormats s) \<subseteq> set offered \<and> set (objPeerMediaFormats s) \<subseteq> set answered \<and>
      distinct (payloads (objPeerMediaFormats s)) \<and> distinct (payloads (objAcceptedMediaFormats s)) \<and>
      bAtLeastOneCodecMatched s =
        (\<exists>p\<in>set answered. \<exists>l\<in>set offered. SdpMediaFormat_Equals p l)"
proof -
  let ?s0 = "\<lparr> objAcceptedMediaFormats = [], objPeerMediaFormats = [],
    bAtLeastOneCodecMatched = False, bMediaFormatFound = False \<rparr>"
  have "matched offered answered ?s0" by (simp add: matched_def)
  from match_peer_formats_matched [OF this, of answered bInitialOffer] show ?thesis
    by (auto simp: negotiate_formats_def Let_def matched_def)
qed

text \<open>A format counts as settled when one of the same payload type, or of the same name, is kept.\<close>

abbreviation settled :: "format_match \<Rightarrow> SdpMediaFormat \<Rightarrow> bool" where
  "settled s f \<equiv> IsSameAvCodecPresent (objPeerMediaFormats s) f \<or> IsSameNonAvCodecPresent (objPeerMediaFormats s) f"

lemma EqualsIgnoreCase_refl [simp]: "AString_EqualsIgnoreCase p p"
  by (simp add: AString_EqualsIgnoreCase_def split: option.split)

lemma IsSameNonAvCodecPresent_append [simp]:
  "IsSameNonAvCodecPresent (fs @ gs) f = (IsSameNonAvCodecPresent fs f \<or> IsSameNonAvCodecPresent gs f)"
  by (induction fs f rule: IsSameNonAvCodecPresent.induct) (cases gs; auto)+

lemma settled_add: "settled (add_offered_format g s) f \<longleftrightarrow> settled s f \<or> IsSameAvCodecPresent [g] f \<or> IsSameNonAvCodecPresent [g] f"
  by (auto simp: add_offered_format_def IsSameAvCodecPresent_iff)

lemma settled_self: "IsSameAvCodecPresent [f] f \<or> IsSameNonAvCodecPresent [f] f"
  by (cases f) auto

lemma add_new_formats_keep: "settled s f \<Longrightarrow> settled (add_new_formats fs s) f"
proof (induction fs arbitrary: s)
  case (Cons g fs)
  show ?case using Cons.IH [of s] Cons.IH [of "add_offered_format g s"] Cons.prems
    by (simp add: settled_add)
qed simp

lemma add_new_formats_all: "f \<in> set fs \<Longrightarrow> settled (add_new_formats fs s) f"
proof (induction fs arbitrary: s)
  case (Cons g fs)
  show ?case
  proof (cases "f = g")
    case True
    then show ?thesis using settled_self [of f] add_new_formats_keep [of s f fs]
        add_new_formats_keep [of "add_offered_format g s" f fs] settled_add [of g s f] by auto
  qed (use Cons in auto)
qed simp

lemma match_local_formats_first:
  "bAtLeastOneCodecMatched s = (objPeerMediaFormats s \<noteq> []) \<Longrightarrow>
    bAtLeastOneCodecMatched (match_local_formats True True p ls s) =
      (objPeerMediaFormats (match_local_formats True True p ls s) \<noteq> [])"
  by (induction ls arbitrary: s) auto

lemma match_peer_formats_first:
  "bAtLeastOneCodecMatched s = (objPeerMediaFormats s \<noteq> []) \<Longrightarrow>
    bAtLeastOneCodecMatched (match_peer_formats True True locals ps s) =
      (objPeerMediaFormats (match_peer_formats True True locals ps s) \<noteq> [])"
proof (induction ps arbitrary: s)
  case (Cons p ps)
  then show ?case
    using match_local_formats_first [of "s\<lparr>bMediaFormatFound := False\<rparr>" p locals] by (simp add: Let_def)
qed simp

lemma add_new_formats_first:
  "bAtLeastOneCodecMatched s = (objPeerMediaFormats s \<noteq> []) \<Longrightarrow>
    bAtLeastOneCodecMatched (add_new_formats fs s) = (objPeerMediaFormats (add_new_formats fs s) \<noteq> [])"
  by (induction fs arbitrary: s) (auto simp: add_offered_format_def)

text \<open>
Formats of an offer, the first one as well as a later one: whatever the local side knows, every
  offered format is kept in the view of the peer, by its payload type or, for streams other than
  RTP, by its name; and a media line with any format is never refused for its formats.
\<close>

theorem offered_formats:
  "let s = negotiate_formats bInitialOffer True locals offered
   in list_all (settled s) offered \<and> bAtLeastOneCodecMatched s = (offered \<noteq> [])"
proof -
  let ?start = "\<lparr> objAcceptedMediaFormats = [], objPeerMediaFormats = [],
    bAtLeastOneCodecMatched = False, bMediaFormatFound = False \<rparr>"
  let ?met = "match_peer_formats bInitialOffer True locals offered ?start"
  let ?full = "add_new_formats offered ?met" and ?s = "negotiate_formats bInitialOffer True locals offered"
  have p: "objPeerMediaFormats ?s = objPeerMediaFormats ?full" by (simp add: negotiate_formats_def Let_def)
  have all: "settled ?s f" if "f \<in> set offered" for f
    using add_new_formats_all [OF that, of ?met] by (simp add: p)
  have "bAtLeastOneCodecMatched ?s" if o: "offered \<noteq> []"
  proof -
    from o have "settled ?s (hd offered)" using all by simp
    then have ne: "objPeerMediaFormats ?full \<noteq> []"
      by (cases "hd offered") (auto simp: p IsSameAvCodecPresent_iff)
    have "bInitialOffer \<Longrightarrow> bAtLeastOneCodecMatched ?full"
      using add_new_formats_first [OF match_peer_formats_first [of ?start locals offered], of offered] ne
      by (cases bInitialOffer) simp_all
    then show ?thesis using ne by (auto simp: negotiate_formats_def Let_def)
  qed
  moreover have "\<not> bAtLeastOneCodecMatched (negotiate_formats bInitialOffer True locals [])"
    by (simp add: negotiate_formats_def Let_def)
  ultimately show ?thesis using all by (auto simp: Let_def list_all_iff)
qed

section \<open>Media groups\<close>

text \<open>
  A session parameter that has been copied, as each view of the exchange is, has lost the id tags
  of its groups: none of its groups is found by a tag any more, and none is written with one.
\<close>

theorem copied_groups:
  "GetMediaGroup strMid (SessionParameter_copy p) = None \<and>
   map SdpMediaGroup_ToSdp (m_objMediaGroups (SessionParameter_copy p)) =
     map (\<lambda>g. ''a=group:'' @ (case m_strType g of None \<Rightarrow> [] | Some t \<Rightarrow> t) @ [CHR 0x0D, CHR 0x0A])
       (m_objMediaGroups p)"
  by (auto simp: GetMediaGroup_def SessionParameter_copy_def SdpMediaGroup_copy_def SdpMediaGroup_ToSdp_def
      find_None_iff)

section \<open>Examples\<close>

definition ex_codec :: "int \<Rightarrow> string \<Rightarrow> SdpMediaFormat" where
  "ex_codec pt name = FORMAT_RTP
     \<lparr> av_strValue = Some name, m_nPayloadType = pt, m_strCodecName = Some name, m_nClockRate = 8000,
       m_strEncodingParameters = None, m_strFmtp = None, m_nAmrOperationMode = 0 \<rparr>"

definition ex_stream :: "sdp_direction \<Rightarrow> int \<Rightarrow> SdpMediaParameter" where
  "ex_stream d port =
     (SdpMediaParameter_new 0)\<lparr>m_nDirection := d, m_bDirectionPresent := True,
       m_objMedia := SdpMedia_new\<lparr>m_nMediaType := TYPE_AUDIO, m_nPort := port,
         m_nTransportProtocol := TRANSPORT_RTP_AVP\<rparr>,
       m_objMediaFormats := [ex_codec 96 ''AMR'', ex_codec 97 ''EVS'']\<rparr>"

definition ex_session :: "SdpMediaParameter list \<Rightarrow> SessionParameter" where
  "ex_session ms = SessionParameter_new\<lparr>m_objMediaParams := ms\<rparr>"

lemma ex_stream_simps [simp]:
  "m_nDirection (ex_stream d port) = d" "m_nPort (m_objMedia (ex_stream d port)) = port"
  "m_nMediaType (m_objMedia (ex_stream d port)) = TYPE_AUDIO"
  "m_nTransportProtocol (m_objMedia (ex_stream d port)) = TRANSPORT_RTP_AVP"
  "m_objMediaFormats (ex_stream d port) = [ex_codec 96 ''AMR'', ex_codec 97 ''EVS'']"
  by (simp_all add: ex_stream_def)

lemma ex_formats: "bAtLeastOneCodecMatched (negotiate_formats a False fs fs) = (fs \<noteq> [])"
proof -
  let ?start = "\<lparr> objAcceptedMediaFormats = [], objPeerMediaFormats = [],
    bAtLeastOneCodecMatched = False, bMediaFormatFound = False \<rparr>"
  have "SdpMediaFormat_Equals f f" for f by (cases f) (simp_all add: SdpAvCodec_Equals_def)
  moreover have "matched fs fs ?start" by (simp add: matched_def)
  ultimately have "bAtLeastOneCodecMatched (match_peer_formats a False fs fs ?start) =
      (\<exists>p\<in>set fs. \<exists>l\<in>set fs. SdpMediaFormat_Equals p l)"
    using match_peer_formats_matched [of fs fs ?start fs a] by (simp add: matched_def)
  also have "\<dots> = (fs \<noteq> [])"
    using \<open>\<And>f. SdpMediaFormat_Equals f f\<close> by (cases fs) auto
  finally show ?thesis by (simp add: negotiate_formats_def Let_def)
qed

lemma ex_compare:
  "fst (SdpMediaParameter_Compare a False (ex_stream d port) (ex_stream d' port') q) =
    (if ValidateDirection (ex_stream d port) (ex_stream d' port') then RESULT_SUCCESS else RESULT_FAILURE)"
  by (simp add: SdpMediaParameter_Compare_def take_over_transport_def Let_def ex_formats)

lemma ex_compare_view:
  "fst (SdpMediaParameter_Compare a b p peer q) = RESULT_SUCCESS \<Longrightarrow>
    \<exists>p' v q'. SdpMediaParameter_Compare a b p peer q = (RESULT_SUCCESS, p', Some v, q')"
  by (auto simp: SdpMediaParameter_Compare_def Let_def split: if_splits)

lemma ex_matches:
  "ValidateDirection (ex_stream d port) (ex_stream d' port') \<Longrightarrow>
    fst (snd (snd (snd (compare_stream False False (Some (ex_stream d port)) (ex_stream d' port') q))))"
  using ex_compare_view [of False False "ex_stream d port" "ex_stream d' port'" q]
  by (auto simp: compare_stream_def ex_compare Let_def)

text \<open>We offered to send only; the peer answers sendrecv, as some do.\<close>

theorem stream_directions_witness:
  "flows (m_nDirection (fst (snd (compare_stream False False (Some (ex_stream DIRECTION_SENDONLY 5000))
     (ex_stream DIRECTION_SENDRECV 6000) (SdpMediaParameter_new 0))))) = {SEND}"
proof -
  let ?r = "compare_stream False False (Some (ex_stream DIRECTION_SENDONLY 5000))
    (ex_stream DIRECTION_SENDRECV 6000) (SdpMediaParameter_new 0)"
  obtain l q view ok gone where r: "?r = (l, q, view, ok, gone)" by (metis prod.collapse)
  have "fst (snd (snd (snd ?r)))" by (rule ex_matches) (simp add: ValidateDirection_def)
  then have "?r = (l, q, view, True, gone)" by (simp add: r)
  from stream_directions [OF this] show ?thesis by (simp add: r)
qed

text \<open>Two lines are answered, the second of them refused by the peer.\<close>

theorem negotiated_lines_witness:
  "let mine = ex_session [ex_stream DIRECTION_SENDRECV 5000, ex_stream DIRECTION_SENDRECV 5002];
       peer = ex_session [ex_stream DIRECTION_SENDRECV 6000, ex_stream DIRECTION_SENDRECV 0];
       (r, p', pp, view) = negotiate False False True mine peer SessionParameter_new SessionParameter_new
   in GetMediaCount pp = 2 \<and> list_all2 answers (m_objMediaParams pp) (m_objMediaParams peer)"
proof -
  let ?mine = "ex_session [ex_stream DIRECTION_SENDRECV 5000, ex_stream DIRECTION_SENDRECV 5002]"
  let ?peer = "ex_session [ex_stream DIRECTION_SENDRECV 6000, ex_stream DIRECTION_SENDRECV 0]"
  let ?r = "negotiate False False True ?mine ?peer SessionParameter_new SessionParameter_new"
  obtain r p' pp view where r: "?r = (r, p', pp, view)" by (metis prod.collapse)
  have "SessionParameter_Create SessionParameter_new = SessionParameter_new"
    by (simp add: SessionParameter_Create_def SessionParameter_new_def)
  moreover have "ValidateDirection (m_objSessionParam ?mine) (m_objSessionParam ?peer)"
    by (simp add: ValidateDirection_def ex_session_def SessionParameter_new_def SdpSessionParameter_new_def
        SdpParameter_new_def SdpParameter.defs)
  moreover have "r1 \<in> {RESULT_SUCCESS, RESULT_QOS_PRECONDITION_PRESENT, RESULT_NOT_FOUND}"
    if "CompareMediaParameters a b c d e f = (r1, x)" for a b c d e f r1 x
    using that by (auto simp: CompareMediaParameters_def split: prod.splits if_splits)
  ultimately have "fst ?r \<in> {RESULT_SUCCESS, RESULT_QOS_PRECONDITION_PRESENT, RESULT_NOT_FOUND}"
    by (auto simp: negotiate_def CompareSessionParameters_def SdpSessionParameter_Compare_def Let_def
        split: prod.splits)
  then have "r \<in> {RESULT_SUCCESS, RESULT_QOS_PRECONDITION_PRESENT, RESULT_NOT_FOUND}" by (simp add: r)
  from negotiated_lines [OF r this] show ?thesis
    by (simp add: r Let_def) (simp add: GetMediaCount_def ex_session_def)
qed

end
