(* ===== verification/SdpOffers.thy ===== *)
theory SdpOffers
  imports SdpOaState SdpNegotiation
begin

text \<open>
  What the offer/answer state guarantees: one offer at a time, as in RFC 3264; a description that
  cannot be read leaves no trace; an answer to an offer has the offer's m-lines.
\<close>

section \<open>The abstract exchange\<close>

text \<open>
  Who has an offer outstanding, and whether a session has been agreed before. A message that
  carries a description makes at most one step.
\<close>

datatype offer_state = NO_OFFER bool | OUR_OFFER bool | THEIR_OFFER bool

fun offer_of :: "oa_state \<Rightarrow> offer_state" where
  "offer_of STATE_OFFER_SENT = OUR_OFFER False"
| "offer_of STATE_OFFER_RECEIVED = THEIR_OFFER False"
| "offer_of STATE_ESTABLISHED = NO_OFFER True"
| "offer_of STATE_OFFER_CHANGE_SENT = OUR_OFFER True"
| "offer_of STATE_OFFER_CHANGE_RECEIVED = THEIR_OFFER True"
| "offer_of _ = NO_OFFER False"

inductive offer_step :: "oa_flow \<Rightarrow> offer_state \<Rightarrow> offer_state \<Rightarrow> bool" where
  "offer_step MESSAGE_SENT (NO_OFFER b) (OUR_OFFER b)"
| "offer_step MESSAGE_RECEIVED (NO_OFFER b) (THEIR_OFFER b)"
| "offer_step MESSAGE_SENT (THEIR_OFFER b) (NO_OFFER True)"
| "offer_step MESSAGE_RECEIVED (OUR_OFFER b) (NO_OFFER True)"
| "offer_step MESSAGE_SENT (THEIR_OFFER b) (NO_OFFER b)"
| "offer_step MESSAGE_RECEIVED (OUR_OFFER b) (NO_OFFER b)"

declare offer_step.intros [intro]

lemma table_sent:
  "STATE_SENT st t \<noteq> STATE_INVALID \<Longrightarrow>
    STATE_SENT st t = st \<or> offer_step MESSAGE_SENT (offer_of st) (offer_of (STATE_SENT st t))"
  by (cases st) auto

lemma table_received:
  "STATE_RECEIVED st t \<noteq> STATE_INVALID \<Longrightarrow>
    STATE_RECEIVED st t = st \<or> offer_step MESSAGE_RECEIVED (offer_of st) (offer_of (STATE_RECEIVED st t))"
  by (cases st) auto

lemma oa_trigger_of_shape:
  "snd (oa_trigger_of m b s) = s \<or> snd (oa_trigger_of m b s) = s\<lparr>m_bProvisionalRespWithSdp := False\<rparr>"
  by (cases "msg_method m") (simp_all add: oa_trigger_of_def Let_def)

lemma oa_trigger_of_keeps [simp]:
  "m_nState (snd (oa_trigger_of m b s)) = m_nState s"
  "m_nOldState (snd (oa_trigger_of m b s)) = m_nOldState s"
  "m_nMode (snd (oa_trigger_of m b s)) = m_nMode s"
  "m_bStateChanged (snd (oa_trigger_of m b s)) = m_bStateChanged s"
  "m_bPreviewMode (snd (oa_trigger_of m b s)) = m_bPreviewMode s"
  by (rule disjE [OF oa_trigger_of_shape [of m b s]], simp, simp)+

definition oa_views :: "SdpOaState \<Rightarrow> SessionParameter option list \<times> SessionParameter" where
  "oa_views s = ([m_pLastOfferMade s, m_pCurrentView s, m_pPeerView s, m_pProposalView s, m_pRefusedView s],
     m_objCapabilities s)"

lemma oa_trigger_of_views [simp]: "oa_views (snd (oa_trigger_of m b s)) = oa_views s"
  by (rule disjE [OF oa_trigger_of_shape [of m b s]]) (simp_all add: oa_views_def)

lemma oa_trigger_of_failure:
  "oa_trigger_of m b s = (Some TRIGGER_FAILURE_RESP, s') \<Longrightarrow> msg_response m \<and> msg_status m \<notin> {100..<300}"
  by (auto simp: oa_trigger_of_def IsProvisional_def IsFinalSuccess_def Let_def
      split: sip_method.splits if_splits)

lemma SetCapabilities_state: "m_nState (SetCapabilities s) = m_nState s"
  by (simp add: SetCapabilities_def split: option.split)

lemma oa_sent_state:
  "oa_sent t s = (ok, ch, s') \<Longrightarrow>
    (if ok then m_nState s' = STATE_SENT (m_nState s) t \<and> STATE_SENT (m_nState s) t \<noteq> STATE_INVALID
     else s' = s)"
proof (cases "STATE_SENT (m_nState s) t = STATE_INVALID")
  case True
  then show "oa_sent t s = (ok, ch, s') \<Longrightarrow> ?thesis" by (simp add: oa_sent_def)
next
  case False
  then have "fst (oa_sent t s)" "m_nState (snd (snd (oa_sent t s))) = STATE_SENT (m_nState s) t"
    by (simp_all add: oa_sent_def Let_def SetCapabilities_state)
  with False show "oa_sent t s = (ok, ch, s') \<Longrightarrow> ?thesis" by simp
qed

lemma oa_received_state:
  "oa_received meth b t s = (ok, ch, s') \<Longrightarrow>
    ok \<and> (m_nState s' = STATE_RECEIVED (m_nState s) t \<or> m_nState s' = m_nState s)"
  by (auto simp: oa_received_def Let_def split: if_splits)

text \<open>What \<open>UpdateState\<close> does once the trigger is known and no exception applies.\<close>

definition oa_transition :: "oa_flow \<Rightarrow> ISipMessage \<Rightarrow> oa_trigger \<Rightarrow> SdpOaState \<Rightarrow> bool \<times> SdpOaState" where
  "oa_transition f m t s =
     (case (if f = MESSAGE_SENT then oa_sent t s
            else oa_received (msg_method m) (msg_sdp m \<noteq> NO_SDP) t s) of
        (False, _, s') \<Rightarrow> (False, s')
      | (True, b, s') \<Rightarrow>
          (let s' = (if t \<in> {TRIGGER_RPR, TRIGGER_PROVISIONAL_RESP} \<and> m_bStateChanged s'
                     then s'\<lparr>m_bProvisionalRespWithSdp := True\<rparr> else s');
               s' = (if b then s'\<lparr>m_nOldState := m_nState s\<rparr> else s')
           in (True, s')))"

lemma UpdateState_transition:
  assumes "UpdateState m f e n s = (ok, s')"
  obtains s1 t where "m_nState s1 = m_nState s" "m_nOldState s1 = m_nOldState s" "\<not> m_bStateChanged s1"
    "m_bPreviewMode s1 = m_bPreviewMode s" "m_nMode s1 = m_nMode s" "oa_views s1 = oa_views s"
    "t = TRIGGER_FAILURE_RESP \<longrightarrow> msg_response m \<and> msg_status m \<notin> {100..<300}"
    "(s' = s1 \<and> (\<not> ok \<longrightarrow> f = MESSAGE_RECEIVED)) \<or>
      (ok, s') = oa_transition f m t s1 \<and>
       (f = MESSAGE_RECEIVED \<longrightarrow> STATE_RECEIVED (m_nState s1) t \<noteq> STATE_INVALID)"
proof -
  define u where "u = (if f = MESSAGE_SENT then s\<lparr>m_bOfferProgress := False\<rparr> else s)\<lparr>m_bStateChanged := False\<rparr>"
  obtain t s1 where t: "oa_trigger_of m n u = (t, s1)" by (metis prod.collapse)
  have k: "m_nState s1 = m_nState s" "m_nOldState s1 = m_nOldState s" "\<not> m_bStateChanged s1"
    "m_bPreviewMode s1 = m_bPreviewMode s" "m_nMode s1 = m_nMode s" "oa_views s1 = oa_views s"
    using oa_trigger_of_keeps [of m n u, unfolded t snd_conv] oa_trigger_of_views [of m n u, unfolded t snd_conv]
    by (simp_all add: u_def oa_views_def)
  have U: "UpdateState m f e n s = (case t of None \<Rightarrow> (True, s1) | Some t \<Rightarrow>
      if t = TRIGGER_PROVISIONAL_RESP \<and> \<not> n \<and> \<not> m_bPreviewMode s1 then (True, s1)
      else if msg_sdp m = NO_SDP \<and> t \<noteq> TRIGGER_FAILURE_RESP then (True, s1)
      else if f = MESSAGE_RECEIVED \<and> t = TRIGGER_FAILURE_RESP \<and> msg_method m \<noteq> SIP_INVITE
              \<and> msg_status m \<in> {401, 407} \<and> \<not> (e \<and> msg_method m = SIP_UPDATE) then (True, s1)
      else if f = MESSAGE_RECEIVED \<and> STATE_RECEIVED (m_nState s1) t = STATE_INVALID then (False, s1)
      else if f = MESSAGE_RECEIVED \<and> msg_method m = SIP_UPDATE
              \<and> STATE_RECEIVED (m_nState s1) t = STATE_OFFER_CHANGE_RECEIVED
              \<and> (t = TRIGGER_SUCCESS_RESP \<or> m_bPreviewMode s1) then (True, s1)
      else oa_transition f m t s1)"
    by (simp only: UpdateState_def oa_transition_def Let_def u_def [symmetric] t prod.case not_not)
  show ?thesis
  proof (cases t)
    case None
    then show ?thesis using U assms k by (intro that [of s1 TRIGGER_NONE]) auto
  next
    case (Some tr)
    have "(s' = s1 \<and> (\<not> ok \<longrightarrow> f = MESSAGE_RECEIVED)) \<or> (ok, s') = oa_transition f m tr s1 \<and>
       (f = MESSAGE_RECEIVED \<longrightarrow> STATE_RECEIVED (m_nState s1) tr \<noteq> STATE_INVALID)"
      using U [unfolded assms Some option.case] by (auto split: if_split_asm)
    then show ?thesis using k t oa_trigger_of_failure [of m n u s1] by (intro that [of s1 tr]) (auto simp: Some)
  qed
qed

lemma oa_transition_state:
  assumes "oa_transition f m t s = (ok, s')"
  shows "m_nState s' = m_nState s \<or> ok \<and>
    m_nState s' = (if f = MESSAGE_SENT then STATE_SENT else STATE_RECEIVED) (m_nState s) t \<and>
    (f = MESSAGE_SENT \<longrightarrow> STATE_SENT (m_nState s) t \<noteq> STATE_INVALID)"
proof -
  obtain ok1 ch s2 where r: "(if f = MESSAGE_SENT then oa_sent t s
      else oa_received (msg_method m) (msg_sdp m \<noteq> NO_SDP) t s) = (ok1, ch, s2)" by (metis prod.collapse)
  then have "m_nState s' = m_nState s2 \<and> ok = ok1"
    using assms by (auto simp: oa_transition_def Let_def split: if_splits bool.splits)
  then show ?thesis
    using r oa_sent_state [of t s ok1 ch s2] oa_received_state [of "msg_method m" "msg_sdp m \<noteq> NO_SDP" t s ok1 ch s2]
    by (cases f; cases ok1) auto
qed

text \<open>C12:
  Refinement of the offer/answer model of RFC 3264: whatever is sent or received,
  \<open>UpdateState\<close> leaves the state alone or makes one step of the exchange in which at most one offer is
  outstanding: without one, sending makes an offer of ours and receiving one of the peer's; only
  the other side's message ends it, with the answer or back where it came from. When it refuses,
  the state is as before.
\<close>

theorem UpdateState_refines:
  assumes "UpdateState m f bIsCallEstablished bAllowOaForNonRpr s = (ok, s')"
  shows "m_nState s' = m_nState s \<or> ok \<and> offer_step f (offer_of (m_nState s)) (offer_of (m_nState s'))"
proof -
  obtain s1 t where k: "m_nState s1 = m_nState s" and
    r: "(s' = s1 \<and> (\<not> ok \<longrightarrow> f = MESSAGE_RECEIVED)) \<or> (ok, s') = oa_transition f m t s1 \<and>
       (f = MESSAGE_RECEIVED \<longrightarrow> STATE_RECEIVED (m_nState s1) t \<noteq> STATE_INVALID)"
    by (rule UpdateState_transition [OF assms]) blast
  show ?thesis
    using r oa_transition_state [of f m t s1 ok s'] table_sent [of "m_nState s" t] table_received [of "m_nState s" t]
    by (cases f) (auto simp: k)
qed

text \<open>C32:
  Glare: while an offer is outstanding, from either side and for the first session or a later
  one, an INVITE or UPDATE with another offer is refused, sent or received, and no offer/answer
  state or view changes.
\<close>

theorem offer_glare:
  assumes "offer_of (m_nState s) \<notin> {NO_OFFER True, NO_OFFER False}"
    and "msg_method m \<in> {SIP_INVITE, SIP_UPDATE}" and "\<not> msg_response m" and "msg_sdp m \<noteq> NO_SDP"
  shows "UpdateState m f bIsCallEstablished bAllowOaForNonRpr s =
    (False, (if f = MESSAGE_SENT then s\<lparr>m_bOfferProgress := False\<rparr> else s)\<lparr>m_bStateChanged := False\<rparr>)"
proof -
  have "m_nState s \<in> {STATE_OFFER_SENT, STATE_OFFER_RECEIVED, STATE_OFFER_CHANGE_SENT, STATE_OFFER_CHANGE_RECEIVED}"
    using assms(1) by (cases "m_nState s") auto
  then show ?thesis using assms(2-4)
    by (cases f) (auto simp: UpdateState_def oa_trigger_of_def oa_sent_def Let_def)
qed

section \<open>Malformed descriptions\<close>

lemma oa_received_malformed:
  assumes "oa_received meth True t s = (ok, ch, s2)" and "\<not> m_bPreviewMode s" and "\<not> m_bStateChanged s"
    and "STATE_RECEIVED (m_nState s) t \<noteq> STATE_INVALID" and "t \<noteq> TRIGGER_FAILURE_RESP"
  shows "m_nState s2 = STATE_RECEIVED (m_nState s) t \<and> m_bStateChanged s2 = ch \<and>
    ch = (STATE_RECEIVED (m_nState s) t \<noteq> m_nState s) \<and> oa_views s2 = oa_views s \<and>
    (ch \<longrightarrow> m_nState (oa_rollback (s2\<lparr>m_nOldState := m_nState s, m_bProvisionalRespWithSdp := x\<rparr>)) = m_nState s)"
  using assms
  by (cases "m_nState s") (auto simp: oa_received_def oa_rollback_def oa_views_def Let_def split: if_splits)

lemma oa_views_flags [simp]:
  "oa_views (s\<lparr>m_nOldState := a\<rparr>) = oa_views s" "oa_views (s\<lparr>m_bProvisionalRespWithSdp := b\<rparr>) = oa_views s"
  "oa_views (s\<lparr>m_nState := c\<rparr>) = oa_views s" "oa_views (s\<lparr>m_bStateChanged := b\<rparr>) = oa_views s"
  "oa_views (s\<lparr>m_nMode := d\<rparr>) = oa_views s"
  by (simp_all add: oa_views_def)

lemma oa_rollback_views [simp]: "oa_views (oa_rollback s) = oa_views s"
  by (simp add: oa_rollback_def oa_views_def)

text \<open>
A description that cannot be decoded is as if it had not come: after a request, or a provisional
  or successful response, with such a body, the offer/answer state and every view are what they
  were before it. The hypothesis excludes the preview mode, in which the old state is that of an
  earlier exchange.
\<close>

theorem malformed_ignored:
  assumes "oa_receive m bIsCallEstablished bAllowOaForNonRpr s = (ok, r)"
    and "msg_sdp m = SDP_MALFORMED" and "\<not> m_bPreviewMode s"
    and "msg_response m \<Longrightarrow> msg_status m \<in> {100..<300}"
  shows "\<exists>res s'. r = Inr (res, s') \<and> m_nState s' = m_nState s \<and> oa_views s' = oa_views s"
proof -
  obtain ok1 u where u: "UpdateState m MESSAGE_RECEIVED bIsCallEstablished bAllowOaForNonRpr s = (ok1, u)"
    by (metis prod.collapse)
  obtain s1 t where k: "m_nState s1 = m_nState s" "\<not> m_bStateChanged s1" "m_bPreviewMode s1 = m_bPreviewMode s"
      "oa_views s1 = oa_views s" and "t = TRIGGER_FAILURE_RESP \<longrightarrow> msg_response m \<and> msg_status m \<notin> {100..<300}"
    and tr: "u = s1 \<or> (ok1, u) = oa_transition MESSAGE_RECEIVED m t s1 \<and>
        STATE_RECEIVED (m_nState s1) t \<noteq> STATE_INVALID"
    by (rule UpdateState_transition [OF u]) auto
  then have nf: "t \<noteq> TRIGGER_FAILURE_RESP" using assms(4) by blast
  have r: "r = (if ok1 then HandleOfferAnswer m u else Inr (RESULT_NOT_CHANGED, u))"
    using assms(1) by (auto simp: oa_receive_def u)
  show ?thesis
  proof (cases "u = s1")
    case True
    then show ?thesis using r k by (simp add: HandleOfferAnswer_def)
  next
    case False
    obtain ok2 ch s2 where c: "oa_received (msg_method m) True t s1 = (ok2, ch, s2)" by (metis prod.collapse)
    note o = oa_received_malformed [OF c _ k(2) _ nf]
    have tr': "(ok1, u) = oa_transition MESSAGE_RECEIVED m t s1" "STATE_RECEIVED (m_nState s1) t \<noteq> STATE_INVALID"
      using tr False by auto
    have "ok2" using oa_received_state [OF c] by simp
    then have u': "ok1 \<and> u = (let s' = (if t \<in> {TRIGGER_RPR, TRIGGER_PROVISIONAL_RESP} \<and> m_bStateChanged s2
                     then s2\<lparr>m_bProvisionalRespWithSdp := True\<rparr> else s2)
                   in if ch then s'\<lparr>m_nOldState := m_nState s1\<rparr> else s')"
      using tr'(1) assms(2) by (simp add: oa_transition_def c Let_def)
    define x where "x = (m_bProvisionalRespWithSdp s2 \<or> t \<in> {TRIGGER_RPR, TRIGGER_PROVISIONAL_RESP} \<and> m_bStateChanged s2)"
    from u' have "ok1" by blast
    from u' have "u = (if ch then s2\<lparr>m_nOldState := m_nState s1, m_bProvisionalRespWithSdp := x\<rparr>
        else s2\<lparr>m_bProvisionalRespWithSdp := x\<rparr>)"
      by (simp add: Let_def x_def)
    then show ?thesis using o [of x] tr'(2) k assms(2,3) r \<open>ok1\<close>
      by (cases ch) (auto simp: HandleOfferAnswer_def)
  qed
qed

section \<open>Offers\<close>

lemma GenerateAnswer_copy_lines:
  "GetMediaCount caps = 0 \<Longrightarrow> GenerateAnswer_copy caps offer = (r, pp, view) \<Longrightarrow>
    list_all2 answers (m_objMediaParams pp) (m_objMediaParams offer) \<and> m_strRemoteVersion pp = sdp_version offer"
  by (auto simp: GenerateAnswer_copy_def GetMediaCount_def SessionParameter_copy_def Let_def RemoveConnections_def
      list_all2_conv_all_nth)

lemma GenerateAnswer_lines:
  assumes "GenerateAnswer media_param init caps offer SessionParameter_new SessionParameter_new = (r, caps', pp, view)"
    and "r \<in> {RESULT_SUCCESS, RESULT_QOS_PRECONDITION_PRESENT}" and "\<not> media_param \<Longrightarrow> GetMediaCount offer = 0"
  shows "list_all2 answers (m_objMediaParams pp) (m_objMediaParams offer) \<and> m_strRemoteVersion pp = sdp_version offer"
proof (cases media_param)
  case True
  then have n: "negotiate init True True caps offer SessionParameter_new SessionParameter_new = (r, caps', pp, view)"
    using assms(1) by (simp add: GenerateAnswer_def)
  show ?thesis using negotiate_lines [OF n] negotiate_version [OF n] assms(2) by blast
next
  case False
  then show ?thesis using assms
    by (auto simp: GenerateAnswer_def negotiate_def CompareMediaGroups_def CompareSessionParameters_def
        SessionParameter_Create_def GetMediaCount_def Let_def split: prod.splits if_splits)
qed

text \<open>C33:
  An offer is answered: with a first offer (\<open>STATE_OFFER_RECEIVED\<close>), or a later one
  (\<open>STATE_OFFER_CHANGE_RECEIVED\<close>) in a session that has a current view, no null view is read and the
  state stays. When the negotiation succeeds, with or without a precondition, the proposed answer has
  the m-lines of the offer, each of the same media type over the same transport and refused if it was
  (\<open>answers\<close>, with the names of known media as there), and it remembers as version of the remote end
  (\<open>m_strRemoteVersion\<close>) that of the o-line of the offer.
\<close>

theorem offer_answered:
  assumes "m_nState s = STATE_OFFER_RECEIVED \<or> m_nState s = STATE_OFFER_CHANGE_RECEIVED \<and> m_pCurrentView s \<noteq> None"
  shows "\<exists>r s'. HandleOffer (Some pOffer) s = Inr (r, s') \<and> m_nState s' = m_nState s \<and>
    (r \<in> {RESULT_SUCCESS, RESULT_QOS_PRECONDITION_PRESENT} \<longrightarrow>
      (\<exists>pp. m_pProposalView s' = Some pp \<and> list_all2 answers (m_objMediaParams pp) (m_objMediaParams pOffer) \<and>
            m_strRemoteVersion pp = sdp_version pOffer))"
proof -
  let ?offer = "UpdateRemoteVersion (sdp_version pOffer) pOffer"
  let ?mp = "\<not> (GetMediaCount ?offer = 0 \<and> (m_nState s = STATE_OFFER_RECEIVED \<or>
    m_nState s = STATE_OFFER_CHANGE_RECEIVED \<and> GetMediaCount (the (m_pCurrentView s)) = 0))"
  have o: "m_objMediaParams ?offer = m_objMediaParams pOffer" "sdp_version ?offer = sdp_version pOffer"
    "GetMediaCount ?offer = GetMediaCount pOffer"
    by (simp_all add: UpdateRemoteVersion_def GetMediaCount_def)
  have inc: "m_pCurrentView u \<noteq> None \<Longrightarrow> \<exists>u'. SdpOaState_IncreaseSessionVersion u = Inr u' \<and> m_nState u' = m_nState u"
    for u by (auto simp: SdpOaState_IncreaseSessionVersion_def)
  obtain caps where c: "view_at (GetCurrentCapabilities s) s = Some caps"
    using assms by (cases "m_pLastOfferMade s") (auto simp: view_at_def GetCurrentCapabilities_def)
  obtain r1 pp1 view1 where g1: "GenerateAnswer_copy caps ?offer = (r1, pp1, view1)" by (metis prod.collapse)
  obtain r2 caps2 pp2 view2 where g2: "GenerateAnswer ?mp (m_nState s \<noteq> STATE_OFFER_CHANGE_RECEIVED) caps ?offer
      SessionParameter_new SessionParameter_new = (r2, caps2, pp2, view2)" by (metis prod.collapse)
  have set: "m_nState (set_view v q u) = m_nState u" for v q u by (cases v) (simp_all add: set_view_def)
  consider (copy) "m_nState s = STATE_OFFER_RECEIVED" "GetMediaCount caps = 0"
    | (same) cur where "m_nState s = STATE_OFFER_CHANGE_RECEIVED" "m_pCurrentView s = Some cur"
        "m_bSdpVersionCheck s" "SessionParameter_IsSameVersion caps ?offer"
    | (new) "\<not> (m_nState s = STATE_OFFER_RECEIVED \<and> GetMediaCount caps = 0)"
        "\<not> (m_nState s = STATE_OFFER_CHANGE_RECEIVED \<and> m_bSdpVersionCheck s \<and> SessionParameter_IsSameVersion caps ?offer)"
    using assms by (cases "GetMediaCount caps = 0") (auto simp: not_None_eq)
  then show ?thesis
  proof cases
    case copy
    then show ?thesis using c g1 GenerateAnswer_copy_lines [OF copy(2) g1]
      by (simp add: HandleOffer_def SetLastSdpProvidedWithNegotiatedSdp_def o)
  next
    case same
    then show ?thesis using c
      inc [of "s\<lparr>m_pCurrentView := Some (SetLastSdpProvidedWithNegotiatedSdp True cur)\<rparr>"]
      by (cases "m_bLastSdpProvidedWithNegotiatedSdp cur") (auto simp: HandleOffer_def Let_def)
  next
    case new
    have l: "r2 \<in> {RESULT_SUCCESS, RESULT_QOS_PRECONDITION_PRESENT} \<Longrightarrow>
        list_all2 answers (m_objMediaParams pp2) (m_objMediaParams pOffer) \<and> m_strRemoteVersion pp2 = sdp_version pOffer"
      using GenerateAnswer_lines [OF g2] by (simp add: o)
    have nn: "\<not> (m_nState s = STATE_OFFER_CHANGE_RECEIVED \<and> m_pCurrentView s = None)" using assms by auto
    let ?u = "(set_view (GetCurrentCapabilities s) caps2 s)\<lparr>m_pPeerView := Some view2\<rparr>"
    have "HandleOffer (Some pOffer) s = Inr (r2,
      if r2 \<in> {RESULT_SUCCESS, RESULT_QOS_PRECONDITION_PRESENT} \<and> m_nState ?u = STATE_OFFER_CHANGE_RECEIVED
      then ?u\<lparr>m_pProposalView := Some (SessionParameter_IncreaseSessionVersion
               (SetLastSdpProvidedWithNegotiatedSdp True pp2)),
             m_objCapabilities := SessionParameter_IncreaseSessionVersion (m_objCapabilities ?u),
             m_pLastOfferMade := map_option SessionParameter_IncreaseSessionVersion (m_pLastOfferMade ?u)\<rparr>
      else ?u\<lparr>m_pProposalView := Some pp2\<rparr>)"
      using new nn by (simp only: HandleOffer_def option.case Let_def c g2 prod.case if_not_P if_False simp_thms split: if_split) simp
    then show ?thesis using l set
      by (auto simp: SetLastSdpProvidedWithNegotiatedSdp_def SessionParameter_IncreaseSessionVersion_def)
  qed
qed

text \<open>
When a proposal can be created: the call reads a null view exactly when no offer is outstanding
  and there is neither a proposal nor a current view, in particular before the first exchange; it
  succeeds exactly when no offer is outstanding, there is no proposal and there is a current view,
  and then the proposal is the current view with its version raised.
\<close>

theorem CreateProposalView_result:
  "(CreateProposalView s = Inl NULL_VIEW) =
     (m_nState s \<in> {STATE_IDLE, STATE_ESTABLISHED} \<and> m_pProposalView s = None \<and> m_pCurrentView s = None) \<and>
   (\<exists>s'. CreateProposalView s = Inr (OA_SUCCESS, s') \<and> m_bOfferProgress s' \<and> m_nMode s' = MODE_OFFERER \<and>
      map_option sdp_version (m_pProposalView s') =
        map_option (\<lambda>v. Sdp_IncreaseSessionVersion (sdp_version v)) (m_pCurrentView s)) =
     (m_nState s \<in> {STATE_IDLE, STATE_ESTABLISHED} \<and> m_pProposalView s = None \<and> m_pCurrentView s \<noteq> None)"
proof -
  have v: "sdp_version (SessionParameter_IncreaseSessionVersion (SessionParameter_copy v)) =
      Sdp_IncreaseSessionVersion (sdp_version v)" for v
    by (simp add: SessionParameter_IncreaseSessionVersion_def SessionParameter_copy_def
        Session_IncreaseSessionVersion_def)
  show ?thesis
    by (cases "m_nState s"; cases "m_pProposalView s"; cases "m_pCurrentView s")
       (simp_all add: CreateProposalView_def InitiateOffer_def SdpOaState_IncreaseSessionVersion_def Let_def v)
qed

section \<open>Examples\<close>

definition ex_message :: "sip_method \<Rightarrow> bool \<Rightarrow> int \<Rightarrow> sdp_body \<Rightarrow> ISipMessage" where
  "ex_message meth resp code body =
     \<lparr> msg_method = meth, msg_response = resp, msg_status = code, msg_rpr = False, msg_sdp = body \<rparr>"

abbreviation ex_body :: sdp_body where
  "ex_body \<equiv> SDP (ex_session [ex_stream DIRECTION_SENDRECV 6000])"

definition ex_offering :: SdpOaState where
  "ex_offering = (SdpOaState_new True False)\<lparr>m_nState := STATE_OFFER_SENT, m_nMode := MODE_OFFERER\<rparr>"

text \<open>The answer of a 200 ends the exchange; an UPDATE with an offer meanwhile is refused.\<close>

theorem UpdateState_refines_witness:
  "\<exists>s'. UpdateState (ex_message SIP_INVITE True 200 ex_body) MESSAGE_RECEIVED False False ex_offering = (True, s') \<and>
    offer_step MESSAGE_RECEIVED (offer_of (m_nState ex_offering)) (offer_of (m_nState s'))"
proof -
  obtain ok s' where r: "UpdateState (ex_message SIP_INVITE True 200 ex_body) MESSAGE_RECEIVED False False ex_offering
      = (ok, s')" by (metis prod.collapse)
  then have "ok" "m_nState s' = STATE_ESTABLISHED"
    by (auto simp: UpdateState_def oa_trigger_of_def oa_received_def ex_message_def ex_offering_def SdpOaState_new_def
        IsProvisional_def IsFinalSuccess_def Let_def)
  then show ?thesis using UpdateState_refines [OF r] r by (simp add: ex_offering_def)
qed

theorem offer_glare_witness:
  "\<exists>s'. UpdateState (ex_message SIP_UPDATE False 0 ex_body) MESSAGE_RECEIVED False False ex_offering = (False, s') \<and>
    m_nState s' = STATE_OFFER_SENT"
  using offer_glare [of ex_offering "ex_message SIP_UPDATE False 0 ex_body" MESSAGE_RECEIVED False False]
  by (simp add: ex_offering_def ex_message_def)

theorem malformed_ignored_witness:
  "\<exists>ok res s'. oa_receive (ex_message SIP_INVITE True 200 SDP_MALFORMED) False False ex_offering = (ok, Inr (res, s')) \<and>
    m_nState s' = STATE_OFFER_SENT"
proof -
  obtain ok r where r: "oa_receive (ex_message SIP_INVITE True 200 SDP_MALFORMED) False False ex_offering = (ok, r)"
    by (metis prod.collapse)
  show ?thesis using malformed_ignored [OF r] r by (auto simp: ex_message_def ex_offering_def SdpOaState_new_def)
qed

theorem offer_answered_witness:
  "\<exists>r s'. HandleOffer (Some (ex_session [ex_stream DIRECTION_SENDRECV 6000]))
      ((SdpOaState_new True False)\<lparr>m_nState := STATE_OFFER_RECEIVED\<rparr>) = Inr (r, s') \<and>
    (\<exists>pp. m_pProposalView s' = Some pp \<and> GetMediaCount pp = 1)"
proof -
  let ?s = "(SdpOaState_new True False)\<lparr>m_nState := STATE_OFFER_RECEIVED\<rparr>"
  let ?offer = "ex_session [ex_stream DIRECTION_SENDRECV 6000]"
  have "m_nState ?s = STATE_OFFER_RECEIVED \<or> m_nState ?s = STATE_OFFER_CHANGE_RECEIVED \<and> m_pCurrentView ?s \<noteq> None"
    by simp
  from offer_answered [OF this, of ?offer] obtain r s' where h: "HandleOffer (Some ?offer) ?s = Inr (r, s')"
    and a: "r \<in> {RESULT_SUCCESS, RESULT_QOS_PRECONDITION_PRESENT} \<longrightarrow>
      (\<exists>pp. m_pProposalView s' = Some pp \<and> list_all2 answers (m_objMediaParams pp) (m_objMediaParams ?offer))"
    by blast
  have "r = RESULT_SUCCESS"
    using h by (auto simp: HandleOffer_def SdpOaState_new_def GetCurrentCapabilities_def view_at_def
        SessionParameter_new_def GetMediaCount_def GenerateAnswer_copy_def Let_def)
  then show ?thesis using h a by (fastforce simp: GetMediaCount_def ex_session_def dest: list_all2_lengthD)
qed

end
