(* ===== verification/ImsBase64.thy ===== *)
theory ImsBase64
  imports SipPrelude "HOL-Library.Char_ord"
begin

text \<open>
  Base64: the encoder and the decoder of \<open>platform/util/ImsBase64.cpp\<close>, the former with and without
  line breaks, and the pair \<open>AString::ToBase64\<close>, \<open>AString::FromBase64\<close> of
  \<open>platform/util/AString.cpp\<close>. Bytes and characters are 8-bit words. The decoder reads its source by
  position: a read outside the memory that is given is the value \<open>None\<close>.
\<close>

type_synonym byte = "8 word"

section \<open>The tables\<close>

definition BASE64_ALPHABET :: "byte list" where
  "BASE64_ALPHABET =
     map of_char ''ABCDEFGHIJKLMNOPQRSTUVWXYZabcdefghijklmnopqrstuvwxyz0123456789+/''"

abbreviation "BASE64_PAD \<equiv> (0x3D :: byte)"
abbreviation "CR \<equiv> (0x0D :: byte)"
abbreviation "LF \<equiv> (0x0A :: byte)"

definition BASE64_ENCODING_TABLE :: "byte \<Rightarrow> byte" where
  "BASE64_ENCODING_TABLE c = BASE64_ALPHABET ! unat c"

definition BASE64_DECODING_TABLE :: "byte \<Rightarrow> byte" where
  "BASE64_DECODING_TABLE c =
     (if c = 43 then 62 else if c = 47 then 63
      else if 48 \<le> c \<and> c \<le> 57 then c - 48 + 52
      else if 65 \<le> c \<and> c \<le> 90 then c - 65
      else if 97 \<le> c \<and> c \<le> 122 then c - 97 + 26
      else 0xFF)"

section \<open>ImsBase64\<close>

text \<open>
  The encoder writes one character at a time; with \<open>bAddCrlf\<close> it counts those of the line and
  breaks it after 76.
\<close>

definition MAX_LINE_LEN :: nat where "MAX_LINE_LEN = 76"

definition emit :: "bool \<Rightarrow> byte \<Rightarrow> byte list \<times> nat \<Rightarrow> byte list \<times> nat" where
  "emit bAddCrlf c s =
     (case s of (dest, nLineCount) \<Rightarrow>
        if \<not> bAddCrlf then (dest @ [c], nLineCount)
        else if nLineCount + 1 = MAX_LINE_LEN then (dest @ [c, CR, LF], 0)
        else (dest @ [c], nLineCount + 1))"

fun Encode_loop :: "bool \<Rightarrow> byte list \<Rightarrow> byte list \<times> nat \<Rightarrow> byte list \<times> nat" where
  "Encode_loop bAddCrlf [] s = s"
| "Encode_loop bAddCrlf [x] s =
     (let s = emit bAddCrlf (BASE64_ENCODING_TABLE (drop_bit 2 x AND 0x3F)) s;
          s = emit bAddCrlf (BASE64_ENCODING_TABLE (push_bit 4 x AND 0x3F)) s;
          s = emit bAddCrlf BASE64_PAD s
      in emit bAddCrlf BASE64_PAD s)"
| "Encode_loop bAddCrlf [x, y] s =
     (let s = emit bAddCrlf (BASE64_ENCODING_TABLE (drop_bit 2 x AND 0x3F)) s;
          s = emit bAddCrlf (BASE64_ENCODING_TABLE ((push_bit 4 x AND 0x3F) OR (drop_bit 4 y AND 0x0F))) s;
          s = emit bAddCrlf (BASE64_ENCODING_TABLE (push_bit 2 y AND 0x3F)) s
      in emit bAddCrlf BASE64_PAD s)"
| "Encode_loop bAddCrlf (x # y # z # xs) s =
     (let s = emit bAddCrlf (BASE64_ENCODING_TABLE (drop_bit 2 x AND 0x3F)) s;
          s = emit bAddCrlf (BASE64_ENCODING_TABLE ((push_bit 4 x AND 0x3F) OR (drop_bit 4 y AND 0x0F))) s;
          s = emit bAddCrlf (BASE64_ENCODING_TABLE ((push_bit 2 y AND 0x3F) OR (drop_bit 6 z AND 0x03))) s
      in Encode_loop bAddCrlf xs (emit bAddCrlf (BASE64_ENCODING_TABLE (z AND 0x3F)) s))"

text \<open>What is written, without the terminator that follows it; its length is what is returned.\<close>

definition ImsBase64_Encode :: "bool \<Rightarrow> byte list \<Rightarrow> byte list" where
  "ImsBase64_Encode bAddCrlf src = fst (Encode_loop bAddCrlf src ([], 0))"

definition rd :: "byte list \<Rightarrow> nat \<Rightarrow> byte option" where
  "rd m n = (if n < length m then Some (m ! n) else None)"

text \<open>The two tests before each character: a line feed, then a carriage return.\<close>

definition skip_lf :: "byte list \<Rightarrow> nat \<Rightarrow> nat option" where
  "skip_lf m nPos = (case rd m nPos of None \<Rightarrow> None | Some c \<Rightarrow> Some (if c = LF then nPos + 1 else nPos))"

definition skip_cr :: "byte list \<Rightarrow> nat \<Rightarrow> nat option" where
  "skip_cr m nPos = (case rd m nPos of None \<Rightarrow> None | Some c \<Rightarrow> Some (if c = CR then nPos + 2 else nPos))"

definition next_char :: "byte list \<Rightarrow> nat \<Rightarrow> (nat \<times> byte) option" where
  "next_char m nPos =
     (case skip_lf m nPos of None \<Rightarrow> None
      | Some nPos \<Rightarrow>
          (case skip_cr m nPos of None \<Rightarrow> None
           | Some nPos \<Rightarrow> map_option (Pair nPos) (rd m nPos)))"

lemma next_char_le: "next_char m n = Some (n', c) \<Longrightarrow> n \<le> n'"
  by (auto simp: next_char_def skip_lf_def skip_cr_def split: option.splits if_splits)

text \<open>
  One round of the loop gives what it writes and the position it ends at, \<open>None\<close> of the latter
  standing for the \<open>break\<close> at a padding character.
\<close>

definition Decode_step :: "byte list \<Rightarrow> nat \<Rightarrow> nat \<Rightarrow> (byte list \<times> nat option) option" where
  "Decode_step m nSrcLen nPos =
     (case next_char m nPos of None \<Rightarrow> None
      | Some (nPos, c) \<Rightarrow>
     (let c8bit = BASE64_DECODING_TABLE c
      in case next_char m (nPos + 1) of None \<Rightarrow> None
      | Some (nPos, c) \<Rightarrow>
     (let c8bit1 = BASE64_DECODING_TABLE c;
          c8bit = push_bit 2 c8bit OR (drop_bit 4 c8bit1 AND 0x03);
          dest = [c8bit];
          nPos = nPos + 1
      in case (if nPos < nSrcLen
               then (case next_char m nPos of None \<Rightarrow> None
                     | Some (nPos, c) \<Rightarrow>
                         if c = BASE64_PAD then Some (dest, None)
                         else (let c8bit = BASE64_DECODING_TABLE c
                               in Some (dest @ [(push_bit 4 c8bit1 AND 0xF0) OR (drop_bit 2 c8bit AND 0x0F)],
                                        Some (nPos, c8bit))))
               else Some (dest, Some (nPos, c8bit))) of
           None \<Rightarrow> None
         | Some (dest, None) \<Rightarrow> Some (dest, None)
         | Some (dest, Some (nPos, c8bit)) \<Rightarrow>
             (let nPos = nPos + 1
              in if nPos < nSrcLen
                 then (case next_char m nPos of None \<Rightarrow> None
                       | Some (nPos, c) \<Rightarrow>
                           if c = BASE64_PAD then Some (dest, None)
                           else Some (dest @ [(push_bit 6 c8bit AND 0xC0) OR BASE64_DECODING_TABLE c],
                                      Some nPos))
                 else Some (dest, Some nPos)))))"

lemma Decode_step_le: "Decode_step m n k = Some (d, Some k') \<Longrightarrow> k \<le> k'"
  by (auto simp: Decode_step_def Let_def split: option.splits if_splits dest!: next_char_le)

function Decode_loop :: "byte list \<Rightarrow> nat \<Rightarrow> nat \<Rightarrow> byte list \<Rightarrow> byte list option" where
  "Decode_loop m nSrcLen nPos dest =
     (if nPos < nSrcLen then
        (case Decode_step m nSrcLen nPos of
           None \<Rightarrow> None
         | Some (d, None) \<Rightarrow> Some (dest @ d)
         | Some (d, Some nPos') \<Rightarrow> Decode_loop m nSrcLen (nPos' + 1) (dest @ d))
      else Some dest)"
  by pat_completeness auto
termination
  by (relation "measure (\<lambda>(m, nSrcLen, nPos, dest). nSrcLen - nPos)") (auto dest: Decode_step_le)

declare Decode_loop.simps [simp del]

definition ImsBase64_Decode :: "byte list \<Rightarrow> nat \<Rightarrow> byte list option" where
  "ImsBase64_Decode m nSrcLen = Decode_loop m nSrcLen 0 []"

section \<open>AString\<close>

text \<open>
  \<open>ToBase64\<close> collects up to three bytes in a chunk; \<open>nPadLen\<close> says how many are missing in the last one.
\<close>

definition put_chunk :: "32 word \<Rightarrow> nat \<Rightarrow> byte list" where
  "put_chunk nChunk nPadLen =
     (let j = drop_bit 18 (nChunk AND 0x00FC0000);
          k = drop_bit 12 (nChunk AND 0x0003F000);
          l = drop_bit 6 (nChunk AND 0x00000FC0);
          m = nChunk AND 0x0000003F
      in [BASE64_ALPHABET ! unat j, BASE64_ALPHABET ! unat k,
          if nPadLen > 1 then BASE64_PAD else BASE64_ALPHABET ! unat l,
          if nPadLen > 0 then BASE64_PAD else BASE64_ALPHABET ! unat m])"

fun ToBase64 :: "byte list \<Rightarrow> byte list" where
  "ToBase64 [] = []"
| "ToBase64 [x] = put_chunk (push_bit 16 (ucast x)) 2"
| "ToBase64 [x, y] = put_chunk (push_bit 16 (ucast x) OR push_bit 8 (ucast y)) 1"
| "ToBase64 (x # y # z # xs) =
     put_chunk (push_bit 16 (ucast x) OR push_bit 8 (ucast y) OR ucast z) 0 @ ToBase64 xs"

text \<open>
  The buffer that \<open>ToBase64\<close> reserves before it writes, \<open>nSize * 4 / 3 + 3\<close> in integers of 32 bits. For
  fewer than \<open>2 ^ 29\<close> bytes the text fits into it (\<open>ToBase64_fits\<close>); from there on the product wraps.
\<close>

definition ToBase64_buffer :: "nat \<Rightarrow> int" where
  "ToBase64_buffer nSize =
     (let n = signed_take_bit 31 (int nSize * 4)
      in signed_take_bit 31 ((if n < 0 then - ((- n) div 3) else n div 3) + 3))"

definition base64_code :: "byte \<Rightarrow> 32 word option" where
  "base64_code ch =
     (if 65 \<le> ch \<and> ch \<le> 90 then Some (ucast ch - 65)
      else if 97 \<le> ch \<and> ch \<le> 122 then Some (ucast ch - 97 + 26)
      else if 48 \<le> ch \<and> ch \<le> 57 then Some (ucast ch - 48 + 52)
      else if ch = 43 then Some 62 else if ch = 47 then Some 63 else None)"

fun FromBase64_loop :: "byte list \<Rightarrow> 32 word \<Rightarrow> nat \<Rightarrow> byte list \<Rightarrow> byte list" where
  "FromBase64_loop [] nBuf nBits out = out"
| "FromBase64_loop (ch # cs) nBuf nBits out =
     (case base64_code ch of
        None \<Rightarrow> FromBase64_loop cs nBuf nBits out
      | Some nCode \<Rightarrow>
          (let nBuf = push_bit 6 nBuf OR nCode; nBits = nBits + 6
           in if nBits \<ge> 8
              then (let nBits = nBits - 8
                    in FromBase64_loop cs (nBuf AND (push_bit nBits 1 - 1)) nBits
                         (out @ [ucast (drop_bit nBits nBuf)]))
              else FromBase64_loop cs nBuf nBits out))"

definition FromBase64 :: "byte list \<Rightarrow> byte list" where
  "FromBase64 s = FromBase64_loop s 0 0 []"

section \<open>Six bits\<close>

lemma alphabet:
  "BASE64_ALPHABET =
     [65, 66, 67, 68, 69, 70, 71, 72, 73, 74, 75, 76, 77, 78, 79, 80,
      81, 82, 83, 84, 85, 86, 87, 88, 89, 90, 97, 98, 99, 100, 101, 102,
      103, 104, 105, 106, 107, 108, 109, 110, 111, 112, 113, 114, 115, 116, 117, 118,
      119, 120, 121, 122, 48, 49, 50, 51, 52, 53, 54, 55, 56, 57, 43, 47]"
  unfolding BASE64_ALPHABET_def by (simp add: of_char_def)

lemma six_bits_table:
  "list_all2 (\<lambda>n c. BASE64_DECODING_TABLE c = of_nat n \<and> base64_code c = Some (of_nat n) \<and>
     c \<noteq> BASE64_PAD \<and> c \<noteq> CR \<and> c \<noteq> LF) [0..<64] BASE64_ALPHABET"
  unfolding alphabet BASE64_DECODING_TABLE_def base64_code_def by (simp add: upt_conv_Cons)

lemma six_bits_nth:
  assumes "n < 64"
  shows "BASE64_DECODING_TABLE (BASE64_ALPHABET ! n) = of_nat n \<and>
    base64_code (BASE64_ALPHABET ! n) = Some (of_nat n) \<and> BASE64_ALPHABET ! n \<notin> {BASE64_PAD, CR, LF}"
  using list_all2_nthD [OF six_bits_table, of n] assms by simp

lemma six_bits:
  assumes "c < 64"
  shows "BASE64_DECODING_TABLE (BASE64_ENCODING_TABLE c) = c"
    "base64_code (BASE64_ENCODING_TABLE c) = Some (ucast c)"
    "BASE64_ENCODING_TABLE c \<noteq> BASE64_PAD" "BASE64_ENCODING_TABLE c \<noteq> CR" "BASE64_ENCODING_TABLE c \<noteq> LF"
proof -
  have n: "unat c < 64" using assms by (simp add: word_less_nat_alt)
  have c: "of_nat (unat c) = c" "of_nat (unat c) = (ucast c :: 32 word)" by simp_all
  note t = six_bits_nth [OF n, unfolded c, folded BASE64_ENCODING_TABLE_def]
  show "BASE64_DECODING_TABLE (BASE64_ENCODING_TABLE c) = c"
    "base64_code (BASE64_ENCODING_TABLE c) = Some (ucast c)"
    "BASE64_ENCODING_TABLE c \<noteq> BASE64_PAD" "BASE64_ENCODING_TABLE c \<noteq> CR" "BASE64_ENCODING_TABLE c \<noteq> LF"
    using t by auto
qed

text \<open>The four groups of six bits that three bytes are cut into.\<close>

abbreviation q1 :: "byte \<Rightarrow> byte" where "q1 x \<equiv> drop_bit 2 x AND 0x3F"
abbreviation q2 :: "byte \<Rightarrow> byte \<Rightarrow> byte" where "q2 x y \<equiv> (push_bit 4 x AND 0x3F) OR (drop_bit 4 y AND 0x0F)"
abbreviation q3 :: "byte \<Rightarrow> byte \<Rightarrow> byte" where "q3 y z \<equiv> (push_bit 2 y AND 0x3F) OR (drop_bit 6 z AND 0x03)"
abbreviation q4 :: "byte \<Rightarrow> byte" where "q4 z \<equiv> z AND 0x3F"

lemma masks: "(0x3F :: 'a::len word) = mask 6" "(0x0F :: 'a::len word) = mask 4" "(0x03 :: 'a::len word) = mask 2"
   "(0xF0 :: byte) = push_bit 4 (mask 4)" "(0xC0 :: byte) = push_bit 6 (mask 2)"
  by (simp_all add: mask_eq_exp_minus_1)

lemma below_64: "c < 64" if "\<And>n. bit c n \<Longrightarrow> n < 6" for c :: byte
proof -
  have "take_bit 6 c = c" by (rule bit_word_eqI) (auto simp: bit_simps dest: that)
  then have "unat c < 2 ^ 6" by (metis take_bit_nat_less_exp unsigned_take_bit_eq)
  then show ?thesis by (simp add: word_less_nat_alt)
qed

lemma q_less: "q1 x < 64" "q2 x y < 64" "q3 y z < 64" "q4 z < 64" "push_bit 4 x AND 0x3F < (64 :: byte)"
  "push_bit 2 x AND 0x3F < (64 :: byte)"
  by (rule below_64, auto simp: masks bit_simps)+

lemma bit_numbers: "n < LENGTH(8) \<Longrightarrow> n \<in> {0, 1, 2, 3, 4, 5, 6, 7}"
  by auto

lemma bytes_back:
  "push_bit 2 (q1 x) OR (drop_bit 4 (q2 x y) AND 0x03) = x"
  "push_bit 2 (q1 x) OR (drop_bit 4 (push_bit 4 x AND 0x3F) AND 0x03) = x"
  "(push_bit 4 (q2 x y) AND 0xF0) OR (drop_bit 2 (q3 y z) AND 0x0F) = y"
  "(push_bit 4 (q2 x y) AND 0xF0) OR (drop_bit 2 (push_bit 2 y AND 0x3F) AND 0x0F) = y"
  "(push_bit 6 (q3 y z) AND 0xC0) OR q4 z = z"
  by (rule bit_word_eqI, drule bit_numbers,
      auto simp: masks bit_simps numeral_2_eq_2 [symmetric] numeral_3_eq_3 [symmetric])+

section \<open>The text that is written\<close>

text \<open>
  A reference for the three encoders: four characters for up to three bytes, and a line break when
  the line is full. \<open>k\<close> is the length of the line so far.
\<close>

fun quad :: "byte list \<Rightarrow> byte list" where
  "quad [] = []"
| "quad [x] = [BASE64_ENCODING_TABLE (q1 x), BASE64_ENCODING_TABLE (push_bit 4 x AND 0x3F), BASE64_PAD, BASE64_PAD]"
| "quad [x, y] = [BASE64_ENCODING_TABLE (q1 x), BASE64_ENCODING_TABLE (q2 x y),
     BASE64_ENCODING_TABLE (push_bit 2 y AND 0x3F), BASE64_PAD]"
| "quad (x # y # z # xs) = [BASE64_ENCODING_TABLE (q1 x), BASE64_ENCODING_TABLE (q2 x y),
     BASE64_ENCODING_TABLE (q3 y z), BASE64_ENCODING_TABLE (q4 z)]"

definition line_break :: "bool \<Rightarrow> nat \<Rightarrow> byte list" where
  "line_break crlf k = (if crlf \<and> k = 72 then [CR, LF] else [])"

definition next_line :: "bool \<Rightarrow> nat \<Rightarrow> nat" where
  "next_line crlf k = (if \<not> crlf then k else if k = 72 then 0 else k + 4)"

fun b64 :: "bool \<Rightarrow> nat \<Rightarrow> byte list \<Rightarrow> byte list" where
  "b64 crlf k [] = []"
| "b64 crlf k [x] = quad [x] @ line_break crlf k"
| "b64 crlf k [x, y] = quad [x, y] @ line_break crlf k"
| "b64 crlf k (x # y # z # xs) = quad [x, y, z] @ line_break crlf k @ b64 crlf (next_line crlf k) xs"

lemma emit_four:
  assumes "4 dvd k" "k < 76"
  shows "emit crlf d (emit crlf c (emit crlf b (emit crlf a (dest, k)))) =
    (dest @ [a, b, c, d] @ line_break crlf k, next_line crlf k)"
proof -
  obtain j where j: "k = 4 * j" using assms(1) by (elim dvdE)
  show ?thesis using assms(2) by (simp add: emit_def MAX_LINE_LEN_def line_break_def next_line_def j)
qed

lemma next_line: "4 dvd k \<Longrightarrow> k < 76 \<Longrightarrow> 4 dvd next_line crlf k" "4 dvd k \<Longrightarrow> k < 76 \<Longrightarrow> next_line crlf k < 76"
  unfolding next_line_def by (auto elim!: dvdE)

lemma Encode_loop_b64:
  "4 dvd k \<Longrightarrow> k < 76 \<Longrightarrow> fst (Encode_loop crlf xs (dest, k)) = dest @ b64 crlf k xs"
proof (induction crlf k xs arbitrary: dest rule: b64.induct)
  case (4 crlf k x y z xs)
  have "4 dvd next_line crlf k" "next_line crlf k < 76" using next_line [OF 4(2,3)] by auto
  then show ?case using 4 by (simp add: Let_def emit_four)
qed (simp_all add: Let_def emit_four)

lemma Encode_b64: "ImsBase64_Encode crlf xs = b64 crlf 0 xs"
  by (simp add: ImsBase64_Encode_def Encode_loop_b64)

lemma chunk_masks: "(0x00FC0000 :: 32 word) = push_bit 18 (mask 6)" "(0x0003F000 :: 32 word) = push_bit 12 (mask 6)"
   "(0x00000FC0 :: 32 word) = push_bit 6 (mask 6)"
  by (simp_all add: mask_eq_exp_minus_1)

lemma chunk_groups:
  fixes x y z :: byte
  shows "drop_bit 18 ((push_bit 16 (ucast x) OR push_bit 8 (ucast y) OR ucast z) AND 0x00FC0000) = (ucast (q1 x) :: 32 word)"
    "drop_bit 12 ((push_bit 16 (ucast x) OR push_bit 8 (ucast y) OR ucast z) AND 0x0003F000) = (ucast (q2 x y) :: 32 word)"
    "drop_bit 6 ((push_bit 16 (ucast x) OR push_bit 8 (ucast y) OR ucast z) AND 0x00000FC0) = (ucast (q3 y z) :: 32 word)"
    "(push_bit 16 (ucast x) OR push_bit 8 (ucast y) OR ucast z) AND 0x0000003F = (ucast (q4 z) :: 32 word)"
  by (rule bit_word_eqI, auto simp: masks chunk_masks bit_simps dest: bit_imp_le_length)+

lemma unat_ucast_byte: "unat (ucast (c :: byte) :: 32 word) = unat c"
  using unsigned_less [of c, where 'a=nat] by (simp add: unsigned_ucast_eq take_bit_nat_eq_self)

lemma put_chunk_quad:
  "put_chunk (push_bit 16 (ucast x)) 2 = quad [x]"
  "put_chunk (push_bit 16 (ucast x) OR push_bit 8 (ucast y)) (Suc 0) = quad [x, y]"
  "put_chunk (push_bit 16 (ucast x) OR push_bit 8 (ucast y) OR ucast z) 0 = quad [x, y, z]"
  using chunk_groups [of x 0 0] chunk_groups [of x y 0] chunk_groups [of x y z]
  by (simp_all add: put_chunk_def Let_def unat_ucast_byte BASE64_ENCODING_TABLE_def)

lemma ToBase64_b64: "ToBase64 xs = b64 False k xs"
  by (induction xs rule: ToBase64.induct) (simp_all add: put_chunk_quad line_break_def next_line_def)

section \<open>Reading it back\<close>

lemma rd_append [simp]: "rd (pre @ m) (length pre + i) = rd m i"
  by (simp add: rd_def nth_append)

lemma rd_Cons [simp]: "rd (c # m) 0 = Some c" "rd (c # m) (Suc i) = rd m i"
  by (simp_all add: rd_def)

lemma next_char_plain: "rd m n = Some c \<Longrightarrow> c \<noteq> LF \<Longrightarrow> c \<noteq> CR \<Longrightarrow> next_char m n = Some (n, c)"
  by (simp add: next_char_def skip_lf_def skip_cr_def)

lemma next_char_break: "rd m n = Some CR \<Longrightarrow> rd m (n + 2) = Some c \<Longrightarrow> next_char m n = Some (n + 2, c)"
  by (simp add: next_char_def skip_lf_def skip_cr_def)


lemma Decode_step_read:
  assumes "next_char m n0 = Some (p, a)" and "next_char m (p + 1) = Some (p + 1, b)"
    and "next_char m (p + 2) = Some (p + 2, c)" and "next_char m (p + 3) = Some (p + 3, d)" and "p + 3 < n"
  shows "Decode_step m n n0 =
    (let c1 = BASE64_DECODING_TABLE a; c2 = BASE64_DECODING_TABLE b; c3 = BASE64_DECODING_TABLE c;
         c4 = BASE64_DECODING_TABLE d;
         x = push_bit 2 c1 OR (drop_bit 4 c2 AND 0x03);
         y = (push_bit 4 c2 AND 0xF0) OR (drop_bit 2 c3 AND 0x0F);
         z = (push_bit 6 c3 AND 0xC0) OR c4
     in if c = BASE64_PAD then Some ([x], None)
        else if d = BASE64_PAD then Some ([x, y], None) else Some ([x, y, z], Some (p + 3)))"
  using assms by (simp add: Decode_step_def Let_def numeral_2_eq_2 numeral_3_eq_3)

lemma Decode_step_quad:
  assumes "b = [] \<or> b = [CR, LF]" and "xs \<noteq> []"
    and "m = pre @ b @ quad xs @ rest" and "length pre + length b + 4 \<le> n"
  shows "Decode_step m n (length pre) =
    Some (take 3 xs, if length xs < 3 then None else Some (length pre + length b + 3))"
proof -
  let ?p = "length pre + length b"
  obtain c1 c2 c3 c4 where q: "quad xs = [c1, c2, c3, c4]" using assms(2) by (cases xs rule: quad.cases) auto
  have r: "rd m (?p + i) = rd ([c1, c2, c3, c4] @ rest) i" for i
    using rd_append [of "pre @ b"] by (simp add: assms(3) q)
  have c: "rd m ?p = Some c1" "rd m (?p + 1) = Some c2" "rd m (?p + 2) = Some c3" "rd m (?p + 3) = Some c4"
    using r [of 0] r [of 1] r [of 2] r [of 3] by (simp_all add: numeral_2_eq_2 numeral_3_eq_3)
  have ne: "c \<noteq> LF \<and> c \<noteq> CR" if "c \<in> {c1, c2, c3, c4}" for c
    using q that assms(2) q_less by (cases xs rule: quad.cases) (auto simp: six_bits)
  have n1: "next_char m (length pre) = Some (?p, c1)"
  proof (cases "b = []")
    case True
    then show ?thesis using next_char_plain [of m "length pre"] c(1) ne by simp
  next
    case False
    then have "b = [CR, LF]" using assms(1) by simp
    moreover have "rd m (length pre) = Some CR"
      using rd_append [of pre _ 0] calculation by (simp add: assms(3))
    ultimately show ?thesis using next_char_break [of m "length pre" c1] c(1) by simp
  qed
  have n2: "next_char m (?p + 1) = Some (?p + 1, c2)" "next_char m (?p + 2) = Some (?p + 2, c3)"
    "next_char m (?p + 3) = Some (?p + 3, c4)"
    by (rule next_char_plain; use c ne in simp)+
  have "?p + 3 < n" using assms(4) by simp
  note d = Decode_step_read [OF n1 n2 this, unfolded Let_def]
  show ?thesis
  proof (cases xs rule: quad.cases)
    case (2 x)
    then have e: "c1 = BASE64_ENCODING_TABLE (q1 x)" "c2 = BASE64_ENCODING_TABLE (push_bit 4 x AND 0x3F)"
      "c3 = BASE64_PAD" using q by auto
    show ?thesis unfolding d e six_bits [OF q_less(1)] six_bits [OF q_less(5)] bytes_back using 2 by simp
  next
    case (3 x y)
    then have e: "c1 = BASE64_ENCODING_TABLE (q1 x)" "c2 = BASE64_ENCODING_TABLE (q2 x y)"
      "c3 = BASE64_ENCODING_TABLE (push_bit 2 y AND 0x3F)" "c4 = BASE64_PAD" using q by auto
    show ?thesis
      unfolding d e six_bits [OF q_less(1)] six_bits [OF q_less(2)] six_bits [OF q_less(6)] bytes_back
      using 3 six_bits(3) [OF q_less(6)] by simp
  next
    case (4 x y z zs)
    then have e: "c1 = BASE64_ENCODING_TABLE (q1 x)" "c2 = BASE64_ENCODING_TABLE (q2 x y)"
      "c3 = BASE64_ENCODING_TABLE (q3 y z)" "c4 = BASE64_ENCODING_TABLE (q4 z)" using q by auto
    show ?thesis
      unfolding d e six_bits [OF q_less(1)] six_bits [OF q_less(2)] six_bits [OF q_less(3)]
        six_bits [OF q_less(4)] bytes_back
      using 4 six_bits(3) [OF q_less(3)] six_bits(3) [OF q_less(4)] by simp
  qed (use assms(2) in simp)
qed

text \<open>Whether the text ends in a line break that no padding precedes; \<open>b\<close> is the break before it.\<close>

fun pending :: "bool \<Rightarrow> byte list \<Rightarrow> nat \<Rightarrow> byte list \<Rightarrow> bool" where
  "pending crlf b k [] = (b \<noteq> [])"
| "pending crlf b k [x] = False"
| "pending crlf b k [x, y] = False"
| "pending crlf b k (x # y # z # xs) = pending crlf (line_break crlf k) (next_line crlf k) xs"

lemma line_break: "line_break crlf k = [] \<or> line_break crlf k = [CR, LF]"
  by (simp add: line_break_def)

lemma quad_length: "xs \<noteq> [] \<Longrightarrow> length (quad xs) = 4"
  by (cases xs rule: quad.cases) auto

lemma Decode_loop_b64:
  assumes "b = [] \<or> b = [CR, LF]" and "pending crlf b k xs \<Longrightarrow> rest = [0]"
  shows "Decode_loop (pre @ b @ b64 crlf k xs @ rest) (length (pre @ b @ b64 crlf k xs)) (length pre) dest =
    (if pending crlf b k xs then None else Some (dest @ xs))"
  using assms
proof (induction crlf b k xs arbitrary: pre dest rule: pending.induct)
  case (1 crlf b k)
  show ?case
  proof (cases "b = []")
    case False
    then have b: "b = [CR, LF]" "rest = [0]" using 1 by auto
    let ?m = "pre @ [CR, LF, 0]"
    have "rd ?m (length pre) = Some CR" "rd ?m (length pre + 2) = Some 0" and e: "rd ?m (length pre + 3) = None"
      using rd_append [of pre "[CR, LF, 0]" 0] rd_append [of pre "[CR, LF, 0]" 2]
        rd_append [of pre "[CR, LF, 0]" 3] by (simp_all add: rd_def)
    then have "next_char ?m (length pre) = Some (length pre + 2, 0)" using next_char_break by blast
    moreover have "next_char ?m (length pre + 2 + 1) = None"
      using e by (simp add: next_char_def skip_lf_def numeral_3_eq_3)
    ultimately have "Decode_step ?m (length pre + 2) (length pre) = None"
      by (simp add: Decode_step_def)
    then show ?thesis using b by (subst Decode_loop.simps) simp
  qed (simp add: Decode_loop.simps)
next
  case (2 crlf b k x)
  have "Decode_step (pre @ b @ b64 crlf k [x] @ rest) (length (pre @ b @ b64 crlf k [x])) (length pre) =
      Some ([x], None)"
    using Decode_step_quad [OF 2(1), of "[x]" _ pre "line_break crlf k @ rest"] by simp
  then show ?case by (subst Decode_loop.simps) simp
next
  case (3 crlf b k x y)
  have "Decode_step (pre @ b @ b64 crlf k [x, y] @ rest) (length (pre @ b @ b64 crlf k [x, y])) (length pre) =
      Some ([x, y], None)"
    using Decode_step_quad [OF 3(1), of "[x, y]" _ pre "line_break crlf k @ rest"] by simp
  then show ?case by (subst Decode_loop.simps) simp
next
  case (4 crlf b k x y z xs)
  let ?t = "line_break crlf k @ b64 crlf (next_line crlf k) xs"
  let ?m = "pre @ b @ b64 crlf k (x # y # z # xs) @ rest"
  let ?n = "length (pre @ b @ b64 crlf k (x # y # z # xs))"
  have m: "?m = (pre @ b @ quad [x, y, z]) @ ?t @ rest" "?n = length ((pre @ b @ quad [x, y, z]) @ ?t)"
    by simp_all
  have p: "length pre + length b + 3 + 1 = length (pre @ b @ quad [x, y, z])" by simp
  have "Decode_step ?m ?n (length pre) = Some ([x, y, z], Some (length pre + length b + 3))"
    using Decode_step_quad [OF 4(2), of "[x, y, z]" ?m pre "?t @ rest"] by simp
  then have "Decode_loop ?m ?n (length pre) dest =
      Decode_loop ?m ?n (length pre + length b + 3 + 1) (dest @ [x, y, z])"
    by (subst Decode_loop.simps) simp
  also have "\<dots> = (if pending crlf (line_break crlf k) (next_line crlf k) xs then None
      else Some ((dest @ [x, y, z]) @ xs))"
    unfolding p m append_assoc [of "pre @ b @ quad [x, y, z]" "line_break crlf k" "b64 crlf (next_line crlf k) xs"]
    using 4(1) [OF line_break, of "pre @ b @ quad [x, y, z]" "dest @ [x, y, z]"] 4(3) by simp
  finally show ?case by simp
qed

lemma no_lines_end: "\<not> 57 dvd Suc (3 * m)" "\<not> 57 dvd Suc (Suc (3 * m))" for m :: nat
proof -
  have "3 dvd (57 :: nat)" by simp
  moreover have "\<not> 3 dvd Suc (3 * m)" "\<not> 3 dvd Suc (Suc (3 * m))" by presburger+
  ultimately show "\<not> 57 dvd Suc (3 * m)" "\<not> 57 dvd Suc (Suc (3 * m))" using dvd_trans by blast+
qed

lemma pending_lines:
  "4 dvd k \<Longrightarrow> k < 76 \<Longrightarrow> pending True b k xs = (if xs = [] then b \<noteq> [] else 57 dvd 3 * (k div 4) + length xs)"
proof (induction True b k xs rule: pending.induct)
  case (4 b k x y z xs)
  obtain j where j: "k = 4 * j" "j < 19" using 4(2,3) by (elim dvdE) simp
  show ?case
  proof (cases "k = 72")
    case True
    then show ?thesis using 4(1) by (simp add: next_line_def line_break_def)
  next
    case False
    then have "\<not> 57 dvd Suc (Suc (Suc (3 * j)))" using j by (auto dest!: dvd_imp_le)
    then show ?thesis using 4(1) j False by (simp add: next_line_def line_break_def numeral_3_eq_3)
  qed
qed (simp_all add: no_lines_end)

lemma pending_no_lines: "pending False [] k xs = False"
  by (induction xs arbitrary: k rule: ToBase64.induct) (simp_all add: line_break_def)

lemma Decode_b64:
  assumes "crlf \<Longrightarrow> rest = [0]"
  shows "ImsBase64_Decode (b64 crlf 0 xs @ rest) (length (b64 crlf 0 xs)) =
    (if crlf \<and> xs \<noteq> [] \<and> 57 dvd length xs then None else Some xs)"
  using Decode_loop_b64 [of "[]" crlf 0 xs rest "[]" "[]"] pending_lines [of 0 "[]" xs] pending_no_lines [of 0 xs] assms
  by (cases crlf) (auto simp: ImsBase64_Decode_def)


section \<open>Reading it back bit by bit\<close>

lemma no_bit: "8 \<le> n \<Longrightarrow> \<not> bit (x :: byte) n"
  by (auto dest: bit_imp_le_length)

lemma low_bits: "push_bit n 1 - 1 = (mask n :: 32 word)"
  by (simp add: mask_eq_exp_minus_1)

lemma collected:
  fixes x y z :: byte and b1 b2 b3 b4 :: "32 word"
  assumes "b1 = push_bit 6 0 OR ucast (q1 x)" and "b2 = push_bit 6 b1 OR ucast (q2 x y)"
    and "b3 = push_bit 6 (b2 AND (push_bit 4 1 - 1)) OR ucast (q3 y z)"
    and "b4 = push_bit 6 (b3 AND (push_bit 2 1 - 1)) OR ucast (q4 z)"
  shows "ucast (drop_bit 4 b2) = x" "ucast (drop_bit 2 b3) = y" "ucast (drop_bit 0 b4) = z"
  unfolding assms low_bits
  by (rule bit_word_eqI, drule bit_numbers, elim insertE emptyE;
      simp add: masks bit_simps no_bit)+


lemma From_quad:
  "FromBase64_loop (quad [x, y, z] @ cs) 0 0 out = FromBase64_loop cs 0 0 (out @ [x, y, z])"
  "\<exists>n. FromBase64_loop (quad [x, y] @ cs) 0 0 out = FromBase64_loop cs n 2 (out @ [x, y])"
  "\<exists>n. FromBase64_loop (quad [x] @ cs) 0 0 out = FromBase64_loop cs n 4 (out @ [x])"
proof -
  have pad: "base64_code BASE64_PAD = None" by (simp add: base64_code_def)
  have one: "push_bit 4 x AND 0x3F = q2 x 0" "push_bit 2 y AND 0x3F = q3 y 0" by simp_all
  have zero: "w AND (push_bit 0 1 - 1) = 0" for w :: "32 word" by simp
  show "FromBase64_loop (quad [x, y, z] @ cs) 0 0 out = FromBase64_loop cs 0 0 (out @ [x, y, z])"
    using collected [of _ x _ y _ z _, OF refl refl refl refl] by (simp add: six_bits q_less Let_def)
  show "\<exists>n. FromBase64_loop (quad [x, y] @ cs) 0 0 out = FromBase64_loop cs n 2 (out @ [x, y])"
    using collected [of _ x _ y _ 0 _, OF refl refl refl refl] by (simp add: six_bits q_less Let_def pad) blast
  show "\<exists>n. FromBase64_loop (quad [x] @ cs) 0 0 out = FromBase64_loop cs n 4 (out @ [x])"
    using collected [of _ x _ 0 _ 0 _, OF refl refl refl refl] by (simp add: six_bits q_less Let_def pad) blast
qed


lemma From_break: "FromBase64_loop (line_break crlf k @ cs) n b out = FromBase64_loop cs n b out"
  by (simp add: line_break_def base64_code_def)

lemma From_b64: "FromBase64_loop (b64 crlf k xs) 0 0 out = out @ xs"
proof (induction crlf k xs arbitrary: out rule: b64.induct)
  case (2 crlf k x)
  then show ?case using From_quad(3) [of x "line_break crlf k" out] From_break [of crlf k "[]"] by auto
next
  case (3 crlf k x y)
  then show ?case using From_quad(2) [of x y "line_break crlf k" out] From_break [of crlf k "[]"] by auto
next
  case (4 crlf k x y z xs)
  then show ?case by (simp del: quad.simps add: From_quad(1) From_break)
qed simp

lemma From_length:
  "8 * length (FromBase64_loop cs nBuf nBits out) + (if cs = [] then nBits else 0) \<le> 8 * length out + nBits + 6 * length cs"
proof (induction cs nBuf nBits out rule: FromBase64_loop.induct)
  case (2 ch cs nBuf nBits out)
  show ?case
  proof (cases "base64_code ch")
    case None
    then show ?thesis using 2(1) by simp
  next
    case (Some c)
    show ?thesis using 2(2,3) [OF Some refl refl] Some by (auto simp: Let_def)
  qed
qed simp

lemma b64_length:
  "length (b64 False k xs) = 4 * ((length xs + 2) div 3)"
  "4 dvd k \<Longrightarrow> k < 76 \<Longrightarrow>
     length (b64 True k xs) = 4 * ((length xs + 2) div 3) + 2 * ((k div 4 + (length xs + 2) div 3) div 19)"
proof -
  show "length (b64 False k xs) = 4 * ((length xs + 2) div 3)"
  proof (induction xs arbitrary: k rule: ToBase64.induct)
    case (4 x y z xs)
    have "(length (x # y # z # xs) + 2) div 3 = Suc ((length xs + 2) div 3)" by simp
    then show ?case using 4 by (simp add: line_break_def)
  qed (simp_all add: line_break_def)
  show "4 dvd k \<Longrightarrow> k < 76 \<Longrightarrow>
     length (b64 True k xs) = 4 * ((length xs + 2) div 3) + 2 * ((k div 4 + (length xs + 2) div 3) div 19)"
  proof (induction True k xs rule: b64.induct)
    case (4 k x y z xs)
    obtain j where j: "k = 4 * j" "j < 19" using 4(2,3) by (elim dvdE) simp
    have n: "(5 + l) div 3 = Suc (Suc (Suc l) div 3)" "(19 + l) div 19 = Suc (l div 19)" for l :: nat
      by presburger+
    show ?case
      using 4(1) [OF next_line [OF 4(2,3)]] j
      by (cases "k = 72") (simp_all add: n next_line_def line_break_def)
  qed (auto simp: line_break_def elim!: dvdE)
qed

section \<open>Correctness\<close>

text \<open>The reserved buffer: it suffices below \<open>2 ^ 29\<close> bytes, and at \<open>2 ^ 29\<close> its size is negative.\<close>

lemma length_ToBase64: "length (ToBase64 s) = 4 * ((length s + 2) div 3)"
proof (induction s rule: ToBase64.induct)
  case (4 x y z xs)
  have "length (ToBase64 (x # y # z # xs)) = 4 + 4 * ((length xs + 2) div 3)"
    using 4 by (simp add: put_chunk_def Let_def)
  also have "\<dots> = 4 * ((length xs + 3 + 2) div 3)" by presburger
  finally show ?case by simp
qed (simp_all add: put_chunk_def Let_def)

theorem ToBase64_fits:
  "length s < 2 ^ 29 \<Longrightarrow> int (length (ToBase64 s)) \<le> ToBase64_buffer (length s)"
  "ToBase64_buffer (2 ^ 29) < 0"
proof -
  show "ToBase64_buffer (2 ^ 29) < 0" by (simp add: ToBase64_buffer_def signed_take_bit_int_eq_self_iff Let_def)
  assume "length s < 2 ^ 29"
  moreover define n where "n = int (length s)"
  ultimately have n: "0 \<le> n" "n < 2 ^ 29" by simp_all
  have "n * 4 div 3 + 3 < 2 ^ 31" using n by simp
  then have b: "ToBase64_buffer (length s) = n * 4 div 3 + 3"
    using n by (simp add: ToBase64_buffer_def Let_def signed_take_bit_int_eq_self flip: n_def)
  have "int (length (ToBase64 s)) = 4 * ((n + 2) div 3)" by (simp add: length_ToBase64 n_def zdiv_int)
  also have "\<dots> \<le> n * 4 div 3 + 3" by presburger
  finally show "int (length (ToBase64 s)) \<le> ToBase64_buffer (length s)" by (simp add: b)
qed

text \<open>C37:
  Round trip: both decoders give back every sequence of bytes from its encoding without line
  breaks, whatever follows it in memory, and the two encoders agree. \<open>FromBase64\<close> also reads the
  encoding with line breaks. The text stands for what \<open>ToBase64\<close> writes, which fits into the buffer it
  reserves for fewer than \<open>2 ^ 29\<close> bytes (\<open>ToBase64_fits\<close>).
\<close>

theorem base64_round_trip:
  "FromBase64 (ToBase64 s) = s \<and> ImsBase64_Encode False s = ToBase64 s \<and>
   ImsBase64_Decode (ToBase64 s @ rest) (length (ToBase64 s)) = Some s \<and>
   FromBase64 (ImsBase64_Encode True s) = s"
  using Decode_b64 [of False rest s]
  by (simp add: FromBase64_def ToBase64_b64 [of _ 0] Encode_b64 From_b64)

text \<open>
  Line breaks: the decoder gives the bytes back unless there are some and their number is a
  multiple of 57, the content of a line. Then the text ends in a line break, which the decoder
  takes for the beginning of four more characters, and it reads past the terminator.
\<close>

theorem base64_lines:
  "ImsBase64_Decode (ImsBase64_Encode True s @ [0]) (length (ImsBase64_Encode True s)) =
    (if s \<noteq> [] \<and> 57 dvd length s then None else Some s)"
  using Decode_b64 [of True "[0]" s] by (simp add: Encode_b64)

text \<open>
Buffers: the strings that \<open>ToBase64\<close> and \<open>FromBase64\<close> allocate hold what they write. The encoder
  of \<open>ImsBase64\<close>, which does not look at the size of its buffer, writes four characters for three
  bytes and two for each full line.
\<close>

theorem base64_bounds:
  "length (ToBase64 s) \<le> length s * 4 div 3 + 3 \<and> length (FromBase64 t) \<le> length t * 3 div 4 \<and>
   length (ImsBase64_Encode bAddCrlf s) =
     4 * ((length s + 2) div 3) + (if bAddCrlf then 2 * ((length s + 2) div 3 div 19) else 0)"
proof -
  have "8 * length (FromBase64 t) \<le> 6 * length t"
    using From_length [of t 0 0 "[]"] by (simp add: FromBase64_def split: if_splits)
  then show ?thesis
    by (auto simp: ToBase64_b64 [of _ 0] Encode_b64 b64_length) 
qed

end
