(* ===== verification/BlockHash.thy ===== *)
theory BlockHash
  imports ImsBase64
begin

text \<open>
  What \<open>ImsMd5\<close> and \<open>ImsSha1\<close> (\<open>platform/util\<close>) have in common: the context, which holds a state of
  words, the number of bits in two 32-bit words and a buffer of 64 bytes; feeding bytes to it; padding
  and finishing. The two files differ in the function that absorbs a block and in the order of
  bytes, which are arguments here. The locale shows that the pieces in which a text is fed do not matter.
\<close>

section \<open>Model\<close>

record hash_context =
  anState :: "32 word list"
  nLengthLow :: "32 word"
  nLengthHigh :: "32 word"
  aucBuffer :: "byte list"

text \<open>\<open>memcpy\<close> of \<open>src\<close> to the position \<open>i\<close> of \<open>dst\<close>.\<close>

definition IMS_MEM_Memcpy :: "nat \<Rightarrow> byte list \<Rightarrow> byte list \<Rightarrow> byte list" where
  "IMS_MEM_Memcpy i src dst = take i dst @ src @ drop (i + length src) dst"

text \<open>
  The loop over the blocks of the source. The position has 32 bits: for lengths near \<open>2 ^ 32\<close> its sum with 63
  wraps, so that the loop need not end.
\<close>

partial_function (option) block_loop ::
    "('h \<Rightarrow> byte list \<Rightarrow> 'h) \<Rightarrow> byte list \<Rightarrow> 32 word \<Rightarrow> 'h \<Rightarrow> (32 word \<times> 'h) option" where
  "block_loop absorb src nProcIndex h =
     (if nProcIndex + 63 < of_nat (length src)
      then block_loop absorb src (nProcIndex + 64) (absorb h (take 64 (drop (unat nProcIndex) src)))
      else Some (nProcIndex, h))"

declare block_loop.simps [code]

definition buffer_index :: "hash_context \<Rightarrow> nat" where
  "buffer_index c = unat (drop_bit 3 (nLengthLow c) AND 0x3F)"

definition count_bits :: "32 word \<Rightarrow> hash_context \<Rightarrow> hash_context" where
  "count_bits nSrcLen c =
     (let low = nLengthLow c + push_bit 3 nSrcLen;
          high = (if low < push_bit 3 nSrcLen then nLengthHigh c + 1 else nLengthHigh c)
      in c\<lparr>nLengthLow := low, nLengthHigh := high + drop_bit 29 nSrcLen\<rparr>)"

definition hash_update :: "(32 word list \<Rightarrow> byte list \<Rightarrow> 32 word list) \<Rightarrow> byte list \<Rightarrow> hash_context
    \<Rightarrow> hash_context option" where
  "hash_update absorb src c =
     (let nSrcLen = (of_nat (length src) :: 32 word); nIndex = buffer_index c;
          c = count_bits nSrcLen c; nPartLen = 64 - nIndex
      in if of_nat nPartLen \<le> nSrcLen then
           (let buf = IMS_MEM_Memcpy nIndex (take nPartLen src) (aucBuffer c)
            in case block_loop absorb src (of_nat nPartLen) (absorb (anState c) buf) of
                 None \<Rightarrow> None
               | Some (nProcIndex, h) \<Rightarrow>
                   Some (c\<lparr>anState := h, aucBuffer := IMS_MEM_Memcpy 0 (drop (unat nProcIndex) src) buf\<rparr>))
         else Some (c\<lparr>aucBuffer := IMS_MEM_Memcpy nIndex src (aucBuffer c)\<rparr>))"

definition PADDING :: "byte list" where
  "PADDING = 0x80 # replicate 63 0"

definition hash_finalize :: "(32 word list \<Rightarrow> byte list \<Rightarrow> 32 word list) \<Rightarrow> (32 word \<Rightarrow> 32 word \<Rightarrow> byte list)
    \<Rightarrow> (32 word list \<Rightarrow> byte list) \<Rightarrow> hash_context \<Rightarrow> byte list option" where
  "hash_finalize absorb aucBits digest c =
     (let nIndex = buffer_index c; nPadLen = (if nIndex < 56 then 56 - nIndex else 120 - nIndex)
      in case hash_update absorb (take nPadLen PADDING) c of
           None \<Rightarrow> None
         | Some c' \<Rightarrow>
             (case hash_update absorb (aucBits (nLengthLow c) (nLengthHigh c)) c' of
                None \<Rightarrow> None | Some c'' \<Rightarrow> Some (digest (anState c''))))"

text \<open>A text that comes in pieces.\<close>

fun hash_updates :: "(32 word list \<Rightarrow> byte list \<Rightarrow> 32 word list) \<Rightarrow> byte list list \<Rightarrow> hash_context
    \<Rightarrow> hash_context option" where
  "hash_updates absorb [] c = Some c"
| "hash_updates absorb (p # ps) c =
     (case hash_update absorb p c of None \<Rightarrow> None | Some c \<Rightarrow> hash_updates absorb ps c)"

section \<open>The standard construction\<close>

text \<open>
  What RFC 1321 and FIPS 180 describe: the text, a bit 1, zeros up to 56 bytes modulo 64, and the length in bits
  modulo \<open>2 ^ 64\<close>, absorbed block by block.
\<close>

fun blocks :: "byte list \<Rightarrow> byte list list" where
  "blocks bs = (if length bs < 64 then [] else take 64 bs # blocks (drop 64 bs))"

declare blocks.simps [simp del]

definition padding :: "nat \<Rightarrow> byte list" where
  "padding n = 0x80 # replicate ((119 - n mod 64) mod 64) 0"

definition length_low :: "nat \<Rightarrow> 32 word" where
  "length_low n = of_nat (8 * n)"

definition length_high :: "nat \<Rightarrow> 32 word" where
  "length_high n = of_nat (8 * n div 2 ^ 32)"

definition standard_hash :: "(32 word list \<Rightarrow> byte list \<Rightarrow> 32 word list) \<Rightarrow> 32 word list
    \<Rightarrow> (32 word \<Rightarrow> 32 word \<Rightarrow> byte list) \<Rightarrow> (32 word list \<Rightarrow> byte list) \<Rightarrow> byte list \<Rightarrow> byte list" where
  "standard_hash absorb init aucBits digest m =
     digest (foldl absorb init
       (blocks (m @ padding (length m) @ aucBits (length_low (length m)) (length_high (length m)))))"

section \<open>Blocks\<close>

definition rest :: "byte list \<Rightarrow> byte list" where
  "rest m = drop (64 * (length m div 64)) m"

lemma length_rest [simp]: "length (rest m) = length m mod 64"
  by (simp add: rest_def minus_mult_div_eq_mod)

lemma blocks_short [simp]: "length m < 64 \<Longrightarrow> blocks m = []"
  by (simp add: blocks.simps [of m])

lemma blocks_step: "64 \<le> length m \<Longrightarrow> blocks m = take 64 m # blocks (drop 64 m)"
  by (subst blocks.simps) simp

lemma blocks_one [simp]: "length b = 64 \<Longrightarrow> blocks (b @ m) = b # blocks m"
  by (simp add: blocks_step)

lemma blocks_append:
  "length m = 64 * k \<Longrightarrow> blocks (m @ n) = blocks m @ blocks n"
proof (induction k arbitrary: m)
  case (Suc k)
  then have "blocks (drop 64 m @ n) = blocks (drop 64 m) @ blocks n" by simp
  then show ?case using Suc.prems blocks_step [of m] blocks_step [of "m @ n"] by simp
qed simp

lemma split_rest:
  obtains f where "m = f @ rest m" "length f = 64 * (length m div 64)"
  by (rule that [of "take (64 * (length m div 64)) m"]) (simp_all add: rest_def)

lemma blocks_extend: "blocks (m @ n) = blocks m @ blocks (rest m @ n)"
proof -
  obtain f where f: "m = f @ rest m" "length f = 64 * (length m div 64)" by (rule split_rest)
  have "blocks m = blocks f" using blocks_append [OF f(2), of "rest m"] f(1) by simp
  then show ?thesis using blocks_append [OF f(2), of "rest m @ n"] f(1) by (metis append.assoc)
qed

lemma rest_extend: "rest (m @ n) = rest (rest m @ n)"
proof -
  obtain f where f: "m = f @ rest m" "length f = 64 * (length m div 64)" by (rule split_rest)
  have l: "length (m @ n) div 64 = length m div 64 + length (rest m @ n) div 64"
  proof -
    have "length m + length n = (length m mod 64 + length n) + 64 * (length m div 64)" by simp
    then have "(length m + length n) div 64 = length m div 64 + (length m mod 64 + length n) div 64"
      by (simp only: div_mult_self2 [of 64] zero_neq_numeral not_False_eq_True)
    then show ?thesis by simp
  qed
  have "rest (m @ n) = drop (64 * (length m div 64) + 64 * (length (rest m @ n) div 64)) (f @ rest m @ n)"
    by (metis rest_def l append.assoc f(1) distrib_left)
  also have "\<dots> = rest (rest m @ n)" unfolding rest_def [of "rest m @ n"] using f(2) by simp
  finally show ?thesis .
qed

lemma rest_short [simp]: "length m < 64 \<Longrightarrow> rest m = m"
  by (simp add: rest_def)

lemma rest_one [simp]: "length b = 64 \<Longrightarrow> rest (b @ m) = rest m"
proof -
  have "(64 + length m) div 64 = Suc (length m div 64)" by presburger
  then show "length b = 64 \<Longrightarrow> rest (b @ m) = rest m" by (simp add: rest_def)
qed

section \<open>Lengths\<close>

lemma of_nat_less_32: "m < 2 ^ 32 \<Longrightarrow> n < 2 ^ 32 \<Longrightarrow> ((of_nat m :: 32 word) < of_nat n) = (m < n)"
  by (simp add: word_less_nat_alt unat_of_nat)

lemma low_six_bits: "unat (w AND 0x3F) = unat w mod 64" for w :: "32 word"
proof -
  have "w AND 0x3F = take_bit 6 w" by (simp add: take_bit_eq_mask mask_eq_exp_minus_1)
  then show ?thesis by (simp add: unsigned_take_bit_eq take_bit_nat_def)
qed

lemma buffer_index_length: "nLengthLow c = length_low n \<Longrightarrow> buffer_index c = n mod 64"
proof -
  assume "nLengthLow c = length_low n"
  then have "buffer_index c = drop_bit 3 (unat (length_low n)) mod 64"
    by (simp only: buffer_index_def low_six_bits unat_drop_bit_eq)
  also have "unat (length_low n) = 8 * n mod 2 ^ 32" by (simp only: length_low_def unat_of_nat) simp
  finally have "buffer_index c = (8 * n mod 2 ^ 32) div 8 mod 64" by (simp add: drop_bit_nat_def)
  also have "(8 * n mod 2 ^ 32) div 8 = n mod 2 ^ 29"
    using mult_mod_right [of 8 n "2 ^ 29"] by simp
  finally show ?thesis by (simp add: mod_mod_cancel)
qed

lemma carry: "x < 2 ^ 32 \<Longrightarrow> y < 2 ^ 32 \<Longrightarrow> ((x + y) mod 2 ^ 32 < y) = (2 ^ 32 \<le> x + y)" for x y :: nat
  by (cases "2 ^ 32 \<le> x + y") (simp_all add: le_mod_geq)

lemma carry_div: "x < 2 ^ 32 \<Longrightarrow> y < 2 ^ 32 \<Longrightarrow> (x + y) div 2 ^ 32 = (if 2 ^ 32 \<le> x + y then 1 else 0)" for x y :: nat
  by (cases "2 ^ 32 \<le> x + y") (simp_all add: le_div_geq)

lemma unat_add: "unat a + n < 2 ^ 32 \<Longrightarrow> unat (a + of_nat n) = unat a + n" for a :: "32 word"
  by (simp only: unat_word_ariths unat_of_nat) simp

lemma unat_small: "n < 2 ^ 32 \<Longrightarrow> unat (of_nat n :: 32 word) = n"
  by (simp add: unat_of_nat)

lemma count_bits_length:
  assumes "nLengthLow c = length_low n" and "nLengthHigh c = length_high n" and "k < 2 ^ 32"
  shows "nLengthLow (count_bits (of_nat k) c) = length_low (n + k)"
    "nLengthHigh (count_bits (of_nat k) c) = length_high (n + k)"
proof -
  have p: "push_bit 3 (of_nat k :: 32 word) = of_nat (8 * k)" by (simp add: push_bit_eq_mult)
  have low: "length_low n + of_nat (8 * k) = length_low (n + k)" by (simp add: length_low_def distrib_left)
  then show "nLengthLow (count_bits (of_nat k) c) = length_low (n + k)" using assms(1) by (simp add: count_bits_def Let_def p)
  have d: "drop_bit 29 (of_nat k :: 32 word) = of_nat (8 * k div 2 ^ 32)"
  proof -
    have "unat (drop_bit 29 (of_nat k :: 32 word)) = k div 2 ^ 29"
      using assms(3) by (simp only: unat_drop_bit_eq drop_bit_nat_def unat_of_nat) simp
    moreover have "8 * k div 2 ^ 32 = k div 2 ^ 29" using div_mult_mult1 [of 8 k "2 ^ 29"] by simp
    moreover have "8 * k div 2 ^ 32 < 2 ^ 32" using assms(3) by simp
    ultimately show ?thesis by (simp only: word_unat_eq_iff unat_of_nat) simp
  qed
  have c: "(length_low (n + k) < (of_nat (8 * k) :: 32 word)) = (8 * n mod 2 ^ 32 + 8 * k mod 2 ^ 32 \<ge> 2 ^ 32)"
  proof -
    have "(8 * (n + k)) mod 2 ^ 32 = (8 * n mod 2 ^ 32 + 8 * k mod 2 ^ 32) mod 2 ^ 32"
      by (simp only: distrib_left mod_add_eq)
    moreover have "8 * n mod 2 ^ 32 < (2 ^ 32 :: nat)" "8 * k mod 2 ^ 32 < (2 ^ 32 :: nat)" by simp_all
    ultimately have "((8 * (n + k)) mod 2 ^ 32 < 8 * k mod 2 ^ 32) = (8 * n mod 2 ^ 32 + 8 * k mod 2 ^ 32 \<ge> (2 ^ 32 :: nat))"
      by (simp only: carry)
    then show ?thesis unfolding length_low_def word_less_nat_alt unat_of_nat by simp
  qed
  have e: "8 * (n + k) div 2 ^ 32 = 8 * n div 2 ^ 32 + 8 * k div 2 ^ 32
      + (if 8 * n mod 2 ^ 32 + 8 * k mod 2 ^ 32 \<ge> 2 ^ 32 then 1 else 0)"
  proof -
    have "8 * (n + k) div 2 ^ 32 = 8 * n div 2 ^ 32 + 8 * k div 2 ^ 32 + (8 * n mod 2 ^ 32 + 8 * k mod 2 ^ 32) div 2 ^ 32"
      unfolding distrib_left by (rule div_add1_eq)
    moreover have "8 * n mod 2 ^ 32 < (2 ^ 32 :: nat)" "8 * k mod 2 ^ 32 < (2 ^ 32 :: nat)" by simp_all
    ultimately show ?thesis by (simp only: carry_div)
  qed
  have hi: "length_high (n + k) = length_high n + of_nat (8 * k div 2 ^ 32)
      + (if 8 * n mod 2 ^ 32 + 8 * k mod 2 ^ 32 \<ge> 2 ^ 32 then 1 else 0)"
    unfolding length_high_def e by simp
  show "nLengthHigh (count_bits (of_nat k) c) = length_high (n + k)"
    unfolding count_bits_def Let_def p assms(1,2) low d c hi by simp
qed

lemma take_PADDING: "0 < k \<Longrightarrow> k \<le> 64 \<Longrightarrow> take k PADDING = 0x80 # replicate (k - 1) 0"
  by (cases k) (simp_all add: PADDING_def min_def)

lemma Memcpy_length: "i + length src \<le> length dst \<Longrightarrow> length (IMS_MEM_Memcpy i src dst) = length dst"
  by (simp add: IMS_MEM_Memcpy_def)

section \<open>Feeding bytes\<close>

lemma block_loop_result:
  assumes "length src \<le> 2 ^ 32 - 64" and "unat i \<le> length src"
  shows "\<exists>j. block_loop absorb src i h = Some (j, foldl absorb h (blocks (drop (unat i) src)))
    \<and> drop (unat j) src = rest (drop (unat i) src)"
  using assms
proof (induction "length src - unat i" arbitrary: i h rule: less_induct)
  case less
  have n: "unat (of_nat (length src) :: 32 word) = length src"
    using less.prems(1) by (intro unat_small) simp
  have i63: "unat (i + 63) = unat i + 63"
    using less.prems unat_add [of i 63] by simp
  have c: "(i + 63 < of_nat (length src)) = (64 \<le> length src - unat i)"
    unfolding word_less_nat_alt n i63 using less.prems by arith
  show ?case
  proof (cases "64 \<le> length src - unat i")
    case True
    then have u: "unat (i + 64) = unat i + 64"
      using less.prems unat_add [of i 64] by simp
    let ?h = "absorb h (take 64 (drop (unat i) src))"
    have "length src - unat (i + 64) < length src - unat i" "unat (i + 64) \<le> length src" using True u by simp_all
    from less.hyps [OF this(1) less.prems(1) this(2), of ?h] obtain j where
      j: "block_loop absorb src (i + 64) ?h = Some (j, foldl absorb ?h (blocks (drop (unat i + 64) src)))"
        "drop (unat j) src = rest (drop (unat i + 64) src)"
      by (auto simp: u)
    have b: "blocks (drop (unat i) src) = take 64 (drop (unat i) src) # blocks (drop (unat i + 64) src)"
      using True blocks_step [of "drop (unat i) src"] by (simp add: add.commute)
    have r: "rest (drop (unat i) src) = rest (drop (unat i + 64) src)"
    proof -
      have "drop (unat i) src = take 64 (drop (unat i) src) @ drop (unat i + 64) src"
        by (metis append_take_drop_id drop_drop add.commute)
      moreover have "length (take 64 (drop (unat i) src)) = 64" using True by simp
      ultimately show ?thesis by (metis rest_one)
    qed
    show ?thesis using j b r True c by (subst block_loop.simps) simp
  next
    case False
    then show ?thesis using c by (subst block_loop.simps) simp
  qed
qed

text \<open>What the context holds after the text \<open>m\<close>.\<close>

definition holds :: "(32 word list \<Rightarrow> byte list \<Rightarrow> 32 word list) \<Rightarrow> 32 word list \<Rightarrow> byte list \<Rightarrow> hash_context \<Rightarrow> bool" where
  "holds absorb init m c =
     (nLengthLow c = length_low (length m) \<and> nLengthHigh c = length_high (length m)
      \<and> anState c = foldl absorb init (blocks m) \<and> length (aucBuffer c) = 64
      \<and> take (length m mod 64) (aucBuffer c) = rest m)"

lemma hash_update_holds:
  assumes "holds absorb init m c" and "length src \<le> 2 ^ 32 - 64"
  shows "\<exists>c'. hash_update absorb src c = Some c' \<and> holds absorb init (m @ src) c'"
proof -
  let ?r = "length m mod 64" and ?n = "of_nat (length src) :: 32 word"
  have n: "unat ?n = length src" using assms(2) by (simp add: unat_of_nat)
  define c1 where "c1 = count_bits ?n c"
  have c1: "nLengthLow c1 = length_low (length (m @ src))" "nLengthHigh c1 = length_high (length (m @ src))"
    using count_bits_length [of c "length m" "length src"] assms by (simp_all add: holds_def c1_def)
  have c1': "anState c1 = anState c" "aucBuffer c1 = aucBuffer c" by (simp_all add: c1_def count_bits_def Let_def)
  have i: "buffer_index c = ?r" using buffer_index_length assms(1) by (simp add: holds_def)
  have p: "unat (of_nat (64 - ?r) :: 32 word) = 64 - ?r"
    by (rule unat_small) simp
  have le: "((of_nat (64 - ?r) :: 32 word) \<le> ?n) = (64 - ?r \<le> length src)"
    by (simp only: word_le_nat_alt n p)
  show ?thesis
  proof (cases "64 - ?r \<le> length src")
    case True
    let ?head = "take (64 - ?r) src" and ?tail = "drop (64 - ?r) src"
    have buf: "IMS_MEM_Memcpy ?r ?head (aucBuffer c) = rest m @ ?head"
      using assms(1) True by (simp add: IMS_MEM_Memcpy_def holds_def)
    have l: "length (rest m @ ?head) = 64" using True by simp
    have b: "blocks (m @ src) = blocks m @ (rest m @ ?head) # blocks ?tail"
      using blocks_extend [of m src] blocks_one [OF l, of ?tail] by simp
    have r: "rest (m @ src) = rest ?tail"
      using rest_extend [of m src] rest_one [OF l, of ?tail] by simp
    from block_loop_result [of src "of_nat (64 - ?r)" absorb "absorb (anState c) (rest m @ ?head)"] obtain j where
      j: "block_loop absorb src (of_nat (64 - ?r)) (absorb (anState c) (rest m @ ?head)) =
          Some (j, foldl absorb (absorb (anState c) (rest m @ ?head)) (blocks ?tail))" "drop (unat j) src = rest ?tail"
      using assms(2) True p by auto
    let ?c = "c1\<lparr>anState := foldl absorb (absorb (anState c) (rest m @ ?head)) (blocks ?tail),
        aucBuffer := IMS_MEM_Memcpy 0 (rest ?tail) (rest m @ ?head)\<rparr>"
    have u: "hash_update absorb src c = Some ?c"
      using True le i j buf c1' by (simp add: hash_update_def Let_def flip: c1_def)
    have t: "length (m @ src) mod 64 = length (rest ?tail)" by (metis length_rest r)
    have "length (rest ?tail) \<le> 64" unfolding length_rest by (simp add: less_imp_le)
    then have "length (IMS_MEM_Memcpy 0 (rest ?tail) (rest m @ ?head)) = 64"
      using Memcpy_length [of 0 "rest ?tail" "rest m @ ?head"] l by simp
    then have "holds absorb init (m @ src) ?c"
      using assms(1) c1 t by (simp add: holds_def b r) (simp add: IMS_MEM_Memcpy_def)
    then show ?thesis using u by blast
  next
    case False
    then have s: "length (rest m @ src) < 64" by simp
    have u: "hash_update absorb src c = Some (c1\<lparr>aucBuffer := IMS_MEM_Memcpy ?r src (aucBuffer c)\<rparr>)"
      using False le i c1' by (simp add: hash_update_def Let_def flip: c1_def)
    have b: "blocks (m @ src) = blocks m" using blocks_extend [of m src] s by simp
    have r: "rest (m @ src) = rest m @ src" using rest_extend [of m src] s by simp
    have t: "length (m @ src) mod 64 = ?r + length src" by (metis length_append length_rest r)
    have "length (aucBuffer c) = 64" "take ?r (aucBuffer c) = rest m" using assms(1) by (simp_all add: holds_def)
    then have "holds absorb init (m @ src) (c1\<lparr>aucBuffer := IMS_MEM_Memcpy ?r src (aucBuffer c)\<rparr>)"
      using assms(1) c1 c1' t s False by (simp add: holds_def b r IMS_MEM_Memcpy_def)
    then show ?thesis using u by blast
  qed
qed

lemma hash_updates_hold:
  assumes "holds absorb init m c" and "\<And>p. p \<in> set ps \<Longrightarrow> length p \<le> 2 ^ 32 - 64"
  shows "\<exists>c'. hash_updates absorb ps c = Some c' \<and> holds absorb init (m @ concat ps) c'"
  using assms
proof (induction ps arbitrary: m c)
  case (Cons p ps)
  obtain c1 where c1: "hash_update absorb p c = Some c1" "holds absorb init (m @ p) c1"
    using hash_update_holds [OF Cons.prems(1)] Cons.prems(2) by auto
  then show ?case using Cons.IH [OF c1(2)] Cons.prems(2) by simp
qed simp

section \<open>The contract of the two digests\<close>

text \<open>
  What a digest needs of its encoding of the length: 8 bytes. Then feeding a text in any pieces and
  finishing is the standard construction on the whole text.
\<close>

locale block_hash =
  fixes absorb :: "32 word list \<Rightarrow> byte list \<Rightarrow> 32 word list" and init :: "32 word list"
    and aucBits :: "32 word \<Rightarrow> 32 word \<Rightarrow> byte list" and digest :: "32 word list \<Rightarrow> byte list"
  assumes aucBits_length: "length (aucBits low high) = 8"
begin

lemma finalize_standard:
  assumes "holds absorb init m c"
  shows "hash_finalize absorb aucBits digest c = Some (standard_hash absorb init aucBits digest m)"
proof -
  let ?n = "length m" and ?p = "padding (length m)" and ?b = "aucBits (length_low (length m)) (length_high (length m))"
  have i: "buffer_index c = ?n mod 64" using buffer_index_length assms by (simp add: holds_def)
  have pad: "take (if ?n mod 64 < 56 then 56 - ?n mod 64 else 120 - ?n mod 64) PADDING = ?p"
  proof -
    define r where "r = ?n mod 64"
    have m: "r < 64" by (simp add: r_def)
    have "(119 - r) mod 64 = (if r < 56 then 55 - r else 119 - r)"
      using m by (cases "r < 56") (simp_all add: mod_if)
    then have "take (if r < 56 then 56 - r else 120 - r) PADDING = 0x80 # replicate ((119 - r) mod 64) 0"
      using m take_PADDING [of "56 - r"] take_PADDING [of "120 - r"] by (cases "r < 56") simp_all
    then show ?thesis by (simp only: padding_def r_def)
  qed
  have "length ?p \<le> 64" by (simp add: padding_def)
  then obtain c1 where c1: "hash_update absorb ?p c = Some c1" "holds absorb init (m @ ?p) c1"
    using hash_update_holds [OF assms, of ?p] by auto
  obtain c2 where c2: "hash_update absorb ?b c1 = Some c2" "holds absorb init ((m @ ?p) @ ?b) c2"
    using hash_update_holds [OF c1(2), of ?b] by (auto simp: aucBits_length)
  show ?thesis
    using assms c1(1) c2 i pad by (simp add: hash_finalize_def Let_def holds_def standard_hash_def)
qed

lemma pieces_standard:
  assumes "\<And>p. p \<in> set ps \<Longrightarrow> length p \<le> 2 ^ 32 - 64" and "holds absorb init [] c"
  shows "(case hash_updates absorb ps c of None \<Rightarrow> None | Some c \<Rightarrow> hash_finalize absorb aucBits digest c) =
    Some (standard_hash absorb init aucBits digest (concat ps))"
proof -
  obtain c1 where "hash_updates absorb ps c = Some c1" "holds absorb init (concat ps) c1"
    using hash_updates_hold [OF assms(2,1)] by auto
  then show ?thesis using finalize_standard by simp
qed

end

end
