(* ===== verification/ImsDigest.thy ===== *)
theory ImsDigest
  imports SdpParam BlockHash "HOL-Library.Monad_Syntax"
begin

text \<open>
  MD5, SHA-1 and HMAC (\<open>platform/util/ImsMd5.cpp\<close>, \<open>ImsSha1.cpp\<close>, \<open>ImsHmac.cpp\<close>) and the digests of HTTP
  authentication (\<open>ImsDigest.cpp\<close>). The C arrays are lists; additions wrap, as \<open>__builtin_add_overflow\<close>
  does. The value \<open>None\<close> is a loop that does not end. Clearing of memory is left out.
\<close>

unbundle bit_operations_syntax

section \<open>MD5\<close>

datatype md5_register = REG_A | REG_B | REG_C | REG_D
datatype md5_macro = FF | GG | HH | II

abbreviation (input) "S11 \<equiv> (7 :: nat)"
abbreviation (input) "S12 \<equiv> (12 :: nat)"
abbreviation (input) "S13 \<equiv> (17 :: nat)"
abbreviation (input) "S14 \<equiv> (22 :: nat)"
abbreviation (input) "S21 \<equiv> (5 :: nat)"
abbreviation (input) "S22 \<equiv> (9 :: nat)"
abbreviation (input) "S23 \<equiv> (14 :: nat)"
abbreviation (input) "S24 \<equiv> (20 :: nat)"
abbreviation (input) "S31 \<equiv> (4 :: nat)"
abbreviation (input) "S32 \<equiv> (11 :: nat)"
abbreviation (input) "S33 \<equiv> (16 :: nat)"
abbreviation (input) "S34 \<equiv> (23 :: nat)"
abbreviation (input) "S41 \<equiv> (6 :: nat)"
abbreviation (input) "S42 \<equiv> (10 :: nat)"
abbreviation (input) "S43 \<equiv> (15 :: nat)"
abbreviation (input) "S44 \<equiv> (21 :: nat)"

definition md5_function :: "md5_macro \<Rightarrow> 32 word \<Rightarrow> 32 word \<Rightarrow> 32 word \<Rightarrow> 32 word" where
  "md5_function r x y z =
     (case r of
        FF \<Rightarrow> (x AND y) OR (NOT x AND z)
      | GG \<Rightarrow> (x AND z) OR (y AND NOT z)
      | HH \<Rightarrow> x XOR y XOR z
      | II \<Rightarrow> y XOR (x OR NOT z))"

definition ROTATE_LEFT :: "32 word \<Rightarrow> nat \<Rightarrow> 32 word" where
  "ROTATE_LEFT x n = push_bit n x OR drop_bit (32 - n) x"

text \<open>A call of one of the macros, with the registers it works on, the word, the shift and the constant.\<close>

type_synonym md5_call =
  "md5_macro \<times> md5_register \<times> md5_register \<times> md5_register \<times> md5_register \<times> nat \<times> nat \<times> 32 word"

fun md5_exec :: "32 word list \<Rightarrow> md5_call \<Rightarrow> (md5_register \<Rightarrow> 32 word) \<Rightarrow> md5_register \<Rightarrow> 32 word" where
  "md5_exec x (r, a, b, c, d, k, s, ac) v =
     (let n = md5_function r (v b) (v c) (v d) + x ! k; n = n + ac; n = v a + n
      in v(a := ROTATE_LEFT n s + v b))"

definition md5_calls :: "md5_call list" where
  "md5_calls =
     [(FF, REG_A, REG_B, REG_C, REG_D, 0, S11, 0xd76aa478),
      (FF, REG_D, REG_A, REG_B, REG_C, 1, S12, 0xe8c7b756),
      (FF, REG_C, REG_D, REG_A, REG_B, 2, S13, 0x242070db),
      (FF, REG_B, REG_C, REG_D, REG_A, 3, S14, 0xc1bdceee),
      (FF, REG_A, REG_B, REG_C, REG_D, 4, S11, 0xf57c0faf),
      (FF, REG_D, REG_A, REG_B, REG_C, 5, S12, 0x4787c62a),
      (FF, REG_C, REG_D, REG_A, REG_B, 6, S13, 0xa8304613),
      (FF, REG_B, REG_C, REG_D, REG_A, 7, S14, 0xfd469501),
      (FF, REG_A, REG_B, REG_C, REG_D, 8, S11, 0x698098d8),
      (FF, REG_D, REG_A, REG_B, REG_C, 9, S12, 0x8b44f7af),
      (FF, REG_C, REG_D, REG_A, REG_B, 10, S13, 0xffff5bb1),
      (FF, REG_B, REG_C, REG_D, REG_A, 11, S14, 0x895cd7be),
      (FF, REG_A, REG_B, REG_C, REG_D, 12, S11, 0x6b901122),
      (FF, REG_D, REG_A, REG_B, REG_C, 13, S12, 0xfd987193),
      (FF, REG_C, REG_D, REG_A, REG_B, 14, S13, 0xa679438e),
      (FF, REG_B, REG_C, REG_D, REG_A, 15, S14, 0x49b40821),
      (GG, REG_A, REG_B, REG_C, REG_D, 1, S21, 0xf61e2562),
      (GG, REG_D, REG_A, REG_B, REG_C, 6, S22, 0xc040b340),
      (GG, REG_C, REG_D, REG_A, REG_B, 11, S23, 0x265e5a51),
      (GG, REG_B, REG_C, REG_D, REG_A, 0, S24, 0xe9b6c7aa),
      (GG, REG_A, REG_B, REG_C, REG_D, 5, S21, 0xd62f105d),
      (GG, REG_D, REG_A, REG_B, REG_C, 10, S22, 0x2441453),
      (GG, REG_C, REG_D, REG_A, REG_B, 15, S23, 0xd8a1e681),
      (GG, REG_B, REG_C, REG_D, REG_A, 4, S24, 0xe7d3fbc8),
      (GG, REG_A, REG_B, REG_C, REG_D, 9, S21, 0x21e1cde6),
      (GG, REG_D, REG_A, REG_B, REG_C, 14, S22, 0xc33707d6),
      (GG, REG_C, REG_D, REG_A, REG_B, 3, S23, 0xf4d50d87),
      (GG, REG_B, REG_C, REG_D, REG_A, 8, S24, 0x455a14ed),
      (GG, REG_A, REG_B, REG_C, REG_D, 13, S21, 0xa9e3e905),
      (GG, REG_D, REG_A, REG_B, REG_C, 2, S22, 0xfcefa3f8),
      (GG, REG_C, REG_D, REG_A, REG_B, 7, S23, 0x676f02d9),
      (GG, REG_B, REG_C, REG_D, REG_A, 12, S24, 0x8d2a4c8a),
      (HH, REG_A, REG_B, REG_C, REG_D, 5, S31, 0xfffa3942),
      (HH, REG_D, REG_A, REG_B, REG_C, 8, S32, 0x8771f681),
      (HH, REG_C, REG_D, REG_A, REG_B, 11, S33, 0x6d9d6122),
      (HH, REG_B, REG_C, REG_D, REG_A, 14, S34, 0xfde5380c),
      (HH, REG_A, REG_B, REG_C, REG_D, 1, S31, 0xa4beea44),
      (HH, REG_D, REG_A, REG_B, REG_C, 4, S32, 0x4bdecfa9),
      (HH, REG_C, REG_D, REG_A, REG_B, 7, S33, 0xf6bb4b60),
      (HH, REG_B, REG_C, REG_D, REG_A, 10, S34, 0xbebfbc70),
      (HH, REG_A, REG_B, REG_C, REG_D, 13, S31, 0x289b7ec6),
      (HH, REG_D, REG_A, REG_B, REG_C, 0, S32, 0xeaa127fa),
      (HH, REG_C, REG_D, REG_A, REG_B, 3, S33, 0xd4ef3085),
      (HH, REG_B, REG_C, REG_D, REG_A, 6, S34, 0x4881d05),
      (HH, REG_A, REG_B, REG_C, REG_D, 9, S31, 0xd9d4d039),
      (HH, REG_D, REG_A, REG_B, REG_C, 12, S32, 0xe6db99e5),
      (HH, REG_C, REG_D, REG_A, REG_B, 15, S33, 0x1fa27cf8),
      (HH, REG_B, REG_C, REG_D, REG_A, 2, S34, 0xc4ac5665),
      (II, REG_A, REG_B, REG_C, REG_D, 0, S41, 0xf4292244),
      (II, REG_D, REG_A, REG_B, REG_C, 7, S42, 0x432aff97),
      (II, REG_C, REG_D, REG_A, REG_B, 14, S43, 0xab9423a7),
      (II, REG_B, REG_C, REG_D, REG_A, 5, S44, 0xfc93a039),
      (II, REG_A, REG_B, REG_C, REG_D, 12, S41, 0x655b59c3),
      (II, REG_D, REG_A, REG_B, REG_C, 3, S42, 0x8f0ccc92),
      (II, REG_C, REG_D, REG_A, REG_B, 10, S43, 0xffeff47d),
      (II, REG_B, REG_C, REG_D, REG_A, 1, S44, 0x85845dd1),
      (II, REG_A, REG_B, REG_C, REG_D, 8, S41, 0x6fa87e4f),
      (II, REG_D, REG_A, REG_B, REG_C, 15, S42, 0xfe2ce6e0),
      (II, REG_C, REG_D, REG_A, REG_B, 6, S43, 0xa3014314),
      (II, REG_B, REG_C, REG_D, REG_A, 13, S44, 0x4e0811a1),
      (II, REG_A, REG_B, REG_C, REG_D, 4, S41, 0xf7537e82),
      (II, REG_D, REG_A, REG_B, REG_C, 11, S42, 0xbd3af235),
      (II, REG_C, REG_D, REG_A, REG_B, 2, S43, 0x2ad7d2bb),
      (II, REG_B, REG_C, REG_D, REG_A, 9, S44, 0xeb86d391)]"

fun imsMd5_Decode :: "byte list \<Rightarrow> 32 word list" where
  "imsMd5_Decode (p # q # r # s # bs) =
     (ucast p OR push_bit 8 (ucast q) OR push_bit 16 (ucast r) OR push_bit 24 (ucast s)) # imsMd5_Decode bs"
| "imsMd5_Decode _ = []"

definition imsMd5_Encode :: "32 word list \<Rightarrow> byte list" where
  "imsMd5_Encode ws = concat (map (\<lambda>w. [ucast (w AND 0xFF), ucast (drop_bit 8 w AND 0xFF),
     ucast (drop_bit 16 w AND 0xFF), ucast (drop_bit 24 w AND 0xFF)]) ws)"

definition imsMd5_Transform :: "32 word list \<Rightarrow> byte list \<Rightarrow> 32 word list" where
  "imsMd5_Transform h aucBlock =
     (let x = imsMd5_Decode aucBlock;
          v = (\<lambda>r. h ! (case r of REG_A \<Rightarrow> 0 | REG_B \<Rightarrow> 1 | REG_C \<Rightarrow> 2 | REG_D \<Rightarrow> 3));
          v = fold (md5_exec x) md5_calls v
      in [h ! 0 + v REG_A, h ! 1 + v REG_B, h ! 2 + v REG_C, h ! 3 + v REG_D])"

definition md5_init :: "32 word list" where
  "md5_init = [0x67452301, 0xefcdab89, 0x98badcfe, 0x10325476]"

definition ImsMd5_Initialize :: "hash_context \<Rightarrow> hash_context" where
  "ImsMd5_Initialize c = c\<lparr>anState := md5_init, nLengthLow := 0, nLengthHigh := 0\<rparr>"

definition ImsMd5_Update :: "byte list \<Rightarrow> hash_context \<Rightarrow> hash_context option" where
  "ImsMd5_Update = hash_update imsMd5_Transform"

definition md5_bits :: "32 word \<Rightarrow> 32 word \<Rightarrow> byte list" where
  "md5_bits low high = imsMd5_Encode [low, high]"

definition ImsMd5_Finalize :: "hash_context \<Rightarrow> byte list option" where
  "ImsMd5_Finalize = hash_finalize imsMd5_Transform md5_bits imsMd5_Encode"

section \<open>SHA-1\<close>

definition F00 :: "32 word \<Rightarrow> 32 word \<Rightarrow> 32 word \<Rightarrow> 32 word" where
  "F00 b c d = (b AND c) OR (NOT b AND d)"

definition F20 :: "32 word \<Rightarrow> 32 word \<Rightarrow> 32 word \<Rightarrow> 32 word" where
  "F20 b c d = b XOR c XOR d"

definition F40 :: "32 word \<Rightarrow> 32 word \<Rightarrow> 32 word \<Rightarrow> 32 word" where
  "F40 b c d = (b AND c) OR (b AND d) OR (c AND d)"

definition F60 :: "32 word \<Rightarrow> 32 word \<Rightarrow> 32 word \<Rightarrow> 32 word" where
  "F60 b c d = b XOR c XOR d"

definition SHA1_ROTATE_LEFT :: "32 word \<Rightarrow> nat \<Rightarrow> 32 word" where
  "SHA1_ROTATE_LEFT x n = (push_bit n x AND 0xFFFFFFFF) OR drop_bit (32 - n) x"

type_synonym sha1_registers = "32 word \<times> 32 word \<times> 32 word \<times> 32 word \<times> 32 word"

fun sha1_FF :: "(32 word \<Rightarrow> 32 word \<Rightarrow> 32 word \<Rightarrow> 32 word) \<Rightarrow> 32 word \<Rightarrow> 32 word \<Rightarrow> sha1_registers \<Rightarrow> sha1_registers" where
  "sha1_FF f w k (a, b, c, d, e) =
     (let temp = SHA1_ROTATE_LEFT a 5 + f b c d; temp = temp + e; temp = temp + w; temp = temp + k
      in (temp AND 0xFFFFFFFF, a, SHA1_ROTATE_LEFT b 30, c, d))"

fun imsSha1_Decode :: "byte list \<Rightarrow> 32 word list" where
  "imsSha1_Decode (p # q # r # s # bs) =
     (push_bit 24 (ucast p) OR push_bit 16 (ucast q) OR push_bit 8 (ucast r) OR ucast s) # imsSha1_Decode bs"
| "imsSha1_Decode _ = []"

definition imsSha1_Encode :: "32 word list \<Rightarrow> byte list" where
  "imsSha1_Encode ws = concat (map (\<lambda>w. [ucast (drop_bit 24 w AND 0xFF), ucast (drop_bit 16 w AND 0xFF),
     ucast (drop_bit 8 w AND 0xFF), ucast (w AND 0xFF)]) ws)"

definition sha1_expand :: "nat \<Rightarrow> 32 word list \<Rightarrow> 32 word list" where
  "sha1_expand t W = W @ [SHA1_ROTATE_LEFT (W ! (t - 3) XOR W ! (t - 8) XOR W ! (t - 14) XOR W ! (t - 16)) 1]"

definition imsSha1_Transform :: "32 word list \<Rightarrow> byte list \<Rightarrow> 32 word list" where
  "imsSha1_Transform anH aucMessageBlock =
     (let W = fold sha1_expand [16..<80] (imsSha1_Decode aucMessageBlock);
          v = (anH ! 0, anH ! 1, anH ! 2, anH ! 3, anH ! 4);
          v = fold (\<lambda>t. sha1_FF F00 (W ! t) 0x5a827999) [0..<20] v;
          v = fold (\<lambda>t. sha1_FF F20 (W ! t) 0x6ed9eba1) [20..<40] v;
          v = fold (\<lambda>t. sha1_FF F40 (W ! t) 0x8f1bbcdc) [40..<60] v;
          v = fold (\<lambda>t. sha1_FF F60 (W ! t) 0xca62c1d6) [60..<80] v
      in case v of (A, B, C, D, E) \<Rightarrow> [anH ! 0 + A, anH ! 1 + B, anH ! 2 + C, anH ! 3 + D, anH ! 4 + E])"

definition sha1_init :: "32 word list" where
  "sha1_init = [0x67452301, 0xefcdab89, 0x98badcfe, 0x10325476, 0xc3d2e1f0]"

definition ImsSha1_Initialize :: "hash_context \<Rightarrow> hash_context" where
  "ImsSha1_Initialize c = c\<lparr>nLengthLow := 0, nLengthHigh := 0, anState := sha1_init\<rparr>"

definition ImsSha1_Update :: "byte list \<Rightarrow> hash_context \<Rightarrow> hash_context option" where
  "ImsSha1_Update = hash_update imsSha1_Transform"

definition sha1_bits :: "32 word \<Rightarrow> 32 word \<Rightarrow> byte list" where
  "sha1_bits low high = imsSha1_Encode [high] @ imsSha1_Encode [low]"

definition ImsSha1_Finalize :: "hash_context \<Rightarrow> byte list option" where
  "ImsSha1_Finalize = hash_finalize imsSha1_Transform sha1_bits imsSha1_Encode"

section \<open>HMAC\<close>

text \<open>
  \<open>c\<close> is the context as it is before \<open>Initialize\<close>, whose buffer nobody has set. The lengths of text and key
  are \<open>IMS_SINT32\<close>: the two are shorter than \<open>2 ^ 31\<close> bytes.
\<close>

definition HMAC_B :: nat where "HMAC_B = 64"

definition key_pad :: "byte \<Rightarrow> byte list \<Rightarrow> byte list" where
  "key_pad v pucKey =
     (let aucKey = IMS_MEM_Memcpy 0 pucKey (replicate (HMAC_B + 1) 0)
      in map (\<lambda>b. b XOR v) (take HMAC_B aucKey) @ drop HMAC_B aucKey)"

definition ImsHmac_Md5 :: "hash_context \<Rightarrow> byte list \<Rightarrow> byte list \<Rightarrow> byte list option" where
  "ImsHmac_Md5 c pucText pucKey = do {
     pucKey \<leftarrow> (if length pucKey > HMAC_B
       then do { k \<leftarrow> ImsMd5_Update pucKey (ImsMd5_Initialize c); ImsMd5_Finalize k }
       else Some pucKey);
     k \<leftarrow> ImsMd5_Update (take HMAC_B (key_pad 0x36 pucKey)) (ImsMd5_Initialize c);
     k \<leftarrow> ImsMd5_Update pucText k;
     aucDigest \<leftarrow> ImsMd5_Finalize k;
     k \<leftarrow> ImsMd5_Update (take HMAC_B (key_pad 0x5c pucKey)) (ImsMd5_Initialize c);
     k \<leftarrow> ImsMd5_Update aucDigest k;
     ImsMd5_Finalize k
   }"

definition ImsHmac_Sha1 :: "hash_context \<Rightarrow> byte list \<Rightarrow> byte list \<Rightarrow> byte list option" where
  "ImsHmac_Sha1 c pucText pucKey = do {
     pucKey \<leftarrow> (if length pucKey > HMAC_B
       then do { k \<leftarrow> ImsSha1_Update pucKey (ImsSha1_Initialize c); ImsSha1_Finalize k }
       else Some pucKey);
     k \<leftarrow> ImsSha1_Update (take HMAC_B (key_pad 0x36 pucKey)) (ImsSha1_Initialize c);
     k \<leftarrow> ImsSha1_Update pucText k;
     aucHash \<leftarrow> ImsSha1_Finalize k;
     k \<leftarrow> ImsSha1_Update (take HMAC_B (key_pad 0x5c pucKey)) (ImsSha1_Initialize c);
     k \<leftarrow> ImsSha1_Update aucHash k;
     ImsSha1_Finalize k
   }"

section \<open>Digest authentication\<close>

text \<open>
  The digests of RFC 2617. A call of \<open>Initialize\<close>, one of \<open>Update\<close> for each piece and \<open>Finalize\<close> is
  \<open>md5_pieces\<close>. A HASHHEX is 32 hexadecimal digits and a terminator.
\<close>

definition md5_pieces :: "hash_context \<Rightarrow> byte list list \<Rightarrow> byte list option" where
  "md5_pieces c ps = do { k \<leftarrow> hash_updates imsMd5_Transform ps (ImsMd5_Initialize c); ImsMd5_Finalize k }"

definition astring_bytes :: "AString \<Rightarrow> byte list" where
  "astring_bytes v = (case v of None \<Rightarrow> [] | Some s \<Rightarrow> map of_char s)"

definition COLON :: "byte list" where "COLON = [0x3a]"

definition HASHHEX_SIZE :: nat where "HASHHEX_SIZE = 32"

definition hex_digit :: "byte \<Rightarrow> byte" where
  "hex_digit ucTemp = (if ucTemp \<le> 9 then ucTemp + 0x30 else ucTemp + 0x61 - 10)"

definition imsDigest_ConvertBinToHex :: "byte list \<Rightarrow> byte list" where
  "imsDigest_ConvertBinToHex hBin =
     concat (map (\<lambda>b. [hex_digit (drop_bit 4 b AND 0x0F), hex_digit (b AND 0x0F)]) hBin) @ [0]"

definition ImsDigest_CalculateA1 :: "hash_context \<Rightarrow> AString \<Rightarrow> AString \<Rightarrow> AString \<Rightarrow> AString \<Rightarrow> AString \<Rightarrow> AString
    \<Rightarrow> byte list option" where
  "ImsDigest_CalculateA1 c strAlgorithm strUsername strRealm strPassword strNonce strCNonce = do {
     hA1Local \<leftarrow> md5_pieces c [astring_bytes strUsername, COLON, astring_bytes strRealm, COLON, astring_bytes strPassword];
     hA1Local \<leftarrow> (if AString_EqualsIgnoreCase strAlgorithm (Some ''md5-sess'')
       then md5_pieces c ([hA1Local]
         @ (if astring_bytes strNonce \<noteq> [] then [COLON, astring_bytes strNonce] else [])
         @ (if astring_bytes strCNonce \<noteq> [] then [COLON, astring_bytes strCNonce] else []))
       else Some hA1Local);
     Some (imsDigest_ConvertBinToHex hA1Local)
   }"

definition ImsDigest_CalculateEntity :: "hash_context \<Rightarrow> AString \<Rightarrow> byte list option" where
  "ImsDigest_CalculateEntity c strEntityBody =
     map_option imsDigest_ConvertBinToHex (md5_pieces c [astring_bytes strEntityBody])"

definition ImsDigest_CalculateResponse :: "hash_context \<Rightarrow> byte list \<Rightarrow> AString \<Rightarrow> AString \<Rightarrow> AString \<Rightarrow> AString
    \<Rightarrow> AString \<Rightarrow> AString \<Rightarrow> byte list \<Rightarrow> byte list option" where
  "ImsDigest_CalculateResponse c hA1 strNonce strNonceCount strCNonce strQop strMethod strDigestUri hEntity = do {
     hA2 \<leftarrow> md5_pieces c ([astring_bytes strMethod, COLON, astring_bytes strDigestUri]
       @ (if AString_EqualsIgnoreCase strQop (Some ''auth-int'') then [COLON, take HASHHEX_SIZE hEntity] else []));
     hResponseLocal \<leftarrow> md5_pieces c ([take HASHHEX_SIZE hA1, COLON]
       @ (if astring_bytes strNonce \<noteq> [] then [astring_bytes strNonce, COLON] else [])
       @ (if astring_bytes strQop \<noteq> []
          then [astring_bytes strNonceCount, COLON, astring_bytes strCNonce, COLON, astring_bytes strQop, COLON] else [])
       @ [take HASHHEX_SIZE (imsDigest_ConvertBinToHex hA2)]);
     Some (imsDigest_ConvertBinToHex hResponseLocal)
   }"

end
