(* ===== verification/DigestFacts.thy ===== *)
theory DigestFacts
  imports ImsDigest
begin

text \<open>
  The digests against their standards: MD5 as in RFC 1321, SHA-1 as in FIPS 180-4, HMAC as in RFC 2104 and the
  response of RFC 2617, each in the notation of its standard and as a function of whole texts.
\<close>

section \<open>MD5 as in RFC 1321\<close>

definition rotate_left :: "nat \<Rightarrow> 32 word \<Rightarrow> 32 word" where
  "rotate_left n x = push_bit n x OR drop_bit (32 - n) x"

definition md5_T :: "32 word list" where
  "md5_T =
    [0xd76aa478, 0xe8c7b756, 0x242070db, 0xc1bdceee, 0xf57c0faf, 0x4787c62a, 0xa8304613, 0xfd469501, 0x698098d8,
     0x8b44f7af, 0xffff5bb1, 0x895cd7be, 0x6b901122, 0xfd987193, 0xa679438e, 0x49b40821, 0xf61e2562, 0xc040b340,
     0x265e5a51, 0xe9b6c7aa, 0xd62f105d, 0x2441453, 0xd8a1e681, 0xe7d3fbc8, 0x21e1cde6, 0xc33707d6, 0xf4d50d87,
     0x455a14ed, 0xa9e3e905, 0xfcefa3f8, 0x676f02d9, 0x8d2a4c8a, 0xfffa3942, 0x8771f681, 0x6d9d6122, 0xfde5380c,
     0xa4beea44, 0x4bdecfa9, 0xf6bb4b60, 0xbebfbc70, 0x289b7ec6, 0xeaa127fa, 0xd4ef3085, 0x4881d05, 0xd9d4d039,
     0xe6db99e5, 0x1fa27cf8, 0xc4ac5665, 0xf4292244, 0x432aff97, 0xab9423a7, 0xfc93a039, 0x655b59c3, 0x8f0ccc92,
     0xffeff47d, 0x85845dd1, 0x6fa87e4f, 0xfe2ce6e0, 0xa3014314, 0x4e0811a1, 0xf7537e82, 0xbd3af235, 0x2ad7d2bb,
     0xeb86d391]"

definition md5_k :: "nat \<Rightarrow> nat" where
  "md5_k i = (if i < 16 then i else if i < 32 then (5 * i + 1) mod 16 else if i < 48 then (3 * i + 5) mod 16
     else 7 * i mod 16)"

definition md5_s :: "nat \<Rightarrow> nat" where
  "md5_s i = [[7, 12, 17, 22], [5, 9, 14, 20], [4, 11, 16, 23], [6, 10, 15, 21]] ! (i div 16) ! (i mod 4)"

definition md5_f :: "nat \<Rightarrow> 32 word \<Rightarrow> 32 word \<Rightarrow> 32 word \<Rightarrow> 32 word" where
  "md5_f i x y z =
     (if i < 16 then (x AND y) OR (NOT x AND z)
      else if i < 32 then (x AND z) OR (y AND NOT z)
      else if i < 48 then x XOR y XOR z
      else y XOR (x OR NOT z))"

fun md5_step :: "32 word list \<Rightarrow> nat \<Rightarrow> 32 word \<times> 32 word \<times> 32 word \<times> 32 word
    \<Rightarrow> 32 word \<times> 32 word \<times> 32 word \<times> 32 word" where
  "md5_step x i (a, b, c, d) = (d, b + rotate_left (md5_s i) (a + md5_f i b c d + x ! md5_k i + md5_T ! i), b, c)"

text \<open>Words of four bytes, the least significant first.\<close>

fun le_words :: "byte list \<Rightarrow> 32 word list" where
  "le_words (p # q # r # s # bs) = (ucast p + 2 ^ 8 * ucast q + 2 ^ 16 * ucast r + 2 ^ 24 * ucast s) # le_words bs"
| "le_words _ = []"

definition le_bytes :: "nat \<Rightarrow> nat \<Rightarrow> byte list" where
  "le_bytes k n = map (\<lambda>i. of_nat (n div 256 ^ i)) [0..<k]"

definition md5_block :: "32 word list \<Rightarrow> byte list \<Rightarrow> 32 word list" where
  "md5_block h b =
     (case fold (md5_step (le_words b)) [0..<64] (h ! 0, h ! 1, h ! 2, h ! 3) of
        (a', b', c', d') \<Rightarrow> [h ! 0 + a', h ! 1 + b', h ! 2 + c', h ! 3 + d'])"

definition MD5 :: "byte list \<Rightarrow> byte list" where
  "MD5 m =
     concat (map (\<lambda>w. le_bytes 4 (unat w))
       (foldl md5_block [0x67452301, 0xefcdab89, 0x98badcfe, 0x10325476]
         (blocks (m @ padding (length m) @ le_bytes 8 (8 * length m)))))"

text \<open>One block.\<close>

definition md5_group :: "nat \<Rightarrow> md5_call list" where
  "md5_group g =
     (let r = [FF, GG, HH, II] ! (g div 4); s = md5_s; k = md5_k; i = 4 * g
      in [(r, REG_A, REG_B, REG_C, REG_D, k i, s i, md5_T ! i),
          (r, REG_D, REG_A, REG_B, REG_C, k (i + 1), s (i + 1), md5_T ! (i + 1)),
          (r, REG_C, REG_D, REG_A, REG_B, k (i + 2), s (i + 2), md5_T ! (i + 2)),
          (r, REG_B, REG_C, REG_D, REG_A, k (i + 3), s (i + 3), md5_T ! (i + 3))])"

lemma md5_calls_groups: "md5_calls = concat (map md5_group [0..<16])"
  by code_simp

definition registers :: "(md5_register \<Rightarrow> 32 word) \<Rightarrow> 32 word \<times> 32 word \<times> 32 word \<times> 32 word" where
  "registers v = (v REG_A, v REG_B, v REG_C, v REG_D)"

lemma md5_function_f:
  "i < 64 \<Longrightarrow> md5_function ([FF, GG, HH, II] ! (i div 16)) = md5_f i"
proof -
  assume "i < 64"
  then consider "i < 16" | "16 \<le> i" "i < 32" | "32 \<le> i" "i < 48" | "48 \<le> i" by linarith
  then show ?thesis
  proof cases
    case 2 then have "i div 16 = 1" by simp
    then show ?thesis using 2 by (simp add: fun_eq_iff md5_function_def md5_f_def)
  next
    case 3 then have "i div 16 = 2" by simp
    then show ?thesis using 3 by (simp add: fun_eq_iff md5_function_def md5_f_def)
  next
    case 4 then have "i div 16 = 3" using \<open>i < 64\<close> by simp
    then show ?thesis using 4 by (simp add: fun_eq_iff md5_function_def md5_f_def)
  qed (simp add: fun_eq_iff md5_function_def md5_f_def)
qed

lemma md5_group_steps:
  assumes "g < 16"
  shows "registers (fold (md5_exec x) (md5_group g) v) = fold (md5_step x) [4 * g..<4 * g + 4] (registers v)"
proof -
  have f: "md5_function ([FF, GG, HH, II] ! (g div 4)) = md5_f (4 * g + j)" if "j < 4" for j
  proof -
    have "(4 * g + j) div 16 = g div 4" using that by simp
    then show ?thesis using md5_function_f [of "4 * g + j"] that assms by simp
  qed
  have u: "[4 * g..<4 * g + 4] = [4 * g, 4 * g + 1, 4 * g + 2, 4 * g + 3]"
    by (simp add: upt_rec numeral_eq_Suc)
  show ?thesis
    unfolding u md5_group_def Let_def
    using f [of 0] f [of 1] f [of 2] f [of 3]
    by (simp add: registers_def Let_def ROTATE_LEFT_def rotate_left_def add_ac)
qed

lemma fold_groups:
  "n \<le> 16 \<Longrightarrow> registers (fold (md5_exec x) (concat (map md5_group [0..<n])) v) = fold (md5_step x) [0..<4 * n] (registers v)"
proof (induction n)
  case (Suc n)
  have "[0..<4 * Suc n] = [0..<4 * n] @ [4 * n..<4 * n + 4]"
    unfolding mult_Suc_right add.commute [of 4] by (rule upt_add_eq_append) simp
  then have "fold (md5_step x) [0..<4 * Suc n] (registers v) =
      fold (md5_step x) [4 * n..<4 * n + 4] (fold (md5_step x) [0..<4 * n] (registers v))" by simp
  then show ?case using Suc md5_group_steps [of n x] by simp
qed simp

lemma or_disjoint_bytes:
  "ucast p OR push_bit 8 (ucast q) OR push_bit 16 (ucast r) OR push_bit 24 (ucast s) =
   (ucast p + 2 ^ 8 * ucast q + 2 ^ 16 * ucast r + 2 ^ 24 * ucast s :: 32 word)" for p q r s :: byte
proof -
  have d: "v OR push_bit n w = v + push_bit n w" if "v AND push_bit n w = 0" for v w :: "32 word" and n
    using that by (simp add: disjunctive_add_eq_or)
  have 1: "ucast p AND push_bit 8 (ucast q :: 32 word) = (0 :: 32 word)"
    by (rule bit_word_eqI) (auto simp: bit_simps dest!: bit_imp_le_length)
  have 2: "(ucast p OR push_bit 8 (ucast q)) AND push_bit 16 (ucast r :: 32 word) = (0 :: 32 word)"
    by (rule bit_word_eqI) (auto simp: bit_simps dest!: bit_imp_le_length)
  have 3: "((ucast p OR push_bit 8 (ucast q)) OR push_bit 16 (ucast r)) AND push_bit 24 (ucast s :: 32 word) = (0 :: 32 word)"
    by (rule bit_word_eqI) (auto simp: bit_simps dest!: bit_imp_le_length)
  have "((ucast p OR push_bit 8 (ucast q)) OR push_bit 16 (ucast r)) OR push_bit 24 (ucast s) =
      (ucast p + push_bit 8 (ucast q)) + push_bit 16 (ucast r) + push_bit 24 (ucast s :: 32 word)"
    by (subst d [OF 3], subst d [OF 2], subst d [OF 1], rule refl)
  then show ?thesis by (simp only: or.assoc push_bit_eq_mult mult.commute)
qed

lemma Decode_words: "imsMd5_Decode bs = le_words bs"
  by (induction bs rule: le_words.induct) (simp_all only: imsMd5_Decode.simps le_words.simps or_disjoint_bytes)

lemma Transform_block: "imsMd5_Transform h b = md5_block h b"
proof -
  let ?v = "\<lambda>r. h ! (case r of REG_A \<Rightarrow> 0 | REG_B \<Rightarrow> 1 | REG_C \<Rightarrow> 2 | REG_D \<Rightarrow> 3)"
  have "registers (fold (md5_exec (le_words b)) md5_calls ?v) = fold (md5_step (le_words b)) [0..<64] (registers ?v)"
    using fold_groups [of 16 "le_words b" ?v] by (simp add: md5_calls_groups)
  moreover have "registers ?v = (h ! 0, h ! 1, h ! 2, h ! 3)" by (simp add: registers_def)
  ultimately have "fold (md5_step (le_words b)) [0..<64] (h ! 0, h ! 1, h ! 2, h ! 3) =
      registers (fold (md5_exec (le_words b)) md5_calls ?v)" by simp
  then show ?thesis unfolding imsMd5_Transform_def md5_block_def Let_def Decode_words registers_def by simp
qed

text \<open>Bytes of words and of lengths.\<close>

lemma byte_of_nat: "k + 8 \<le> 32 \<Longrightarrow> ucast (drop_bit k (of_nat n :: 32 word) AND 0xFF) = (of_nat (n div 2 ^ k) :: byte)"
proof (rule bit_word_eqI)
  fix i assume k: "k + 8 \<le> 32" and i: "i < LENGTH(8)"
  have m: "(0xFF :: 32 word) = mask 8" by (simp add: mask_eq_exp_minus_1)
  show "bit (ucast (drop_bit k (of_nat n :: 32 word) AND 0xFF) :: byte) i = bit (of_nat (n div 2 ^ k) :: byte) i"
    using k i unfolding m by (simp add: bit_simps flip: drop_bit_nat_def)
qed

lemma upt_4: "[0..<4] = [0, 1, 2, 3::nat]"
  by code_simp

lemma Encode_bytes: "imsMd5_Encode [of_nat n] = le_bytes 4 n"
  using byte_of_nat [of 0 n] byte_of_nat [of 8 n] byte_of_nat [of 16 n] byte_of_nat [of 24 n]
  by (simp add: imsMd5_Encode_def le_bytes_def upt_4)

lemma Encode_map: "imsMd5_Encode ws = concat (map (\<lambda>w. le_bytes 4 (unat w)) ws)"
proof (induction ws)
  case (Cons w ws)
  have "imsMd5_Encode (w # ws) = imsMd5_Encode [of_nat (unat w)] @ imsMd5_Encode ws" by (simp add: imsMd5_Encode_def)
  then show ?case using Cons Encode_bytes [of "unat w"] by simp
qed (simp add: imsMd5_Encode_def)

lemma le_bytes_split: "le_bytes 8 n = le_bytes 4 n @ le_bytes 4 (n div 2 ^ 32)"
proof -
  have "[0..<8] = [0, 1, 2, 3, 4, 5, 6, 7::nat]" by code_simp
  then show ?thesis by (simp add: le_bytes_def upt_4 flip: div_mult2_eq)
qed

lemma md5_bits_bytes: "md5_bits (length_low n) (length_high n) = le_bytes 8 (8 * n)"
proof -
  have "md5_bits (length_low n) (length_high n) = imsMd5_Encode [of_nat (8 * n)] @ imsMd5_Encode [of_nat (8 * n div 2 ^ 32)]"
    by (simp only: md5_bits_def length_low_def length_high_def imsMd5_Encode_def) simp
  then show ?thesis by (simp only: Encode_bytes le_bytes_split)
qed

lemma standard_MD5: "standard_hash imsMd5_Transform md5_init md5_bits imsMd5_Encode m = MD5 m"
  unfolding standard_hash_def MD5_def Encode_map md5_bits_bytes md5_init_def
  by (simp add: Transform_block cong: foldl_cong)

interpretation md5: block_hash imsMd5_Transform md5_init md5_bits imsMd5_Encode
  by unfold_locales (simp add: md5_bits_def imsMd5_Encode_def)

lemma md5_holds: "length (aucBuffer c) = 64 \<Longrightarrow> holds imsMd5_Transform md5_init [] (ImsMd5_Initialize c)"
  by (simp add: holds_def ImsMd5_Initialize_def length_low_def length_high_def)

lemma md5_pieces_MD5:
  assumes "\<And>p. p \<in> set ps \<Longrightarrow> length p \<le> 2 ^ 32 - 64" and "length (aucBuffer c) = 64"
  shows "md5_pieces c ps = Some (MD5 (concat ps))"
  using md5.pieces_standard [of ps, OF assms(1) md5_holds [OF assms(2)]]
  by (cases "hash_updates imsMd5_Transform ps (ImsMd5_Initialize c)")
    (simp_all add: md5_pieces_def ImsMd5_Finalize_def standard_MD5)

section \<open>SHA-1 as in FIPS 180-4\<close>

definition Ch :: "32 word \<Rightarrow> 32 word \<Rightarrow> 32 word \<Rightarrow> 32 word" where
  "Ch x y z = (x AND y) XOR (NOT x AND z)"

definition Parity :: "32 word \<Rightarrow> 32 word \<Rightarrow> 32 word \<Rightarrow> 32 word" where
  "Parity x y z = x XOR y XOR z"

definition Maj :: "32 word \<Rightarrow> 32 word \<Rightarrow> 32 word \<Rightarrow> 32 word" where
  "Maj x y z = (x AND y) XOR (x AND z) XOR (y AND z)"

definition sha1_f :: "nat \<Rightarrow> 32 word \<Rightarrow> 32 word \<Rightarrow> 32 word \<Rightarrow> 32 word" where
  "sha1_f t = (if t < 20 then Ch else if t < 40 then Parity else if t < 60 then Maj else Parity)"

definition sha1_K :: "nat \<Rightarrow> 32 word" where
  "sha1_K t = (if t < 20 then 0x5a827999 else if t < 40 then 0x6ed9eba1 else if t < 60 then 0x8f1bbcdc else 0xca62c1d6)"

fun sha1_W :: "32 word list \<Rightarrow> nat \<Rightarrow> 32 word" where
  "sha1_W M t =
     (if t < 16 then M ! t
      else rotate_left 1 (sha1_W M (t - 3) XOR sha1_W M (t - 8) XOR sha1_W M (t - 14) XOR sha1_W M (t - 16)))"

declare sha1_W.simps [simp del]

fun sha1_step :: "32 word list \<Rightarrow> nat \<Rightarrow> sha1_registers \<Rightarrow> sha1_registers" where
  "sha1_step M t (a, b, c, d, e) =
     (rotate_left 5 a + sha1_f t b c d + e + sha1_K t + sha1_W M t, a, rotate_left 30 b, c, d)"

text \<open>Words of four bytes, the most significant first.\<close>

fun be_words :: "byte list \<Rightarrow> 32 word list" where
  "be_words (p # q # r # s # bs) = (ucast s + 2 ^ 8 * ucast r + 2 ^ 16 * ucast q + 2 ^ 24 * ucast p) # be_words bs"
| "be_words _ = []"

definition be_bytes :: "nat \<Rightarrow> nat \<Rightarrow> byte list" where
  "be_bytes k n = rev (le_bytes k n)"

definition sha1_block :: "32 word list \<Rightarrow> byte list \<Rightarrow> 32 word list" where
  "sha1_block h b =
     (case fold (sha1_step (be_words b)) [0..<80] (h ! 0, h ! 1, h ! 2, h ! 3, h ! 4) of
        (A, B, C, D, E) \<Rightarrow> [h ! 0 + A, h ! 1 + B, h ! 2 + C, h ! 3 + D, h ! 4 + E])"

definition SHA1 :: "byte list \<Rightarrow> byte list" where
  "SHA1 m =
     concat (map (\<lambda>w. be_bytes 4 (unat w))
       (foldl sha1_block [0x67452301, 0xefcdab89, 0x98badcfe, 0x10325476, 0xc3d2e1f0]
         (blocks (m @ padding (length m) @ be_bytes 8 (8 * length m)))))"

lemma all_ones: "w AND 0xFFFFFFFF = w" for w :: "32 word"
proof -
  have "(0xFFFFFFFF :: 32 word) = - 1" by simp
  then show ?thesis by (simp only: and.right_neutral)
qed

lemma sha1_functions: "F00 = Ch" "F20 = Parity" "F40 = Maj" "F60 = Parity"
  by (auto simp: fun_eq_iff F00_def F20_def F40_def F60_def Ch_def Parity_def Maj_def intro!: bit_word_eqI simp: bit_simps)

lemma SHA1_rotate: "SHA1_ROTATE_LEFT x n = rotate_left n x"
  by (simp only: SHA1_ROTATE_LEFT_def rotate_left_def all_ones)

lemma sha1_schedule:
  "length M = 16 \<Longrightarrow> length (fold sha1_expand [16..<16 + n] M) = 16 + n
    \<and> (\<forall>t < 16 + n. fold sha1_expand [16..<16 + n] M ! t = sha1_W M t)"
proof (induction n)
  case 0
  then show ?case by (simp add: sha1_W.simps)
next
  case (Suc n)
  let ?W = "fold sha1_expand [16..<16 + n] M"
  have s: "fold sha1_expand [16..<16 + Suc n] M = sha1_expand (16 + n) ?W"
    unfolding add_Suc_right by (simp only: upt_Suc_append [OF le_add1] fold_append fold_simps o_apply)
  have "sha1_W M (16 + n) =
      rotate_left 1 (?W ! (16 + n - 3) XOR ?W ! (16 + n - 8) XOR ?W ! (16 + n - 14) XOR ?W ! (16 + n - 16))"
    using Suc by (subst sha1_W.simps) simp
  then have e: "sha1_expand (16 + n) ?W = ?W @ [sha1_W M (16 + n)]" by (simp only: sha1_expand_def SHA1_rotate)
  have "t < 16 + Suc n \<longleftrightarrow> t < 16 + n \<or> t = 16 + n" for t by arith
  then show ?case using Suc unfolding s e by (simp add: nth_append)
qed

lemma be_words_length: "length bs = 4 * n \<Longrightarrow> length (be_words bs) = n"
proof (induction bs arbitrary: n rule: be_words.induct)
  case (1 p q r s bs)
  then show ?case by (cases n) auto
qed auto

lemma Decode_be_words: "imsSha1_Decode bs = be_words bs"
proof (induction bs rule: be_words.induct)
  case (1 p q r s bs)
  have "push_bit 24 (ucast p) OR push_bit 16 (ucast q) OR push_bit 8 (ucast r) OR ucast s =
      ucast s OR push_bit 8 (ucast r) OR push_bit 16 (ucast q) OR push_bit 24 (ucast p :: 32 word)"
    by (simp only: or.commute or.left_commute)
  then show ?case using 1 by (simp only: imsSha1_Decode.simps be_words.simps or_disjoint_bytes)
qed simp_all

lemma sha1_FF_step:
  "sha1_FF (sha1_f t) (sha1_W M t) (sha1_K t) v = sha1_step M t v"
  by (cases v) (simp add: Let_def all_ones SHA1_rotate add_ac)

lemma sha1_loop:
  assumes "\<And>t. t \<in> {i..<j} \<Longrightarrow> W ! t = sha1_W M t \<and> sha1_f t = f \<and> sha1_K t = k"
  shows "fold (\<lambda>t. sha1_FF f (W ! t) k) [i..<j] v = fold (sha1_step M) [i..<j] v"
proof (intro fold_cong refl)
  fix t assume "t \<in> set [i..<j]"
  then have "W ! t = sha1_W M t" "f = sha1_f t" "k = sha1_K t" using assms [of t] by auto
  then show "sha1_FF f (W ! t) k = sha1_step M t" using sha1_FF_step by (intro ext) metis
qed

lemma eighty: "[0..<80] = [0..<20] @ [20..<40] @ [40..<60] @ [60..<80::nat]"
  using upt_add_eq_append [of 0 20 60] upt_add_eq_append [of 20 40 40] upt_add_eq_append [of 40 60 20] by code_simp

lemma Sha1_Transform_block:
  assumes "length b = 64"
  shows "imsSha1_Transform h b = sha1_block h b"
proof -
  let ?M = "be_words b"
  define W where "W = fold sha1_expand [16..<80] ?M"
  have W: "W ! t = sha1_W ?M t" if "t < 80" for t
    using sha1_schedule [of ?M 64] be_words_length [of b 16] assms that by (simp add: W_def)
  have l: "fold (\<lambda>t. sha1_FF F00 (W ! t) 0x5a827999) [0..<20] v = fold (sha1_step ?M) [0..<20] v"
    "fold (\<lambda>t. sha1_FF F20 (W ! t) 0x6ed9eba1) [20..<40] v = fold (sha1_step ?M) [20..<40] v"
    "fold (\<lambda>t. sha1_FF F40 (W ! t) 0x8f1bbcdc) [40..<60] v = fold (sha1_step ?M) [40..<60] v"
    "fold (\<lambda>t. sha1_FF F60 (W ! t) 0xca62c1d6) [60..<80] v = fold (sha1_step ?M) [60..<80] v" for v
    by (rule sha1_loop; simp add: W sha1_f_def sha1_K_def sha1_functions)+
  have u: "fold (sha1_step ?M) [0..<80] v = fold (sha1_step ?M) [60..<80] (fold (sha1_step ?M) [40..<60]
      (fold (sha1_step ?M) [20..<40] (fold (sha1_step ?M) [0..<20] v)))" for v
    unfolding eighty by (simp only: fold_append o_apply)
  show ?thesis
    unfolding imsSha1_Transform_def sha1_block_def Let_def Decode_be_words W_def [symmetric] l u by (rule refl)
qed

lemma Sha1_Encode_bytes: "imsSha1_Encode [of_nat n] = be_bytes 4 n"
  using byte_of_nat [of 0 n] byte_of_nat [of 8 n] byte_of_nat [of 16 n] byte_of_nat [of 24 n]
  by (simp add: imsSha1_Encode_def be_bytes_def le_bytes_def upt_4)

lemma Sha1_Encode_map: "imsSha1_Encode ws = concat (map (\<lambda>w. be_bytes 4 (unat w)) ws)"
proof (induction ws)
  case (Cons w ws)
  have "imsSha1_Encode (w # ws) = imsSha1_Encode [of_nat (unat w)] @ imsSha1_Encode ws" by (simp add: imsSha1_Encode_def)
  then show ?case using Cons Sha1_Encode_bytes [of "unat w"] by simp
qed (simp add: imsSha1_Encode_def)

lemma sha1_bits_bytes: "sha1_bits (length_low n) (length_high n) = be_bytes 8 (8 * n)"
proof -
  have "sha1_bits (length_low n) (length_high n) = be_bytes 4 (8 * n div 2 ^ 32) @ be_bytes 4 (8 * n)"
    unfolding sha1_bits_def length_low_def length_high_def Sha1_Encode_bytes ..
  then show ?thesis by (simp only: be_bytes_def le_bytes_split rev_append)
qed

lemma blocks_length: "b \<in> set (blocks m) \<Longrightarrow> length b = 64"
proof (induction m rule: blocks.induct)
  case (1 bs)
  then show ?case by (cases "length bs < 64") (auto simp: blocks_step)
qed

lemma standard_SHA1: "standard_hash imsSha1_Transform sha1_init sha1_bits imsSha1_Encode m = SHA1 m"
  unfolding standard_hash_def SHA1_def Sha1_Encode_map sha1_bits_bytes sha1_init_def
  using Sha1_Transform_block blocks_length by (intro arg_cong [where f = concat] arg_cong2 [where f = map] foldl_cong) auto

interpretation sha1: block_hash imsSha1_Transform sha1_init sha1_bits imsSha1_Encode
  by unfold_locales (simp add: sha1_bits_def imsSha1_Encode_def)

lemma sha1_holds: "length (aucBuffer c) = 64 \<Longrightarrow> holds imsSha1_Transform sha1_init [] (ImsSha1_Initialize c)"
  by (simp add: holds_def ImsSha1_Initialize_def length_low_def length_high_def)

definition sha1_pieces :: "hash_context \<Rightarrow> byte list list \<Rightarrow> byte list option" where
  "sha1_pieces c ps = do { k \<leftarrow> hash_updates imsSha1_Transform ps (ImsSha1_Initialize c); ImsSha1_Finalize k }"

lemma sha1_pieces_SHA1:
  assumes "\<And>p. p \<in> set ps \<Longrightarrow> length p \<le> 2 ^ 32 - 64" and "length (aucBuffer c) = 64"
  shows "sha1_pieces c ps = Some (SHA1 (concat ps))"
  using sha1.pieces_standard [of ps, OF assms(1) sha1_holds [OF assms(2)]]
  by (cases "hash_updates imsSha1_Transform ps (ImsSha1_Initialize c)")
    (simp_all add: sha1_pieces_def ImsSha1_Finalize_def standard_SHA1)

section \<open>The digests of whole texts\<close>

text \<open>C35:
  Fed in any pieces of up to \<open>2 ^ 32 - 64\<close> bytes each, a text gets the digest that RFC 1321 and FIPS 180-4 give
  to the whole of it, whatever its length.
\<close>

theorem digests_standard:
  assumes "\<forall>p \<in> set ps. length p \<le> 2 ^ 32 - 64" and "length (aucBuffer c) = 64"
  shows "md5_pieces c ps = Some (MD5 (concat ps)) \<and> sha1_pieces c ps = Some (SHA1 (concat ps))"
  using md5_pieces_MD5 sha1_pieces_SHA1 assms by blast

definition ex_hash_context :: hash_context where
  "ex_hash_context = \<lparr> anState = [], nLengthLow = 0, nLengthHigh = 0, aucBuffer = replicate 64 0 \<rparr>"

theorem digests_standard_witness:
  "md5_pieces ex_hash_context [[0x61], [0x62, 0x63]] = Some (MD5 [0x61, 0x62, 0x63])
   \<and> sha1_pieces ex_hash_context [[0x61], [0x62, 0x63]] = Some (SHA1 [0x61, 0x62, 0x63])"
  using digests_standard [of "[[0x61], [0x62, 0x63]]" ex_hash_context] by (simp add: ex_hash_context_def)

text \<open>Where the position of the loop wraps it never meets the end of a text of \<open>2 ^ 32 - 1\<close> bytes.\<close>

lemma wrapped_position:
  assumes "length src = 2 ^ 32 - 1" and "unat (i :: 32 word) mod 64 = 63"
  shows "i + 63 < of_nat (length src)" "unat (i + 64) mod 64 = 63"
proof -
  have n: "unat (of_nat (length src) :: 32 word) = 2 ^ 32 - 1" by (simp add: assms(1) unat_of_nat)
  have u: "unat (i + of_nat k) = (unat i + k) mod 2 ^ 32" for k
    by (simp only: unat_word_ariths unat_of_nat mod_add_right_eq) simp
  have m: "(unat i + k) mod 2 ^ 32 mod 64 = (63 + k) mod 64" for k
  proof -
    have "(unat i + k) mod 2 ^ 32 mod 64 = (unat i mod 64 + k) mod 64" by (simp add: mod_mod_cancel mod_add_left_eq)
    then show ?thesis by (simp add: assms(2))
  qed
  have "unat (i + 63) mod 64 = 62" using u [of 63] m [of 63] by simp
  then have "unat (i + 63) \<noteq> 2 ^ 32 - 1" by auto
  moreover have "unat (i + 63) < 2 ^ 32" using unsigned_less [of "i + 63"] by simp
  ultimately show "i + 63 < of_nat (length src)" by (simp only: word_less_nat_alt n)
  show "unat (i + 64) mod 64 = 63" using u [of 64] m [of 64] by simp
qed

lemma block_loop_returned:
  assumes "block_loop absorb src i h = Some y"
  shows "\<not> (length src = 2 ^ 32 - 1 \<and> unat i mod 64 = 63)"
proof (rule block_loop.raw_induct [of "\<lambda>absorb src i h y. \<not> (length src = 2 ^ 32 - 1 \<and> unat i mod 64 = 63)", OF _ assms])
  fix loop :: "('a \<Rightarrow> byte list \<Rightarrow> 'a) \<Rightarrow> byte list \<Rightarrow> 32 word \<Rightarrow> 'a \<Rightarrow> (32 word \<times> 'a) option"
    and absorb :: "'a \<Rightarrow> byte list \<Rightarrow> 'a" and src and i :: "32 word" and h y
  assume IH: "\<And>absorb src i h y. loop absorb src i h = Some y \<Longrightarrow> \<not> (length src = 2 ^ 32 - 1 \<and> unat i mod 64 = 63)"
    and step: "(if i + 63 < of_nat (length src) then loop absorb src (i + 64) (absorb h (take 64 (drop (unat i) src)))
      else Some (i, h)) = Some y"
  show "\<not> (length src = 2 ^ 32 - 1 \<and> unat i mod 64 = 63)"
  proof
    assume w: "length src = 2 ^ 32 - 1 \<and> unat i mod 64 = 63"
    with step wrapped_position(1) [of src i] have "loop absorb src (i + 64) (absorb h (take 64 (drop (unat i) src))) = Some y"
      by (simp split: if_splits)
    from IH [OF this] w wrapped_position(2) [of src i] show False by simp
  qed
qed

text \<open>C40:
  Feeding a text of at most \<open>2 ^ 32 - 64\<close> bytes returns. After one byte a text of \<open>2 ^ 32 - 1\<close> bytes
  is never finished: the position wraps around its end.
\<close>

theorem hash_update_returns:
  assumes "holds absorb init m c"
  shows "(length src \<le> 2 ^ 32 - 64 \<longrightarrow> (\<exists>c'. hash_update absorb src c = Some c' \<and> holds absorb init (m @ src) c'))
    \<and> (length src = 2 ^ 32 - 1 \<and> length m mod 64 = 1 \<longrightarrow> hash_update absorb src c = None)"
proof (intro conjI impI; (elim conjE)?)
  assume l: "length src = 2 ^ 32 - 1" and m: "length m mod 64 = 1"
  have i: "buffer_index c = 1" using buffer_index_length assms m by (simp add: holds_def)
  have n: "unat (of_nat (length src) :: 32 word) = 2 ^ 32 - 1" by (simp add: l unat_of_nat)
  have "(of_nat 63 :: 32 word) \<le> of_nat (length src)" by (simp only: word_le_nat_alt n) simp
  moreover have "block_loop absorb src (of_nat 63) h = None" for h
    using block_loop_returned [of absorb src "of_nat 63" h] l by (cases "block_loop absorb src (of_nat 63) h") auto
  ultimately show "hash_update absorb src c = None" by (simp add: hash_update_def Let_def i)
qed (use hash_update_holds [OF assms] in blast)

theorem hash_update_returns_witness:
  "\<exists>c'. hash_update imsMd5_Transform [0x61] (ImsMd5_Initialize ex_hash_context) = Some c'
    \<and> holds imsMd5_Transform md5_init [0x61] c'"
proof -
  have "holds imsMd5_Transform md5_init [] (ImsMd5_Initialize ex_hash_context)"
    by (rule md5_holds) (simp add: ex_hash_context_def)
  from hash_update_returns [OF this, of "[0x61]"] show ?thesis by simp
qed

section \<open>HMAC as in RFC 2104\<close>

definition hmac :: "(byte list \<Rightarrow> byte list) \<Rightarrow> byte list \<Rightarrow> byte list \<Rightarrow> byte list" where
  "hmac H K text =
     (let K' = (if length K > 64 then H K else K); K0 = K' @ replicate (64 - length K') 0
      in H (map ((XOR) 0x5c) K0 @ H (map ((XOR) 0x36) K0 @ text)))"

lemma key_pad_take:
  "length K \<le> 64 \<Longrightarrow> take HMAC_B (key_pad v K) = map ((XOR) v) (K @ replicate (64 - length K) 0)"
proof -
  assume "length K \<le> 64"
  then have "take 64 (IMS_MEM_Memcpy 0 K (replicate 65 0)) = K @ replicate (64 - length K) 0"
    by (simp add: IMS_MEM_Memcpy_def)
  then show ?thesis by (simp add: key_pad_def HMAC_B_def IMS_MEM_Memcpy_def Let_def xor.commute)
qed

lemma length_MD5: "length (MD5 m) = 16"
proof -
  have "length (foldl md5_block h bs) = 4" if "length h = 4" for h bs
    using that by (induction bs arbitrary: h) (auto simp: md5_block_def split: prod.split)
  then show ?thesis by (simp add: MD5_def length_concat le_bytes_def o_def sum_list_triv)
qed

lemma length_SHA1: "length (SHA1 m) = 20"
proof -
  have "length (foldl sha1_block h bs) = 5" if "length h = 5" for h bs
    using that by (induction bs arbitrary: h) (auto simp: sha1_block_def split: prod.split)
  then show ?thesis by (simp add: SHA1_def length_concat be_bytes_def le_bytes_def o_def sum_list_triv)
qed

lemma ImsHmac_Md5_pieces:
  "ImsHmac_Md5 c text K = do {
     K \<leftarrow> (if length K > HMAC_B then md5_pieces c [K] else Some K);
     d \<leftarrow> md5_pieces c [take HMAC_B (key_pad 0x36 K), text];
     md5_pieces c [take HMAC_B (key_pad 0x5c K), d] }"
proof -
  have one: "md5_pieces c [p] = do { k \<leftarrow> ImsMd5_Update p (ImsMd5_Initialize c); ImsMd5_Finalize k }" for p
    by (cases "hash_update imsMd5_Transform p (ImsMd5_Initialize c)") (simp_all add: md5_pieces_def ImsMd5_Update_def)
  have two: "md5_pieces c [p, q] = do { k \<leftarrow> ImsMd5_Update p (ImsMd5_Initialize c); k \<leftarrow> ImsMd5_Update q k; ImsMd5_Finalize k }"
    for p q
    by (cases "hash_update imsMd5_Transform p (ImsMd5_Initialize c)")
      (simp_all add: md5_pieces_def ImsMd5_Update_def Option.bind_def split: option.split)
  show ?thesis unfolding ImsHmac_Md5_def one two by (simp add: Option.bind_assoc)
qed

lemma ImsHmac_Sha1_pieces:
  "ImsHmac_Sha1 c text K = do {
     K \<leftarrow> (if length K > HMAC_B then sha1_pieces c [K] else Some K);
     d \<leftarrow> sha1_pieces c [take HMAC_B (key_pad 0x36 K), text];
     sha1_pieces c [take HMAC_B (key_pad 0x5c K), d] }"
proof -
  have one: "sha1_pieces c [p] = do { k \<leftarrow> ImsSha1_Update p (ImsSha1_Initialize c); ImsSha1_Finalize k }" for p
    by (cases "hash_update imsSha1_Transform p (ImsSha1_Initialize c)") (simp_all add: sha1_pieces_def ImsSha1_Update_def)
  have two: "sha1_pieces c [p, q] = do { k \<leftarrow> ImsSha1_Update p (ImsSha1_Initialize c); k \<leftarrow> ImsSha1_Update q k; ImsSha1_Finalize k }"
    for p q
    by (cases "hash_update imsSha1_Transform p (ImsSha1_Initialize c)")
      (simp_all add: sha1_pieces_def ImsSha1_Update_def Option.bind_def split: option.split)
  show ?thesis unfolding ImsHmac_Sha1_def one two by (simp add: Option.bind_assoc)
qed

lemma hmac_pieces:
  assumes "\<And>ps. (\<And>p. p \<in> set ps \<Longrightarrow> length p \<le> 2 ^ 32 - 64) \<Longrightarrow> pieces ps = Some (H (concat ps))"
    and "\<And>m. length (H m) \<le> 64" and "length K \<le> 2 ^ 32 - 64" and "length text \<le> 2 ^ 32 - 64"
  shows "do { K \<leftarrow> (if length K > HMAC_B then pieces [K] else Some K);
     d \<leftarrow> pieces [take HMAC_B (key_pad 0x36 K), text];
     pieces [take HMAC_B (key_pad 0x5c K), d] } = Some (hmac H K text)"
proof -
  define K' where "K' = (if length K > 64 then H K else K)"
  have one: "pieces [p] = Some (H p)" if "length p \<le> 2 ^ 32 - 64" for p
    using assms(1) [of "[p]"] that by auto
  have two: "pieces [p, q] = Some (H (p @ q))" if "length p \<le> 64" "length q \<le> 2 ^ 32 - 64" for p q
  proof -
    have "length r \<le> 2 ^ 32 - 64" if "r \<in> set [p, q]" for r
      using that \<open>length p \<le> 64\<close> \<open>length q \<le> 2 ^ 32 - 64\<close> by auto
    then show ?thesis using assms(1) [of "[p, q]"] by simp
  qed
  have k: "(if length K > HMAC_B then pieces [K] else Some K) = Some K'"
    using one [OF assms(3)] by (simp add: K'_def HMAC_B_def)
  have l: "length K' \<le> 64" using assms(2) by (simp add: K'_def)
  have p: "take HMAC_B (key_pad v K') = map ((XOR) v) (K' @ replicate (64 - length K') 0)" for v by (rule key_pad_take [OF l])
  have l64: "length (take HMAC_B (key_pad v K')) \<le> 64" for v by (simp add: HMAC_B_def)
  have lH: "length (H m) \<le> 2 ^ 32 - 64" for m by (rule order_trans [OF assms(2)]) simp
  show ?thesis
    unfolding k bind.bind_lunit two [OF l64 assms(4)] two [OF l64 lH]
    by (simp add: p hmac_def Let_def flip: K'_def)
qed

text \<open>C36:
  \<open>ImsHmac_Md5\<close> and \<open>ImsHmac_Sha1\<close> are the HMAC of RFC 2104 over the two digests, for keys and texts
  whose length is an \<open>IMS_SINT32\<close>, short keys and keys that must be hashed first.
\<close>

theorem hmac_standard:
  assumes "length K < 2 ^ 31" and "length text < 2 ^ 31" and "length (aucBuffer c) = 64"
  shows "ImsHmac_Md5 c text K = Some (hmac MD5 K text) \<and> ImsHmac_Sha1 c text K = Some (hmac SHA1 K text)"
  using hmac_pieces [of "md5_pieces c" MD5] hmac_pieces [of "sha1_pieces c" SHA1]
    md5_pieces_MD5 [OF _ assms(3)] sha1_pieces_SHA1 [OF _ assms(3)] assms
  by (simp add: ImsHmac_Md5_pieces ImsHmac_Sha1_pieces length_MD5 length_SHA1)

theorem hmac_standard_witness:
  "ImsHmac_Md5 ex_hash_context [0x48, 0x69] (replicate 16 0x0b) = Some (hmac MD5 (replicate 16 0x0b) [0x48, 0x69])"
  using hmac_standard [of "replicate 16 0x0b" "[0x48, 0x69]" ex_hash_context] by (simp add: ex_hash_context_def)

section \<open>The response of RFC 2617\<close>

definition LHEX :: "byte list \<Rightarrow> byte list" where
  "LHEX bs = concat (map (\<lambda>b. map (\<lambda>d. of_char (''0123456789abcdef'' ! d)) [unat b div 16, unat b mod 16]) bs)"

definition colons :: "byte list list \<Rightarrow> byte list" where
  "colons ps = concat (tl (concat (map (\<lambda>p. [COLON, p]) ps)))"

definition digest_A1 :: "bool \<Rightarrow> byte list \<Rightarrow> byte list \<Rightarrow> byte list \<Rightarrow> byte list \<Rightarrow> byte list \<Rightarrow> byte list" where
  "digest_A1 sess username realm passwd nonce cnonce =
     (if sess then colons [MD5 (colons [username, realm, passwd]), nonce, cnonce]
      else colons [username, realm, passwd])"

definition digest_A2 :: "bool \<Rightarrow> byte list \<Rightarrow> byte list \<Rightarrow> byte list \<Rightarrow> byte list" where
  "digest_A2 auth_int meth uri body =
     (if auth_int then colons [meth, uri, LHEX (MD5 body)] else colons [meth, uri])"

definition request_digest :: "byte list \<Rightarrow> byte list \<Rightarrow> byte list \<Rightarrow> byte list \<Rightarrow> byte list \<Rightarrow> byte list \<Rightarrow> byte list" where
  "request_digest A1 A2 nonce nc cnonce qop =
     LHEX (MD5 (colons ([LHEX (MD5 A1), nonce] @ (if qop = [] then [] else [nc, cnonce, qop]) @ [LHEX (MD5 A2)])))"

lemma hex_digits: "\<forall>n<16. hex_digit (of_nat n) = of_char (''0123456789abcdef'' ! n)"
  by code_simp

lemma hex_digit_digit: "unat w < 16 \<Longrightarrow> hex_digit w = of_char (''0123456789abcdef'' ! unat w)" for w :: byte
  using hex_digits [rule_format, of "unat w"] by simp

lemma byte_nibbles:
  "unat (drop_bit 4 b AND 0x0F) = unat b div 16" "unat (b AND 0x0F) = unat b mod 16" for b :: byte
proof -
  have low: "unat (w AND 0x0F) = unat w mod 16" for w :: byte
  proof -
    have "w AND 0x0F = take_bit 4 w" by (simp add: take_bit_eq_mask mask_eq_exp_minus_1)
    then show ?thesis by (simp add: unsigned_take_bit_eq take_bit_nat_def)
  qed
  show "unat (b AND 0x0F) = unat b mod 16" by (rule low)
  have "unat (drop_bit 4 b) = unat b div 16" by (simp only: unat_drop_bit_eq drop_bit_nat_def) simp
  moreover have "unat b < 256" using unsigned_less [of b] by simp
  ultimately show "unat (drop_bit 4 b AND 0x0F) = unat b div 16" by (simp only: low) simp
qed

lemma hex_of_nibbles:
  "hex_digit (drop_bit 4 b AND 0x0F) = of_char (''0123456789abcdef'' ! (unat b div 16))"
  "hex_digit (b AND 0x0F) = of_char (''0123456789abcdef'' ! (unat b mod 16))" for b :: byte
proof -
  have "unat b < 256" using unsigned_less [of b] by simp
  then have "unat b div 16 < 16" by simp
  then show "hex_digit (drop_bit 4 b AND 0x0F) = of_char (''0123456789abcdef'' ! (unat b div 16))"
    using hex_digit_digit [of "drop_bit 4 b AND 0x0F"] byte_nibbles(1) [of b] by metis
  show "hex_digit (b AND 0x0F) = of_char (''0123456789abcdef'' ! (unat b mod 16))"
    using hex_digit_digit [of "b AND 0x0F"] byte_nibbles(2) [of b] by simp
qed

lemma ConvertBinToHex_LHEX: "imsDigest_ConvertBinToHex bs = LHEX bs @ [0]"
proof -
  have "(\<lambda>b. [hex_digit (drop_bit 4 b AND 0x0F), hex_digit (b AND 0x0F)]) =
      (\<lambda>b. map (\<lambda>d. of_char (''0123456789abcdef'' ! d)) [unat b div 16, unat b mod 16])"
    by (rule ext, subst hex_of_nibbles(1), subst hex_of_nibbles(2)) (simp only: list.map)
  then show ?thesis by (simp only: imsDigest_ConvertBinToHex_def LHEX_def)
qed

definition short :: "byte list \<Rightarrow> bool" where
  "short p = (length p < 2 ^ 31)"

text \<open>
  For strings whose length is an \<open>IMS_SINT32\<close>, the three functions give what RFC 2617 defines: \<open>CalculateA1\<close> H(A1), also
  for MD5-sess, \<open>CalculateEntity\<close> H(entity-body), and \<open>CalculateResponse\<close> over those two the request-digest of the
  qop, where with no qop the counter, the client's nonce and the qop are left out.
\<close>

theorem digest_response:
  fixes username realm passwd nonce nc cnonce qop meth uri body :: AString
  defines "username' \<equiv> astring_bytes username" and "realm' \<equiv> astring_bytes realm" and "passwd' \<equiv> astring_bytes passwd"
    and "nonce' \<equiv> astring_bytes nonce" and "nc' \<equiv> astring_bytes nc" and "cnonce' \<equiv> astring_bytes cnonce"
    and "qop' \<equiv> astring_bytes qop" and "meth' \<equiv> astring_bytes meth" and "uri' \<equiv> astring_bytes uri"
    and "body' \<equiv> astring_bytes body"
  assumes "list_all short [username', realm', passwd', nonce', nc', cnonce', qop', meth', uri', body']"
    and "length (aucBuffer c) = 64" and "nonce' \<noteq> []"
    and "AString_EqualsIgnoreCase alg (Some ''md5-sess'') \<longrightarrow> cnonce' \<noteq> []"
  shows "ImsDigest_CalculateA1 c alg username realm passwd nonce cnonce =
      Some (LHEX (MD5 (digest_A1 (AString_EqualsIgnoreCase alg (Some ''md5-sess'')) username' realm' passwd' nonce' cnonce')) @ [0])
    \<and> ImsDigest_CalculateEntity c body = Some (LHEX (MD5 body') @ [0])
    \<and> ImsDigest_CalculateResponse c (LHEX (MD5 A1) @ [0]) nonce nc cnonce qop meth uri (LHEX (MD5 body') @ [0]) =
      Some (request_digest A1 (digest_A2 (AString_EqualsIgnoreCase qop (Some ''auth-int'')) meth' uri' body') nonce' nc' cnonce' qop' @ [0])"
proof (intro conjI)
  have md5: "md5_pieces c ps = Some (MD5 (concat ps))" if "list_all short ps" for ps
    by (rule md5_pieces_MD5 [OF _ assms(12)]) (use that in \<open>force simp: list_all_iff short_def\<close>)
  have [simp]: "short COLON" "short (MD5 m)" "short (take HASHHEX_SIZE m)" for m
    by (simp_all add: short_def COLON_def length_MD5 HASHHEX_SIZE_def)
  have lhex: "length (LHEX (MD5 m)) = HASHHEX_SIZE" for m
    by (simp add: LHEX_def length_concat o_def sum_list_triv length_MD5 HASHHEX_SIZE_def)
  then have [simp]: "short (LHEX (MD5 m))" "take HASHHEX_SIZE (LHEX (MD5 m) @ z) = LHEX (MD5 m)" for m z
    by (simp_all add: short_def HASHHEX_SIZE_def)
  note defs = username'_def realm'_def passwd'_def nonce'_def nc'_def cnonce'_def qop'_def meth'_def uri'_def body'_def
  have s: "short username'" "short realm'" "short passwd'" "short nonce'" "short nc'" "short cnonce'" "short qop'"
    "short meth'" "short uri'" "short body'" using assms(11) by simp_all
  show "ImsDigest_CalculateA1 c alg username realm passwd nonce cnonce =
      Some (LHEX (MD5 (digest_A1 (AString_EqualsIgnoreCase alg (Some ''md5-sess'')) username' realm' passwd' nonce' cnonce')) @ [0])"
    using s assms(13,14) by (simp add: ImsDigest_CalculateA1_def md5 digest_A1_def colons_def ConvertBinToHex_LHEX flip: defs)
  show "ImsDigest_CalculateEntity c body = Some (LHEX (MD5 body') @ [0])"
    using s by (simp add: ImsDigest_CalculateEntity_def md5 ConvertBinToHex_LHEX flip: defs)
  show "ImsDigest_CalculateResponse c (LHEX (MD5 A1) @ [0]) nonce nc cnonce qop meth uri (LHEX (MD5 body') @ [0]) =
      Some (request_digest A1 (digest_A2 (AString_EqualsIgnoreCase qop (Some ''auth-int'')) meth' uri' body') nonce' nc' cnonce' qop' @ [0])"
    using s assms(13)
    by (simp add: ImsDigest_CalculateResponse_def md5 digest_A2_def request_digest_def colons_def ConvertBinToHex_LHEX lhex flip: defs)
qed

theorem digest_response_witness:
  "ImsDigest_CalculateEntity ex_hash_context (Some ''v=0'') = Some (LHEX (MD5 (astring_bytes (Some ''v=0''))) @ [0])
   \<and> ImsDigest_CalculateResponse ex_hash_context (LHEX (MD5 [0x61]) @ [0]) (Some ''n'') (Some ''00000001'') (Some ''c'')
       (Some ''auth'') (Some ''REGISTER'') (Some ''sip:a'') (LHEX (MD5 (astring_bytes (Some ''v=0''))) @ [0]) =
     Some (request_digest [0x61] (digest_A2 False (astring_bytes (Some ''REGISTER'')) (astring_bytes (Some ''sip:a'')) [])
       (astring_bytes (Some ''n'')) (astring_bytes (Some ''00000001'')) (astring_bytes (Some ''c'')) (astring_bytes (Some ''auth'')) @ [0])"
  using digest_response [of "Some ''u''" "Some ''r''" "Some ''p''" "Some ''n''" "Some ''00000001''" "Some ''c''" "Some ''auth''"
    "Some ''REGISTER''" "Some ''sip:a''" "Some ''v=0''" ex_hash_context "Some ''MD5''" "[0x61]"]
  by (simp add: ex_hash_context_def astring_bytes_def short_def digest_A2_def AString_EqualsIgnoreCase_def)

end
