(* ===== verification/AStringNumber.thy ===== *)
theory AStringNumber
  imports SipPrelude "HOL-Library.Char_ord"
begin

text \<open>
  Numbers in text: \<open>AString::SetNumber\<close>, \<open>ToInt16\<close> to \<open>ToUInt64\<close> and the functions behind them
  (\<open>platform/util/AString.cpp\<close>). Text is a list of characters, the terminator of a C string is its
  end; a conversion that reports failure, and then returns 0, is \<open>None\<close>. A long has 64 bits, as in
  the configuration \<open>__IMS_LP64__\<close>.
\<close>

section \<open>Characters\<close>

definition IMS_ISSPACE :: "char \<Rightarrow> bool" where
  "IMS_ISSPACE c = (of_char c \<in> {0x0A, 0x09, 0x0B, 0x20, 0x0D, 0x0C :: nat})"

definition IMS_ISDIGIT :: "char \<Rightarrow> bool" where
  "IMS_ISDIGIT c = (0x30 \<le> (of_char c :: nat) \<and> (of_char c :: nat) \<le> 0x39)"

definition IMS_ISUPPER :: "char \<Rightarrow> bool" where
  "IMS_ISUPPER c = (0x41 \<le> (of_char c :: nat) \<and> (of_char c :: nat) \<le> 0x5A)"

definition IMS_ISALPHA :: "char \<Rightarrow> bool" where
  "IMS_ISALPHA c = (IMS_ISUPPER c \<or> 0x61 \<le> (of_char c :: nat) \<and> (of_char c :: nat) \<le> 0x7A)"

definition IMS_TOUPPER :: "char \<Rightarrow> char" where
  "IMS_TOUPPER c =
     (if 0x61 \<le> (of_char c :: nat) \<and> (of_char c :: nat) \<le> 0x7A then char_of (of_char c - 0x20 :: nat) else c)"

section \<open>Reading\<close>

definition digit_value :: "char \<Rightarrow> nat option" where
  "digit_value c =
     (if IMS_ISDIGIT c then Some (of_char c - 0x30)
      else if IMS_ISALPHA c then Some (of_char c - (if IMS_ISUPPER c then 0x41 - 10 else 0x61 - 10))
      else None)"

text \<open>
  The loop collects digits; \<open>nAny\<close> is 1 when there is one, and -1 once the value is out of range.
  It returns what is left of the text.
\<close>

fun digits_loop :: "nat \<Rightarrow> 64 word \<Rightarrow> nat \<Rightarrow> int \<Rightarrow> 64 word \<Rightarrow> string \<Rightarrow> int \<times> 64 word \<times> string" where
  "digits_loop nBase nCutOff nCutLim nAny nAcc [] = (nAny, nAcc, [])"
| "digits_loop nBase nCutOff nCutLim nAny nAcc (c # p) =
     (case digit_value c of
        None \<Rightarrow> (nAny, nAcc, c # p)
      | Some ch \<Rightarrow>
          if ch \<ge> nBase then (nAny, nAcc, c # p)
          else if nAny < 0 \<or> nAcc > nCutOff \<or> nAcc = nCutOff \<and> ch > nCutLim
          then digits_loop nBase nCutOff nCutLim (- 1) nAcc p
          else digits_loop nBase nCutOff nCutLim 1 (nAcc * of_nat nBase + of_nat ch) p)"

definition hex_prefix :: "nat \<Rightarrow> string \<Rightarrow> nat \<times> string" where
  "hex_prefix nBase p =
     (if (nBase = 0 \<or> nBase = 16) \<and> take 1 p = ''0'' \<and> take 1 (drop 1 p) \<in> {''x'', ''X''}
      then (16, drop 2 p)
      else (if nBase = 0 then (if take 1 p = ''0'' then 8 else 10) else nBase, p))"

definition astring_AToLL :: "string \<Rightarrow> nat \<Rightarrow> bool \<times> 64 word \<times> string" where
  "astring_AToLL pszLL nBase =
     (let p = dropWhile IMS_ISSPACE pszLL;
          nNegative = (take 1 p = ''-'');
          p = (if take 1 p = ''-'' \<or> take 1 p = ''+'' then drop 1 p else p);
          (nBase, p) = hex_prefix nBase p;
          nCutOff = (if nNegative then 0x8000000000000000 else 0x7FFFFFFFFFFFFFFF);
          (nAny, nAcc, p) = digits_loop nBase (nCutOff div of_nat nBase) (unat (nCutOff mod of_nat nBase)) 0 0 p
      in (\<not> nAny < 0,
          if nAny < 0 then (if nNegative then 0x8000000000000000 else 0x7FFFFFFFFFFFFFFF)
          else if nNegative then NOT nAcc + 1 else nAcc,
          if nAny \<noteq> 0 then p else pszLL))"

definition astring_AToULL :: "string \<Rightarrow> nat \<Rightarrow> bool \<times> 64 word \<times> string" where
  "astring_AToULL pszULL nBase =
     (let p = dropWhile IMS_ISSPACE pszULL
      in if take 1 p = ''-'' then (False, 0, p)
         else
           (let p = (if take 1 p = ''+'' then drop 1 p else p);
                (nBase, p) = hex_prefix nBase p;
                nCutOff = 0xFFFFFFFFFFFFFFFF;
                (nAny, nAcc, p) = digits_loop nBase (nCutOff div of_nat nBase) (unat (nCutOff mod of_nat nBase)) 0 0 p
            in (\<not> nAny < 0, if nAny < 0 then 0xFFFFFFFFFFFFFFFF else nAcc, if nAny \<noteq> 0 then p else pszULL)))"

text \<open>What the six conversions share: the whole text must have been read, up to a terminator.\<close>

definition base_of :: "int \<Rightarrow> nat" where
  "base_of nBase = (if nBase < 2 \<or> nBase > 16 then 10 else nat nBase)"

definition converted :: "(string \<Rightarrow> nat \<Rightarrow> bool \<times> 64 word \<times> string) \<Rightarrow> string \<Rightarrow> int \<Rightarrow> 64 word option" where
  "converted f s nBase =
     (if s = [] then None
      else (case f s (base_of nBase) of (bOk, n, pEndPtr) \<Rightarrow>
              if \<not> bOk \<or> take 1 pEndPtr \<notin> {[], [CHR 0x00]} then None else Some n))"

definition ToInt16 :: "string \<Rightarrow> int \<Rightarrow> int option" where
  "ToInt16 s nBase =
     (case converted astring_AToLL s nBase of None \<Rightarrow> None
      | Some nL \<Rightarrow> if sint nL < - (2 ^ 15) \<or> sint nL > 2 ^ 15 - 1 then None else Some (sint nL))"

definition ToUInt16 :: "string \<Rightarrow> int \<Rightarrow> int option" where
  "ToUInt16 s nBase =
     (case converted astring_AToULL s nBase of None \<Rightarrow> None
      | Some nUL \<Rightarrow> if sint nUL > 2 ^ 16 - 1 then None else Some (uint (ucast nUL :: 16 word)))"

definition ToInt32 :: "string \<Rightarrow> int \<Rightarrow> int option" where
  "ToInt32 s nBase =
     (case converted astring_AToLL s nBase of None \<Rightarrow> None
      | Some nL \<Rightarrow> if sint nL < - (2 ^ 31) \<or> sint nL > 2 ^ 31 - 1 then None else Some (sint nL))"

definition ToUInt32 :: "string \<Rightarrow> int \<Rightarrow> int option" where
  "ToUInt32 s nBase =
     (case converted astring_AToULL s nBase of None \<Rightarrow> None
      | Some nUL \<Rightarrow> if uint nUL > 2 ^ 32 - 1 then None else Some (uint nUL))"

definition ToInt64 :: "string \<Rightarrow> int \<Rightarrow> int option" where
  "ToInt64 s nBase = map_option sint (converted astring_AToLL s nBase)"

definition ToUInt64 :: "string \<Rightarrow> int \<Rightarrow> int option" where
  "ToUInt64 s nBase = map_option uint (converted astring_AToULL s nBase)"

section \<open>Writing\<close>

definition digit_char :: "nat \<Rightarrow> char" where
  "digit_char n = char_of (if n < 10 then 0x30 + n else n - 10 + 0x61)"

function digits_of :: "nat \<Rightarrow> int \<Rightarrow> string \<Rightarrow> string" where
  "digits_of nBase n acBuffer =
     (if n \<le> 0 \<or> nBase < 2 then acBuffer
      else digits_of nBase (n div int nBase) (digit_char (nat (n mod int nBase)) # acBuffer))"
  by auto
termination
  by (relation "measure (\<lambda>(_, n, _). nat n)") (auto intro: int_div_less_self)

declare digits_of.simps [simp del]

definition astring_ULLToA :: "64 word \<Rightarrow> nat \<Rightarrow> string" where
  "astring_ULLToA nULL nBase = (if nULL = 0 then ''0'' else digits_of nBase (uint nULL) [])"

definition astring_LLToA :: "64 word \<Rightarrow> nat \<Rightarrow> string" where
  "astring_LLToA nLL nBase = astring_ULLToA (if sint nLL < 0 then - nLL else nLL) nBase"

abbreviation "FLAG_ALTERNATE \<equiv> (0x01 :: 32 word)"
abbreviation "FLAG_ZERO_PADDED \<equiv> (0x02 :: 32 word)"
abbreviation "FLAG_LEFT_ALIGNED \<equiv> (0x04 :: 32 word)"
abbreviation "FLAG_BLANK_BEFORE_POSITIVE \<equiv> (0x08 :: 32 word)"
abbreviation "FLAG_ALWAYS_SHOW_SIGN \<equiv> (0x10 :: 32 word)"
abbreviation "FLAG_CAPITAL_E_X \<equiv> (0x20 :: 32 word)"

definition has_flag :: "32 word \<Rightarrow> 32 word \<Rightarrow> bool" where
  "has_flag nFlags f = (nFlags AND f \<noteq> 0)"

text \<open>Zeros in front of a number: up to its precision, and then up to the width.\<close>

definition at_least :: "int \<Rightarrow> string \<Rightarrow> string" where
  "at_least nPrecision s = replicate (nat (nPrecision - int (length s))) CHR ''0'' @ s"

definition padded :: "int \<Rightarrow> int \<Rightarrow> int \<Rightarrow> nat \<Rightarrow> bool \<Rightarrow> bool \<Rightarrow> 32 word \<Rightarrow> string \<Rightarrow> string" where
  "padded nPrecision nWidth nSign nBase bNonZero bPrecisionNotSpecified nFlags s =
     (let s = at_least nPrecision s;
          s = (if has_flag nFlags FLAG_ALTERNATE \<and> nBase = 8 \<and> s = [] then ''0'' @ s else s);
          bHex = (nBase = 16 \<and> has_flag nFlags FLAG_ALTERNATE \<and> bNonZero);
          bZeroPadded = (has_flag nFlags FLAG_ZERO_PADDED \<and> \<not> has_flag nFlags FLAG_LEFT_ALIGNED
                         \<and> bPrecisionNotSpecified);
          nPaddingCount = nWidth - int (length s) - nSign - (if bHex then 2 else 0);
          s = (if bZeroPadded then replicate (nat nPaddingCount) CHR ''0'' @ s else s)
      in if bHex then ''0x'' @ s else s)"

definition astring_LLToString :: "64 word \<Rightarrow> int \<Rightarrow> nat \<Rightarrow> int \<Rightarrow> 32 word \<Rightarrow> string" where
  "astring_LLToString nLL nPrecision nBase nWidth nFlags =
     (let bPrecisionNotSpecified = (nPrecision = - 1);
          nPrecision = (if nPrecision = - 1 then 1 else nPrecision);
          nFlags = (if nBase \<noteq> 10
                    then nFlags AND NOT FLAG_ALWAYS_SHOW_SIGN AND NOT FLAG_BLANK_BEFORE_POSITIVE else nFlags);
          bNegative = (sint nLL < 0 \<and> nBase = 10);
          strNumber = (if nBase = 10 then astring_LLToA nLL nBase else astring_ULLToA nLL nBase);
          nSign = (if bNegative \<or> has_flag nFlags FLAG_ALWAYS_SHOW_SIGN
                      \<or> has_flag nFlags FLAG_BLANK_BEFORE_POSITIVE then 1 else 0);
          strNumber = padded nPrecision nWidth nSign nBase (nLL \<noteq> 0) bPrecisionNotSpecified nFlags strNumber;
          strNumber = (if bNegative then ''-'' @ strNumber
                       else if has_flag nFlags FLAG_ALWAYS_SHOW_SIGN then ''+'' @ strNumber
                       else if has_flag nFlags FLAG_BLANK_BEFORE_POSITIVE then '' '' @ strNumber
                       else strNumber)
      in if has_flag nFlags FLAG_CAPITAL_E_X then map IMS_TOUPPER strNumber else strNumber)"

definition astring_ULLToString :: "64 word \<Rightarrow> int \<Rightarrow> nat \<Rightarrow> int \<Rightarrow> 32 word \<Rightarrow> string" where
  "astring_ULLToString nULL nPrecision nBase nWidth nFlags =
     (let strNumber = padded (if nPrecision = - 1 then 1 else nPrecision) nWidth 0 nBase (nULL \<noteq> 0)
                        (nPrecision = - 1) nFlags (astring_ULLToA nULL nBase)
      in if has_flag nFlags FLAG_CAPITAL_E_X then map IMS_TOUPPER strNumber else strNumber)"

definition SetNumber_64 :: "64 word \<Rightarrow> int \<Rightarrow> string" where
  "SetNumber_64 n nBase =
     (if base_of nBase = 10 then astring_LLToString n (- 1) (base_of nBase) (- 1) 0
      else astring_ULLToString n (- 1) (base_of nBase) (- 1) 0)"

definition SetNumber_U64 :: "64 word \<Rightarrow> int \<Rightarrow> string" where
  "SetNumber_U64 n nBase = astring_ULLToString n (- 1) (base_of nBase) (- 1) 0"

definition SetNumber_32 :: "32 word \<Rightarrow> int \<Rightarrow> string" where
  "SetNumber_32 n = SetNumber_64 (scast n)"

definition SetNumber_U32 :: "32 word \<Rightarrow> int \<Rightarrow> string" where
  "SetNumber_U32 n = SetNumber_U64 (ucast n)"

definition SetNumber_16 :: "16 word \<Rightarrow> int \<Rightarrow> string" where
  "SetNumber_16 n = SetNumber_32 (scast n)"

definition SetNumber_U16 :: "16 word \<Rightarrow> int \<Rightarrow> string" where
  "SetNumber_U16 n = SetNumber_U32 (ucast n)"

section \<open>What a text denotes\<close>

definition digits :: "nat \<Rightarrow> string \<Rightarrow> bool" where
  "digits b ds = (\<forall>c\<in>set ds. \<exists>d<b. digit_value c = Some d)"

fun value_from :: "nat \<Rightarrow> nat \<Rightarrow> string \<Rightarrow> nat" where
  "value_from b a [] = a"
| "value_from b a (c # ds) = value_from b (a * b + the (digit_value c)) ds"

definition numeral_of :: "nat \<Rightarrow> string \<Rightarrow> int \<Rightarrow> bool" where
  "numeral_of b t n =
     (\<exists>ws sg hx ds. t = ws @ sg @ hx @ ds \<and> list_all IMS_ISSPACE ws \<and> sg \<in> {'''', ''+'', ''-''}
        \<and> (hx = '''' \<or> b = 16 \<and> hx \<in> {''0x'', ''0X''}) \<and> ds \<noteq> '''' \<and> digits b ds
        \<and> n = (if sg = ''-'' then - int (value_from b 0 ds) else int (value_from b 0 ds)))"

lemma numeral_ofI:
  "t = ws @ sg @ hx @ ds \<Longrightarrow> list_all IMS_ISSPACE ws \<Longrightarrow> sg \<in> {'''', ''+'', ''-''} \<Longrightarrow>
   hx = '''' \<or> b = 16 \<and> hx \<in> {''0x'', ''0X''} \<Longrightarrow> ds \<noteq> '''' \<Longrightarrow> digits b ds \<Longrightarrow>
   n = (if sg = ''-'' then - int (value_from b 0 ds) else int (value_from b 0 ds)) \<Longrightarrow> numeral_of b t n"
  unfolding numeral_of_def by metis

lemma value_from_mono: "0 < b \<Longrightarrow> a \<le> value_from b a ds"
proof (induction ds arbitrary: a)
  case (Cons c ds)
  have "a \<le> a * b + the (digit_value c)" using Cons.prems by (simp add: trans_le_add1)
  then show ?case using Cons.IH [OF Cons.prems, of "a * b + the (digit_value c)"] by simp
qed simp

lemma digits_simps [simp]: "digits b []" "digits b (c # ds) = ((\<exists>d<b. digit_value c = Some d) \<and> digits b ds)"
  by (simp_all add: digits_def)

lemma cut_off: "(a * b + d \<le> C) = (\<not> (a > C div b \<or> a = C div b \<and> d > C mod b))" if "d < b" for a b C d :: nat
proof -
  have C: "C = C div b * b + C mod b" by simp
  consider "a < C div b" | "a = C div b" | "C div b < a" by linarith
  then show ?thesis
  proof cases
    case 1
    then have "Suc a * b \<le> C div b * b" by (intro mult_le_mono1) simp
    then show ?thesis using 1 that div_times_less_eq_dividend [of C b] by (simp only: mult_Suc) linarith
  next
    case 2
    then show ?thesis using C by (simp only: less_irrefl simp_thms) linarith
  next
    case 3
    then have "Suc (C div b) * b \<le> a * b" by (intro mult_le_mono1) simp
    moreover have "C < b + C div b * b" using that by (intro dividend_less_div_times) simp
    ultimately have "\<not> a * b + d \<le> C" by (simp only: mult_Suc)
    then show ?thesis using 3 by simp
  qed
qed

text \<open>Once out of range, the loop reads the digits that follow and gives up.\<close>

lemma digits_loop_negative:
  "digits b ds \<Longrightarrow> digits_loop b k l (- 1) a (ds @ r) = digits_loop b k l (- 1) a r"
  by (induction ds) (auto simp: split: option.splits)

definition stops :: "nat \<Rightarrow> string \<Rightarrow> bool" where
  "stops b r = (case r of [] \<Rightarrow> True | c # _ \<Rightarrow> (case digit_value c of None \<Rightarrow> True | Some d \<Rightarrow> b \<le> d))"

lemma digits_loop_stops: "stops b r \<Longrightarrow> digits_loop b k l any a r = (any, a, r)"
  by (cases r) (auto simp: stops_def split: option.splits)

lemma digits_loop:
  assumes "digits b ds" and "stops b r" and "0 < b" and "b \<le> 16" and "any \<noteq> - 1" "0 \<le> any"
    and "unat a \<le> unat C" and "k = C div of_nat b" and "l = unat (C mod of_nat b)"
  shows "\<exists>any' a'. digits_loop b k l any a (ds @ r) = (any', a', r) \<and>
    (if value_from b (unat a) ds \<le> unat C
     then any' = (if ds = [] then any else 1) \<and> unat a' = value_from b (unat a) ds else any' = - 1)"
  using assms(1,5-7)
proof (induction ds arbitrary: any a)
  case Nil
  then show ?case using assms(2) by (simp add: digits_loop_stops)
next
  case (Cons c ds)
  then obtain d where d: "digit_value c = Some d" "d < b" and ds: "digits b ds" by auto
  let ?C = "unat C" and ?n = "unat a * b + d"
  have b: "unat (of_nat b :: 64 word) = b" using assms(4) by (simp add: unat_of_nat)
  have kl: "unat k = ?C div b" "l = ?C mod b" by (simp_all add: assms(8,9) b unat_div_distrib unat_mod_distrib)
  have out: "(a > k \<or> a = k \<and> d > l) = (\<not> ?n \<le> ?C)"
    by (simp only: cut_off [OF d(2)] kl [symmetric] word_less_nat_alt word_unat_eq_iff not_not)
  show ?case
  proof (cases "?n \<le> ?C")
    case True
    then have n: "unat (a * of_nat b + of_nat d) = ?n"
      using unsigned_less [of C, where 'a = nat] d(2) assms(4) by (simp add: unat_word_ariths b unat_of_nat)
    have "digits_loop b k l any a ((c # ds) @ r) = digits_loop b k l 1 (a * of_nat b + of_nat d) (ds @ r)"
    proof -
      have "(any < 0 \<or> a > k \<or> a = k \<and> d > l) = False" "(b \<le> d) = False"
        using True out Cons.prems(3) d(2) by auto
      then show ?thesis by (simp only: append_Cons digits_loop.simps d(1) option.case if_False)
    qed
    moreover have "\<exists>any' a'. digits_loop b k l 1 (a * of_nat b + of_nat d) (ds @ r) = (any', a', r) \<and>
       (if value_from b ?n ds \<le> unat C then any' = 1 \<and> unat a' = value_from b ?n ds else any' = - 1)"
      using Cons.IH [OF ds, of 1 "a * of_nat b + of_nat d"] True by (simp add: n cong: if_cong)
    ultimately show ?thesis by (simp only: value_from.simps d option.sel) simp
  next
    case False
    then have "\<not> value_from b ?n ds \<le> ?C" using value_from_mono [OF assms(3), of ?n ds] by simp
    then show ?thesis
      using False out d digits_loop_negative [OF ds, of k l a r] digits_loop_stops [OF assms(2)] by auto
  qed
qed

text \<open>A text in its parts: white space, sign, prefix, digits and a rest.\<close>

lemma digit_chars:
  "digit_value c = Some d \<Longrightarrow> \<not> IMS_ISSPACE c \<and> c \<noteq> CHR ''-'' \<and> c \<noteq> CHR ''+'' \<and> c \<noteq> CHR 0x00"
  "digit_value CHR ''x'' = Some 33" "digit_value CHR ''X'' = Some 33"
  by (auto simp: digit_value_def IMS_ISDIGIT_def IMS_ISALPHA_def IMS_ISUPPER_def IMS_ISSPACE_def split: if_splits)

lemma digit_x: "b \<le> 16 \<Longrightarrow> digits b ds \<Longrightarrow> CHR ''x'' \<notin> set ds \<and> CHR ''X'' \<notin> set ds"
  by (auto simp: digits_def digit_chars)

lemma split_digits:
  obtains ds r where "p = ds @ r" "digits b ds" "stops b r"
proof
  let ?P = "\<lambda>c. \<exists>d<b. digit_value c = Some d"
  show "p = takeWhile ?P p @ dropWhile ?P p" by simp
  show "digits b (takeWhile ?P p)" by (auto simp: digits_def dest: set_takeWhileD)
  show "stops b (dropWhile ?P p)"
  proof (cases "dropWhile ?P p")
    case (Cons c r)
    then have "\<not> ?P c" using hd_dropWhile [of ?P p] by simp
    then show ?thesis unfolding Cons by (auto simp: stops_def not_less split: option.split)
  next
    case Nil
    show ?thesis unfolding Nil stops_def by simp
  qed
qed

definition minus :: "string \<Rightarrow> bool" where
  "minus t = (take 1 (dropWhile IMS_ISSPACE t) = ''-'')"

definition unsigned_part :: "string \<Rightarrow> string" where
  "unsigned_part t =
     (let p = dropWhile IMS_ISSPACE t in if take 1 p = ''-'' \<or> take 1 p = ''+'' then drop 1 p else p)"

definition body :: "nat \<Rightarrow> string \<Rightarrow> string" where
  "body b t = snd (hex_prefix b (unsigned_part t))"

lemma numeral_of_body:
  assumes "2 \<le> b" "b \<le> 16"
  shows "numeral_of b t n = (body b t \<noteq> [] \<and> digits b (body b t) \<and>
    n = (if minus t then - int (value_from b 0 (body b t)) else int (value_from b 0 (body b t))))" (is "_ = ?R")
proof
  assume "numeral_of b t n"
  then obtain ws sg hx ds where t: "t = ws @ sg @ hx @ ds" "list_all IMS_ISSPACE ws" "sg \<in> {'''', ''+'', ''-''}"
      "hx = '''' \<or> b = 16 \<and> hx \<in> {''0x'', ''0X''}" "ds \<noteq> ''''" "digits b ds"
      "n = (if sg = ''-'' then - int (value_from b 0 ds) else int (value_from b 0 ds))"
    by (auto simp: numeral_of_def)
  obtain c ds' where ds: "ds = c # ds'" using t(5) by (cases ds) auto
  then obtain d where c: "digit_value c = Some d" using t(6) by auto
  note c = c digit_chars(1) [OF c]
  have x: "CHR ''x'' \<notin> set ds" "CHR ''X'' \<notin> set ds" using digit_x [OF assms(2) t(6)] by auto
  have w: "dropWhile IMS_ISSPACE (ws @ v) = dropWhile IMS_ISSPACE v" for v
    using t(2) by (induction ws) auto
  have p: "dropWhile IMS_ISSPACE t = sg @ hx @ ds"
    using t(3,4) c by (auto simp: t(1) w ds IMS_ISSPACE_def)
  then have u: "unsigned_part t = hx @ ds" "minus t = (sg = ''-'')"
    using t(3,4) c by (auto simp: unsigned_part_def minus_def ds)
  have "hex_prefix b (hx @ ds) = (b, ds)"
    using t(4) x assms by (cases ds') (auto simp: hex_prefix_def ds)
  then show ?R using t(5-7) by (simp add: body_def u)
next
  assume r: ?R
  let ?ws = "takeWhile IMS_ISSPACE t" and ?p = "dropWhile IMS_ISSPACE t"
  define sg where "sg = (if take 1 ?p = ''-'' \<or> take 1 ?p = ''+'' then take 1 ?p else '''')"
  define hx where "hx = take (length (unsigned_part t) - length (body b t)) (unsigned_part t)"
  have p: "?p = sg @ unsigned_part t"
    by (auto simp: unsigned_part_def sg_def Let_def)
  have h: "unsigned_part t = hx @ body b t \<and> (hx = '''' \<or> b = 16 \<and> hx \<in> {''0x'', ''0X''})"
  proof -
    obtain x y z where "unsigned_part t = [] \<or> unsigned_part t = [x] \<or> unsigned_part t = x # y # z"
      by (metis list.exhaust)
    then show ?thesis using assms by (auto simp: hx_def body_def hex_prefix_def split: if_splits)
  qed
  have "t = ?ws @ sg @ hx @ body b t" using p h takeWhile_dropWhile_id [of IMS_ISSPACE t] by metis
  moreover have "list_all IMS_ISSPACE ?ws" by (auto simp: list_all_iff dest: set_takeWhileD)
  moreover have sg: "sg \<in> {'''', ''+'', ''-''}" "(sg = ''-'') = minus t" by (auto simp: sg_def minus_def)
  ultimately show "numeral_of b t n"
    using h r by (intro numeral_ofI [of t ?ws sg hx "body b t"]) simp_all
qed

text \<open>The conversions: the value, if the text is a numeral and the value in range.\<close>

lemma base_of: "2 \<le> base_of nBase" "base_of nBase \<le> 16" by (auto simp: base_of_def)

lemma hex_prefix_base: "2 \<le> b \<Longrightarrow> fst (hex_prefix b p) = b"
  by (simp add: hex_prefix_def)

lemma body_read:
  assumes "2 \<le> b" "b \<le> 16"
  obtains any a ds r where "body b t = ds @ r" "digits b ds" "stops b r"
    "digits_loop b (C div of_nat b) (unat (C mod of_nat b)) 0 0 (body b t) = (any, a, r)"
    "if value_from b 0 ds \<le> unat C then any = (if ds = [] then 0 else 1) \<and> unat a = value_from b 0 ds else any = - 1"
proof -
  obtain ds r where p: "body b t = ds @ r" "digits b ds" "stops b r" by (rule split_digits)
  have "\<exists>any a. digits_loop b (C div of_nat b) (unat (C mod of_nat b)) 0 0 (ds @ r) = (any, a, r) \<and>
    (if value_from b (unat (0 :: 64 word)) ds \<le> unat C
     then any = (if ds = [] then 0 else 1) \<and> unat a = value_from b (unat (0 :: 64 word)) ds else any = - 1)"
    using digits_loop [OF p(2,3) _ assms(2) _ _ _ refl refl, where any = 0 and a = 0 and C = C] assms by simp
  then obtain any a where q: "digits_loop b (C div of_nat b) (unat (C mod of_nat b)) 0 0 (ds @ r) = (any, a, r)"
    "if value_from b 0 ds \<le> unat C then any = (if ds = [] then 0 else 1) \<and> unat a = value_from b 0 ds else any = - 1"
    unfolding unsigned_0 by blast
  show ?thesis by (rule that [OF p _ q(2)]) (simp only: p(1) q(1))
qed

lemma numeral_value:
  "2 \<le> b \<Longrightarrow> b \<le> 16 \<Longrightarrow> body b t = ds @ r \<Longrightarrow> digits b ds \<Longrightarrow> stops b r \<Longrightarrow>
    numeral_of b t n = (ds \<noteq> [] \<and> r = [] \<and> n = (if minus t then - int (value_from b 0 ds) else int (value_from b 0 ds)))"
  by (cases r) (auto simp: numeral_of_body digits_def stops_def split: option.splits)

lemma at_end: "CHR 0x00 \<notin> set (t :: string) \<Longrightarrow> (take 1 t \<notin> {[], [CHR 0x00]}) = (t \<noteq> [])"
  by (cases t) auto

lemma body_subset: "set (body b t) \<subseteq> set t"
  by (auto simp: body_def hex_prefix_def unsigned_part_def Let_def split: if_splits dest!: in_set_dropD set_dropWhileD)

lemma converted_signed:
  assumes "CHR 0x00 \<notin> set t"
  shows "converted astring_AToLL t nBase = Some w \<longleftrightarrow>
    (\<exists>n. numeral_of (base_of nBase) t n \<and> - (2 ^ 63) \<le> n \<and> n < 2 ^ 63 \<and> w = of_int n)"
proof -
  let ?b = "base_of nBase" and ?C = "(if minus t then 0x8000000000000000 else 0x7FFFFFFFFFFFFFFF) :: 64 word"
  obtain any a ds r where p: "body ?b t = ds @ r" "digits ?b ds" "stops ?b r"
    "digits_loop ?b (?C div of_nat ?b) (unat (?C mod of_nat ?b)) 0 0 (body ?b t) = (any, a, r)"
    "if value_from ?b 0 ds \<le> unat ?C then any = (if ds = [] then 0 else 1) \<and> unat a = value_from ?b 0 ds else any = - 1"
    by (rule body_read [OF base_of, where C = ?C])
  have nonempty: "ds \<noteq> [] \<Longrightarrow> t \<noteq> []" using body_subset [of ?b t] by (auto simp: p(1))
  have r: "CHR 0x00 \<notin> set r" using assms body_subset [of ?b t] by (auto simp: p(1))
  have n: "numeral_of ?b t n = (ds \<noteq> [] \<and> r = [] \<and> n = (if minus t then - int (value_from ?b 0 ds) else int (value_from ?b 0 ds)))" for n
    using numeral_value [OF base_of p(1-3)] .
  have h: "hex_prefix ?b (unsigned_part t) = (?b, body ?b t)"
    using hex_prefix_base [OF base_of(1), of nBase "unsigned_part t"] by (simp add: body_def prod_eq_iff)
  have f: "astring_AToLL t ?b = (\<not> any < 0,
      if any < 0 then ?C else if minus t then NOT a + 1 else a, if any \<noteq> 0 then r else t)"
    using h p(4) by (simp add: astring_AToLL_def Let_def minus_def unsigned_part_def)
  show ?thesis
  proof (cases "value_from ?b 0 ds \<le> unat ?C")
    case True
    then have "unat a = value_from ?b 0 ds" and a2: "any = (if ds = [] then 0 else 1)" using p(5) by simp_all
    then have a: "a = of_nat (value_from ?b 0 ds)" by (metis of_nat_unat ucast_id)
    have c: "converted astring_AToLL t nBase = (if ds \<noteq> [] \<and> r = [] then Some (if minus t then - a else a) else None)"
    proof (cases "ds = []")
      case True
      then show ?thesis using at_end [OF assms] by (simp add: converted_def f a2 del: insert_iff)
    next
      case False
      then show ?thesis
        using at_end [OF r] nonempty by (simp add: converted_def f a2 minus_eq_not_plus_1 del: insert_iff)
    qed
    have v: "value_from ?b 0 ds \<le> (if minus t then 2 ^ 63 else 2 ^ 63 - 1)" using True by (cases "minus t") simp_all
    show ?thesis unfolding c n a using v by (cases "minus t") auto
  next
    case False
    then have "any = - 1" using p(5) by simp
    then show ?thesis using False by (auto simp: converted_def f n split: if_splits)
  qed
qed

lemma converted_unsigned:
  assumes "CHR 0x00 \<notin> set t"
  shows "converted astring_AToULL t nBase = Some w \<longleftrightarrow>
    \<not> minus t \<and> (\<exists>n. numeral_of (base_of nBase) t n \<and> n < 2 ^ 64 \<and> w = of_int n)"
proof -
  let ?b = "base_of nBase" and ?C = "0xFFFFFFFFFFFFFFFF :: 64 word"
  obtain any a ds r where p: "body ?b t = ds @ r" "digits ?b ds" "stops ?b r"
    "digits_loop ?b (?C div of_nat ?b) (unat (?C mod of_nat ?b)) 0 0 (body ?b t) = (any, a, r)"
    "if value_from ?b 0 ds \<le> unat ?C then any = (if ds = [] then 0 else 1) \<and> unat a = value_from ?b 0 ds else any = - 1"
    by (rule body_read [OF base_of, where C = ?C])
  have nonempty: "ds \<noteq> [] \<Longrightarrow> t \<noteq> []" using body_subset [of ?b t] by (auto simp: p(1))
  have r: "CHR 0x00 \<notin> set r" using assms body_subset [of ?b t] by (auto simp: p(1))
  have n: "numeral_of ?b t n = (ds \<noteq> [] \<and> r = [] \<and> n = (if minus t then - int (value_from ?b 0 ds) else int (value_from ?b 0 ds)))" for n
    using numeral_value [OF base_of p(1-3)] .
  have h: "hex_prefix ?b (unsigned_part t) = (?b, body ?b t)"
    using hex_prefix_base [OF base_of(1), of nBase "unsigned_part t"] by (simp add: body_def prod_eq_iff)
  show ?thesis
  proof (cases "minus t")
    case True
    then show ?thesis by (auto simp: converted_def astring_AToULL_def minus_def)
  next
    case m: False
    have f: "astring_AToULL t ?b = (\<not> any < 0, if any < 0 then ?C else a, if any \<noteq> 0 then r else t)"
      using m h p(4) by (simp add: astring_AToULL_def Let_def minus_def unsigned_part_def)
    show ?thesis
    proof (cases "value_from ?b 0 ds \<le> unat ?C")
      case True
      then have "unat a = value_from ?b 0 ds" and a2: "any = (if ds = [] then 0 else 1)" using p(5) by simp_all
    then have a: "a = of_nat (value_from ?b 0 ds)" by (metis of_nat_unat ucast_id)
      have c: "converted astring_AToULL t nBase = (if ds \<noteq> [] \<and> r = [] then Some a else None)"
      proof (cases "ds = []")
        case True
        then show ?thesis using at_end [OF assms] by (simp add: converted_def f a2 del: insert_iff)
      next
        case False
        then show ?thesis using at_end [OF r] nonempty by (simp add: converted_def f a2 del: insert_iff)
      qed
      have v: "value_from ?b 0 ds \<le> 2 ^ 64 - 1" using True by simp
      show ?thesis unfolding c n a using v m by auto
    next
      case False
      then have "any = - 1" using p(5) by simp
      then show ?thesis using False m by (auto simp: converted_def f n split: if_splits)
    qed
  qed
qed

section \<open>Written numbers\<close>

lemma digit_value_char: "d < 16 \<Longrightarrow> digit_value (digit_char d) = Some d"
  by (auto simp: digit_value_def digit_char_def IMS_ISDIGIT_def IMS_ISALPHA_def IMS_ISUPPER_def)

lemma value_from_append: "value_from b a (xs @ ys) = value_from b (value_from b a xs) ys"
  by (induction xs arbitrary: a) auto

lemma digits_append [simp]: "digits b (xs @ ys) = (digits b xs \<and> digits b ys)"
  by (auto simp: digits_def)

lemma digits_of:
  assumes "2 \<le> b" "b \<le> 16" "0 \<le> n"
  shows "\<exists>ds. digits_of b n buf = ds @ buf \<and> digits b ds \<and> value_from b 0 ds = nat n \<and> (0 < n \<longrightarrow> ds \<noteq> [])"
  using assms
proof (induction b n buf rule: digits_of.induct)
  case (1 b n buf)
  show ?case
  proof (cases "n \<le> 0")
    case True
    then show ?thesis using 1(4) by (intro exI [of _ "[]"], subst digits_of.simps) simp
  next
    case False
    let ?d = "nat (n mod int b)"
    have d: "?d < b" using 1(2) by (simp add: nat_less_iff)
    obtain ds where ds: "digits_of b (n div int b) (digit_char ?d # buf) = ds @ digit_char ?d # buf"
      "digits b ds" "value_from b 0 ds = nat (n div int b)"
      using 1(1) False 1(2-4) by (auto simp: div_int_pos_iff)
    have "nat n = nat (n div int b) * b + ?d"
      using 1(4) by (simp flip: nat_mult_distrib nat_add_distrib add: nat_mult_distrib nat_div_distrib nat_mod_distrib)
    then have "digits_of b n buf = (ds @ [digit_char ?d]) @ buf \<and> digits b (ds @ [digit_char ?d])
        \<and> value_from b 0 (ds @ [digit_char ?d]) = nat n"
      using False 1(2,3) ds d by (simp add: digits_of.simps [of b n] digit_value_char value_from_append)
    then show ?thesis by blast
  qed
qed

lemma digits_ULLToA:
  assumes "2 \<le> b" "b \<le> 16"
  shows "digits b (astring_ULLToA n b)" "value_from b 0 (astring_ULLToA n b) = unat n" "astring_ULLToA n b \<noteq> []"
proof -
  have z: "digit_value CHR ''0'' = Some 0" by (simp add: digit_value_def IMS_ISDIGIT_def)
  obtain ds where "digits_of b (uint n) [] = ds" "digits b ds" "value_from b 0 ds = unat n" "0 < uint n \<longrightarrow> ds \<noteq> []"
    using digits_of [OF assms, of "uint n" "[]"] by auto
  moreover have "0 < uint n" if "n \<noteq> 0" using that by (metis order_le_less uint_0_iff uint_ge_0)
  ultimately show "digits b (astring_ULLToA n b)" "value_from b 0 (astring_ULLToA n b) = unat n" "astring_ULLToA n b \<noteq> []"
    using assms z by (simp_all add: astring_ULLToA_def)
qed

lemma numeral_digits:
  assumes "digits b ds" "ds \<noteq> []"
  shows "numeral_of b ds (int (value_from b 0 ds))" "numeral_of b (''-'' @ ds) (- int (value_from b 0 ds))"
  by (rule numeral_ofI [where ws = "[]" and sg = "[]" and hx = "[]" and ds = ds]; use assms in simp)
    (rule numeral_ofI [where ws = "[]" and sg = "''-''" and hx = "[]" and ds = ds]; use assms in simp)

lemma no_flags [simp]: "\<not> has_flag 0 f" by (simp add: has_flag_def)

lemma padded_plain: "s \<noteq> [] \<Longrightarrow> padded 1 w i b z True 0 s = s"
  by (cases s) (simp_all add: padded_def at_least_def)

lemma sint_cases: "sint n = (if uint n < 2 ^ 63 then uint n else uint n - 2 ^ 64)" for n :: "64 word"
proof -
  have u: "0 \<le> uint n" "uint n < 2 ^ 64" using unsigned_less [of n, where 'a = int] by simp_all
  have s: "sint n = (uint n + 2 ^ 63) mod 2 ^ 64 - 2 ^ 63"
    by (simp add: sint_uint signed_take_bit_eq_take_bit_shift take_bit_eq_mod)
  show ?thesis
  proof (cases "uint n < 2 ^ 63")
    case True
    then show ?thesis using u s by simp
  next
    case False
    have "(uint n + 2 ^ 63 - 2 ^ 64) mod 2 ^ 64 = uint n + 2 ^ 63 - 2 ^ 64" using u False by (intro mod_pos_pos_trivial) simp_all
    then show ?thesis using False s by (simp only: minus_mod_self2) simp
  qed
qed

lemma uint_minus: "sint n < 0 \<Longrightarrow> uint (- n) = - sint n" for n :: "64 word"
  using unsigned_less [of n, where 'a = int]
  by (simp add: sint_cases uint_word_ariths zmod_zminus1_eq_if split: if_splits)

lemma SetNumber_64_text:
  "SetNumber_64 n nBase =
    (if base_of nBase = 10 \<and> sint n < 0 then ''-'' @ astring_ULLToA (- n) 10 else astring_ULLToA n (base_of nBase))"
  using digits_ULLToA(3) [OF base_of]
  by (auto simp: SetNumber_64_def astring_LLToString_def astring_ULLToString_def Let_def astring_LLToA_def
      padded_plain digits_ULLToA(3))

lemma SetNumber_U64_text: "SetNumber_U64 n nBase = astring_ULLToA n (base_of nBase)"
  using digits_ULLToA(3) [OF base_of]
  by (simp add: SetNumber_U64_def astring_ULLToString_def Let_def padded_plain)

section \<open>Correctness\<close>

lemma sint_of_int: "- (2 ^ 63) \<le> n \<Longrightarrow> n < 2 ^ 63 \<Longrightarrow> sint (of_int n :: 64 word) = n"
  by (simp add: sint_uint signed_take_bit_eq_take_bit_shift take_bit_eq_mod uint_word_of_int mod_simps)

lemma uint_of_int: "0 \<le> n \<Longrightarrow> n < 2 ^ 64 \<Longrightarrow> uint (of_int n :: 64 word) = n"
  by (simp add: uint_word_of_int)

lemma numeral_of_unique: "2 \<le> b \<Longrightarrow> b \<le> 16 \<Longrightarrow> numeral_of b t n \<Longrightarrow> numeral_of b t m \<Longrightarrow> n = m"
  by (simp add: numeral_of_body)

lemma numeral_of_nonneg: "2 \<le> b \<Longrightarrow> b \<le> 16 \<Longrightarrow> numeral_of b t n \<Longrightarrow> \<not> minus t \<Longrightarrow> 0 \<le> n"
  by (simp add: numeral_of_body)

lemma signed_value:
  assumes "CHR 0x00 \<notin> set t"
  shows "map_option sint (converted astring_AToLL t nBase) = Some n \<longleftrightarrow>
    numeral_of (base_of nBase) t n \<and> - (2 ^ 63) \<le> n \<and> n < 2 ^ 63"
  by (auto simp: converted_signed [OF assms] sint_of_int)

lemma unsigned_value:
  assumes "CHR 0x00 \<notin> set t"
  shows "map_option uint (converted astring_AToULL t nBase) = Some n \<longleftrightarrow>
    \<not> minus t \<and> numeral_of (base_of nBase) t n \<and> n < 2 ^ 64"
  using numeral_of_nonneg [OF base_of] by (auto simp: converted_unsigned [OF assms] uint_of_int)

lemma limited: "(case map_option f x of None \<Rightarrow> None | Some n \<Rightarrow> if P n then Some n else None) = Some n \<longleftrightarrow>
    map_option f x = Some n \<and> P n"
  by (auto split: option.split)

lemma conversions:
  assumes "CHR 0x00 \<notin> set t"
  shows "ToInt16 t nBase = Some n \<longleftrightarrow> numeral_of (base_of nBase) t n \<and> - (2 ^ 15) \<le> n \<and> n < 2 ^ 15"
    and "ToInt32 t nBase = Some n \<longleftrightarrow> numeral_of (base_of nBase) t n \<and> - (2 ^ 31) \<le> n \<and> n < 2 ^ 31"
    and "ToInt64 t nBase = Some n \<longleftrightarrow> numeral_of (base_of nBase) t n \<and> - (2 ^ 63) \<le> n \<and> n < 2 ^ 63"
    and "ToUInt32 t nBase = Some n \<longleftrightarrow> \<not> minus t \<and> numeral_of (base_of nBase) t n \<and> n < 2 ^ 32"
    and "ToUInt64 t nBase = Some n \<longleftrightarrow> \<not> minus t \<and> numeral_of (base_of nBase) t n \<and> n < 2 ^ 64"
proof -
  have "ToInt16 t nBase = (case map_option sint (converted astring_AToLL t nBase) of None \<Rightarrow> None
      | Some n \<Rightarrow> if - (2 ^ 15) \<le> n \<and> n < 2 ^ 15 then Some n else None)"
    "ToInt32 t nBase = (case map_option sint (converted astring_AToLL t nBase) of None \<Rightarrow> None
      | Some n \<Rightarrow> if - (2 ^ 31) \<le> n \<and> n < 2 ^ 31 then Some n else None)"
    "ToUInt32 t nBase = (case map_option uint (converted astring_AToULL t nBase) of None \<Rightarrow> None
      | Some n \<Rightarrow> if n < 2 ^ 32 then Some n else None)"
    by (auto simp: ToInt16_def ToInt32_def ToUInt32_def split: option.split)
  note this [THEN arg_cong, of "\<lambda>x. x = Some n"]
  then show "ToInt16 t nBase = Some n \<longleftrightarrow> numeral_of (base_of nBase) t n \<and> - (2 ^ 15) \<le> n \<and> n < 2 ^ 15"
    "ToInt32 t nBase = Some n \<longleftrightarrow> numeral_of (base_of nBase) t n \<and> - (2 ^ 31) \<le> n \<and> n < 2 ^ 31"
    "ToInt64 t nBase = Some n \<longleftrightarrow> numeral_of (base_of nBase) t n \<and> - (2 ^ 63) \<le> n \<and> n < 2 ^ 63"
    "ToUInt32 t nBase = Some n \<longleftrightarrow> \<not> minus t \<and> numeral_of (base_of nBase) t n \<and> n < 2 ^ 32"
    "ToUInt64 t nBase = Some n \<longleftrightarrow> \<not> minus t \<and> numeral_of (base_of nBase) t n \<and> n < 2 ^ 64"
    unfolding limited signed_value [OF assms] unsigned_value [OF assms] ToInt64_def ToUInt64_def by auto
qed

lemma conversion_uint16:
  assumes "CHR 0x00 \<notin> set t"
  shows "ToUInt16 t nBase = Some n \<longleftrightarrow>
    (\<exists>m. \<not> minus t \<and> numeral_of (base_of nBase) t m \<and> (m < 2 ^ 16 \<or> 2 ^ 63 \<le> m \<and> m < 2 ^ 64) \<and> n = m mod 2 ^ 16)"
proof -
  have s: "(sint w > 2 ^ 16 - 1) = (\<not> (uint w < 2 ^ 16 \<or> 2 ^ 63 \<le> uint w))" for w :: "64 word"
    using unsigned_less [of w, where 'a = int] by (auto simp: sint_cases)
  have "ToUInt16 t nBase = Some n \<longleftrightarrow>
      (\<exists>m. map_option uint (converted astring_AToULL t nBase) = Some m \<and> (m < 2 ^ 16 \<or> 2 ^ 63 \<le> m) \<and> n = m mod 2 ^ 16)"
    by (simp only: ToUInt16_def s) (auto simp: take_bit_eq_mod unsigned_ucast_eq split: option.split)
  then show ?thesis unfolding unsigned_value [OF assms] by fastforce
qed

text \<open>
  Reading numbers: a conversion succeeds exactly on a numeral of the base (white space, a sign, for
  base 16 a prefix 0x, and at least one digit, with nothing behind it) whose value fits in the
  type; a minus sign is refused by the unsigned ones. The result is that value.
\<close>

theorem text_to_number:
  assumes "CHR 0x00 \<notin> set t"
  shows "(ToInt16 t nBase = Some n \<longleftrightarrow> numeral_of (base_of nBase) t n \<and> - (2 ^ 15) \<le> n \<and> n < 2 ^ 15)
    \<and> (ToInt32 t nBase = Some n \<longleftrightarrow> numeral_of (base_of nBase) t n \<and> - (2 ^ 31) \<le> n \<and> n < 2 ^ 31)
    \<and> (ToInt64 t nBase = Some n \<longleftrightarrow> numeral_of (base_of nBase) t n \<and> - (2 ^ 63) \<le> n \<and> n < 2 ^ 63)
    \<and> (ToUInt32 t nBase = Some n \<longleftrightarrow> \<not> minus t \<and> numeral_of (base_of nBase) t n \<and> n < 2 ^ 32)
    \<and> (ToUInt64 t nBase = Some n \<longleftrightarrow> \<not> minus t \<and> numeral_of (base_of nBase) t n \<and> n < 2 ^ 64)"
  using conversions [OF assms] by simp

theorem text_to_number_witness:
  "numeral_of 10 '' -12'' (- 12) \<and> ToInt32 '' -12'' 10 = Some (- 12) \<and> ToUInt32 '' -12'' 10 \<noteq> Some (- 12)"
proof -
  have "CHR 0x00 \<notin> set '' -12''" by simp
  note w = text_to_number [OF this, of 10 "- 12"]
  have "numeral_of 10 '' -12'' (- 12)"
    by (rule numeral_ofI [where ws = "'' ''" and sg = "''-''" and hx = "[]" and ds = "''12''"])
      (simp_all add: IMS_ISSPACE_def digit_value_def IMS_ISDIGIT_def)
  moreover have "minus '' -12''" by (simp add: minus_def IMS_ISSPACE_def)
  ultimately show ?thesis using w by (simp add: base_of_def)
qed

text \<open>C39:
  \<open>ToUInt16\<close> holds the unsigned value in a signed variable before it compares it with the largest
  one: it accepts the numerals up to 65535, and those from \<open>2 ^ 63\<close> on that are below \<open>2 ^ 64\<close>, which
  it truncates. It refuses all others, a minus sign and what is from \<open>2 ^ 64\<close> on included.
\<close>

theorem text_to_uint16:
  assumes "CHR 0x00 \<notin> set t"
  shows "ToUInt16 t nBase = Some n \<longleftrightarrow>
    (\<exists>m. \<not> minus t \<and> numeral_of (base_of nBase) t m \<and> (m < 2 ^ 16 \<or> 2 ^ 63 \<le> m \<and> m < 2 ^ 64) \<and> n = m mod 2 ^ 16)"
  by (rule conversion_uint16 [OF assms])

theorem text_to_uint16_witness: "ToUInt16 ''9223372036854775809'' 10 = Some 1"
proof -
  have "CHR 0x00 \<notin> set ''9223372036854775809''" by simp
  note w = text_to_uint16 [OF this, of 10 1]
  have "numeral_of 10 ''9223372036854775809'' 9223372036854775809"
    by (rule numeral_ofI [where ws = "[]" and sg = "[]" and hx = "[]" and ds = "''9223372036854775809''"])
      (simp_all add: digit_value_def IMS_ISDIGIT_def)
  moreover have "\<not> minus ''9223372036854775809''" by (simp add: minus_def IMS_ISSPACE_def)
  ultimately show ?thesis using w by (auto simp: base_of_def intro!: exI [of _ 9223372036854775809])
qed

lemma written_chars: "digits b ds \<Longrightarrow> CHR 0x00 \<notin> set ds \<and> (ds \<noteq> [] \<longrightarrow> \<not> minus ds)"
  by (cases ds) (auto simp: digits_def minus_def dest: digit_chars(1))

lemma written_unsigned:
  "numeral_of (base_of nBase) (SetNumber_U64 x nBase) (uint x)" "CHR 0x00 \<notin> set (SetNumber_U64 x nBase)"
  "\<not> minus (SetNumber_U64 x nBase)"
  using numeral_digits(1) [OF digits_ULLToA(1,3) [OF base_of]] written_chars [OF digits_ULLToA(1) [OF base_of]]
    digits_ULLToA(2,3) [OF base_of]
  by (auto simp: SetNumber_U64_text)

lemma written_signed:
  "numeral_of (base_of nBase) (SetNumber_64 x nBase) (if base_of nBase = 10 then sint x else uint x)"
  "CHR 0x00 \<notin> set (SetNumber_64 x nBase)"
proof -
  show "CHR 0x00 \<notin> set (SetNumber_64 x nBase)"
    using written_chars [OF digits_ULLToA(1)] base_of [of nBase] by (auto simp: SetNumber_64_text)
  show "numeral_of (base_of nBase) (SetNumber_64 x nBase) (if base_of nBase = 10 then sint x else uint x)"
  proof (cases "base_of nBase = 10 \<and> sint x < 0")
    case True
    then show ?thesis
      using numeral_digits(2) [OF digits_ULLToA(1,3), of 10 "- x"]
      by (simp add: SetNumber_64_text digits_ULLToA(2) uint_minus)
  next
    case False
    then have "(if base_of nBase = 10 then sint x else uint x) = uint x"
      using unsigned_less [of x, where 'a = int] by (auto simp: sint_cases split: if_splits)
    then show ?thesis
      using False numeral_digits(1) [OF digits_ULLToA(1,3) [OF base_of], of nBase x]
      by (auto simp: SetNumber_64_text digits_ULLToA(2) [OF base_of])
  qed
qed

lemma unsigned_range: "uint x < 2 ^ LENGTH('a)" for x :: "'a :: len word"
  by (rule unsigned_less)

lemma unsigned_round_trips:
  "ToUInt64 (SetNumber_U64 x nBase) nBase = Some (uint x)"
  "ToUInt32 (SetNumber_U32 y nBase) nBase = Some (uint y)"
  "ToUInt16 (SetNumber_U16 z nBase) nBase = Some (uint z)"
proof -
  have y: "uint (ucast y :: 64 word) = uint y" "uint y < 2 ^ 32"
    and z: "uint (ucast (ucast z :: 32 word) :: 64 word) = uint z" "uint z < 2 ^ 16"
    using unsigned_range [of y] unsigned_range [of z] by (simp_all add: uint_up_ucast is_up)
  show "ToUInt64 (SetNumber_U64 x nBase) nBase = Some (uint x)"
    using written_unsigned [where nBase = nBase and x = x] unsigned_range [of x] by (simp add: conversions)
  show "ToUInt32 (SetNumber_U32 y nBase) nBase = Some (uint y)"
    using written_unsigned [where nBase = nBase and x = "ucast y"] y by (simp add: conversions SetNumber_U32_def)
  show "ToUInt16 (SetNumber_U16 z nBase) nBase = Some (uint z)"
    using written_unsigned [where nBase = nBase and x = "ucast (ucast z :: 32 word)"] z
    by (auto simp: conversion_uint16 SetNumber_U16_def SetNumber_U32_def intro!: exI [of _ "uint z"])
qed

lemma sint_range: "- (2 ^ (LENGTH('a) - 1)) \<le> sint x" "sint x < 2 ^ (LENGTH('a) - 1)" for x :: "'a :: len word"
  using sint_ge [of x] sint_lt [of x] by auto

lemma signed_refused:
  "sint x < 0 \<Longrightarrow> base_of nBase \<noteq> 10 \<Longrightarrow> numeral_of (base_of nBase) (SetNumber_64 x nBase) n \<Longrightarrow> 2 ^ 63 \<le> n"
  using numeral_of_unique [OF base_of written_signed(1) [of nBase x], of n] uint_ge_0 [of x] by (simp add: sint_cases split: if_splits)

lemma signed_kept:
  "base_of nBase = 10 \<or> 0 \<le> sint x \<Longrightarrow> numeral_of (base_of nBase) (SetNumber_64 x nBase) n \<longleftrightarrow> n = sint x"
  using numeral_of_unique [OF base_of written_signed(1) [of nBase x], of n] written_signed(1) [of nBase x]
    unsigned_range [of x]
  by (auto simp: sint_cases split: if_splits)

lemma signed_round_trips:
  "ToInt64 (SetNumber_64 x nBase) nBase = (if base_of nBase = 10 \<or> 0 \<le> sint x then Some (sint x) else None)"
  "ToInt32 (SetNumber_32 y nBase) nBase = (if base_of nBase = 10 \<or> 0 \<le> sint y then Some (sint y) else None)"
  "ToInt16 (SetNumber_16 z nBase) nBase = (if base_of nBase = 10 \<or> 0 \<le> sint z then Some (sint z) else None)"
proof -
  have y: "sint (scast y :: 64 word) = sint y" "- (2 ^ 31) \<le> sint y" "sint y < 2 ^ 31"
    using sint_range [of y] by (simp_all add: sint_up_scast is_up)
  have z: "sint (scast (scast z :: 32 word) :: 64 word) = sint z" "- (2 ^ 15) \<le> sint z" "sint z < 2 ^ 15"
    using sint_range [of z] by (simp_all add: sint_up_scast is_up)
  have *: "f (SetNumber_64 v nBase) nBase = (if base_of nBase = 10 \<or> 0 \<le> sint v then Some (sint v) else None)"
    if c: "\<And>n. f (SetNumber_64 v nBase) nBase = Some n \<longleftrightarrow>
        numeral_of (base_of nBase) (SetNumber_64 v nBase) n \<and> - (2 ^ k) \<le> n \<and> n < 2 ^ k"
      and k: "k \<le> 63" and v: "- (2 ^ k) \<le> sint v" "sint v < 2 ^ k" for f :: "string \<Rightarrow> int \<Rightarrow> int option" and v k
  proof (cases "base_of nBase = 10 \<or> 0 \<le> sint v")
    case True
    then show ?thesis using c v by (simp add: signed_kept)
  next
    case False
    have "(2 :: int) ^ k \<le> 2 ^ 63" using k by (rule power_increasing) simp
    then have "f (SetNumber_64 v nBase) nBase \<noteq> Some n" for n
      using False c signed_refused [of v nBase n] by force
    then have "f (SetNumber_64 v nBase) nBase = None" by (meson option.exhaust)
    then show ?thesis using False by simp
  qed
  show "ToInt64 (SetNumber_64 x nBase) nBase = (if base_of nBase = 10 \<or> 0 \<le> sint x then Some (sint x) else None)"
    using sint_range [of x] by (intro * [where k = 63] conversions(3) written_signed(2)) simp_all
  show "ToInt32 (SetNumber_32 y nBase) nBase = (if base_of nBase = 10 \<or> 0 \<le> sint y then Some (sint y) else None)"
    using * [of ToInt32 "scast y" 31] conversions(2) [OF written_signed(2)] y by (simp add: SetNumber_32_def)
  show "ToInt16 (SetNumber_16 z nBase) nBase = (if base_of nBase = 10 \<or> 0 \<le> sint z then Some (sint z) else None)"
    using * [of ToInt16 "scast (scast z :: 32 word)" 15] conversions(1) [OF written_signed(2)] z
    by (simp add: SetNumber_16_def SetNumber_32_def)
qed

text \<open>C38:
  Numbers written and read back in the same base: an unsigned number always comes back, a signed one
  of any of the three widths when the base is 10 or the number is not negative. A negative number in
  another base is written as the digits of its 64-bit pattern, which the conversion then refuses.
\<close>

theorem number_round_trip:
  "ToUInt64 (SetNumber_U64 x nBase) nBase = Some (uint x)
    \<and> ToUInt32 (SetNumber_U32 y nBase) nBase = Some (uint y)
    \<and> ToUInt16 (SetNumber_U16 z nBase) nBase = Some (uint z)
    \<and> ToInt64 (SetNumber_64 x nBase) nBase = (if base_of nBase = 10 \<or> 0 \<le> sint x then Some (sint x) else None)
    \<and> ToInt32 (SetNumber_32 y nBase) nBase = (if base_of nBase = 10 \<or> 0 \<le> sint y then Some (sint y) else None)
    \<and> ToInt16 (SetNumber_16 z nBase) nBase = (if base_of nBase = 10 \<or> 0 \<le> sint z then Some (sint z) else None)"
  by (intro conjI unsigned_round_trips signed_round_trips)

end
