(* ===== verification/Precondition.thy ===== *)
theory Precondition
  imports SdpParam AStringNumber
begin

text \<open>
  The precondition attributes of RFC 3312 in a session description (\<open>protocol/sdp/offeranswer/SdpPrecondition.cpp\<close>,
  \<open>SdpSegmentedPrecondition.cpp\<close>, \<open>SdpE2EPrecondition.cpp\<close>, \<open>SdpMediaParameter::CreatePrecondition\<close>): how they
  are written, how they are read, and that reading undoes writing. The directions and strengths are ordered as
  the C++ enumerations are. Allocation failures are left out.
\<close>

section \<open>Model\<close>

datatype direction_tag = DIRECTION_INVALID | DIRECTION_NONE | DIRECTION_SEND | DIRECTION_RECV | DIRECTION_SENDRECV

datatype status_type = STATUS_INVALID | STATUS_E2E | STATUS_LOCAL | STATUS_REMOTE

datatype strength_tag =
  STRENGTH_MANDATORY | STRENGTH_OPTIONAL | STRENGTH_NONE | STRENGTH_FAILURE | STRENGTH_UNKNOWN | STRENGTH_NOTUSED

datatype precondition_type = PRECONDITION_TYPE_INVALID | TYPE_QOS | PRECONDITION_TYPE_OTHER

datatype precondition_subtype = SUBTYPE_E2E | SUBTYPE_SEGMENTED

datatype precondition_attribute = CURR | DES | CONF

fun direction_value :: "direction_tag \<Rightarrow> int" where
  "direction_value DIRECTION_INVALID = -1"
| "direction_value DIRECTION_NONE = 0"
| "direction_value DIRECTION_SEND = 1"
| "direction_value DIRECTION_RECV = 2"
| "direction_value DIRECTION_SENDRECV = 3"

fun strength_value :: "strength_tag \<Rightarrow> int" where
  "strength_value STRENGTH_MANDATORY = 0"
| "strength_value STRENGTH_OPTIONAL = 1"
| "strength_value STRENGTH_NONE = 2"
| "strength_value STRENGTH_FAILURE = 3"
| "strength_value STRENGTH_UNKNOWN = 4"
| "strength_value STRENGTH_NOTUSED = 5"

lemma direction_value_inject: "direction_value p = direction_value q \<Longrightarrow> p = q"
  by (cases p; cases q; simp)

lemma strength_value_inject: "strength_value p = strength_value q \<Longrightarrow> p = q"
  by (cases p; cases q; simp)

instantiation direction_tag :: linorder
begin

definition less_eq_direction_tag :: "direction_tag \<Rightarrow> direction_tag \<Rightarrow> bool" where
  "less_eq_direction_tag p q = (direction_value p \<le> direction_value q)"

definition less_direction_tag :: "direction_tag \<Rightarrow> direction_tag \<Rightarrow> bool" where
  "less_direction_tag p q = (direction_value p < direction_value q)"

instance
  by standard (auto simp: less_eq_direction_tag_def less_direction_tag_def intro: direction_value_inject)

end

instantiation strength_tag :: linorder
begin

definition less_eq_strength_tag :: "strength_tag \<Rightarrow> strength_tag \<Rightarrow> bool" where
  "less_eq_strength_tag p q = (strength_value p \<le> strength_value q)"

definition less_strength_tag :: "strength_tag \<Rightarrow> strength_tag \<Rightarrow> bool" where
  "less_strength_tag p q = (strength_value p < strength_value q)"

instance
  by standard (auto simp: less_eq_strength_tag_def less_strength_tag_def intro: strength_value_inject)

end

lemmas tag_order = less_eq_direction_tag_def less_direction_tag_def less_eq_strength_tag_def less_strength_tag_def

record DetailInfo =
  di_status :: status_type
  di_direction :: direction_tag
  di_strength :: strength_tag

definition DetailInfo_new :: DetailInfo where
  "DetailInfo_new = \<lparr> di_status = STATUS_E2E, di_direction = DIRECTION_NONE, di_strength = STRENGTH_NOTUSED \<rparr>"

datatype SdpPrecondition =
  SdpE2EPrecondition (E2EDetails: "DetailInfo list")
| SdpSegmentedPrecondition (LocalDetails: "DetailInfo list") (RemoteDetails: "DetailInfo list")

fun STR_DIRECTION_TAG :: "direction_tag \<Rightarrow> string" where
  "STR_DIRECTION_TAG DIRECTION_NONE = ''none''"
| "STR_DIRECTION_TAG DIRECTION_SEND = ''send''"
| "STR_DIRECTION_TAG DIRECTION_RECV = ''recv''"
| "STR_DIRECTION_TAG DIRECTION_SENDRECV = ''sendrecv''"
| "STR_DIRECTION_TAG DIRECTION_INVALID = ''''"

fun STR_STATUS_TYPE :: "status_type \<Rightarrow> string" where
  "STR_STATUS_TYPE STATUS_E2E = ''e2e''"
| "STR_STATUS_TYPE STATUS_LOCAL = ''local''"
| "STR_STATUS_TYPE STATUS_REMOTE = ''remote''"
| "STR_STATUS_TYPE STATUS_INVALID = ''''"

fun STR_STRENGTH_TAG :: "strength_tag \<Rightarrow> string" where
  "STR_STRENGTH_TAG STRENGTH_MANDATORY = ''mandatory''"
| "STR_STRENGTH_TAG STRENGTH_OPTIONAL = ''optional''"
| "STR_STRENGTH_TAG STRENGTH_NONE = ''none''"
| "STR_STRENGTH_TAG STRENGTH_FAILURE = ''failure''"
| "STR_STRENGTH_TAG STRENGTH_UNKNOWN = ''unknown''"
| "STR_STRENGTH_TAG STRENGTH_NOTUSED = ''''"

definition DetailInfo_ToString :: "DetailInfo \<Rightarrow> string" where
  "DetailInfo_ToString i =
     (if di_strength i \<noteq> STRENGTH_NOTUSED then STR_STRENGTH_TAG (di_strength i) @ '' '' else '''')
     @ (if di_status i \<noteq> STATUS_INVALID then STR_STATUS_TYPE (di_status i) @ '' '' else '''')
     @ (if di_direction i \<noteq> DIRECTION_INVALID then STR_DIRECTION_TAG (di_direction i) else '''')"

definition SdpPrecondition_ToSdp :: "precondition_attribute \<Rightarrow> string" where
  "SdpPrecondition_ToSdp nAttribute =
     ''a='' @ (case nAttribute of CURR \<Rightarrow> ''curr:'' | DES \<Rightarrow> ''des:'' | CONF \<Rightarrow> ''conf:'') @ ''qos''"

definition status_lines :: "precondition_attribute \<Rightarrow> DetailInfo list \<Rightarrow> string" where
  "status_lines nAttribute infos =
     concat (map (\<lambda>i. SdpPrecondition_ToSdp nAttribute @ '' '' @ DetailInfo_ToString i @ [CHR 0x0D, CHR 0x0A]) infos)"

fun Precondition_ToSdp :: "precondition_attribute \<Rightarrow> SdpPrecondition \<Rightarrow> string" where
  "Precondition_ToSdp nAttribute (SdpE2EPrecondition ds) = status_lines nAttribute ds"
| "Precondition_ToSdp nAttribute (SdpSegmentedPrecondition ls rs) =
     status_lines nAttribute ls @ status_lines nAttribute rs"

fun AddStatus :: "status_type \<Rightarrow> direction_tag \<Rightarrow> strength_tag \<Rightarrow> SdpPrecondition \<Rightarrow> bool \<times> SdpPrecondition" where
  "AddStatus st dir str (SdpE2EPrecondition ds) =
     (if st = STATUS_E2E
      then (True, SdpE2EPrecondition (ds @ [\<lparr> di_status = st, di_direction = dir, di_strength = str \<rparr>]))
      else (False, SdpE2EPrecondition ds))"
| "AddStatus st dir str (SdpSegmentedPrecondition ls rs) =
     (if st = STATUS_LOCAL
      then (True, SdpSegmentedPrecondition (ls @ [\<lparr> di_status = st, di_direction = dir, di_strength = str \<rparr>]) rs)
      else if st = STATUS_REMOTE
      then (True, SdpSegmentedPrecondition ls (rs @ [\<lparr> di_status = st, di_direction = dir, di_strength = str \<rparr>]))
      else (False, SdpSegmentedPrecondition ls rs))"

fun IsPreconditionPresent :: "SdpPrecondition \<Rightarrow> bool" where
  "IsPreconditionPresent (SdpE2EPrecondition ds) = (ds \<noteq> [])"
| "IsPreconditionPresent (SdpSegmentedPrecondition ls rs) = (ls \<noteq> [] \<or> rs \<noteq> [])"

subsection \<open>Reading a status line\<close>

definition AString_Trim :: "string \<Rightarrow> string" where
  "AString_Trim s = rev (dropWhile IMS_ISSPACE (rev (dropWhile IMS_ISSPACE s)))"

fun split_at :: "char \<Rightarrow> string \<Rightarrow> string list" where
  "split_at cSep [] = [[]]"
| "split_at cSep (c # cs) =
     (if c = cSep then [] # split_at cSep cs
      else (case split_at cSep cs of [] \<Rightarrow> [[c]] | t # ts \<Rightarrow> (c # t) # ts))"

definition AString_Split :: "char \<Rightarrow> string \<Rightarrow> string list" where
  "AString_Split cSep s = map AString_Trim (split_at cSep s)"

definition equals :: "string \<Rightarrow> string \<Rightarrow> bool" where
  "equals s t = AString_EqualsIgnoreCase (Some s) (Some t)"

definition strength_of :: "string \<Rightarrow> strength_tag option" where
  "strength_of t =
     (if equals t ''mandatory'' then Some STRENGTH_MANDATORY
      else if equals t ''optional'' then Some STRENGTH_OPTIONAL
      else if equals t ''none'' then Some STRENGTH_NONE
      else if equals t ''failure'' then Some STRENGTH_FAILURE
      else if equals t ''unknown'' then Some STRENGTH_UNKNOWN
      else None)"

definition status_of :: "string \<Rightarrow> status_type option" where
  "status_of t =
     (if equals t ''e2e'' then Some STATUS_E2E
      else if equals t ''local'' then Some STATUS_LOCAL
      else if equals t ''remote'' then Some STATUS_REMOTE
      else None)"

definition direction_of :: "string \<Rightarrow> direction_tag option" where
  "direction_of t =
     (if equals t ''none'' then Some DIRECTION_NONE
      else if equals t ''send'' then Some DIRECTION_SEND
      else if equals t ''recv'' then Some DIRECTION_RECV
      else if equals t ''sendrecv'' then Some DIRECTION_SENDRECV
      else None)"

text \<open>
  The results of \<open>ExtractProperties\<close> are references: what a line that is refused has set so far stays set.
\<close>

type_synonym properties = "precondition_type \<times> precondition_subtype \<times> DetailInfo"

definition extract_status :: "string \<Rightarrow> string \<Rightarrow> properties \<Rightarrow> bool \<times> properties" where
  "extract_status strStatusType strDirectionTag prop =
     (case prop of (nType, nSubType, i) \<Rightarrow>
        (case status_of strStatusType of
           None \<Rightarrow> (False, nType, nSubType, i)
         | Some st \<Rightarrow>
             (let i = i\<lparr>di_status := st\<rparr>; nSubType = (if st = STATUS_E2E then SUBTYPE_E2E else SUBTYPE_SEGMENTED)
              in case direction_of strDirectionTag of
                   None \<Rightarrow> (False, nType, nSubType, i)
                 | Some d \<Rightarrow> (True, nType, nSubType, i\<lparr>di_direction := d\<rparr>))))"

definition ExtractProperties :: "string \<Rightarrow> properties \<Rightarrow> bool \<times> properties" where
  "ExtractProperties strStatusLine prop =
     (case prop of (nType, nSubType, i) \<Rightarrow>
        if strStatusLine = [] then (False, prop)
        else (let objTokens = AString_Split CHR '' '' strStatusLine in
          if length objTokens \<noteq> 3 \<and> length objTokens \<noteq> 4 then (False, prop)
          else (let nType = (if equals (objTokens ! 0) ''qos'' then TYPE_QOS else PRECONDITION_TYPE_OTHER) in
            if length objTokens = 4
            then (case strength_of (objTokens ! 1) of
                    None \<Rightarrow> (False, nType, nSubType, i)
                  | Some str \<Rightarrow>
                      extract_status (objTokens ! 2) (objTokens ! 3) (nType, nSubType, i\<lparr>di_strength := str\<rparr>))
            else extract_status (objTokens ! 1) (objTokens ! 2) (nType, nSubType, i))))"

fun CreatePrecondition_loop :: "string list \<Rightarrow> properties \<Rightarrow> SdpPrecondition option \<Rightarrow> string list
    \<Rightarrow> SdpPrecondition option \<times> string list" where
  "CreatePrecondition_loop [] prop p objQosAttrs = (p, objQosAttrs)"
| "CreatePrecondition_loop (v # vs) prop p objQosAttrs =
     (case ExtractProperties v prop of (ok, nType, nSubType, i) \<Rightarrow>
        if \<not> ok \<or> nType \<noteq> TYPE_QOS then CreatePrecondition_loop vs (nType, nSubType, i) p objQosAttrs
        else (let q = (case p of Some q \<Rightarrow> q
                        | None \<Rightarrow> if nSubType = SUBTYPE_E2E then SdpE2EPrecondition [] else SdpSegmentedPrecondition [] [])
              in case AddStatus (di_status i) (di_direction i) (di_strength i) q of
                   (added, q) \<Rightarrow>
                     CreatePrecondition_loop vs (nType, nSubType, i) (Some q)
                       (if added then objQosAttrs @ [v] else objQosAttrs)))"

text \<open>The values of the attributes of one kind; the result and the attributes it was built from.\<close>

definition CreatePrecondition :: "string list \<Rightarrow> SdpPrecondition option \<times> string list" where
  "CreatePrecondition objAttributes =
     (case CreatePrecondition_loop objAttributes (PRECONDITION_TYPE_INVALID, SUBTYPE_E2E, DetailInfo_new) None [] of
        (None, as) \<Rightarrow> (None, as)
      | (Some p, as) \<Rightarrow> if IsPreconditionPresent p then (Some p, as) else (None, as))"

definition AddStatus_line :: "string \<Rightarrow> SdpPrecondition \<Rightarrow> bool \<times> SdpPrecondition" where
  "AddStatus_line strStatusLine p =
     (case ExtractProperties strStatusLine (PRECONDITION_TYPE_INVALID, SUBTYPE_SEGMENTED, DetailInfo_new) of
        (ok, nType, nSubType, i) \<Rightarrow>
          if \<not> ok \<or> nType \<noteq> TYPE_QOS \<or> nSubType \<noteq> (case p of SdpE2EPrecondition _ \<Rightarrow> SUBTYPE_E2E | _ \<Rightarrow> SUBTYPE_SEGMENTED)
          then (False, p)
          else AddStatus (di_status i) (di_direction i) (di_strength i) p)"

section \<open>Reading what was written\<close>

lemma split_at_token: "cSep \<notin> set t \<Longrightarrow> split_at cSep (t @ cSep # s) = t # split_at cSep s"
  by (induction t) auto

lemma split_at_last: "cSep \<notin> set t \<Longrightarrow> split_at cSep t = [t]"
  by (induction t) auto

lemma Trim_token: "list_all (\<lambda>c. \<not> IMS_ISSPACE c) t \<Longrightarrow> AString_Trim t = t"
proof -
  have "dropWhile IMS_ISSPACE xs = xs" if "list_all (\<lambda>c. \<not> IMS_ISSPACE c) xs" for xs
    using that by (cases xs) auto
  then show "list_all (\<lambda>c. \<not> IMS_ISSPACE c) t \<Longrightarrow> AString_Trim t = t" by (simp add: AString_Trim_def)
qed

definition token :: "string \<Rightarrow> bool" where
  "token t = list_all (\<lambda>c. \<not> IMS_ISSPACE c) t"

lemma token_no_space: "token t \<Longrightarrow> CHR '' '' \<notin> set t"
proof
  assume "token t" "CHR '' '' \<in> set t"
  then have "\<not> IMS_ISSPACE CHR '' ''" by (simp add: token_def list_all_iff)
  then show False by (simp add: IMS_ISSPACE_def)
qed

lemma Split_tokens:
  assumes "token t" and "token u" and "token v"
  shows "AString_Split CHR '' '' (t @ '' '' @ u @ '' '' @ v) = [t, u, v]"
    "token w \<Longrightarrow> AString_Split CHR '' '' (t @ '' '' @ u @ '' '' @ v @ '' '' @ w) = [t, u, v, w]"
  using assms by (simp_all add: AString_Split_def split_at_token split_at_last token_no_space Trim_token flip: token_def)

lemma token_texts:
  "token ''''" "token ''qos''" "token ''none''" "token ''send''" "token ''recv''" "token ''sendrecv''"
  "token ''e2e''" "token ''local''" "token ''remote''"
  "token ''mandatory''" "token ''optional''" "token ''failure''" "token ''unknown''"
  by code_simp+

lemma token_tags:
  "token (STR_DIRECTION_TAG d)" "token (STR_STATUS_TYPE st)" "token (STR_STRENGTH_TAG str)"
proof -
  show "token (STR_DIRECTION_TAG d)" by (cases d) (simp_all add: token_texts)
  show "token (STR_STATUS_TYPE st)" by (cases st) (simp_all add: token_texts)
  show "token (STR_STRENGTH_TAG str)" by (cases str) (simp_all add: token_texts)
qed

lemmas tokens = token_texts(2) token_tags

lemma tags_read:
  "strength_of ''mandatory'' = Some STRENGTH_MANDATORY" "strength_of ''optional'' = Some STRENGTH_OPTIONAL"
  "strength_of ''none'' = Some STRENGTH_NONE" "strength_of ''failure'' = Some STRENGTH_FAILURE"
  "strength_of ''unknown'' = Some STRENGTH_UNKNOWN"
  "status_of ''e2e'' = Some STATUS_E2E" "status_of ''local'' = Some STATUS_LOCAL" "status_of ''remote'' = Some STATUS_REMOTE"
  "direction_of ''none'' = Some DIRECTION_NONE" "direction_of ''send'' = Some DIRECTION_SEND"
  "direction_of ''recv'' = Some DIRECTION_RECV" "direction_of ''sendrecv'' = Some DIRECTION_SENDRECV"
  by code_simp+

lemma strength_of_tag: "str \<noteq> STRENGTH_NOTUSED \<Longrightarrow> strength_of (STR_STRENGTH_TAG str) = Some str"
  by (cases str) (simp_all add: tags_read)

lemma status_of_tag: "st \<noteq> STATUS_INVALID \<Longrightarrow> status_of (STR_STATUS_TYPE st) = Some st"
  by (cases st) (simp_all add: tags_read)

lemma direction_of_tag: "d \<noteq> DIRECTION_INVALID \<Longrightarrow> direction_of (STR_DIRECTION_TAG d) = Some d"
  by (cases d) (simp_all add: tags_read)

text \<open>A status that can be written, and the line that is written for it.\<close>

definition writable :: "DetailInfo \<Rightarrow> bool" where
  "writable i = (di_status i \<noteq> STATUS_INVALID \<and> di_direction i \<noteq> DIRECTION_INVALID)"

definition status_line :: "DetailInfo \<Rightarrow> string" where
  "status_line i = ''qos '' @ DetailInfo_ToString i"

definition subtype_of :: "status_type \<Rightarrow> precondition_subtype" where
  "subtype_of st = (if st = STATUS_E2E then SUBTYPE_E2E else SUBTYPE_SEGMENTED)"

lemma extract_written:
  assumes "writable i"
  shows "ExtractProperties (status_line i) (ty, sub, j) =
    (True, TYPE_QOS, subtype_of (di_status i),
      i\<lparr>di_strength := (if di_strength i = STRENGTH_NOTUSED then di_strength j else di_strength i)\<rparr>)"
proof -
  let ?d = "STR_DIRECTION_TAG (di_direction i)" and ?s = "STR_STATUS_TYPE (di_status i)"
  have q: "equals ''qos'' ''qos''" by code_simp
  have e: "extract_status ?s ?d (TYPE_QOS, sub, k) =
      (True, TYPE_QOS, subtype_of (di_status i), k\<lparr>di_status := di_status i, di_direction := di_direction i\<rparr>)" for k
    using assms by (simp add: extract_status_def status_of_tag direction_of_tag writable_def subtype_of_def Let_def)
  show ?thesis
  proof (cases "di_strength i = STRENGTH_NOTUSED")
    case True
    then have l: "status_line i = ''qos'' @ '' '' @ ?s @ '' '' @ ?d"
      using assms by (simp add: status_line_def DetailInfo_ToString_def writable_def)
    have "AString_Split CHR '' '' (status_line i) = [''qos'', ?s, ?d]"
      unfolding l by (rule Split_tokens(1)) (rule tokens)+
    then show ?thesis
      using True by (simp add: ExtractProperties_def q e) (simp add: l)
  next
    case False
    then have l: "status_line i = ''qos'' @ '' '' @ STR_STRENGTH_TAG (di_strength i) @ '' '' @ ?s @ '' '' @ ?d"
      using assms by (simp add: status_line_def DetailInfo_ToString_def writable_def)
    have "AString_Split CHR '' '' (status_line i) = [''qos'', STR_STRENGTH_TAG (di_strength i), ?s, ?d]"
      unfolding l by (rule Split_tokens(2)) (rule tokens)+
    then show ?thesis
      using False by (simp add: ExtractProperties_def q e strength_of_tag) (simp add: l)
  qed
qed

text \<open>
  What a precondition attribute holds: statuses of its kind that can be written, and all of them with a
  strength (\<open>des\<close>) or none (\<open>curr\<close> and \<open>conf\<close>).
\<close>

fun details :: "SdpPrecondition \<Rightarrow> DetailInfo list" where
  "details (SdpE2EPrecondition ds) = ds"
| "details (SdpSegmentedPrecondition ls rs) = ls @ rs"

fun well_kinded :: "SdpPrecondition \<Rightarrow> bool" where
  "well_kinded (SdpE2EPrecondition ds) = list_all (\<lambda>i. di_status i = STATUS_E2E) ds"
| "well_kinded (SdpSegmentedPrecondition ls rs) =
     (list_all (\<lambda>i. di_status i = STATUS_LOCAL) ls \<and> list_all (\<lambda>i. di_status i = STATUS_REMOTE) rs)"

definition well_formed :: "precondition_attribute \<Rightarrow> SdpPrecondition \<Rightarrow> bool" where
  "well_formed nAttribute p =
     (details p \<noteq> [] \<and> well_kinded p \<and> list_all writable (details p)
      \<and> list_all (\<lambda>i. (di_strength i \<noteq> STRENGTH_NOTUSED) = (nAttribute = DES)) (details p))"

definition added :: "SdpPrecondition \<Rightarrow> DetailInfo \<Rightarrow> SdpPrecondition" where
  "added p i = snd (AddStatus (di_status i) (di_direction i) (di_strength i) p)"

fun suits :: "SdpPrecondition \<Rightarrow> DetailInfo \<Rightarrow> bool" where
  "suits (SdpE2EPrecondition ds) i = (di_status i = STATUS_E2E)"
| "suits (SdpSegmentedPrecondition ls rs) i = (di_status i \<in> {STATUS_LOCAL, STATUS_REMOTE})"

lemma suits_added: "suits p i \<Longrightarrow> suits (added p i) = suits p"
  by (cases p) (auto simp: added_def fun_eq_iff)

lemma AddStatus_suits: "suits p i \<Longrightarrow> AddStatus (di_status i) (di_direction i) (di_strength i) p = (True, added p i)"
  by (cases p) (auto simp: added_def)

definition uniform :: "bool \<Rightarrow> DetailInfo \<Rightarrow> bool" where
  "uniform des i = (writable i \<and> (di_strength i \<noteq> STRENGTH_NOTUSED) = des)"

lemma extract_uniform:
  "uniform des i \<Longrightarrow> des \<or> di_strength j = STRENGTH_NOTUSED \<Longrightarrow>
    ExtractProperties (status_line i) (ty, sub, j) = (True, TYPE_QOS, subtype_of (di_status i), i)"
  using extract_written [of i ty sub j] by (cases "di_strength i = STRENGTH_NOTUSED") (auto simp: uniform_def)

lemma loop_written:
  assumes "list_all (uniform des) is" and "list_all (suits p) is" and "des \<or> di_strength j = STRENGTH_NOTUSED"
  shows "CreatePrecondition_loop (map status_line is) (ty, sub, j) (Some p) as =
    (Some (foldl added p is), as @ map status_line is)"
  using assms
proof (induction "is" arbitrary: ty sub j p as)
  case (Cons i "is")
  then have "des \<or> di_strength i = STRENGTH_NOTUSED" by (auto simp: uniform_def)
  then show ?case
    using Cons.IH [of "added p i" i] Cons.prems
    by (simp add: extract_uniform [of des] AddStatus_suits suits_added)
qed simp

lemma foldl_added_E2E:
  "list_all (\<lambda>i. di_status i = STATUS_E2E) is \<Longrightarrow>
    foldl added (SdpE2EPrecondition ds) is = SdpE2EPrecondition (ds @ is)"
  by (induction "is" arbitrary: ds) (simp_all add: added_def)

lemma foldl_added_local:
  "list_all (\<lambda>i. di_status i = STATUS_LOCAL) ls \<Longrightarrow>
    foldl added (SdpSegmentedPrecondition xs ys) ls = SdpSegmentedPrecondition (xs @ ls) ys"
  by (induction ls arbitrary: xs) (simp_all add: added_def)

lemma foldl_added_remote:
  "list_all (\<lambda>i. di_status i = STATUS_REMOTE) rs \<Longrightarrow>
    foldl added (SdpSegmentedPrecondition xs ys) rs = SdpSegmentedPrecondition xs (ys @ rs)"
  by (induction rs arbitrary: ys) (simp_all add: added_def)

fun empty_of :: "SdpPrecondition \<Rightarrow> SdpPrecondition" where
  "empty_of (SdpE2EPrecondition ds) = SdpE2EPrecondition []"
| "empty_of (SdpSegmentedPrecondition ls rs) = SdpSegmentedPrecondition [] []"

lemma foldl_added_details: "well_kinded p \<Longrightarrow> foldl added (empty_of p) (details p) = p"
  by (cases p) (simp_all add: foldl_added_E2E foldl_added_local foldl_added_remote)

lemma well_kinded_suits: "well_kinded p \<Longrightarrow> list_all (suits (empty_of p)) (details p)"
  by (cases p) (auto simp: list_all_iff)

lemma CreatePrecondition_written:
  assumes "well_formed nAttribute p"
  shows "CreatePrecondition (map status_line (details p)) = (Some p, map status_line (details p))"
proof -
  have k: "well_kinded p" and u: "list_all (uniform (nAttribute = DES)) (details p)"
    using assms by (auto simp: well_formed_def uniform_def list_all_iff)
  obtain i "is" where d: "details p = i # is" using assms by (cases "details p") (auto simp: well_formed_def)
  have si: "suits (empty_of p) i" using well_kinded_suits [OF k] d by simp
  have q: "(if subtype_of (di_status i) = SUBTYPE_E2E then SdpE2EPrecondition [] else SdpSegmentedPrecondition [] []) = empty_of p"
    using si by (cases p) (auto simp: subtype_of_def)
  have x: "ExtractProperties (status_line i) (PRECONDITION_TYPE_INVALID, SUBTYPE_E2E, DetailInfo_new) =
      (True, TYPE_QOS, subtype_of (di_status i), i)"
    using extract_uniform [of "nAttribute = DES" i DetailInfo_new] u d by (simp add: DetailInfo_new_def)
  have "list_all (suits (added (empty_of p) i)) is"
    using well_kinded_suits [OF k] d si by (simp add: suits_added)
  then have l: "CreatePrecondition_loop (map status_line is) (TYPE_QOS, subtype_of (di_status i), i)
      (Some (added (empty_of p) i)) [status_line i] = (Some (foldl added (added (empty_of p) i) is), status_line i # map status_line is)"
    using loop_written [of "nAttribute = DES" "is" "added (empty_of p) i" i] u d by (auto simp: uniform_def)
  have f: "foldl added (added (empty_of p) i) is = p" using foldl_added_details [OF k] d by simp
  have "IsPreconditionPresent p" using d by (cases p) auto
  then show ?thesis
    by (simp add: CreatePrecondition_def d x q AddStatus_suits [OF si] l f Let_def)
qed

text \<open>C25:
  What is written of a precondition, one attribute line for each status, is read back as the same
  precondition, and every line is used.
\<close>

theorem precondition_round_trip:
  assumes "well_formed nAttribute p"
  shows "Precondition_ToSdp nAttribute p = concat (map (\<lambda>v. (case nAttribute of CURR \<Rightarrow> ''a=curr:'' | DES \<Rightarrow> ''a=des:''
      | CONF \<Rightarrow> ''a=conf:'') @ v @ [CHR 0x0D, CHR 0x0A]) (map status_line (details p)))
    \<and> CreatePrecondition (map status_line (details p)) = (Some p, map status_line (details p))"
proof (intro conjI)
  have "status_lines nAttribute is = concat (map (\<lambda>v. (case nAttribute of CURR \<Rightarrow> ''a=curr:'' | DES \<Rightarrow> ''a=des:''
      | CONF \<Rightarrow> ''a=conf:'') @ v @ [CHR 0x0D, CHR 0x0A]) (map status_line is))" for "is"
    by (induction "is") (simp_all add: status_lines_def SdpPrecondition_ToSdp_def status_line_def split: precondition_attribute.split)
  then show "Precondition_ToSdp nAttribute p = concat (map (\<lambda>v. (case nAttribute of CURR \<Rightarrow> ''a=curr:'' | DES \<Rightarrow> ''a=des:''
      | CONF \<Rightarrow> ''a=conf:'') @ v @ [CHR 0x0D, CHR 0x0A]) (map status_line (details p)))"
    by (cases p) simp_all
qed (rule CreatePrecondition_written [OF assms])

theorem precondition_round_trip_witness:
  "CreatePrecondition [''qos mandatory local send'', ''qos optional remote sendrecv''] =
    (Some (SdpSegmentedPrecondition
      [\<lparr>di_status = STATUS_LOCAL, di_direction = DIRECTION_SEND, di_strength = STRENGTH_MANDATORY\<rparr>]
      [\<lparr>di_status = STATUS_REMOTE, di_direction = DIRECTION_SENDRECV, di_strength = STRENGTH_OPTIONAL\<rparr>]),
     [''qos mandatory local send'', ''qos optional remote sendrecv''])"
  using precondition_round_trip [of DES "SdpSegmentedPrecondition
      [\<lparr>di_status = STATUS_LOCAL, di_direction = DIRECTION_SEND, di_strength = STRENGTH_MANDATORY\<rparr>]
      [\<lparr>di_status = STATUS_REMOTE, di_direction = DIRECTION_SENDRECV, di_strength = STRENGTH_OPTIONAL\<rparr>]"]
  by (simp add: well_formed_def writable_def status_line_def DetailInfo_ToString_def)

text \<open>A status without a strength takes that of the line before it: \<open>CreatePrecondition\<close> does not reset it.\<close>

lemma strength_of_line_before:
  "CreatePrecondition [''qos mandatory local sendrecv'', ''qos remote none''] =
    (Some (SdpSegmentedPrecondition
      [\<lparr>di_status = STATUS_LOCAL, di_direction = DIRECTION_SENDRECV, di_strength = STRENGTH_MANDATORY\<rparr>]
      [\<lparr>di_status = STATUS_REMOTE, di_direction = DIRECTION_NONE, di_strength = STRENGTH_MANDATORY\<rparr>]),
     [''qos mandatory local sendrecv'', ''qos remote none''])"
  by code_simp

end
