(* ===== verification/QosStatusTable.thy ===== *)
theory QosStatusTable
  imports Precondition
begin

text \<open>
  The table of preconditions of a session (\<open>enabler/mtc/precondition/QosStatusTable.cpp\<close>): for each medium the current
  and the desired status of the own (\<open>local\<close>) and of the other (\<open>remote\<close>) access network. The records that the C++ holds
  by pointer are elements of a list; what is done through the first pointer of a search is done to the first
  element that matches. A medium (\<open>engine/core/media\<close>) is what the precondition code reads of it: its descriptor, and
  when it is being modified the descriptor of its proposal.
\<close>

section \<open>Media\<close>

text \<open>
  The own and the other side's line, the preconditions that the other side sent, those of the own next
  description, and whether the state of the medium admits to change them.
\<close>

record IMediaDescriptor =
  md_local :: "SdpMedia option"
  md_remote :: "SdpMedia option"
  md_peer :: "precondition_attribute \<Rightarrow> SdpPrecondition option"
  md_proposal :: "precondition_attribute \<Rightarrow> SdpPrecondition option"
  md_changeable :: bool

definition MediaDescriptor_GetPrecondition :: "precondition_attribute \<Rightarrow> IMediaDescriptor \<Rightarrow> SdpPrecondition option" where
  "MediaDescriptor_GetPrecondition nAttribute d = md_peer d nAttribute"

definition MediaDescriptor_RemovePrecondition :: "precondition_attribute \<Rightarrow> IMediaDescriptor \<Rightarrow> IMediaDescriptor" where
  "MediaDescriptor_RemovePrecondition nAttribute d =
     (if md_changeable d then d\<lparr>md_proposal := (md_proposal d)(nAttribute := None)\<rparr> else d)"

definition MediaDescriptor_SetPrecondition :: "precondition_attribute \<Rightarrow> SdpPrecondition \<Rightarrow> IMediaDescriptor
    \<Rightarrow> IMediaDescriptor" where
  "MediaDescriptor_SetPrecondition nAttribute p d =
     (if md_changeable d then d\<lparr>md_proposal := (md_proposal d)(nAttribute := Some p)\<rparr> else d)"

datatype media_state = MEDIA_INACTIVE | MEDIA_PENDING | MEDIA_ACTIVE | MEDIA_DELETED | MEDIA_PROPOSAL

record IMedia =
  im_state :: media_state
  im_modified :: bool
  im_proposal :: "IMediaDescriptor option"
  im_descriptor :: "IMediaDescriptor option"

text \<open>A medium that is modified has a proposal.\<close>

definition GetMediaDescriptor :: "IMedia \<Rightarrow> IMediaDescriptor option" where
  "GetMediaDescriptor m = (if im_modified m then im_proposal m else im_descriptor m)"

section \<open>The table\<close>

record QosStatusRecord =
  eSdpMediaType :: sdp_media_type
  eAttrType :: precondition_attribute
  eStatusType :: status_type
  eDirTag :: direction_tag
  eStrengthTag :: strength_tag
  bDesiredCheck :: bool
  bLocalResourceConfirmed :: bool

definition QosStatusRecord_new :: "sdp_media_type \<Rightarrow> precondition_attribute \<Rightarrow> status_type \<Rightarrow> direction_tag
    \<Rightarrow> strength_tag \<Rightarrow> QosStatusRecord" where
  "QosStatusRecord_new m a st d str =
     \<lparr> eSdpMediaType = m, eAttrType = a, eStatusType = st, eDirTag = d, eStrengthTag = str,
       bDesiredCheck = False, bLocalResourceConfirmed = False \<rparr>"

record QosStatusTable =
  m_lstAudioRecords :: "QosStatusRecord list"
  m_lstVideoRecords :: "QosStatusRecord list"
  m_lstTextRecords :: "QosStatusRecord list"

definition QosStatusTable_new :: QosStatusTable where
  "QosStatusTable_new = \<lparr> m_lstAudioRecords = [], m_lstVideoRecords = [], m_lstTextRecords = [] \<rparr>"

definition GetRecords :: "sdp_media_type \<Rightarrow> QosStatusTable \<Rightarrow> QosStatusRecord list" where
  "GetRecords m t =
     (case m of TYPE_AUDIO \<Rightarrow> m_lstAudioRecords t | TYPE_VIDEO \<Rightarrow> m_lstVideoRecords t
      | TYPE_TEXT \<Rightarrow> m_lstTextRecords t | _ \<Rightarrow> [])"

text \<open>What a caller does with the list that \<open>GetRecordsRef\<close> gives it: nothing for other media.\<close>

definition map_records :: "sdp_media_type \<Rightarrow> (QosStatusRecord list \<Rightarrow> QosStatusRecord list) \<Rightarrow> QosStatusTable
    \<Rightarrow> QosStatusTable" where
  "map_records m f t =
     (case m of TYPE_AUDIO \<Rightarrow> t\<lparr>m_lstAudioRecords := f (m_lstAudioRecords t)\<rparr>
      | TYPE_VIDEO \<Rightarrow> t\<lparr>m_lstVideoRecords := f (m_lstVideoRecords t)\<rparr>
      | TYPE_TEXT \<Rightarrow> t\<lparr>m_lstTextRecords := f (m_lstTextRecords t)\<rparr> | _ \<Rightarrow> t)"

definition ClearRecords :: "sdp_media_type \<Rightarrow> QosStatusTable \<Rightarrow> QosStatusTable" where
  "ClearRecords m = map_records m (\<lambda>_. [])"

definition initial_records :: "sdp_media_type \<Rightarrow> QosStatusRecord list" where
  "initial_records m =
     [QosStatusRecord_new m CURR STATUS_LOCAL DIRECTION_NONE STRENGTH_NOTUSED,
      QosStatusRecord_new m CURR STATUS_REMOTE DIRECTION_NONE STRENGTH_NOTUSED,
      QosStatusRecord_new m DES STATUS_LOCAL DIRECTION_SEND STRENGTH_MANDATORY,
      QosStatusRecord_new m DES STATUS_LOCAL DIRECTION_RECV STRENGTH_MANDATORY,
      QosStatusRecord_new m DES STATUS_REMOTE DIRECTION_SEND STRENGTH_OPTIONAL,
      QosStatusRecord_new m DES STATUS_REMOTE DIRECTION_RECV STRENGTH_OPTIONAL,
      QosStatusRecord_new m CONF STATUS_REMOTE DIRECTION_SENDRECV STRENGTH_NOTUSED]"

definition InitializeRecords :: "sdp_media_type \<Rightarrow> QosStatusTable \<Rightarrow> QosStatusTable" where
  "InitializeRecords m t = map_records m (\<lambda>rs. rs @ initial_records m) (ClearRecords m t)"

abbreviation (input) "MEDIATYPE_NONE \<equiv> (0 :: 32 word)"
abbreviation (input) "MEDIATYPE_AUDIO \<equiv> (1 :: 32 word)"
abbreviation (input) "MEDIATYPE_VIDEO \<equiv> (2 :: 32 word)"
abbreviation (input) "MEDIATYPE_TEXT \<equiv> (4 :: 32 word)"

unbundle bit_operations_syntax

definition RemoveUnusedRecords :: "32 word \<Rightarrow> QosStatusTable \<Rightarrow> QosStatusTable" where
  "RemoveUnusedRecords eMediaTypes t =
     (let t = (if eMediaTypes AND MEDIATYPE_AUDIO = 0 then ClearRecords TYPE_AUDIO t else t);
          t = (if eMediaTypes AND MEDIATYPE_VIDEO = 0 then ClearRecords TYPE_VIDEO t else t)
      in if eMediaTypes AND MEDIATYPE_TEXT = 0 then ClearRecords TYPE_TEXT t else t)"

definition matches :: "precondition_attribute \<Rightarrow> status_type \<Rightarrow> direction_tag \<Rightarrow> QosStatusRecord \<Rightarrow> bool" where
  "matches a st d r =
     (eAttrType r = a \<and> eStatusType r = st \<and> (eDirTag r = d \<or> d = DIRECTION_INVALID))"

definition FindRecords :: "sdp_media_type \<Rightarrow> precondition_attribute \<Rightarrow> status_type \<Rightarrow> direction_tag
    \<Rightarrow> QosStatusTable \<Rightarrow> QosStatusRecord list" where
  "FindRecords m a st d t = filter (matches a st d) (GetRecords m t)"

fun change_first :: "('a \<Rightarrow> bool) \<Rightarrow> ('a \<Rightarrow> 'a) \<Rightarrow> 'a list \<Rightarrow> 'a list" where
  "change_first P f [] = []"
| "change_first P f (x # xs) = (if P x then f x # xs else x # change_first P f xs)"

definition found_directions :: "QosStatusRecord \<Rightarrow> bool \<times> bool \<Rightarrow> bool \<times> bool" where
  "found_directions r found =
     (case found of (bSendFound, bRecvFound) \<Rightarrow>
        if eAttrType r = DES \<and> STRENGTH_NONE \<le> eStrengthTag r then (bSendFound, bRecvFound)
        else if eDirTag r = DIRECTION_SENDRECV then (True, True)
        else if eDirTag r = DIRECTION_SEND then (True, bRecvFound)
        else if eDirTag r = DIRECTION_RECV then (bSendFound, True)
        else (bSendFound, bRecvFound))"

definition GetDirectionTag :: "sdp_media_type \<Rightarrow> precondition_attribute \<Rightarrow> status_type \<Rightarrow> QosStatusTable
    \<Rightarrow> direction_tag" where
  "GetDirectionTag m a st t =
     (let rs = FindRecords m a st DIRECTION_INVALID t
      in if rs = [] then DIRECTION_INVALID
         else (case fold found_directions rs (False, False) of
                 (bSendFound, bRecvFound) \<Rightarrow>
                   if bSendFound \<and> bRecvFound then DIRECTION_SENDRECV
                   else if bSendFound then DIRECTION_SEND
                   else if bRecvFound then DIRECTION_RECV
                   else DIRECTION_NONE))"

definition SetDirectionTag :: "sdp_media_type \<Rightarrow> precondition_attribute \<Rightarrow> status_type \<Rightarrow> direction_tag
    \<Rightarrow> QosStatusTable \<Rightarrow> QosStatusTable" where
  "SetDirectionTag m a st d = map_records m (change_first (matches a st DIRECTION_INVALID) (eDirTag_update (\<lambda>_. d)))"

definition GetStrengthTag :: "sdp_media_type \<Rightarrow> status_type \<Rightarrow> direction_tag \<Rightarrow> QosStatusTable \<Rightarrow> strength_tag" where
  "GetStrengthTag m st d t =
     (case FindRecords m DES st d t of [] \<Rightarrow> STRENGTH_NOTUSED | r # _ \<Rightarrow> eStrengthTag r)"

definition set_strength :: "strength_tag \<Rightarrow> QosStatusRecord \<Rightarrow> QosStatusRecord" where
  "set_strength s r =
     (let r = (if s = STRENGTH_NOTUSED \<or> s < eStrengthTag r then r\<lparr>eStrengthTag := s\<rparr> else r)
      in r\<lparr>bDesiredCheck := True\<rparr>)"

definition SetStrengthTag :: "sdp_media_type \<Rightarrow> status_type \<Rightarrow> direction_tag \<Rightarrow> strength_tag \<Rightarrow> QosStatusTable
    \<Rightarrow> QosStatusTable" where
  "SetStrengthTag m st d s = map_records m (change_first (matches DES st d) (set_strength s))"

definition IsLocalResourceConfirmed :: "sdp_media_type \<Rightarrow> QosStatusTable \<Rightarrow> bool" where
  "IsLocalResourceConfirmed m t =
     (case FindRecords m CURR STATUS_LOCAL DIRECTION_INVALID t of [] \<Rightarrow> False | r # _ \<Rightarrow> bLocalResourceConfirmed r)"

definition SetLocalResourceConfirmed :: "sdp_media_type \<Rightarrow> bool \<Rightarrow> QosStatusTable \<Rightarrow> QosStatusTable" where
  "SetLocalResourceConfirmed m bConfirmed =
     map_records m (change_first (matches CURR STATUS_LOCAL DIRECTION_INVALID)
       (bLocalResourceConfirmed_update (\<lambda>_. bConfirmed)))"

definition InitializeDesChecked :: "sdp_media_type \<Rightarrow> QosStatusTable \<Rightarrow> QosStatusTable" where
  "InitializeDesChecked m =
     map_records m (map (\<lambda>r. if eAttrType r = DES then r\<lparr>bDesiredCheck := False\<rparr> else r))"

definition IsCurrentStatusEnabled :: "sdp_media_type \<Rightarrow> status_type \<Rightarrow> QosStatusTable \<Rightarrow> bool" where
  "IsCurrentStatusEnabled m st t =
     (let eCurrDir = GetDirectionTag m CURR st t; eDesDir = GetDirectionTag m DES st t
      in eCurrDir \<noteq> DIRECTION_NONE \<and> eDesDir \<le> eCurrDir)"

definition UpdateLocalCurrentStatus :: "sdp_media_type \<Rightarrow> bool \<Rightarrow> QosStatusTable \<Rightarrow> QosStatusTable" where
  "UpdateLocalCurrentStatus m bLocalQosEnabled t =
     (if bLocalQosEnabled = IsCurrentStatusEnabled m STATUS_LOCAL t then t
      else SetDirectionTag m CURR STATUS_LOCAL
        (if bLocalQosEnabled then GetDirectionTag m DES STATUS_LOCAL t else DIRECTION_NONE) t)"

definition EnableRemoteCurrentStatus :: "sdp_media_type \<Rightarrow> QosStatusTable \<Rightarrow> QosStatusTable" where
  "EnableRemoteCurrentStatus m t =
     (if DIRECTION_NONE < GetDirectionTag m CURR STATUS_REMOTE t then t
      else SetDirectionTag m CURR STATUS_REMOTE (GetDirectionTag m DES STATUS_REMOTE t) t)"

section \<open>What the other side sent\<close>

definition UpdateCurrentStatus :: "IMediaDescriptor \<Rightarrow> sdp_media_type \<Rightarrow> QosStatusTable \<Rightarrow> QosStatusTable" where
  "UpdateCurrentStatus d m t =
     (case MediaDescriptor_GetPrecondition CURR d of
        Some (SdpSegmentedPrecondition ls rs) \<Rightarrow>
          (let eRemoteCurrDir = GetDirectionTag m CURR STATUS_REMOTE t
           in fold (\<lambda>i t. if eRemoteCurrDir \<noteq> DIRECTION_NONE \<and> di_direction i = DIRECTION_NONE then t
                          else SetDirectionTag m CURR STATUS_REMOTE (di_direction i) t) ls t)
      | _ \<Rightarrow> t)"

definition set_desired :: "sdp_media_type \<Rightarrow> status_type \<Rightarrow> DetailInfo \<Rightarrow> QosStatusTable \<Rightarrow> QosStatusTable" where
  "set_desired m st i t =
     (if di_direction i = DIRECTION_SENDRECV
      then SetStrengthTag m st DIRECTION_RECV (di_strength i) (SetStrengthTag m st DIRECTION_SEND (di_strength i) t)
      else SetStrengthTag m st (di_direction i) (di_strength i) t)"

definition drop_unchecked :: "sdp_media_type \<Rightarrow> nat \<Rightarrow> QosStatusTable \<Rightarrow> QosStatusTable" where
  "drop_unchecked m k t =
     (let r = GetRecords m t ! k
      in if eAttrType r = DES \<and> \<not> bDesiredCheck r
         then SetStrengthTag (eSdpMediaType r) (eStatusType r) (eDirTag r) STRENGTH_NOTUSED t else t)"

definition UpdateDesiredStatus :: "IMediaDescriptor \<Rightarrow> sdp_media_type \<Rightarrow> QosStatusTable \<Rightarrow> QosStatusTable" where
  "UpdateDesiredStatus d m t =
     (case MediaDescriptor_GetPrecondition DES d of
        Some (SdpSegmentedPrecondition ls rs) \<Rightarrow>
          (let t = fold (set_desired m STATUS_LOCAL) rs t;
               t = fold (set_desired m STATUS_REMOTE) ls t
           in fold (drop_unchecked m) [0..<length (GetRecords m t)] t)
      | _ \<Rightarrow> t)"

definition UpdateStatusTableWithRemoteSdp :: "IMedia \<Rightarrow> QosStatusTable \<Rightarrow> QosStatusTable" where
  "UpdateStatusTableWithRemoteSdp objMedia t =
     (case GetMediaDescriptor objMedia of
        None \<Rightarrow> t
      | Some d \<Rightarrow>
          (case md_remote d of
             None \<Rightarrow> t
           | Some pRemoteSdp \<Rightarrow>
               if m_nPort pRemoteSdp \<le> 0 then t
               else (let m = m_nMediaType pRemoteSdp
                     in UpdateDesiredStatus d m (UpdateCurrentStatus d m (InitializeDesChecked m t)))))"

end
