(* ===== verification/PreconditionSdp.thy ===== *)
theory PreconditionSdp
  imports QosStatusTable SdpMediaParam
begin

text \<open>
  How the preconditions of a session's media get into its descriptions
  (\<open>enabler/mtc/precondition/SdpPreconditionHelper.cpp\<close>). The functions that change a descriptor and the table
  return both. The text of a session description that was sent is given parsed: each medium with
  the values of its \<open>curr\<close> attributes, or nothing when it cannot be parsed.
\<close>

datatype session_state =
  SESSION_CREATED | SESSION_INITIATED | SESSION_NEGOTIATING | SESSION_ESTABLISHING | SESSION_ESTABLISHED
  | SESSION_RENEGOTIATING | SESSION_REESTABLISHING | SESSION_TERMINATING | SESSION_TERMINATED

text \<open>
  A session as the precondition code sees it: its state, its media, whether it is forked, whether its media are
  negotiated, and whether it has answered an update.
\<close>

record ISession =
  is_state :: session_state
  is_media :: "IMedia list"
  is_forked :: bool
  is_negotiated :: bool
  is_update_answered :: bool

definition helper_descriptor :: "IMedia \<Rightarrow> IMediaDescriptor option" where
  "helper_descriptor m = (if im_modified m \<and> im_proposal m \<noteq> None then im_proposal m else im_descriptor m)"

definition put_descriptor :: "IMediaDescriptor \<Rightarrow> IMedia \<Rightarrow> IMedia" where
  "put_descriptor d m =
     (if im_modified m \<and> im_proposal m \<noteq> None then m\<lparr>im_proposal := Some d\<rparr> else m\<lparr>im_descriptor := Some d\<rparr>)"

definition IsPreconditionIncluded :: "IMediaDescriptor \<Rightarrow> bool" where
  "IsPreconditionIncluded d = (MediaDescriptor_GetPrecondition CURR d \<noteq> None)"

definition HasMatchingRemoteMediaType :: "IMediaDescriptor \<Rightarrow> sdp_media_type \<Rightarrow> bool" where
  "HasMatchingRemoteMediaType d m =
     (case md_remote d of None \<Rightarrow> False | Some pRemoteSdp \<Rightarrow> m = m_nMediaType pRemoteSdp)"

definition GetSdpMediaType :: "32 word \<Rightarrow> sdp_media_type" where
  "GetSdpMediaType eMediaType =
     (if eMediaType = MEDIATYPE_AUDIO then TYPE_AUDIO else if eMediaType = MEDIATYPE_VIDEO then TYPE_VIDEO
      else if eMediaType = MEDIATYPE_TEXT then TYPE_TEXT else TYPE_INVALID)"

definition IsPreconditionIncludedInSdp :: "ISession option \<Rightarrow> 32 word \<Rightarrow> bool" where
  "IsPreconditionIncludedInSdp piSession eMediaType =
     (case piSession of
        None \<Rightarrow> False
      | Some s \<Rightarrow>
          list_ex (\<lambda>m. im_state m \<noteq> MEDIA_DELETED
            \<and> (case helper_descriptor m of
                 None \<Rightarrow> False
               | Some d \<Rightarrow>
                   (eMediaType = MEDIATYPE_NONE \<or> HasMatchingRemoteMediaType d (GetSdpMediaType eMediaType))
                   \<and> IsPreconditionIncluded d)) (is_media s))"

definition helper_GetMediaType :: "SdpMedia option \<Rightarrow> media_state \<Rightarrow> 32 word" where
  "helper_GetMediaType pSdpMedia nMediaState =
     (case pSdpMedia of
        None \<Rightarrow> MEDIATYPE_NONE
      | Some q \<Rightarrow>
          if m_nPort q = 0 then MEDIATYPE_NONE
          else if m_nMediaType q = TYPE_AUDIO then MEDIATYPE_AUDIO
          else if nMediaState \<noteq> MEDIA_DELETED
          then (if m_nMediaType q = TYPE_VIDEO then MEDIATYPE_VIDEO
                else if m_nMediaType q = TYPE_TEXT then MEDIATYPE_TEXT else MEDIATYPE_NONE)
          else MEDIATYPE_NONE)"

section \<open>Forming the attributes\<close>

definition segmented_add :: "status_type \<Rightarrow> direction_tag \<Rightarrow> strength_tag \<Rightarrow> SdpPrecondition \<Rightarrow> SdpPrecondition" where
  "segmented_add st d s p = snd (AddStatus st d s p)"

definition FormCurrentAttribute :: "IMediaDescriptor \<Rightarrow> QosStatusTable \<Rightarrow> IMediaDescriptor \<times> QosStatusTable" where
  "FormCurrentAttribute d t =
     (case md_local d of
        None \<Rightarrow> (d, t)
      | Some pLocalSdp \<Rightarrow>
          (let m = m_nMediaType pLocalSdp; eDirTag = GetDirectionTag m CURR STATUS_LOCAL t
           in if eDirTag = DIRECTION_INVALID then (d, t)
              else (let p = segmented_add STATUS_LOCAL eDirTag STRENGTH_NOTUSED (SdpSegmentedPrecondition [] []);
                        t = SetLocalResourceConfirmed m (IsCurrentStatusEnabled m STATUS_LOCAL t) t;
                        p = segmented_add STATUS_REMOTE (GetDirectionTag m CURR STATUS_REMOTE t) STRENGTH_NOTUSED p
                    in (MediaDescriptor_SetPrecondition CURR p d, t))))"

definition AddDesiredStatus :: "sdp_media_type \<Rightarrow> status_type \<Rightarrow> QosStatusTable \<Rightarrow> SdpPrecondition \<Rightarrow> SdpPrecondition" where
  "AddDesiredStatus m st t p =
     (let eSendStrength = GetStrengthTag m st DIRECTION_SEND t; eRecvStrength = GetStrengthTag m st DIRECTION_RECV t
      in if eSendStrength \<noteq> STRENGTH_NOTUSED \<and> eSendStrength = eRecvStrength
         then segmented_add st DIRECTION_SENDRECV eSendStrength p
         else (let p = (if eSendStrength \<noteq> STRENGTH_NOTUSED then segmented_add st DIRECTION_SEND eSendStrength p else p)
               in if eRecvStrength \<noteq> STRENGTH_NOTUSED then segmented_add st DIRECTION_RECV eRecvStrength p else p))"

definition FormDesiredAttribute :: "IMediaDescriptor \<Rightarrow> QosStatusTable \<Rightarrow> IMediaDescriptor" where
  "FormDesiredAttribute d t =
     (case md_local d of
        None \<Rightarrow> d
      | Some pLocalSdp \<Rightarrow>
          (let m = m_nMediaType pLocalSdp;
               p = AddDesiredStatus m STATUS_REMOTE t (AddDesiredStatus m STATUS_LOCAL t (SdpSegmentedPrecondition [] []))
           in if IsPreconditionPresent p then MediaDescriptor_SetPrecondition DES p d else d))"

definition FormConfirmAttribute :: "bool \<Rightarrow> IMediaDescriptor \<Rightarrow> QosStatusTable \<Rightarrow> IMediaDescriptor" where
  "FormConfirmAttribute bUseConf d t =
     (if \<not> bUseConf then d
      else (case md_local d of
              None \<Rightarrow> d
            | Some pLocalSdp \<Rightarrow>
                (let m = m_nMediaType pLocalSdp
                 in if IsCurrentStatusEnabled m STATUS_REMOTE t then d
                    else (let eDirTag = GetDirectionTag m CONF STATUS_REMOTE t
                          in if eDirTag = DIRECTION_INVALID then d
                             else MediaDescriptor_SetPrecondition CONF
                               (segmented_add STATUS_REMOTE eDirTag STRENGTH_NOTUSED (SdpSegmentedPrecondition [] [])) d))))"

definition remove_preconditions :: "IMediaDescriptor \<Rightarrow> IMediaDescriptor" where
  "remove_preconditions d =
     MediaDescriptor_RemovePrecondition CONF (MediaDescriptor_RemovePrecondition DES (MediaDescriptor_RemovePrecondition CURR d))"

definition form_descriptor :: "bool \<Rightarrow> IMediaDescriptor \<Rightarrow> QosStatusTable \<Rightarrow> IMediaDescriptor \<times> QosStatusTable" where
  "form_descriptor bUseConf d t =
     (let d = remove_preconditions d
      in if md_local d = None then (d, t)
         else (case FormCurrentAttribute d t of
                 (d, t) \<Rightarrow> (FormConfirmAttribute bUseConf (FormDesiredAttribute d t) t, t)))"

definition form_medium :: "session_state \<Rightarrow> bool \<Rightarrow> IMedia \<Rightarrow> QosStatusTable \<Rightarrow> IMedia \<times> QosStatusTable" where
  "form_medium nState bUseConf m t =
     (if im_state m = MEDIA_DELETED then (m, t)
      else (case helper_descriptor m of
              None \<Rightarrow> (m, t)
            | Some d \<Rightarrow>
                if \<not> (nState = SESSION_ESTABLISHED \<and> im_state m = MEDIA_INACTIVE)
                   \<and> md_remote d \<noteq> None \<and> \<not> IsPreconditionIncluded d then (m, t)
                else (case form_descriptor bUseConf d t of (d, t) \<Rightarrow> (put_descriptor d m, t))))"

fun FormPreconditionSdp_loop :: "session_state \<Rightarrow> bool \<Rightarrow> IMedia list \<Rightarrow> QosStatusTable \<Rightarrow> IMedia list \<times> QosStatusTable" where
  "FormPreconditionSdp_loop nState bUseConf [] t = ([], t)"
| "FormPreconditionSdp_loop nState bUseConf (m # ms) t =
     (case form_medium nState bUseConf m t of
        (m, t) \<Rightarrow> (case FormPreconditionSdp_loop nState bUseConf ms t of (ms, t) \<Rightarrow> (m # ms, t)))"

definition helper_FormPreconditionSdp :: "ISession \<Rightarrow> QosStatusTable \<Rightarrow> bool \<Rightarrow> ISession \<times> QosStatusTable" where
  "helper_FormPreconditionSdp s t bUseConf =
     (case FormPreconditionSdp_loop (is_state s) bUseConf (is_media s) t of (ms, t) \<Rightarrow> (s\<lparr>is_media := ms\<rparr>, t))"

definition RemovePreconditionSdp :: "ISession \<Rightarrow> ISession" where
  "RemovePreconditionSdp s =
     s\<lparr>is_media := map (\<lambda>m. if im_state m = MEDIA_DELETED then m
         else (case helper_descriptor m of None \<Rightarrow> m | Some d \<Rightarrow> put_descriptor (remove_preconditions d) m)) (is_media s)\<rparr>"

text \<open>The description of a failure: a medium of it with its preconditions.\<close>

definition FormFailurePreconditionSdp :: "(SdpMediaParameter \<times> (precondition_attribute \<Rightarrow> SdpPrecondition option)) list
    \<Rightarrow> (SdpMediaParameter \<times> (precondition_attribute \<Rightarrow> SdpPrecondition option)) list" where
  "FormFailurePreconditionSdp params =
     map (\<lambda>(q, _). (MarkRejectedOrRemoved q,
       Map.empty(DES \<mapsto> segmented_add STATUS_LOCAL DIRECTION_SENDRECV STRENGTH_FAILURE (SdpSegmentedPrecondition [] [])))) params"

section \<open>What has been sent\<close>

fun AString_Contains :: "string \<Rightarrow> string \<Rightarrow> bool" where
  "AString_Contains str [] = (str = [])"
| "AString_Contains str (c # cs) = (take (length str) (c # cs) = str \<or> AString_Contains str cs)"

type_synonym sent_sdp = "(SdpMedia \<times> string list) list"

text \<open>The first value that tells the local status; a medium without one is passed over.\<close>

fun reserved_in :: "sdp_media_type \<Rightarrow> sent_sdp \<Rightarrow> bool" where
  "reserved_in m [] = True"
| "reserved_in m ((q, values) # ds) =
     (if m_nMediaType q \<noteq> m then reserved_in m ds
      else if m_nPort q = 0 then False
      else if values = [] then False
      else (case find (AString_Contains ''local'') values of
              Some v \<Rightarrow> \<not> AString_Contains ''none'' v
            | None \<Rightarrow> reserved_in m ds))"

definition HasReservedResourceInSdp :: "sent_sdp option \<Rightarrow> sdp_media_type \<Rightarrow> bool" where
  "HasReservedResourceInSdp piSdp m = (case piSdp of None \<Rightarrow> False | Some ds \<Rightarrow> reserved_in m ds)"

text \<open>A message: whether it was sent, and its session description.\<close>

record IMessage =
  mg_sent :: bool
  mg_sdp :: "sent_sdp option"

definition IsLocalResourceReservedInSdp :: "IMessage option \<Rightarrow> IMessage list \<Rightarrow> bool" where
  "IsLocalResourceReservedInSdp piRequest lstResponses =
     (case piRequest of
        None \<Rightarrow> False
      | Some req \<Rightarrow>
          (case (if mg_sent req then Some req
                 else if filter mg_sent lstResponses = [] then None else Some (last (filter mg_sent lstResponses))) of
             None \<Rightarrow> False
           | Some msg \<Rightarrow>
               HasReservedResourceInSdp (mg_sdp msg) TYPE_AUDIO \<and> HasReservedResourceInSdp (mg_sdp msg) TYPE_VIDEO
               \<and> HasReservedResourceInSdp (mg_sdp msg) TYPE_TEXT))"

end
