(* ===== verification/MtcPrecondition.thy ===== *)
theory MtcPrecondition
  imports PreconditionSdp ImsMap
begin

text \<open>
  The resources of a call (\<open>enabler/mtc/precondition/MtcPreconditionManager.cpp\<close>, \<open>QosTimer.cpp\<close>): for each session
  what the network has reserved for its media, the table of preconditions, and the timers that wait for a
  bearer; when the call may ring, and what happens when a bearer does not come or is lost. Sessions are numbers; the
  call, its configuration and the sessions are a context that the manager reads. What the listener is told is
  listed in order. Every session the manager is asked about is taken to have its information (\<open>CreateQos\<close>); where the C++
  would read through a null pointer otherwise, no timer is active and nothing is done.
\<close>

section \<open>Types\<close>

datatype QosStatus = QOS_IDLE | QOS_AVAILABLE | QOS_LOST
datatype QosLossPolicy = POLICY_MAINTAIN | POLICY_MODIFY | POLICY_RELEASE
datatype QosTimerType =
  WAIT_AUDIO_DEDICATED_BEARER | WAIT_AVAILABLE_AFTER_W2L_HANDOVER | WAIT_VIDEO_TEXT_AVAILABLE | GUARD_AFTER_LOST | FORCE_AVAILABLE
datatype CallType = CALL_UNKNOWN | VOIP | VT | RTT | VIDEO_RTT

fun timer_type_value :: "QosTimerType \<Rightarrow> int" where
  "timer_type_value WAIT_AUDIO_DEDICATED_BEARER = 0"
| "timer_type_value WAIT_AVAILABLE_AFTER_W2L_HANDOVER = 1"
| "timer_type_value WAIT_VIDEO_TEXT_AVAILABLE = 2"
| "timer_type_value GUARD_AFTER_LOST = 3"
| "timer_type_value FORCE_AVAILABLE = 4"

fun policy_value :: "QosLossPolicy \<Rightarrow> int" where
  "policy_value POLICY_MAINTAIN = 0"
| "policy_value POLICY_MODIFY = 1"
| "policy_value POLICY_RELEASE = 2"

lemma timer_type_value_inject: "timer_type_value p = timer_type_value q \<Longrightarrow> p = q"
  by (cases p; cases q; simp)

lemma policy_value_inject: "policy_value p = policy_value q \<Longrightarrow> p = q"
  by (cases p; cases q; simp)

instantiation QosTimerType :: linorder
begin

definition less_eq_QosTimerType :: "QosTimerType \<Rightarrow> QosTimerType \<Rightarrow> bool" where
  "less_eq_QosTimerType p q = (timer_type_value p \<le> timer_type_value q)"

definition less_QosTimerType :: "QosTimerType \<Rightarrow> QosTimerType \<Rightarrow> bool" where
  "less_QosTimerType p q = (timer_type_value p < timer_type_value q)"

instance
  by standard (auto simp: less_eq_QosTimerType_def less_QosTimerType_def intro: timer_type_value_inject)

end

instantiation QosLossPolicy :: linorder
begin

definition less_eq_QosLossPolicy :: "QosLossPolicy \<Rightarrow> QosLossPolicy \<Rightarrow> bool" where
  "less_eq_QosLossPolicy p q = (policy_value p \<le> policy_value q)"

definition less_QosLossPolicy :: "QosLossPolicy \<Rightarrow> QosLossPolicy \<Rightarrow> bool" where
  "less_QosLossPolicy p q = (policy_value p < policy_value q)"

instance
  by standard (auto simp: less_eq_QosLossPolicy_def less_QosLossPolicy_def intro: policy_value_inject)

end

section \<open>Configuration and context\<close>

datatype config_bool =
  KEY_EMERGENCY_QOS_PRECONDITION_SUPPORTED_BOOL
| KEY_SKIP_AUDIO_DEDICATED_BEARER_WAIT_TIMER_FOR_EMERGENCY_BOOL
| KEY_WAIT_QOS_FOR_INCOMING_INVITE_WITHOUT_PRECONDITION_BOOL
| KEY_WAIT_QOS_WHEN_LOCAL_PRECONDITION_NOT_SUPPORTED_BOOL
| KEY_RESTART_DEDICATED_BEARER_WAIT_TIMER_BY_EPS_FALLBACK_BOOL
| KEY_VOICE_ON_DEFAULT_BEARER_SUPPORTED_BOOL
| KEY_VIDEO_ON_DEFAULT_BEARER_SUPPORTED_BOOL
| KEY_TEXT_ON_DEFAULT_BEARER_SUPPORTED_BOOL
| KEY_DISABLE_PRECONDITION_AFTER_CALL_ESTABLISHED_BOOL
| KEY_VOICE_QOS_PRECONDITION_SUPPORTED_ON_IWLAN_BOOL
| KEY_VOICE_QOS_PRECONDITION_SUPPORTED_BOOL
| KEY_VIDEO_QOS_PRECONDITION_SUPPORTED_BOOL
| KEY_TEXT_QOS_PRECONDITION_SUPPORTED_BOOL
| KEY_TRIGGER_DEDICATED_BEARER_WAIT_TIMER_BY_SENDING_INITIAL_INVITE_BOOL
| KEY_RELEASE_CALL_ON_QOS_LOST_DURING_SETUP_BOOL
| KEY_VT_CHECK_LOCAL_RESOURCE_AFTER_ESTABLISHED_OR_MODIFIED_BOOL
| KEY_RTT_CHECK_LOCAL_RESOURCE_AFTER_ESTABLISHED_OR_MODIFIED_BOOL

datatype config_int =
  KEY_POLICY_FOR_CHECKING_QOS_WHILE_CALL_UPGRADING_INT
| KEY_DEDICATED_BEARER_WAIT_TIMER_MILLIS_INT
| KEY_QOS_ACQUISITION_AFTER_W2L_HANDOVER_WAIT_TIMER_MILLIS_INT
| KEY_WAIT_VIDEO_TEXT_QOS_AFTER_AUDIO_QOS_ACQUISITION_TIMER_MILLIS_INT
| KEY_QOS_LOST_GUARD_TIMER_MILLIS_INT
| KEY_QOS_FORCED_ACQUISITION_TIMER_MILLIS_INT
| KEY_POLICY_ON_AUDIO_QOS_DEACTIVATION_INT
| KEY_POLICY_ON_VIDEO_QOS_DEACTIVATION_INT
| KEY_POLICY_ON_TEXT_QOS_DEACTIVATION_INT

text \<open>
  The call and its surroundings: the kind of call, the session's call type, whether the call is
  established, received (\<open>MT\<close>), and modified by this side; roaming, the mobile radio technology, attachment to EPS
  only; the configuration, with the list of conditions under which no bearer is waited for; the sessions.
\<close>

record call_context =
  cx_ussi :: bool
  cx_emergency :: bool
  cx_call_type :: CallType
  cx_established :: bool
  cx_mt :: bool
  cx_modifier :: bool
  cx_roaming :: bool
  cx_mobile_rat :: int
  cx_eps_only :: bool
  cx_bool :: "config_bool \<Rightarrow> bool"
  cx_int :: "config_int \<Rightarrow> int"
  cx_no_wait :: "int list"
  cx_session :: "nat \<Rightarrow> ISession option"

abbreviation (input) "RADIOTECH_TYPE_LTE \<equiv> (13 :: int)"
abbreviation (input) "RADIOTECH_TYPE_IWLAN \<equiv> (18 :: int)"
abbreviation (input) "RADIOTECH_TYPE_LTE_CA \<equiv> (19 :: int)"
abbreviation (input) "RADIOTECH_TYPE_NR \<equiv> (20 :: int)"
abbreviation (input) "QOS_CHECK_POLICY_ON_UPGRADING_CALL_NOT_AVAILABLE \<equiv> (0 :: int)"
abbreviation (input) "QOS_CHECK_POLICY_ON_UPGRADING_CALL_AFTER_UPGRADE \<equiv> (1 :: int)"

definition GetMediaTypesFromCallType :: "CallType \<Rightarrow> 32 word" where
  "GetMediaTypesFromCallType c =
     (case c of VOIP \<Rightarrow> MEDIATYPE_AUDIO | VT \<Rightarrow> MEDIATYPE_AUDIO OR MEDIATYPE_VIDEO
      | RTT \<Rightarrow> MEDIATYPE_AUDIO OR MEDIATYPE_TEXT
      | VIDEO_RTT \<Rightarrow> MEDIATYPE_AUDIO OR MEDIATYPE_VIDEO OR MEDIATYPE_TEXT | CALL_UNKNOWN \<Rightarrow> MEDIATYPE_NONE)"

definition GetMediaTypeListFromCallType :: "CallType \<Rightarrow> 32 word list" where
  "GetMediaTypeListFromCallType c =
     (case c of VOIP \<Rightarrow> [MEDIATYPE_AUDIO] | VT \<Rightarrow> [MEDIATYPE_AUDIO, MEDIATYPE_VIDEO]
      | RTT \<Rightarrow> [MEDIATYPE_AUDIO, MEDIATYPE_TEXT]
      | VIDEO_RTT \<Rightarrow> [MEDIATYPE_AUDIO, MEDIATYPE_VIDEO, MEDIATYPE_TEXT] | CALL_UNKNOWN \<Rightarrow> [])"

definition GetUnusedMediaTypeListFromCallType :: "CallType \<Rightarrow> 32 word list" where
  "GetUnusedMediaTypeListFromCallType c =
     (case c of CALL_UNKNOWN \<Rightarrow> [MEDIATYPE_AUDIO, MEDIATYPE_VIDEO, MEDIATYPE_TEXT]
      | VOIP \<Rightarrow> [MEDIATYPE_VIDEO, MEDIATYPE_TEXT] | VT \<Rightarrow> [MEDIATYPE_TEXT] | RTT \<Rightarrow> [MEDIATYPE_VIDEO] | VIDEO_RTT \<Rightarrow> [])"

section \<open>Timers\<close>

type_synonym QosTimer = "(QosTimerType, int) ImsMap"

definition IsQosTimerActivated :: "QosTimerType \<Rightarrow> QosTimer \<Rightarrow> bool" where
  "IsQosTimerActivated eType tm = (ImsMap_GetIndexOfKey tm eType \<noteq> None)"

definition timer_start :: "QosTimerType \<Rightarrow> int \<Rightarrow> QosTimer \<Rightarrow> QosTimer" where
  "timer_start eType nDuration tm =
     (if IsQosTimerActivated eType tm \<or> nDuration \<le> 0 then tm else ImsMap_Add eType nDuration tm)"

definition timer_stop :: "QosTimerType \<Rightarrow> QosTimer \<Rightarrow> QosTimer" where
  "timer_stop eType tm = ImsMap_Remove eType tm"

section \<open>State\<close>

record QosInfo =
  eAudioStatus :: QosStatus
  eVideoStatus :: QosStatus
  eTextStatus :: QosStatus
  objTimer :: QosTimer
  objStatusTable :: QosStatusTable
  bSupportPrecondition :: bool
  bWaitAudioDedicatedBearerTimerStarted :: bool

definition QosInfo_new :: QosInfo where
  "QosInfo_new =
     \<lparr> eAudioStatus = QOS_IDLE, eVideoStatus = QOS_IDLE, eTextStatus = QOS_IDLE, objTimer = [],
       objStatusTable = QosStatusTable_new, bSupportPrecondition = False,
       bWaitAudioDedicatedBearerTimerStarted = False \<rparr>"

datatype qos_event = QosReserved nat "32 word" | QosReserveFailed nat QosLossPolicy

record MtcPreconditionManager =
  m_objQosInfos :: "(nat, QosInfo) ImsMap"
  m_bLocalResourceConfirmedInitially :: bool
  m_bOnWlan :: bool
  m_ePreviousRatType :: int
  m_eCurrentRatType :: int
  m_bAudioQosEverAvailable :: bool
  m_events :: "qos_event list"

definition GetQosInfo :: "nat \<Rightarrow> MtcPreconditionManager \<Rightarrow> QosInfo option" where
  "GetQosInfo s w =
     (case ImsMap_GetIndexOfKey (m_objQosInfos w) s of
        None \<Rightarrow> None | Some n \<Rightarrow> Some (ImsMap_GetValueAt (m_objQosInfos w) n))"

text \<open>A change made through the pointer to a session's information.\<close>

definition map_info :: "nat \<Rightarrow> (QosInfo \<Rightarrow> QosInfo) \<Rightarrow> MtcPreconditionManager \<Rightarrow> MtcPreconditionManager" where
  "map_info s f w =
     (case GetQosInfo s w of None \<Rightarrow> w | Some i \<Rightarrow> w\<lparr>m_objQosInfos := ImsMap_Add s (f i) (m_objQosInfos w)\<rparr>)"

definition tell :: "qos_event \<Rightarrow> MtcPreconditionManager \<Rightarrow> MtcPreconditionManager" where
  "tell e w = w\<lparr>m_events := m_events w @ [e]\<rparr>"

definition GetQosStatus :: "nat \<Rightarrow> 32 word \<Rightarrow> MtcPreconditionManager \<Rightarrow> QosStatus" where
  "GetQosStatus s eMediaType w =
     (case GetQosInfo s w of
        None \<Rightarrow> QOS_IDLE
      | Some i \<Rightarrow>
          if eMediaType = MEDIATYPE_AUDIO then eAudioStatus i
          else if eMediaType = MEDIATYPE_VIDEO then eVideoStatus i
          else if eMediaType = MEDIATYPE_TEXT then eTextStatus i
          else QOS_IDLE)"

definition put_status :: "QosStatus \<Rightarrow> 32 word \<Rightarrow> QosInfo \<Rightarrow> QosInfo" where
  "put_status eStatus eMediaType i =
     (if eMediaType = MEDIATYPE_AUDIO then i\<lparr>eAudioStatus := eStatus\<rparr>
      else if eMediaType = MEDIATYPE_VIDEO then i\<lparr>eVideoStatus := eStatus\<rparr>
      else if eMediaType = MEDIATYPE_TEXT then i\<lparr>eTextStatus := eStatus\<rparr>
      else i)"

definition SetQosStatus :: "nat \<Rightarrow> QosStatus \<Rightarrow> 32 word \<Rightarrow> MtcPreconditionManager \<Rightarrow> bool \<times> MtcPreconditionManager" where
  "SetQosStatus s eStatus eMediaType w =
     (if GetQosInfo s w = None then (False, w)
      else (True, map_info s (put_status eStatus eMediaType)
        (if eMediaType = MEDIATYPE_AUDIO \<and> eStatus = QOS_AVAILABLE then w\<lparr>m_bAudioQosEverAvailable := True\<rparr> else w)))"

definition QosTimerActive :: "nat \<Rightarrow> QosTimerType \<Rightarrow> MtcPreconditionManager \<Rightarrow> bool" where
  "QosTimerActive s eType w =
     (case GetQosInfo s w of None \<Rightarrow> False | Some i \<Rightarrow> IsQosTimerActivated eType (objTimer i))"

definition map_table :: "nat \<Rightarrow> (QosStatusTable \<Rightarrow> QosStatusTable) \<Rightarrow> MtcPreconditionManager \<Rightarrow> MtcPreconditionManager" where
  "map_table s f = map_info s (\<lambda>i. i\<lparr>objStatusTable := f (objStatusTable i)\<rparr>)"

section \<open>What is supported and what is reserved\<close>

definition media_precondition_supported :: "call_context \<Rightarrow> 32 word \<Rightarrow> MtcPreconditionManager \<Rightarrow> bool" where
  "media_precondition_supported x eMediaType w =
     (if eMediaType = MEDIATYPE_AUDIO
      then cx_bool x (if m_bOnWlan w then KEY_VOICE_QOS_PRECONDITION_SUPPORTED_ON_IWLAN_BOOL
                      else KEY_VOICE_QOS_PRECONDITION_SUPPORTED_BOOL)
      else if eMediaType = MEDIATYPE_VIDEO then cx_bool x KEY_VIDEO_QOS_PRECONDITION_SUPPORTED_BOOL
      else if eMediaType = MEDIATYPE_TEXT then cx_bool x KEY_TEXT_QOS_PRECONDITION_SUPPORTED_BOOL
      else False)"

definition IsPreconditionSupportedInLocal :: "call_context \<Rightarrow> MtcPreconditionManager \<Rightarrow> bool" where
  "IsPreconditionSupportedInLocal x w =
     (if cx_ussi x then False
      else if cx_emergency x then cx_bool x KEY_EMERGENCY_QOS_PRECONDITION_SUPPORTED_BOOL
      else (case cx_call_type x of
              VT \<Rightarrow> media_precondition_supported x MEDIATYPE_AUDIO w \<or> media_precondition_supported x MEDIATYPE_VIDEO w
            | RTT \<Rightarrow> media_precondition_supported x MEDIATYPE_AUDIO w \<or> media_precondition_supported x MEDIATYPE_TEXT w
            | VIDEO_RTT \<Rightarrow> media_precondition_supported x MEDIATYPE_AUDIO w \<or> media_precondition_supported x MEDIATYPE_VIDEO w
                \<or> media_precondition_supported x MEDIATYPE_TEXT w
            | _ \<Rightarrow> media_precondition_supported x MEDIATYPE_AUDIO w))"

definition IsDedicatedBearerAllocated :: "nat \<Rightarrow> 32 word \<Rightarrow> MtcPreconditionManager \<Rightarrow> bool" where
  "IsDedicatedBearerAllocated s eMediaType w = (GetQosStatus s eMediaType w = QOS_AVAILABLE)"

definition IsDefaultBearerAllowed :: "call_context \<Rightarrow> 32 word \<Rightarrow> bool" where
  "IsDefaultBearerAllowed x eMediaType =
     (if eMediaType = MEDIATYPE_AUDIO then \<not> cx_roaming x \<and> cx_bool x KEY_VOICE_ON_DEFAULT_BEARER_SUPPORTED_BOOL
      else if eMediaType = MEDIATYPE_VIDEO then cx_bool x KEY_VIDEO_ON_DEFAULT_BEARER_SUPPORTED_BOOL
      else if eMediaType = MEDIATYPE_TEXT then cx_bool x KEY_TEXT_ON_DEFAULT_BEARER_SUPPORTED_BOOL
      else False)"

definition IsLocalResourceReservedByMediaType :: "call_context \<Rightarrow> nat \<Rightarrow> 32 word \<Rightarrow> MtcPreconditionManager \<Rightarrow> bool" where
  "IsLocalResourceReservedByMediaType x s eMediaType w =
     (if m_bOnWlan w then True
      else IsDefaultBearerAllowed x eMediaType \<or> GetQosStatus s eMediaType w = QOS_AVAILABLE)"

fun reserved_loop :: "bool \<Rightarrow> (32 word \<Rightarrow> bool) \<Rightarrow> 32 word list \<Rightarrow> bool" where
  "reserved_loop bAtLeastOneReserved R [] = (\<not> bAtLeastOneReserved)"
| "reserved_loop bAtLeastOneReserved R (t # ts) =
     (let bReserved = R t
      in if (\<not> bAtLeastOneReserved \<and> \<not> bReserved) \<or> (bAtLeastOneReserved \<and> bReserved) then bReserved
         else reserved_loop bAtLeastOneReserved R ts)"

definition IsLocalResourceReserved :: "call_context \<Rightarrow> nat \<Rightarrow> bool \<Rightarrow> MtcPreconditionManager \<Rightarrow> bool" where
  "IsLocalResourceReserved x s bAtLeastOneReserved w =
     (let ts = GetMediaTypeListFromCallType (cx_call_type x)
      in if ts = [] then False else if m_bOnWlan w then True
         else reserved_loop bAtLeastOneReserved (\<lambda>t. IsLocalResourceReservedByMediaType x s t w) ts)"

fun video_text_loop :: "(32 word \<Rightarrow> bool) \<Rightarrow> 32 word list \<Rightarrow> bool" where
  "video_text_loop R [] = True"
| "video_text_loop R (t # ts) =
     (if t = MEDIATYPE_AUDIO then video_text_loop R ts else if \<not> R t then False else video_text_loop R ts)"

definition IsLocalResourceReservedForVideoOrText :: "call_context \<Rightarrow> nat \<Rightarrow> MtcPreconditionManager \<Rightarrow> bool" where
  "IsLocalResourceReservedForVideoOrText x s w =
     video_text_loop (\<lambda>t. IsLocalResourceReservedByMediaType x s t w) (GetMediaTypeListFromCallType (cx_call_type x))"

fun remote_loop :: "ISession option \<Rightarrow> QosStatusTable option \<Rightarrow> 32 word list \<Rightarrow> bool" where
  "remote_loop piSession pTable [] = True"
| "remote_loop piSession pTable (t # ts) =
     (if \<not> IsPreconditionIncludedInSdp piSession t then remote_loop piSession pTable ts
      else (case pTable of
              None \<Rightarrow> False
            | Some q \<Rightarrow> if \<not> IsCurrentStatusEnabled (GetSdpMediaType t) STATUS_REMOTE q then False
                        else remote_loop piSession pTable ts))"

definition IsRemoteResourceReserved :: "call_context \<Rightarrow> nat \<Rightarrow> MtcPreconditionManager \<Rightarrow> bool" where
  "IsRemoteResourceReserved x s w =
     (let ts = GetMediaTypeListFromCallType (cx_call_type x)
      in if ts = [] then False
         else remote_loop (cx_session x s) (map_option objStatusTable (GetQosInfo s w)) ts)"

definition IsConfirmedDialog :: "call_context \<Rightarrow> nat \<Rightarrow> bool" where
  "IsConfirmedDialog x s =
     (case cx_session x s of
        None \<Rightarrow> False
      | Some q \<Rightarrow> is_state q \<in> {SESSION_ESTABLISHED, SESSION_RENEGOTIATING, SESSION_REESTABLISHING,
                                SESSION_TERMINATING, SESSION_TERMINATED})"

definition IsPreconditionSupported :: "call_context \<Rightarrow> nat \<Rightarrow> MtcPreconditionManager \<Rightarrow> bool" where
  "IsPreconditionSupported x s w =
     (if cx_established x \<and> cx_bool x KEY_DISABLE_PRECONDITION_AFTER_CALL_ESTABLISHED_BOOL then False
      else (case GetQosInfo s w of None \<Rightarrow> False | Some i \<Rightarrow> bSupportPrecondition i))"

definition IsCheckingResourcesRequiredToAlertUser :: "call_context \<Rightarrow> nat \<Rightarrow> MtcPreconditionManager \<Rightarrow> bool" where
  "IsCheckingResourcesRequiredToAlertUser x s w =
     (if IsDefaultBearerAllowed x MEDIATYPE_AUDIO then False
      else (let bLocal = IsPreconditionSupportedInLocal x w
            in if bLocal \<and> \<not> IsPreconditionSupported x s w
                  \<and> \<not> cx_bool x KEY_WAIT_QOS_FOR_INCOMING_INVITE_WITHOUT_PRECONDITION_BOOL then False
               else if bLocal then True
               else cx_bool x KEY_WAIT_QOS_WHEN_LOCAL_PRECONDITION_NOT_SUPPORTED_BOOL))"

definition IsAvailableToAlertUser :: "call_context \<Rightarrow> nat \<Rightarrow> MtcPreconditionManager \<Rightarrow> bool" where
  "IsAvailableToAlertUser x s w =
     (let bLocalReserved = IsLocalResourceReserved x s (\<not> IsConfirmedDialog x s) w
            \<or> QosTimerActive s WAIT_AVAILABLE_AFTER_W2L_HANDOVER w
      in if \<not> IsPreconditionSupported x s w then bLocalReserved
         else bLocalReserved \<and> IsRemoteResourceReserved x s w)"

definition IsLocalResourceConfirmationRequired :: "call_context \<Rightarrow> nat \<Rightarrow> MtcPreconditionManager \<Rightarrow> bool" where
  "IsLocalResourceConfirmationRequired x s w =
     (if \<not> IsPreconditionSupported x s w then False
      else if m_bLocalResourceConfirmedInitially w \<and> \<not> IsConfirmedDialog x s then False
      else list_ex (\<lambda>t. if \<not> IsPreconditionIncludedInSdp (cx_session x s) t then False
             else if (case GetQosInfo s w of None \<Rightarrow> False
                      | Some i \<Rightarrow> IsLocalResourceConfirmed (GetSdpMediaType t) (objStatusTable i)) then False
             else IsLocalResourceReservedByMediaType x s t w)
           (GetMediaTypeListFromCallType (cx_call_type x)))"

definition IsAvailableToSendLocalResourceConfirmation :: "call_context \<Rightarrow> nat \<Rightarrow> MtcPreconditionManager \<Rightarrow> bool" where
  "IsAvailableToSendLocalResourceConfirmation x s w =
     (if GetQosInfo s w = None then False
      else if IsLocalResourceReserved x s (\<not> IsConfirmedDialog x s) w \<and> \<not> QosTimerActive s WAIT_VIDEO_TEXT_AVAILABLE w
      then True
      else QosTimerActive s WAIT_AVAILABLE_AFTER_W2L_HANDOVER w)"

definition IsConfirmationRequired :: "call_context \<Rightarrow> nat \<Rightarrow> bool" where
  "IsConfirmationRequired x s =
     (if IsConfirmedDialog x s
      then \<not> cx_modifier x \<and> (case cx_session x s of None \<Rightarrow> True | Some q \<Rightarrow> \<not> is_update_answered q)
      else cx_mt x)"

section \<open>Waiting for bearers\<close>

definition GetQosTime :: "call_context \<Rightarrow> QosTimerType \<Rightarrow> int" where
  "GetQosTime x eType =
     cx_int x (case eType of
        WAIT_AUDIO_DEDICATED_BEARER \<Rightarrow> KEY_DEDICATED_BEARER_WAIT_TIMER_MILLIS_INT
      | WAIT_AVAILABLE_AFTER_W2L_HANDOVER \<Rightarrow> KEY_QOS_ACQUISITION_AFTER_W2L_HANDOVER_WAIT_TIMER_MILLIS_INT
      | WAIT_VIDEO_TEXT_AVAILABLE \<Rightarrow> KEY_WAIT_VIDEO_TEXT_QOS_AFTER_AUDIO_QOS_ACQUISITION_TIMER_MILLIS_INT
      | GUARD_AFTER_LOST \<Rightarrow> KEY_QOS_LOST_GUARD_TIMER_MILLIS_INT
      | FORCE_AVAILABLE \<Rightarrow> KEY_QOS_FORCED_ACQUISITION_TIMER_MILLIS_INT)"

definition StartQosTimer :: "call_context \<Rightarrow> nat \<Rightarrow> QosTimerType \<Rightarrow> MtcPreconditionManager \<Rightarrow> MtcPreconditionManager" where
  "StartQosTimer x s eType w =
     (if \<not> IsPreconditionSupportedInLocal x w
         \<and> \<not> cx_bool x KEY_WAIT_QOS_WHEN_LOCAL_PRECONDITION_NOT_SUPPORTED_BOOL then w
      else (let nDuration = GetQosTime x eType;
                bForce = (nDuration < 0 \<and> eType \<in> {WAIT_AUDIO_DEDICATED_BEARER, WAIT_AVAILABLE_AFTER_W2L_HANDOVER});
                eType = (if bForce then FORCE_AVAILABLE else eType);
                nDuration = (if bForce then GetQosTime x eType else nDuration);
                w = map_info s (\<lambda>i. i\<lparr>objTimer := timer_start eType nDuration (objTimer i)\<rparr>) w
            in if eType = WAIT_AUDIO_DEDICATED_BEARER
               then map_info s (\<lambda>i. i\<lparr>bWaitAudioDedicatedBearerTimerStarted := True\<rparr>) w else w))"

definition StopQosTimer :: "nat \<Rightarrow> QosTimerType \<Rightarrow> MtcPreconditionManager \<Rightarrow> MtcPreconditionManager" where
  "StopQosTimer s eType = map_info s (\<lambda>i. i\<lparr>objTimer := timer_stop eType (objTimer i)\<rparr>)"

definition StopAllQosTimer :: "nat \<Rightarrow> MtcPreconditionManager \<Rightarrow> MtcPreconditionManager" where
  "StopAllQosTimer s w =
     fold (StopQosTimer s) [WAIT_AUDIO_DEDICATED_BEARER, WAIT_AVAILABLE_AFTER_W2L_HANDOVER, WAIT_VIDEO_TEXT_AVAILABLE,
       GUARD_AFTER_LOST, FORCE_AVAILABLE] w"

definition IsEpsFallback :: "MtcPreconditionManager \<Rightarrow> bool" where
  "IsEpsFallback w =
     (if m_ePreviousRatType w \<noteq> RADIOTECH_TYPE_NR then False
      else m_eCurrentRatType w = RADIOTECH_TYPE_LTE \<or> m_eCurrentRatType w = RADIOTECH_TYPE_LTE_CA)"

definition bearer_waited_for :: "call_context \<Rightarrow> MtcPreconditionManager \<Rightarrow> bool" where
  "bearer_waited_for x w =
     (if m_bOnWlan w then False
      else if 0 \<in> set (cx_no_wait x) \<and> m_eCurrentRatType w = RADIOTECH_TYPE_NR then False
      else if 1 \<in> set (cx_no_wait x) \<and> IsEpsFallback w then False
      else if 2 \<in> set (cx_no_wait x) \<and> cx_eps_only x then False
      else True)"

definition IsNeedToStartWaitAudioDedicatedBearerTimer :: "call_context \<Rightarrow> nat \<Rightarrow> bool \<Rightarrow> MtcPreconditionManager \<Rightarrow> bool" where
  "IsNeedToStartWaitAudioDedicatedBearerTimer x s bSendingInitialInvite w =
     (case GetQosInfo s w of
        None \<Rightarrow> False
      | Some i \<Rightarrow>
          if bWaitAudioDedicatedBearerTimerStarted i then False
          else if (\<not> bSendingInitialInvite
                   \<or> \<not> cx_bool x KEY_TRIGGER_DEDICATED_BEARER_WAIT_TIMER_BY_SENDING_INITIAL_INVITE_BOOL)
               \<and> \<not> (case cx_session x s of None \<Rightarrow> False | Some q \<Rightarrow> is_negotiated q) then False
          else if GetQosStatus s MEDIATYPE_AUDIO w \<noteq> QOS_IDLE then False
          else if IsDefaultBearerAllowed x MEDIATYPE_AUDIO then False
          else if \<not> bearer_waited_for x w then False
          else if cx_emergency x \<and> cx_bool x KEY_SKIP_AUDIO_DEDICATED_BEARER_WAIT_TIMER_FOR_EMERGENCY_BOOL then False
          else True)"

section \<open>Loss of resources\<close>

definition GetQosLossPolicy :: "call_context \<Rightarrow> 32 word \<Rightarrow> QosLossPolicy" where
  "GetQosLossPolicy x eMediaType =
     (let nPolicy = (if eMediaType = MEDIATYPE_AUDIO then cx_int x KEY_POLICY_ON_AUDIO_QOS_DEACTIVATION_INT
                     else if eMediaType = MEDIATYPE_VIDEO then cx_int x KEY_POLICY_ON_VIDEO_QOS_DEACTIVATION_INT
                     else if eMediaType = MEDIATYPE_TEXT then cx_int x KEY_POLICY_ON_TEXT_QOS_DEACTIVATION_INT
                     else -1)
      in if nPolicy = 0 then POLICY_RELEASE else if nPolicy = 1 then POLICY_MAINTAIN
         else if nPolicy = 2 then POLICY_MODIFY else POLICY_MAINTAIN)"

definition media_loss_action :: "call_context \<Rightarrow> nat \<Rightarrow> 32 word \<Rightarrow> QosLossPolicy" where
  "media_loss_action x s eMediaType =
     (if \<not> IsConfirmedDialog x s \<and> eMediaType = MEDIATYPE_AUDIO
      then (if cx_bool x KEY_RELEASE_CALL_ON_QOS_LOST_DURING_SETUP_BOOL then POLICY_RELEASE else POLICY_MAINTAIN)
      else GetQosLossPolicy x eMediaType)"

definition GetActionForQosLoss :: "call_context \<Rightarrow> nat \<Rightarrow> MtcPreconditionManager \<Rightarrow> QosLossPolicy" where
  "GetActionForQosLoss x s w =
     fold (\<lambda>t eAction.
        if \<not> IsLocalResourceReservedByMediaType x s t w
        then (if eAction < media_loss_action x s t then media_loss_action x s t else eAction) else eAction)
       (GetMediaTypeListFromCallType (cx_call_type x)) POLICY_MAINTAIN"

definition NotifyQosStatusToListener :: "call_context \<Rightarrow> nat \<Rightarrow> bool \<Rightarrow> 32 word \<Rightarrow> MtcPreconditionManager
    \<Rightarrow> MtcPreconditionManager" where
  "NotifyQosStatusToListener x s bReserved eMediaTypes w =
     (if bReserved \<and> eMediaTypes \<noteq> MEDIATYPE_NONE then tell (QosReserved s eMediaTypes) w
      else (let eAction = GetActionForQosLoss x s w
            in if eAction \<noteq> POLICY_MAINTAIN then tell (QosReserveFailed s eAction) w else w))"

definition InitializeStatusForUnusedLostQos :: "call_context \<Rightarrow> nat \<Rightarrow> MtcPreconditionManager \<Rightarrow> MtcPreconditionManager" where
  "InitializeStatusForUnusedLostQos x s w =
     fold (\<lambda>t w. if GetQosStatus s t w = QOS_LOST then snd (SetQosStatus s QOS_IDLE t w) else w)
       (GetUnusedMediaTypeListFromCallType (cx_call_type x)) w"

definition IsNeedToUpdateQosStatus :: "QosStatus \<Rightarrow> QosStatus \<Rightarrow> bool" where
  "IsNeedToUpdateQosStatus eCurrentStatus eNewStatus =
     (eCurrentStatus = QOS_IDLE \<and> eNewStatus = QOS_AVAILABLE
      \<or> eCurrentStatus = QOS_AVAILABLE \<and> eNewStatus = QOS_LOST
      \<or> eCurrentStatus = QOS_LOST \<and> eNewStatus \<noteq> QOS_LOST)"

definition HandleQosTimer :: "call_context \<Rightarrow> nat \<Rightarrow> QosStatus \<Rightarrow> QosStatus \<Rightarrow> 32 word \<Rightarrow> MtcPreconditionManager
    \<Rightarrow> MtcPreconditionManager" where
  "HandleQosTimer x s eCurrentStatus eNewStatus eMediaType w =
     (if IsLocalResourceReserved x s False w then StopAllQosTimer s w
      else (let w = (if eCurrentStatus = QOS_AVAILABLE \<and> eNewStatus = QOS_LOST
                     then StartQosTimer x s GUARD_AFTER_LOST w else w)
            in if eCurrentStatus = QOS_IDLE \<and> eNewStatus = QOS_AVAILABLE \<and> eMediaType = MEDIATYPE_AUDIO
               then StartQosTimer x s WAIT_VIDEO_TEXT_AVAILABLE (StopQosTimer s WAIT_AUDIO_DEDICATED_BEARER w) else w))"

definition OnQosStatusChanged :: "call_context \<Rightarrow> nat \<Rightarrow> QosStatus \<Rightarrow> 32 word \<Rightarrow> bool \<Rightarrow> MtcPreconditionManager
    \<Rightarrow> MtcPreconditionManager" where
  "OnQosStatusChanged x s eStatus eMediaType bNeedToNotify w =
     (let eCurrStatus = GetQosStatus s eMediaType w
      in if \<not> IsNeedToUpdateQosStatus eCurrStatus eStatus then w
         else (case SetQosStatus s eStatus eMediaType w of (ok, w) \<Rightarrow>
           if \<not> ok then w
           else (let w = InitializeStatusForUnusedLostQos x s w;
                     w = HandleQosTimer x s eCurrStatus eStatus eMediaType w;
                     w = map_table s (UpdateLocalCurrentStatus (GetSdpMediaType eMediaType)
                           (IsLocalResourceReservedByMediaType x s eMediaType w)) w
                 in if bNeedToNotify \<and> eCurrStatus = QOS_IDLE \<and> eStatus = QOS_AVAILABLE
                       \<and> \<not> QosTimerActive s WAIT_VIDEO_TEXT_AVAILABLE w
                    then NotifyQosStatusToListener x s True eMediaType w else w)))"

definition SetLocalResourceAvailable :: "call_context \<Rightarrow> nat \<Rightarrow> MtcPreconditionManager \<Rightarrow> 32 word \<times> MtcPreconditionManager" where
  "SetLocalResourceAvailable x s w =
     fold (\<lambda>t (eEnabledMediaTypes, w).
        if GetQosStatus s t w \<noteq> QOS_AVAILABLE
        then (eEnabledMediaTypes OR t,
              map_table s (UpdateLocalCurrentStatus (GetSdpMediaType t) True) (snd (SetQosStatus s QOS_AVAILABLE t w)))
        else (eEnabledMediaTypes, w))
       (GetMediaTypeListFromCallType (cx_call_type x)) (MEDIATYPE_NONE, w)"

definition GetReservedMediaTypes :: "call_context \<Rightarrow> nat \<Rightarrow> MtcPreconditionManager \<Rightarrow> 32 word" where
  "GetReservedMediaTypes x s w =
     fold (\<lambda>t eCurrentMediaTypes. if GetQosStatus s t w = QOS_AVAILABLE then eCurrentMediaTypes OR t else eCurrentMediaTypes)
       (GetMediaTypeListFromCallType (cx_call_type x)) MEDIATYPE_NONE"

definition OnWaitAudioDedicatedBearerTimerExpired :: "call_context \<Rightarrow> nat \<Rightarrow> MtcPreconditionManager \<Rightarrow> MtcPreconditionManager" where
  "OnWaitAudioDedicatedBearerTimerExpired x s w =
     (if m_bOnWlan w then w
      else if QosTimerActive s WAIT_AVAILABLE_AFTER_W2L_HANDOVER w then w
      else if IsConfirmedDialog x s then NotifyQosStatusToListener x s False MEDIATYPE_NONE w
      else tell (QosReserveFailed s POLICY_RELEASE) w)"

definition OnWaitAvailableAfterW2LHandoverTimerExpired :: "call_context \<Rightarrow> nat \<Rightarrow> MtcPreconditionManager
    \<Rightarrow> MtcPreconditionManager" where
  "OnWaitAvailableAfterW2LHandoverTimerExpired x s w =
     (if QosTimerActive s WAIT_AUDIO_DEDICATED_BEARER w then w
      else NotifyQosStatusToListener x s False MEDIATYPE_NONE w)"

definition OnWaitVideoTextAvailableTimerExpired :: "call_context \<Rightarrow> nat \<Rightarrow> MtcPreconditionManager \<Rightarrow> MtcPreconditionManager" where
  "OnWaitVideoTextAvailableTimerExpired x s w =
     (let eReservedMediaTypes = GetReservedMediaTypes x s w
      in if IsConfirmedDialog x s
         then (let eMediaTypes = GetMediaTypesFromCallType (cx_call_type x);
                   bVideoReservationFailed = (eMediaTypes AND MEDIATYPE_VIDEO \<noteq> 0
                     \<and> eReservedMediaTypes AND MEDIATYPE_VIDEO = 0
                     \<and> cx_bool x KEY_VT_CHECK_LOCAL_RESOURCE_AFTER_ESTABLISHED_OR_MODIFIED_BOOL);
                   bTextReservationFailed = (eMediaTypes AND MEDIATYPE_TEXT \<noteq> 0
                     \<and> eReservedMediaTypes AND MEDIATYPE_TEXT = 0
                     \<and> cx_bool x KEY_RTT_CHECK_LOCAL_RESOURCE_AFTER_ESTABLISHED_OR_MODIFIED_BOOL)
               in if bVideoReservationFailed \<or> bTextReservationFailed
                  then NotifyQosStatusToListener x s False MEDIATYPE_NONE w else w)
         else NotifyQosStatusToListener x s True eReservedMediaTypes w)"

definition OnForceAvailableTimerExpired :: "call_context \<Rightarrow> nat \<Rightarrow> MtcPreconditionManager \<Rightarrow> MtcPreconditionManager" where
  "OnForceAvailableTimerExpired x s w =
     (case SetLocalResourceAvailable x s w of (ts, w) \<Rightarrow> NotifyQosStatusToListener x s True ts w)"

definition OnTimerExpired :: "call_context \<Rightarrow> nat \<Rightarrow> QosTimerType \<Rightarrow> MtcPreconditionManager \<Rightarrow> MtcPreconditionManager" where
  "OnTimerExpired x s eType w =
     (case eType of
        WAIT_AUDIO_DEDICATED_BEARER \<Rightarrow> OnWaitAudioDedicatedBearerTimerExpired x s w
      | WAIT_AVAILABLE_AFTER_W2L_HANDOVER \<Rightarrow> OnWaitAvailableAfterW2LHandoverTimerExpired x s w
      | WAIT_VIDEO_TEXT_AVAILABLE \<Rightarrow> OnWaitVideoTextAvailableTimerExpired x s w
      | GUARD_AFTER_LOST \<Rightarrow> NotifyQosStatusToListener x s False MEDIATYPE_NONE w
      | FORCE_AVAILABLE \<Rightarrow> OnForceAvailableTimerExpired x s w)"

text \<open>The timer service lets a timer expire: it is removed, and then its listener is told.\<close>

definition QosTimer_TimerExpired :: "call_context \<Rightarrow> nat \<Rightarrow> QosTimerType \<Rightarrow> MtcPreconditionManager \<Rightarrow> MtcPreconditionManager" where
  "QosTimer_TimerExpired x s eType w =
     (if QosTimerActive s eType w then OnTimerExpired x s eType (StopQosTimer s eType w) else w)"

section \<open>The life of a session\<close>

definition MtcPreconditionManager_new :: "call_context \<Rightarrow> bool \<Rightarrow> MtcPreconditionManager" where
  "MtcPreconditionManager_new x bOnWlan =
     \<lparr> m_objQosInfos = [], m_bLocalResourceConfirmedInitially = False, m_bOnWlan = bOnWlan,
       m_ePreviousRatType = cx_mobile_rat x, m_eCurrentRatType = cx_mobile_rat x,
       m_bAudioQosEverAvailable = False, m_events = [] \<rparr>"

definition CreateQos :: "call_context \<Rightarrow> nat \<Rightarrow> MtcPreconditionManager \<Rightarrow> MtcPreconditionManager" where
  "CreateQos x s w =
     (if GetQosInfo s w \<noteq> None then w
      else w\<lparr>m_objQosInfos := ImsMap_Add s (QosInfo_new\<lparr>bSupportPrecondition := IsPreconditionSupportedInLocal x w\<rparr>)
        (m_objQosInfos w)\<rparr>)"

definition DestroyQos :: "nat \<Rightarrow> MtcPreconditionManager \<Rightarrow> MtcPreconditionManager" where
  "DestroyQos s w = (if GetQosInfo s w = None then w else w\<lparr>m_objQosInfos := ImsMap_Remove s (m_objQosInfos w)\<rparr>)"

definition InitializeMobileRatInformation :: "call_context \<Rightarrow> MtcPreconditionManager \<Rightarrow> MtcPreconditionManager" where
  "InitializeMobileRatInformation x w = w\<lparr>m_ePreviousRatType := cx_mobile_rat x, m_eCurrentRatType := cx_mobile_rat x\<rparr>"

definition CreateStatusRecords :: "call_context \<Rightarrow> nat \<Rightarrow> 32 word \<Rightarrow> MtcPreconditionManager \<Rightarrow> MtcPreconditionManager" where
  "CreateStatusRecords x s eMediaType w =
     (let m = GetSdpMediaType eMediaType
      in if eMediaType = MEDIATYPE_NONE
            \<or> (case GetQosInfo s w of None \<Rightarrow> True | Some i \<Rightarrow> GetRecords m (objStatusTable i) \<noteq> []) then w
         else (let w = map_table s (InitializeRecords m) w;
                   bLocalReserved = (IsLocalResourceReservedByMediaType x s eMediaType w
                     \<or> QosTimerActive s WAIT_AVAILABLE_AFTER_W2L_HANDOVER w);
                   nPolicy = cx_int x KEY_POLICY_FOR_CHECKING_QOS_WHILE_CALL_UPGRADING_INT;
                   w' = (if IsConfirmedDialog x s
                         then (if nPolicy = QOS_CHECK_POLICY_ON_UPGRADING_CALL_NOT_AVAILABLE
                               then snd (SetQosStatus s QOS_AVAILABLE eMediaType w) else w)
                         else (if (case cx_session x s of None \<Rightarrow> False | Some q \<Rightarrow> is_forked q) then w
                               else w\<lparr>m_bLocalResourceConfirmedInitially := bLocalReserved\<rparr>));
                   bLocalReserved = (if IsConfirmedDialog x s
                         then (if nPolicy = QOS_CHECK_POLICY_ON_UPGRADING_CALL_NOT_AVAILABLE
                               then IsLocalResourceReservedByMediaType x s eMediaType w'
                               else if nPolicy = QOS_CHECK_POLICY_ON_UPGRADING_CALL_AFTER_UPGRADE then True
                               else bLocalReserved)
                         else bLocalReserved)
               in map_table s (UpdateLocalCurrentStatus m bLocalReserved) w'))"

definition CreateStatusRecordsWithActiveMediaTypes :: "call_context \<Rightarrow> nat \<Rightarrow> MtcPreconditionManager
    \<Rightarrow> MtcPreconditionManager" where
  "CreateStatusRecordsWithActiveMediaTypes x s w =
     map_table s (RemoveUnusedRecords (GetMediaTypesFromCallType (cx_call_type x)))
       (fold (CreateStatusRecords x s) (GetMediaTypeListFromCallType (cx_call_type x)) w)"

definition GetSdpMedia :: "IMedia \<Rightarrow> bool \<Rightarrow> SdpMedia option" where
  "GetSdpMedia piMedia bRemote =
     (case GetMediaDescriptor piMedia of
        None \<Rightarrow> None
      | Some d \<Rightarrow> if \<not> bRemote then (if im_state piMedia = MEDIA_DELETED then None else md_local d) else md_remote d)"

text \<open>The description that is formed: the session with its media, or the description of a failure.\<close>

definition records_for_medium :: "call_context \<Rightarrow> nat \<Rightarrow> IMedia \<Rightarrow> MtcPreconditionManager \<Rightarrow> MtcPreconditionManager" where
  "records_for_medium x s piMedia w =
     (case GetSdpMedia piMedia False of
        None \<Rightarrow> w
      | Some pLocalSdp \<Rightarrow>
          if m_nPort pLocalSdp \<le> 0
             \<or> (case GetQosInfo s w of None \<Rightarrow> True
                | Some i \<Rightarrow> GetRecords (m_nMediaType pLocalSdp) (objStatusTable i) \<noteq> []) then w
          else CreateStatusRecords x s (helper_GetMediaType (Some pLocalSdp) (im_state piMedia)) w)"

datatype formed_sdp =
  FORMED ISession
| FAILURE_SDP "(SdpMediaParameter \<times> (precondition_attribute \<Rightarrow> SdpPrecondition option)) list"

definition FormPreconditionSdp :: "call_context \<Rightarrow> nat \<Rightarrow> ISession
    \<Rightarrow> (SdpMediaParameter \<times> (precondition_attribute \<Rightarrow> SdpPrecondition option)) list option
    \<Rightarrow> MtcPreconditionManager \<Rightarrow> formed_sdp \<times> MtcPreconditionManager" where
  "FormPreconditionSdp x s piSession bFailure w =
     (if \<not> IsPreconditionSupported x s w then (FORMED (RemovePreconditionSdp piSession), w)
      else (case bFailure of
              Some params \<Rightarrow> (FAILURE_SDP (FormFailurePreconditionSdp params), w)
            | None \<Rightarrow>
                (let w = fold (records_for_medium x s) (is_media piSession) w
                 in case GetQosInfo s w of
                      None \<Rightarrow> (FORMED piSession, w)
                    | Some i \<Rightarrow>
                        (case helper_FormPreconditionSdp piSession (objStatusTable i) (IsConfirmationRequired x s) of
                           (piSession, t) \<Rightarrow> (FORMED piSession, map_table s (\<lambda>_. t) w)))))"

definition UpdateQosAttributesFromRemoteSdp :: "call_context \<Rightarrow> nat \<Rightarrow> MtcPreconditionManager \<Rightarrow> MtcPreconditionManager" where
  "UpdateQosAttributesFromRemoteSdp x s w =
     (if GetQosInfo s w = None then w
      else (let w = CreateStatusRecordsWithActiveMediaTypes x s w
            in case cx_session x s of
                 None \<Rightarrow> w
               | Some q \<Rightarrow>
                   fold (\<lambda>m w. if IsPreconditionIncludedInSdp (Some q) MEDIATYPE_NONE
                               then map_table s (UpdateStatusTableWithRemoteSdp m) w else w) (is_media q) w))"

definition OnSdpReceived :: "call_context \<Rightarrow> nat \<Rightarrow> MtcPreconditionManager \<Rightarrow> MtcPreconditionManager" where
  "OnSdpReceived x s w =
     (let w = UpdateQosAttributesFromRemoteSdp x s w
      in if IsNeedToStartWaitAudioDedicatedBearerTimer x s False w
         then StartQosTimer x s WAIT_AUDIO_DEDICATED_BEARER w else w)"

definition OnSdpSent :: "call_context \<Rightarrow> nat \<Rightarrow> bool \<Rightarrow> MtcPreconditionManager \<Rightarrow> MtcPreconditionManager" where
  "OnSdpSent x s bInitialInvite w =
     (if IsNeedToStartWaitAudioDedicatedBearerTimer x s bInitialInvite w
      then StartQosTimer x s WAIT_AUDIO_DEDICATED_BEARER w else w)"

text \<open>A message as \<open>OnMessageReceived\<close> reads it.\<close>

record received_message =
  rm_status :: int
  rm_reliable :: bool
  rm_invite_request :: bool
  rm_sdp :: bool
  rm_supported :: bool
  rm_required :: bool

definition SetRemoteResourceAvailable :: "call_context \<Rightarrow> nat \<Rightarrow> MtcPreconditionManager \<Rightarrow> MtcPreconditionManager" where
  "SetRemoteResourceAvailable x s w =
     (case cx_session x s of
        None \<Rightarrow> w
      | Some q \<Rightarrow>
          fold (\<lambda>m w. case GetSdpMedia m True of
                  None \<Rightarrow> w
                | Some pRemoteSdp \<Rightarrow> map_table s (EnableRemoteCurrentStatus (m_nMediaType pRemoteSdp)) w) (is_media q) w)"

definition UpdateSupportingPrecondition :: "call_context \<Rightarrow> nat \<Rightarrow> bool \<Rightarrow> MtcPreconditionManager \<Rightarrow> MtcPreconditionManager" where
  "UpdateSupportingPrecondition x s bRemoteSupported w =
     map_info s (\<lambda>i. i\<lparr>bSupportPrecondition := IsPreconditionSupportedInLocal x w \<and> bRemoteSupported\<rparr>) w"

definition OnMessageReceived :: "call_context \<Rightarrow> nat \<Rightarrow> received_message \<Rightarrow> MtcPreconditionManager \<Rightarrow> MtcPreconditionManager" where
  "OnMessageReceived x s msg w =
     (if \<not> IsPreconditionSupportedInLocal x w then w
      else (let w = (if (200 \<le> rm_status msg \<and> rm_status msg < 300) \<or> rm_status msg = 180
                     then SetRemoteResourceAvailable x s w else w)
            in if 100 < rm_status msg \<and> rm_status msg < 200 \<and> \<not> rm_reliable msg then w
               else if \<not> rm_invite_request msg \<and> \<not> rm_sdp msg then w
               else UpdateSupportingPrecondition x s ((rm_supported msg \<or> rm_required msg)
                      \<and> (\<not> rm_sdp msg \<or> IsPreconditionIncludedInSdp (cx_session x s) MEDIATYPE_NONE)) w))"

definition IsVideoOrTextIncluded :: "CallType \<Rightarrow> bool" where
  "IsVideoOrTextIncluded c = (c \<in> {VT, RTT, VIDEO_RTT})"

definition wait_for_video_text :: "call_context \<Rightarrow> nat \<Rightarrow> MtcPreconditionManager \<Rightarrow> MtcPreconditionManager" where
  "wait_for_video_text x s w =
     (if IsVideoOrTextIncluded (cx_call_type x) \<and> \<not> IsLocalResourceReservedForVideoOrText x s w
      then StartQosTimer x s WAIT_VIDEO_TEXT_AVAILABLE w else w)"

definition OnCallEstablished :: "call_context \<Rightarrow> nat \<Rightarrow> MtcPreconditionManager \<Rightarrow> MtcPreconditionManager" where
  "OnCallEstablished x s w = (if m_bOnWlan w then w else wait_for_video_text x s w)"

definition OnCallModified :: "call_context \<Rightarrow> nat \<Rightarrow> MtcPreconditionManager \<Rightarrow> MtcPreconditionManager" where
  "OnCallModified x s w =
     (let nPolicy = cx_int x KEY_POLICY_FOR_CHECKING_QOS_WHILE_CALL_UPGRADING_INT
      in if nPolicy = QOS_CHECK_POLICY_ON_UPGRADING_CALL_AFTER_UPGRADE \<and> m_bOnWlan w then w
         else (let w = (if nPolicy = QOS_CHECK_POLICY_ON_UPGRADING_CALL_AFTER_UPGRADE then wait_for_video_text x s w else w)
               in if nPolicy \<noteq> QOS_CHECK_POLICY_ON_UPGRADING_CALL_NOT_AVAILABLE
                  then map_table s (RemoveUnusedRecords (GetMediaTypesFromCallType (cx_call_type x)))
                    (InitializeStatusForUnusedLostQos x s w)
                  else w))"

definition UpdateMobileRatType :: "int \<Rightarrow> MtcPreconditionManager \<Rightarrow> MtcPreconditionManager" where
  "UpdateMobileRatType eRatType w =
     (if eRatType = m_eCurrentRatType w then w
      else w\<lparr>m_ePreviousRatType := m_eCurrentRatType w, m_eCurrentRatType := eRatType\<rparr>)"

definition handover_to_lte :: "call_context \<Rightarrow> nat \<Rightarrow> MtcPreconditionManager \<Rightarrow> MtcPreconditionManager" where
  "handover_to_lte x s w =
     (if \<not> IsLocalResourceReserved x s False w
      then (if (case GetQosInfo s w of None \<Rightarrow> False | Some i \<Rightarrow> bWaitAudioDedicatedBearerTimerStarted i)
            then StartQosTimer x s WAIT_AVAILABLE_AFTER_W2L_HANDOVER w
            else if \<not> IsConfirmedDialog x s then StartQosTimer x s WAIT_AUDIO_DEDICATED_BEARER w
            else w)
      else w)"

definition handover_to_wlan :: "call_context \<Rightarrow> nat \<Rightarrow> MtcPreconditionManager \<Rightarrow> MtcPreconditionManager" where
  "handover_to_wlan x s w =
     (let w = StopQosTimer s WAIT_AUDIO_DEDICATED_BEARER
                (StopQosTimer s WAIT_VIDEO_TEXT_AVAILABLE (StopQosTimer s GUARD_AFTER_LOST w));
          eMediaType = GetMediaTypesFromCallType (cx_call_type x)
      in NotifyQosStatusToListener x s True eMediaType
           (map_table s (UpdateLocalCurrentStatus (GetSdpMediaType eMediaType) True) w))"

definition restart_bearer_timer :: "call_context \<Rightarrow> nat \<Rightarrow> MtcPreconditionManager \<Rightarrow> MtcPreconditionManager" where
  "restart_bearer_timer x s w =
     (if QosTimerActive s WAIT_AUDIO_DEDICATED_BEARER w
      then StartQosTimer x s WAIT_AUDIO_DEDICATED_BEARER (StopQosTimer s WAIT_AUDIO_DEDICATED_BEARER w) else w)"

definition OnRatChanged :: "call_context \<Rightarrow> int \<Rightarrow> MtcPreconditionManager \<Rightarrow> MtcPreconditionManager" where
  "OnRatChanged x eRatType w =
     (let w = UpdateMobileRatType (cx_mobile_rat x) w;
          bPreviousOnWlan = m_bOnWlan w;
          w = w\<lparr>m_bOnWlan := eRatType = RADIOTECH_TYPE_IWLAN\<rparr>;
          w = (if bPreviousOnWlan \<noteq> m_bOnWlan w
               then fold (if \<not> m_bOnWlan w then handover_to_lte x else handover_to_wlan x) (map fst (m_objQosInfos w)) w
               else w)
      in if IsEpsFallback w \<and> cx_bool x KEY_RESTART_DEDICATED_BEARER_WAIT_TIMER_BY_EPS_FALLBACK_BOOL
         then fold (restart_bearer_timer x) (map fst (m_objQosInfos w)) w else w)"

text \<open>What the media session says of the media that were negotiated.\<close>

definition UpdateQosIfAvailable :: "call_context \<Rightarrow> nat \<Rightarrow> 32 word \<Rightarrow> (32 word \<Rightarrow> bool) \<Rightarrow> MtcPreconditionManager
    \<Rightarrow> MtcPreconditionManager" where
  "UpdateQosIfAvailable x s eNegotiatedMediaType IsQosAvailable w =
     fold (\<lambda>t w. if eNegotiatedMediaType AND t \<noteq> 0 \<and> GetQosStatus s t w \<noteq> QOS_AVAILABLE \<and> IsQosAvailable t
                 then OnQosStatusChanged x s QOS_AVAILABLE t False w else w)
       [MEDIATYPE_AUDIO, MEDIATYPE_VIDEO, MEDIATYPE_TEXT] w"

end
