(* ===== verification/QosFacts.thy ===== *)
theory QosFacts
  imports MtcPrecondition
begin

text \<open>
  What the table of preconditions holds and what an exchange of descriptions does to the tables of the two ends.
\<close>

section \<open>The table as a view\<close>

text \<open>
  The records of a medium are always the same seven, in the same order; what varies is a view: the
  current directions, whether the own one has been confirmed, and the strengths of the four desired
  statuses with their marks.
\<close>

record status_view =
  v_local :: direction_tag
  v_remote :: direction_tag
  v_confirmed :: bool
  v_ls :: strength_tag
  v_lr :: strength_tag
  v_rs :: strength_tag
  v_rr :: strength_tag
  c_ls :: bool
  c_lr :: bool
  c_rs :: bool
  c_rr :: bool

definition row :: "sdp_media_type \<Rightarrow> precondition_attribute \<Rightarrow> status_type \<Rightarrow> direction_tag \<Rightarrow> strength_tag \<Rightarrow> bool
    \<Rightarrow> bool \<Rightarrow> QosStatusRecord" where
  "row m a st d s c k =
     \<lparr> eSdpMediaType = m, eAttrType = a, eStatusType = st, eDirTag = d, eStrengthTag = s,
       bDesiredCheck = c, bLocalResourceConfirmed = k \<rparr>"

definition rows :: "sdp_media_type \<Rightarrow> status_view \<Rightarrow> QosStatusRecord list" where
  "rows m v =
     [row m CURR STATUS_LOCAL (v_local v) STRENGTH_NOTUSED False (v_confirmed v),
      row m CURR STATUS_REMOTE (v_remote v) STRENGTH_NOTUSED False False,
      row m DES STATUS_LOCAL DIRECTION_SEND (v_ls v) (c_ls v) False,
      row m DES STATUS_LOCAL DIRECTION_RECV (v_lr v) (c_lr v) False,
      row m DES STATUS_REMOTE DIRECTION_SEND (v_rs v) (c_rs v) False,
      row m DES STATUS_REMOTE DIRECTION_RECV (v_rr v) (c_rr v) False,
      row m CONF STATUS_REMOTE DIRECTION_SENDRECV STRENGTH_NOTUSED False False]"

definition qos_media :: "sdp_media_type \<Rightarrow> bool" where
  "qos_media m = (m \<in> {TYPE_AUDIO, TYPE_VIDEO, TYPE_TEXT})"

definition has_view :: "sdp_media_type \<Rightarrow> status_view \<Rightarrow> QosStatusTable \<Rightarrow> bool" where
  "has_view m v t =
     (qos_media m \<and> GetRecords m t = rows m v \<and> v_local v \<noteq> DIRECTION_INVALID \<and> v_remote v \<noteq> DIRECTION_INVALID)"

definition initial_view :: status_view where
  "initial_view =
     \<lparr> v_local = DIRECTION_NONE, v_remote = DIRECTION_NONE, v_confirmed = False,
       v_ls = STRENGTH_MANDATORY, v_lr = STRENGTH_MANDATORY, v_rs = STRENGTH_OPTIONAL, v_rr = STRENGTH_OPTIONAL,
       c_ls = False, c_lr = False, c_rs = False, c_rr = False \<rparr>"

lemma GetRecords_map [simp]: "qos_media m \<Longrightarrow> GetRecords m (map_records m f t) = f (GetRecords m t)"
  by (auto simp: qos_media_def GetRecords_def map_records_def)

lemma GetRecords_map_other [simp]: "m' \<noteq> m \<Longrightarrow> GetRecords m' (map_records m f t) = GetRecords m' t"
  by (cases m; cases m') (simp_all add: GetRecords_def map_records_def)

lemma GetRecords_none: "\<not> qos_media m \<Longrightarrow> GetRecords m t = []"
  by (cases m) (simp_all add: GetRecords_def qos_media_def)

lemma map_records_none: "\<not> qos_media m \<Longrightarrow> map_records m f t = t"
  by (cases m) (simp_all add: map_records_def qos_media_def)

lemma rows_initial: "initial_records m = rows m initial_view"
  by (simp add: initial_records_def rows_def row_def QosStatusRecord_new_def initial_view_def)

lemma InitializeRecords_shows: "qos_media m \<Longrightarrow> has_view m initial_view (InitializeRecords m t)"
  by (simp add: has_view_def InitializeRecords_def ClearRecords_def rows_initial) (simp add: initial_view_def)

definition current :: "status_type \<Rightarrow> status_view \<Rightarrow> direction_tag" where
  "current st v = (if st = STATUS_LOCAL then v_local v else v_remote v)"

text \<open>Which directions are asked for: those with a strength of mandatory or optional.\<close>

definition asked :: "strength_tag \<Rightarrow> strength_tag \<Rightarrow> direction_tag" where
  "asked send recv =
     (if send < STRENGTH_NONE \<and> recv < STRENGTH_NONE then DIRECTION_SENDRECV
      else if send < STRENGTH_NONE then DIRECTION_SEND
      else if recv < STRENGTH_NONE then DIRECTION_RECV
      else DIRECTION_NONE)"

definition desired :: "status_type \<Rightarrow> status_view \<Rightarrow> direction_tag" where
  "desired st v = (if st = STATUS_LOCAL then asked (v_ls v) (v_lr v) else asked (v_rs v) (v_rr v))"

lemmas row_simps = row_def matches_def FindRecords_def

lemma direction_current:
  "has_view m v t \<Longrightarrow> st \<in> {STATUS_LOCAL, STATUS_REMOTE} \<Longrightarrow> GetDirectionTag m CURR st t = current st v"
  by (cases "v_local v"; cases "v_remote v")
    (auto simp: has_view_def GetDirectionTag_def rows_def row_simps current_def found_directions_def)

lemma direction_desired:
  "has_view m v t \<Longrightarrow> st \<in> {STATUS_LOCAL, STATUS_REMOTE} \<Longrightarrow> GetDirectionTag m DES st t = desired st v"
  by (auto simp: has_view_def GetDirectionTag_def rows_def row_simps desired_def found_directions_def asked_def not_le)

lemma strength_shown:
  assumes "has_view m v t"
  shows "GetStrengthTag m STATUS_LOCAL DIRECTION_SEND t = v_ls v" "GetStrengthTag m STATUS_LOCAL DIRECTION_RECV t = v_lr v"
    "GetStrengthTag m STATUS_REMOTE DIRECTION_SEND t = v_rs v" "GetStrengthTag m STATUS_REMOTE DIRECTION_RECV t = v_rr v"
  using assms by (simp_all add: has_view_def GetStrengthTag_def rows_def row_simps)

lemma SetDirection_shows:
  assumes "has_view m v t" and "d \<noteq> DIRECTION_INVALID"
  shows "has_view m (v\<lparr>v_local := d\<rparr>) (SetDirectionTag m CURR STATUS_LOCAL d t)"
    "has_view m (v\<lparr>v_remote := d\<rparr>) (SetDirectionTag m CURR STATUS_REMOTE d t)"
  using assms by (simp_all add: has_view_def SetDirectionTag_def rows_def row_simps)

definition strengthen :: "strength_tag \<Rightarrow> strength_tag \<Rightarrow> strength_tag" where
  "strengthen s old = (if s = STRENGTH_NOTUSED \<or> s < old then s else old)"

fun set_view :: "status_type \<Rightarrow> direction_tag \<Rightarrow> strength_tag \<Rightarrow> status_view \<Rightarrow> status_view" where
  "set_view STATUS_LOCAL DIRECTION_SEND s v = v\<lparr>v_ls := strengthen s (v_ls v), c_ls := True\<rparr>"
| "set_view STATUS_LOCAL DIRECTION_INVALID s v = v\<lparr>v_ls := strengthen s (v_ls v), c_ls := True\<rparr>"
| "set_view STATUS_LOCAL DIRECTION_RECV s v = v\<lparr>v_lr := strengthen s (v_lr v), c_lr := True\<rparr>"
| "set_view STATUS_REMOTE DIRECTION_SEND s v = v\<lparr>v_rs := strengthen s (v_rs v), c_rs := True\<rparr>"
| "set_view STATUS_REMOTE DIRECTION_INVALID s v = v\<lparr>v_rs := strengthen s (v_rs v), c_rs := True\<rparr>"
| "set_view STATUS_REMOTE DIRECTION_RECV s v = v\<lparr>v_rr := strengthen s (v_rr v), c_rr := True\<rparr>"
| "set_view _ _ s v = v"

lemma SetStrength_rows:
  "change_first (matches DES st d) (set_strength s) (rows m v) = rows m (set_view st d s v)"
  by (cases st; cases d)
    (simp_all add: rows_def row_simps set_strength_def strengthen_def Let_def)

lemma set_view_current [simp]: "v_local (set_view st d s v) = v_local v" "v_remote (set_view st d s v) = v_remote v"
    "v_confirmed (set_view st d s v) = v_confirmed v"
  by (cases st; cases d; simp)+

lemma SetStrength_shows: "has_view m v t \<Longrightarrow> has_view m (set_view st d s v) (SetStrengthTag m st d s t)"
  by (simp add: has_view_def SetStrengthTag_def SetStrength_rows)

lemma fold_view:
  assumes "\<And>x v t. has_view m v t \<Longrightarrow> x \<in> set xs \<Longrightarrow> has_view m (g x v) (f x t)" and "has_view m v t"
  shows "has_view m (fold g xs v) (fold f xs t)"
  using assms by (induction xs arbitrary: v t) auto

definition unmarked :: "status_view \<Rightarrow> status_view" where
  "unmarked v = v\<lparr>c_ls := False, c_lr := False, c_rs := False, c_rr := False\<rparr>"

lemma InitializeDesChecked_view: "has_view m v t \<Longrightarrow> has_view m (unmarked v) (InitializeDesChecked m t)"
  by (simp add: has_view_def InitializeDesChecked_def rows_def row_def unmarked_def)

lemma IsCurrentStatusEnabled_view:
  "has_view m v t \<Longrightarrow> st \<in> {STATUS_LOCAL, STATUS_REMOTE} \<Longrightarrow>
    IsCurrentStatusEnabled m st t = (current st v \<noteq> DIRECTION_NONE \<and> desired st v \<le> current st v)"
  by (simp add: IsCurrentStatusEnabled_def Let_def direction_current direction_desired)

lemma desired_not_invalid: "desired st v \<noteq> DIRECTION_INVALID"
  by (simp add: desired_def asked_def)

definition local_view :: "bool \<Rightarrow> status_view \<Rightarrow> status_view" where
  "local_view reserved v =
     (if reserved = (v_local v \<noteq> DIRECTION_NONE \<and> desired STATUS_LOCAL v \<le> v_local v) then v
      else v\<lparr>v_local := (if reserved then desired STATUS_LOCAL v else DIRECTION_NONE)\<rparr>)"

lemma UpdateLocalCurrentStatus_view:
  "has_view m v t \<Longrightarrow> has_view m (local_view reserved v) (UpdateLocalCurrentStatus m reserved t)"
  using SetDirection_shows(1) [of m v t] desired_not_invalid [of STATUS_LOCAL v]
  by (auto simp: UpdateLocalCurrentStatus_def local_view_def IsCurrentStatusEnabled_view direction_desired current_def)

definition remote_view :: "status_view \<Rightarrow> status_view" where
  "remote_view v = (if v_remote v = DIRECTION_NONE then v\<lparr>v_remote := desired STATUS_REMOTE v\<rparr> else v)"

lemma EnableRemoteCurrentStatus_view:
  "has_view m v t \<Longrightarrow> has_view m (remote_view v) (EnableRemoteCurrentStatus m t)"
proof -
  assume v: "has_view m v t"
  have "(DIRECTION_NONE < v_remote v) = (v_remote v \<noteq> DIRECTION_NONE)"
    using v by (cases "v_remote v") (simp_all add: has_view_def tag_order)
  then show ?thesis
    using v SetDirection_shows(2) [OF v desired_not_invalid, of STATUS_REMOTE v]
    by (simp add: EnableRemoteCurrentStatus_def remote_view_def direction_current direction_desired current_def)
qed

lemma SetLocalResourceConfirmed_view:
  "has_view m v t \<Longrightarrow> has_view m (v\<lparr>v_confirmed := b\<rparr>) (SetLocalResourceConfirmed m b t)"
  by (simp add: has_view_def SetLocalResourceConfirmed_def rows_def row_simps)

lemma IsLocalResourceConfirmed_view: "has_view m v t \<Longrightarrow> IsLocalResourceConfirmed m t = v_confirmed v"
  by (simp add: has_view_def IsLocalResourceConfirmed_def rows_def row_simps)

definition valid_details :: "DetailInfo list \<Rightarrow> bool" where
  "valid_details is = list_all (\<lambda>i. di_direction i \<noteq> DIRECTION_INVALID) is"

definition received_current :: "direction_tag \<Rightarrow> DetailInfo \<Rightarrow> status_view \<Rightarrow> status_view" where
  "received_current old i v =
     (if old \<noteq> DIRECTION_NONE \<and> di_direction i = DIRECTION_NONE then v else v\<lparr>v_remote := di_direction i\<rparr>)"

lemma UpdateCurrentStatus_view:
  assumes "has_view m v t"
  shows "md_peer d CURR = Some (SdpSegmentedPrecondition ls rs) \<Longrightarrow> valid_details ls \<Longrightarrow>
      has_view m (fold (received_current (v_remote v)) ls v) (UpdateCurrentStatus d m t)"
    "(\<nexists>ls rs. md_peer d CURR = Some (SdpSegmentedPrecondition ls rs)) \<Longrightarrow> UpdateCurrentStatus d m t = t"
proof -
  assume p: "md_peer d CURR = Some (SdpSegmentedPrecondition ls rs)" and v: "valid_details ls"
  have "has_view m (fold (received_current (v_remote v)) ls v)
    (fold (\<lambda>i t. if v_remote v \<noteq> DIRECTION_NONE \<and> di_direction i = DIRECTION_NONE then t
                 else SetDirectionTag m CURR STATUS_REMOTE (di_direction i) t) ls t)"
    by (rule fold_view [OF _ assms])
      (use v in \<open>auto simp: received_current_def valid_details_def list_all_iff intro!: SetDirection_shows\<close>)
  then show "has_view m (fold (received_current (v_remote v)) ls v) (UpdateCurrentStatus d m t)"
    using p assms by (simp add: UpdateCurrentStatus_def MediaDescriptor_GetPrecondition_def direction_current current_def)
next
  show "(\<nexists>ls rs. md_peer d CURR = Some (SdpSegmentedPrecondition ls rs)) \<Longrightarrow> UpdateCurrentStatus d m t = t"
    by (auto simp: UpdateCurrentStatus_def MediaDescriptor_GetPrecondition_def split: option.split SdpPrecondition.split)
qed

definition received_desired :: "status_type \<Rightarrow> DetailInfo \<Rightarrow> status_view \<Rightarrow> status_view" where
  "received_desired st i v =
     (if di_direction i = DIRECTION_SENDRECV
      then set_view st DIRECTION_RECV (di_strength i) (set_view st DIRECTION_SEND (di_strength i) v)
      else set_view st (di_direction i) (di_strength i) v)"

lemma set_desired_view: "has_view m v t \<Longrightarrow> has_view m (received_desired st i v) (set_desired m st i t)"
  by (simp add: received_desired_def set_desired_def SetStrength_shows)

definition drop_view :: "nat \<Rightarrow> status_view \<Rightarrow> status_view" where
  "drop_view k v =
     (if k = 2 \<and> \<not> c_ls v then set_view STATUS_LOCAL DIRECTION_SEND STRENGTH_NOTUSED v
      else if k = 3 \<and> \<not> c_lr v then set_view STATUS_LOCAL DIRECTION_RECV STRENGTH_NOTUSED v
      else if k = 4 \<and> \<not> c_rs v then set_view STATUS_REMOTE DIRECTION_SEND STRENGTH_NOTUSED v
      else if k = 5 \<and> \<not> c_rr v then set_view STATUS_REMOTE DIRECTION_RECV STRENGTH_NOTUSED v
      else v)"

lemma drop_unchecked_view:
  assumes "has_view m v t" and "k < 7"
  shows "has_view m (drop_view k v) (drop_unchecked m k t)"
proof -
  have g: "GetRecords m t = rows m v" using assms(1) by (simp add: has_view_def)
  have k: "k \<in> {0, 1, 2, 3, 4, 5, 6}" using assms(2) by auto
  show ?thesis
    using k assms(1) SetStrength_shows [OF assms(1), of STATUS_LOCAL DIRECTION_SEND STRENGTH_NOTUSED]
      SetStrength_shows [OF assms(1), of STATUS_LOCAL DIRECTION_RECV STRENGTH_NOTUSED]
      SetStrength_shows [OF assms(1), of STATUS_REMOTE DIRECTION_SEND STRENGTH_NOTUSED]
      SetStrength_shows [OF assms(1), of STATUS_REMOTE DIRECTION_RECV STRENGTH_NOTUSED]
    by (elim insertE emptyE) (simp_all add: drop_unchecked_def g drop_view_def rows_def row_def Let_def)
qed

definition kept :: "bool \<Rightarrow> strength_tag \<Rightarrow> strength_tag" where
  "kept c s = (if c then s else STRENGTH_NOTUSED)"

definition settled :: "status_view \<Rightarrow> status_view" where
  "settled v =
     v\<lparr>v_ls := kept (c_ls v) (v_ls v), v_lr := kept (c_lr v) (v_lr v), v_rs := kept (c_rs v) (v_rs v),
       v_rr := kept (c_rr v) (v_rr v), c_ls := True, c_lr := True, c_rs := True, c_rr := True\<rparr>"

lemma fold_drop_view: "fold drop_view [0, 1, 2, 3, 4, 5, 6] v = settled v"
  by (simp add: drop_view_def settled_def kept_def strengthen_def)

lemma UpdateDesiredStatus_view:
  assumes "has_view m v t"
  shows "md_peer d DES = Some (SdpSegmentedPrecondition ls rs) \<Longrightarrow>
      has_view m (settled (fold (received_desired STATUS_REMOTE) ls (fold (received_desired STATUS_LOCAL) rs v)))
        (UpdateDesiredStatus d m t)"
    "(\<nexists>ls rs. md_peer d DES = Some (SdpSegmentedPrecondition ls rs)) \<Longrightarrow> UpdateDesiredStatus d m t = t"
proof -
  assume p: "md_peer d DES = Some (SdpSegmentedPrecondition ls rs)"
  define t' where "t' = fold (set_desired m STATUS_REMOTE) ls (fold (set_desired m STATUS_LOCAL) rs t)"
  define v' where "v' = fold (received_desired STATUS_REMOTE) ls (fold (received_desired STATUS_LOCAL) rs v)"
  have v': "has_view m v' t'"
    unfolding v'_def t'_def by (intro fold_view set_desired_view assms)
  then have l: "[0..<length (GetRecords m t')] = [0, 1, 2, 3, 4, 5, 6]"
    by (simp add: has_view_def rows_def upt_rec)
  have "has_view m (fold drop_view [0, 1, 2, 3, 4, 5, 6] v') (fold (drop_unchecked m) [0, 1, 2, 3, 4, 5, 6] t')"
    by (rule fold_view [OF drop_unchecked_view v']) auto
  then have "has_view m (settled v') (fold (drop_unchecked m) [0..<length (GetRecords m t')] t')"
    unfolding l fold_drop_view .
  then show "has_view m (settled (fold (received_desired STATUS_REMOTE) ls (fold (received_desired STATUS_LOCAL) rs v)))
        (UpdateDesiredStatus d m t)"
    using p by (simp add: UpdateDesiredStatus_def MediaDescriptor_GetPrecondition_def Let_def flip: t'_def v'_def)
next
  show "(\<nexists>ls rs. md_peer d DES = Some (SdpSegmentedPrecondition ls rs)) \<Longrightarrow> UpdateDesiredStatus d m t = t"
    by (auto simp: UpdateDesiredStatus_def MediaDescriptor_GetPrecondition_def split: option.split SdpPrecondition.split)
qed

section \<open>What is written of a view, and what it does to the reader\<close>

definition side :: "status_type \<Rightarrow> strength_tag \<Rightarrow> strength_tag \<Rightarrow> DetailInfo list" where
  "side st send recv =
     (if send \<noteq> STRENGTH_NOTUSED \<and> send = recv
      then [\<lparr> di_status = st, di_direction = DIRECTION_SENDRECV, di_strength = send \<rparr>]
      else (if send \<noteq> STRENGTH_NOTUSED then [\<lparr> di_status = st, di_direction = DIRECTION_SEND, di_strength = send \<rparr>] else [])
        @ (if recv \<noteq> STRENGTH_NOTUSED then [\<lparr> di_status = st, di_direction = DIRECTION_RECV, di_strength = recv \<rparr>] else []))"

definition formed_current :: "status_view \<Rightarrow> SdpPrecondition" where
  "formed_current v =
     SdpSegmentedPrecondition [\<lparr> di_status = STATUS_LOCAL, di_direction = v_local v, di_strength = STRENGTH_NOTUSED \<rparr>]
       [\<lparr> di_status = STATUS_REMOTE, di_direction = v_remote v, di_strength = STRENGTH_NOTUSED \<rparr>]"

definition formed_desired :: "status_view \<Rightarrow> SdpPrecondition" where
  "formed_desired v = SdpSegmentedPrecondition (side STATUS_LOCAL (v_ls v) (v_lr v)) (side STATUS_REMOTE (v_rs v) (v_rr v))"

definition asks :: "status_view \<Rightarrow> bool" where
  "asks v = (\<not> (v_ls v = STRENGTH_NOTUSED \<and> v_lr v = STRENGTH_NOTUSED
              \<and> v_rs v = STRENGTH_NOTUSED \<and> v_rr v = STRENGTH_NOTUSED))"

lemma AddDesiredStatus_view:
  assumes "has_view m v t"
  shows "AddDesiredStatus m STATUS_LOCAL t (SdpSegmentedPrecondition [] []) =
      SdpSegmentedPrecondition (side STATUS_LOCAL (v_ls v) (v_lr v)) []"
    "AddDesiredStatus m STATUS_REMOTE t (SdpSegmentedPrecondition ls []) =
      SdpSegmentedPrecondition ls (side STATUS_REMOTE (v_rs v) (v_rr v))"
  using assms by (simp_all add: AddDesiredStatus_def strength_shown side_def segmented_add_def Let_def)

lemma IsPreconditionPresent_desired: "IsPreconditionPresent (formed_desired v) = asks v"
  by (simp add: formed_desired_def asks_def side_def)

definition enabled_view :: "status_type \<Rightarrow> status_view \<Rightarrow> bool" where
  "enabled_view st v = (current st v \<noteq> DIRECTION_NONE \<and> desired st v \<le> current st v)"

lemma form_descriptor_view:
  assumes "has_view m v t" and "md_local d = Some q" and "m_nMediaType q = m" and "md_changeable d"
  shows "\<exists>d' t'. form_descriptor bUseConf d t = (d', t') \<and> has_view m (v\<lparr>v_confirmed := enabled_view STATUS_LOCAL v\<rparr>) t'
    \<and> md_proposal d' CURR = Some (formed_current v) \<and> md_proposal d' DES = (if asks v then Some (formed_desired v) else None)"
proof -
  let ?t = "SetLocalResourceConfirmed m (enabled_view STATUS_LOCAL v) t"
  have v': "has_view m (v\<lparr>v_confirmed := enabled_view STATUS_LOCAL v\<rparr>) ?t"
    by (rule SetLocalResourceConfirmed_view [OF assms(1)])
  have n: "v_local v \<noteq> DIRECTION_INVALID" "v_remote v \<noteq> DIRECTION_INVALID" using assms(1) by (simp_all add: has_view_def)
  have e: "IsCurrentStatusEnabled m STATUS_LOCAL t = enabled_view STATUS_LOCAL v"
    using assms(1) by (simp add: IsCurrentStatusEnabled_view enabled_view_def)
  let ?d = "remove_preconditions d"
  have d: "md_local ?d = Some q" "md_changeable ?d" "md_proposal ?d = (\<lambda>a. None)"
    using assms(2,4) by (auto simp: remove_preconditions_def MediaDescriptor_RemovePrecondition_def fun_eq_iff
        intro: precondition_attribute.exhaust)
  have c: "FormCurrentAttribute ?d t = (MediaDescriptor_SetPrecondition CURR (formed_current v) ?d, ?t)"
    using n e d assms(3) direction_current [OF assms(1), of STATUS_LOCAL] direction_current [OF v', of STATUS_REMOTE]
    by (simp add: FormCurrentAttribute_def current_def segmented_add_def formed_current_def)
  have p: "AddDesiredStatus m STATUS_REMOTE ?t (AddDesiredStatus m STATUS_LOCAL ?t (SdpSegmentedPrecondition [] [])) = formed_desired v"
    by (simp add: AddDesiredStatus_view [OF v'] formed_desired_def)
  have s: "md_proposal (FormConfirmAttribute bUseConf d' t') a = md_proposal d' a" if "a \<noteq> CONF" for d' t' a
    using that by (simp add: FormConfirmAttribute_def MediaDescriptor_SetPrecondition_def Let_def split: option.split)
  show ?thesis
    using d c v' assms(3)
    by (simp add: form_descriptor_def s FormDesiredAttribute_def p IsPreconditionPresent_desired
        MediaDescriptor_SetPrecondition_def)
qed

text \<open>What the other side wants of a status is taken over where it is stronger; what it does not name is dropped.\<close>

definition merge :: "strength_tag \<Rightarrow> strength_tag \<Rightarrow> strength_tag" where
  "merge own theirs = (if theirs = STRENGTH_NOTUSED then STRENGTH_NOTUSED else if theirs < own then theirs else own)"

definition received_from :: "status_view \<Rightarrow> status_view \<Rightarrow> status_view" where
  "received_from p v =
     (let v = v\<lparr>v_remote := (if v_remote v \<noteq> DIRECTION_NONE \<and> v_local p = DIRECTION_NONE then v_remote v else v_local p)\<rparr>
      in if asks p
         then v\<lparr>v_ls := merge (v_ls v) (v_rs p), v_lr := merge (v_lr v) (v_rr p),
                v_rs := merge (v_rs v) (v_ls p), v_rr := merge (v_rr v) (v_lr p),
                c_ls := True, c_lr := True, c_rs := True, c_rr := True\<rparr>
         else unmarked v)"

lemma received_side:
  "fold (received_desired STATUS_LOCAL) (side st send recv) v =
     v\<lparr>v_ls := (if send = STRENGTH_NOTUSED then v_ls v else strengthen send (v_ls v)),
       v_lr := (if recv = STRENGTH_NOTUSED then v_lr v else strengthen recv (v_lr v)),
       c_ls := c_ls v \<or> send \<noteq> STRENGTH_NOTUSED, c_lr := c_lr v \<or> recv \<noteq> STRENGTH_NOTUSED\<rparr>"
  "fold (received_desired STATUS_REMOTE) (side st send recv) v =
     v\<lparr>v_rs := (if send = STRENGTH_NOTUSED then v_rs v else strengthen send (v_rs v)),
       v_rr := (if recv = STRENGTH_NOTUSED then v_rr v else strengthen recv (v_rr v)),
       c_rs := c_rs v \<or> send \<noteq> STRENGTH_NOTUSED, c_rr := c_rr v \<or> recv \<noteq> STRENGTH_NOTUSED\<rparr>"
  by (simp_all add: side_def received_desired_def)

lemma strengthen_kept: "kept (s \<noteq> STRENGTH_NOTUSED) (if s = STRENGTH_NOTUSED then old else strengthen s old) = merge old s"
  by (simp add: kept_def strengthen_def merge_def)

lemma received_view:
  assumes "has_view m v t" and "GetMediaDescriptor i = Some d" and "md_remote d = Some q" and "m_nMediaType q = m"
    and "0 < m_nPort q" and "v_local p \<noteq> DIRECTION_INVALID"
    and "md_peer d CURR = Some (formed_current p)" and "md_peer d DES = (if asks p then Some (formed_desired p) else None)"
  shows "has_view m (received_from p v) (UpdateStatusTableWithRemoteSdp i t)"
proof -
  let ?t = "UpdateCurrentStatus d m (InitializeDesChecked m t)"
  let ?v = "(unmarked v)\<lparr>v_remote := (if v_remote v \<noteq> DIRECTION_NONE \<and> v_local p = DIRECTION_NONE then v_remote v else v_local p)\<rparr>"
  have "has_view m (fold (received_current (v_remote (unmarked v)))
      [\<lparr> di_status = STATUS_LOCAL, di_direction = v_local p, di_strength = STRENGTH_NOTUSED \<rparr>] (unmarked v)) ?t"
    by (rule UpdateCurrentStatus_view(1) [OF InitializeDesChecked_view [OF assms(1)]])
      (use assms(6,7) in \<open>simp_all add: formed_current_def valid_details_def\<close>)
  then have c: "has_view m ?v ?t" by (auto simp: received_current_def unmarked_def split: if_splits)
  have u: "UpdateStatusTableWithRemoteSdp i t = UpdateDesiredStatus d m ?t"
    using assms(2,3,4,5) by (simp add: UpdateStatusTableWithRemoteSdp_def Let_def)
  show ?thesis
  proof (cases "asks p")
    case True
    then have "has_view m (settled (fold (received_desired STATUS_REMOTE) (side STATUS_LOCAL (v_ls p) (v_lr p))
        (fold (received_desired STATUS_LOCAL) (side STATUS_REMOTE (v_rs p) (v_rr p)) ?v))) (UpdateDesiredStatus d m ?t)"
      using assms(8) by (intro UpdateDesiredStatus_view(1) [OF c]) (simp add: formed_desired_def)
    moreover have "settled (fold (received_desired STATUS_REMOTE) (side STATUS_LOCAL (v_ls p) (v_lr p))
        (fold (received_desired STATUS_LOCAL) (side STATUS_REMOTE (v_rs p) (v_rr p)) ?v)) = received_from p v"
      using True by (simp add: received_side settled_def unmarked_def strengthen_kept received_from_def)
    ultimately show ?thesis by (simp add: u)
  next
    case False
    then have "UpdateDesiredStatus d m ?t = ?t"
      using assms(8) by (intro UpdateDesiredStatus_view(2) [OF c]) simp
    moreover have "received_from p v = ?v" using False by (cases v) (simp add: received_from_def unmarked_def Let_def)
    ultimately show ?thesis using c u by simp
  qed
qed

section \<open>Exchanges of descriptions\<close>

text \<open>One end forms the attributes of a medium, and the other end receives them.\<close>

definition receives :: "(precondition_attribute \<Rightarrow> SdpPrecondition option) \<Rightarrow> IMediaDescriptor \<Rightarrow> IMedia" where
  "receives preconditions d =
     \<lparr> im_state = MEDIA_ACTIVE, im_modified = False, im_proposal = None,
       im_descriptor = Some (d\<lparr>md_peer := preconditions\<rparr>) \<rparr>"

definition transfer :: "bool \<Rightarrow> IMediaDescriptor \<Rightarrow> QosStatusTable \<Rightarrow> IMediaDescriptor \<Rightarrow> QosStatusTable
    \<Rightarrow> QosStatusTable \<times> QosStatusTable" where
  "transfer bUseConf dFrom tFrom dTo tTo =
     (case form_descriptor bUseConf dFrom tFrom of
        (dFrom, tFrom) \<Rightarrow> (tFrom, UpdateStatusTableWithRemoteSdp (receives (md_proposal dFrom) dTo) tTo))"

definition describes :: "sdp_media_type \<Rightarrow> IMediaDescriptor \<Rightarrow> bool" where
  "describes m d =
     (md_changeable d
      \<and> (case md_local d of None \<Rightarrow> False | Some q \<Rightarrow> m_nMediaType q = m)
      \<and> (case md_remote d of None \<Rightarrow> False | Some q \<Rightarrow> m_nMediaType q = m \<and> 0 < m_nPort q))"

lemma transfer_view:
  assumes "has_view m v tFrom" and "has_view m u tTo" and "describes m dFrom" and "describes m dTo"
  shows "\<exists>tFrom' tTo'. transfer c dFrom tFrom dTo tTo = (tFrom', tTo')
    \<and> has_view m (v\<lparr>v_confirmed := enabled_view STATUS_LOCAL v\<rparr>) tFrom' \<and> has_view m (received_from v u) tTo'"
proof -
  obtain q where q: "md_local dFrom = Some q" "m_nMediaType q = m" "md_changeable dFrom"
    using assms(3) by (auto simp: describes_def split: option.splits)
  obtain r where r: "md_remote dTo = Some r" "m_nMediaType r = m" "0 < m_nPort r"
    using assms(4) by (auto simp: describes_def split: option.splits)
  from form_descriptor_view [OF assms(1) q, of c] obtain d' t' where
    f: "form_descriptor c dFrom tFrom = (d', t')" "has_view m (v\<lparr>v_confirmed := enabled_view STATUS_LOCAL v\<rparr>) t'"
      "md_proposal d' CURR = Some (formed_current v)" "md_proposal d' DES = (if asks v then Some (formed_desired v) else None)"
    by blast
  have "has_view m (received_from v u) (UpdateStatusTableWithRemoteSdp (receives (md_proposal d') dTo) tTo)"
    by (rule received_view [OF assms(2), of _ "dTo\<lparr>md_peer := md_proposal d'\<rparr>" r])
      (use r f assms(1) in \<open>simp_all add: receives_def GetMediaDescriptor_def has_view_def\<close>)
  then show ?thesis using f(1,2) by (simp add: transfer_def)
qed

definition well_shaped :: "sdp_media_type \<Rightarrow> QosStatusTable \<Rightarrow> bool" where
  "well_shaped m t = (\<exists>v. has_view m v t)"

lemma merge_agree: "merge own (merge theirs own) = merge theirs own"
  by (cases own; cases theirs; simp add: merge_def tag_order)

lemma merge_notused: "merge own s = STRENGTH_NOTUSED \<longleftrightarrow> s = STRENGTH_NOTUSED"
  by (cases own; cases s; simp add: merge_def tag_order)

lemma received_asks: "asks p \<Longrightarrow> asks (received_from p v)"
  by (auto simp: asks_def received_from_def Let_def merge_notused)

lemma received_current_view [simp]: "v_local (received_from p v) = v_local v"
    "v_remote (received_from p v) = (if v_remote v \<noteq> DIRECTION_NONE \<and> v_local p = DIRECTION_NONE then v_remote v else v_local p)"
  by (simp_all add: received_from_def unmarked_def Let_def)

text \<open>C18:
  After an offer and its answer the two ends agree on what is desired: each status of one end is
  the status of the other with local and remote exchanged. On what is available they agree under a
  proviso. An end takes the remote resources for available exactly when the other end takes its own
  for available, provided that the other end has not gone back to none: its own current status is not
  none, or it is none and so is what the first end had recorded of it. (A reported none does not
  replace what is recorded, so without the proviso the two can differ.) This holds for the answerer of
  the offerer's resources and for the offerer of the answerer's.
\<close>

theorem preconditions_agree:
  assumes "well_shaped m tA" and "well_shaped m tB" and "describes m dA" and "describes m dB"
    and "\<exists>st \<in> {STATUS_LOCAL, STATUS_REMOTE}. \<exists>d \<in> {DIRECTION_SEND, DIRECTION_RECV}. GetStrengthTag m st d tA \<noteq> STRENGTH_NOTUSED"
  shows "case transfer cA dA tA dB tB of (tA1, tB1) \<Rightarrow> case transfer cB dB tB1 dA tA1 of (tB2, tA2) \<Rightarrow>
     (\<forall>d \<in> {DIRECTION_SEND, DIRECTION_RECV}.
        GetStrengthTag m STATUS_LOCAL d tA2 = GetStrengthTag m STATUS_REMOTE d tB2
        \<and> GetStrengthTag m STATUS_REMOTE d tA2 = GetStrengthTag m STATUS_LOCAL d tB2)
     \<and> (GetDirectionTag m CURR STATUS_LOCAL tA \<noteq> DIRECTION_NONE \<or> GetDirectionTag m CURR STATUS_REMOTE tB = DIRECTION_NONE \<longrightarrow>
          IsCurrentStatusEnabled m STATUS_REMOTE tB2 = IsCurrentStatusEnabled m STATUS_LOCAL tA2)
     \<and> (GetDirectionTag m CURR STATUS_LOCAL tB \<noteq> DIRECTION_NONE \<or> GetDirectionTag m CURR STATUS_REMOTE tA = DIRECTION_NONE \<longrightarrow>
          IsCurrentStatusEnabled m STATUS_REMOTE tA2 = IsCurrentStatusEnabled m STATUS_LOCAL tB2)"
proof -
  obtain v u where v: "has_view m v tA" and u: "has_view m u tB" using assms(1,2) by (auto simp: well_shaped_def)
  have a: "asks v" using assms(5) strength_shown [OF v] by (auto simp: asks_def)
  obtain tA1 tB1 where 1: "transfer cA dA tA dB tB = (tA1, tB1)"
      "has_view m (v\<lparr>v_confirmed := enabled_view STATUS_LOCAL v\<rparr>) tA1" "has_view m (received_from v u) tB1"
    using transfer_view [OF v u assms(3,4)] by blast
  let ?v = "v\<lparr>v_confirmed := enabled_view STATUS_LOCAL v\<rparr>" and ?u = "received_from v u"
  obtain tB2 tA2 where 2: "transfer cB dB tB1 dA tA1 = (tB2, tA2)"
      "has_view m (?u\<lparr>v_confirmed := enabled_view STATUS_LOCAL ?u\<rparr>) tB2" "has_view m (received_from ?u ?v) tA2"
    using transfer_view [OF 1(3,2) assms(4,3)] by blast
  have s: "v_ls (received_from ?u ?v) = v_rs ?u" "v_lr (received_from ?u ?v) = v_rr ?u"
      "v_rs (received_from ?u ?v) = v_ls ?u" "v_rr (received_from ?u ?v) = v_lr ?u"
    using a received_asks [OF a, of u] by (simp_all add: received_from_def [of ?u ?v] Let_def)
      (simp_all add: received_from_def merge_agree)
  show ?thesis
    using s by (simp add: 1(1) 2(1) strength_shown [OF 2(2)] strength_shown [OF 2(3)] direction_current [OF v]
        direction_current [OF u] IsCurrentStatusEnabled_view [OF 2(2)] IsCurrentStatusEnabled_view [OF 2(3)]
        current_def desired_def)
qed

definition ex_sdp_media :: SdpMedia where
  "ex_sdp_media =
     \<lparr> m_nMediaType = TYPE_AUDIO, m_strMediaType = None, m_nPort = 49152, m_nNumOfPort = 0,
       m_nTransportProtocol = TRANSPORT_RTP_AVP, m_strTransportProtocol = None, m_objFormats = [] \<rparr>"

definition ex_descriptor :: IMediaDescriptor where
  "ex_descriptor =
     \<lparr> md_local = Some ex_sdp_media, md_remote = Some ex_sdp_media, md_peer = Map.empty, md_proposal = Map.empty,
       md_changeable = True \<rparr>"

definition ex_table :: QosStatusTable where
  "ex_table = InitializeRecords TYPE_AUDIO QosStatusTable_new"

lemma ex_table_view: "has_view TYPE_AUDIO initial_view ex_table"
  by (simp add: ex_table_def InitializeRecords_shows qos_media_def)

lemma ex_describes: "describes TYPE_AUDIO ex_descriptor"
  by (simp add: describes_def ex_descriptor_def ex_sdp_media_def)

theorem preconditions_agree_witness:
  "case transfer True ex_descriptor ex_table ex_descriptor ex_table of (tA1, tB1) \<Rightarrow>
     case transfer False ex_descriptor tB1 ex_descriptor tA1 of (tB2, tA2) \<Rightarrow>
       GetStrengthTag TYPE_AUDIO STATUS_REMOTE DIRECTION_SEND tA2 = GetStrengthTag TYPE_AUDIO STATUS_LOCAL DIRECTION_SEND tB2"
proof -
  have "GetStrengthTag TYPE_AUDIO STATUS_LOCAL DIRECTION_SEND ex_table \<noteq> STRENGTH_NOTUSED"
    by (simp add: strength_shown [OF ex_table_view] initial_view_def)
  moreover have "well_shaped TYPE_AUDIO ex_table" using ex_table_view by (auto simp: well_shaped_def)
  ultimately show ?thesis
    using preconditions_agree [where m = TYPE_AUDIO and tA = ex_table and tB = ex_table and dA = ex_descriptor
        and dB = ex_descriptor and cA = True and cB = False] ex_describes
    by (simp add: split_beta)
qed

text \<open>Whether the resources of a direction cover those of another.\<close>

definition covers :: "direction_tag \<Rightarrow> direction_tag \<Rightarrow> bool" where
  "covers c d =
     ((d \<in> {DIRECTION_SEND, DIRECTION_SENDRECV} \<longrightarrow> c \<in> {DIRECTION_SEND, DIRECTION_SENDRECV})
      \<and> (d \<in> {DIRECTION_RECV, DIRECTION_SENDRECV} \<longrightarrow> c \<in> {DIRECTION_RECV, DIRECTION_SENDRECV}))"

text \<open>C23:
  A status counts as met when there are resources and they cover the desired directions, but also when
  the receiving direction alone is reserved and the sending one desired; and a medium without records
  counts as met.
\<close>

theorem current_status_met:
  assumes "st \<in> {STATUS_LOCAL, STATUS_REMOTE}"
  shows "(well_shaped m t \<longrightarrow> IsCurrentStatusEnabled m st t =
       (GetDirectionTag m CURR st t \<noteq> DIRECTION_NONE
        \<and> (covers (GetDirectionTag m CURR st t) (GetDirectionTag m DES st t)
           \<or> GetDirectionTag m CURR st t = DIRECTION_RECV \<and> GetDirectionTag m DES st t = DIRECTION_SEND)))
    \<and> (GetRecords m t = [] \<longrightarrow> IsCurrentStatusEnabled m st t)"
proof (intro conjI impI)
  assume "well_shaped m t"
  then obtain v where v: "has_view m v t" by (auto simp: well_shaped_def)
  have "current st v \<noteq> DIRECTION_INVALID" using v by (simp add: has_view_def current_def)
  moreover have "desired st v \<noteq> DIRECTION_INVALID" by (rule desired_not_invalid)
  ultimately show "IsCurrentStatusEnabled m st t =
       (GetDirectionTag m CURR st t \<noteq> DIRECTION_NONE
        \<and> (covers (GetDirectionTag m CURR st t) (GetDirectionTag m DES st t)
           \<or> GetDirectionTag m CURR st t = DIRECTION_RECV \<and> GetDirectionTag m DES st t = DIRECTION_SEND))"
    unfolding IsCurrentStatusEnabled_view [OF v assms] direction_current [OF v assms] direction_desired [OF v assms]
    by (cases "current st v"; cases "desired st v") (simp_all add: covers_def tag_order)
next
  assume "GetRecords m t = []"
  then show "IsCurrentStatusEnabled m st t" by (simp add: IsCurrentStatusEnabled_def GetDirectionTag_def FindRecords_def)
qed

theorem current_status_met_witness:
  "\<not> IsCurrentStatusEnabled TYPE_AUDIO STATUS_LOCAL ex_table \<and> IsCurrentStatusEnabled TYPE_VIDEO STATUS_REMOTE ex_table"
proof -
  have "well_shaped TYPE_AUDIO ex_table" using ex_table_view by (auto simp: well_shaped_def)
  moreover have "GetDirectionTag TYPE_AUDIO CURR STATUS_LOCAL ex_table = DIRECTION_NONE"
    using direction_current [OF ex_table_view, of STATUS_LOCAL] by (simp add: current_def initial_view_def)
  moreover have "GetRecords TYPE_VIDEO ex_table = []"
    by (simp add: ex_table_def InitializeRecords_def ClearRecords_def QosStatusTable_new_def) (simp add: GetRecords_def)
  ultimately show ?thesis
    using current_status_met [of STATUS_LOCAL TYPE_AUDIO ex_table] current_status_met [of STATUS_REMOTE TYPE_VIDEO ex_table]
    by simp
qed

end
