(* ===== verification/MtcQosFacts.thy ===== *)
theory MtcQosFacts
  imports QosFacts
begin

text \<open>
  What the manager of a call's resources promises: what every sequence of its operations keeps, when a call may
  ring, and what it tells its listener when a bearer comes, does not come, or is given up for another access network.
\<close>

section \<open>The information of a session\<close>

lemma GetQosInfo_lookup: "GetQosInfo s w = map_of (m_objQosInfos w) s"
  by (simp add: GetQosInfo_def map_of_GetIndexOfKey ImsMap_GetValueAt_def split: option.split)

lemma GetQosInfo_map_info [simp]:
  "GetQosInfo s' (map_info s f w) = (if s' = s then map_option f (GetQosInfo s w) else GetQosInfo s' w)"
  by (auto simp: map_info_def GetQosInfo_lookup ImsMap_lookup_Add split: option.split)

lemma map_info_rest [simp]:
  "m_events (map_info s f w) = m_events w" "m_bOnWlan (map_info s f w) = m_bOnWlan w"
  "m_bAudioQosEverAvailable (map_info s f w) = m_bAudioQosEverAvailable w"
  "m_ePreviousRatType (map_info s f w) = m_ePreviousRatType w" "m_eCurrentRatType (map_info s f w) = m_eCurrentRatType w"
  "m_bLocalResourceConfirmedInitially (map_info s f w) = m_bLocalResourceConfirmedInitially w"
  by (simp_all add: map_info_def split: option.split)

lemma ImsMap_inv_map_info: "ImsMap_inv (m_objQosInfos w) \<Longrightarrow> ImsMap_inv (m_objQosInfos (map_info s f w))"
  by (auto simp: map_info_def imsmap.invar_add split: option.split)

lemma GetQosInfo_same [simp]:
  "GetQosInfo s (w\<lparr>m_bOnWlan := b\<rparr>) = GetQosInfo s w" "GetQosInfo s (w\<lparr>m_bAudioQosEverAvailable := b\<rparr>) = GetQosInfo s w"
  "GetQosInfo s (w\<lparr>m_bLocalResourceConfirmedInitially := b\<rparr>) = GetQosInfo s w"
  "GetQosInfo s (w\<lparr>m_ePreviousRatType := r\<rparr>) = GetQosInfo s w" "GetQosInfo s (w\<lparr>m_eCurrentRatType := r\<rparr>) = GetQosInfo s w"
  by (simp_all add: GetQosInfo_lookup)

lemma tell_simps [simp]: "GetQosInfo s (tell e w) = GetQosInfo s w" "m_events (tell e w) = m_events w @ [e]"
    "m_bOnWlan (tell e w) = m_bOnWlan w"
  by (simp_all add: tell_def GetQosInfo_lookup)

section \<open>What every operation keeps\<close>

definition timers_ok :: "QosTimer \<Rightarrow> bool" where
  "timers_ok tm = (ImsMap_inv tm \<and> list_all (\<lambda>(k, d). 0 < d) tm)"

text \<open>
  The information of a session, with what its table has to satisfy: running timers have a duration, the wait for the audio
  bearer is recorded for good, and an audio bearer that is there is one that has ever been there.
\<close>

definition info_ok :: "(QosStatusTable \<Rightarrow> bool) \<Rightarrow> bool \<Rightarrow> QosInfo \<Rightarrow> bool" where
  "info_ok Q everAvailable i =
     (timers_ok (objTimer i)
      \<and> (IsQosTimerActivated WAIT_AUDIO_DEDICATED_BEARER (objTimer i) \<longrightarrow> bWaitAudioDedicatedBearerTimerStarted i)
      \<and> (eAudioStatus i = QOS_AVAILABLE \<longrightarrow> everAvailable) \<and> Q (objStatusTable i))"

definition manager_ok :: "(QosStatusTable \<Rightarrow> bool) \<Rightarrow> MtcPreconditionManager \<Rightarrow> bool" where
  "manager_ok Q w =
     (ImsMap_inv (m_objQosInfos w)
      \<and> (\<forall>s i. GetQosInfo s w = Some i \<longrightarrow> info_ok Q (m_bAudioQosEverAvailable w) i))"

lemma active_lookup: "IsQosTimerActivated k tm = (map_of tm k \<noteq> None)"
  by (simp add: IsQosTimerActivated_def map_of_GetIndexOfKey split: option.split)

lemma timer_start_ok: "timers_ok tm \<Longrightarrow> timers_ok (timer_start k d tm)"
proof (cases "IsQosTimerActivated k tm \<or> d \<le> 0")
  case False
  assume ok: "timers_ok tm"
  have n: "ImsMap_GetIndexOfKey tm k = None" using False by (simp add: IsQosTimerActivated_def)
  have "set (ImsMap_Add k d tm) \<subseteq> insert (k, d) (set tm)"
    by (auto simp: ImsMap_Add_def n Let_def dest: in_set_takeD in_set_dropD)
  with ok False show ?thesis by (auto simp: timers_ok_def timer_start_def list_all_iff imsmap.invar_add)
qed (simp add: timer_start_def)

lemma timer_stop_ok: "timers_ok tm \<Longrightarrow> timers_ok (timer_stop k tm)"
  using imsmap.invar_remove [of tm k]
  by (auto simp: timers_ok_def timer_stop_def ImsMap_Remove_def ImsMap_RemoveAt_def list_all_iff
      dest: in_set_takeD in_set_dropD split: option.splits)

lemma timer_start_active:
  "IsQosTimerActivated k' (timer_start k d tm) = (IsQosTimerActivated k' tm \<or> (k' = k \<and> 0 < d))"
  by (auto simp: timer_start_def active_lookup ImsMap_lookup_Add)

lemma timer_stop_active:
  "timers_ok tm \<Longrightarrow> IsQosTimerActivated k' (timer_stop k tm) = (IsQosTimerActivated k' tm \<and> k' \<noteq> k)"
  by (auto simp: timer_stop_def active_lookup ImsMap_lookup_Remove timers_ok_def)

lemma map_info_ok:
  assumes "manager_ok Q w" and "\<And>i. info_ok Q (m_bAudioQosEverAvailable w) i \<Longrightarrow> info_ok Q (m_bAudioQosEverAvailable w) (f i)"
  shows "manager_ok Q (map_info s f w)"
  using assms by (auto simp: manager_ok_def ImsMap_inv_map_info split: if_splits)

lemma manager_ok_same [simp]:
  "manager_ok Q (w\<lparr>m_bOnWlan := b\<rparr>) = manager_ok Q w" "manager_ok Q (w\<lparr>m_bLocalResourceConfirmedInitially := b\<rparr>) = manager_ok Q w"
  "manager_ok Q (w\<lparr>m_ePreviousRatType := r\<rparr>) = manager_ok Q w" "manager_ok Q (w\<lparr>m_eCurrentRatType := r\<rparr>) = manager_ok Q w"
  "manager_ok Q (tell e w) = manager_ok Q w"
  by (simp_all add: manager_ok_def) (simp add: tell_def)

lemma StopQosTimer_ok: "manager_ok Q w \<Longrightarrow> manager_ok Q (StopQosTimer s k w)"
  unfolding StopQosTimer_def by (rule map_info_ok) (auto simp: info_ok_def timer_stop_ok timer_stop_active)

lemma StopAllQosTimer_ok: "manager_ok Q w \<Longrightarrow> manager_ok Q (StopAllQosTimer s w)"
  by (simp add: StopAllQosTimer_def StopQosTimer_ok)

text \<open>The wait for the audio bearer is started and recorded in one go.\<close>

lemma map_info_twice_ok:
  assumes "manager_ok Q w"
    and "\<And>i. info_ok Q (m_bAudioQosEverAvailable w) i \<Longrightarrow> info_ok Q (m_bAudioQosEverAvailable w) (g (f i))"
  shows "manager_ok Q (map_info s g (map_info s f w))"
  using assms by (auto simp: manager_ok_def ImsMap_inv_map_info split: if_splits)

lemma StartQosTimer_ok: "manager_ok Q w \<Longrightarrow> manager_ok Q (StartQosTimer x s k w)"
  unfolding StartQosTimer_def Let_def
  by (auto simp: info_ok_def timer_start_ok timer_start_active intro!: map_info_ok map_info_twice_ok)

text \<open>Statuses.\<close>

lemma put_status_fields [simp]:
  "objTimer (put_status st m i) = objTimer i" "objStatusTable (put_status st m i) = objStatusTable i"
  "bWaitAudioDedicatedBearerTimerStarted (put_status st m i) = bWaitAudioDedicatedBearerTimerStarted i"
  "bSupportPrecondition (put_status st m i) = bSupportPrecondition i"
  "eAudioStatus (put_status st m i) = (if m = MEDIATYPE_AUDIO then st else eAudioStatus i)"
  by (simp_all add: put_status_def)

lemma SetQosStatus_ok: "manager_ok Q w \<Longrightarrow> manager_ok Q (snd (SetQosStatus s st m w))"
  by (auto simp: SetQosStatus_def manager_ok_def ImsMap_inv_map_info info_ok_def split: if_splits)

lemma fold_ok: "(\<And>t w. manager_ok Q w \<Longrightarrow> t \<in> set ts \<Longrightarrow> manager_ok Q (f t w)) \<Longrightarrow> manager_ok Q w \<Longrightarrow> manager_ok Q (fold f ts w)"
  by (induction ts arbitrary: w) auto

lemma InitializeStatus_ok: "manager_ok Q w \<Longrightarrow> manager_ok Q (InitializeStatusForUnusedLostQos x s w)"
  unfolding InitializeStatusForUnusedLostQos_def by (rule fold_ok) (auto intro: SetQosStatus_ok)

lemma Notify_ok: "manager_ok Q w \<Longrightarrow> manager_ok Q (NotifyQosStatusToListener x s b m w)"
  by (simp add: NotifyQosStatusToListener_def Let_def)

lemma HandleQosTimer_ok: "manager_ok Q w \<Longrightarrow> manager_ok Q (HandleQosTimer x s a b m w)"
  by (simp add: HandleQosTimer_def Let_def StopAllQosTimer_ok StartQosTimer_ok StopQosTimer_ok)

lemma map_table_ok:
  "manager_ok Q w \<Longrightarrow> (\<And>t. Q t \<Longrightarrow> Q (f t)) \<Longrightarrow> manager_ok Q (map_table s f w)"
  unfolding map_table_def by (rule map_info_ok) (auto simp: info_ok_def)

section \<open>Laws of a table\<close>

text \<open>
  What a property of tables has to satisfy for the manager's own operations to keep it. The
  operations that take something over from the other end are named with the condition under which they keep it.
\<close>

locale table_law =
  fixes Q :: "QosStatusTable \<Rightarrow> bool"
  assumes new: "Q QosStatusTable_new"
    and initialized: "Q t \<Longrightarrow> Q (InitializeRecords m t)"
    and own_updated: "Q t \<Longrightarrow> Q (UpdateLocalCurrentStatus m b t)"
    and own_confirmed: "Q t \<Longrightarrow> Q (SetLocalResourceConfirmed m b t)"
    and cleared: "Q t \<Longrightarrow> Q (ClearRecords m t)"
begin

lemma unused_removed: "Q t \<Longrightarrow> Q (RemoveUnusedRecords ms t)"
  by (simp add: RemoveUnusedRecords_def Let_def cleared)

lemma FormCurrentAttribute_law: "Q t \<Longrightarrow> Q (snd (FormCurrentAttribute d t))"
  by (simp add: FormCurrentAttribute_def Let_def own_confirmed split: option.split)

lemma form_descriptor_law: "Q t \<Longrightarrow> Q (snd (form_descriptor c d t))"
  by (simp add: form_descriptor_def Let_def split_beta FormCurrentAttribute_law)

lemma form_medium_law: "Q t \<Longrightarrow> Q (snd (form_medium n c m t))"
  by (simp add: form_medium_def split_beta form_descriptor_law split: option.split)

lemma form_loop_law: "Q t \<Longrightarrow> Q (snd (FormPreconditionSdp_loop n c ms t))"
  by (induction ms arbitrary: t) (simp_all add: split_beta form_medium_law)

lemma helper_law: "Q t \<Longrightarrow> Q (snd (helper_FormPreconditionSdp q t c))"
  by (simp add: helper_FormPreconditionSdp_def split_beta form_loop_law)

lemma CreateStatusRecords_ok: "manager_ok Q w \<Longrightarrow> manager_ok Q (CreateStatusRecords x s m w)"
  unfolding CreateStatusRecords_def Let_def
  by (auto intro!: map_table_ok SetQosStatus_ok own_updated initialized)

lemma CreateActive_ok: "manager_ok Q w \<Longrightarrow> manager_ok Q (CreateStatusRecordsWithActiveMediaTypes x s w)"
  unfolding CreateStatusRecordsWithActiveMediaTypes_def
  by (intro map_table_ok fold_ok CreateStatusRecords_ok unused_removed)

lemma records_for_medium_ok: "manager_ok Q w \<Longrightarrow> manager_ok Q (records_for_medium x s m w)"
  by (simp add: records_for_medium_def CreateStatusRecords_ok split: option.split)

lemma FormPreconditionSdp_ok: "manager_ok Q w \<Longrightarrow> manager_ok Q (snd (FormPreconditionSdp x s q f w))"
proof -
  assume ok: "manager_ok Q w"
  let ?w = "fold (records_for_medium x s) (is_media q) w"
  have w: "manager_ok Q ?w" by (rule fold_ok [OF records_for_medium_ok ok])
  have "manager_ok Q (map_table s (\<lambda>_. snd (helper_FormPreconditionSdp q (objStatusTable i) c)) ?w)"
    if "GetQosInfo s ?w = Some i" for i c
  proof -
    have "Q (objStatusTable i)" using w that by (auto simp: manager_ok_def info_ok_def)
    then show ?thesis by (intro map_table_ok w helper_law)
  qed
  then show ?thesis
    using ok w by (simp add: FormPreconditionSdp_def Let_def split_beta split: option.split)
qed

lemma OnQosStatusChanged_ok: "manager_ok Q w \<Longrightarrow> manager_ok Q (OnQosStatusChanged x s st m n w)"
  unfolding OnQosStatusChanged_def Let_def
  by (auto simp: split_beta intro!: Notify_ok map_table_ok own_updated HandleQosTimer_ok InitializeStatus_ok SetQosStatus_ok)

lemma SetLocalResourceAvailable_ok: "manager_ok Q w \<Longrightarrow> manager_ok Q (snd (SetLocalResourceAvailable x s w))"
proof -
  have "manager_ok Q (snd (fold (\<lambda>t (e, w). if GetQosStatus s t w \<noteq> QOS_AVAILABLE
      then (e OR t, map_table s (UpdateLocalCurrentStatus (GetSdpMediaType t) True) (snd (SetQosStatus s QOS_AVAILABLE t w)))
      else (e, w)) ts (e, w)))" if "manager_ok Q w" for ts e w
    using that by (induction ts arbitrary: e w) (auto intro!: map_table_ok SetQosStatus_ok own_updated)
  then show "manager_ok Q w \<Longrightarrow> ?thesis" by (simp add: SetLocalResourceAvailable_def)
qed

lemma OnTimerExpired_ok: "manager_ok Q w \<Longrightarrow> manager_ok Q (OnTimerExpired x s k w)"
  using SetLocalResourceAvailable_ok [of w x s]
  by (cases k) (simp_all add: OnTimerExpired_def OnWaitAudioDedicatedBearerTimerExpired_def
      OnWaitAvailableAfterW2LHandoverTimerExpired_def OnWaitVideoTextAvailableTimerExpired_def
      OnForceAvailableTimerExpired_def Let_def split_beta Notify_ok)

lemma TimerExpired_ok: "manager_ok Q w \<Longrightarrow> manager_ok Q (QosTimer_TimerExpired x s k w)"
  by (simp add: QosTimer_TimerExpired_def OnTimerExpired_ok StopQosTimer_ok)

lemma CreateQos_ok: "manager_ok Q w \<Longrightarrow> manager_ok Q (CreateQos x s w)"
  by (auto simp: CreateQos_def manager_ok_def imsmap.invar_add GetQosInfo_lookup ImsMap_lookup_Add info_ok_def QosInfo_new_def
      timers_ok_def imsmap.invar_empty active_lookup new)

lemma DestroyQos_ok: "manager_ok Q w \<Longrightarrow> manager_ok Q (DestroyQos s w)"
  by (auto simp: DestroyQos_def manager_ok_def imsmap.invar_remove GetQosInfo_lookup ImsMap_lookup_Remove split: if_splits)

lemma wait_for_video_text_ok: "manager_ok Q w \<Longrightarrow> manager_ok Q (wait_for_video_text x s w)"
  by (simp add: wait_for_video_text_def StartQosTimer_ok)

lemma OnCallModified_ok: "manager_ok Q w \<Longrightarrow> manager_ok Q (OnCallModified x s w)"
  by (auto simp: OnCallModified_def Let_def wait_for_video_text_ok intro!: map_table_ok InitializeStatus_ok unused_removed)

lemma handover_ok:
  "manager_ok Q w \<Longrightarrow> manager_ok Q (handover_to_lte x s w)" "manager_ok Q w \<Longrightarrow> manager_ok Q (handover_to_wlan x s w)"
  "manager_ok Q w \<Longrightarrow> manager_ok Q (restart_bearer_timer x s w)"
  by (simp_all add: handover_to_lte_def handover_to_wlan_def restart_bearer_timer_def Let_def StartQosTimer_ok
      StopQosTimer_ok Notify_ok map_table_ok own_updated)

lemma UpdateMobileRatType_ok: "manager_ok Q (UpdateMobileRatType r w) = manager_ok Q w"
  by (simp add: UpdateMobileRatType_def)

lemma OnRatChanged_ok: "manager_ok Q w \<Longrightarrow> manager_ok Q (OnRatChanged x r w)"
proof -
  assume "manager_ok Q w"
  then have w: "manager_ok Q (UpdateMobileRatType (cx_mobile_rat x) w)" by (simp add: UpdateMobileRatType_ok)
  show ?thesis
    unfolding OnRatChanged_def Let_def by (auto intro!: fold_ok handover_ok simp: w)
qed

lemma UpdateQosIfAvailable_ok: "manager_ok Q w \<Longrightarrow> manager_ok Q (UpdateQosIfAvailable x s n A w)"
  unfolding UpdateQosIfAvailable_def by (rule fold_ok) (simp_all add: OnQosStatusChanged_ok)

lemma OnSdpSent_ok: "manager_ok Q w \<Longrightarrow> manager_ok Q (OnSdpSent x s b w)"
  by (simp add: OnSdpSent_def StartQosTimer_ok)

lemma OnSdpReceived_ok:
  assumes "manager_ok Q w"
    and "\<And>q m t. cx_session x s = Some q \<Longrightarrow> m \<in> set (is_media q) \<Longrightarrow> Q t \<Longrightarrow> Q (UpdateStatusTableWithRemoteSdp m t)"
  shows "manager_ok Q (OnSdpReceived x s w)"
proof -
  have "manager_ok Q (UpdateQosAttributesFromRemoteSdp x s w)"
    using assms by (auto simp: UpdateQosAttributesFromRemoteSdp_def Let_def CreateActive_ok
        intro!: fold_ok map_table_ok split: option.split)
  then show ?thesis by (simp add: OnSdpReceived_def Let_def StartQosTimer_ok)
qed

lemma OnMessageReceived_ok:
  assumes "manager_ok Q w"
    and "(200 \<le> rm_status msg \<and> rm_status msg < 300) \<or> rm_status msg = 180 \<Longrightarrow> \<forall>m t. Q t \<longrightarrow> Q (EnableRemoteCurrentStatus m t)"
  shows "manager_ok Q (OnMessageReceived x s msg w)"
proof -
  have r: "manager_ok Q (SetRemoteResourceAvailable x s w)"
    if "(200 \<le> rm_status msg \<and> rm_status msg < 300) \<or> rm_status msg = 180"
    using assms(1) assms(2) [OF that] by (auto simp: SetRemoteResourceAvailable_def intro!: fold_ok map_table_ok split: option.split)
  have u: "manager_ok Q w \<Longrightarrow> manager_ok Q (UpdateSupportingPrecondition x s b w)" for b w
    unfolding UpdateSupportingPrecondition_def by (rule map_info_ok) (simp_all add: info_ok_def)
  show ?thesis using assms(1) r u by (simp add: OnMessageReceived_def Let_def)
qed

end


section \<open>Sequences of operations\<close>

text \<open>The operations of the manager that its callers, the network and the timers make.\<close>

datatype qos_call =
  CALL_CreateQos nat
| CALL_DestroyQos nat
| CALL_InitializeMobileRatInformation
| CALL_FormPreconditionSdp nat ISession
    "(SdpMediaParameter \<times> (precondition_attribute \<Rightarrow> SdpPrecondition option)) list option"
| CALL_OnSdpReceived nat
| CALL_OnSdpSent nat bool
| CALL_OnMessageReceived nat received_message
| CALL_OnCallEstablished nat
| CALL_OnCallModified nat
| CALL_OnRatChanged int
| CALL_UpdateQosIfAvailable nat "32 word" "32 word \<Rightarrow> bool"
| CALL_OnQosStatusChanged nat QosStatus "32 word" bool
| CALL_TimerExpired nat QosTimerType

fun perform :: "call_context \<Rightarrow> qos_call \<Rightarrow> MtcPreconditionManager \<Rightarrow> MtcPreconditionManager" where
  "perform x (CALL_CreateQos s) w = CreateQos x s w"
| "perform x (CALL_DestroyQos s) w = DestroyQos s w"
| "perform x CALL_InitializeMobileRatInformation w = InitializeMobileRatInformation x w"
| "perform x (CALL_FormPreconditionSdp s q f) w = snd (FormPreconditionSdp x s q f w)"
| "perform x (CALL_OnSdpReceived s) w = OnSdpReceived x s w"
| "perform x (CALL_OnSdpSent s b) w = OnSdpSent x s b w"
| "perform x (CALL_OnMessageReceived s msg) w = OnMessageReceived x s msg w"
| "perform x (CALL_OnCallEstablished s) w = OnCallEstablished x s w"
| "perform x (CALL_OnCallModified s) w = OnCallModified x s w"
| "perform x (CALL_OnRatChanged r) w = OnRatChanged x r w"
| "perform x (CALL_UpdateQosIfAvailable s n A) w = UpdateQosIfAvailable x s n A w"
| "perform x (CALL_OnQosStatusChanged s st m b) w = OnQosStatusChanged x s st m b w"
| "perform x (CALL_TimerExpired s k) w = QosTimer_TimerExpired x s k w"

text \<open>The context may differ from call to call.\<close>

definition run_calls :: "(call_context \<times> qos_call) list \<Rightarrow> MtcPreconditionManager \<Rightarrow> MtcPreconditionManager" where
  "run_calls = fold (\<lambda>(x, c). perform x c)"

text \<open>The conditions under which the calls that read from the other end keep a property of tables.\<close>

definition peer_keeps :: "(QosStatusTable \<Rightarrow> bool) \<Rightarrow> call_context \<times> qos_call \<Rightarrow> bool" where
  "peer_keeps Q xc =
     (case snd xc of
        CALL_OnSdpReceived s \<Rightarrow>
          (\<forall>q m t. cx_session (fst xc) s = Some q \<longrightarrow> m \<in> set (is_media q) \<longrightarrow> Q t \<longrightarrow> Q (UpdateStatusTableWithRemoteSdp m t))
      | CALL_OnMessageReceived s msg \<Rightarrow>
          ((200 \<le> rm_status msg \<and> rm_status msg < 300) \<or> rm_status msg = 180 \<longrightarrow>
             (\<forall>m t. Q t \<longrightarrow> Q (EnableRemoteCurrentStatus m t)))
      | _ \<Rightarrow> True)"

lemma manager_new_ok: "manager_ok Q (MtcPreconditionManager_new x b)"
  by (simp add: manager_ok_def MtcPreconditionManager_new_def GetQosInfo_lookup imsmap.invar_empty)

context table_law
begin

lemma perform_ok: "manager_ok Q w \<Longrightarrow> peer_keeps Q (x, c) \<Longrightarrow> manager_ok Q (perform x c w)"
  by (cases c) (auto simp: CreateQos_ok DestroyQos_ok FormPreconditionSdp_ok OnSdpSent_ok OnCallModified_ok OnRatChanged_ok
      UpdateQosIfAvailable_ok OnQosStatusChanged_ok TimerExpired_ok InitializeMobileRatInformation_def
      OnCallEstablished_def wait_for_video_text_ok peer_keeps_def intro!: OnSdpReceived_ok OnMessageReceived_ok)

lemma run_ok: "manager_ok Q w \<Longrightarrow> list_all (peer_keeps Q) calls \<Longrightarrow> manager_ok Q (run_calls calls w)"
  by (induction calls arbitrary: w) (auto simp: run_calls_def perform_ok)

end

section \<open>The shape of the tables\<close>

text \<open>A medium has no records, or the seven of a view with a given property.\<close>

definition shaped_by :: "(status_view \<Rightarrow> bool) \<Rightarrow> QosStatusTable \<Rightarrow> bool" where
  "shaped_by P t =
     (\<forall>m \<in> {TYPE_AUDIO, TYPE_VIDEO, TYPE_TEXT}. GetRecords m t = [] \<or> (\<exists>v. P v \<and> GetRecords m t = rows m v))"

definition shaped :: "QosStatusTable \<Rightarrow> bool" where
  "shaped = shaped_by (\<lambda>v. True)"

lemma shaped_map:
  assumes "shaped_by P t" and "f [] = [] \<or> (\<exists>v. P v \<and> f [] = rows m v)"
    and "\<And>v. P v \<Longrightarrow> \<exists>v'. P v' \<and> f (rows m v) = rows m v'"
  shows "shaped_by P (map_records m f t)"
proof (cases "qos_media m")
  case True
  have "GetRecords m' (map_records m f t) = [] \<or> (\<exists>v. P v \<and> GetRecords m' (map_records m f t) = rows m' v)"
    if m': "m' \<in> {TYPE_AUDIO, TYPE_VIDEO, TYPE_TEXT}" for m'
  proof (cases "m' = m")
    case True
    then consider "GetRecords m t = []" | v where "P v" "GetRecords m t = rows m v"
      using assms(1) m' by (auto simp: shaped_by_def)
    then show ?thesis
    proof cases
      case 1
      then show ?thesis using assms(2) True \<open>qos_media m\<close> by simp
    next
      case 2
      then show ?thesis using assms(3) [of v] True \<open>qos_media m\<close> by simp
    qed
  next
    case False
    then show ?thesis using assms(1) m' by (auto simp: shaped_by_def)
  qed
  then show ?thesis by (simp add: shaped_by_def)
next
  case False
  then show ?thesis using assms(1) by (simp add: map_records_none)
qed

text \<open>What a property of views has to satisfy: it holds at first, and does not depend on the own current status.\<close>

locale view_law =
  fixes P :: "status_view \<Rightarrow> bool"
  assumes view_new: "P initial_view"
    and view_local: "P v \<Longrightarrow> P (v\<lparr>v_local := d\<rparr>)"
    and view_confirmed: "P v \<Longrightarrow> P (v\<lparr>v_confirmed := b\<rparr>)"
begin

lemma clear_shaped: "shaped_by P t \<Longrightarrow> shaped_by P (ClearRecords m t)"
proof (cases "qos_media m")
  case True
  then show "shaped_by P t \<Longrightarrow> ?thesis"
    unfolding shaped_by_def ClearRecords_def by (metis GetRecords_map GetRecords_map_other)
qed (simp add: ClearRecords_def map_records_none)

lemma initialize_shaped: "shaped_by P t \<Longrightarrow> shaped_by P (InitializeRecords m t)"
proof (cases "qos_media m")
  case True
  then have "GetRecords m (InitializeRecords m t) = rows m initial_view"
    by (simp add: InitializeRecords_def ClearRecords_def rows_initial)
  moreover have "GetRecords m' (InitializeRecords m t) = GetRecords m' t" if "m' \<noteq> m" for m'
    using that by (simp add: InitializeRecords_def ClearRecords_def)
  ultimately show "shaped_by P t \<Longrightarrow> ?thesis" unfolding shaped_by_def by (metis view_new)
qed (simp add: InitializeRecords_def ClearRecords_def map_records_none)

lemma local_shaped: "shaped_by P t \<Longrightarrow> shaped_by P (UpdateLocalCurrentStatus m b t)"
proof -
  have "change_first (matches CURR STATUS_LOCAL DIRECTION_INVALID) (eDirTag_update (\<lambda>_. d)) (rows m v) = rows m (v\<lparr>v_local := d\<rparr>)"
    for v d by (simp add: rows_def row_simps)
  then show "shaped_by P t \<Longrightarrow> ?thesis"
    unfolding UpdateLocalCurrentStatus_def SetDirectionTag_def by (auto intro!: shaped_map view_local)
qed

lemma confirmed_shaped: "shaped_by P t \<Longrightarrow> shaped_by P (SetLocalResourceConfirmed m b t)"
proof -
  have "change_first (matches CURR STATUS_LOCAL DIRECTION_INVALID) (bLocalResourceConfirmed_update (\<lambda>_. b)) (rows m v)
      = rows m (v\<lparr>v_confirmed := b\<rparr>)" for v by (simp add: rows_def row_simps)
  then show "shaped_by P t \<Longrightarrow> ?thesis"
    unfolding SetLocalResourceConfirmed_def by (auto intro!: shaped_map view_confirmed)
qed

end

sublocale view_law \<subseteq> table: table_law "shaped_by P"
  by unfold_locales
    (simp_all add: initialize_shaped local_shaped confirmed_shaped clear_shaped,
      simp add: shaped_by_def QosStatusTable_new_def GetRecords_def)

interpretation shape: view_law "\<lambda>v. True"
  by unfold_locales simp_all

text \<open>Nothing is known of the resources of the other end.\<close>

interpretation unheard: view_law "\<lambda>v. v_remote v = DIRECTION_NONE"
  by unfold_locales (simp_all add: initial_view_def)

lemma shaped_SetRemote:
  "shaped_by P t \<Longrightarrow> (\<And>v. P v \<Longrightarrow> P (v\<lparr>v_remote := d\<rparr>)) \<Longrightarrow> shaped_by P (SetDirectionTag m CURR STATUS_REMOTE d t)"
proof -
  have "change_first (matches CURR STATUS_REMOTE DIRECTION_INVALID) (eDirTag_update (\<lambda>_. d)) (rows m v) = rows m (v\<lparr>v_remote := d\<rparr>)"
    for v by (simp add: rows_def row_simps)
  then show "shaped_by P t \<Longrightarrow> (\<And>v. P v \<Longrightarrow> P (v\<lparr>v_remote := d\<rparr>)) \<Longrightarrow> ?thesis"
    unfolding SetDirectionTag_def by (auto intro!: shaped_map)
qed

lemma fold_law: "(\<And>x t. Q t \<Longrightarrow> x \<in> set xs \<Longrightarrow> Q (f x t)) \<Longrightarrow> Q t \<Longrightarrow> Q (fold f xs t)"
  by (induction xs arbitrary: t) auto

text \<open>What the other end desires changes no current status; what it has is written as the remote status.\<close>

lemma shaped_remote:
  assumes "\<And>v st d s. P v \<Longrightarrow> P (set_view st d s v)" and "\<And>v. P v \<Longrightarrow> P (unmarked v)" and "shaped_by P t"
    and "\<And>d ls rs i t k. GetMediaDescriptor m = Some d \<Longrightarrow> md_peer d CURR = Some (SdpSegmentedPrecondition ls rs) \<Longrightarrow>
      i \<in> set ls \<Longrightarrow> shaped_by P t \<Longrightarrow> shaped_by P (SetDirectionTag k CURR STATUS_REMOTE (di_direction i) t)"
  shows "shaped_by P (UpdateStatusTableWithRemoteSdp m t)"
proof -
  have st: "shaped_by P (SetStrengthTag k st d s t)" if "shaped_by P t" for k st d s t
    unfolding SetStrengthTag_def by (rule shaped_map [OF that]) (auto simp: SetStrength_rows intro: assms(1))
  have c: "shaped_by P (UpdateCurrentStatus d k t)" if t: "shaped_by P t" and d: "GetMediaDescriptor m = Some d" for d k t
  proof (cases "\<exists>ls rs. md_peer d CURR = Some (SdpSegmentedPrecondition ls rs)")
    case True
    then obtain ls rs where p: "md_peer d CURR = Some (SdpSegmentedPrecondition ls rs)" by blast
    have "shaped_by P (fold (\<lambda>i t. if D \<noteq> DIRECTION_NONE \<and> di_direction i = DIRECTION_NONE then t
        else SetDirectionTag k CURR STATUS_REMOTE (di_direction i) t) ls t)" for D
      by (rule fold_law [where Q = "shaped_by P"]) (simp_all add: assms(4) [OF d p] t)
    then show ?thesis by (simp add: UpdateCurrentStatus_def MediaDescriptor_GetPrecondition_def p)
  next
    case False
    then show ?thesis
      using t by (auto simp: UpdateCurrentStatus_def MediaDescriptor_GetPrecondition_def split: option.split SdpPrecondition.split)
  qed
  have s: "shaped_by P (set_desired k st i t)" if "shaped_by P t" for k st i t
    using that by (simp add: set_desired_def st)
  have u: "shaped_by P (drop_unchecked k n t)" if "shaped_by P t" for k n t
    using that by (simp add: drop_unchecked_def Let_def st)
  have d: "shaped_by P (UpdateDesiredStatus d k t)" if "shaped_by P t" for d k t
    using that by (auto simp: UpdateDesiredStatus_def Let_def intro!: fold_law s u split: option.split SdpPrecondition.split)
  have "map (\<lambda>r. if eAttrType r = DES then r\<lparr>bDesiredCheck := False\<rparr> else r) (rows k v) = rows k (unmarked v)" for k v
    by (simp add: rows_def row_def unmarked_def)
  then have i: "shaped_by P (InitializeDesChecked k t)" for k
    unfolding InitializeDesChecked_def using assms(2) by (intro shaped_map [OF assms(3)]) auto
  show ?thesis
    by (auto simp: UpdateStatusTableWithRemoteSdp_def Let_def assms(3) intro!: d c i split: option.split)
qed

text \<open>C24:
  After every sequence of operations, in whatever contexts, the manager has one information per session in the order of the
  sessions; its running timers are kept once each with a positive duration; a running wait for the audio bearer has
  been recorded as started; an audio bearer that is there is recorded as ever available; and each medium of its table
  has no records or exactly the seven of a current, desired and confirmed status, whatever the other end sends.
\<close>

theorem manager_invariant:
  "manager_ok shaped (run_calls calls (MtcPreconditionManager_new x bOnWlan))"
proof -
  have "shaped_by (\<lambda>v. True) (EnableRemoteCurrentStatus m t)" if "shaped_by (\<lambda>v. True) t" for m t
    using that by (simp add: EnableRemoteCurrentStatus_def shaped_SetRemote)
  then have "list_all (peer_keeps shaped) calls"
    by (auto simp: list_all_iff peer_keeps_def shaped_def intro!: shaped_remote shaped_SetRemote split: qos_call.split)
  then show ?thesis unfolding shaped_def by (rule shape.table.run_ok [OF manager_new_ok])
qed


section \<open>When the call may ring\<close>

text \<open>Calls in which the other end does not report resources of its own.\<close>

definition says_none :: "IMedia \<Rightarrow> bool" where
  "says_none m =
     (case GetMediaDescriptor m of
        None \<Rightarrow> True
      | Some d \<Rightarrow>
          (case md_peer d CURR of
             Some (SdpSegmentedPrecondition ls rs) \<Rightarrow> list_all (\<lambda>i. di_direction i = DIRECTION_NONE) ls
           | _ \<Rightarrow> True))"

definition reports_nothing :: "call_context \<times> qos_call \<Rightarrow> bool" where
  "reports_nothing xc =
     (case snd xc of
        CALL_OnSdpReceived s \<Rightarrow>
          (case cx_session (fst xc) s of None \<Rightarrow> True | Some q \<Rightarrow> list_all says_none (is_media q))
      | CALL_OnMessageReceived s msg \<Rightarrow> \<not> (200 \<le> rm_status msg \<and> rm_status msg < 300) \<and> rm_status msg \<noteq> 180
      | _ \<Rightarrow> True)"

abbreviation unheard_table :: "QosStatusTable \<Rightarrow> bool" where
  "unheard_table \<equiv> shaped_by (\<lambda>v. v_remote v = DIRECTION_NONE)"

lemma says_none_keeps: "says_none m \<Longrightarrow> unheard_table t \<Longrightarrow> unheard_table (UpdateStatusTableWithRemoteSdp m t)"
  by (rule shaped_remote) (auto simp: unmarked_def says_none_def list_all_iff intro!: shaped_SetRemote)

lemma reports_nothing_keeps: "reports_nothing xc \<Longrightarrow> peer_keeps unheard_table xc"
  by (cases "snd xc") (auto simp: reports_nothing_def peer_keeps_def list_all_iff says_none_keeps split: option.splits)

lemma remote_loop_all:
  "remote_loop q p ts = (\<forall>t \<in> set ts. IsPreconditionIncludedInSdp q t \<longrightarrow>
     (case p of None \<Rightarrow> False | Some r \<Rightarrow> IsCurrentStatusEnabled (GetSdpMediaType t) STATUS_REMOTE r))"
  by (induction ts) (auto split: option.split)

lemma call_media: "t \<in> set (GetMediaTypeListFromCallType c) \<Longrightarrow> GetSdpMediaType t \<in> {TYPE_AUDIO, TYPE_VIDEO, TYPE_TEXT}"
  by (cases c) (auto simp: GetMediaTypeListFromCallType_def GetSdpMediaType_def)

lemma unheard_disabled:
  assumes "unheard_table t" and "m \<in> {TYPE_AUDIO, TYPE_VIDEO, TYPE_TEXT}" and "GetRecords m t \<noteq> []"
  shows "\<not> IsCurrentStatusEnabled m STATUS_REMOTE t"
proof -
  obtain v where v: "v_remote v = DIRECTION_NONE" "GetRecords m t = rows m v"
    using assms by (auto simp: shaped_by_def)
  have "GetDirectionTag m CURR STATUS_REMOTE t = DIRECTION_NONE"
    by (simp add: GetDirectionTag_def v(2)  rows_def row_simps found_directions_def) (simp add: v(1))
  then show ?thesis by (simp add: IsCurrentStatusEnabled_def)
qed

text \<open>C19:
  A call that uses preconditions does not ring before the other end has reported its resources: as long as its
  descriptions said none, and it sent no ringing or successful response, no sequence of operations, bearers, handovers or
  timers makes the call available to alert the user, for any of its media with records and preconditions
  in the description.
\<close>

theorem no_alert_before_peer:
  assumes "list_all reports_nothing calls" and "w = run_calls calls (MtcPreconditionManager_new y bOnWlan)"
    and "IsPreconditionSupported x s w" and "GetQosInfo s w = Some i"
    and "t \<in> set (GetMediaTypeListFromCallType (cx_call_type x))" and "IsPreconditionIncludedInSdp (cx_session x s) t"
    and "GetRecords (GetSdpMediaType t) (objStatusTable i) \<noteq> []"
  shows "\<not> IsAvailableToAlertUser x s w"
proof -
  have "list_all (peer_keeps unheard_table) calls"
    using assms(1) by (auto simp: list_all_iff reports_nothing_keeps)
  then have "manager_ok unheard_table w" unfolding assms(2) by (rule unheard.table.run_ok [OF manager_new_ok])
  then have "unheard_table (objStatusTable i)" using assms(4) by (auto simp: manager_ok_def info_ok_def)
  then have "\<not> IsCurrentStatusEnabled (GetSdpMediaType t) STATUS_REMOTE (objStatusTable i)"
    using call_media [OF assms(5)] assms(7) by (rule unheard_disabled)
  then show ?thesis
    using assms(3-6) by (auto simp: IsAvailableToAlertUser_def IsRemoteResourceReserved_def remote_loop_all Let_def)
qed

section \<open>Bearers\<close>

lemma QosTimerActive_StopQosTimer:
  "manager_ok Q w \<Longrightarrow> QosTimerActive s k' (StopQosTimer s k w) = (QosTimerActive s k' w \<and> k' \<noteq> k)"
  by (auto simp: QosTimerActive_def StopQosTimer_def manager_ok_def info_ok_def timer_stop_active split: option.split)

lemma StopQosTimer_rest [simp]:
  "m_events (StopQosTimer s k w) = m_events w" "m_bOnWlan (StopQosTimer s k w) = m_bOnWlan w"
  by (simp_all add: StopQosTimer_def)

lemma QosTimerActive_tell [simp]: "QosTimerActive s k (tell e w) = QosTimerActive s k w"
  by (simp add: QosTimerActive_def)

text \<open>C20:
  When a description has been sent and the bearer of the audio is to be waited for, a timer runs from then on; when it
  expires in an early dialog, and the call is not waiting after a handover as well, the listener is told exactly
  once to release the call, and neither another description nor another expiry starts the wait again.
\<close>

theorem missing_bearer_reported:
  assumes "manager_ok shaped w" and "IsNeedToStartWaitAudioDedicatedBearerTimer x s bInitial w"
    and "0 < cx_int x KEY_DEDICATED_BEARER_WAIT_TIMER_MILLIS_INT"
    and "IsPreconditionSupportedInLocal x w \<or> cx_bool x KEY_WAIT_QOS_WHEN_LOCAL_PRECONDITION_NOT_SUPPORTED_BOOL"
    and "\<not> QosTimerActive s WAIT_AVAILABLE_AFTER_W2L_HANDOVER w" and "\<not> IsConfirmedDialog y s"
    and "w1 = OnSdpSent x s bInitial w" and "w2 = QosTimer_TimerExpired y s WAIT_AUDIO_DEDICATED_BEARER w1"
  shows "QosTimerActive s WAIT_AUDIO_DEDICATED_BEARER w1 \<and> m_events w1 = m_events w
    \<and> m_events w2 = m_events w @ [QosReserveFailed s POLICY_RELEASE]
    \<and> QosTimer_TimerExpired z s WAIT_AUDIO_DEDICATED_BEARER w2 = w2 \<and> OnSdpSent z s bAgain w2 = w2"
proof -
  obtain i where i: "GetQosInfo s w = Some i"
    using assms(2) by (auto simp: IsNeedToStartWaitAudioDedicatedBearerTimer_def split: option.splits)
  have lte: "\<not> m_bOnWlan w"
    using assms(2) by (auto simp: IsNeedToStartWaitAudioDedicatedBearerTimer_def i bearer_waited_for_def split: if_splits)
  have w1: "w1 = StartQosTimer x s WAIT_AUDIO_DEDICATED_BEARER w" using assms(2,7) by (simp add: OnSdpSent_def)
  have ok: "manager_ok shaped w1" unfolding w1 by (rule StartQosTimer_ok [OF assms(1)])
  have n: "GetQosInfo s w1 = Some (i\<lparr>objTimer := timer_start WAIT_AUDIO_DEDICATED_BEARER
        (cx_int x KEY_DEDICATED_BEARER_WAIT_TIMER_MILLIS_INT) (objTimer i), bWaitAudioDedicatedBearerTimerStarted := True\<rparr>)"
      "m_events w1 = m_events w" "\<not> m_bOnWlan w1"
    using assms(3,4) lte by (auto simp: w1 StartQosTimer_def Let_def GetQosTime_def i)
  have a: "QosTimerActive s WAIT_AUDIO_DEDICATED_BEARER w1" "\<not> QosTimerActive s WAIT_AVAILABLE_AFTER_W2L_HANDOVER w1"
    using assms(3,5) by (auto simp: QosTimerActive_def n i timer_start_active)
  have w2: "w2 = tell (QosReserveFailed s POLICY_RELEASE) (StopQosTimer s WAIT_AUDIO_DEDICATED_BEARER w1)"
    using a assms(6) n(3) by (simp add: assms(8) QosTimer_TimerExpired_def OnTimerExpired_def
        OnWaitAudioDedicatedBearerTimerExpired_def QosTimerActive_StopQosTimer [OF ok])
  have f: "\<not> QosTimerActive s WAIT_AUDIO_DEDICATED_BEARER w2" by (simp add: w2 QosTimerActive_StopQosTimer [OF ok])
  have "\<not> IsNeedToStartWaitAudioDedicatedBearerTimer z s bAgain w2"
    by (simp add: w2 IsNeedToStartWaitAudioDedicatedBearerTimer_def n StopQosTimer_def)
  then show ?thesis using a f n(2) by (simp add: OnSdpSent_def QosTimer_TimerExpired_def) (simp add: w2)
qed


text \<open>A telephone call that waits five seconds for its bearer.\<close>

definition ex_media :: "SdpPrecondition option \<Rightarrow> IMedia" where
  "ex_media p =
     \<lparr> im_state = MEDIA_ACTIVE, im_modified = False, im_proposal = None,
       im_descriptor = Some (ex_descriptor\<lparr>md_peer := (\<lambda>a. if a = CURR then p else None)\<rparr>) \<rparr>"

definition ex_session :: ISession where
  "ex_session =
     \<lparr> is_state = SESSION_NEGOTIATING,
       is_media = [ex_media (Some (SdpSegmentedPrecondition [\<lparr> di_status = STATUS_LOCAL, di_direction = DIRECTION_NONE,
         di_strength = STRENGTH_NOTUSED \<rparr>] []))],
       is_forked = False, is_negotiated = True, is_update_answered = False \<rparr>"

definition ex_call :: "CallType \<Rightarrow> call_context" where
  "ex_call c =
     \<lparr> cx_ussi = False, cx_emergency = False, cx_call_type = c, cx_established = False, cx_mt = False,
       cx_modifier = False, cx_roaming = False, cx_mobile_rat = 13, cx_eps_only = False,
       cx_bool = (\<lambda>k. k = KEY_VOICE_QOS_PRECONDITION_SUPPORTED_BOOL),
       cx_int = (\<lambda>k. if k = KEY_DEDICATED_BEARER_WAIT_TIMER_MILLIS_INT then 5000 else 0), cx_no_wait = [],
       cx_session = (\<lambda>s. if s = 7 then Some ex_session else None) \<rparr>"

definition ex_created :: "CallType \<Rightarrow> MtcPreconditionManager" where
  "ex_created c = CreateQos (ex_call c) 7 (MtcPreconditionManager_new (ex_call c) False)"

lemma ex_created_info:
  "GetQosInfo 7 (ex_created c) = Some (QosInfo_new\<lparr>bSupportPrecondition := True\<rparr>)"
  by (cases c) (simp_all add: ex_created_def CreateQos_def GetQosInfo_lookup ImsMap_lookup_Add MtcPreconditionManager_new_def
      IsPreconditionSupportedInLocal_def media_precondition_supported_def ex_call_def)

lemma ex_created_rest: "\<not> m_bOnWlan (ex_created c)" "m_events (ex_created c) = []" "m_eCurrentRatType (ex_created c) = 13"
  by (simp_all add: ex_created_def CreateQos_def MtcPreconditionManager_new_def ex_call_def)

theorem missing_bearer_reported_witness:
  "m_events (QosTimer_TimerExpired (ex_call VOIP) 7 WAIT_AUDIO_DEDICATED_BEARER (OnSdpSent (ex_call VOIP) 7 True (ex_created VOIP)))
     = [QosReserveFailed 7 POLICY_RELEASE]"
proof -
  have "ex_created VOIP = run_calls [(ex_call VOIP, CALL_CreateQos 7)] (MtcPreconditionManager_new (ex_call VOIP) False)"
    by (simp add: run_calls_def ex_created_def)
  then have a: "manager_ok shaped (ex_created VOIP)"
    by (simp add: run_calls_def shaped_def shape.table.CreateQos_ok manager_new_ok)
  have b: "IsNeedToStartWaitAudioDedicatedBearerTimer (ex_call VOIP) 7 True (ex_created VOIP)"
    by (simp add: IsNeedToStartWaitAudioDedicatedBearerTimer_def ex_created_info GetQosStatus_def QosInfo_new_def ex_call_def
        IsDefaultBearerAllowed_def bearer_waited_for_def ex_session_def ex_created_rest)
  have c: "IsPreconditionSupportedInLocal (ex_call VOIP) (ex_created VOIP)
      \<or> cx_bool (ex_call VOIP) KEY_WAIT_QOS_WHEN_LOCAL_PRECONDITION_NOT_SUPPORTED_BOOL"
    by (simp add: IsPreconditionSupportedInLocal_def media_precondition_supported_def ex_call_def ex_created_rest)
  have d: "\<not> QosTimerActive 7 WAIT_AVAILABLE_AFTER_W2L_HANDOVER (ex_created VOIP)"
    by (simp add: QosTimerActive_def ex_created_info QosInfo_new_def active_lookup)
  have e: "\<not> IsConfirmedDialog (ex_call VOIP) 7" by (simp add: IsConfirmedDialog_def ex_call_def ex_session_def)
  have f: "0 < cx_int (ex_call VOIP) KEY_DEDICATED_BEARER_WAIT_TIMER_MILLIS_INT" by (simp add: ex_call_def)
  show ?thesis
    using missing_bearer_reported [OF a b f c d e refl refl, of "ex_call VOIP" True] by (simp add: ex_created_rest)
qed

definition ex_calls :: "(call_context \<times> qos_call) list" where
  "ex_calls = [(ex_call VOIP, CALL_CreateQos 7), (ex_call VOIP, CALL_OnSdpReceived 7)]"

lemma change_first_Nil [simp]: "(change_first P f xs = []) = (xs = [])"
  by (cases xs) simp_all

lemma StartQosTimer_info:
  "GetQosInfo s w = Some i \<Longrightarrow> \<exists>tm b. GetQosInfo s (StartQosTimer x s k w) =
     Some (i\<lparr>objTimer := tm, bWaitAudioDedicatedBearerTimerStarted := b\<rparr>)"
  by (cases i) (auto simp: StartQosTimer_def Let_def)

lemma ex_reached:
  "\<exists>i. GetQosInfo 7 (run_calls ex_calls (MtcPreconditionManager_new (ex_call VOIP) False)) = Some i
     \<and> bSupportPrecondition i \<and> GetRecords TYPE_AUDIO (objStatusTable i) \<noteq> []"
proof -
  let ?x = "ex_call VOIP"
  have n: "GetRecords TYPE_AUDIO QosStatusTable_new = []" by (simp add: QosStatusTable_new_def GetRecords_def)
  let ?w = "CreateStatusRecords ?x 7 MEDIATYPE_AUDIO (ex_created VOIP)"
  have c: "cx_call_type ?x = VOIP" "cx_session ?x 7 = Some ex_session" by (simp_all add: ex_call_def)
  have e: "\<not> IsConfirmedDialog ?x 7" by (simp add: IsConfirmedDialog_def c ex_session_def)
  have q: "qos_media TYPE_AUDIO" by (simp add: qos_media_def)
  have "\<exists>t. GetQosInfo 7 ?w = Some (QosInfo_new\<lparr>bSupportPrecondition := True, objStatusTable := t\<rparr>)
      \<and> GetRecords TYPE_AUDIO t \<noteq> []"
    by (simp add: CreateStatusRecords_def Let_def ex_created_info QosInfo_new_def n GetSdpMediaType_def map_table_def e c
        ex_session_def InitializeRecords_def q initial_records_def UpdateLocalCurrentStatus_def SetDirectionTag_def)
  then obtain t where t: "GetQosInfo 7 ?w = Some (QosInfo_new\<lparr>bSupportPrecondition := True, objStatusTable := t\<rparr>)"
      "GetRecords TYPE_AUDIO t \<noteq> []" by blast
  let ?m = "ex_media (Some (SdpSegmentedPrecondition [\<lparr> di_status = STATUS_LOCAL, di_direction = DIRECTION_NONE,
         di_strength = STRENGTH_NOTUSED \<rparr>] []))"
  let ?u = "UpdateQosAttributesFromRemoteSdp ?x 7 (ex_created VOIP)"
  have p: "IsPreconditionIncludedInSdp (Some ex_session) MEDIATYPE_NONE"
    by (simp add: IsPreconditionIncludedInSdp_def ex_session_def ex_media_def helper_descriptor_def IsPreconditionIncluded_def
        MediaDescriptor_GetPrecondition_def)
  have m: "GetMediaTypeListFromCallType VOIP = [MEDIATYPE_AUDIO]" "GetMediaTypesFromCallType VOIP = MEDIATYPE_AUDIO"
      "is_media ex_session = [?m]"
    by (simp_all add: GetMediaTypeListFromCallType_def GetMediaTypesFromCallType_def ex_session_def)
  have "GetQosInfo 7 ?u = Some (QosInfo_new\<lparr>bSupportPrecondition := True,
      objStatusTable := UpdateStatusTableWithRemoteSdp ?m (RemoveUnusedRecords MEDIATYPE_AUDIO t)\<rparr>)"
    by (simp add: UpdateQosAttributesFromRemoteSdp_def ex_created_info CreateStatusRecordsWithActiveMediaTypes_def c m p
        map_table_def t QosInfo_new_def Let_def)
  moreover have "GetRecords TYPE_AUDIO (UpdateStatusTableWithRemoteSdp ?m (RemoveUnusedRecords MEDIATYPE_AUDIO t)) \<noteq> []"
    using t(2) by (simp add: UpdateStatusTableWithRemoteSdp_def GetMediaDescriptor_def ex_media_def ex_descriptor_def ex_sdp_media_def
        UpdateDesiredStatus_def UpdateCurrentStatus_def MediaDescriptor_GetPrecondition_def SetDirectionTag_def q
        InitializeDesChecked_def RemoveUnusedRecords_def ClearRecords_def Let_def)
  moreover have "\<exists>tm b. GetQosInfo 7 (OnSdpReceived ?x 7 (ex_created VOIP)) =
      Some (i\<lparr>objTimer := tm, bWaitAudioDedicatedBearerTimerStarted := b\<rparr>)" if "GetQosInfo 7 ?u = Some i" for i
  proof (cases "IsNeedToStartWaitAudioDedicatedBearerTimer ?x 7 False ?u")
    case True
    then show ?thesis using StartQosTimer_info [OF that] by (simp add: OnSdpReceived_def Let_def)
  next
    case False
    then show ?thesis using that by (cases i) (auto simp: OnSdpReceived_def Let_def)
  qed
  ultimately show ?thesis by (fastforce simp: run_calls_def ex_calls_def ex_created_def)
qed

theorem no_alert_before_peer_witness:
  "\<not> IsAvailableToAlertUser (ex_call VOIP) 7 (run_calls ex_calls (MtcPreconditionManager_new (ex_call VOIP) False))"
proof -
  obtain i where i: "GetQosInfo 7 (run_calls ex_calls (MtcPreconditionManager_new (ex_call VOIP) False)) = Some i"
      "bSupportPrecondition i" "GetRecords TYPE_AUDIO (objStatusTable i) \<noteq> []"
    using ex_reached by blast
  have "list_all reports_nothing ex_calls"
    by (simp add: ex_calls_def reports_nothing_def ex_call_def ex_session_def ex_media_def says_none_def GetMediaDescriptor_def)
  moreover have "IsPreconditionSupported (ex_call VOIP) 7 (run_calls ex_calls (MtcPreconditionManager_new (ex_call VOIP) False))"
    using i by (simp add: IsPreconditionSupported_def) (simp add: ex_call_def)
  moreover have "IsPreconditionIncludedInSdp (cx_session (ex_call VOIP) 7) MEDIATYPE_AUDIO"
    by (simp add: IsPreconditionIncludedInSdp_def ex_call_def ex_session_def ex_media_def helper_descriptor_def IsPreconditionIncluded_def
        MediaDescriptor_GetPrecondition_def HasMatchingRemoteMediaType_def ex_descriptor_def ex_sdp_media_def GetSdpMediaType_def)
  moreover have "MEDIATYPE_AUDIO \<in> set (GetMediaTypeListFromCallType (cx_call_type (ex_call VOIP)))"
    by (simp add: ex_call_def GetMediaTypeListFromCallType_def)
  ultimately show ?thesis
    using no_alert_before_peer [OF _ refl, of ex_calls "ex_call VOIP" 7 "ex_call VOIP" False i MEDIATYPE_AUDIO] i
    by (simp add: GetSdpMediaType_def)
qed





lemma local_update_enabled:
  assumes "well_shaped m t" and "GetDirectionTag m DES STATUS_LOCAL t \<noteq> DIRECTION_NONE"
  shows "IsCurrentStatusEnabled m STATUS_LOCAL (UpdateLocalCurrentStatus m True t)"
proof -
  obtain v where v: "has_view m v t" using assms(1) by (auto simp: well_shaped_def)
  have "desired STATUS_LOCAL (v\<lparr>v_local := d\<rparr>) = desired STATUS_LOCAL v" for d by (simp add: desired_def)
  then show ?thesis
    using UpdateLocalCurrentStatus_view [OF v, of True] assms(2) v
    by (auto simp: IsCurrentStatusEnabled_view local_view_def direction_desired current_def)
qed


text \<open>C22:
  A handover to WLAN tells the listener that the media of the call are reserved, but only for a telephone call is the own current
  status of the table brought up to date; with video or text in the call the table keeps what it
  had, so that the next description still says that nothing is reserved when nothing was.
\<close>

theorem wlan_handover_table:
  assumes "GetQosInfo s w = Some i" and "cx_call_type x \<noteq> CALL_UNKNOWN" and "w1 = handover_to_wlan x s w"
  shows "m_events w1 = m_events w @ [QosReserved s (GetMediaTypesFromCallType (cx_call_type x))]
    \<and> (if cx_call_type x = VOIP
       then well_shaped TYPE_AUDIO (objStatusTable i)
            \<and> GetDirectionTag TYPE_AUDIO DES STATUS_LOCAL (objStatusTable i) \<noteq> DIRECTION_NONE \<longrightarrow>
            IsCurrentStatusEnabled TYPE_AUDIO STATUS_LOCAL (objStatusTable (the (GetQosInfo s w1)))
       else objStatusTable (the (GetQosInfo s w1)) = objStatusTable i)"
proof -
  obtain tm where tm: "GetQosInfo s (StopQosTimer s WAIT_AUDIO_DEDICATED_BEARER (StopQosTimer s WAIT_VIDEO_TEXT_AVAILABLE
      (StopQosTimer s GUARD_AFTER_LOST w))) = Some (i\<lparr>objTimer := tm\<rparr>)"
    using assms(1) by (simp add: StopQosTimer_def)
  have c: "GetMediaTypesFromCallType (cx_call_type x) \<noteq> MEDIATYPE_NONE"
    using assms(2) by (cases "cx_call_type x") (simp_all add: GetMediaTypesFromCallType_def)
  have g: "GetSdpMediaType (GetMediaTypesFromCallType (cx_call_type x)) = (if cx_call_type x = VOIP then TYPE_AUDIO else TYPE_INVALID)"
    using assms(2) by (cases "cx_call_type x") (simp_all add: GetMediaTypesFromCallType_def GetSdpMediaType_def)
  have i: "UpdateLocalCurrentStatus TYPE_INVALID True t = t" for t
    by (simp add: UpdateLocalCurrentStatus_def IsCurrentStatusEnabled_def GetDirectionTag_def FindRecords_def GetRecords_def)
  have "w1 = tell (QosReserved s (GetMediaTypesFromCallType (cx_call_type x)))
      (map_table s (UpdateLocalCurrentStatus (if cx_call_type x = VOIP then TYPE_AUDIO else TYPE_INVALID) True)
        (StopQosTimer s WAIT_AUDIO_DEDICATED_BEARER (StopQosTimer s WAIT_VIDEO_TEXT_AVAILABLE (StopQosTimer s GUARD_AFTER_LOST w))))"
    using c by (simp add: assms(3) handover_to_wlan_def NotifyQosStatusToListener_def g)
  then show ?thesis by (simp add: map_table_def tm i local_update_enabled)
qed


theorem wlan_handover_table_witness:
  "m_events (handover_to_wlan (ex_call VT) 7 (ex_created VT)) = [QosReserved 7 3]
   \<and> objStatusTable (the (GetQosInfo 7 (handover_to_wlan (ex_call VT) 7 (ex_created VT)))) = QosStatusTable_new"
proof -
  have "cx_call_type (ex_call VT) = VT" by (simp add: ex_call_def)
  moreover have "GetMediaTypesFromCallType VT = 3" by (simp add: GetMediaTypesFromCallType_def)
  moreover have "objStatusTable (QosInfo_new\<lparr>bSupportPrecondition := True\<rparr>) = QosStatusTable_new" by (simp add: QosInfo_new_def)
  ultimately show ?thesis
    using wlan_handover_table [OF ex_created_info _ refl, of "ex_call VT" VT] by (simp add: ex_created_rest)
qed

end
