(* ===== verification/CoreMessage.thy ===== *)
theory CoreMessage
  imports SdpOaState
begin

text \<open>
  What the classes of \<open>engine/core\<close> see of SIP: methods, the parsed headers of a message, and the
  connection (client or server transaction) that carries it.
\<close>

datatype SipMethod =
  METHOD_INVALID | METHOD_ACK | METHOD_BYE | METHOD_CANCEL | METHOD_INVITE | METHOD_OPTIONS | METHOD_REGISTER
| METHOD_PRACK | METHOD_SUBSCRIBE | METHOD_NOTIFY | METHOD_UPDATE | METHOD_MESSAGE | METHOD_REFER
| METHOD_PUBLISH | METHOD_INFO | METHOD_UNKNOWN

datatype dialog_state = DIALOG_INIT | DIALOG_TERMINATED | DIALOG_EARLY | DIALOG_CONFIRMED

text \<open>A header field: absent, present but not to be parsed, or parsed.\<close>

datatype 'a header = NO_HEADER | BAD_HEADER | HEADER 'a

text \<open>
  What the components read and write of a message. The value of a Session-Expires or Min-SE header is
  \<open>None\<close> when it is not a number of 32 bits. Of Retry-After only the presence matters.
\<close>

record SessionExpires =
  se_value :: "int option"
  se_refresher :: "AString option"

record SubscriptionState =
  ss_value :: AString
  ss_expires :: "AString option"
  ss_reason :: "AString option"

record RefreshMessage =
  sm_method :: SipMethod
  sm_response :: bool
  sm_status :: int
  sm_session_expires :: "SessionExpires header"
  sm_min_se :: "int option header"
  sm_supported :: "AString list"
  sm_require :: "AString list"
  sm_allow :: "AString list"
  sm_expires :: "int header"
  sm_event :: "AString header"
  sm_subscription_state :: "SubscriptionState header"
  sm_retry_after :: bool

record ISipConnection =
  sc_id :: nat
  sc_message :: "RefreshMessage option"
  sc_dialog :: "dialog_state option"

definition Is1XX :: "int \<Rightarrow> bool" where
  "Is1XX nCode = (100 \<le> nCode \<and> nCode < 200)"

definition IsHeaderPresent :: "'a header \<Rightarrow> bool" where
  "IsHeaderPresent h = (h \<noteq> NO_HEADER)"

definition IsOptionSupported :: "AString \<Rightarrow> RefreshMessage \<Rightarrow> bool" where
  "IsOptionSupported opt m = list_ex (\<lambda>v. v = Some ''*'' \<or> AString_EqualsIgnoreCase opt v) (sm_supported m)"

definition AStringArray_Contains :: "AString \<Rightarrow> AString list \<Rightarrow> bool" where
  "AStringArray_Contains v vs = list_ex (\<lambda>w. AString_EqualsIgnoreCase w v) vs"

end
