(* ===== verification/CallState.thy ===== *)
theory CallState
  imports CoreMessage
begin

text \<open>
  The state of the call of a session (\<open>engine/core/CallState.cpp\<close>): two tables say what a message sent
  or received does to it. \<open>UpdateState\<close> always returns true, so only the state is given back.
\<close>

section \<open>Model\<close>

datatype call_state =
  STATE_INVALID
| STATE_IDLE | STATE_INVITE_SENT | STATE_INVITE_1XX_RECEIVED | STATE_INVITE_2XX_RECEIVED
| STATE_INVITE_NON2XX_RECEIVED | STATE_INVITE_RECEIVED | STATE_INVITE_1XX_SENT
| STATE_INVITE_2XX_SENT | STATE_INVITE_NON2XX_SENT | STATE_REINVITE_SENT
| STATE_REINVITE_1XX_RECEIVED | STATE_REINVITE_2XX_RECEIVED | STATE_REINVITE_NON2XX_RECEIVED
| STATE_REINVITE_RECEIVED | STATE_REINVITE_1XX_SENT | STATE_REINVITE_2XX_SENT
| STATE_REINVITE_NON2XX_SENT | STATE_ESTABLISHED | STATE_INVITE_CANCELLED
| STATE_REINVITE_CANCELLED | STATE_BYE_SENT | STATE_BYE_RECEIVED | STATE_TERMINATED

datatype call_message =
  MESSAGE_INVALID | MESSAGE_INVITE | MESSAGE_CANCEL | MESSAGE_ACK | MESSAGE_BYE | MESSAGE_1XX | MESSAGE_2XX | MESSAGE_NON2XX

datatype call_mode = MODE_SENT | MODE_RECEIVED | MODE_CANCEL_RECEIVED | MODE_BYE_RECEIVED

definition CallState_new :: call_state where
  "CallState_new = STATE_IDLE"

definition s_nStateOnSent :: "call_state \<Rightarrow> call_message \<Rightarrow> call_state" where
  "s_nStateOnSent nState nSipMsg =
     (case nState of
        STATE_IDLE \<Rightarrow> (case nSipMsg of MESSAGE_INVITE \<Rightarrow> STATE_INVITE_SENT
          | _ \<Rightarrow> STATE_INVALID)
      | STATE_INVITE_1XX_RECEIVED \<Rightarrow> (case nSipMsg of MESSAGE_BYE \<Rightarrow> STATE_INVITE_1XX_RECEIVED
          | _ \<Rightarrow> STATE_INVALID)
      | STATE_INVITE_2XX_RECEIVED \<Rightarrow> (case nSipMsg of MESSAGE_ACK \<Rightarrow> STATE_ESTABLISHED
          | _ \<Rightarrow> STATE_INVALID)
      | STATE_INVITE_NON2XX_RECEIVED \<Rightarrow> (case nSipMsg of MESSAGE_ACK \<Rightarrow> STATE_IDLE
          | _ \<Rightarrow> STATE_INVALID)
      | STATE_INVITE_RECEIVED \<Rightarrow> (case nSipMsg of MESSAGE_1XX \<Rightarrow> STATE_INVITE_1XX_SENT
          | MESSAGE_2XX \<Rightarrow> STATE_INVITE_2XX_SENT
          | MESSAGE_NON2XX \<Rightarrow> STATE_INVITE_NON2XX_SENT
          | _ \<Rightarrow> STATE_INVALID)
      | STATE_INVITE_1XX_SENT \<Rightarrow> (case nSipMsg of MESSAGE_1XX \<Rightarrow> STATE_INVITE_1XX_SENT
          | MESSAGE_2XX \<Rightarrow> STATE_INVITE_2XX_SENT
          | MESSAGE_NON2XX \<Rightarrow> STATE_INVITE_NON2XX_SENT
          | _ \<Rightarrow> STATE_INVALID)
      | STATE_INVITE_2XX_SENT \<Rightarrow> (case nSipMsg of MESSAGE_BYE \<Rightarrow> STATE_BYE_SENT
          | _ \<Rightarrow> STATE_INVALID)
      | STATE_REINVITE_SENT \<Rightarrow> (case nSipMsg of MESSAGE_BYE \<Rightarrow> STATE_BYE_SENT
          | _ \<Rightarrow> STATE_INVALID)
      | STATE_REINVITE_1XX_RECEIVED \<Rightarrow> (case nSipMsg of MESSAGE_BYE \<Rightarrow> STATE_BYE_SENT
          | _ \<Rightarrow> STATE_INVALID)
      | STATE_REINVITE_2XX_RECEIVED \<Rightarrow> (case nSipMsg of MESSAGE_ACK \<Rightarrow> STATE_ESTABLISHED
          | _ \<Rightarrow> STATE_INVALID)
      | STATE_REINVITE_NON2XX_RECEIVED \<Rightarrow> (case nSipMsg of MESSAGE_ACK \<Rightarrow> STATE_ESTABLISHED
          | _ \<Rightarrow> STATE_INVALID)
      | STATE_REINVITE_RECEIVED \<Rightarrow> (case nSipMsg of MESSAGE_1XX \<Rightarrow> STATE_REINVITE_1XX_SENT
          | MESSAGE_2XX \<Rightarrow> STATE_REINVITE_2XX_SENT
          | MESSAGE_NON2XX \<Rightarrow> STATE_REINVITE_NON2XX_SENT
          | _ \<Rightarrow> STATE_INVALID)
      | STATE_REINVITE_1XX_SENT \<Rightarrow> (case nSipMsg of MESSAGE_1XX \<Rightarrow> STATE_REINVITE_1XX_SENT
          | MESSAGE_2XX \<Rightarrow> STATE_REINVITE_2XX_SENT
          | MESSAGE_NON2XX \<Rightarrow> STATE_REINVITE_NON2XX_SENT
          | _ \<Rightarrow> STATE_INVALID)
      | STATE_ESTABLISHED \<Rightarrow> (case nSipMsg of MESSAGE_INVITE \<Rightarrow> STATE_REINVITE_SENT
          | MESSAGE_BYE \<Rightarrow> STATE_BYE_SENT
          | _ \<Rightarrow> STATE_INVALID)
      | STATE_INVITE_CANCELLED \<Rightarrow> (case nSipMsg of MESSAGE_2XX \<Rightarrow> STATE_INVITE_2XX_SENT
          | MESSAGE_NON2XX \<Rightarrow> STATE_INVITE_NON2XX_SENT
          | _ \<Rightarrow> STATE_INVALID)
      | STATE_REINVITE_CANCELLED \<Rightarrow> (case nSipMsg of MESSAGE_2XX \<Rightarrow> STATE_REINVITE_2XX_SENT
          | MESSAGE_NON2XX \<Rightarrow> STATE_REINVITE_NON2XX_SENT
          | _ \<Rightarrow> STATE_INVALID)
      | STATE_BYE_RECEIVED \<Rightarrow> (case nSipMsg of MESSAGE_2XX \<Rightarrow> STATE_TERMINATED
          | MESSAGE_NON2XX \<Rightarrow> STATE_ESTABLISHED
          | _ \<Rightarrow> STATE_INVALID)
      | _ \<Rightarrow> STATE_INVALID)"

definition s_nStateOnReceived :: "call_state \<Rightarrow> call_message \<Rightarrow> call_state" where
  "s_nStateOnReceived nState nSipMsg =
     (case nState of
        STATE_IDLE \<Rightarrow> (case nSipMsg of MESSAGE_INVITE \<Rightarrow> STATE_INVITE_RECEIVED
          | _ \<Rightarrow> STATE_INVALID)
      | STATE_INVITE_SENT \<Rightarrow> (case nSipMsg of MESSAGE_1XX \<Rightarrow> STATE_INVITE_1XX_RECEIVED
          | MESSAGE_2XX \<Rightarrow> STATE_INVITE_2XX_RECEIVED
          | MESSAGE_NON2XX \<Rightarrow> STATE_INVITE_NON2XX_RECEIVED
          | _ \<Rightarrow> STATE_INVALID)
      | STATE_INVITE_1XX_RECEIVED \<Rightarrow> (case nSipMsg of MESSAGE_1XX \<Rightarrow> STATE_INVITE_1XX_RECEIVED
          | MESSAGE_2XX \<Rightarrow> STATE_INVITE_2XX_RECEIVED
          | MESSAGE_NON2XX \<Rightarrow> STATE_INVITE_NON2XX_RECEIVED
          | _ \<Rightarrow> STATE_INVALID)
      | STATE_INVITE_2XX_RECEIVED \<Rightarrow> (case nSipMsg of MESSAGE_BYE \<Rightarrow> STATE_BYE_RECEIVED
          | _ \<Rightarrow> STATE_INVALID)
      | STATE_INVITE_RECEIVED \<Rightarrow> (case nSipMsg of MESSAGE_CANCEL \<Rightarrow> STATE_INVITE_CANCELLED
          | _ \<Rightarrow> STATE_INVALID)
      | STATE_INVITE_1XX_SENT \<Rightarrow> (case nSipMsg of MESSAGE_CANCEL \<Rightarrow> STATE_INVITE_CANCELLED
          | MESSAGE_BYE \<Rightarrow> STATE_INVITE_CANCELLED
          | _ \<Rightarrow> STATE_INVALID)
      | STATE_INVITE_2XX_SENT \<Rightarrow> (case nSipMsg of MESSAGE_CANCEL \<Rightarrow> STATE_INVITE_2XX_SENT
          | MESSAGE_ACK \<Rightarrow> STATE_ESTABLISHED
          | MESSAGE_BYE \<Rightarrow> STATE_INVITE_2XX_SENT
          | _ \<Rightarrow> STATE_INVALID)
      | STATE_INVITE_NON2XX_SENT \<Rightarrow> (case nSipMsg of MESSAGE_CANCEL \<Rightarrow> STATE_INVITE_NON2XX_SENT
          | MESSAGE_ACK \<Rightarrow> STATE_IDLE
          | MESSAGE_BYE \<Rightarrow> STATE_INVITE_NON2XX_SENT
          | _ \<Rightarrow> STATE_INVALID)
      | STATE_REINVITE_SENT \<Rightarrow> (case nSipMsg of MESSAGE_BYE \<Rightarrow> STATE_BYE_RECEIVED
          | MESSAGE_1XX \<Rightarrow> STATE_REINVITE_1XX_RECEIVED
          | MESSAGE_2XX \<Rightarrow> STATE_REINVITE_2XX_RECEIVED
          | MESSAGE_NON2XX \<Rightarrow> STATE_REINVITE_NON2XX_RECEIVED
          | _ \<Rightarrow> STATE_INVALID)
      | STATE_REINVITE_1XX_RECEIVED \<Rightarrow> (case nSipMsg of MESSAGE_BYE \<Rightarrow> STATE_BYE_RECEIVED
          | MESSAGE_1XX \<Rightarrow> STATE_REINVITE_1XX_RECEIVED
          | MESSAGE_2XX \<Rightarrow> STATE_REINVITE_2XX_RECEIVED
          | MESSAGE_NON2XX \<Rightarrow> STATE_REINVITE_NON2XX_RECEIVED
          | _ \<Rightarrow> STATE_INVALID)
      | STATE_REINVITE_2XX_RECEIVED \<Rightarrow> (case nSipMsg of MESSAGE_BYE \<Rightarrow> STATE_BYE_RECEIVED
          | _ \<Rightarrow> STATE_INVALID)
      | STATE_REINVITE_NON2XX_RECEIVED \<Rightarrow> (case nSipMsg of MESSAGE_BYE \<Rightarrow> STATE_BYE_RECEIVED
          | _ \<Rightarrow> STATE_INVALID)
      | STATE_REINVITE_RECEIVED \<Rightarrow> (case nSipMsg of MESSAGE_CANCEL \<Rightarrow> STATE_REINVITE_CANCELLED
          | MESSAGE_BYE \<Rightarrow> STATE_BYE_RECEIVED
          | _ \<Rightarrow> STATE_INVALID)
      | STATE_REINVITE_1XX_SENT \<Rightarrow> (case nSipMsg of MESSAGE_CANCEL \<Rightarrow> STATE_REINVITE_CANCELLED
          | MESSAGE_BYE \<Rightarrow> STATE_BYE_RECEIVED
          | _ \<Rightarrow> STATE_INVALID)
      | STATE_REINVITE_2XX_SENT \<Rightarrow> (case nSipMsg of MESSAGE_CANCEL \<Rightarrow> STATE_REINVITE_2XX_SENT
          | MESSAGE_ACK \<Rightarrow> STATE_ESTABLISHED
          | MESSAGE_BYE \<Rightarrow> STATE_REINVITE_2XX_SENT
          | _ \<Rightarrow> STATE_INVALID)
      | STATE_REINVITE_NON2XX_SENT \<Rightarrow> (case nSipMsg of MESSAGE_CANCEL \<Rightarrow> STATE_REINVITE_NON2XX_SENT
          | MESSAGE_ACK \<Rightarrow> STATE_ESTABLISHED
          | MESSAGE_BYE \<Rightarrow> STATE_REINVITE_NON2XX_SENT
          | _ \<Rightarrow> STATE_INVALID)
      | STATE_ESTABLISHED \<Rightarrow> (case nSipMsg of MESSAGE_INVITE \<Rightarrow> STATE_REINVITE_RECEIVED
          | MESSAGE_CANCEL \<Rightarrow> STATE_ESTABLISHED
          | MESSAGE_ACK \<Rightarrow> STATE_ESTABLISHED
          | MESSAGE_BYE \<Rightarrow> STATE_BYE_RECEIVED
          | _ \<Rightarrow> STATE_INVALID)
      | STATE_INVITE_CANCELLED \<Rightarrow> (case nSipMsg of MESSAGE_CANCEL \<Rightarrow> STATE_INVITE_CANCELLED
          | MESSAGE_BYE \<Rightarrow> STATE_INVITE_CANCELLED
          | _ \<Rightarrow> STATE_INVALID)
      | STATE_BYE_SENT \<Rightarrow> (case nSipMsg of MESSAGE_ACK \<Rightarrow> STATE_BYE_SENT
          | MESSAGE_BYE \<Rightarrow> STATE_BYE_RECEIVED
          | MESSAGE_2XX \<Rightarrow> STATE_TERMINATED
          | MESSAGE_NON2XX \<Rightarrow> STATE_ESTABLISHED
          | _ \<Rightarrow> STATE_INVALID)
      | _ \<Rightarrow> STATE_INVALID)"

definition TranslateMessage :: "RefreshMessage \<Rightarrow> call_message" where
  "TranslateMessage m =
     (if \<not> sm_response m
      then (case sm_method m of METHOD_INVITE \<Rightarrow> MESSAGE_INVITE | METHOD_CANCEL \<Rightarrow> MESSAGE_CANCEL
            | METHOD_ACK \<Rightarrow> MESSAGE_ACK | METHOD_BYE \<Rightarrow> MESSAGE_BYE | _ \<Rightarrow> MESSAGE_INVALID)
      else if sm_method m \<noteq> METHOD_INVITE \<and> sm_method m \<noteq> METHOD_CANCEL \<and> sm_method m \<noteq> METHOD_ACK
              \<and> sm_method m \<noteq> METHOD_BYE then MESSAGE_INVALID
      else if Is1XX (sm_status m) then MESSAGE_1XX
      else if IsFinalSuccess (sm_status m) then MESSAGE_2XX
      else MESSAGE_NON2XX)"

definition CallState_UpdateState :: "RefreshMessage \<Rightarrow> call_mode \<Rightarrow> call_state \<Rightarrow> call_state" where
  "CallState_UpdateState m nMode s =
     (let nSipMsg = TranslateMessage m
      in if nSipMsg = MESSAGE_INVALID then s
         else if sm_response m \<and> (sm_method m = METHOD_CANCEL
                 \<or> sm_method m = METHOD_BYE \<and> s \<noteq> STATE_BYE_SENT \<and> s \<noteq> STATE_BYE_RECEIVED) then s
         else if nMode = MODE_SENT then
           (if s_nStateOnSent s nSipMsg \<noteq> STATE_INVALID then
              (let s = s_nStateOnSent s nSipMsg
               in if s = STATE_REINVITE_NON2XX_SENT \<and> s_nStateOnReceived s MESSAGE_ACK \<noteq> STATE_INVALID
                  then s_nStateOnReceived s MESSAGE_ACK else s)
            else s)
         else if nMode = MODE_RECEIVED then
           (if s_nStateOnReceived s nSipMsg \<noteq> STATE_INVALID then
              (let s = s_nStateOnReceived s nSipMsg
               in if (s = STATE_INVITE_NON2XX_RECEIVED \<or> s = STATE_REINVITE_NON2XX_RECEIVED)
                     \<and> s_nStateOnSent s MESSAGE_ACK \<noteq> STATE_INVALID
                  then s_nStateOnSent s MESSAGE_ACK else s)
            else s)
         else s)"

section \<open>Two ends of a call\<close>

text \<open>
  A conversation over a network that delivers at once: an INVITE outside a call makes a new session at
  the other end; what an end may send follows RFC 3261, except that a BYE does not overtake a
  re-INVITE that is not yet answered. Any response to CANCEL, BYE or another method may come at any
  time, a final response to an INVITE only while it is open.
\<close>

definition invite_open :: "call_state \<Rightarrow> bool" where
  "invite_open s = (s \<in> {STATE_INVITE_RECEIVED, STATE_INVITE_1XX_SENT, STATE_INVITE_CANCELLED,
     STATE_REINVITE_RECEIVED, STATE_REINVITE_1XX_SENT, STATE_REINVITE_CANCELLED})"

definition may_send :: "call_state \<Rightarrow> RefreshMessage \<Rightarrow> bool" where
  "may_send s m =
     (if sm_response m then
        (case sm_method m of METHOD_INVITE \<Rightarrow> invite_open s | METHOD_ACK \<Rightarrow> False | _ \<Rightarrow> True)
      else
        (case sm_method m of
           METHOD_INVITE \<Rightarrow> s \<in> {STATE_IDLE, STATE_ESTABLISHED}
         | METHOD_CANCEL \<Rightarrow> s \<in> {STATE_INVITE_SENT, STATE_INVITE_1XX_RECEIVED, STATE_REINVITE_SENT,
             STATE_REINVITE_1XX_RECEIVED}
         | METHOD_ACK \<Rightarrow> s \<in> {STATE_INVITE_2XX_RECEIVED, STATE_REINVITE_2XX_RECEIVED, STATE_ESTABLISHED}
         | METHOD_BYE \<Rightarrow> s \<in> {STATE_INVITE_1XX_RECEIVED, STATE_INVITE_2XX_SENT, STATE_ESTABLISHED}
         | _ \<Rightarrow> True))"

definition receiver :: "call_state \<Rightarrow> RefreshMessage \<Rightarrow> call_state \<Rightarrow> call_state" where
  "receiver a m b =
     (if a = STATE_IDLE \<and> TranslateMessage m = MESSAGE_INVITE then CallState_new else b)"

inductive conversation :: "call_state \<Rightarrow> call_state \<Rightarrow> bool" where
  start: "conversation CallState_new CallState_new"
| left: "conversation a b \<Longrightarrow> may_send a m \<Longrightarrow>
     conversation (CallState_UpdateState m MODE_SENT a) (CallState_UpdateState m MODE_RECEIVED (receiver a m b))"
| right: "conversation a b \<Longrightarrow> may_send b m \<Longrightarrow>
     conversation (CallState_UpdateState m MODE_RECEIVED (receiver b m a)) (CallState_UpdateState m MODE_SENT b)"

text \<open>The states of the end that was called, given the state of the caller.\<close>

definition called_states :: "call_state \<Rightarrow> call_state set" where
  "called_states a =
     (case a of
        STATE_IDLE \<Rightarrow> {STATE_IDLE, STATE_INVITE_NON2XX_SENT}
      | STATE_INVITE_SENT \<Rightarrow> {STATE_INVITE_RECEIVED, STATE_INVITE_CANCELLED}
      | STATE_INVITE_1XX_RECEIVED \<Rightarrow> {STATE_INVITE_1XX_SENT, STATE_INVITE_CANCELLED}
      | STATE_INVITE_2XX_RECEIVED \<Rightarrow> {STATE_INVITE_2XX_SENT}
      | STATE_REINVITE_SENT \<Rightarrow> {STATE_REINVITE_RECEIVED, STATE_REINVITE_CANCELLED}
      | STATE_REINVITE_1XX_RECEIVED \<Rightarrow> {STATE_REINVITE_1XX_SENT, STATE_REINVITE_CANCELLED}
      | STATE_REINVITE_2XX_RECEIVED \<Rightarrow> {STATE_REINVITE_2XX_SENT}
      | STATE_ESTABLISHED \<Rightarrow> {STATE_ESTABLISHED}
      | STATE_BYE_SENT \<Rightarrow> {STATE_BYE_RECEIVED}
      | STATE_TERMINATED \<Rightarrow> {STATE_TERMINATED}
      | _ \<Rightarrow> {})"

definition mirrored :: "call_state \<Rightarrow> call_state \<Rightarrow> bool" where
  "mirrored a b = (b \<in> called_states a \<or> a \<in> called_states b)"

lemma mirrored_sym: "mirrored a b = mirrored b a"
  by (auto simp: mirrored_def)

text \<open>What matters of a message: whether it answers a BYE, and its place in the tables.\<close>

definition call_update :: "bool \<Rightarrow> call_message \<Rightarrow> call_mode \<Rightarrow> call_state \<Rightarrow> call_state" where
  "call_update bye k md s =
     (if bye \<and> s \<noteq> STATE_BYE_SENT \<and> s \<noteq> STATE_BYE_RECEIVED then s
      else if md = MODE_SENT then
        (case s_nStateOnSent s k of STATE_INVALID \<Rightarrow> s | STATE_REINVITE_NON2XX_SENT \<Rightarrow> STATE_ESTABLISHED | t \<Rightarrow> t)
      else
        (case s_nStateOnReceived s k of STATE_INVALID \<Rightarrow> s | STATE_INVITE_NON2XX_RECEIVED \<Rightarrow> STATE_IDLE
         | STATE_REINVITE_NON2XX_RECEIVED \<Rightarrow> STATE_ESTABLISHED | t \<Rightarrow> t))"

lemma UpdateState_ignored:
  "TranslateMessage m = MESSAGE_INVALID \<or> sm_response m \<and> sm_method m = METHOD_CANCEL \<Longrightarrow>
   CallState_UpdateState m md s = s"
  by (auto simp: CallState_UpdateState_def Let_def)

lemma UpdateState_call_update:
  assumes "\<not> (TranslateMessage m = MESSAGE_INVALID \<or> sm_response m \<and> sm_method m = METHOD_CANCEL)"
    and "md = MODE_SENT \<or> md = MODE_RECEIVED"
  shows "CallState_UpdateState m md s = call_update (sm_response m \<and> sm_method m = METHOD_BYE) (TranslateMessage m) md s"
proof -
  have a: "s_nStateOnReceived STATE_REINVITE_NON2XX_SENT MESSAGE_ACK = STATE_ESTABLISHED"
    "s_nStateOnSent STATE_INVITE_NON2XX_RECEIVED MESSAGE_ACK = STATE_IDLE"
    "s_nStateOnSent STATE_REINVITE_NON2XX_RECEIVED MESSAGE_ACK = STATE_ESTABLISHED"
    by (simp_all add: s_nStateOnSent_def s_nStateOnReceived_def)
  show ?thesis
  proof (cases "sm_response m \<and> sm_method m = METHOD_BYE \<and> s \<noteq> STATE_BYE_SENT \<and> s \<noteq> STATE_BYE_RECEIVED")
    case True
    then show ?thesis by (simp add: CallState_UpdateState_def call_update_def Let_def)
  next
    case False
    have g: "TranslateMessage m \<noteq> MESSAGE_INVALID"
      "\<not> (sm_response m \<and> (sm_method m = METHOD_CANCEL
          \<or> sm_method m = METHOD_BYE \<and> s \<noteq> STATE_BYE_SENT \<and> s \<noteq> STATE_BYE_RECEIVED))"
      using assms(1) False by blast+
    have sent: "call_update bye k MODE_SENT s = (if s_nStateOnSent s k = STATE_INVALID then s
        else if s_nStateOnSent s k = STATE_REINVITE_NON2XX_SENT then STATE_ESTABLISHED else s_nStateOnSent s k)"
      if "\<not> (bye \<and> s \<noteq> STATE_BYE_SENT \<and> s \<noteq> STATE_BYE_RECEIVED)" for bye k
      using that by (cases "s_nStateOnSent s k") (simp_all only: call_update_def call_state.case call_state.distinct
          if_False if_True simp_thms refl)
    have received: "call_update bye k MODE_RECEIVED s = (if s_nStateOnReceived s k = STATE_INVALID then s
        else if s_nStateOnReceived s k = STATE_INVITE_NON2XX_RECEIVED then STATE_IDLE
        else if s_nStateOnReceived s k = STATE_REINVITE_NON2XX_RECEIVED then STATE_ESTABLISHED else s_nStateOnReceived s k)"
      if "\<not> (bye \<and> s \<noteq> STATE_BYE_SENT \<and> s \<noteq> STATE_BYE_RECEIVED)" for bye k
      using that by (cases "s_nStateOnReceived s k") (simp_all only: call_update_def call_state.case call_state.distinct
          call_mode.distinct if_False if_True simp_thms refl)
    show ?thesis
      using assms(2)
    proof
      assume md: "md = MODE_SENT"
      have "CallState_UpdateState m MODE_SENT s = (if s_nStateOnSent s (TranslateMessage m) = STATE_INVALID then s
          else if s_nStateOnSent s (TranslateMessage m) = STATE_REINVITE_NON2XX_SENT then STATE_ESTABLISHED
          else s_nStateOnSent s (TranslateMessage m))"
        unfolding CallState_UpdateState_def Let_def if_not_P [OF g(1)] if_not_P [OF g(2)] by (simp add: a)
      then show ?thesis using sent [of "sm_response m \<and> sm_method m = METHOD_BYE" "TranslateMessage m"] False md by simp
    next
      assume md: "md = MODE_RECEIVED"
      have "CallState_UpdateState m MODE_RECEIVED s = (if s_nStateOnReceived s (TranslateMessage m) = STATE_INVALID then s
          else if s_nStateOnReceived s (TranslateMessage m) = STATE_INVITE_NON2XX_RECEIVED then STATE_IDLE
          else if s_nStateOnReceived s (TranslateMessage m) = STATE_REINVITE_NON2XX_RECEIVED then STATE_ESTABLISHED
          else s_nStateOnReceived s (TranslateMessage m))"
        unfolding CallState_UpdateState_def Let_def if_not_P [OF g(1)] if_not_P [OF g(2)] by (simp add: a)
      then show ?thesis using received [of "sm_response m \<and> sm_method m = METHOD_BYE" "TranslateMessage m"] False md by simp
    qed
  qed
qed

definition sendable :: "bool \<Rightarrow> call_message \<Rightarrow> call_state \<Rightarrow> bool" where
  "sendable bye k s =
     (case k of
        MESSAGE_INVITE \<Rightarrow> s \<in> {STATE_IDLE, STATE_ESTABLISHED}
      | MESSAGE_CANCEL \<Rightarrow> s \<in> {STATE_INVITE_SENT, STATE_INVITE_1XX_RECEIVED, STATE_REINVITE_SENT,
          STATE_REINVITE_1XX_RECEIVED}
      | MESSAGE_ACK \<Rightarrow> s \<in> {STATE_INVITE_2XX_RECEIVED, STATE_REINVITE_2XX_RECEIVED, STATE_ESTABLISHED}
      | MESSAGE_BYE \<Rightarrow> s \<in> {STATE_INVITE_1XX_RECEIVED, STATE_INVITE_2XX_SENT, STATE_ESTABLISHED}
      | MESSAGE_INVALID \<Rightarrow> False
      | _ \<Rightarrow> bye \<or> invite_open s)"

lemma may_send_sendable:
  assumes "may_send s m" and "\<not> (TranslateMessage m = MESSAGE_INVALID \<or> sm_response m \<and> sm_method m = METHOD_CANCEL)"
  shows "sendable (sm_response m \<and> sm_method m = METHOD_BYE) (TranslateMessage m) s"
proof (cases "sm_response m")
  case True
  then show ?thesis
    using assms by (cases "sm_method m") (auto simp: may_send_def sendable_def TranslateMessage_def)
next
  case False
  then show ?thesis
    using assms by (cases "sm_method m") (auto simp: may_send_def sendable_def TranslateMessage_def)
qed

lemmas call_tables = call_update_def s_nStateOnSent_def s_nStateOnReceived_def sendable_def invite_open_def

lemma caller_sends:
  "b \<in> called_states a \<Longrightarrow> sendable bye k a \<Longrightarrow>
   mirrored (call_update bye k MODE_SENT a)
     (call_update bye k MODE_RECEIVED (if a = STATE_IDLE \<and> k = MESSAGE_INVITE then STATE_IDLE else b))"
  by (cases a; cases k; simp add: called_states_def sendable_def invite_open_def)
    (auto simp: call_tables mirrored_def called_states_def)

lemma called_sends:
  "b \<in> called_states a \<Longrightarrow> sendable bye k b \<Longrightarrow>
   mirrored (call_update bye k MODE_SENT b)
     (call_update bye k MODE_RECEIVED (if b = STATE_IDLE \<and> k = MESSAGE_INVITE then STATE_IDLE else a))"
  by (cases a; cases k; simp add: called_states_def sendable_def invite_open_def)
    (auto simp: call_tables mirrored_def called_states_def)

lemma mirrored_step:
  assumes "mirrored a b" and "may_send a m"
  shows "mirrored (CallState_UpdateState m MODE_SENT a) (CallState_UpdateState m MODE_RECEIVED (receiver a m b))"
proof (cases "TranslateMessage m = MESSAGE_INVALID \<or> sm_response m \<and> sm_method m = METHOD_CANCEL")
  case True
  then have "receiver a m b = b" by (auto simp: receiver_def TranslateMessage_def)
  then show ?thesis using assms(1) True by (simp only: UpdateState_ignored)
next
  case False
  note s = may_send_sendable [OF assms(2) False]
  show ?thesis
    using caller_sends [OF _ s, of b] called_sends [OF _ s, of b] assms(1)
    unfolding mirrored_def [of a b] UpdateState_call_update [OF False disjI1 [OF refl]]
      UpdateState_call_update [OF False disjI2 [OF refl]] receiver_def CallState_new_def
    by blast
qed

section \<open>Correctness\<close>

definition call_message :: "SipMethod \<Rightarrow> bool \<Rightarrow> int \<Rightarrow> RefreshMessage" where
  "call_message meth response status =
     \<lparr> sm_method = meth, sm_response = response, sm_status = status, sm_session_expires = NO_HEADER,
       sm_min_se = NO_HEADER, sm_supported = [], sm_require = [], sm_allow = [],
       sm_expires = NO_HEADER, sm_event = NO_HEADER, sm_subscription_state = NO_HEADER, sm_retry_after = False \<rparr>"

lemma call_message_simps [simp]:
  "sm_method (call_message meth response status) = meth" "sm_response (call_message meth response status) = response"
  "sm_status (call_message meth response status) = status"
  by (simp_all add: call_message_def)

lemma conversation_mirrored: "conversation a b \<Longrightarrow> mirrored a b"
proof (induction rule: conversation.induct)
  case start
  show ?case by (simp add: mirrored_def called_states_def CallState_new_def)
next
  case (left a b m)
  then show ?case by (simp add: mirrored_step)
next
  case (right a b m)
  then show ?case using mirrored_step [of b a m] by (simp add: mirrored_sym)
qed

lemma mirrored_same:
  "mirrored a b \<Longrightarrow> (a = STATE_ESTABLISHED) = (b = STATE_ESTABLISHED) \<and> (a = STATE_TERMINATED) = (b = STATE_TERMINATED)
    \<and> a \<noteq> STATE_INVALID \<and> b \<noteq> STATE_INVALID"
  unfolding mirrored_def by (elim disjE; simp add: called_states_def split: call_state.splits; blast)

text \<open>C16:
  The two ends of a call agree. In a conversation over a network that delivers at once, in which no
  BYE overtakes an open re-INVITE, the state of each end is always one of those that mirror the other
  one: one end is in a call or has ended it exactly when the other has, requests and responses of an
  INVITE are open at both ends in opposite directions, and no table entry is missing.
\<close>

theorem call_ends_mirrored:
  assumes "conversation a b"
  shows "mirrored a b \<and> (a = STATE_ESTABLISHED) = (b = STATE_ESTABLISHED)
    \<and> (a = STATE_TERMINATED) = (b = STATE_TERMINATED) \<and> a \<noteq> STATE_INVALID \<and> b \<noteq> STATE_INVALID"
  using conversation_mirrored [OF assms] mirrored_same by blast

lemma example_conversation: "conversation STATE_INVITE_2XX_RECEIVED STATE_INVITE_2XX_SENT"
proof -
  let ?inv = "call_message METHOD_INVITE False 0"
  have "conversation STATE_INVITE_SENT STATE_INVITE_RECEIVED"
    using conversation.left [OF conversation.start, of ?inv]
    by (simp add: CallState_UpdateState_def TranslateMessage_def may_send_def receiver_def CallState_new_def
        s_nStateOnSent_def s_nStateOnReceived_def)
  from conversation.right [OF this, of "call_message METHOD_INVITE True 200"] show ?thesis
    by (simp add: CallState_UpdateState_def TranslateMessage_def may_send_def receiver_def CallState_new_def
        s_nStateOnSent_def s_nStateOnReceived_def invite_open_def Is1XX_def IsFinalSuccess_def)
qed

theorem call_ends_mirrored_witness: "mirrored STATE_INVITE_2XX_RECEIVED STATE_INVITE_2XX_SENT"
  using call_ends_mirrored [OF example_conversation] by simp

text \<open>Messages exchanged one after the other; true says that the left end sends.\<close>

fun call_run :: "(bool \<times> RefreshMessage) list \<Rightarrow> call_state \<times> call_state \<Rightarrow> call_state \<times> call_state" where
  "call_run [] (a, b) = (a, b)"
| "call_run ((lft, m) # ms) (a, b) =
     call_run ms (CallState_UpdateState m (if lft then MODE_SENT else MODE_RECEIVED) a,
                  CallState_UpdateState m (if lft then MODE_RECEIVED else MODE_SENT) b)"

text \<open>C17:
  A BYE that overtakes an open re-INVITE. If the other end answers the BYE before the re-INVITE, both
  ends terminate. If it refuses the re-INVITE first, each end takes that response for the one to the
  BYE, since only the status of a response is looked at: both are back in the call, and the 2xx of the
  BYE changes nothing.
\<close>

theorem bye_overtakes_reinvite:
  assumes "a \<in> {STATE_REINVITE_SENT, STATE_REINVITE_1XX_RECEIVED}"
    and "b \<in> {STATE_REINVITE_RECEIVED, STATE_REINVITE_1XX_SENT}"
    and "\<not> sm_response bye" and "sm_method bye = METHOD_BYE"
    and "sm_response refused" and "sm_method refused = METHOD_INVITE" and "300 \<le> sm_status refused"
    and "sm_response answer" and "sm_method answer = METHOD_BYE" and "IsFinalSuccess (sm_status answer)"
  shows "call_run [(True, bye), (False, answer), (False, refused)] (a, b) = (STATE_TERMINATED, STATE_TERMINATED)
    \<and> call_run [(True, bye), (False, refused), (False, answer)] (a, b) = (STATE_ESTABLISHED, STATE_ESTABLISHED)"
proof -
  have t: "TranslateMessage bye = MESSAGE_BYE" "TranslateMessage refused = MESSAGE_NON2XX"
    "TranslateMessage answer = MESSAGE_2XX"
    using assms(3-10) by (auto simp: TranslateMessage_def Is1XX_def IsFinalSuccess_def)
  have "(CallState_UpdateState bye MODE_SENT a, CallState_UpdateState bye MODE_RECEIVED b) = (STATE_BYE_SENT, STATE_BYE_RECEIVED)"
    using assms(1-4) by (auto simp: CallState_UpdateState_def t s_nStateOnSent_def s_nStateOnReceived_def)
  then show ?thesis
    using assms(5-9) by (simp add: CallState_UpdateState_def t s_nStateOnSent_def s_nStateOnReceived_def)
qed

theorem bye_overtakes_reinvite_witness:
  "call_run [(True, call_message METHOD_BYE False 0), (False, call_message METHOD_INVITE True 487),
      (False, call_message METHOD_BYE True 200)] (STATE_REINVITE_SENT, STATE_REINVITE_RECEIVED)
    = (STATE_ESTABLISHED, STATE_ESTABLISHED)"
  using bye_overtakes_reinvite [of STATE_REINVITE_SENT STATE_REINVITE_RECEIVED "call_message METHOD_BYE False 0"
      "call_message METHOD_INVITE True 487" "call_message METHOD_BYE True 200"]
  by (simp add: IsFinalSuccess_def)

end
