(* ===== verification/RefreshHelper.thy ===== *)
theory RefreshHelper
  imports CoreMessage "HOL-Library.Signed_Division"
begin

text \<open>
  The refresh of a session, subscription or publication (\<open>engine/core/util/RefreshHelper.cpp\<close>): one
  timer that is armed when a duration has been agreed, the request under way, and the listener that
  is told when to refresh and when the time is over. Integers are those of the code; where an
  operation can leave 32 bits it wraps (\<open>s32\<close>), and division is that of C++.
\<close>

definition s32 :: "int \<Rightarrow> int" where
  "s32 n = (n + 2 ^ 31) mod 2 ^ 32 - 2 ^ 31"

lemma s32_id [simp]: "- (2 ^ 31) \<le> n \<Longrightarrow> n < 2 ^ 31 \<Longrightarrow> s32 n = n"
  by (simp add: s32_def)

section \<open>State\<close>

datatype refresh_policy = POLICY_NO_REFRESH | POLICY_SPEC | POLICY_REMAIN_TIME | POLICY_RATIO

datatype refresh_event =
  REFRESH_COMPLETED nat int | REFRESH_STARTED | REFRESH_TERMINATED | REQUEST_SENT nat
  | CONNECTION_CLOSED nat

text \<open>
  What the helper calls: the configuration of the service, timers and connections, and the listener.
  \<open>env_AdjustMessage\<close> is the application's message mediator, if there is one.
\<close>

record SipConfigV =
  GetSessionExpires :: int
  GetSessionRefresher :: nat
  GetSessionHeaders :: "32 word"
  GetSessionMinSe :: int
  GetSessionUpdatePreferred :: bool
  IsSessionTimerConfigured :: bool

record RefreshEnv =
  env_SipConfigV :: "SipConfigV option"
  env_TimerValueB :: int
  env_TimerValueF :: int
  env_TimerValueT1 :: int
  env_UpdateByReInvite :: bool
  env_CreateTimer :: bool
  env_SetHeader :: bool
  env_Send :: bool
  env_AdjustMessage :: "RefreshMessage \<Rightarrow> RefreshMessage"
  env_RefreshStarted :: bool

text \<open>A timer is its number and the seconds it was set to; \<open>m_aEvents\<close> collects what was called.\<close>

record RefreshHelper =
  m_bRefreshable :: bool
  m_nPolicy :: refresh_policy
  m_nCriteriaInterval :: int
  m_nValueEorLt :: int
  m_nValueGt :: int
  m_bRepeatable :: bool
  m_nDuration :: int
  m_nRemainDuration :: int
  m_piTimer :: "(nat \<times> int) option"
  m_piRefreshSc :: "nat option"
  m_nNextTimer :: nat
  m_aEvents :: "refresh_event list"

definition RefreshHelper_new :: "bool \<Rightarrow> bool \<Rightarrow> RefreshHelper" where
  "RefreshHelper_new bRefreshable bRepeatable =
     \<lparr> m_bRefreshable = bRefreshable, m_nPolicy = POLICY_SPEC, m_nCriteriaInterval = 1200,
       m_nValueEorLt = 50, m_nValueGt = 600, m_bRepeatable = bRepeatable, m_nDuration = 0,
       m_nRemainDuration = 0, m_piTimer = None, m_piRefreshSc = None, m_nNextTimer = 0, m_aEvents = [] \<rparr>"

definition note_event :: "refresh_event \<Rightarrow> 'a RefreshHelper_scheme \<Rightarrow> 'a RefreshHelper_scheme" where
  "note_event e s = s\<lparr>m_aEvents := m_aEvents s @ [e]\<rparr>"

definition IsTimerActive :: "'a RefreshHelper_scheme \<Rightarrow> bool" where
  "IsTimerActive s = (m_piTimer s \<noteq> None)"

definition IsRequestPending :: "'a RefreshHelper_scheme \<Rightarrow> bool" where
  "IsRequestPending s = (m_piRefreshSc s \<noteq> None)"

definition SetPolicy :: "refresh_policy \<Rightarrow> int \<Rightarrow> int \<Rightarrow> int \<Rightarrow> 'a RefreshHelper_scheme
    \<Rightarrow> 'a RefreshHelper_scheme" where
  "SetPolicy nPolicy nCriteriaInterval nValueEorLt nValueGt s =
     s\<lparr>m_nPolicy := nPolicy, m_nCriteriaInterval := nCriteriaInterval, m_nValueEorLt := nValueEorLt,
       m_nValueGt := nValueGt\<rparr>"

definition SetDuration :: "int \<Rightarrow> 'a RefreshHelper_scheme \<Rightarrow> 'a RefreshHelper_scheme" where
  "SetDuration nDuration s = s\<lparr>m_nDuration := nDuration\<rparr>"

section \<open>Operations\<close>

definition SetConnection :: "nat option \<Rightarrow> 'a RefreshHelper_scheme \<Rightarrow> 'a RefreshHelper_scheme" where
  "SetConnection piScc s =
     (let s = (case m_piRefreshSc s of None \<Rightarrow> s | Some c \<Rightarrow> note_event (CONNECTION_CLOSED c) s)
      in s\<lparr>m_piRefreshSc := piScc\<rparr>)"

definition AbortConnection :: "'a RefreshHelper_scheme \<Rightarrow> 'a RefreshHelper_scheme" where
  "AbortConnection = SetConnection None"

definition Refreshable_RefreshCompleted :: "nat \<Rightarrow> int \<Rightarrow> 'a RefreshHelper_scheme \<Rightarrow> 'a RefreshHelper_scheme" where
  "Refreshable_RefreshCompleted piScc nCode s =
     (if m_bRefreshable s then note_event (REFRESH_COMPLETED piScc nCode) s else s)"

definition Refreshable_RefreshStarted :: "RefreshEnv \<Rightarrow> 'a RefreshHelper_scheme \<Rightarrow> bool \<times> 'a RefreshHelper_scheme" where
  "Refreshable_RefreshStarted env s =
     (if m_bRefreshable s then (env_RefreshStarted env, note_event REFRESH_STARTED s) else (False, s))"

definition Refreshable_RefreshTerminated :: "'a RefreshHelper_scheme \<Rightarrow> 'a RefreshHelper_scheme" where
  "Refreshable_RefreshTerminated s = (if m_bRefreshable s then note_event REFRESH_TERMINATED s else s)"

definition RefreshHelper_GetTimerInterval :: "'a RefreshHelper_scheme \<Rightarrow> int" where
  "RefreshHelper_GetTimerInterval s =
     (let nExpirationTime = m_nDuration s; long = (nExpirationTime > m_nCriteriaInterval s);
          ratio = (\<lambda>v. s32 (nExpirationTime * v) sdiv 100)
      in case m_nPolicy s of
           POLICY_SPEC \<Rightarrow>
             if long then s32 (nExpirationTime - m_nValueGt s) else ratio (m_nValueEorLt s)
         | POLICY_REMAIN_TIME \<Rightarrow>
             if long then s32 (nExpirationTime - m_nValueGt s) else s32 (nExpirationTime - m_nValueEorLt s)
         | POLICY_RATIO \<Rightarrow> if long then ratio (m_nValueGt s) else ratio (m_nValueEorLt s)
         | POLICY_NO_REFRESH \<Rightarrow> nExpirationTime sdiv 2)"

text \<open>
  The timer service is asked to wait \<open>nTimerDuration * 1000L\<close> milliseconds, a product of 64 bits, which
  never wraps for a duration of 32 bits (\<open>timer_milliseconds_exact\<close>). The state keeps the seconds.
\<close>

definition timer_milliseconds :: "int \<Rightarrow> int" where
  "timer_milliseconds nTimerDuration = signed_take_bit 63 (nTimerDuration * 1000)"

lemma timer_milliseconds_exact:
  "- (2 ^ 31) \<le> n \<Longrightarrow> n < 2 ^ 31 \<Longrightarrow> timer_milliseconds n = n * 1000"
  by (simp add: timer_milliseconds_def signed_take_bit_int_eq_self)

definition SetTimer :: "RefreshEnv \<Rightarrow> int \<Rightarrow> 'a RefreshHelper_scheme \<Rightarrow> bool \<times> 'a RefreshHelper_scheme" where
  "SetTimer env nTimerDuration s =
     (if env_CreateTimer env
      then (True, s\<lparr>m_piTimer := Some (m_nNextTimer s, nTimerDuration), m_nNextTimer := m_nNextTimer s + 1\<rparr>)
      else (False, s\<lparr>m_piTimer := None\<rparr>))"

definition StopRefresh :: "'a RefreshHelper_scheme \<Rightarrow> 'a RefreshHelper_scheme" where
  "StopRefresh s = s\<lparr>m_piTimer := None\<rparr>"

text \<open>\<open>GetTimerInterval\<close> is virtual: it is the first argument.\<close>

definition StartRefresh :: "('a RefreshHelper_scheme \<Rightarrow> int) \<Rightarrow> RefreshEnv
    \<Rightarrow> 'a RefreshHelper_scheme \<Rightarrow> bool \<times> 'a RefreshHelper_scheme" where
  "StartRefresh GetTimerInterval env s =
     (let s = s\<lparr>m_piTimer := None\<rparr>
      in if m_nPolicy s = POLICY_NO_REFRESH then (True, s)
         else
           (let nTimerDuration = GetTimerInterval s
            in if nTimerDuration \<le> 0 then (False, s)
               else (case SetTimer env nTimerDuration s of
                       (False, s) \<Rightarrow> (False, s)
                     | (True, s) \<Rightarrow> (True, s\<lparr>m_nRemainDuration := s32 (m_nDuration s - nTimerDuration)\<rparr>))))"

definition ConsumeRemainedTime :: "RefreshEnv \<Rightarrow> 'a RefreshHelper_scheme \<Rightarrow> bool \<times> 'a RefreshHelper_scheme" where
  "ConsumeRemainedTime env s =
     (if m_nRemainDuration s \<le> 0 then (True, s)
      else (case SetTimer env (m_nRemainDuration s) (StopRefresh s) of
              (False, s) \<Rightarrow> (False, s)
            | (True, s) \<Rightarrow> (True, s\<lparr>m_nRemainDuration := 0\<rparr>)))"

definition RefreshHelper_SendRefreshRequest :: "RefreshEnv \<Rightarrow> ISipConnection \<Rightarrow> 'a RefreshHelper_scheme
    \<Rightarrow> bool \<times> ISipConnection \<times> 'a RefreshHelper_scheme" where
  "RefreshHelper_SendRefreshRequest env piScc s =
     (let piScc = piScc\<lparr>sc_message := map_option (env_AdjustMessage env) (sc_message piScc)\<rparr>
      in if env_Send env
         then (True, piScc, SetConnection (Some (sc_id piScc)) (note_event (REQUEST_SENT (sc_id piScc)) s))
         else (False, piScc, s))"

text \<open>
  The expiry of a timer. A timer that was stopped or replaced is not the current one. \<open>RefreshStarted\<close>
  and \<open>RefreshTerminated\<close> are virtual.
\<close>

definition Timer_TimerExpired :: "(RefreshEnv \<Rightarrow> 'a RefreshHelper_scheme \<Rightarrow> 'a RefreshHelper_scheme)
    \<Rightarrow> ('a RefreshHelper_scheme \<Rightarrow> 'a RefreshHelper_scheme) \<Rightarrow> RefreshEnv \<Rightarrow> nat
    \<Rightarrow> 'a RefreshHelper_scheme \<Rightarrow> 'a RefreshHelper_scheme" where
  "Timer_TimerExpired RefreshStarted RefreshTerminated env piTimer s =
     (if map_option fst (m_piTimer s) \<noteq> Some piTimer then s
      else
        (let s = s\<lparr>m_piTimer := None\<rparr>
         in if m_nRemainDuration s > 0 then
              (if m_bRepeatable s
               then (case SetTimer env (m_nRemainDuration s) s of
                       (False, s) \<Rightarrow> s
                     | (True, s) \<Rightarrow> RefreshStarted env (s\<lparr>m_nRemainDuration := 0\<rparr>))
               else RefreshStarted env s)
            else RefreshTerminated s))"

end
