(* ===== verification/SessionRefresh.thy ===== *)
theory SessionRefresh
  imports RefreshHelper
begin

text \<open>
  Session timers (RFC 4028): the refresh helper of a session,
  \<open>engine/core/SessionRefreshHelper.cpp\<close>. It reads and writes the headers Session-Expires, Min-SE,
  Supported and Require of INVITE and UPDATE, settles the interval and who refreshes, and runs the
  timer of \<open>RefreshHelper\<close>.
\<close>

unbundle bit_operations_syntax

datatype refresher = REFRESHER_NONE | REFRESHER_LOCAL | REFRESHER_REMOTE

record SessionRefreshHelper = RefreshHelper +
  m_nMinSe :: int
  m_nSessionTimerDuration :: int
  m_nLocalSessionTimerDuration :: int
  m_nRefresher :: refresher
  m_nRefreshRequest :: SipMethod
  m_bUpdateMethodAllowed :: bool
  m_nTimerSupportedOnRemoteEnd :: "32 word"
  m_nSipHeaders :: "32 word"

definition refresher_of :: "nat \<Rightarrow> refresher" where
  "refresher_of n = (if n = 1 then REFRESHER_LOCAL else if n = 2 then REFRESHER_REMOTE else REFRESHER_NONE)"

definition SessionRefreshHelper_new :: "RefreshEnv \<Rightarrow> bool \<Rightarrow> SessionRefreshHelper" where
  "SessionRefreshHelper_new env bRefreshable =
     RefreshHelper.extend (RefreshHelper_new bRefreshable False)
       (case env_SipConfigV env of
          None \<Rightarrow> SessionRefreshHelper.fields 0 0 0 REFRESHER_NONE METHOD_INVALID False 0 1
        | Some v \<Rightarrow> SessionRefreshHelper.fields 0 (GetSessionExpires v) 0
            (refresher_of (GetSessionRefresher v)) METHOD_INVALID False 0 (GetSessionHeaders v))"

section \<open>Options and flags\<close>

definition STR_TIMER :: AString where "STR_TIMER = Some ''timer''"
definition STR_UAC :: AString where "STR_UAC = Some ''uac''"
definition STR_UAS :: AString where "STR_UAS = Some ''uas''"

definition IsSessionExpiresHeaderRequired :: "SessionRefreshHelper \<Rightarrow> bool" where
  "IsSessionExpiresHeaderRequired s = (m_nSipHeaders s AND 0x01 \<noteq> 0)"

definition IsMinSeHeaderRequired :: "SessionRefreshHelper \<Rightarrow> bool" where
  "IsMinSeHeaderRequired s = (m_nSipHeaders s AND 0x02 \<noteq> 0)"

definition IsRequireHeaderRequired :: "SessionRefreshHelper \<Rightarrow> bool" where
  "IsRequireHeaderRequired s = (m_nSipHeaders s AND 0x04 \<noteq> 0)"

definition IsSessionTimerTurnOffAllowed :: "SessionRefreshHelper \<Rightarrow> bool" where
  "IsSessionTimerTurnOffAllowed s = (m_nSipHeaders s AND 0x10 \<noteq> 0)"

definition IsLocalSessionTimerRequired :: "SessionRefreshHelper \<Rightarrow> bool" where
  "IsLocalSessionTimerRequired s = (m_nSipHeaders s AND 0x20 \<noteq> 0)"

definition IsRefresherParameterControlledOnEarlyUpdate :: "SessionRefreshHelper \<Rightarrow> bool" where
  "IsRefresherParameterControlledOnEarlyUpdate s = (m_nSipHeaders s AND 0x40 = 0)"

abbreviation "TIMER_SUPPORTED_ON_INITIAL_INVITE \<equiv> (0x0001 :: 32 word)"
abbreviation "TIMER_SUPPORTED_ON_SESSION_UPDATE \<equiv> (0x0002 :: 32 word)"
abbreviation "TIMER_SUPPORTED_ON_REMOTE_UA \<equiv> (0x0004 :: 32 word)"
abbreviation "TIMER_SUPPORTED_TEMPORARY_ON_INCOMING_INVITE \<equiv> (0x4000 :: 32 word)"
abbreviation "TIMER_SUPPORTED_TEMPORARY_ON_INCOMING_UPDATE \<equiv> (0x8000 :: 32 word)"

definition IsTimerSupportedOnRemoteEnd :: "32 word \<Rightarrow> SessionRefreshHelper \<Rightarrow> bool" where
  "IsTimerSupportedOnRemoteEnd nFlag s = (m_nTimerSupportedOnRemoteEnd s AND nFlag \<noteq> 0)"

definition SetOrClearTimerSupportedOnRemoteEnd :: "bool \<Rightarrow> 32 word \<Rightarrow> SessionRefreshHelper \<Rightarrow> SessionRefreshHelper" where
  "SetOrClearTimerSupportedOnRemoteEnd bSet nFlag s =
     s\<lparr>m_nTimerSupportedOnRemoteEnd :=
         (if bSet then m_nTimerSupportedOnRemoteEnd s OR nFlag
          else m_nTimerSupportedOnRemoteEnd s AND NOT nFlag)\<rparr>"

definition IsSessionTimerSupportedOnRemoteUa :: "SessionRefreshHelper \<Rightarrow> bool" where
  "IsSessionTimerSupportedOnRemoteUa = IsTimerSupportedOnRemoteEnd TIMER_SUPPORTED_ON_REMOTE_UA"

definition IsSessionTimerSupportedOnUac :: "SessionRefreshHelper \<Rightarrow> bool" where
  "IsSessionTimerSupportedOnUac s =
     (IsTimerSupportedOnRemoteEnd TIMER_SUPPORTED_ON_INITIAL_INVITE s
      \<or> IsTimerSupportedOnRemoteEnd TIMER_SUPPORTED_ON_SESSION_UPDATE s)"

definition GetSessionTimerDuration :: "SessionRefreshHelper \<Rightarrow> int" where
  "GetSessionTimerDuration s =
     (if m_nSessionTimerDuration s > 0 then m_nSessionTimerDuration s else m_nLocalSessionTimerDuration s)"

definition HasSessionTimerDuration :: "SessionRefreshHelper \<Rightarrow> bool" where
  "HasSessionTimerDuration s = (GetSessionTimerDuration s > 0)"

section \<open>Reading a message\<close>

definition IsSessionTimerSupported :: "RefreshMessage \<Rightarrow> bool \<Rightarrow> SessionRefreshHelper \<Rightarrow> bool" where
  "IsSessionTimerSupported m bSent s =
     (if AStringArray_Contains (Some ''*'') (sm_supported m) \<or> AStringArray_Contains STR_TIMER (sm_supported m)
      then (if \<not> bSent \<and> sm_response m \<and> \<not> IsHeaderPresent (sm_session_expires m)
            then IsLocalSessionTimerRequired s else True)
      else if AStringArray_Contains STR_TIMER (sm_require m) then True
      else if IsHeaderPresent (sm_session_expires m) then True
      else if IsLocalSessionTimerRequired s then True
      else \<not> bSent)"

definition IsSessionRefreshRequired :: "RefreshMessage \<Rightarrow> bool" where
  "IsSessionRefreshRequired m =
     (if IsHeaderPresent (sm_session_expires m) then True else \<not> IsOptionSupported STR_TIMER m)"

definition IsUpdateMethodSupported :: "RefreshMessage \<Rightarrow> SessionRefreshHelper \<Rightarrow> bool" where
  "IsUpdateMethodSupported m s = (Some ''UPDATE'' \<in> set (sm_allow m) \<or> m_bUpdateMethodAllowed s)"

definition NegotiateRefresher :: "bool \<Rightarrow> SessionRefreshHelper \<Rightarrow> SessionRefreshHelper" where
  "NegotiateRefresher bTimerOptionSupported s =
     (if bTimerOptionSupported
      then (if m_nRefresher s = REFRESHER_NONE then s\<lparr>m_nRefresher := REFRESHER_REMOTE\<rparr> else s)
      else s\<lparr>m_nRefresher := (if m_nRefresher s = REFRESHER_NONE then REFRESHER_LOCAL else REFRESHER_NONE)\<rparr>)"

text \<open>
  Who refreshes according to a Session-Expires header. The parameter names the client or the server
  of the transaction the message belongs to.
\<close>

definition refresher_by_header :: "AString option \<Rightarrow> bool \<Rightarrow> bool \<Rightarrow> bool \<Rightarrow> refresher" where
  "refresher_by_header pParameter bResponse bSent bLocalRequired =
     (case pParameter of
        None \<Rightarrow> if bLocalRequired \<and> (bSent \<longrightarrow> bResponse) then REFRESHER_LOCAL else REFRESHER_NONE
      | Some strRefresher \<Rightarrow>
          (let uac_is_local = (bSent \<noteq> bResponse)
           in if AString_EqualsIgnoreCase strRefresher STR_UAC
              then (if uac_is_local then REFRESHER_LOCAL else REFRESHER_REMOTE)
              else if AString_EqualsIgnoreCase strRefresher STR_UAS
              then (if uac_is_local then REFRESHER_REMOTE else REFRESHER_LOCAL)
              else if bLocalRequired \<and> (bSent \<longrightarrow> bResponse) then REFRESHER_LOCAL
              else REFRESHER_NONE))"

text \<open>The three parts of \<open>UpdateProperties\<close>; the first two may end it.\<close>

definition read_session_expires :: "RefreshMessage \<Rightarrow> bool \<Rightarrow> SessionRefreshHelper \<Rightarrow> bool \<times> SessionRefreshHelper" where
  "read_session_expires m bSent s =
     (case sm_session_expires m of
        NO_HEADER \<Rightarrow> (True, s)
      | BAD_HEADER \<Rightarrow> (False, s)
      | HEADER h \<Rightarrow>
          (case se_value h of
             None \<Rightarrow> (False, s\<lparr>m_nSessionTimerDuration := 0\<rparr>)
           | Some n \<Rightarrow>
               (True, s\<lparr>m_nSessionTimerDuration := n,
                        m_nRefresher := refresher_by_header (se_refresher h) (sm_response m) bSent
                                          (IsLocalSessionTimerRequired s)\<rparr>)))"

definition read_min_se :: "RefreshMessage \<Rightarrow> SessionRefreshHelper \<Rightarrow> bool \<times> SessionRefreshHelper" where
  "read_min_se m s =
     (case sm_min_se m of
        NO_HEADER \<Rightarrow> (True, s)
      | HEADER (Some n) \<Rightarrow> (True, if n > m_nMinSe s then s\<lparr>m_nMinSe := n\<rparr> else s)
      | _ \<Rightarrow> (False, s))"

definition at_least_min_se :: "SessionRefreshHelper \<Rightarrow> int \<Rightarrow> int" where
  "at_least_min_se s n = (if m_nMinSe s > 0 \<and> n < m_nMinSe s then m_nMinSe s else n)"

text \<open>
  The third part. The interval may be raised to Min-SE when the other side does not support timers
  or has refused it with 422. When a supporting side has sent no Session-Expires, the local side may
  refresh on its own, or use the configured interval.
\<close>

definition raise_interval :: "bool \<Rightarrow> SessionRefreshHelper \<Rightarrow> SessionRefreshHelper" where
  "raise_interval bSessionIntervalChangeable s =
     (if bSessionIntervalChangeable \<and> m_nMinSe s > m_nSessionTimerDuration s
      then s\<lparr>m_nSessionTimerDuration := m_nMinSe s\<rparr> else s)"

definition refresh_unasked :: "RefreshMessage \<Rightarrow> SessionRefreshHelper \<Rightarrow> SessionRefreshHelper" where
  "refresh_unasked m s =
     (if m_nRefresher s = REFRESHER_NONE \<and> \<not> IsOptionSupported STR_TIMER m
      then s\<lparr>m_nRefresher := REFRESHER_LOCAL\<rparr> else s)"

definition configured_interval :: "RefreshEnv \<Rightarrow> SessionRefreshHelper \<Rightarrow> SessionRefreshHelper" where
  "configured_interval env s =
     (if IsLocalSessionTimerRequired s then
        (let s = s\<lparr>m_nRefresher := REFRESHER_LOCAL\<rparr>
         in case env_SipConfigV env of
              None \<Rightarrow> s
            | Some v \<Rightarrow> s\<lparr>m_nLocalSessionTimerDuration := at_least_min_se s (GetSessionExpires v)\<rparr>)
      else if m_nSessionTimerDuration s = 0 \<and> \<not> IsSessionTimerTurnOffAllowed s then
        (case env_SipConfigV env of
           None \<Rightarrow> s
         | Some v \<Rightarrow> s\<lparr>m_nSessionTimerDuration := at_least_min_se s (GetSessionExpires v)\<rparr>)
      else s)"

definition settle_interval :: "RefreshEnv \<Rightarrow> RefreshMessage \<Rightarrow> bool \<Rightarrow> bool \<Rightarrow> SessionRefreshHelper \<Rightarrow> SessionRefreshHelper" where
  "settle_interval env m bTimerOptionSupported bSent s =
     (let bSessionIntervalChangeable =
            (\<not> bTimerOptionSupported \<or> (\<not> bSent \<and> sm_response m \<and> sm_status m = 422));
          s = raise_interval bSessionIntervalChangeable s;
          s = s\<lparr>m_nLocalSessionTimerDuration := 0\<rparr>
      in if \<not> bSent \<and> \<not> IsHeaderPresent (sm_session_expires m) \<and> bTimerOptionSupported
            \<and> \<not> bSessionIntervalChangeable
         then configured_interval env (refresh_unasked m s)
         else s)"

definition UpdateProperties :: "RefreshEnv \<Rightarrow> RefreshMessage \<Rightarrow> bool \<Rightarrow> bool \<Rightarrow> SessionRefreshHelper \<Rightarrow> SessionRefreshHelper" where
  "UpdateProperties env m bTimerOptionSupported bSent s =
     (case read_session_expires m bSent s of
        (False, s) \<Rightarrow> s
      | (True, s) \<Rightarrow>
          (case read_min_se m s of
             (False, s) \<Rightarrow> s
           | (True, s) \<Rightarrow> settle_interval env m bTimerOptionSupported bSent s))"

section \<open>Writing a message\<close>

abbreviation confirmed :: "ISipConnection \<Rightarrow> bool" where
  "confirmed c \<equiv> sc_dialog c = Some DIALOG_CONFIRMED"

definition add_supported :: "RefreshEnv \<Rightarrow> RefreshMessage \<Rightarrow> RefreshMessage option" where
  "add_supported env m =
     (if env_SetHeader env then Some (m\<lparr>sm_supported := sm_supported m @ [STR_TIMER]\<rparr>) else None)"

definition set_min_se :: "RefreshEnv \<Rightarrow> SipConfigV \<Rightarrow> SessionRefreshHelper \<Rightarrow> RefreshMessage \<Rightarrow> RefreshMessage option" where
  "set_min_se env v s m =
     (if env_SetHeader env then Some (m\<lparr>sm_min_se := HEADER (Some (max (m_nMinSe s) (GetSessionMinSe v)))\<rparr>)
      else None)"

definition set_session_expires :: "RefreshEnv \<Rightarrow> bool \<Rightarrow> SessionRefreshHelper \<Rightarrow> RefreshMessage \<Rightarrow> RefreshMessage option" where
  "set_session_expires env bRequest s m =
     (if \<not> (HasSessionTimerDuration s \<and> IsSessionExpiresHeaderRequired s) then Some m
      else if env_SetHeader env then
        Some (m\<lparr>sm_session_expires := HEADER
          \<lparr> se_value = Some (GetSessionTimerDuration s),
            se_refresher =
              (case m_nRefresher s of
                 REFRESHER_NONE \<Rightarrow> None
               | REFRESHER_LOCAL \<Rightarrow> Some (if bRequest then STR_UAC else STR_UAS)
               | REFRESHER_REMOTE \<Rightarrow> Some (if bRequest then STR_UAS else STR_UAC)) \<rparr>\<rparr>)
      else None)"

text \<open>The headers of a request; the first result is whether they could be set.\<close>

definition add_request_headers :: "RefreshEnv \<Rightarrow> SipConfigV \<Rightarrow> bool \<Rightarrow> RefreshMessage \<Rightarrow> SessionRefreshHelper
    \<Rightarrow> bool \<times> RefreshMessage \<times> SessionRefreshHelper" where
  "add_request_headers env v bConfirmed m s =
     (case (if (m_nMinSe s > 0 \<or> GetSessionMinSe v > 0) \<and> IsMinSeHeaderRequired s
            then set_min_se env v s m else Some m) of
        None \<Rightarrow> (False, m, s)
      | Some m \<Rightarrow>
          (let s = (if bConfirmed then s\<lparr>m_nRefreshRequest := sm_method m\<rparr> else s)
           in case set_session_expires env True s m of
                None \<Rightarrow> (False, m, s) | Some m \<Rightarrow> (True, m, s)))"

definition require_timer :: "RefreshEnv \<Rightarrow> SessionRefreshHelper \<Rightarrow> RefreshMessage \<Rightarrow> RefreshMessage option" where
  "require_timer env s m =
     (if m_nSessionTimerDuration s > 0 then
        (if IsRequireHeaderRequired s \<or> m_nRefresher s = REFRESHER_REMOTE
            \<or> m_nRefresher s = REFRESHER_LOCAL \<and> IsSessionTimerSupportedOnUac s
         then (if env_SetHeader env then Some (m\<lparr>sm_require := sm_require m @ [STR_TIMER]\<rparr>) else None)
         else Some m)
      else if m_nLocalSessionTimerDuration s > 0 \<and> \<not> IsOptionSupported STR_TIMER m
      then add_supported env m
      else Some m)"

definition add_response_headers :: "RefreshEnv \<Rightarrow> SipConfigV \<Rightarrow> bool \<Rightarrow> RefreshMessage \<Rightarrow> SessionRefreshHelper
    \<Rightarrow> bool \<times> RefreshMessage" where
  "add_response_headers env v bUpdateOnConfirmedDialog m s =
     (case (if sm_status m = 422 \<and> (sm_method m = METHOD_INVITE \<or> bUpdateOnConfirmedDialog)
            then set_min_se env v s m else Some m) of
        None \<Rightarrow> (False, m)
      | Some m \<Rightarrow>
          if \<not> IsFinalSuccess (sm_status m) then (True, m)
          else
            (case require_timer env s m of
               None \<Rightarrow> (False, m)
             | Some m \<Rightarrow>
                 (case set_session_expires env False s m of None \<Rightarrow> (False, m) | Some m \<Rightarrow> (True, m))))"

definition AddSpecificHeader :: "RefreshEnv \<Rightarrow> ISipConnection \<Rightarrow> SessionRefreshHelper
    \<Rightarrow> bool \<times> ISipConnection \<times> SessionRefreshHelper" where
  "AddSpecificHeader env piSc s =
     (case (sc_message piSc, sc_dialog piSc) of
        (Some m, Some nDialogState) \<Rightarrow>
          if sm_method m \<noteq> METHOD_INVITE \<and> sm_method m \<noteq> METHOD_UPDATE then (True, piSc, s)
          else
            (let bUpdateOnConfirmedDialog = (sm_method m = METHOD_UPDATE \<and> nDialogState = DIALOG_CONFIRMED);
                 s = (if \<not> sm_response m \<and> sm_method m = METHOD_INVITE \<and> nDialogState \<noteq> DIALOG_CONFIRMED
                      then (let t = UpdateProperties env m True True s
                            in if m_nRefresher t = REFRESHER_NONE then t\<lparr>m_nRefresher := m_nRefresher s\<rparr> else t)
                      else s)
             in case env_SipConfigV env of
                  None \<Rightarrow> (False, piSc, s)
                | Some v \<Rightarrow>
                    (case (if IsSessionTimerConfigured v \<and> \<not> IsOptionSupported STR_TIMER m
                           then add_supported env m else Some m) of
                       None \<Rightarrow> (False, piSc, s)
                     | Some m \<Rightarrow>
                         if \<not> sm_response m \<and> IsSessionTimerConfigured v then
                           (if sm_method m = METHOD_INVITE \<or> bUpdateOnConfirmedDialog then
                              (case add_request_headers env v (nDialogState = DIALOG_CONFIRMED) m s of
                                 (ok, m, s) \<Rightarrow> (ok, piSc\<lparr>sc_message := Some m\<rparr>, s))
                            else (True, piSc\<lparr>sc_message := Some m\<rparr>, s))
                         else if sm_response m then
                           (case add_response_headers env v bUpdateOnConfirmedDialog m s of
                              (ok, m) \<Rightarrow> (ok, piSc\<lparr>sc_message := Some m\<rparr>, s))
                         else (True, piSc\<lparr>sc_message := Some m\<rparr>, s)))
      | _ \<Rightarrow> (False, piSc, s))"

text \<open>The same headers, with the parameters put back on every way out.\<close>

definition SetSessionRefreshParameters :: "refresher \<Rightarrow> SipMethod \<Rightarrow> int \<Rightarrow> int \<Rightarrow> int \<Rightarrow> SessionRefreshHelper
    \<Rightarrow> SessionRefreshHelper" where
  "SetSessionRefreshParameters nRefresher nRefreshRequest nMinSe nSessionTimerDuration
       nLocalSessionTimerDuration s =
     s\<lparr>m_nRefresher := nRefresher, m_nRefreshRequest := nRefreshRequest, m_nMinSe := nMinSe,
       m_nSessionTimerDuration := nSessionTimerDuration,
       m_nLocalSessionTimerDuration := nLocalSessionTimerDuration\<rparr>"

definition AddSpecificHeaderWithoutParameterChange :: "RefreshEnv \<Rightarrow> ISipConnection \<Rightarrow> SessionRefreshHelper
    \<Rightarrow> bool \<times> ISipConnection \<times> SessionRefreshHelper" where
  "AddSpecificHeaderWithoutParameterChange env piSc s =
     (case AddSpecificHeader env piSc s of
        (ok, piSc, t) \<Rightarrow>
          (ok, piSc, SetSessionRefreshParameters (m_nRefresher s) (m_nRefreshRequest s) (m_nMinSe s)
                       (m_nSessionTimerDuration s) (m_nLocalSessionTimerDuration s) t))"

definition AddSpecificHeaderOnEarlyUpdate :: "RefreshEnv \<Rightarrow> ISipConnection \<Rightarrow> bool \<Rightarrow> SessionRefreshHelper
    \<Rightarrow> bool \<times> ISipConnection \<times> SessionRefreshHelper" where
  "AddSpecificHeaderOnEarlyUpdate env piSc bTimerOptionSupported s =
     (let t = (if IsRefresherParameterControlledOnEarlyUpdate s \<and> m_nRefresher s = REFRESHER_NONE
               then NegotiateRefresher bTimerOptionSupported s else s)
      in case AddSpecificHeader env piSc t of
           (bResult, piSc, t) \<Rightarrow> (bResult, piSc, t\<lparr>m_nRefresher := m_nRefresher s\<rparr>))"

section \<open>The timer\<close>

definition GetRefreshMethod :: "RefreshEnv \<Rightarrow> SessionRefreshHelper \<Rightarrow> SipMethod" where
  "GetRefreshMethod env s =
     (if m_bUpdateMethodAllowed s
         \<and> (case env_SipConfigV env of None \<Rightarrow> True | Some v \<Rightarrow> GetSessionUpdatePreferred v)
      then METHOD_UPDATE else METHOD_INVITE)"

definition refresh_transaction_time :: "RefreshEnv \<Rightarrow> SessionRefreshHelper \<Rightarrow> int" where
  "refresh_transaction_time env s =
     (let nRefreshMethodTxnTv = (if GetRefreshMethod env s = METHOD_INVITE then env_TimerValueB env
                                 else env_TimerValueF env);
          nRefreshMethodTxnTv = (if nRefreshMethodTxnTv < 0 then s32 (env_TimerValueT1 env * 64)
                                 else nRefreshMethodTxnTv)
      in nRefreshMethodTxnTv sdiv 1000)"

definition GetTimerInterval :: "RefreshEnv \<Rightarrow> SessionRefreshHelper \<Rightarrow> int" where
  "GetTimerInterval env s =
     (let nTimerInterval = m_nDuration s
      in if m_nRefresher s = REFRESHER_LOCAL then nTimerInterval sdiv 2
         else if m_nRefresher s = REFRESHER_REMOTE then
           (if m_nPolicy s \<noteq> POLICY_SPEC then RefreshHelper_GetTimerInterval s
            else
              (let tv = refresh_transaction_time env s;
                   third = nTimerInterval sdiv 3;
                   nMaxInterval = max third tv;
                   nMinInterval = min third tv;
                   nNonRefresherInterval1 = s32 (nTimerInterval - nMinInterval);
                   nNonRefresherInterval2 = s32 (nTimerInterval sdiv 2 + nMaxInterval)
               in if nNonRefresherInterval2 > nTimerInterval then nNonRefresherInterval1
                  else max nNonRefresherInterval1 nNonRefresherInterval2))
         else nTimerInterval)"

abbreviation StartSessionRefresh :: "RefreshEnv \<Rightarrow> SessionRefreshHelper \<Rightarrow> bool \<times> SessionRefreshHelper" where
  "StartSessionRefresh env \<equiv> StartRefresh (GetTimerInterval env) env"

definition StopSessionTimer :: "ISipConnection \<Rightarrow> SessionRefreshHelper \<Rightarrow> SessionRefreshHelper" where
  "StopSessionTimer piSc s =
     (case (sc_message piSc, sc_dialog piSc) of
        (Some m, Some d) \<Rightarrow>
          if \<not> sm_response m \<and> d = DIALOG_CONFIRMED \<and> IsTimerActive s
             \<and> sm_method m \<in> {METHOD_INVITE, METHOD_BYE, METHOD_UPDATE}
          then StopRefresh s else s
      | _ \<Rightarrow> s)"

definition UpdateTimerOptionOnRequestReceived :: "ISipConnection \<Rightarrow> SessionRefreshHelper \<Rightarrow> SessionRefreshHelper" where
  "UpdateTimerOptionOnRequestReceived piSc s =
     (case sc_message piSc of
        None \<Rightarrow> s
      | Some m \<Rightarrow>
          if sm_response m then s
          else if sm_method m = METHOD_INVITE \<and> \<not> confirmed piSc then
            (if IsOptionSupported STR_TIMER m
             then SetOrClearTimerSupportedOnRemoteEnd True TIMER_SUPPORTED_ON_INITIAL_INVITE s else s)
          else if sm_method m \<in> {METHOD_INVITE, METHOD_UPDATE} \<and> confirmed piSc then
            SetOrClearTimerSupportedOnRemoteEnd (IsOptionSupported STR_TIMER m)
              TIMER_SUPPORTED_ON_SESSION_UPDATE s
          else s)"

section \<open>Messages sent and received\<close>

datatype refresh_result = RESULT_ERROR | RESULT_OK | RESULT_REJECT_422 | RESULT_REJECT_500

definition temporary_flag :: "RefreshMessage \<Rightarrow> 32 word" where
  "temporary_flag m =
     (if sm_method m = METHOD_INVITE then TIMER_SUPPORTED_TEMPORARY_ON_INCOMING_INVITE
      else TIMER_SUPPORTED_TEMPORARY_ON_INCOMING_UPDATE)"

text \<open>A request received: INVITE, or UPDATE on a confirmed dialog.\<close>

definition request_parameters :: "RefreshEnv \<Rightarrow> ISipConnection \<Rightarrow> RefreshMessage \<Rightarrow> bool \<Rightarrow> SessionRefreshHelper
    \<Rightarrow> SessionRefreshHelper" where
  "request_parameters env piSc m bTimerOptionSupported s =
     (let s = UpdateTimerOptionOnRequestReceived piSc s;
          s = (if IsHeaderPresent (sm_session_expires m)
               then (if sm_method m \<in> {METHOD_INVITE, METHOD_UPDATE}
                     then s\<lparr>m_nRefreshRequest := sm_method m\<rparr> else s)
               else s\<lparr>m_nSessionTimerDuration := 0, m_nMinSe := 0, m_nRefresher := REFRESHER_NONE\<rparr>)
      in NegotiateRefresher bTimerOptionSupported (UpdateProperties env m bTimerOptionSupported False s))"

definition accept_request :: "RefreshMessage \<Rightarrow> bool \<Rightarrow> SessionRefreshHelper \<Rightarrow> SessionRefreshHelper" where
  "accept_request m bTimerOptionSupported s =
     (let s = SetDuration (GetSessionTimerDuration s) s;
          s = (if sm_method m = METHOD_INVITE
               then s\<lparr>m_bUpdateMethodAllowed := IsUpdateMethodSupported m s\<rparr> else s)
      in SetOrClearTimerSupportedOnRemoteEnd bTimerOptionSupported (temporary_flag m) s)"

definition request_received :: "RefreshEnv \<Rightarrow> ISipConnection \<Rightarrow> RefreshMessage \<Rightarrow> SessionRefreshHelper
    \<Rightarrow> refresh_result \<times> SessionRefreshHelper" where
  "request_received env piSc m s =
     (let bTimerOptionSupported = IsSessionTimerSupported m False s
      in if sm_method m = METHOD_UPDATE \<and> m_nRefreshRequest s \<noteq> METHOD_INVALID
            \<and> IsHeaderPresent (sm_session_expires m)
         then (RESULT_REJECT_500, s)
         else
           (let s = request_parameters env piSc m bTimerOptionSupported s
            in case env_SipConfigV env of
                 None \<Rightarrow> (RESULT_ERROR, s)
               | Some v \<Rightarrow>
                   (let nConfigMinSe = GetSessionMinSe v
                    in if m_nSessionTimerDuration s \<noteq> 0
                          \<and> (nConfigMinSe > m_nSessionTimerDuration s \<or> m_nMinSe s > m_nSessionTimerDuration s)
                       then
                         (if bTimerOptionSupported
                          then (RESULT_REJECT_422, SetDuration 0 (s\<lparr>m_nSessionTimerDuration := 0\<rparr>))
                          else (RESULT_OK, accept_request m bTimerOptionSupported
                                  (s\<lparr>m_nSessionTimerDuration := nConfigMinSe,
                                     m_nMinSe := min (m_nMinSe s) nConfigMinSe\<rparr>)))
                       else (RESULT_OK, accept_request m bTimerOptionSupported s))))"

text \<open>What ends a negotiation: the timer is started, or stopped when the other side does not want one.\<close>

definition restart_refresh :: "RefreshEnv \<Rightarrow> SessionRefreshHelper \<Rightarrow> refresh_result \<times> SessionRefreshHelper" where
  "restart_refresh env s =
     (case StartSessionRefresh env s of (ok, s) \<Rightarrow> (if ok then RESULT_OK else RESULT_ERROR, s))"

definition stop_if_unsupported :: "RefreshEnv \<Rightarrow> SessionRefreshHelper \<Rightarrow> SessionRefreshHelper" where
  "stop_if_unsupported env s =
     (if env_UpdateByReInvite env \<and> IsTimerActive s \<and> \<not> IsSessionTimerSupportedOnRemoteUa s
      then StopRefresh s else s)"

definition resume_refresh :: "RefreshEnv \<Rightarrow> SessionRefreshHelper \<Rightarrow> refresh_result \<times> SessionRefreshHelper" where
  "resume_refresh env s =
     (let s = s\<lparr>m_nRefreshRequest := METHOD_INVALID\<rparr>
      in if m_nDuration s > 0 \<and> IsSessionTimerSupportedOnRemoteUa s then restart_refresh env s
         else (RESULT_OK, s))"

definition response_received :: "RefreshEnv \<Rightarrow> ISipConnection \<Rightarrow> RefreshMessage \<Rightarrow> SessionRefreshHelper
    \<Rightarrow> refresh_result \<times> SessionRefreshHelper" where
  "response_received env piSc m s =
     (let bTimerOptionSupported = IsSessionTimerSupported m False s
      in if sm_status m = 422 then
           (let s = UpdateProperties env m bTimerOptionSupported False (s\<lparr>m_nSessionTimerDuration := 0\<rparr>)
            in (RESULT_OK, SetDuration (GetSessionTimerDuration s) s))
         else if IsFinalSuccess (sm_status m) then
           (let s = SetOrClearTimerSupportedOnRemoteEnd bTimerOptionSupported TIMER_SUPPORTED_ON_REMOTE_UA s;
                s = UpdateProperties env m bTimerOptionSupported False s;
                s = SetDuration (GetSessionTimerDuration s) s;
                allowed = (\<lambda>s. if sm_method m = METHOD_INVITE
                               then s\<lparr>m_bUpdateMethodAllowed := IsUpdateMethodSupported m s\<rparr> else s)
            in if m_nDuration s > 0 \<and> IsSessionRefreshRequired m then
                 (case restart_refresh env (s\<lparr>m_nRefreshRequest := METHOD_INVALID\<rparr>) of
                    (RESULT_OK, s) \<Rightarrow> (RESULT_OK, allowed s)
                  | r \<Rightarrow> r)
               else (RESULT_OK, allowed (stop_if_unsupported env s)))
         else if env_UpdateByReInvite env \<and> confirmed piSc \<and> sm_status m \<noteq> 100
         then resume_refresh env s
         else (RESULT_OK, s))"

definition UpdateOnMessageReceived :: "RefreshEnv \<Rightarrow> ISipConnection \<Rightarrow> SessionRefreshHelper
    \<Rightarrow> refresh_result \<times> SessionRefreshHelper" where
  "UpdateOnMessageReceived env piSc s =
     (case sc_message piSc of
        None \<Rightarrow> (RESULT_ERROR, s)
      | Some m \<Rightarrow>
          if sm_method m \<notin> {METHOD_INVITE, METHOD_BYE, METHOD_UPDATE} then (RESULT_OK, s)
          else if sm_method m = METHOD_BYE \<and> IsTimerActive s then (RESULT_OK, StopRefresh s)
          else if sc_dialog piSc \<noteq> None \<and> sm_method m = METHOD_UPDATE \<and> \<not> confirmed piSc
          then (RESULT_OK, s)
          else
            (let s = (if confirmed piSc \<and> \<not> sm_response m \<and> IsTimerActive s then StopRefresh s else s)
             in if sm_method m = METHOD_BYE then (RESULT_OK, s)
                else if sm_response m then response_received env piSc m s
                else request_received env piSc m s))"

definition UpdateOnMessageSent :: "RefreshEnv \<Rightarrow> ISipConnection \<Rightarrow> SessionRefreshHelper
    \<Rightarrow> refresh_result \<times> SessionRefreshHelper" where
  "UpdateOnMessageSent env piSc s =
     (case (sc_message piSc, sc_dialog piSc) of
        (Some m, Some d) \<Rightarrow>
          if \<not> sm_response m then (RESULT_OK, s)
          else
            (let success = IsFinalSuccess (sm_status m);
                 s = (if \<not> IsFinal (sm_status m) then s
                      else
                        (let s = (if success
                                  then SetOrClearTimerSupportedOnRemoteEnd
                                         (IsTimerSupportedOnRemoteEnd (temporary_flag m) s)
                                         TIMER_SUPPORTED_ON_REMOTE_UA s
                                  else s)
                         in SetOrClearTimerSupportedOnRemoteEnd False (temporary_flag m) s))
             in if success \<and> (sm_method m = METHOD_INVITE \<or> sm_method m = METHOD_UPDATE \<and> d = DIALOG_CONFIRMED)
                then
                  (let s = s\<lparr>m_nRefreshRequest := METHOD_INVALID\<rparr>;
                       s = UpdateProperties env m (IsSessionTimerSupported m True s) True s
                   in if m_nDuration s > 0 \<and> IsSessionRefreshRequired m then restart_refresh env s
                      else (RESULT_OK, stop_if_unsupported env s))
                else if sm_status m = 422 then (RESULT_OK, s\<lparr>m_nRefreshRequest := METHOD_INVALID\<rparr>)
                else if env_UpdateByReInvite env \<and> d = DIALOG_CONFIRMED
                        \<and> sm_method m \<in> {METHOD_INVITE, METHOD_UPDATE} \<and> sm_status m \<noteq> 100
                then resume_refresh env s
                else (RESULT_OK, s))
      | _ \<Rightarrow> (RESULT_ERROR, s))"

section \<open>The refresh itself\<close>

definition SendRefreshRequest :: "RefreshEnv \<Rightarrow> ISipConnection \<Rightarrow> SessionRefreshHelper
    \<Rightarrow> bool \<times> ISipConnection \<times> SessionRefreshHelper" where
  "SendRefreshRequest env piScc s =
     (case AddSpecificHeader env piScc s of
        (False, piScc, s) \<Rightarrow> (False, piScc, s)
      | (True, piScc, s) \<Rightarrow>
          (case RefreshHelper_SendRefreshRequest env piScc (StopSessionTimer piScc s) of
             (False, piScc, s) \<Rightarrow> (False, piScc, s)
           | (True, piScc, s) \<Rightarrow> (True, piScc, snd (UpdateOnMessageSent env piScc s))))"

definition RefreshStarted :: "RefreshEnv \<Rightarrow> SessionRefreshHelper \<Rightarrow> SessionRefreshHelper" where
  "RefreshStarted env s =
     (if m_nRefreshRequest s \<noteq> METHOD_INVALID then s
      else if m_nRefresher s = REFRESHER_REMOTE then Refreshable_RefreshTerminated s
      else (case Refreshable_RefreshStarted env s of
              (True, s) \<Rightarrow> s | (False, s) \<Rightarrow> Refreshable_RefreshTerminated s))"

definition RefreshTerminated :: "SessionRefreshHelper \<Rightarrow> SessionRefreshHelper" where
  "RefreshTerminated = Refreshable_RefreshTerminated"

text \<open>\<open>nCode\<close> is 0 for a response, -1 for a timeout of the transaction, or another error.\<close>

definition RefreshCompleted :: "RefreshEnv \<Rightarrow> ISipConnection \<Rightarrow> int \<Rightarrow> SessionRefreshHelper \<Rightarrow> SessionRefreshHelper" where
  "RefreshCompleted env piScc nCode s =
     (let s = (if nCode = 0 then
                 (let s = (case sc_message piScc of
                             Some m \<Rightarrow> if IsFinalSuccess (sm_status m) then StopRefresh s else s
                           | None \<Rightarrow> s)
                  in snd (UpdateOnMessageReceived env piScc s))
               else if nCode = - 1 then StopRefresh s
               else s)
      in Refreshable_RefreshCompleted (sc_id piScc) nCode s)"

text \<open>A response that has been received and parsed.\<close>

definition ClientConnection_NotifyResponse :: "RefreshEnv \<Rightarrow> ISipConnection \<Rightarrow> SessionRefreshHelper
    \<Rightarrow> SessionRefreshHelper" where
  "ClientConnection_NotifyResponse env piScc s =
     (case sc_message piScc of
        None \<Rightarrow> s
      | Some m \<Rightarrow>
          (let nStatusCode = sm_status m;
               s = RefreshCompleted env piScc 0 s
           in if nStatusCode \<ge> 200 \<and> nStatusCode \<noteq> 401 \<and> nStatusCode \<noteq> 407 then
                (let s = SetConnection None s;
                     s = (if sm_method m = METHOD_INVITE \<and> nStatusCode = 422 then RefreshStarted env s else s)
                 in if \<not> env_UpdateByReInvite env \<and> sm_method m = METHOD_UPDATE \<and> nStatusCode = 500
                    then RefreshStarted env s else s)
              else s))"

definition Error_NotifyError :: "RefreshEnv \<Rightarrow> ISipConnection \<Rightarrow> bool \<Rightarrow> int \<Rightarrow> SessionRefreshHelper
    \<Rightarrow> SessionRefreshHelper" where
  "Error_NotifyError env piSc bTransactionTimerExpired nCode s =
     SetConnection None (RefreshCompleted env piSc (if bTransactionTimerExpired then - 1 else nCode) s)"

definition Session_TimerExpired :: "RefreshEnv \<Rightarrow> nat \<Rightarrow> SessionRefreshHelper \<Rightarrow> SessionRefreshHelper" where
  "Session_TimerExpired = Timer_TimerExpired RefreshStarted RefreshTerminated"

end
