(* ===== verification/RefreshTimers.thy ===== *)
theory RefreshTimers
  imports SessionRefresh
begin

text \<open>
  What session timers guarantee: both ends of a session agree on the interval and on who refreshes,
  the refresh comes before the other side gives up, and what becomes of a refresh that is answered by
  422.
\<close>

section \<open>Reading the properties\<close>

lemma StartRefresh_result:
  assumes "m_nPolicy s \<noteq> POLICY_NO_REFRESH" and "env_CreateTimer env" and "0 < f (s\<lparr>m_piTimer := None\<rparr>)"
  shows "StartRefresh f env s =
    (True, s\<lparr>m_piTimer := Some (m_nNextTimer s, f (s\<lparr>m_piTimer := None\<rparr>)), m_nNextTimer := m_nNextTimer s + 1,
             m_nRemainDuration := s32 (m_nDuration s - f (s\<lparr>m_piTimer := None\<rparr>))\<rparr>)"
  using assms by (simp add: StartRefresh_def SetTimer_def Let_def)

lemma GetTimerInterval_timer [simp]: "GetTimerInterval env (s\<lparr>m_piTimer := t\<rparr>) = GetTimerInterval env s"
  by (cases "m_nPolicy s") (simp_all add: GetTimerInterval_def RefreshHelper_GetTimerInterval_def
      refresh_transaction_time_def GetRefreshMethod_def Let_def)

lemma local_interval:
  "m_nRefresher s = REFRESHER_LOCAL \<Longrightarrow> 0 \<le> m_nDuration s \<Longrightarrow> GetTimerInterval env s = m_nDuration s div 2"
  by (cases "m_nDuration s = 0") (simp_all add: GetTimerInterval_def signed_divide_int_def Let_def)

lemma remote_interval:
  assumes "m_nRefresher s = REFRESHER_REMOTE" and "m_nPolicy s = POLICY_SPEC"
    and "0 < m_nDuration s" "m_nDuration s < 2 ^ 31"
    and "refresh_transaction_time env s \<in> {0..2 ^ 22}"
  shows "m_nDuration s div 2 < GetTimerInterval env s \<and> GetTimerInterval env s \<le> m_nDuration s"
proof -
  let ?d = "m_nDuration s" and ?v = "refresh_transaction_time env s"
  have d: "?d sdiv 2 = ?d div 2" "?d sdiv 3 = ?d div 3" using assms(3) by (simp_all add: signed_divide_int_def)
  have b: "s32 (?d - min (?d div 3) ?v) = ?d - min (?d div 3) ?v"
    "s32 (?d div 2 + max (?d div 3) ?v) = ?d div 2 + max (?d div 3) ?v"
    using assms(3-5) by (auto intro!: s32_id simp: min_def max_def)
  have "?d div 2 < ?d - min (?d div 3) ?v" "?d - min (?d div 3) ?v \<le> ?d"
    using assms(3,5) by (auto simp: min_def)
  then show ?thesis using assms(1,2) by (auto simp: GetTimerInterval_def Let_def d b less_max_iff_disj)
qed

text \<open>A received request is always taken for one that supports timers.\<close>

lemma request_supports: "\<not> sm_response m \<Longrightarrow> IsSessionTimerSupported m False s"
  by (simp add: IsSessionTimerSupported_def)

lemma header_supports: "IsHeaderPresent (sm_session_expires m) \<Longrightarrow> IsSessionTimerSupported m bSent s"
  by (simp add: IsSessionTimerSupported_def)


section \<open>The exchange\<close>

text \<open>\<open>UpdateProperties\<close> changes the parameters of the refresh and nothing else.\<close>

definition same_timer :: "SessionRefreshHelper \<Rightarrow> SessionRefreshHelper \<Rightarrow> bool" where
  "same_timer s t = (RefreshHelper.truncate t = RefreshHelper.truncate s \<and> m_nRefreshRequest t = m_nRefreshRequest s)"

lemmas same_timer_defs = same_timer_def RefreshHelper.truncate_def

lemma same_timer_trans: "same_timer s t \<Longrightarrow> same_timer t u \<Longrightarrow> same_timer s u"
  by (simp add: same_timer_def)

lemma settle_interval_same: "same_timer s (settle_interval env m b c s)"
proof -
  have steps: "same_timer t (raise_interval p t)" "same_timer t (t\<lparr>m_nLocalSessionTimerDuration := 0\<rparr>)"
    "same_timer t (refresh_unasked m t)" "same_timer t (configured_interval env t)" for t p
    by (simp_all add: same_timer_defs raise_interval_def refresh_unasked_def configured_interval_def Let_def
        split: option.split)
  let ?p = "\<not> b \<or> \<not> c \<and> sm_response m \<and> sm_status m = 422"
  let ?s = "(raise_interval ?p s)\<lparr>m_nLocalSessionTimerDuration := 0\<rparr>"
  have "same_timer s ?s" using steps(1,2) same_timer_trans by blast
  moreover have "same_timer ?s (configured_interval env (refresh_unasked m ?s))"
    using steps(3,4) same_timer_trans by blast
  ultimately have "same_timer s (configured_interval env (refresh_unasked m ?s))" by (rule same_timer_trans)
  with \<open>same_timer s ?s\<close> show ?thesis
    unfolding settle_interval_def Let_def by (intro if_split [THEN iffD2]) blast
qed

lemma UpdateProperties_same: "same_timer s (UpdateProperties env m b c s)"
proof -
  obtain r1 s1 where r1: "read_session_expires m c s = (r1, s1)" by fastforce
  obtain r2 s2 where r2: "read_min_se m s1 = (r2, s2)" by fastforce
  have "same_timer s s1" using r1
    by (auto simp: read_session_expires_def same_timer_defs split: header.splits option.splits)
  moreover have "same_timer s1 s2" using r2
    by (auto simp: read_min_se_def same_timer_defs split: header.splits option.splits if_splits)
  moreover note settle_interval_same [of s2 env m b c]
  ultimately show ?thesis unfolding UpdateProperties_def r1
    by (cases r1; cases r2) (auto simp: r2 intro: same_timer_trans)
qed

lemma same_timer_fields:
  assumes "same_timer s t"
  shows "m_nPolicy t = m_nPolicy s" "m_nDuration t = m_nDuration s" "m_nRefreshRequest t = m_nRefreshRequest s"
    "m_bRefreshable t = m_bRefreshable s" "m_piTimer t = m_piTimer s" "m_aEvents t = m_aEvents s"
    "m_nNextTimer t = m_nNextTimer s"
    "m_piRefreshSc t = m_piRefreshSc s"
  using assms by (simp_all add: same_timer_defs)

lemmas UpdateProperties_frame [simp] = same_timer_fields [OF UpdateProperties_same]

lemma flag_frame [simp]:
  "m_nPolicy (SetOrClearTimerSupportedOnRemoteEnd b f s) = m_nPolicy s"
  "m_nDuration (SetOrClearTimerSupportedOnRemoteEnd b f s) = m_nDuration s"
  "m_nRefresher (SetOrClearTimerSupportedOnRemoteEnd b f s) = m_nRefresher s"
  "m_nRefreshRequest (SetOrClearTimerSupportedOnRemoteEnd b f s) = m_nRefreshRequest s"
  "m_nSipHeaders (SetOrClearTimerSupportedOnRemoteEnd b f s) = m_nSipHeaders s"
  "m_nSessionTimerDuration (SetOrClearTimerSupportedOnRemoteEnd b f s) = m_nSessionTimerDuration s"
  "m_nLocalSessionTimerDuration (SetOrClearTimerSupportedOnRemoteEnd b f s) = m_nLocalSessionTimerDuration s"
  "GetSessionTimerDuration (SetOrClearTimerSupportedOnRemoteEnd b f s) = GetSessionTimerDuration s"
  by (simp_all add: SetOrClearTimerSupportedOnRemoteEnd_def GetSessionTimerDuration_def)

lemma request_parameters_settled:
  "m_nRefresher (request_parameters env piSc m True s) \<noteq> REFRESHER_NONE"
  "m_nPolicy (request_parameters env piSc m True s) = m_nPolicy s"
proof -
  have n: "m_nRefresher (NegotiateRefresher True t) \<noteq> REFRESHER_NONE"
    "m_nPolicy (NegotiateRefresher True t) = m_nPolicy t" for t
    by (simp_all add: NegotiateRefresher_def)
  have u: "m_nPolicy (UpdateTimerOptionOnRequestReceived piSc s) = m_nPolicy s"
    by (simp add: UpdateTimerOptionOnRequestReceived_def split: option.split)
  show "m_nRefresher (request_parameters env piSc m True s) \<noteq> REFRESHER_NONE"
    "m_nPolicy (request_parameters env piSc m True s) = m_nPolicy s"
    by (simp_all add: request_parameters_def Let_def n u)
qed

lemma accept_request_settled:
  "m_nRefresher (accept_request m b s) = m_nRefresher s" "m_nPolicy (accept_request m b s) = m_nPolicy s"
  "m_nDuration (accept_request m b s) = GetSessionTimerDuration (accept_request m b s)"
  by (simp_all add: accept_request_def SetDuration_def Let_def GetSessionTimerDuration_def)

lemma request_settled:
  assumes "request_received env piSc m s = (RESULT_OK, s1)" and "\<not> sm_response m"
  shows "m_nRefresher s1 \<noteq> REFRESHER_NONE" "m_nDuration s1 = GetSessionTimerDuration s1" "m_nPolicy s1 = m_nPolicy s"
proof -
  have "s1 = accept_request m True (request_parameters env piSc m True s)"
    using assms by (auto simp: request_received_def Let_def request_supports split: if_splits option.splits)
  then show "m_nRefresher s1 \<noteq> REFRESHER_NONE" "m_nDuration s1 = GetSessionTimerDuration s1" "m_nPolicy s1 = m_nPolicy s"
    using accept_request_settled [of m True] request_parameters_settled by (auto split: if_splits)
qed


text \<open>The answer that is sent carries what was settled.\<close>

definition same_headers :: "RefreshMessage \<Rightarrow> RefreshMessage \<Rightarrow> bool" where
  "same_headers m n = (sm_method n = sm_method m \<and> sm_response n = sm_response m \<and> sm_status n = sm_status m \<and>
     sm_session_expires n = sm_session_expires m \<and> sm_min_se n = sm_min_se m)"

lemma require_timer_same: "require_timer env s m = Some n \<Longrightarrow> same_headers m n"
  by (auto simp: require_timer_def add_supported_def same_headers_def split: if_splits)

lemma add_supported_same: "(if b then add_supported env m else Some m) = Some n \<Longrightarrow> same_headers m n"
  by (auto simp: add_supported_def same_headers_def split: if_splits)

abbreviation answered_session_expires :: "SessionRefreshHelper \<Rightarrow> SessionExpires header" where
  "answered_session_expires s \<equiv> HEADER \<lparr> se_value = Some (GetSessionTimerDuration s),
     se_refresher = (case m_nRefresher s of REFRESHER_NONE \<Rightarrow> None | REFRESHER_LOCAL \<Rightarrow> Some STR_UAS
                     | REFRESHER_REMOTE \<Rightarrow> Some STR_UAC) \<rparr>"

lemma add_response_headers_result:
  assumes "add_response_headers env v u m s = (True, n)" and "IsFinalSuccess (sm_status m)"
    and "sm_session_expires m = NO_HEADER" and "IsHeaderPresent (sm_session_expires n)"
  shows "sm_method n = sm_method m \<and> sm_response n = sm_response m \<and> sm_status n = sm_status m \<and>
    sm_min_se n = sm_min_se m \<and> 0 < GetSessionTimerDuration s \<and> sm_session_expires n = answered_session_expires s"
proof -
  have "sm_status m \<noteq> 422" using assms(2) by (auto simp: IsFinalSuccess_def)
  then obtain k where k: "require_timer env s m = Some k" "set_session_expires env False s k = Some n"
    using assms(1,2) by (auto simp: add_response_headers_def split: option.splits)
  then show ?thesis
    using require_timer_same [OF k(1)] assms(3,4)
    by (auto simp: set_session_expires_def same_headers_def IsHeaderPresent_def HasSessionTimerDuration_def
        split: if_splits refresher.splits)
qed

lemma response_headers:
  assumes "AddSpecificHeader env piSc s = (True, piSc', s')" and "sc_message piSc = Some m"
    and "sm_response m" and "sm_method m \<in> {METHOD_INVITE, METHOD_UPDATE}" and "IsFinalSuccess (sm_status m)"
    and "sm_session_expires m = NO_HEADER" 
    and "sc_message piSc' = Some n" and "IsHeaderPresent (sm_session_expires n)"
  shows "s' = s \<and> sm_response n \<and> sm_method n = sm_method m \<and> sm_status n = sm_status m \<and>
    sm_min_se n = sm_min_se m \<and> sc_dialog piSc' = sc_dialog piSc \<and> 0 < GetSessionTimerDuration s \<and>
    sm_session_expires n = answered_session_expires s"
proof -
  obtain d where d: "sc_dialog piSc = Some d"
    using assms(1,2) by (cases "sc_dialog piSc") (auto simp: AddSpecificHeader_def)
  let ?u = "sm_method m = METHOD_UPDATE \<and> d = DIALOG_CONFIRMED"
  obtain v k where v: "env_SipConfigV env = Some v"
    and k: "(if IsSessionTimerConfigured v \<and> \<not> IsOptionSupported STR_TIMER m then add_supported env m else Some m) = Some k"
    and r: "AddSpecificHeader env piSc s =
      (case add_response_headers env v ?u k s of (ok, m) \<Rightarrow> (ok, piSc\<lparr>sc_message := Some m\<rparr>, s))"
  proof (cases "env_SipConfigV env")
    case None
    then show thesis using assms(1-4) d by (auto simp: AddSpecificHeader_def)
  next
    case (Some v)
    let ?k = "if IsSessionTimerConfigured v \<and> \<not> IsOptionSupported STR_TIMER m then add_supported env m else Some m"
    show thesis
    proof (cases ?k)
      case None
      then show thesis using assms(1-4) d Some by (auto simp: AddSpecificHeader_def simp del: if_split)
    next
      case k: (Some k)
      have "sm_response k" using add_supported_same [OF k] assms(3) by (simp add: same_headers_def)
      then show thesis using that [OF Some k] assms(1-4) d Some k
        by (auto simp: AddSpecificHeader_def Let_def simp del: if_split)
    qed
  qed
  note same = add_supported_same [OF k]
  obtain n' where n: "add_response_headers env v ?u k s = (True, n')" "piSc' = piSc\<lparr>sc_message := Some n'\<rparr>" "s' = s"
    using assms(1) r by (auto split: prod.splits)
  then have "n' = n" using assms(7) by simp
  then show ?thesis
    using add_response_headers_result [OF n(1)] same assms(3,5,6,8) n(2,3) by (simp add: same_headers_def)
qed


lemma UpdateProperties_header:
  assumes "sm_session_expires m = HEADER \<lparr> se_value = Some n, se_refresher = p \<rparr>" and "sm_status m \<noteq> 422"
  shows "m_nSessionTimerDuration (UpdateProperties env m True c s) = n"
    "m_nRefresher (UpdateProperties env m True c s) = refresher_by_header p (sm_response m) c (IsLocalSessionTimerRequired s)"
  using assms
  by (auto simp: UpdateProperties_def read_session_expires_def read_min_se_def settle_interval_def
      raise_interval_def IsHeaderPresent_def Let_def split: header.split option.split)

lemma answer_sent:
  assumes "sc_message c = Some m" and "sc_dialog c = Some d" and "sm_response m" and "IsFinalSuccess (sm_status m)"
    and "sm_method m = METHOD_INVITE \<or> sm_method m = METHOD_UPDATE \<and> d = DIALOG_CONFIRMED"
    and "sm_session_expires m = HEADER \<lparr> se_value = Some n, se_refresher = p \<rparr>" and "0 < m_nDuration s"
  shows "\<exists>t. UpdateOnMessageSent env c s = restart_refresh env t \<and> m_nDuration t = m_nDuration s \<and>
    m_nPolicy t = m_nPolicy s \<and> m_nRefresher t = refresher_by_header p True True (IsLocalSessionTimerRequired s)"
proof -
  let ?f = "SetOrClearTimerSupportedOnRemoteEnd False (temporary_flag m)
    (SetOrClearTimerSupportedOnRemoteEnd (IsTimerSupportedOnRemoteEnd (temporary_flag m) s) TIMER_SUPPORTED_ON_REMOTE_UA s)"
  let ?s = "?f\<lparr>m_nRefreshRequest := METHOD_INVALID\<rparr>"
  let ?t = "UpdateProperties env m True True ?s"
  have st: "IsFinal (sm_status m)" "sm_status m \<noteq> 422" using assms(4) by (auto simp: IsFinal_def IsFinalSuccess_def)
  have h: "IsHeaderPresent (sm_session_expires m)" using assms(6) by (simp add: IsHeaderPresent_def)
  then have b: "IsSessionTimerSupported m True ?s" by (rule header_supports)
  have "UpdateOnMessageSent env c s = restart_refresh env ?t"
    using assms(1-5,7) st h b by (simp add: UpdateOnMessageSent_def Let_def IsSessionRefreshRequired_def)
  moreover have "m_nRefresher ?t = refresher_by_header p True True (IsLocalSessionTimerRequired s)"
    using UpdateProperties_header(2) [OF assms(6) st(2)] assms(3) by (simp add: IsLocalSessionTimerRequired_def)
  ultimately show ?thesis by (intro exI [of _ ?t]) simp
qed

lemma answer_received:
  assumes "sc_message c = Some m" and "sm_response m" and "IsFinalSuccess (sm_status m)"
    and "sm_method m = METHOD_INVITE \<or> sm_method m = METHOD_UPDATE \<and> confirmed c"
    and "sm_session_expires m = HEADER \<lparr> se_value = Some n, se_refresher = p \<rparr>" and "0 < n"
  shows "\<exists>t. (UpdateOnMessageReceived env c s =
      (case restart_refresh env t of
         (RESULT_OK, s) \<Rightarrow> (RESULT_OK, if sm_method m = METHOD_INVITE
                                       then s\<lparr>m_bUpdateMethodAllowed := IsUpdateMethodSupported m s\<rparr> else s)
       | r \<Rightarrow> r)) \<and> m_nDuration t = n \<and>
    m_nPolicy t = m_nPolicy s \<and> m_nRefresher t = refresher_by_header p True False (IsLocalSessionTimerRequired s)"
proof -
  let ?f = "SetOrClearTimerSupportedOnRemoteEnd True TIMER_SUPPORTED_ON_REMOTE_UA s"
  let ?u = "UpdateProperties env m True False ?f"
  let ?t = "(SetDuration (GetSessionTimerDuration ?u) ?u)\<lparr>m_nRefreshRequest := METHOD_INVALID\<rparr>"
  have st: "sm_status m \<noteq> 422" using assms(3) by (auto simp: IsFinalSuccess_def)
  have h: "IsHeaderPresent (sm_session_expires m)" using assms(5) by (simp add: IsHeaderPresent_def)
  then have b: "IsSessionTimerSupported m False s" by (rule header_supports)
  have d: "GetSessionTimerDuration ?u = n"
    using UpdateProperties_header(1) [OF assms(5) st] assms(6) by (simp add: GetSessionTimerDuration_def)
  have "response_received env c m s = (case restart_refresh env ?t of
         (RESULT_OK, s) \<Rightarrow> (RESULT_OK, if sm_method m = METHOD_INVITE
                                       then s\<lparr>m_bUpdateMethodAllowed := IsUpdateMethodSupported m s\<rparr> else s)
       | r \<Rightarrow> r)"
    using assms(3,6) st h by (simp add: response_received_def Let_def b d SetDuration_def IsSessionRefreshRequired_def)
  moreover have "UpdateOnMessageReceived env c s = response_received env c m s"
    using assms(1,2,4) by (auto simp: UpdateOnMessageReceived_def)
  moreover have "m_nRefresher ?t = refresher_by_header p True False (IsLocalSessionTimerRequired s)"
    using UpdateProperties_header(2) [OF assms(5) st] assms(2) by (simp add: SetDuration_def IsLocalSessionTimerRequired_def)
  ultimately show ?thesis by (intro exI [of _ ?t]) (simp add: SetDuration_def d)
qed


section \<open>Timers of both ends\<close>

definition timers_ok :: "RefreshEnv \<Rightarrow> bool" where
  "timers_ok env = (env_CreateTimer env \<and> env_TimerValueB env \<in> {0..<2 ^ 31} \<and> env_TimerValueF env \<in> {0..<2 ^ 31})"

text \<open>The seconds after which the timer that runs expires.\<close>

definition refresh_in :: "SessionRefreshHelper \<Rightarrow> int" where
  "refresh_in s = (case m_piTimer s of Some (_, n) \<Rightarrow> n | None \<Rightarrow> 0)"

lemma transaction_time:
  assumes "timers_ok env"
  shows "refresh_transaction_time env s \<in> {0..2 ^ 22}"
proof -
  have "n sdiv 1000 \<in> {0..2 ^ 22}" if "n \<in> {0..<2 ^ 31}" for n :: int
    using that by (auto simp: signed_divide_int_def sgn_if)
  then show ?thesis using assms by (auto simp: refresh_transaction_time_def timers_ok_def Let_def)
qed

lemma refresh_started:
  assumes "timers_ok env" and "m_nPolicy s = POLICY_SPEC" and "m_nRefresher s \<noteq> REFRESHER_NONE"
    and "m_nDuration s \<in> {2..<2 ^ 31}"
  shows "\<exists>s'. StartSessionRefresh env s = (True, s') \<and> m_nDuration s' = m_nDuration s \<and>
    m_nRefresher s' = m_nRefresher s \<and> m_nRefreshRequest s' = m_nRefreshRequest s \<and>
    m_bRefreshable s' = m_bRefreshable s \<and> m_bRepeatable s' = m_bRepeatable s \<and> m_aEvents s' = m_aEvents s \<and>
    m_piTimer s' = Some (m_nNextTimer s, refresh_in s') \<and>
    m_nRemainDuration s' = m_nDuration s - refresh_in s' \<and>
    (if m_nRefresher s = REFRESHER_LOCAL then refresh_in s' = m_nDuration s div 2
     else m_nDuration s div 2 < refresh_in s' \<and> refresh_in s' \<le> m_nDuration s)"
proof -
  let ?n = "GetTimerInterval env s"
  have n: "if m_nRefresher s = REFRESHER_LOCAL then ?n = m_nDuration s div 2
      else m_nDuration s div 2 < ?n \<and> ?n \<le> m_nDuration s"
    using local_interval [of s env] remote_interval [of s env] assms transaction_time [OF assms(1), of s]
    by (cases "m_nRefresher s") auto
  then have p: "0 < ?n" "?n \<le> m_nDuration s" using assms(4) by (auto split: if_splits)
  have r: "StartSessionRefresh env s = (True, s\<lparr>m_piTimer := Some (m_nNextTimer s, ?n),
      m_nNextTimer := m_nNextTimer s + 1, m_nRemainDuration := s32 (m_nDuration s - ?n)\<rparr>)"
    using StartRefresh_result [of s env "GetTimerInterval env"] assms(1,2) p(1) by (simp add: timers_ok_def)
  have "s32 (m_nDuration s - ?n) = m_nDuration s - ?n" using p assms(4) by (intro s32_id) auto
  then show ?thesis using n by (auto simp: r refresh_in_def)
qed

lemma refresh_started_at:
  assumes "timers_ok env" and "m_nPolicy s = POLICY_SPEC" and "m_nRefresher s \<noteq> REFRESHER_NONE"
    and "m_nDuration s = n" and "n \<in> {2..<2 ^ 31}"
  obtains s' where "StartSessionRefresh env s = (True, s')" "m_nDuration s' = n" "m_nRefresher s' = m_nRefresher s"
    "if m_nRefresher s = REFRESHER_LOCAL then refresh_in s' = n div 2
     else n div 2 < refresh_in s' \<and> refresh_in s' \<le> n"
  using refresh_started [OF assms(1-3)] assms(4,5) that by blast

text \<open>C13:
  Agreement on the session timer (RFC 4028). When the server has taken a request and its 2xx carries
  Session-Expires, then after the response both ends have the same interval, exactly one of them
  refreshes, and its timer, at half the interval, expires before that of the other end, which waits
  no longer than the interval.
\<close>

theorem session_refresh_agreed:
  assumes "UpdateOnMessageReceived env a s = (RESULT_OK, s1)" and "sc_message a = Some req"
    and "\<not> sm_response req" and "sm_method req = METHOD_INVITE \<or> sm_method req = METHOD_UPDATE \<and> confirmed a"
    and "AddSpecificHeader env b s1 = (True, b', s2)" and "sc_message b = Some resp"
    and "sm_response resp" and "sm_method resp = METHOD_INVITE \<or> sm_method resp = METHOD_UPDATE \<and> confirmed b \<and> confirmed c"
    and "IsFinalSuccess (sm_status resp)" and "sm_session_expires resp = NO_HEADER"
    and "sc_message b' = Some m" and "IsHeaderPresent (sm_session_expires m)"
    and "UpdateOnMessageSent env b' s2 = (rs, s3)"
    and "sc_message c = Some m" and "UpdateOnMessageReceived env' c t = (rt, t1)"
    and "timers_ok env" and "timers_ok env'" and "m_nPolicy s = POLICY_SPEC" and "m_nPolicy t = POLICY_SPEC"
    and "m_nDuration s1 \<in> {2..<2 ^ 31}"
  shows "rs = RESULT_OK \<and> rt = RESULT_OK \<and> m_nDuration s3 = m_nDuration s1 \<and> m_nDuration t1 = m_nDuration s1 \<and>
    (\<exists>x y. {x, y} = {s3, t1} \<and> m_nRefresher x = REFRESHER_LOCAL \<and> m_nRefresher y = REFRESHER_REMOTE \<and>
       refresh_in x = m_nDuration s1 div 2 \<and> refresh_in x < refresh_in y \<and> refresh_in y \<le> m_nDuration s1)"
proof -
  let ?n = "m_nDuration s1"
  define s' where "s' = (if confirmed a \<and> IsTimerActive s then StopRefresh s else s)"
  have "UpdateOnMessageReceived env a s = request_received env a req s'"
    using assms(2-4) by (auto simp: UpdateOnMessageReceived_def s'_def)
  then have rq: "m_nRefresher s1 \<noteq> REFRESHER_NONE" "?n = GetSessionTimerDuration s1" "m_nPolicy s1 = POLICY_SPEC"
    using request_settled [of env a req s' s1] assms(1,3,18) by (auto simp: s'_def StopRefresh_def)
  have m: "s2 = s1" "sm_response m" "sm_method m = sm_method resp" "IsFinalSuccess (sm_status m)"
    "sc_dialog b' = sc_dialog b" "sm_session_expires m = answered_session_expires s1"
    using response_headers [OF assms(5-7) _ assms(9-12)] assms(8,9) by auto
  obtain d where d: "sc_dialog b = Some d"
    using assms(5,6) by (cases "sc_dialog b") (auto simp: AddSpecificHeader_def)
  define p where "p = (if m_nRefresher s1 = REFRESHER_LOCAL then Some STR_UAS else Some STR_UAC)"
  have se: "sm_session_expires m = HEADER \<lparr> se_value = Some ?n, se_refresher = p \<rparr>"
    using m(6) rq(1) unfolding rq(2) p_def by (cases "m_nRefresher s1") auto
  obtain u where u: "UpdateOnMessageSent env b' s2 = restart_refresh env u" "m_nDuration u = ?n" "m_nPolicy u = POLICY_SPEC"
    "m_nRefresher u = refresher_by_header p True True (IsLocalSessionTimerRequired s2)"
    using answer_sent [OF assms(11) _ m(2,4) _ se, where d = d and env = env and s = s2] m(1,3,5) d assms(8,20) rq(3) by auto
  obtain v where v: "UpdateOnMessageReceived env' c t = (case restart_refresh env' v of
        (RESULT_OK, s) \<Rightarrow> (RESULT_OK, if sm_method m = METHOD_INVITE
                                      then s\<lparr>m_bUpdateMethodAllowed := IsUpdateMethodSupported m s\<rparr> else s)
      | r \<Rightarrow> r)" "m_nDuration v = ?n" "m_nPolicy v = POLICY_SPEC"
    "m_nRefresher v = refresher_by_header p True False (IsLocalSessionTimerRequired t)"
    using answer_received [OF assms(14) m(2,4) _ se, where env = env' and s = t] m(3) assms(8,19,20) by auto
  have by_uas: "AString_EqualsIgnoreCase STR_UAS STR_UAC = False" "AString_EqualsIgnoreCase STR_UAS STR_UAS"
    "AString_EqualsIgnoreCase STR_UAC STR_UAC" by code_simp+
  have roles: "m_nRefresher u = (if m_nRefresher s1 = REFRESHER_LOCAL then REFRESHER_LOCAL else REFRESHER_REMOTE)"
    "m_nRefresher v = (if m_nRefresher s1 = REFRESHER_LOCAL then REFRESHER_REMOTE else REFRESHER_LOCAL)"
    by (simp_all add: u(4) v(4) refresher_by_header_def p_def by_uas)
  have settled: "m_nRefresher u \<noteq> REFRESHER_NONE" "m_nRefresher v \<noteq> REFRESHER_NONE" using roles by auto
  obtain u' where u': "StartSessionRefresh env u = (True, u')" "m_nDuration u' = ?n" "m_nRefresher u' = m_nRefresher u"
    "if m_nRefresher u = REFRESHER_LOCAL then refresh_in u' = ?n div 2 else ?n div 2 < refresh_in u' \<and> refresh_in u' \<le> ?n"
    using refresh_started_at [OF assms(16) u(3) _ u(2) assms(20)] settled by metis
  obtain v' where v': "StartSessionRefresh env' v = (True, v')" "m_nDuration v' = ?n" "m_nRefresher v' = m_nRefresher v"
    "if m_nRefresher v = REFRESHER_LOCAL then refresh_in v' = ?n div 2 else ?n div 2 < refresh_in v' \<and> refresh_in v' \<le> ?n"
    using refresh_started_at [OF assms(17) v(3) _ v(2) assms(20)] settled by metis
  have s3: "rs = RESULT_OK" "s3 = u'" using u(1) u'(1) assms(13) by (auto simp: restart_refresh_def)
  have t1: "rt = RESULT_OK" "m_nDuration t1 = m_nDuration v'" "m_nRefresher t1 = m_nRefresher v'" "refresh_in t1 = refresh_in v'"
    using v(1) v'(1) assms(15) by (auto simp: restart_refresh_def refresh_in_def split: if_splits)
  show ?thesis
  proof (cases "m_nRefresher s1 = REFRESHER_LOCAL")
    case True
    then show ?thesis using s3 t1 u' v' roles by (intro conjI exI [of _ s3] exI [of _ t1]) auto
  next
    case False
    then show ?thesis using s3 t1 u' v' roles by (intro conjI exI [of _ t1] exI [of _ s3]) auto
  qed
qed


section \<open>Expiry\<close>

text \<open>C14:
  Expiry: the timer of an agreed session, when it expires, tells the end that refreshes to do so, and
  the other end that the session is over; a timer that was stopped or replaced has no effect.
\<close>

theorem session_refresh_expiry:
  assumes "timers_ok env" and "m_nPolicy s = POLICY_SPEC" and "m_nRefresher s \<noteq> REFRESHER_NONE"
    and "m_nDuration s \<in> {2..<2 ^ 31}" and "m_nRefreshRequest s = METHOD_INVALID" and "m_bRefreshable s"
    and "\<not> m_bRepeatable s" and "StartSessionRefresh env s = (ok, s')"
  shows "ok \<and> (\<exists>i. map_option fst (m_piTimer s') = Some i \<and>
    (\<forall>j. Session_TimerExpired env j s' =
      (if j \<noteq> i then s'
       else s'\<lparr>m_piTimer := None, m_aEvents := m_aEvents s @
         (if m_nRefresher s = REFRESHER_REMOTE then [REFRESH_TERMINATED]
          else if env_RefreshStarted env then [REFRESH_STARTED] else [REFRESH_STARTED, REFRESH_TERMINATED])\<rparr>)))"
proof -
  obtain u where u: "StartSessionRefresh env s = (True, u)" "m_nDuration u = m_nDuration s" "m_nRefresher u = m_nRefresher s"
    "m_nRefreshRequest u = METHOD_INVALID" "m_bRefreshable u" "\<not> m_bRepeatable u" "m_aEvents u = m_aEvents s"
    "m_piTimer u = Some (m_nNextTimer s, refresh_in u)" "m_nRemainDuration u = m_nDuration s - refresh_in u"
    "if m_nRefresher s = REFRESHER_LOCAL then refresh_in u = m_nDuration s div 2
     else m_nDuration s div 2 < refresh_in u \<and> refresh_in u \<le> m_nDuration s"
    using refresh_started [OF assms(1-4)] assms(5-7) by auto
  have "s' = u" "ok" using assms(8) u(1) by simp_all
  moreover have "0 < m_nRemainDuration u" if "m_nRefresher s = REFRESHER_LOCAL" using u(9,10) assms(4) that by auto
  then have "Session_TimerExpired env j u =
      (if j \<noteq> m_nNextTimer s then u
       else u\<lparr>m_piTimer := None, m_aEvents := m_aEvents s @
         (if m_nRefresher s = REFRESHER_REMOTE then [REFRESH_TERMINATED]
          else if env_RefreshStarted env then [REFRESH_STARTED] else [REFRESH_STARTED, REFRESH_TERMINATED])\<rparr>)" for j
    using u(3-8) assms(3)
    by (cases "m_nRefresher s")
      (auto simp: Session_TimerExpired_def Timer_TimerExpired_def RefreshStarted_def RefreshTerminated_def
        Refreshable_RefreshStarted_def Refreshable_RefreshTerminated_def note_event_def Let_def)
  ultimately show ?thesis using u(8) by auto
qed

section \<open>A refresh that is refused\<close>

lemma set_headers_same:
  "set_min_se env v s m = Some n \<Longrightarrow> sm_method n = sm_method m \<and> sm_response n = sm_response m"
  "set_session_expires env b s m = Some n \<Longrightarrow> sm_method n = sm_method m \<and> sm_response n = sm_response m"
  by (auto simp: set_min_se_def set_session_expires_def split: if_splits)

lemma add_request_headers_result:
  "add_request_headers env v True m s = (True, n, t) \<Longrightarrow>
     t = s\<lparr>m_nRefreshRequest := sm_method m\<rparr> \<and> sm_method n = sm_method m \<and> sm_response n = sm_response m"
  by (auto simp: add_request_headers_def Let_def split: option.splits if_splits dest!: set_headers_same)

lemma reinvite_headers:
  assumes "AddSpecificHeader env c s = (True, c', s')" and "sc_message c = Some m" and "\<not> sm_response m"
    and "sm_method m = METHOD_INVITE" and "confirmed c"
    and "env_SipConfigV env = Some v" and "IsSessionTimerConfigured v"
  shows "s' = s\<lparr>m_nRefreshRequest := METHOD_INVITE\<rparr> \<and> confirmed c' \<and>
    (\<exists>n. sc_message c' = Some n \<and> \<not> sm_response n \<and> sm_method n = METHOD_INVITE)"
proof -
  let ?k = "if IsSessionTimerConfigured v \<and> \<not> IsOptionSupported STR_TIMER m then add_supported env m else Some m"
  have a: "AddSpecificHeader env c s = (case ?k of None \<Rightarrow> (False, c, s) | Some k \<Rightarrow>
     if \<not> sm_response k then
        (if sm_method k = METHOD_INVITE \<or> sm_method m = METHOD_UPDATE
         then (case add_request_headers env v True k s of (ok, m, s) \<Rightarrow> (ok, c\<lparr>sc_message := Some m\<rparr>, s))
         else (True, c\<lparr>sc_message := Some k\<rparr>, s))
     else (case add_response_headers env v (sm_method m = METHOD_UPDATE) k s of (ok, m) \<Rightarrow> (ok, c\<lparr>sc_message := Some m\<rparr>, s)))"
    by (simp add: AddSpecificHeader_def assms(2-7) split: option.split)
  obtain k where k: "?k = Some k"
  proof (cases ?k)
    case None
    show thesis using assms(1) unfolding a None by simp
  qed
  then have same: "\<not> sm_response k" "sm_method k = METHOD_INVITE"
    using add_supported_same [OF k] assms(3,4) by (simp_all add: same_headers_def)
  have r: "AddSpecificHeader env c s =
      (case add_request_headers env v True k s of (ok, m, s) \<Rightarrow> (ok, c\<lparr>sc_message := Some m\<rparr>, s))"
    unfolding a k by (simp add: same)
  obtain n t where n: "add_request_headers env v True k s = (True, n, t)" "c' = c\<lparr>sc_message := Some n\<rparr>" "s' = t"
    using assms(1) unfolding r by (cases "add_request_headers env v True k s") simp
  then show ?thesis using add_request_headers_result [OF n(1)] same assms(5) by auto
qed

lemma sent_request:
  assumes "SendRefreshRequest env c s = (True, c', s1)" and "sc_message c = Some m" and "\<not> sm_response m"
    and "sm_method m = METHOD_INVITE" and "confirmed c"
    and "env_SipConfigV env = Some v" and "IsSessionTimerConfigured v"
    and "\<And>n. sm_response (env_AdjustMessage env n) = sm_response n"
  shows "m_nRefreshRequest s1 = METHOD_INVITE" "m_piTimer s1 = None" "m_piRefreshSc s1 = Some (sc_id c')"
proof -
  obtain c1 s0 where h: "AddSpecificHeader env c s = (True, c1, s0)"
    using assms(1) by (auto simp: SendRefreshRequest_def split: prod.splits bool.splits)
  from reinvite_headers [OF h assms(2-7)] obtain n where n: "sc_message c1 = Some n" "\<not> sm_response n"
    "sm_method n = METHOD_INVITE" "confirmed c1" "m_nRefreshRequest s0 = METHOD_INVITE" by auto
  let ?s = "StopSessionTimer c1 s0"
  have stop: "m_piTimer ?s = None" "m_nRefreshRequest ?s = METHOD_INVITE"
    using n by (cases "m_piTimer s0"; simp add: StopSessionTimer_def StopRefresh_def IsTimerActive_def)+
  obtain c2 s2 where snd: "RefreshHelper_SendRefreshRequest env c1 ?s = (True, c2, s2)" "c' = c2"
    "s1 = snd (UpdateOnMessageSent env c2 s2)"
    using assms(1) h by (auto simp: SendRefreshRequest_def split: prod.splits bool.splits)
  then have c2: "c2 = c1\<lparr>sc_message := Some (env_AdjustMessage env n)\<rparr>"
    and s2: "s2 = SetConnection (Some (sc_id c2)) (note_event (REQUEST_SENT (sc_id c2)) ?s)"
    using n(1) by (auto simp: RefreshHelper_SendRefreshRequest_def Let_def split: if_splits)
  have "s1 = s2" using snd(3) n(2,4) assms(8) by (simp add: UpdateOnMessageSent_def c2)
  then show "m_nRefreshRequest s1 = METHOD_INVITE" "m_piTimer s1 = None" "m_piRefreshSc s1 = Some (sc_id c')"
    using stop snd(2) by (auto simp: s2 SetConnection_def note_event_def Let_def split: option.split)
qed

lemma interval_covers_min_se:
  assumes "sm_response n" and "sm_status n = 422" and "sm_session_expires n = NO_HEADER"
    and "sm_min_se n = HEADER (Some k)" and "m_nSessionTimerDuration s = 0"
  shows "k \<le> GetSessionTimerDuration (UpdateProperties env n b False s)"
proof -
  obtain u where u: "UpdateProperties env n b False s = settle_interval env n b False u"
    "k \<le> m_nMinSe u" "m_nSessionTimerDuration u = 0"
    using assms(3-5)
    by (cases "k > m_nMinSe s") (auto simp: UpdateProperties_def read_session_expires_def read_min_se_def)
  then show ?thesis using assms(1,2)
    by (auto simp: settle_interval_def raise_interval_def Let_def GetSessionTimerDuration_def)
qed

text \<open>C15:
  A re-INVITE for the refresh that is refused with 422: the interval is raised to what the answer's
  Min-SE asks for, and the listener is told of the answer. But the request is not sent again: the
  method of the refresh under way is never reset, so nothing is started, no timer runs, and as long as
  no other INVITE or UPDATE succeeds no refresh is started any more.
\<close>

theorem refused_refresh_not_repeated:
  assumes "SendRefreshRequest env c s = (True, c', s1)" and "sc_message c = Some m" and "\<not> sm_response m"
    and "sm_method m = METHOD_INVITE" and "confirmed c"
    and "env_SipConfigV env = Some v" and "IsSessionTimerConfigured v"
    and "\<And>n. sm_response (env_AdjustMessage env n) = sm_response n"
    and "sc_message r = Some n" and "sm_response n" and "sm_status n = 422" and "sm_method n = METHOD_INVITE"
    and "sm_session_expires n = NO_HEADER" and "sm_min_se n = HEADER (Some k)"
  shows "k \<le> m_nDuration (ClientConnection_NotifyResponse env r s1) \<and>
    m_aEvents (ClientConnection_NotifyResponse env r s1) =
      m_aEvents s1 @ (if m_bRefreshable s1 then [REFRESH_COMPLETED (sc_id r) 0] else [])
        @ [CONNECTION_CLOSED (sc_id c')] \<and>
    m_piTimer (ClientConnection_NotifyResponse env r s1) = None \<and>
    RefreshStarted env (ClientConnection_NotifyResponse env r s1) = ClientConnection_NotifyResponse env r s1"
proof -
  note q = sent_request [OF assms(1-8)]
  let ?z = "s1\<lparr>m_nSessionTimerDuration := 0\<rparr>"
  let ?t = "UpdateProperties env n (IsSessionTimerSupported n False s1) False ?z"
  let ?u = "SetDuration (GetSessionTimerDuration ?t) ?t"
  have "UpdateOnMessageReceived env r s1 = (RESULT_OK, ?u)"
    using assms(9-12) by (auto simp: UpdateOnMessageReceived_def response_received_def Let_def)
  moreover have "\<not> IsFinalSuccess (sm_status n)" using assms(11) by (simp add: IsFinalSuccess_def)
  ultimately have c: "RefreshCompleted env r 0 s1 = Refreshable_RefreshCompleted (sc_id r) 0 ?u"
    using assms(9) by (simp add: RefreshCompleted_def)
  let ?w = "SetConnection None (Refreshable_RefreshCompleted (sc_id r) 0 ?u)"
  have w: "m_nRefreshRequest ?w = METHOD_INVITE" "m_piTimer ?w = None" "m_nDuration ?w = GetSessionTimerDuration ?t"
    "m_aEvents ?w = m_aEvents s1 @ (if m_bRefreshable s1 then [REFRESH_COMPLETED (sc_id r) 0] else [])
        @ [CONNECTION_CLOSED (sc_id c')]"
    using q by (simp_all add: SetConnection_def Refreshable_RefreshCompleted_def note_event_def SetDuration_def Let_def)
  have st: "RefreshStarted env ?w = ?w" using w(1) by (simp add: RefreshStarted_def)
  have "ClientConnection_NotifyResponse env r s1 = ?w"
    using assms(9,11,12) st by (simp add: ClientConnection_NotifyResponse_def Let_def c)
  moreover have "k \<le> GetSessionTimerDuration ?t"
    using interval_covers_min_se [OF assms(10,11,13,14)] by simp
  ultimately show ?thesis using w st by simp
qed

section \<open>Example\<close>

definition ex_refresh_env :: RefreshEnv where
  "ex_refresh_env =
     \<lparr> env_SipConfigV = Some \<lparr> GetSessionExpires = 1800, GetSessionRefresher = 1, GetSessionHeaders = 0x07,
         GetSessionMinSe = 90, GetSessionUpdatePreferred = True, IsSessionTimerConfigured = True \<rparr>,
       env_TimerValueB = 32000, env_TimerValueF = 32000, env_TimerValueT1 = 500, env_UpdateByReInvite = True,
       env_CreateTimer = True, env_SetHeader = True, env_Send = True, env_AdjustMessage = (\<lambda>m. m),
       env_RefreshStarted = True \<rparr>"

definition ex_refresh_msg :: "bool \<Rightarrow> int \<Rightarrow> SessionExpires header \<Rightarrow> int option header \<Rightarrow> RefreshMessage" where
  "ex_refresh_msg response status se min_se =
     \<lparr> sm_method = METHOD_INVITE, sm_response = response, sm_status = status, sm_session_expires = se,
       sm_min_se = min_se, sm_supported = [STR_TIMER], sm_require = [], sm_allow = [Some ''UPDATE''],
       sm_expires = NO_HEADER, sm_event = NO_HEADER, sm_subscription_state = NO_HEADER, sm_retry_after = False \<rparr>"

definition ex_conn :: "RefreshMessage \<Rightarrow> ISipConnection" where
  "ex_conn m = \<lparr> sc_id = 1, sc_message = Some m, sc_dialog = Some DIALOG_CONFIRMED \<rparr>"

definition ex_helper :: SessionRefreshHelper where
  "ex_helper = SessionRefreshHelper_new ex_refresh_env True"

definition ex_request_in :: ISipConnection where
  "ex_request_in = ex_conn (ex_refresh_msg False 0
     (HEADER \<lparr> se_value = Some 1800, se_refresher = Some STR_UAC \<rparr>) NO_HEADER)"

definition ex_answer :: ISipConnection where
  "ex_answer = ex_conn (ex_refresh_msg True 200 NO_HEADER NO_HEADER)"

definition ex_server_1 :: SessionRefreshHelper where
  "ex_server_1 = snd (UpdateOnMessageReceived ex_refresh_env ex_request_in ex_helper)"

definition ex_answer_out :: ISipConnection where
  "ex_answer_out = fst (snd (AddSpecificHeader ex_refresh_env ex_answer ex_server_1))"

definition ex_server_2 :: SessionRefreshHelper where
  "ex_server_2 = snd (snd (AddSpecificHeader ex_refresh_env ex_answer ex_server_1))"

definition ex_server_3 :: SessionRefreshHelper where
  "ex_server_3 = snd (UpdateOnMessageSent ex_refresh_env ex_answer_out ex_server_2)"

definition ex_client_1 :: SessionRefreshHelper where
  "ex_client_1 = snd (UpdateOnMessageReceived ex_refresh_env ex_answer_out ex_helper)"

lemma ex_exchange:
  "fst (UpdateOnMessageReceived ex_refresh_env ex_request_in ex_helper) = RESULT_OK"
  "fst (AddSpecificHeader ex_refresh_env ex_answer ex_server_1)"
  "m_nDuration ex_server_1 = 1800"
  "map_option sm_response (sc_message ex_answer_out) = Some True"
  "map_option (\<lambda>m. IsHeaderPresent (sm_session_expires m)) (sc_message ex_answer_out) = Some True"
  "timers_ok ex_refresh_env = (True \<and> 32000 \<in> {0..<2 ^ 31 :: int} \<and> 32000 \<in> {0..<2 ^ 31 :: int})"
  "m_nPolicy ex_helper = POLICY_SPEC"
  by (code_simp, code_simp, code_simp, code_simp, code_simp,
      simp add: timers_ok_def ex_refresh_env_def, code_simp)

lemma ex_env: "timers_ok ex_refresh_env" "env_SipConfigV ex_refresh_env =
    Some \<lparr> GetSessionExpires = 1800, GetSessionRefresher = 1, GetSessionHeaders = 0x07,
      GetSessionMinSe = 90, GetSessionUpdatePreferred = True, IsSessionTimerConfigured = True \<rparr>"
  by (simp_all add: timers_ok_def ex_refresh_env_def)

lemma ex_message: "sc_message (ex_conn m) = Some m" "confirmed (ex_conn m)"
  "sm_method (ex_refresh_msg b k h e) = METHOD_INVITE" "sm_response (ex_refresh_msg b k h e) = b"
  "sm_status (ex_refresh_msg b k h e) = k" "sm_session_expires (ex_refresh_msg b k h e) = h"
  "sm_min_se (ex_refresh_msg b k h e) = e"
  by (simp_all add: ex_conn_def ex_refresh_msg_def)

theorem session_refresh_agreed_witness:
  "m_nDuration ex_server_3 = 1800 \<and> m_nDuration ex_client_1 = 1800 \<and>
    (\<exists>x y. {x, y} = {ex_server_3, ex_client_1} \<and> m_nRefresher x = REFRESHER_LOCAL \<and>
       m_nRefresher y = REFRESHER_REMOTE \<and> refresh_in x = 900 \<and> refresh_in x < refresh_in y \<and> refresh_in y \<le> 1800)"
proof -
  have r: "UpdateOnMessageReceived ex_refresh_env ex_request_in ex_helper = (RESULT_OK, ex_server_1)"
    using ex_exchange(1) by (simp add: ex_server_1_def prod_eq_iff)
  have a: "AddSpecificHeader ex_refresh_env ex_answer ex_server_1 = (True, ex_answer_out, ex_server_2)"
    using ex_exchange(2) by (simp add: ex_answer_out_def ex_server_2_def prod_eq_iff)
  obtain m where m: "sc_message ex_answer_out = Some m" "IsHeaderPresent (sm_session_expires m)"
    using ex_exchange(4,5) by auto
  have d: "m_nDuration ex_server_1 \<in> {2..<2 ^ 31}" by (simp add: ex_exchange(3))
  have u: "UpdateOnMessageSent ex_refresh_env ex_answer_out ex_server_2 =
      (fst (UpdateOnMessageSent ex_refresh_env ex_answer_out ex_server_2), ex_server_3)"
    "UpdateOnMessageReceived ex_refresh_env ex_answer_out ex_helper =
      (fst (UpdateOnMessageReceived ex_refresh_env ex_answer_out ex_helper), ex_client_1)"
    by (simp_all add: ex_server_3_def ex_client_1_def)
  have x: "sc_message ex_request_in = Some (ex_refresh_msg False 0
      (HEADER \<lparr> se_value = Some 1800, se_refresher = Some STR_UAC \<rparr>) NO_HEADER)"
    "sc_message ex_answer = Some (ex_refresh_msg True 200 NO_HEADER NO_HEADER)"
    by (simp_all add: ex_request_in_def ex_answer_def ex_message)
  show ?thesis
    using session_refresh_agreed [OF r x(1) _ _ a x(2) _ _ _ _ m u(1) m(1) u(2) ex_env(1) ex_env(1)
        ex_exchange(7) ex_exchange(7) d]
    by (simp add: ex_message ex_exchange(3) IsFinalSuccess_def)
qed

definition ex_started :: SessionRefreshHelper where
  "ex_started = snd (StartSessionRefresh ex_refresh_env (ex_helper\<lparr>m_nDuration := 1800\<rparr>))"

theorem session_refresh_expiry_witness:
  "\<exists>i. map_option fst (m_piTimer ex_started) = Some i \<and>
    m_aEvents (Session_TimerExpired ex_refresh_env i ex_started) = [REFRESH_STARTED]"
proof -
  let ?s = "ex_helper\<lparr>m_nDuration := 1800\<rparr>"
  have s: "m_nPolicy ?s = POLICY_SPEC" "m_nRefresher ?s = REFRESHER_LOCAL" "m_nRefreshRequest ?s = METHOD_INVALID"
    "m_bRefreshable ?s" "\<not> m_bRepeatable ?s" "m_aEvents ?s = []" by code_simp+
  have p: "StartSessionRefresh ex_refresh_env ?s = (fst (StartSessionRefresh ex_refresh_env ?s), ex_started)"
    by (simp add: ex_started_def)
  show ?thesis
    using session_refresh_expiry [OF ex_env(1) s(1) _ _ s(3-5) p] s(2,6) by (auto simp: ex_refresh_env_def)
qed

definition ex_sent :: "bool \<times> ISipConnection \<times> SessionRefreshHelper" where
  "ex_sent = SendRefreshRequest ex_refresh_env (ex_conn (ex_refresh_msg False 0 NO_HEADER NO_HEADER)) ex_helper"

theorem refused_refresh_not_repeated_witness:
  "3600 \<le> m_nDuration (ClientConnection_NotifyResponse ex_refresh_env
      (ex_conn (ex_refresh_msg True 422 NO_HEADER (HEADER (Some 3600)))) (snd (snd ex_sent))) \<and>
   m_piTimer (ClientConnection_NotifyResponse ex_refresh_env
      (ex_conn (ex_refresh_msg True 422 NO_HEADER (HEADER (Some 3600)))) (snd (snd ex_sent))) = None"
proof -
  let ?r = "ex_conn (ex_refresh_msg True 422 NO_HEADER (HEADER (Some 3600)))"
  have "fst ex_sent" by code_simp
  then have p: "SendRefreshRequest ex_refresh_env (ex_conn (ex_refresh_msg False 0 NO_HEADER NO_HEADER)) ex_helper =
      (True, fst (snd ex_sent), snd (snd ex_sent))"
    by (simp add: ex_sent_def prod_eq_iff)
  show ?thesis
    using refused_refresh_not_repeated [OF p ex_message(1) _ _ ex_message(2) ex_env(2) _ _
        ex_message(1) [of "ex_refresh_msg True 422 NO_HEADER (HEADER (Some 3600))"], where k = 3600]
    by (simp add: ex_message ex_refresh_env_def)
qed

end
