(* ===== verification/ServiceMethod.thy ===== *)
theory ServiceMethod
  imports RefreshHelper
begin

text \<open>
  What the methods of the core service share (\<open>engine/core/base/Method.cpp\<close>,
  \<open>engine/core/ServiceMethod.cpp\<close>): the dialog, the answers to challenges, and for each kind of
  request the last one that was sent or received, its connection and its responses. The service, dialogs,
  authentication and the creation of connections and messages are parameters (\<open>ServiceEnv\<close>). What is
  sent and closed is recorded. Remote identities are left out.
\<close>

section \<open>State\<close>

datatype service_method =
  SERVICEMETHOD_INVALID | CAPABILITIES_QUERY | PAGEMESSAGE_SEND | PUBLICATION_PUBLISH | PUBLICATION_UNPUBLISH
| REFERENCE_REFER | SESSION_START | SESSION_UPDATE | SESSION_TERMINATE | SUBSCRIPTION_SUBSCRIBE
| SUBSCRIPTION_UNSUBSCRIBE | SUBSCRIPTION_POLL | SESSION_ACK | SESSION_PRACK | SESSION_EARLY_UPDATE
| SESSION_CANCEL | SESSION_STALE_UPDATE

datatype ims_error =
  IMS_NO_ERROR | IMS_ILLEGAL_ARGUMENT | IMS_NOT_FOUND | IMS_NO_SIP_CONNECTION | IMS_ALREADY_EXISTS
| IMS_GENERAL_ERROR | IMS_ILLEGAL_STATE | IMS_INVALID_OPERATION

record PreviousMessage =
  m_piSc :: "nat option"
  m_pRequest :: "RefreshMessage option"
  m_objResponses :: "RefreshMessage list"

text \<open>
  \<open>m_aDetached\<close> holds the connections whose listener has been replaced by an \<open>SccListener\<close>: the method
  does not hear of them any more.
\<close>

record ServiceMethod =
  m_piDialog :: "nat option"
  m_piAuthChallenge :: "nat option"
  m_objAuthChallengeMap :: "SipMethod \<Rightarrow> int option"
  m_pNextRequest :: "RefreshMessage option"
  m_pNextResponse :: "RefreshMessage option"
  m_objPreviousMessages :: "service_method \<Rightarrow> PreviousMessage option"
  m_eLastError :: ims_error
  m_aSent :: "(nat \<times> RefreshMessage) list"
  m_aClosed :: "nat list"
  m_aDetached :: "nat list"

record ServiceEnv =
  se_refresh :: RefreshEnv
  se_DialogOf :: "nat \<Rightarrow> nat"
  se_DialogState :: "nat \<Rightarrow> dialog_state"
  se_CreateConnection :: "nat option \<Rightarrow> SipMethod \<Rightarrow> ISipConnection option"
  se_SetImplicitRouteHeader :: "ISipConnection \<Rightarrow> ISipConnection"
  se_CopyHeadersAndBodyParts :: "RefreshMessage \<Rightarrow> RefreshMessage \<Rightarrow> RefreshMessage option"
  se_CreateUnsentMessage :: "bool \<Rightarrow> RefreshMessage option"
  se_CreateReceivedMessage :: "RefreshMessage \<Rightarrow> bool"
  se_CreateMessageBodyParts :: "RefreshMessage \<Rightarrow> bool"
  se_CreateResponse :: "int \<Rightarrow> ISipConnection \<Rightarrow> ISipConnection option"
  se_SendResponse :: "int \<Rightarrow> ISipConnection \<Rightarrow> ISipConnection option"
  se_AuthenticationChallenge :: "nat \<Rightarrow> (nat \<times> bool) option"
  se_SubscriberConfig :: bool
  se_InitResubmissionRequest :: "ISipConnection \<Rightarrow> ISipConnection option"
  se_SetCredentials :: bool

definition ServiceMethod_new :: ServiceMethod where
  "ServiceMethod_new =
     \<lparr> m_piDialog = None, m_piAuthChallenge = None,
       m_objAuthChallengeMap =
         (\<lambda>m. if m \<in> {METHOD_BYE, METHOD_CANCEL, METHOD_INVITE, METHOD_OPTIONS, METHOD_PRACK, METHOD_SUBSCRIBE,
                      METHOD_NOTIFY, METHOD_UPDATE, METHOD_MESSAGE, METHOD_REFER, METHOD_PUBLISH, METHOD_INFO}
              then Some 0 else None),
       m_pNextRequest = None, m_pNextResponse = None, m_objPreviousMessages = (\<lambda>_. None),
       m_eLastError = IMS_NO_ERROR, m_aSent = [], m_aClosed = [], m_aDetached = [] \<rparr>"

definition SetLastError :: "ims_error \<Rightarrow> ServiceMethod \<Rightarrow> ServiceMethod" where
  "SetLastError e s = s\<lparr>m_eLastError := e\<rparr>"

definition Close :: "nat option \<Rightarrow> ServiceMethod \<Rightarrow> ServiceMethod" where
  "Close c s = (case c of None \<Rightarrow> s | Some i \<Rightarrow> s\<lparr>m_aClosed := m_aClosed s @ [i]\<rparr>)"

definition set_previous :: "service_method \<Rightarrow> PreviousMessage option \<Rightarrow> ServiceMethod \<Rightarrow> ServiceMethod" where
  "set_previous k p s = s\<lparr>m_objPreviousMessages := (m_objPreviousMessages s)(k := p)\<rparr>"

section \<open>Dialogs and challenges\<close>

definition DestroyDialog :: "ServiceMethod \<Rightarrow> ServiceMethod" where
  "DestroyDialog s = s\<lparr>m_piDialog := None\<rparr>"

definition CheckNCreateDialog :: "'e ServiceEnv_scheme \<Rightarrow> ISipConnection \<Rightarrow> bool \<Rightarrow> bool \<Rightarrow> ServiceMethod \<Rightarrow> ServiceMethod" where
  "CheckNCreateDialog env piSc bDestroy bTerminatedDialogRequired s =
     (let s = (if bDestroy then DestroyDialog s else s)
      in if m_piDialog s \<noteq> None then s
         else
           (let d = se_DialogOf env (sc_id piSc); st = se_DialogState env d
            in if st = DIALOG_EARLY \<or> st = DIALOG_CONFIRMED
                  \<or> bTerminatedDialogRequired \<and> st = DIALOG_TERMINATED
               then s\<lparr>m_piDialog := Some d\<rparr> else s))"

definition MAX_CHALLENGE_COUNT :: int where
  "MAX_CHALLENGE_COUNT = 2"

definition ResetChallengeCount :: "ISipConnection \<Rightarrow> ServiceMethod \<Rightarrow> ServiceMethod" where
  "ResetChallengeCount piScc s =
     (case sc_message piScc of
        None \<Rightarrow> s
      | Some m \<Rightarrow>
          if IsFinalSuccess (sm_status m)
          then (case m_objAuthChallengeMap s (sm_method m) of
                  None \<Rightarrow> s
                | Some n \<Rightarrow> if n > 0 then s\<lparr>m_objAuthChallengeMap := (m_objAuthChallengeMap s)(sm_method m \<mapsto> 0)\<rparr> else s)
          else s)"

text \<open>
  \<open>RespondToChallenge\<close> for an object \<open>o\<close> with a method part, which the two functions after the first
  argument read and change; \<open>SendRequestToChallenge\<close> is virtual. The connection is given back, since
  its message becomes the request that is sent again.
\<close>

definition challenge_refused :: "'e ServiceEnv_scheme \<Rightarrow> SipMethod \<Rightarrow> nat \<Rightarrow> ServiceMethod \<Rightarrow> bool" where
  "challenge_refused env objMethod c s =
     ((case m_objAuthChallengeMap s objMethod of None \<Rightarrow> False | Some n \<Rightarrow> n \<ge> MAX_CHALLENGE_COUNT)
      \<or> (case se_AuthenticationChallenge env c of None \<Rightarrow> True | Some (_, md5) \<Rightarrow> \<not> md5)
      \<or> \<not> se_SubscriberConfig env)"

definition challenge_answered :: "'e ServiceEnv_scheme \<Rightarrow> SipMethod \<Rightarrow> nat \<Rightarrow> ServiceMethod \<Rightarrow> ServiceMethod" where
  "challenge_answered env objMethod c s =
     (let s = s\<lparr>m_piAuthChallenge := map_option fst (se_AuthenticationChallenge env c)\<rparr>
      in case m_objAuthChallengeMap s objMethod of
           None \<Rightarrow> s
         | Some n \<Rightarrow> s\<lparr>m_objAuthChallengeMap := (m_objAuthChallengeMap s)(objMethod \<mapsto> n + 1)\<rparr>)"

definition RespondToChallenge :: "(ISipConnection \<Rightarrow> 'o \<Rightarrow> bool \<times> ISipConnection \<times> 'o) \<Rightarrow> ('o \<Rightarrow> ServiceMethod)
    \<Rightarrow> ((ServiceMethod \<Rightarrow> ServiceMethod) \<Rightarrow> 'o \<Rightarrow> 'o) \<Rightarrow> 'e ServiceEnv_scheme \<Rightarrow> ISipConnection \<Rightarrow> 'o
    \<Rightarrow> bool \<times> ISipConnection \<times> 'o" where
  "RespondToChallenge SendRequestToChallenge get upd env piScc s =
     (let objMethod = (case sc_message piScc of None \<Rightarrow> METHOD_INVALID | Some m \<Rightarrow> sm_method m)
      in if challenge_refused env objMethod (sc_id piScc) (get s) then (False, piScc, s)
         else
           (case se_InitResubmissionRequest env piScc of
              None \<Rightarrow> (False, piScc, s)
            | Some piScc \<Rightarrow>
                if \<not> se_SetCredentials env then (False, piScc, s)
                else
                  (case SendRequestToChallenge piScc s of
                     (False, piScc, s) \<Rightarrow> (False, piScc, s)
                   | (True, piScc, s) \<Rightarrow> (True, piScc, upd (challenge_answered env objMethod (sc_id piScc)) s))))"

definition adjusted :: "'e ServiceEnv_scheme \<Rightarrow> ISipConnection \<Rightarrow> ISipConnection" where
  "adjusted env piSc = piSc\<lparr>sc_message := map_option (env_AdjustMessage (se_refresh env)) (sc_message piSc)\<rparr>"

definition sent :: "ISipConnection \<Rightarrow> ServiceMethod \<Rightarrow> ServiceMethod" where
  "sent piSc s =
     (case sc_message piSc of None \<Rightarrow> s | Some m \<Rightarrow> s\<lparr>m_aSent := m_aSent s @ [(sc_id piSc, m)]\<rparr>)"

definition Method_SendRequestToChallenge :: "'e ServiceEnv_scheme \<Rightarrow> ISipConnection \<Rightarrow> ServiceMethod
    \<Rightarrow> bool \<times> ISipConnection \<times> ServiceMethod" where
  "Method_SendRequestToChallenge env piScc s =
     (let piScc = adjusted env piScc
      in if env_Send (se_refresh env) then (True, piScc, sent piScc s) else (False, piScc, s))"

text \<open>The callbacks of a connection; \<open>NotifySipResponse\<close> and \<open>NotifySipError\<close> are virtual.\<close>

definition Method_Error_NotifyError :: "(ISipConnection \<Rightarrow> 'o \<Rightarrow> 'o) \<Rightarrow> ((ServiceMethod \<Rightarrow> ServiceMethod) \<Rightarrow> 'o \<Rightarrow> 'o)
    \<Rightarrow> ISipConnection \<Rightarrow> 'o \<Rightarrow> 'o" where
  "Method_Error_NotifyError NotifySipError upd piSc s =
     NotifySipError piSc (upd (\<lambda>t. t\<lparr>m_piAuthChallenge := None\<rparr>) s)"

definition Method_ClientConnection_NotifyResponse :: "(ISipConnection \<Rightarrow> 'o \<Rightarrow> 'o) \<Rightarrow> (ISipConnection \<Rightarrow> 'o \<Rightarrow> 'o)
    \<Rightarrow> ((ServiceMethod \<Rightarrow> ServiceMethod) \<Rightarrow> 'o \<Rightarrow> 'o) \<Rightarrow> 'e ServiceEnv_scheme \<Rightarrow> ISipConnection \<Rightarrow> 'o \<Rightarrow> 'o" where
  "Method_ClientConnection_NotifyResponse NotifySipResponse NotifySipError upd env piScc s =
     (case sc_message piScc of
        None \<Rightarrow> s
      | Some m \<Rightarrow>
          if \<not> se_CreateMessageBodyParts env m then Method_Error_NotifyError NotifySipError upd piScc s
          else NotifySipResponse piScc (upd (ResetChallengeCount piScc) s))"

section \<open>Previous messages\<close>

definition GetNextRequest :: "'e ServiceEnv_scheme \<Rightarrow> ServiceMethod \<Rightarrow> RefreshMessage option \<times> ServiceMethod" where
  "GetNextRequest env s =
     (let s = (if m_pNextRequest s = None then s\<lparr>m_pNextRequest := se_CreateUnsentMessage env True\<rparr> else s)
      in (m_pNextRequest s, s))"

definition GetNextResponse :: "'e ServiceEnv_scheme \<Rightarrow> ServiceMethod \<Rightarrow> RefreshMessage option \<times> ServiceMethod" where
  "GetNextResponse env s =
     (let s = (if m_pNextResponse s = None then s\<lparr>m_pNextResponse := se_CreateUnsentMessage env False\<rparr> else s)
      in (m_pNextResponse s, s))"

definition GetPreviousRequest :: "service_method \<Rightarrow> ServiceMethod \<Rightarrow> RefreshMessage option \<times> ServiceMethod" where
  "GetPreviousRequest k s =
     (case m_objPreviousMessages s k of
        None \<Rightarrow> (None, SetLastError IMS_ILLEGAL_ARGUMENT s)
      | Some p \<Rightarrow> (m_pRequest p, SetLastError IMS_NO_ERROR s))"

definition GetPreviousResponse :: "service_method \<Rightarrow> ServiceMethod \<Rightarrow> RefreshMessage option \<times> ServiceMethod" where
  "GetPreviousResponse k s =
     (case m_objPreviousMessages s k of
        None \<Rightarrow> (None, SetLastError IMS_ILLEGAL_ARGUMENT s)
      | Some p \<Rightarrow>
          if m_objResponses p = [] then (None, SetLastError IMS_NOT_FOUND s)
          else (Some (last (m_objResponses p)), SetLastError IMS_NO_ERROR s))"

definition GetPreviousResponses :: "service_method \<Rightarrow> ServiceMethod \<Rightarrow> RefreshMessage list \<times> ServiceMethod" where
  "GetPreviousResponses k s =
     (case m_objPreviousMessages s k of
        None \<Rightarrow> ([], SetLastError IMS_ILLEGAL_ARGUMENT s)
      | Some p \<Rightarrow> (m_objResponses p, SetLastError IMS_NO_ERROR s))"

definition GetConnection :: "service_method \<Rightarrow> ServiceMethod \<Rightarrow> nat option \<times> ServiceMethod" where
  "GetConnection k s =
     (case m_objPreviousMessages s k of
        None \<Rightarrow> (None, SetLastError IMS_NO_SIP_CONNECTION s)
      | Some p \<Rightarrow>
          (case m_piSc p of
             None \<Rightarrow> (None, SetLastError IMS_NO_SIP_CONNECTION s)
           | Some c \<Rightarrow> (Some c, SetLastError IMS_NO_ERROR s)))"

definition ClearConnection :: "service_method \<Rightarrow> ServiceMethod \<Rightarrow> ServiceMethod" where
  "ClearConnection k s =
     (case m_objPreviousMessages s k of
        None \<Rightarrow> s | Some p \<Rightarrow> set_previous k (Some (p\<lparr>m_piSc := None\<rparr>)) s)"

definition CloseConnection :: "service_method \<Rightarrow> ServiceMethod \<Rightarrow> ServiceMethod" where
  "CloseConnection k s =
     (case m_objPreviousMessages s k of
        None \<Rightarrow> s
      | Some p \<Rightarrow> if m_piSc p = None then s else set_previous k (Some (p\<lparr>m_piSc := None\<rparr>)) (Close (m_piSc p) s))"

definition UpdateConnection :: "service_method \<Rightarrow> nat \<Rightarrow> ServiceMethod \<Rightarrow> ServiceMethod" where
  "UpdateConnection k c s =
     (case m_objPreviousMessages s k of
        None \<Rightarrow> s
      | Some p \<Rightarrow>
          if m_piSc p = Some c then s
          else set_previous k (Some (p\<lparr>m_piSc := Some c\<rparr>)) (Close (m_piSc p) s))"

definition RemovePreviousMessage :: "service_method \<Rightarrow> ServiceMethod \<Rightarrow> bool \<times> ServiceMethod" where
  "RemovePreviousMessage k s =
     (case m_objPreviousMessages s k of
        None \<Rightarrow> (True, s)
      | Some p \<Rightarrow>
          if m_pRequest p \<noteq> None \<and> m_objResponses p = [] \<and> m_piSc p \<noteq> None then (False, s)
          else (True, set_previous k None (Close (m_piSc p) s)))"

definition SetPreviousRequest :: "service_method \<Rightarrow> RefreshMessage \<Rightarrow> nat \<Rightarrow> ServiceMethod \<Rightarrow> bool \<times> ServiceMethod" where
  "SetPreviousRequest k m c s =
     (case m_objPreviousMessages s k of
        Some _ \<Rightarrow> (False, s)
      | None \<Rightarrow> (True, set_previous k (Some \<lparr> m_piSc = Some c, m_pRequest = Some m, m_objResponses = [] \<rparr>) s))"

definition AddPreviousResponse :: "service_method \<Rightarrow> RefreshMessage \<Rightarrow> ServiceMethod \<Rightarrow> bool \<times> ServiceMethod" where
  "AddPreviousResponse k m s =
     (case m_objPreviousMessages s k of
        None \<Rightarrow> (False, s)
      | Some p \<Rightarrow> (True, set_previous k (Some (p\<lparr>m_objResponses := m_objResponses p @ [m]\<rparr>)) s))"

definition CopyPreviousMessage :: "service_method \<Rightarrow> service_method \<Rightarrow> ServiceMethod \<Rightarrow> ServiceMethod" where
  "CopyPreviousMessage src dst s =
     (case m_objPreviousMessages s src of
        None \<Rightarrow> s
      | Some p \<Rightarrow>
          set_previous dst (Some (p\<lparr>m_piSc := None\<rparr>)) (snd (RemovePreviousMessage dst s)))"

section \<open>Requests and responses\<close>

text \<open>What the application has set in the next message is copied; the option tags of the stack are kept.\<close>

definition IsOptionRequired :: "AString \<Rightarrow> RefreshMessage \<Rightarrow> bool" where
  "IsOptionRequired opt m = list_ex (AString_EqualsIgnoreCase opt) (sm_require m)"

abbreviation "STR_SEC_AGREE \<equiv> Some ''sec-agree''"
abbreviation "STR_GRUU \<equiv> Some ''gruu''"

definition keep_sec_agree :: "RefreshMessage \<Rightarrow> RefreshMessage \<Rightarrow> RefreshMessage" where
  "keep_sec_agree m m' =
     (if IsOptionRequired STR_SEC_AGREE m \<and> \<not> IsOptionRequired STR_SEC_AGREE m'
      then m'\<lparr>sm_require := sm_require m' @ [STR_SEC_AGREE]\<rparr> else m')"

definition keep_gruu :: "RefreshMessage \<Rightarrow> RefreshMessage \<Rightarrow> RefreshMessage" where
  "keep_gruu m m' =
     (if IsOptionSupported STR_GRUU m \<and> \<not> IsOptionSupported STR_GRUU m'
      then m'\<lparr>sm_supported := sm_supported m' @ [STR_GRUU]\<rparr> else m')"

text \<open>\<open>dlg\<close> is the dialog of the new request, if any.\<close>

definition CreateConnection :: "'e ServiceEnv_scheme \<Rightarrow> nat option \<Rightarrow> SipMethod \<Rightarrow> ServiceMethod
    \<Rightarrow> ISipConnection option \<times> ServiceMethod" where
  "CreateConnection env dlg objMethod s =
     (case se_CreateConnection env dlg objMethod of
        None \<Rightarrow> (None, s)
      | Some piScc \<Rightarrow>
          (case (m_pNextRequest s, sc_message piScc) of
             (Some n, Some m) \<Rightarrow>
               (case se_CopyHeadersAndBodyParts env m n of
                  None \<Rightarrow> (None, Close (Some (sc_id piScc)) (SetLastError IMS_GENERAL_ERROR s))
                | Some m' \<Rightarrow> (Some (piScc\<lparr>sc_message := Some (keep_gruu m (keep_sec_agree m m'))\<rparr>), s))
           | _ \<Rightarrow> (Some piScc, s)))"

definition CreateResponse :: "'e ServiceEnv_scheme \<Rightarrow> int \<Rightarrow> ISipConnection \<Rightarrow> ServiceMethod
    \<Rightarrow> bool \<times> ISipConnection \<times> ServiceMethod" where
  "CreateResponse env nStatusCode piSsc s =
     (case se_CreateResponse env nStatusCode piSsc of
        None \<Rightarrow> (False, piSsc, s)
      | Some piSsc \<Rightarrow>
          (case (m_pNextResponse s, sc_message piSsc) of
             (Some n, Some m) \<Rightarrow>
               (case se_CopyHeadersAndBodyParts env m n of
                  None \<Rightarrow> (False, piSsc, SetLastError IMS_GENERAL_ERROR s)
                | Some m' \<Rightarrow> (True, piSsc\<lparr>sc_message := Some (keep_gruu m m')\<rparr>, s))
           | _ \<Rightarrow> (True, piSsc, s)))"

text \<open>
  A request that was sent becomes the previous one of its kind, unless the one before is not
  answered yet: then the method does not listen to the new request.
\<close>

definition UpdateRequestOnSent :: "'e ServiceEnv_scheme \<Rightarrow> service_method \<Rightarrow> ISipConnection \<Rightarrow> ServiceMethod
    \<Rightarrow> bool \<times> ServiceMethod" where
  "UpdateRequestOnSent env k piSc s =
     (case GetNextRequest env s of
        (None, s) \<Rightarrow> (False, s)
      | (Some n, s) \<Rightarrow>
          (let m = (case sc_message piSc of None \<Rightarrow> n | Some m \<Rightarrow> m)
           in case RemovePreviousMessage k s of
                (True, s) \<Rightarrow>
                  (case SetPreviousRequest k m (sc_id piSc) s of (ok, s) \<Rightarrow> (ok, s\<lparr>m_pNextRequest := None\<rparr>))
              | (False, s) \<Rightarrow>
                  (True, (if sm_method m \<noteq> METHOD_ACK then s\<lparr>m_aDetached := m_aDetached s @ [sc_id piSc]\<rparr> else s)
                           \<lparr>m_pNextRequest := None\<rparr>)))"

definition UpdateRequestOnReceived :: "'e ServiceEnv_scheme \<Rightarrow> service_method \<Rightarrow> ISipConnection \<Rightarrow> ServiceMethod
    \<Rightarrow> bool \<times> ServiceMethod" where
  "UpdateRequestOnReceived env k piSc s =
     (case sc_message piSc of
        None \<Rightarrow> (False, s)
      | Some m \<Rightarrow>
          if \<not> se_CreateReceivedMessage env m then (False, s)
          else
            (case RemovePreviousMessage k s of
               (True, s) \<Rightarrow>
                 (case SetPreviousRequest k m (sc_id piSc) s of
                    (True, s) \<Rightarrow> (True, SetLastError IMS_NO_ERROR s)
                  | (False, s) \<Rightarrow> (False, s))
             | (False, s) \<Rightarrow> (False, SetLastError IMS_ALREADY_EXISTS s)))"

definition UpdateResponseOnReceived :: "'e ServiceEnv_scheme \<Rightarrow> service_method \<Rightarrow> ISipConnection \<Rightarrow> ServiceMethod
    \<Rightarrow> bool \<times> ServiceMethod" where
  "UpdateResponseOnReceived env k piSc s =
     (case sc_message piSc of
        None \<Rightarrow> (False, s)
      | Some m \<Rightarrow>
          if \<not> se_CreateReceivedMessage env m then (False, s)
          else
            (case AddPreviousResponse k m s of
               (True, s) \<Rightarrow> (True, SetLastError IMS_NO_ERROR s)
             | (False, s) \<Rightarrow> (False, s)))"

definition UpdateResponseOnSent :: "'e ServiceEnv_scheme \<Rightarrow> service_method \<Rightarrow> ISipConnection \<Rightarrow> ServiceMethod
    \<Rightarrow> bool \<times> ServiceMethod" where
  "UpdateResponseOnSent env k piSc s =
     (case GetNextResponse env s of
        (None, s) \<Rightarrow> (False, s)
      | (Some n, s) \<Rightarrow>
          (let m = (case sc_message piSc of None \<Rightarrow> n | Some m \<Rightarrow> m)
           in (True, (snd (AddPreviousResponse k m s))\<lparr>m_pNextResponse := None\<rparr>)))"

definition SendNUpdateRequestEx :: "'e ServiceEnv_scheme \<Rightarrow> service_method \<Rightarrow> ISipConnection \<Rightarrow> ServiceMethod
    \<Rightarrow> bool \<times> ISipConnection \<times> ServiceMethod" where
  "SendNUpdateRequestEx env k piSc s =
     (let piSc = adjusted env piSc
      in if \<not> env_Send (se_refresh env) then (False, piSc, s)
         else (case UpdateRequestOnSent env k piSc (sent piSc s) of (ok, s) \<Rightarrow> (ok, piSc, s)))"

definition SendNUpdateResponseEx :: "'e ServiceEnv_scheme \<Rightarrow> service_method \<Rightarrow> ISipConnection \<Rightarrow> ServiceMethod
    \<Rightarrow> bool \<times> ISipConnection \<times> ServiceMethod" where
  "SendNUpdateResponseEx env k piSc s =
     (let piSc = adjusted env piSc
      in if \<not> env_Send (se_refresh env) then (False, piSc, s)
         else (case UpdateResponseOnSent env k piSc (sent piSc s) of (ok, s) \<Rightarrow> (ok, piSc, s)))"

text \<open>Both are also called without a message class.\<close>

abbreviation "SendNUpdateRequest \<equiv> SendNUpdateRequestEx"
abbreviation "SendNUpdateResponse \<equiv> SendNUpdateResponseEx"

text \<open>The end of a method: every connection that is still open is closed.\<close>

definition service_methods :: "service_method list" where
  "service_methods =
     [SERVICEMETHOD_INVALID, CAPABILITIES_QUERY, PAGEMESSAGE_SEND, PUBLICATION_PUBLISH, PUBLICATION_UNPUBLISH,
      REFERENCE_REFER, SESSION_START, SESSION_UPDATE, SESSION_TERMINATE, SUBSCRIPTION_SUBSCRIBE,
      SUBSCRIPTION_UNSUBSCRIBE, SUBSCRIPTION_POLL, SESSION_ACK, SESSION_PRACK, SESSION_EARLY_UPDATE,
      SESSION_CANCEL, SESSION_STALE_UPDATE]"

definition ServiceMethod_Destroy :: "ServiceMethod \<Rightarrow> ServiceMethod" where
  "ServiceMethod_Destroy = fold CloseConnection service_methods"

end
