(* ===== verification/SubscriberState.thy ===== *)
theory SubscriberState
  imports CoreMessage AStringNumber
begin

text \<open>
  The state of an outgoing subscription (\<open>engine/core/SubState.cpp\<close>, \<open>SubscriberState.cpp\<close>,
  \<open>util/EventPackage.cpp\<close>): what SUBSCRIBE and NOTIFY do to its state, its duration and the flag that
  says whether the refresh timer must follow. Value and parameters of a Subscription-State header are
  strings; the value of an Expires header is -1 when it is not a number. Storing a message removes the
  restricted headers, of which Allow is the only one in the model.
\<close>

section \<open>Model\<close>

datatype sub_state =
  STATE_INVALID | STATE_INIT | STATE_SUBSCRIBING | STATE_PENDING | STATE_ACTIVE | STATE_TERMINATED

datatype sub_operation =
  NO_OPERATION | OPERATION_CREATE | OPERATION_REFRESH | OPERATION_FETCH | OPERATION_REMOVE | OPERATION_IMPLICIT_REFRESH

datatype sub_state_value = SUB_STATE_INIT | SUB_STATE_ACTIVE | SUB_STATE_PENDING | SUB_STATE_TERMINATED

datatype sub_reason =
  REASON_NONE | REASON_DEACTIVATED | REASON_PROBATION | REASON_REJECTED | REASON_TIMEOUT | REASON_GIVEUP
| REASON_NORESOURCE

datatype sub_message =
  MESSAGE_INVALID | MESSAGE_SUBSCRIBE | MESSAGE_SUBSCRIBE_1XX | MESSAGE_SUBSCRIBE_200 | MESSAGE_SUBSCRIBE_202
| MESSAGE_SUBSCRIBE_481 | MESSAGE_SUBSCRIBE_NON2XX | MESSAGE_RESUBSCRIBE | MESSAGE_RESUBSCRIBE_1XX
| MESSAGE_RESUBSCRIBE_200 | MESSAGE_RESUBSCRIBE_202 | MESSAGE_RESUBSCRIBE_481 | MESSAGE_RESUBSCRIBE_NON2XX
| MESSAGE_NOTIFY_ACTIVE | MESSAGE_NOTIFY_PENDING | MESSAGE_NOTIFY_TERMINATED | MESSAGE_NOTIFY_1XX
| MESSAGE_NOTIFY_2XX | MESSAGE_NOTIFY_XXX_TERMINATED | MESSAGE_NOTIFY_NON2XX

abbreviation "NO_EXPIRES \<equiv> (- 1 :: int)"
abbreviation "DEFAULT_DURATION \<equiv> (3600 :: int)"

abbreviation "CONFIG_NONE \<equiv> (0 :: 32 word)"
abbreviation "CONFIG_USE_INITIAL_EXPIRES_ON_NO_EXPIRES_IN_200_OK \<equiv> (1 :: 32 word)"

record EventPackage =
  ep_event :: AString
  ep_event_header :: "AString option"
  ep_initial_duration :: int

record SubState =
  su_state :: sub_state
  su_operation :: sub_operation
  su_config :: "32 word"
  su_duration :: int
  su_sub_state :: sub_state_value
  su_duration_updated :: bool
  su_instant :: bool
  su_message :: "RefreshMessage option"
  su_event_package :: EventPackage

definition EventPackage_new :: EventPackage where
  "EventPackage_new = \<lparr> ep_event = None, ep_event_header = None, ep_initial_duration = - 1 \<rparr>"

definition SubState_new :: SubState where
  "SubState_new =
     \<lparr> su_state = STATE_INIT, su_operation = NO_OPERATION, su_config = CONFIG_NONE, su_duration = NO_EXPIRES,
       su_sub_state = SUB_STATE_INIT, su_duration_updated = False, su_instant = False, su_message = None,
       su_event_package = EventPackage_new \<rparr>"

definition SetEventHeader :: "AString option \<Rightarrow> SubState \<Rightarrow> SubState" where
  "SetEventHeader h s = s\<lparr>su_event_package := (su_event_package s)\<lparr>ep_event_header := h\<rparr>\<rparr>"

definition SetInitialDuration :: "int \<Rightarrow> SubState \<Rightarrow> SubState" where
  "SetInitialDuration n s = s\<lparr>su_event_package := (su_event_package s)\<lparr>ep_initial_duration := n\<rparr>\<rparr>"

definition SubState_Clear :: "SubState \<Rightarrow> SubState" where
  "SubState_Clear s =
     (SetEventHeader None (SetInitialDuration NO_EXPIRES s))
       \<lparr>su_state := STATE_INIT, su_operation := NO_OPERATION, su_duration := NO_EXPIRES,
        su_sub_state := SUB_STATE_INIT, su_duration_updated := False, su_instant := False, su_message := None\<rparr>"

definition CreateEventPackage :: "AString \<Rightarrow> SubState \<Rightarrow> SubState" where
  "CreateEventPackage strEvent s = s\<lparr>su_event_package := (su_event_package s)\<lparr>ep_event := strEvent\<rparr>\<rparr>"

definition IsConfigurationSet :: "32 word \<Rightarrow> SubState \<Rightarrow> bool" where
  "IsConfigurationSet nValue s = (su_config s AND nValue \<noteq> 0)"

definition IsTerminated :: "SubState \<Rightarrow> bool" where
  "IsTerminated s = (su_state s = STATE_TERMINATED)"

definition StoreMessage :: "RefreshMessage \<Rightarrow> SubState \<Rightarrow> SubState" where
  "StoreMessage m s = s\<lparr>su_message := Some (m\<lparr>sm_allow := []\<rparr>)\<rparr>"

text \<open>The parameters of a Subscription-State header.\<close>

definition TrimDquot :: "string \<Rightarrow> AString" where
  "TrimDquot v =
     (if take 1 v = [CHR 0x22] \<and> v \<noteq> [] \<and> last v = CHR 0x22
      then (if length v = 1 then None
            else Some (take (length v - 2) (drop 1 v)))
      else Some v)"

definition AString_ToInt32 :: "AString \<Rightarrow> int option" where
  "AString_ToInt32 v = (case v of None \<Rightarrow> None | Some t \<Rightarrow> ToInt32 t 10)"

definition ExtractExpiresParameter :: "SubscriptionState header \<Rightarrow> int" where
  "ExtractExpiresParameter h =
     (case h of
        HEADER ss \<Rightarrow>
          (case ss_expires ss of
             None \<Rightarrow> NO_EXPIRES
           | Some v \<Rightarrow>
               (case (case v of Some t \<Rightarrow> if CHR 0x22 \<in> set t then AString_ToInt32 (TrimDquot t) else AString_ToInt32 v
                      | None \<Rightarrow> AString_ToInt32 v) of
                  None \<Rightarrow> NO_EXPIRES | Some n \<Rightarrow> n))
      | _ \<Rightarrow> NO_EXPIRES)"

definition ExtractReasonParameter :: "SubscriptionState header \<Rightarrow> sub_reason" where
  "ExtractReasonParameter h =
     (case h of
        HEADER ss \<Rightarrow>
          (case ss_reason ss of
             None \<Rightarrow> REASON_NONE
           | Some v \<Rightarrow>
               if AString_EqualsIgnoreCase v (Some ''noresource'') then REASON_NORESOURCE
               else if AString_EqualsIgnoreCase v (Some ''deactivated'') then REASON_DEACTIVATED
               else if AString_EqualsIgnoreCase v (Some ''probation'') then REASON_PROBATION
               else if AString_EqualsIgnoreCase v (Some ''rejected'') then REASON_REJECTED
               else if AString_EqualsIgnoreCase v (Some ''timeout'') then REASON_TIMEOUT
               else if AString_EqualsIgnoreCase v (Some ''giveup'') then REASON_GIVEUP
               else REASON_NONE)
      | _ \<Rightarrow> REASON_NONE)"

definition ExtractSubStateValue :: "SubscriptionState header \<Rightarrow> sub_state_value" where
  "ExtractSubStateValue h =
     (case h of
        HEADER ss \<Rightarrow>
          if AString_EqualsIgnoreCase (ss_value ss) (Some ''active'') then SUB_STATE_ACTIVE
          else if AString_EqualsIgnoreCase (ss_value ss) (Some ''pending'') then SUB_STATE_PENDING
          else if AString_EqualsIgnoreCase (ss_value ss) (Some ''terminated'') then SUB_STATE_TERMINATED
          else SUB_STATE_INIT
      | _ \<Rightarrow> SUB_STATE_INIT)"

section \<open>Messages\<close>

text \<open>The table, for the messages that have an entry.\<close>

definition sub_table :: "sub_state \<Rightarrow> sub_message \<Rightarrow> sub_state" where
  "sub_table nState nSipMsg =
     (case nState of
        STATE_INIT \<Rightarrow> (case nSipMsg of MESSAGE_SUBSCRIBE \<Rightarrow> STATE_SUBSCRIBING | _ \<Rightarrow> STATE_INVALID)
      | STATE_SUBSCRIBING \<Rightarrow>
          (case nSipMsg of
             MESSAGE_SUBSCRIBE_200 \<Rightarrow> STATE_ACTIVE
           | MESSAGE_SUBSCRIBE_202 \<Rightarrow> STATE_PENDING
           | MESSAGE_SUBSCRIBE_481 \<Rightarrow> STATE_INIT
           | MESSAGE_SUBSCRIBE_NON2XX \<Rightarrow> STATE_INIT
           | MESSAGE_NOTIFY_ACTIVE \<Rightarrow> STATE_ACTIVE
           | MESSAGE_NOTIFY_PENDING \<Rightarrow> STATE_PENDING
           | MESSAGE_NOTIFY_TERMINATED \<Rightarrow> STATE_TERMINATED
           | _ \<Rightarrow> STATE_INVALID)
      | STATE_PENDING \<Rightarrow>
          (case nSipMsg of
             MESSAGE_SUBSCRIBE_481 \<Rightarrow> STATE_TERMINATED
           | MESSAGE_RESUBSCRIBE_200 \<Rightarrow> STATE_ACTIVE
           | MESSAGE_RESUBSCRIBE_481 \<Rightarrow> STATE_TERMINATED
           | MESSAGE_NOTIFY_ACTIVE \<Rightarrow> STATE_ACTIVE
           | MESSAGE_NOTIFY_XXX_TERMINATED \<Rightarrow> STATE_TERMINATED
           | MESSAGE_NOTIFY_NON2XX \<Rightarrow> STATE_TERMINATED
           | _ \<Rightarrow> STATE_INVALID)
      | STATE_ACTIVE \<Rightarrow>
          (case nSipMsg of
             MESSAGE_RESUBSCRIBE_202 \<Rightarrow> STATE_PENDING
           | MESSAGE_RESUBSCRIBE_481 \<Rightarrow> STATE_TERMINATED
           | MESSAGE_NOTIFY_PENDING \<Rightarrow> STATE_PENDING
           | MESSAGE_NOTIFY_XXX_TERMINATED \<Rightarrow> STATE_TERMINATED
           | MESSAGE_NOTIFY_NON2XX \<Rightarrow> STATE_TERMINATED
           | _ \<Rightarrow> STATE_INVALID)
      | _ \<Rightarrow> STATE_INVALID)"

definition on_subscribe_response :: "sub_state \<Rightarrow> sub_message \<Rightarrow> sub_message \<Rightarrow> sub_message" where
  "on_subscribe_response nState first again =
     (if nState = STATE_SUBSCRIBING then first
      else if nState = STATE_ACTIVE \<or> nState = STATE_PENDING then again else MESSAGE_INVALID)"

definition sub_TranslateMessage :: "RefreshMessage \<Rightarrow> SubState \<Rightarrow> sub_message" where
  "sub_TranslateMessage m s =
     (let nStatusCode = sm_status m; nState = su_state s
      in if \<not> sm_response m then
           (if sm_method m = METHOD_SUBSCRIBE
            then (if nState = STATE_INIT then MESSAGE_SUBSCRIBE else MESSAGE_RESUBSCRIBE)
            else if sm_method m = METHOD_NOTIFY
            then (case su_sub_state s of
                    SUB_STATE_ACTIVE \<Rightarrow> MESSAGE_NOTIFY_ACTIVE | SUB_STATE_PENDING \<Rightarrow> MESSAGE_NOTIFY_PENDING
                  | SUB_STATE_TERMINATED \<Rightarrow> MESSAGE_NOTIFY_TERMINATED | SUB_STATE_INIT \<Rightarrow> MESSAGE_INVALID)
            else MESSAGE_INVALID)
         else if sm_method m = METHOD_SUBSCRIBE then
           (if Is1XX nStatusCode then on_subscribe_response nState MESSAGE_SUBSCRIBE_1XX MESSAGE_RESUBSCRIBE_1XX
            else if nStatusCode = 200 then on_subscribe_response nState MESSAGE_SUBSCRIBE_200 MESSAGE_RESUBSCRIBE_200
            else if IsFinalSuccess nStatusCode
            then on_subscribe_response nState MESSAGE_SUBSCRIBE_202 MESSAGE_RESUBSCRIBE_202
            else if nStatusCode = 481 then on_subscribe_response nState MESSAGE_SUBSCRIBE_481 MESSAGE_RESUBSCRIBE_481
            else on_subscribe_response nState MESSAGE_SUBSCRIBE_NON2XX MESSAGE_RESUBSCRIBE_NON2XX)
         else if sm_method m = METHOD_NOTIFY then
           (if Is1XX nStatusCode then MESSAGE_NOTIFY_1XX
            else if su_sub_state s = SUB_STATE_TERMINATED then MESSAGE_NOTIFY_XXX_TERMINATED
            else if IsFinalSuccess nStatusCode then MESSAGE_NOTIFY_2XX else MESSAGE_NOTIFY_NON2XX)
         else MESSAGE_INVALID)"

definition notify_duration :: "SubscriptionState header \<Rightarrow> SubState \<Rightarrow> SubState" where
  "notify_duration h s =
     (let n = ExtractExpiresParameter h;
          updated = (\<lambda>s. if \<not> su_instant s then s\<lparr>su_duration_updated := True\<rparr> else s)
      in if n = NO_EXPIRES then
           (if su_state s = STATE_SUBSCRIBING
            then (let d = ep_initial_duration (su_event_package s);
                      d = (if d = NO_EXPIRES then DEFAULT_DURATION else d)
                  in (updated s)\<lparr>su_duration := d\<rparr>)
            else s)
         else (updated s)\<lparr>su_duration := n\<rparr>)"

definition UpdateOnNotifyRequest :: "RefreshMessage \<Rightarrow> SubState \<Rightarrow> bool \<times> SubState" where
  "UpdateOnNotifyRequest m s =
     (let need = (ep_event_header (su_event_package s) = None)
      in if need \<and> \<not> IsHeaderPresent (sm_event m) then (False, s)
         else
           (let s = (if need then SetEventHeader (case sm_event m of HEADER v \<Rightarrow> Some v | _ \<Rightarrow> None) s else s)
            in case sm_subscription_state m of
                 HEADER ss \<Rightarrow>
                   (let h = HEADER ss; v = ExtractSubStateValue h;
                        s = (if v = SUB_STATE_ACTIVE \<or> v = SUB_STATE_PENDING
                             then (if su_state s \<noteq> STATE_TERMINATED then notify_duration h s
                                   else s\<lparr>su_duration := 0\<rparr>)
                             else if v = SUB_STATE_TERMINATED
                             then s\<lparr>su_duration := 0, su_duration_updated := True\<rparr>
                             else s)
                    in (True, s\<lparr>su_sub_state := v\<rparr>))
               | _ \<Rightarrow> (False, s)))"

definition UpdateOnNotifyResponse :: "RefreshMessage \<Rightarrow> SubState \<Rightarrow> SubState" where
  "UpdateOnNotifyResponse m s =
     (let nStatusCode = sm_status m
      in if Is1XX nStatusCode \<or> IsFinalSuccess nStatusCode \<or> nStatusCode = 401 \<or> nStatusCode = 407 then s
         else if nStatusCode = 481 then s\<lparr>su_state := STATE_TERMINATED\<rparr>
         else if \<not> sm_retry_after m then s\<lparr>su_state := STATE_TERMINATED\<rparr>
         else s)"

definition request_duration :: "int \<Rightarrow> SubState \<Rightarrow> SubState" where
  "request_duration n s =
     (let s = (if su_state s = STATE_INIT
               then (let s = SetInitialDuration n s in if n = 0 then s\<lparr>su_instant := True\<rparr> else s)
               else s)
      in s\<lparr>su_duration := n\<rparr>)"

definition UpdateOnSubscribeRequest :: "RefreshMessage \<Rightarrow> SubState \<Rightarrow> bool \<times> SubState" where
  "UpdateOnSubscribeRequest m s =
     (let s = (case sm_expires m of HEADER n \<Rightarrow> request_duration n s | _ \<Rightarrow> s)
      in if su_state s = STATE_INIT \<and> \<not> IsHeaderPresent (sm_event m) then (False, s)
         else
           (let s = (if su_state s = STATE_INIT
                     then SetEventHeader (case sm_event m of HEADER v \<Rightarrow> Some v | _ \<Rightarrow> None) s else s)
            in (True, if su_operation s = OPERATION_CREATE \<or> su_operation s = OPERATION_REFRESH
                      then StoreMessage m s else s)))"

definition response_duration :: "int \<Rightarrow> SubState \<Rightarrow> SubState" where
  "response_duration n s =
     (if n < 0
      then s\<lparr>su_state := STATE_TERMINATED, su_duration_updated := True, su_duration := 0\<rparr>
      else (if \<not> su_instant s then s\<lparr>su_duration_updated := True\<rparr> else s)\<lparr>su_duration := n\<rparr>)"

definition UpdateOnSubscribeResponse :: "RefreshMessage \<Rightarrow> SubState \<Rightarrow> SubState" where
  "UpdateOnSubscribeResponse m s =
     (let nStatusCode = sm_status m
      in if su_state s = STATE_TERMINATED then s
         else if Is1XX nStatusCode then s
         else if IsFinalSuccess nStatusCode then
           (if IsHeaderPresent (sm_expires m)
            then (case sm_expires m of HEADER n \<Rightarrow> response_duration n s | _ \<Rightarrow> s)
            else if IsConfigurationSet CONFIG_USE_INITIAL_EXPIRES_ON_NO_EXPIRES_IN_200_OK s then
              (if su_state s = STATE_SUBSCRIBING
               then (let d = ep_initial_duration (su_event_package s)
                     in if d \<le> 0 then s\<lparr>su_state := STATE_TERMINATED\<rparr>
                        else s\<lparr>su_duration_updated := True, su_duration := d\<rparr>)
               else s)
            else s\<lparr>su_state := STATE_TERMINATED\<rparr>)
         else if nStatusCode = 401 \<or> nStatusCode = 407 then
           (if su_operation s = OPERATION_REMOVE then s\<lparr>su_state := STATE_TERMINATED\<rparr>
            else if su_state s = STATE_TERMINATED then s\<lparr>su_state := STATE_INIT\<rparr>
            else s)
         else if su_state s = STATE_SUBSCRIBING then s\<lparr>su_state := STATE_TERMINATED\<rparr>
         else s)"

text \<open>The first half of \<open>UpdateState\<close>, up to the table.\<close>

definition sub_update :: "RefreshMessage \<Rightarrow> SubState \<Rightarrow> bool \<times> SubState" where
  "sub_update m s =
     (if sm_method m = METHOD_SUBSCRIBE then
        (if \<not> sm_response m then UpdateOnSubscribeRequest m s
         else (True, UpdateOnSubscribeResponse m (s\<lparr>su_duration_updated := False\<rparr>)))
      else if sm_method m = METHOD_NOTIFY then
        (if \<not> sm_response m then UpdateOnNotifyRequest m (s\<lparr>su_duration_updated := False\<rparr>)
         else (True, UpdateOnNotifyResponse m s))
      else (True, s))"

definition SubscriberState_UpdateState :: "RefreshMessage option \<Rightarrow> SubState \<Rightarrow> bool \<times> SubState" where
  "SubscriberState_UpdateState piSipMsg s =
     (case piSipMsg of
        None \<Rightarrow> (False, s)
      | Some m \<Rightarrow>
          (case sub_update m s of
             (False, s) \<Rightarrow> (False, s)
           | (True, s) \<Rightarrow>
               (let nSipMsg = sub_TranslateMessage m s
                in if nSipMsg = MESSAGE_INVALID then (True, s)
                   else if sub_table (su_state s) nSipMsg \<noteq> STATE_INVALID
                   then (True, s\<lparr>su_state := sub_table (su_state s) nSipMsg\<rparr>)
                   else (True, s))))"

end
