(* ===== verification/Subscription.thy ===== *)
theory Subscription
  imports ServiceMethod SubscriberState
begin

text \<open>
  Outgoing subscriptions (\<open>engine/core/Subscription.cpp\<close>) with their refresh
  (\<open>engine/core/SubscriberRefreshHelper.cpp\<close>). The record extends that of the refresh helper, whose
  callbacks go back to the subscription: \<open>m_pSubState\<close> is the state the two share, \<open>m_method\<close> the
  part of the base classes. Listeners are present or not; calls to the refresh listener are in
  \<open>m_aEvents\<close>, the messages a subscription posts to itself in \<open>m_aPosted\<close>, calls to its
  listener in \<open>m_aCalls\<close>. A handler gets the connection with the message it carries; without one
  the code would follow a null pointer, and the model does nothing.
\<close>

section \<open>State\<close>

datatype subscription_state = SUBSCRIPTION_INACTIVE | SUBSCRIPTION_PENDING | SUBSCRIPTION_ACTIVE

datatype subscription_amsg =
  AMSG_NOTIFY_RECEIVED | AMSG_STARTED | AMSG_START_FAILED | AMSG_TERMINATED | AMSG_FORKED_NOTIFY_RECEIVED | AMSG_DESTROY

datatype subscription_call =
  ON_NOTIFY_RECEIVED RefreshMessage | ON_STARTED | ON_START_FAILED | ON_TERMINATED | ON_FORKED_NOTIFY_RECEIVED

record Subscription = RefreshHelper +
  m_nState :: subscription_state
  m_strEvent :: AString
  m_nPendingOperation :: sub_operation
  m_piListener :: bool
  m_pSubState :: SubState
  m_piRefreshListener :: bool
  m_objNotifyMessages :: "RefreshMessage list"
  m_nForkedSubscriptions :: nat
  m_bSubscriptionInOtherDialog :: bool
  m_bImplicitRoutingRequired :: bool
  m_method :: ServiceMethod
  m_aPosted :: "subscription_amsg list"
  m_aCalls :: "subscription_call list"

record SubscriptionEnv = ServiceEnv +
  se_NotifyTimerExpired :: bool
  se_ValidateRequestUri :: bool
  se_HandleOptions :: bool
  se_IsServiceOpen :: bool
  se_ForkedAccepted :: bool
  se_IsSameDialog :: "nat \<Rightarrow> nat \<Rightarrow> bool"

definition upd_method :: "(ServiceMethod \<Rightarrow> ServiceMethod) \<Rightarrow> Subscription \<Rightarrow> Subscription" where
  "upd_method f s = s\<lparr>m_method := f (m_method s)\<rparr>"

definition with_method :: "(ServiceMethod \<Rightarrow> 'a \<times> ServiceMethod) \<Rightarrow> Subscription \<Rightarrow> 'a \<times> Subscription" where
  "with_method f s = (case f (m_method s) of (r, t) \<Rightarrow> (r, s\<lparr>m_method := t\<rparr>))"

definition upd_sub :: "(SubState \<Rightarrow> SubState) \<Rightarrow> Subscription \<Rightarrow> Subscription" where
  "upd_sub f s = s\<lparr>m_pSubState := f (m_pSubState s)\<rparr>"

definition SetOperation :: "sub_operation \<Rightarrow> Subscription \<Rightarrow> Subscription" where
  "SetOperation op = upd_sub (\<lambda>t. t\<lparr>su_operation := op\<rparr>)"

definition PostMessage :: "subscription_amsg \<Rightarrow> Subscription \<Rightarrow> Subscription" where
  "PostMessage a s = s\<lparr>m_aPosted := m_aPosted s @ [a]\<rparr>"

definition Subscription_SetState :: "subscription_state \<Rightarrow> Subscription \<Rightarrow> Subscription" where
  "Subscription_SetState st s = s\<lparr>m_nState := st\<rparr>"

definition UpdateSubState :: "RefreshMessage option \<Rightarrow> Subscription \<Rightarrow> bool \<times> Subscription" where
  "UpdateSubState m s = (case SubscriberState_UpdateState m (m_pSubState s) of (ok, t) \<Rightarrow> (ok, s\<lparr>m_pSubState := t\<rparr>))"

definition GetOperation :: "Subscription \<Rightarrow> sub_operation" where
  "GetOperation s = su_operation (m_pSubState s)"

definition GetDialog :: "Subscription \<Rightarrow> nat option" where
  "GetDialog s = m_piDialog (m_method s)"

text \<open>A subscription as its constructor and \<open>InitInstance\<close> leave it; \<open>dlg\<close> is the dialog of another
  usage in which it is made.\<close>

definition Subscription_new :: "AString \<Rightarrow> bool \<Rightarrow> nat option \<Rightarrow> Subscription" where
  "Subscription_new strEvent bImplicitRoutingRequired dlg =
     RefreshHelper.extend (RefreshHelper_new True False)
       (Subscription.Subscription.fields SUBSCRIPTION_INACTIVE strEvent NO_OPERATION False
          ((CreateEventPackage strEvent SubState_new)
             \<lparr>su_config := CONFIG_USE_INITIAL_EXPIRES_ON_NO_EXPIRES_IN_200_OK\<rparr>)
          False [] 0 (dlg \<noteq> None) bImplicitRoutingRequired (ServiceMethod_new\<lparr>m_piDialog := dlg\<rparr>) [] [])"

section \<open>Requests\<close>

definition CreateConnectionL :: "SubscriptionEnv \<Rightarrow> nat option \<Rightarrow> Subscription \<Rightarrow> ISipConnection option \<times> Subscription" where
  "CreateConnectionL env dlg s =
     (case with_method (CreateConnection env dlg METHOD_SUBSCRIBE) s of
        (piScc, s) \<Rightarrow>
          (if m_bImplicitRoutingRequired s then map_option (se_SetImplicitRouteHeader env) piScc else piScc, s))"

definition SetEventAndExpires :: "AString \<Rightarrow> int \<Rightarrow> bool \<Rightarrow> ISipConnection \<Rightarrow> ISipConnection" where
  "SetEventAndExpires strEvent n overwrite piScc =
     piScc\<lparr>sc_message := map_option (\<lambda>m.
       (let m = m\<lparr>sm_event := HEADER strEvent\<rparr>
        in if overwrite \<or> \<not> IsHeaderPresent (sm_expires m) then m\<lparr>sm_expires := HEADER n\<rparr> else m)) (sc_message piScc)\<rparr>"

definition failure :: "ims_error \<Rightarrow> Subscription \<Rightarrow> bool \<times> Subscription" where
  "failure e s = (False, upd_method (SetLastError e) s)"

text \<open>What the three requests have in common once the connection exists.\<close>

definition submit :: "SubscriptionEnv \<Rightarrow> service_method \<Rightarrow> (Subscription \<Rightarrow> sub_operation) \<Rightarrow> ISipConnection
    \<Rightarrow> (ISipConnection \<Rightarrow> Subscription \<Rightarrow> Subscription) \<Rightarrow> Subscription \<Rightarrow> bool \<times> Subscription" where
  "submit env k op piScc UpdateDialog s =
     (case SendNUpdateRequest env k piScc (m_method s) of
        (False, piScc, t) \<Rightarrow> (False, s\<lparr>m_method := Close (Some (sc_id piScc)) t\<rparr>)
      | (True, piScc, t) \<Rightarrow>
          (let s = s\<lparr>m_method := t\<rparr>; s = SetOperation (op s) s
           in case UpdateSubState (sc_message piScc) s of
                (False, s) \<Rightarrow> (False, SetOperation NO_OPERATION s)
              | (True, s) \<Rightarrow>
                  (True, upd_method (SetLastError IMS_NO_ERROR)
                           (Subscription_SetState SUBSCRIPTION_PENDING (UpdateDialog piScc s)))))"

definition Poll :: "SubscriptionEnv \<Rightarrow> Subscription \<Rightarrow> bool \<times> Subscription" where
  "Poll env s =
     (if m_nState s \<noteq> SUBSCRIPTION_INACTIVE then failure IMS_ILLEGAL_STATE s
      else
        (case with_method (CreateConnection env None METHOD_SUBSCRIBE) s of
           (None, s) \<Rightarrow> (False, s)
         | (Some piScc, s) \<Rightarrow>
             submit env SUBSCRIPTION_POLL (\<lambda>_. OPERATION_FETCH)
               (SetEventAndExpires (m_strEvent s) 0 False piScc) (\<lambda>_ s. s) s))"

definition subscribe_expires :: "Subscription \<Rightarrow> int" where
  "subscribe_expires s =
     (let d = ep_initial_duration (su_event_package (m_pSubState s))
      in if d \<noteq> - 1 then d else DEFAULT_DURATION)"

definition Subscribe :: "SubscriptionEnv \<Rightarrow> Subscription \<Rightarrow> bool \<times> Subscription" where
  "Subscribe env s =
     (if m_nState s \<noteq> SUBSCRIPTION_INACTIVE \<and> m_nState s \<noteq> SUBSCRIPTION_ACTIVE then failure IMS_ILLEGAL_STATE s
      else if su_instant (m_pSubState s) then failure IMS_INVALID_OPERATION s
      else if GetOperation s = OPERATION_IMPLICIT_REFRESH
      then failure IMS_NO_ERROR (Subscription_SetState SUBSCRIPTION_PENDING (s\<lparr>m_nPendingOperation := OPERATION_REFRESH\<rparr>))
      else
        (case (if GetDialog s = None then with_method (CreateConnection env None METHOD_SUBSCRIBE) s
               else CreateConnectionL env (GetDialog s) s) of
           (None, s) \<Rightarrow> (False, s)
         | (Some piScc, s) \<Rightarrow>
             submit env SUBSCRIPTION_SUBSCRIBE
               (\<lambda>s. if m_nState s = SUBSCRIPTION_INACTIVE then OPERATION_CREATE else OPERATION_REFRESH)
               (SetEventAndExpires (m_strEvent s) (subscribe_expires s) False piScc)
               (\<lambda>piScc s. if m_nState s = SUBSCRIPTION_INACTIVE \<and> m_bSubscriptionInOtherDialog s
                          then upd_method (CheckNCreateDialog env piScc True False) s else s) s))"

definition Unsubscribe :: "SubscriptionEnv \<Rightarrow> Subscription \<Rightarrow> bool \<times> Subscription" where
  "Unsubscribe env s =
     (if m_nState s \<noteq> SUBSCRIPTION_ACTIVE then failure IMS_ILLEGAL_STATE s
      else if GetOperation s = OPERATION_IMPLICIT_REFRESH
      then failure IMS_NO_ERROR (Subscription_SetState SUBSCRIPTION_PENDING (s\<lparr>m_nPendingOperation := OPERATION_REMOVE\<rparr>))
      else
        (case CreateConnectionL env (GetDialog s) s of
           (None, s) \<Rightarrow> (False, s)
         | (Some piScc, s) \<Rightarrow>
             submit env SUBSCRIPTION_UNSUBSCRIBE (\<lambda>_. OPERATION_REMOVE)
               (SetEventAndExpires (m_strEvent s) 0 True piScc) (\<lambda>_ s. s) s))"

definition SetRefreshPolicy :: "refresh_policy \<Rightarrow> int \<Rightarrow> int \<Rightarrow> int \<Rightarrow> Subscription \<Rightarrow> Subscription" where
  "SetRefreshPolicy nPolicy nCriteriaInterval nValueEorLt nValueGt s =
     (if m_nState s \<noteq> SUBSCRIPTION_INACTIVE then s else SetPolicy nPolicy nCriteriaInterval nValueEorLt nValueGt s)"

definition SetImplicitRoutingRequired :: "bool \<Rightarrow> Subscription \<Rightarrow> Subscription" where
  "SetImplicitRoutingRequired bFlag s = s\<lparr>m_bImplicitRoutingRequired := bFlag\<rparr>"

section \<open>Refresh\<close>

text \<open>The calls of the helper that reach the subscription, and the dialog that decides on its end.\<close>

definition CheckDialogNCallListener :: "SubscriptionEnv \<Rightarrow> Subscription \<Rightarrow> Subscription" where
  "CheckDialogNCallListener env s =
     (case GetDialog s of
        Some d \<Rightarrow> if se_DialogState env d = DIALOG_TERMINATED then PostMessage AMSG_TERMINATED s else s
      | None \<Rightarrow> PostMessage AMSG_TERMINATED s)"

text \<open>Sending the request with credentials: an implicit refresh keeps its connection in the helper.\<close>

definition challenged_method :: "sub_operation \<Rightarrow> service_method" where
  "challenged_method nOperation =
     (if nOperation = OPERATION_REMOVE then SUBSCRIPTION_UNSUBSCRIBE
      else if nOperation = OPERATION_FETCH then SUBSCRIPTION_POLL else SUBSCRIPTION_SUBSCRIBE)"

definition Subscription_SendRequestToChallenge :: "SubscriptionEnv \<Rightarrow> ISipConnection \<Rightarrow> Subscription
    \<Rightarrow> bool \<times> ISipConnection \<times> Subscription" where
  "Subscription_SendRequestToChallenge env piScc s =
     (let k = challenged_method (GetOperation s);
          implicit = (GetOperation s = OPERATION_IMPLICIT_REFRESH);
          (ok, piScc, t) = (if implicit then Method_SendRequestToChallenge env piScc (m_method s)
                            else SendNUpdateRequestEx env k piScc (ClearConnection k (m_method s)));
          s = s\<lparr>m_method := t\<rparr>
      in if \<not> ok then (False, piScc, if implicit then s else upd_method (UpdateConnection k (sc_id piScc)) s)
         else (case UpdateSubState (sc_message piScc) s of (ok, s) \<Rightarrow> (ok, piScc, s)))"

definition Subscription_RespondToChallenge :: "SubscriptionEnv \<Rightarrow> ISipConnection \<Rightarrow> Subscription
    \<Rightarrow> bool \<times> ISipConnection \<times> Subscription" where
  "Subscription_RespondToChallenge env =
     RespondToChallenge (Subscription_SendRequestToChallenge env) m_method upd_method env"

definition Subscription_RefreshTerminated :: "Subscription \<Rightarrow> Subscription" where
  "Subscription_RefreshTerminated s =
     (let s = (if m_piRefreshListener s then note_event REFRESH_TERMINATED s else s);
          s = (if m_nState s = SUBSCRIPTION_ACTIVE
               then PostMessage AMSG_TERMINATED (Subscription_SetState SUBSCRIPTION_INACTIVE s) else s)
      in if m_nState s = SUBSCRIPTION_INACTIVE then upd_method DestroyDialog (upd_sub SubState_Clear s) else s)"

definition Subscription_RefreshCompleted :: "SubscriptionEnv \<Rightarrow> ISipConnection \<Rightarrow> int \<Rightarrow> Subscription
    \<Rightarrow> ISipConnection \<times> Subscription" where
  "Subscription_RefreshCompleted env piScc nCode s =
     (let s = (if m_piRefreshListener s then note_event (REFRESH_COMPLETED (sc_id piScc) nCode) s else s)
      in if nCode = 0 then
           (case UpdateSubState (sc_message piScc) s of
              (False, s) \<Rightarrow> (piScc, CheckDialogNCallListener env (SetOperation NO_OPERATION s))
            | (True, s) \<Rightarrow>
                (let nStatusCode = (case sc_message piScc of None \<Rightarrow> 0 | Some m \<Rightarrow> sm_status m);
                     (answered, piScc, s) =
                       (if nStatusCode = 401 \<or> nStatusCode = 407 then Subscription_RespondToChallenge env piScc s
                        else (False, piScc, s))
                 in if answered then (piScc, s)
                    else (piScc, SetOperation NO_OPERATION
                            (CheckDialogNCallListener env (upd_method (ResetChallengeCount piScc) s)))))
         else (piScc, SetOperation NO_OPERATION
                 (if nCode = 408 \<or> nCode = - 1 then Subscription_RefreshTerminated s else s)))"

definition refresh_request :: "SubscriptionEnv \<Rightarrow> ISipConnection \<Rightarrow> Subscription \<Rightarrow> ISipConnection option" where
  "refresh_request env piScc s =
     (case (su_message (m_pSubState s), sc_message piScc) of
        (Some n, Some m) \<Rightarrow>
          map_option (\<lambda>m. piScc\<lparr>sc_message := Some m\<rparr>) (se_CopyHeadersAndBodyParts env m n)
      | _ \<Rightarrow> Some piScc)"

text \<open>\<open>SubscriberRefreshHelper::SendRefreshRequest\<close> adds no header. What it sends is recorded.\<close>

definition SubscriberRefreshHelper_SendRefreshRequest :: "SubscriptionEnv \<Rightarrow> ISipConnection \<Rightarrow> Subscription
    \<Rightarrow> bool \<times> ISipConnection \<times> Subscription" where
  "SubscriberRefreshHelper_SendRefreshRequest env piScc s =
     (case RefreshHelper_SendRefreshRequest (se_refresh env) piScc s of
        (False, piScc, s) \<Rightarrow> (False, piScc, s)
      | (True, piScc, s) \<Rightarrow> (True, piScc, upd_method (sent piScc) s))"

definition Subscription_RefreshStarted :: "SubscriptionEnv \<Rightarrow> Subscription \<Rightarrow> bool \<times> Subscription" where
  "Subscription_RefreshStarted env s =
     (let nState = m_nState s;
          s = (if m_piRefreshListener s then note_event REFRESH_STARTED s else s);
          bDoImplicitRefresh = (m_piRefreshListener s \<longrightarrow> se_NotifyTimerExpired env)
      in if bDoImplicitRefresh \<and> nState = SUBSCRIPTION_ACTIVE then
           (let s = SetOperation OPERATION_IMPLICIT_REFRESH s
            in case se_CreateConnection env (GetDialog s) METHOD_SUBSCRIBE of
                 None \<Rightarrow> (False, SetOperation NO_OPERATION s)
               | Some piScc \<Rightarrow>
                   (case refresh_request env piScc s of
                      None \<Rightarrow> (False, upd_method (Close (Some (sc_id piScc))) (SetOperation NO_OPERATION s))
                    | Some piScc \<Rightarrow>
                        (case SubscriberRefreshHelper_SendRefreshRequest env
                                (if m_bImplicitRoutingRequired s then se_SetImplicitRouteHeader env piScc else piScc) s of
                           (False, piScc, s) \<Rightarrow>
                             (False, upd_method (Close (Some (sc_id piScc))) (SetOperation NO_OPERATION s))
                         | (True, piScc, s) \<Rightarrow> (True, snd (UpdateSubState (sc_message piScc) s)))))
         else (\<not> bDoImplicitRefresh, s))"

text \<open>\<open>SubscriberRefreshHelper\<close>, whose \<open>m_pSubState\<close> is that of the subscription.\<close>

definition Subscriber_StartRefresh :: "SubscriptionEnv \<Rightarrow> Subscription \<Rightarrow> bool \<times> Subscription" where
  "Subscriber_StartRefresh env = StartRefresh RefreshHelper_GetTimerInterval (se_refresh env)"

definition Subscriber_UpdateOnMessageReceived :: "SubscriptionEnv \<Rightarrow> ISipConnection \<Rightarrow> Subscription \<Rightarrow> bool \<times> Subscription" where
  "Subscriber_UpdateOnMessageReceived env piSc s =
     (case sc_message piSc of
        None \<Rightarrow> (False, s)
      | Some m \<Rightarrow>
          if sm_method m \<noteq> METHOD_SUBSCRIBE then (True, s)
          else if IsTerminated (m_pSubState s) then (True, StopRefresh s)
          else if IsFinalSuccess (sm_status m) then
            (if su_duration_updated (m_pSubState s) then
               (if su_duration (m_pSubState s) \<le> 0 then (True, StopRefresh s)
                else Subscriber_StartRefresh env (StopRefresh (SetDuration (su_duration (m_pSubState s)) s)))
             else (True, s))
          else (True, snd (ConsumeRemainedTime (se_refresh env) s)))"

definition Subscriber_UpdateOnMessageSent :: "SubscriptionEnv \<Rightarrow> ISipConnection \<Rightarrow> Subscription \<Rightarrow> bool \<times> Subscription" where
  "Subscriber_UpdateOnMessageSent env piSc s =
     (case sc_message piSc of
        None \<Rightarrow> (False, s)
      | Some m \<Rightarrow>
          if sm_method m = METHOD_SUBSCRIBE then (True, s)
          else if IsTerminated (m_pSubState s) then (True, StopRefresh s)
          else
            (let s = (if su_duration_updated (m_pSubState s) then StopRefresh s else s)
             in if IsFinalSuccess (sm_status m) \<and> su_duration_updated (m_pSubState s) \<and> su_duration (m_pSubState s) > 0
                then Subscriber_StartRefresh env (SetDuration (su_duration (m_pSubState s)) s)
                else (True, s)))"

definition Subscriber_RefreshCompleted :: "SubscriptionEnv \<Rightarrow> ISipConnection \<Rightarrow> int \<Rightarrow> Subscription \<Rightarrow> Subscription" where
  "Subscriber_RefreshCompleted env piScc nCode s =
     (case Subscription_RefreshCompleted env piScc nCode s of
        (piScc, s) \<Rightarrow>
          if nCode = 0 then
            (let nStatusCode = (case sc_message piScc of None \<Rightarrow> 0 | Some m \<Rightarrow> sm_status m);
                 s = (if IsFinalSuccess nStatusCode then StopRefresh s else s)
             in snd (Subscriber_UpdateOnMessageReceived env piScc s))
          else if nCode = - 1 then StopRefresh s
          else s)"

definition Subscriber_RefreshStarted :: "SubscriptionEnv \<Rightarrow> Subscription \<Rightarrow> Subscription" where
  "Subscriber_RefreshStarted env s =
     (case Subscription_RefreshStarted env s of
        (True, s) \<Rightarrow> s
      | (False, s) \<Rightarrow> Subscription_RefreshTerminated s)"

definition Subscriber_TimerExpired :: "SubscriptionEnv \<Rightarrow> nat \<Rightarrow> Subscription \<Rightarrow> Subscription" where
  "Subscriber_TimerExpired env =
     Timer_TimerExpired (\<lambda>_. Subscriber_RefreshStarted env) Subscription_RefreshTerminated (se_refresh env)"

text \<open>The callbacks of the connection of an implicit refresh.\<close>

definition Subscriber_Error_NotifyError :: "SubscriptionEnv \<Rightarrow> bool \<Rightarrow> int \<Rightarrow> ISipConnection \<Rightarrow> Subscription \<Rightarrow> Subscription" where
  "Subscriber_Error_NotifyError env bTransactionTimerExpired nCode piSc s =
     SetConnection None (Subscriber_RefreshCompleted env piSc (if bTransactionTimerExpired then - 1 else nCode) s)"

definition Subscriber_ClientConnection_NotifyResponse :: "SubscriptionEnv \<Rightarrow> int \<Rightarrow> ISipConnection \<Rightarrow> Subscription \<Rightarrow> Subscription" where
  "Subscriber_ClientConnection_NotifyResponse env nParsingError piScc s =
     (case sc_message piScc of
        None \<Rightarrow> s
      | Some m \<Rightarrow>
          if \<not> se_CreateMessageBodyParts env m then Subscriber_Error_NotifyError env False nParsingError piScc s
          else
            (let nStatusCode = sm_status m; nMethod = sm_method m;
                 s = Subscriber_RefreshCompleted env piScc 0 s
             in if 200 \<le> nStatusCode \<and> nStatusCode \<noteq> 401 \<and> nStatusCode \<noteq> 407 then
                  (let s = SetConnection None s;
                       s = (if nMethod = METHOD_INVITE \<and> nStatusCode = 422 then Subscriber_RefreshStarted env s else s)
                   in if \<not> env_UpdateByReInvite (se_refresh env) \<and> nMethod = METHOD_UPDATE \<and> nStatusCode = 500
                      then Subscriber_RefreshStarted env s else s)
                else s))"

section \<open>Responses\<close>

definition operation_method :: "sub_operation \<Rightarrow> service_method option" where
  "operation_method nOperation =
     (case nOperation of
        OPERATION_CREATE \<Rightarrow> Some SUBSCRIPTION_SUBSCRIBE
      | OPERATION_REFRESH \<Rightarrow> Some SUBSCRIPTION_SUBSCRIBE
      | OPERATION_FETCH \<Rightarrow> Some SUBSCRIPTION_POLL
      | OPERATION_REMOVE \<Rightarrow> Some SUBSCRIPTION_UNSUBSCRIBE
      | _ \<Rightarrow> None)"

definition UpdateResponse :: "SubscriptionEnv \<Rightarrow> ISipConnection \<Rightarrow> Subscription \<Rightarrow> Subscription" where
  "UpdateResponse env piScc s =
     (case operation_method (GetOperation s) of
        None \<Rightarrow> s
      | Some k \<Rightarrow> snd (with_method (UpdateResponseOnReceived env k piScc) s))"

definition Subscription_CloseConnection :: "Subscription \<Rightarrow> Subscription" where
  "Subscription_CloseConnection s =
     SetOperation NO_OPERATION
       (case operation_method (GetOperation s) of None \<Rightarrow> s | Some k \<Rightarrow> upd_method (CloseConnection k) s)"

text \<open>The end of a final response: the new state, and a subscription that is inactive starts anew.\<close>

definition initialize_inactive :: "bool \<Rightarrow> Subscription \<Rightarrow> Subscription" where
  "initialize_inactive keep_dialog s =
     (let s = upd_sub SubState_Clear s in if keep_dialog then s else upd_method DestroyDialog s)"

definition final_response :: "SubscriptionEnv \<Rightarrow> sub_operation \<Rightarrow> int \<Rightarrow> ISipConnection \<Rightarrow> Subscription \<Rightarrow> Subscription" where
  "final_response env nOperation nStatusCode piScc s =
     (let s = snd (Subscriber_UpdateOnMessageReceived env piScc s);
          s = (if IsFinalSuccess nStatusCode
               then (let s = (if m_nState s \<noteq> SUBSCRIPTION_PENDING
                              then upd_method (CheckNCreateDialog env piScc (m_bSubscriptionInOtherDialog s) False) s
                              else upd_method (CheckNCreateDialog env piScc False True) s)
                     in PostMessage AMSG_STARTED (Subscription_SetState SUBSCRIPTION_ACTIVE s))
               else PostMessage AMSG_START_FAILED (Subscription_SetState SUBSCRIPTION_INACTIVE s));
          s = Subscription_CloseConnection s;
          s = (if nOperation \<noteq> OPERATION_CREATE \<and> nOperation \<noteq> OPERATION_FETCH
               then CheckDialogNCallListener env s else s)
      in if m_nState s = SUBSCRIPTION_INACTIVE then initialize_inactive (m_bSubscriptionInOtherDialog s) s else s)"

definition NotifySipResponse :: "SubscriptionEnv \<Rightarrow> ISipConnection \<Rightarrow> Subscription \<Rightarrow> Subscription" where
  "NotifySipResponse env piScc s =
     (case sc_message piScc of
        None \<Rightarrow> s
      | Some m \<Rightarrow>
          if sm_method m \<noteq> METHOD_SUBSCRIBE then upd_method (Close (Some (sc_id piScc))) s
          else
            (let nOperation = GetOperation s; nStatusCode = sm_status m
             in case UpdateSubState (Some m) s of
                  (False, s) \<Rightarrow>
                    (let s = PostMessage AMSG_START_FAILED (Subscription_SetState SUBSCRIPTION_INACTIVE s);
                         s = Subscription_CloseConnection s
                     in if nOperation = OPERATION_CREATE then initialize_inactive (m_bSubscriptionInOtherDialog s) s else s)
                | (True, s) \<Rightarrow>
                    (let s = UpdateResponse env piScc s
                     in if Is1XX nStatusCode then s
                        else
                          (case (if nStatusCode = 401 \<or> nStatusCode = 407 then Subscription_RespondToChallenge env piScc s
                                 else (False, piScc, s)) of
                             (True, piScc, s) \<Rightarrow> s
                           | (False, piScc, s) \<Rightarrow> final_response env nOperation nStatusCode piScc s))))"

definition NotifySipError :: "ISipConnection \<Rightarrow> Subscription \<Rightarrow> Subscription" where
  "NotifySipError piSc s =
     (case sc_message piSc of
        None \<Rightarrow> s
      | Some m \<Rightarrow>
          if sm_method m \<noteq> METHOD_SUBSCRIBE then upd_method (Close (Some (sc_id piSc))) s
          else
            (let nOperation = GetOperation s;
                 s = (if nOperation \<noteq> NO_OPERATION \<and> nOperation \<noteq> OPERATION_IMPLICIT_REFRESH
                      then PostMessage AMSG_START_FAILED (Subscription_SetState SUBSCRIPTION_INACTIVE s) else s);
                 s = Subscription_CloseConnection s
             in if m_nState s = SUBSCRIPTION_INACTIVE then initialize_inactive False s else s))"

definition Subscription_NotifyResponse :: "SubscriptionEnv \<Rightarrow> ISipConnection \<Rightarrow> Subscription \<Rightarrow> Subscription" where
  "Subscription_NotifyResponse env =
     Method_ClientConnection_NotifyResponse (NotifySipResponse env) NotifySipError upd_method env"

definition Subscription_NotifyError :: "ISipConnection \<Rightarrow> Subscription \<Rightarrow> Subscription" where
  "Subscription_NotifyError = Method_Error_NotifyError NotifySipError upd_method"

section \<open>Notifications\<close>

definition Dialog_Compare :: "SubscriptionEnv \<Rightarrow> ISipConnection \<Rightarrow> Subscription \<Rightarrow> bool" where
  "Dialog_Compare env piSsc s =
     (case sc_message piSsc of
        None \<Rightarrow> False
      | Some m \<Rightarrow>
          if sm_method m \<noteq> METHOD_NOTIFY then False
          else
            (let connection = (\<lambda>k. map_option (se_DialogOf env) (fst (GetConnection k (m_method s))));
                 piDialog = (case GetDialog s of
                     Some d \<Rightarrow> Some d
                   | None \<Rightarrow>
                       if m_nState s \<noteq> SUBSCRIPTION_PENDING then None
                       else if GetOperation s = OPERATION_CREATE then connection SUBSCRIPTION_SUBSCRIBE
                       else if GetOperation s = OPERATION_FETCH then connection SUBSCRIPTION_POLL
                       else None)
             in case piDialog of None \<Rightarrow> False | Some d \<Rightarrow> se_IsSameDialog env d (sc_id piSsc)))"

text \<open>The NOTIFY once it has been accepted by the state: it is answered at once and queued.\<close>

definition reject :: "SubscriptionEnv \<Rightarrow> int \<Rightarrow> ISipConnection \<Rightarrow> Subscription \<Rightarrow> Subscription" where
  "reject env nStatusCode piSsc s =
     upd_method (Close (Some (sc_id piSsc)))
       (case se_SendResponse env nStatusCode piSsc of None \<Rightarrow> s | Some c \<Rightarrow> upd_method (sent c) s)"

definition answer_notify :: "SubscriptionEnv \<Rightarrow> RefreshMessage \<Rightarrow> ISipConnection \<Rightarrow> Subscription \<Rightarrow> bool \<times> Subscription" where
  "answer_notify env m piSsc s =
     (let closed = upd_method (Close (Some (sc_id piSsc)))
      in if \<not> se_CreateReceivedMessage env m then
           (False, closed
             (case se_SendResponse env 500 piSsc of
                None \<Rightarrow> s
              | Some piSsc \<Rightarrow>
                  snd (Subscriber_UpdateOnMessageSent env piSsc
                    (snd (UpdateSubState (sc_message piSsc) (upd_method (sent piSsc) s))))))
         else
           (case se_SendResponse env 200 piSsc of
              None \<Rightarrow> (False, closed s)
            | Some piSsc \<Rightarrow>
                (case UpdateSubState (sc_message piSsc) (upd_method (sent piSsc) s) of
                   (False, s) \<Rightarrow> (False, closed s)
                 | (True, s) \<Rightarrow>
                     (let s = snd (Subscriber_UpdateOnMessageSent env piSsc s);
                          s = closed (s\<lparr>m_objNotifyMessages := m_objNotifyMessages s @ [m]\<rparr>);
                          s = PostMessage AMSG_NOTIFY_RECEIVED s
                      in (True, if su_state (m_pSubState s) = STATE_TERMINATED
                                then PostMessage AMSG_TERMINATED s else s)))))"

definition Dialog_NotifyRequest :: "SubscriptionEnv \<Rightarrow> ISipConnection \<Rightarrow> Subscription \<Rightarrow> bool \<times> Subscription" where
  "Dialog_NotifyRequest env piSsc s =
     (case sc_message piSsc of
        None \<Rightarrow> (False, s)
      | Some m \<Rightarrow>
          if sm_method m = METHOD_OPTIONS then (se_HandleOptions env, s)
          else if sm_method m \<noteq> METHOD_NOTIFY then (False, reject env 405 piSsc s)
          else if \<not> se_ValidateRequestUri env then (False, reject env 404 piSsc s)
          else
            (let s = upd_method (CheckNCreateDialog env piSsc False False) s;
                 s = upd_method (CheckNCreateDialog env piSsc
                       (m_nState s \<noteq> SUBSCRIPTION_ACTIVE \<and> m_bSubscriptionInOtherDialog s) False) s
             in case UpdateSubState (Some m) s of
                  (False, s) \<Rightarrow> (False, reject env 500 piSsc s)
                | (True, s) \<Rightarrow> answer_notify env m piSsc s))"

text \<open>A NOTIFY of another branch of a forked SUBSCRIBE makes a subscription of its own.\<close>

definition ForkedDialog_Compare :: "SubscriptionEnv \<Rightarrow> nat \<Rightarrow> Subscription \<Rightarrow> bool" where
  "ForkedDialog_Compare env piOrigDialog s = (se_IsServiceOpen env \<and> GetDialog s = Some piOrigDialog)"

definition forked_subscription :: "SubscriptionEnv \<Rightarrow> ISipConnection \<Rightarrow> Subscription \<Rightarrow> Subscription" where
  "forked_subscription env piSsc s =
     (let f = Subscription_new (m_strEvent s) True (GetDialog s);
          f = upd_method (CheckNCreateDialog env piSsc True False) f;
          f = SetOperation OPERATION_CREATE (Subscription_SetState SUBSCRIPTION_ACTIVE f)
      in SetOperation NO_OPERATION (snd (UpdateSubState (su_message (m_pSubState s)) f)))"

definition ForkedDialog_NotifyRequest :: "SubscriptionEnv \<Rightarrow> ISipConnection \<Rightarrow> Subscription
    \<Rightarrow> bool \<times> Subscription \<times> Subscription" where
  "ForkedDialog_NotifyRequest env piSsc s =
     (let f = forked_subscription env piSsc s;
          s = PostMessage AMSG_FORKED_NOTIFY_RECEIVED (s\<lparr>m_nForkedSubscriptions := m_nForkedSubscriptions s + 1\<rparr>)
      in case Dialog_NotifyRequest env piSsc f of (ok, f) \<Rightarrow> (ok, f, s))"

section \<open>Posted messages, end\<close>

definition call :: "subscription_call \<Rightarrow> Subscription \<Rightarrow> Subscription" where
  "call c s = (if m_piListener s then s\<lparr>m_aCalls := m_aCalls s @ [c]\<rparr> else s)"

definition DispatchMessage :: "subscription_amsg \<Rightarrow> Subscription \<Rightarrow> Subscription" where
  "DispatchMessage a s =
     (case a of
        AMSG_NOTIFY_RECEIVED \<Rightarrow>
          (case m_objNotifyMessages s of
             [] \<Rightarrow> s
           | m # ms \<Rightarrow> (call (ON_NOTIFY_RECEIVED m) s)\<lparr>m_objNotifyMessages := ms\<rparr>)
      | AMSG_STARTED \<Rightarrow> call ON_STARTED s
      | AMSG_START_FAILED \<Rightarrow> call ON_START_FAILED s
      | AMSG_TERMINATED \<Rightarrow> call ON_TERMINATED s
      | AMSG_FORKED_NOTIFY_RECEIVED \<Rightarrow>
          (if m_nForkedSubscriptions s = 0 then s
           else call ON_FORKED_NOTIFY_RECEIVED (s\<lparr>m_nForkedSubscriptions := m_nForkedSubscriptions s - 1\<rparr>))
      | AMSG_DESTROY \<Rightarrow> s)"

definition CleanupOnDestroy :: "Subscription \<Rightarrow> Subscription" where
  "CleanupOnDestroy s = (if IsRequestPending s then AbortConnection s else s)"

definition Subscription_Destroy :: "Subscription \<Rightarrow> Subscription" where
  "Subscription_Destroy s = PostMessage AMSG_DESTROY (upd_method ServiceMethod_Destroy (CleanupOnDestroy s))"

end
