(* ===== verification/SubscriberFacts.thy ===== *)
theory SubscriberFacts
  imports SubscriberState
begin

text \<open>
  The state of a subscription explained by its messages: what any sequence of them can make of a new
  subscription.
\<close>

section \<open>What the messages say\<close>

text \<open>
  The specification looks only at the messages of a subscription, not at the states: a SUBSCRIBE asks
  for it, a 2xx to SUBSCRIBE or a NOTIFY with the value active or pending grants it. A message is
  \<open>final\<close> when it ends a subscription that has been asked for, whatever came before; it is a
  \<open>cause\<close> when it may have ended one.
\<close>

definition is_request :: "SipMethod \<Rightarrow> RefreshMessage \<Rightarrow> bool" where
  "is_request meth m = (sm_method m = meth \<and> \<not> sm_response m)"

definition is_response :: "SipMethod \<Rightarrow> (int \<Rightarrow> bool) \<Rightarrow> RefreshMessage \<Rightarrow> bool" where
  "is_response meth P m = (sm_method m = meth \<and> sm_response m \<and> P (sm_status m))"

definition failed_status :: "int \<Rightarrow> bool" where
  "failed_status c = (\<not> Is1XX c \<and> \<not> IsFinalSuccess c)"

definition no_lifetime :: "RefreshMessage \<Rightarrow> bool" where
  "no_lifetime m = (case sm_expires m of HEADER n \<Rightarrow> n < 0 | NO_HEADER \<Rightarrow> True | BAD_HEADER \<Rightarrow> False)"

definition notifies :: "sub_state_value \<Rightarrow> RefreshMessage \<Rightarrow> bool" where
  "notifies v m = (is_request METHOD_NOTIFY m \<and>
     (case sm_subscription_state m of HEADER ss \<Rightarrow> ExtractSubStateValue (HEADER ss) = v | _ \<Rightarrow> False))"

definition asks :: "RefreshMessage \<Rightarrow> bool" where
  "asks = is_request METHOD_SUBSCRIBE"

definition grants :: "RefreshMessage \<Rightarrow> bool" where
  "grants m = (is_response METHOD_SUBSCRIBE IsFinalSuccess m \<or> notifies SUB_STATE_ACTIVE m \<or> notifies SUB_STATE_PENDING m)"

definition final :: "RefreshMessage \<Rightarrow> bool" where
  "final m = (is_response METHOD_SUBSCRIBE (\<lambda>c. c = 481) m
     \<or> is_response METHOD_NOTIFY (\<lambda>c. c = 481 \<or> failed_status c \<and> c \<notin> {401, 407} \<and> \<not> sm_retry_after m) m)"

definition cause :: "RefreshMessage \<Rightarrow> bool" where
  "cause m = (is_response METHOD_SUBSCRIBE failed_status m \<or> is_response METHOD_NOTIFY failed_status m
     \<or> is_response METHOD_SUBSCRIBE IsFinalSuccess m \<and> no_lifetime m \<or> notifies SUB_STATE_TERMINATED m)"

lemmas message_defs = is_request_def is_response_def failed_status_def asks_def grants_def final_def cause_def

section \<open>One message\<close>

lemma on_subscribe_response_simps [simp]:
  "on_subscribe_response STATE_SUBSCRIBING f g = f" "on_subscribe_response STATE_ACTIVE f g = g"
  "on_subscribe_response STATE_PENDING f g = g" "on_subscribe_response STATE_INIT f g = MESSAGE_INVALID"
  "on_subscribe_response STATE_TERMINATED f g = MESSAGE_INVALID" "on_subscribe_response STATE_INVALID f g = MESSAGE_INVALID"
  by (simp_all add: on_subscribe_response_def)

lemma event_package_state [simp]:
  "su_state (SetEventHeader h s) = su_state s" "su_state (SetInitialDuration n s) = su_state s"
  "su_operation (SetEventHeader h s) = su_operation s" "su_operation (SetInitialDuration n s) = su_operation s"
  "su_state (StoreMessage m s) = su_state s" "su_operation (StoreMessage m s) = su_operation s"
  "su_state (request_duration n s) = su_state s" "su_operation (request_duration n s) = su_operation s"
  "su_state (notify_duration ss s) = su_state s" "su_operation (notify_duration ss s) = su_operation s"
  by (simp_all add: SetEventHeader_def SetInitialDuration_def StoreMessage_def request_duration_def
      notify_duration_def Let_def)

lemma event_package_value [simp]:
  "su_sub_state (SetEventHeader h s) = su_sub_state s" "su_sub_state (SetInitialDuration n s) = su_sub_state s"
  "su_sub_state (StoreMessage m s) = su_sub_state s" "su_sub_state (request_duration n s) = su_sub_state s"
  "su_sub_state (notify_duration ss s) = su_sub_state s" "su_sub_state (response_duration n s) = su_sub_state s"
  by (simp_all add: SetEventHeader_def SetInitialDuration_def StoreMessage_def request_duration_def
      notify_duration_def response_duration_def Let_def)

lemma request_keeps_state:
  "su_state (snd (UpdateOnSubscribeRequest m s)) = su_state s"
  "su_sub_state (snd (UpdateOnSubscribeRequest m s)) = su_sub_state s"
  "su_state (snd (UpdateOnNotifyRequest m s)) = su_state s"
proof -
  show "su_state (snd (UpdateOnSubscribeRequest m s)) = su_state s"
    "su_sub_state (snd (UpdateOnSubscribeRequest m s)) = su_sub_state s"
    by (cases "sm_expires m"; simp add: UpdateOnSubscribeRequest_def Let_def)+
  show "su_state (snd (UpdateOnNotifyRequest m s)) = su_state s"
    by (cases "sm_subscription_state m") (simp_all add: UpdateOnNotifyRequest_def Let_def)
qed

lemma notify_request_value:
  "is_request METHOD_NOTIFY m \<Longrightarrow> UpdateOnNotifyRequest m s = (True, t) \<Longrightarrow> notifies (su_sub_state t) m"
  "UpdateOnNotifyRequest m s = (False, t) \<Longrightarrow> su_sub_state t = su_sub_state s"
  by (cases "sm_subscription_state m"; auto simp: notifies_def UpdateOnNotifyRequest_def Let_def split: if_splits)+

lemma sub_table_simps [simp]:
  "sub_table STATE_INIT k = (if k = MESSAGE_SUBSCRIBE then STATE_SUBSCRIBING else STATE_INVALID)"
  "sub_table STATE_TERMINATED k = STATE_INVALID" "sub_table STATE_INVALID k = STATE_INVALID"
  by (simp_all add: sub_table_def split: sub_message.split)

text \<open>What a response to SUBSCRIBE or NOTIFY does before the table is read.\<close>

lemma UpdateOnSubscribeResponse_state:
  "su_state (UpdateOnSubscribeResponse m s) = su_state s \<or>
   su_state (UpdateOnSubscribeResponse m s) = STATE_TERMINATED \<and>
     (IsFinalSuccess (sm_status m) \<and> no_lifetime m \<or> failed_status (sm_status m))"
  "su_sub_state (UpdateOnSubscribeResponse m s) = su_sub_state s"
  "su_state s = STATE_TERMINATED \<Longrightarrow> su_state (UpdateOnSubscribeResponse m s) = STATE_TERMINATED"
  by (cases "sm_expires m"; simp add: UpdateOnSubscribeResponse_def response_duration_def no_lifetime_def failed_status_def
      Let_def IsHeaderPresent_def)+

lemma UpdateOnNotifyResponse_state:
  "su_state (UpdateOnNotifyResponse m s) = su_state s \<or>
   su_state (UpdateOnNotifyResponse m s) = STATE_TERMINATED \<and> failed_status (sm_status m)"
  "su_sub_state (UpdateOnNotifyResponse m s) = su_sub_state s"
  by (auto simp: UpdateOnNotifyResponse_def failed_status_def Let_def)

text \<open>The states before and after a message: \<open>p\<close>, \<open>q\<close>; \<open>told\<close> says that a NOTIFY has said terminated.\<close>

definition asked :: "sub_state \<Rightarrow> bool" where
  "asked p = (p \<in> {STATE_SUBSCRIBING, STATE_PENDING, STATE_ACTIVE})"

definition established :: "sub_state \<Rightarrow> bool" where
  "established p = (p \<in> {STATE_PENDING, STATE_ACTIVE})"

definition allowed :: "RefreshMessage \<Rightarrow> bool \<Rightarrow> sub_state \<Rightarrow> sub_state \<Rightarrow> bool" where
  "allowed m told p q =
     (p = STATE_TERMINATED \<and> q = STATE_TERMINATED
      \<or> q = STATE_TERMINATED \<and> (cause m \<or> told)
      \<or> p \<noteq> STATE_TERMINATED \<and> \<not> (asked p \<and> final m) \<and>
        (q = p \<or> p = STATE_INIT \<and> q = STATE_SUBSCRIBING \<and> asks m \<or> p = STATE_SUBSCRIBING \<and> q = STATE_INIT
         \<or> asked p \<and> established q \<and> grants m))"

lemma subscribe_response_allowed:
  assumes m: "sm_method m = METHOD_SUBSCRIBE" "sm_response m" and u: "u = snd (SubscriberState_UpdateState (Some m) s)"
  shows "allowed m told (su_state s) (su_state u) \<and> su_sub_state u = su_sub_state s"
proof -
  let ?s = "s\<lparr>su_duration_updated := False\<rparr>"
  let ?t = "UpdateOnSubscribeResponse m ?s"
  note t = UpdateOnSubscribeResponse_state [where m = m and s = ?s]
  have st: "su_state u = (case sub_table (su_state ?t) (sub_TranslateMessage m ?t) of STATE_INVALID \<Rightarrow> su_state ?t | q \<Rightarrow> q)"
    using m u by (auto simp: SubscriberState_UpdateState_def sub_update_def Let_def sub_table_def split: sub_state.split)
  have v: "su_sub_state u = su_sub_state s"
    using m u t(2) by (simp add: SubscriberState_UpdateState_def sub_update_def Let_def)
  have "allowed m told (su_state s) (su_state u)"
  proof (cases "su_state ?t = su_state s")
    case True
    have tr: "sub_TranslateMessage m ?t =
      (if Is1XX (sm_status m) then on_subscribe_response (su_state s) MESSAGE_SUBSCRIBE_1XX MESSAGE_RESUBSCRIBE_1XX
       else if sm_status m = 200 then on_subscribe_response (su_state s) MESSAGE_SUBSCRIBE_200 MESSAGE_RESUBSCRIBE_200
       else if IsFinalSuccess (sm_status m)
       then on_subscribe_response (su_state s) MESSAGE_SUBSCRIBE_202 MESSAGE_RESUBSCRIBE_202
       else if sm_status m = 481 then on_subscribe_response (su_state s) MESSAGE_SUBSCRIBE_481 MESSAGE_RESUBSCRIBE_481
       else on_subscribe_response (su_state s) MESSAGE_SUBSCRIBE_NON2XX MESSAGE_RESUBSCRIBE_NON2XX)"
      using m True by (simp add: sub_TranslateMessage_def)
    have ch: "sm_status m = 401 \<or> sm_status m = 407"
      if "su_state s = STATE_SUBSCRIBING" "\<not> Is1XX (sm_status m)" "\<not> IsFinalSuccess (sm_status m)"
      using that True by (auto simp: UpdateOnSubscribeResponse_def Let_def split: if_splits)
    have c: "\<not> Is1XX 481" "\<not> IsFinalSuccess 481" "IsFinalSuccess 200" by (simp_all add: Is1XX_def IsFinalSuccess_def)
    show ?thesis
      using st tr True m ch c
      by (cases "su_state s") (auto simp: sub_table_def allowed_def asked_def established_def message_defs split: if_splits)
  next
    case False
    then have "su_state s \<noteq> STATE_TERMINATED" using t(3) by auto
    then show ?thesis using False t(1) st m by (auto simp: allowed_def message_defs)
  qed
  with v show ?thesis by blast
qed

lemma subscribe_request_allowed:
  assumes "sm_method m = METHOD_SUBSCRIBE" "\<not> sm_response m" and "u = snd (SubscriberState_UpdateState (Some m) s)"
  shows "allowed m told (su_state s) (su_state u) \<and> su_sub_state u = su_sub_state s"
proof -
  obtain ok t where t: "UpdateOnSubscribeRequest m s = (ok, t)" by fastforce
  then have ts: "su_state t = su_state s" "su_sub_state t = su_sub_state s"
    using request_keeps_state(1,2) [of m s] by simp_all
  show ?thesis
    using assms t ts
    by (cases ok; cases "su_state s")
      (auto simp: SubscriberState_UpdateState_def sub_update_def sub_TranslateMessage_def Let_def sub_table_def
        allowed_def asked_def established_def message_defs)
qed

lemma notify_request_allowed:
  assumes m: "sm_method m = METHOD_NOTIFY" "\<not> sm_response m" and u: "u = snd (SubscriberState_UpdateState (Some m) s)"
  shows "allowed m told (su_state s) (su_state u) \<and> (su_sub_state u = su_sub_state s \<or> notifies (su_sub_state u) m)"
proof -
  obtain ok t where t: "UpdateOnNotifyRequest m (s\<lparr>su_duration_updated := False\<rparr>) = (ok, t)" by fastforce
  then have ts: "su_state t = su_state s"
    using request_keeps_state(3) [of m "s\<lparr>su_duration_updated := False\<rparr>"] by simp
  have n: "is_request METHOD_NOTIFY m" using m by (simp add: is_request_def)
  show ?thesis
  proof (cases ok)
    case True
    then have "notifies (su_sub_state t) m" using notify_request_value(1) [OF n] t by simp
    then show ?thesis
      using m u t ts True
      by (cases "su_state s"; cases "su_sub_state t")
        (auto simp: SubscriberState_UpdateState_def sub_update_def sub_TranslateMessage_def Let_def sub_table_def
          allowed_def asked_def established_def message_defs)
  next
    case False
    then show ?thesis
      using m u t ts notify_request_value(2) [of m "s\<lparr>su_duration_updated := False\<rparr>" t]
      by (auto simp: SubscriberState_UpdateState_def sub_update_def allowed_def message_defs)
  qed
qed

lemma notify_response_allowed:
  assumes m: "sm_method m = METHOD_NOTIFY" "sm_response m" and u: "u = snd (SubscriberState_UpdateState (Some m) s)"
    and told: "su_sub_state s = SUB_STATE_TERMINATED \<Longrightarrow> told"
  shows "allowed m told (su_state s) (su_state u) \<and> su_sub_state u = su_sub_state s"
proof -
  let ?t = "UpdateOnNotifyResponse m s"
  note t = UpdateOnNotifyResponse_state [of m s]
  have st: "su_state u = (case sub_table (su_state ?t) (sub_TranslateMessage m ?t) of STATE_INVALID \<Rightarrow> su_state ?t | q \<Rightarrow> q)"
    using m u by (auto simp: SubscriberState_UpdateState_def sub_update_def Let_def sub_table_def split: sub_state.split)
  have v: "su_sub_state u = su_sub_state s"
    using m u t(2) by (simp add: SubscriberState_UpdateState_def sub_update_def Let_def)
  have "allowed m told (su_state s) (su_state u)"
  proof (cases "su_state ?t = STATE_TERMINATED")
    case True
    then show ?thesis using t(1) st m by (auto simp: allowed_def message_defs)
  next
    case False
    then have ts: "su_state ?t = su_state s" using t(1) by auto
    have nf: "\<not> final m" using False m
      by (auto simp: UpdateOnNotifyResponse_def message_defs Is1XX_def IsFinalSuccess_def Let_def split: if_splits)
    show ?thesis
      using st ts m t(2) told nf False
      by (cases "su_state s") (auto simp: sub_TranslateMessage_def sub_table_def allowed_def asked_def message_defs Let_def split: if_splits)
  qed
  with v show ?thesis by blast
qed

lemma other_message_allowed:
  assumes "sm_method m \<noteq> METHOD_SUBSCRIBE" "sm_method m \<noteq> METHOD_NOTIFY"
    and "u = snd (SubscriberState_UpdateState (Some m) s)"
  shows "allowed m told (su_state s) (su_state u) \<and> su_sub_state u = su_sub_state s"
proof -
  have "sub_TranslateMessage m s = MESSAGE_INVALID" using assms by (simp add: sub_TranslateMessage_def Let_def)
  then have "u = s" using assms by (simp add: SubscriberState_UpdateState_def sub_update_def)
  then show ?thesis using assms by (auto simp: allowed_def message_defs)
qed

lemma message_allowed:
  assumes "u = snd (SubscriberState_UpdateState (Some m) s)" and "su_sub_state s = SUB_STATE_TERMINATED \<Longrightarrow> told"
  shows "allowed m told (su_state s) (su_state u) \<and> (su_sub_state u = su_sub_state s \<or> notifies (su_sub_state u) m)"
  using subscribe_response_allowed [OF _ _ assms(1)] subscribe_request_allowed [OF _ _ assms(1)]
    notify_request_allowed [OF _ _ assms(1)] notify_response_allowed [OF _ _ assms] other_message_allowed [OF _ _ assms(1)]
  by (cases "sm_method m = METHOD_SUBSCRIBE"; cases "sm_method m = METHOD_NOTIFY"; cases "sm_response m") blast+


section \<open>Sequences of messages\<close>

text \<open>
  The messages of a subscription in their order, each with the operation under way when it is sent or
  received.
\<close>

definition after_message :: "sub_operation \<times> RefreshMessage \<Rightarrow> SubState \<Rightarrow> SubState" where
  "after_message x s = snd (SubscriberState_UpdateState (Some (snd x)) (s\<lparr>su_operation := fst x\<rparr>))"

definition after_messages :: "(sub_operation \<times> RefreshMessage) list \<Rightarrow> SubState \<Rightarrow> SubState" where
  "after_messages = fold after_message"

lemma after_messages_simps [simp]:
  "after_messages [] s = s" "after_messages (x # xs) s = after_messages xs (after_message x s)"
  "after_messages (xs @ ys) s = after_messages ys (after_messages xs s)"
  by (simp_all add: after_messages_def)

text \<open>The subscription has been asked for, and nothing since has ended it; it has been granted since.\<close>

definition asked_in :: "RefreshMessage list \<Rightarrow> bool" where
  "asked_in ms = (\<exists>ms1 m ms2. ms = ms1 @ m # ms2 \<and> asks m \<and> (\<forall>x\<in>set ms2. \<not> final x))"

definition granted_in :: "RefreshMessage list \<Rightarrow> bool" where
  "granted_in ms = (\<exists>ms1 m ms2. ms = ms1 @ m # ms2 \<and> asks m \<and> (\<forall>x\<in>set ms2. \<not> final x) \<and> (\<exists>x\<in>set ms2. grants x))"

lemma asked_in_new: "asks m \<Longrightarrow> asked_in (ms @ [m])"
  unfolding asked_in_def by (intro exI [of _ ms] exI [of _ m] exI [of _ "[]"]) simp

lemma asked_in_next:
  assumes "asked_in ms" and "\<not> final m"
  shows "asked_in (ms @ [m])" and "grants m \<Longrightarrow> granted_in (ms @ [m])"
proof -
  obtain ms1 a ms2 where ms: "ms = ms1 @ a # ms2" "asks a" "\<forall>x\<in>set ms2. \<not> final x"
    using assms(1) by (auto simp: asked_in_def)
  then have "ms @ [m] = ms1 @ a # (ms2 @ [m]) \<and> asks a \<and> (\<forall>x\<in>set (ms2 @ [m]). \<not> final x)"
    using assms(2) by auto
  then show "asked_in (ms @ [m])" "grants m \<Longrightarrow> granted_in (ms @ [m])"
    unfolding asked_in_def granted_in_def by (blast, metis in_set_conv_decomp)
qed

lemma granted_in_next:
  assumes "granted_in ms" and "\<not> final m"
  shows "granted_in (ms @ [m])"
proof -
  obtain ms1 a ms2 where ms: "ms = ms1 @ a # ms2" "asks a" "\<forall>x\<in>set ms2. \<not> final x" "\<exists>x\<in>set ms2. grants x"
    using assms(1) by (auto simp: granted_in_def)
  then have "ms @ [m] = ms1 @ a # (ms2 @ [m]) \<and> asks a \<and> (\<forall>x\<in>set (ms2 @ [m]). \<not> final x) \<and> (\<exists>x\<in>set (ms2 @ [m]). grants x)"
    using assms(2) by auto
  then show ?thesis unfolding granted_in_def by blast
qed

definition explained :: "RefreshMessage list \<Rightarrow> SubState \<Rightarrow> bool" where
  "explained ms s =
     ((asked (su_state s) \<longrightarrow> asked_in ms) \<and> (established (su_state s) \<longrightarrow> granted_in ms)
      \<and> (su_state s = STATE_TERMINATED \<longrightarrow> (\<exists>m\<in>set ms. cause m))
      \<and> (su_sub_state s = SUB_STATE_TERMINATED \<longrightarrow> (\<exists>m\<in>set ms. notifies SUB_STATE_TERMINATED m)))"

lemma explained_step:
  assumes e: "explained ms s"
  shows "explained (ms @ [snd x]) (after_message x s)"
proof -
  let ?m = "snd x" and ?u = "after_message x s"
  let ?told = "\<exists>m\<in>set ms. notifies SUB_STATE_TERMINATED m"
  have a: "allowed ?m ?told (su_state s) (su_state ?u)" "su_sub_state ?u = su_sub_state s \<or> notifies (su_sub_state ?u) ?m"
    using message_allowed [of ?u ?m "s\<lparr>su_operation := fst x\<rparr>" ?told] e by (auto simp: after_message_def explained_def)
  have "notifies SUB_STATE_TERMINATED m \<Longrightarrow> cause m" for m by (simp add: cause_def)
  then have t: "?told \<Longrightarrow> \<exists>m\<in>set ms. cause m" by blast
  have h: "asked (su_state s) \<Longrightarrow> asked_in ms" "established (su_state s) \<Longrightarrow> granted_in ms"
    using e by (simp_all add: explained_def)
  have sp: "\<not> asked STATE_TERMINATED" "\<not> established STATE_TERMINATED" "\<not> asked STATE_INIT" "\<not> established STATE_INIT"
    "\<not> established STATE_SUBSCRIBING" "established q \<Longrightarrow> asked q" for q
    by (auto simp: asked_def established_def)
  consider "su_state ?u \<in> {STATE_TERMINATED, STATE_INIT}" | "su_state ?u = su_state s" "\<not> (asked (su_state s) \<and> final ?m)"
    | "su_state ?u = STATE_SUBSCRIBING" "asks ?m" | "asked (su_state s)" "\<not> final ?m" "grants ?m"
    using a(1) unfolding allowed_def by blast
  then have "(asked (su_state ?u) \<longrightarrow> asked_in (ms @ [?m])) \<and> (established (su_state ?u) \<longrightarrow> granted_in (ms @ [?m]))"
  proof cases
    case 1
    then show ?thesis using sp by auto
  next
    case 2
    then show ?thesis using h sp(6) asked_in_next(1) granted_in_next by metis
  next
    case 3
    then show ?thesis using sp(5) asked_in_new by simp
  next
    case 4
    then show ?thesis using h(1) asked_in_next by blast
  qed
  moreover have "su_state ?u = STATE_TERMINATED \<longrightarrow> (\<exists>m\<in>set (ms @ [?m]). cause m)"
    using a(1) e t sp(2) unfolding allowed_def explained_def by auto
  ultimately show ?thesis using a(2) e by (auto simp: explained_def)
qed

lemma explained_run:
  "su_state s = STATE_INIT \<Longrightarrow> su_sub_state s = SUB_STATE_INIT \<Longrightarrow> explained (map snd xs) (after_messages xs s)"
proof (induction xs rule: rev_induct)
  case Nil
  then show ?case by (simp add: explained_def asked_def established_def)
next
  case (snoc x xs)
  then show ?case using explained_step [of "map snd xs" "after_messages xs s" x] by simp
qed

lemma terminated_absorbing:
  "su_state s = STATE_TERMINATED \<Longrightarrow> su_state (after_messages xs s) = STATE_TERMINATED"
proof (induction xs arbitrary: s)
  case (Cons x xs)
  have "su_state (after_message x s) = STATE_TERMINATED"
    using message_allowed [of "after_message x s" "snd x" "s\<lparr>su_operation := fst x\<rparr>" True] Cons.prems
    by (auto simp: after_message_def allowed_def)
  with Cons.IH show ?case by simp
qed simp

text \<open>A NOTIFY that says terminated, and its answer.\<close>

lemma terminated_by_notify:
  assumes "asked (su_state s)" and "notifies SUB_STATE_TERMINATED (snd x)"
    and "ep_event_header (su_event_package s) \<noteq> None \<or> IsHeaderPresent (sm_event (snd x))"
    and "is_response METHOD_NOTIFY (\<lambda>c. \<not> Is1XX c) (snd y)"
  shows "su_state (after_messages [x, y] s) = STATE_TERMINATED"
proof -
  let ?s = "s\<lparr>su_operation := fst x, su_duration_updated := False\<rparr>"
  obtain ss where ss: "sm_subscription_state (snd x) = HEADER ss" "ExtractSubStateValue (HEADER ss) = SUB_STATE_TERMINATED"
    "sm_method (snd x) = METHOD_NOTIFY" "\<not> sm_response (snd x)"
    using assms(2) by (auto simp: notifies_def is_request_def split: header.splits)
  obtain t where t: "UpdateOnNotifyRequest (snd x) ?s = (True, t)" "su_state t = su_state s" "su_sub_state t = SUB_STATE_TERMINATED"
    using assms(3) ss request_keeps_state(3) [of "snd x" ?s] by (auto simp: UpdateOnNotifyRequest_def Let_def)
  define u where "u = after_message x s"
  have u: "su_state u = (if su_state s = STATE_SUBSCRIBING then STATE_TERMINATED else su_state s)"
    "su_sub_state u = SUB_STATE_TERMINATED"
    using assms(1) ss t by (auto simp: u_def after_message_def SubscriberState_UpdateState_def sub_update_def
        sub_TranslateMessage_def sub_table_def asked_def Let_def)
  show ?thesis
  proof (cases "su_state s = STATE_SUBSCRIBING")
    case True
    then show ?thesis using terminated_absorbing [of u "[y]"] u by (simp add: u_def)
  next
    case False
    let ?v = "UpdateOnNotifyResponse (snd y) (u\<lparr>su_operation := fst y\<rparr>)"
    note v = UpdateOnNotifyResponse_state [of "snd y" "u\<lparr>su_operation := fst y\<rparr>"]
    have "su_state (after_message y u) = STATE_TERMINATED"
      using v u assms(1,4) False
      by (auto simp: after_message_def SubscriberState_UpdateState_def sub_update_def sub_TranslateMessage_def
          sub_table_def is_response_def asked_def Let_def)
    then show ?thesis by (simp add: u_def)
  qed
qed

text \<open>C28:
  A subscription is what its messages say, for every sequence of them from a new state. It is pending
  or active only after a SUBSCRIBE and, later, a 2xx to SUBSCRIBE or a NOTIFY with active or pending,
  and with nothing after the SUBSCRIBE that ends subscriptions: no 481, and no failed NOTIFY without
  Retry-After. It has ended only if some message gave cause, and then it stays ended whatever comes;
  and a subscription that has been asked for always ends with a NOTIFY that says terminated and the
  answer to it.
\<close>

theorem subscription_history:
  assumes "su_state s = STATE_INIT" and "su_sub_state s = SUB_STATE_INIT" and "u = after_messages xs s"
  shows "(established (su_state u) \<longrightarrow> granted_in (map snd xs))
    \<and> (su_state u = STATE_TERMINATED \<longrightarrow>
         (\<exists>m\<in>set (map snd xs). cause m) \<and> (\<forall>ys. su_state (after_messages ys u) = STATE_TERMINATED))
    \<and> (\<forall>x y. asked (su_state u) \<and> notifies SUB_STATE_TERMINATED (snd x)
         \<and> (ep_event_header (su_event_package u) \<noteq> None \<or> IsHeaderPresent (sm_event (snd x)))
         \<and> is_response METHOD_NOTIFY (\<lambda>c. \<not> Is1XX c) (snd y)
         \<longrightarrow> su_state (after_messages [x, y] u) = STATE_TERMINATED)"
  using explained_run [OF assms(1,2), of xs] terminated_absorbing [of u] terminated_by_notify [of u] assms(3)
  unfolding explained_def by blast

text \<open>A subscription that is granted, ended by a NOTIFY, and does not come back with a late 2xx.\<close>

definition ex_message :: "SipMethod \<Rightarrow> bool \<Rightarrow> int \<Rightarrow> SubscriptionState header \<Rightarrow> sub_operation \<times> RefreshMessage" where
  "ex_message k r n h = (OPERATION_CREATE, \<lparr> sm_method = k, sm_response = r, sm_status = n, sm_session_expires = NO_HEADER,
     sm_min_se = NO_HEADER, sm_supported = [], sm_require = [], sm_allow = [], sm_expires = HEADER 600,
     sm_event = HEADER (Some ''reg''), sm_subscription_state = h, sm_retry_after = False \<rparr>)"

definition ex_terminated :: "SubscriptionState header" where
  "ex_terminated = HEADER \<lparr> ss_value = Some ''terminated'', ss_expires = None, ss_reason = None \<rparr>"

abbreviation "ex_granted \<equiv> [ex_message METHOD_SUBSCRIBE False 0 NO_HEADER, ex_message METHOD_SUBSCRIBE True 200 NO_HEADER]"
abbreviation "ex_ended \<equiv> [ex_message METHOD_NOTIFY False 0 ex_terminated, ex_message METHOD_NOTIFY True 200 NO_HEADER]"

lemma ex_values:
  "su_state (after_messages ex_granted SubState_new) = STATE_ACTIVE"
  "su_state (after_messages (ex_granted @ ex_ended) SubState_new) = STATE_TERMINATED"
  "notifies SUB_STATE_TERMINATED (snd (ex_ended ! 0))" "is_response METHOD_NOTIFY (\<lambda>c. \<not> Is1XX c) (snd (ex_ended ! 1))"
  by code_simp+

theorem subscription_history_witness:
  "granted_in (map snd ex_granted) \<and> su_state (after_messages (ex_granted @ ex_ended) SubState_new) = STATE_TERMINATED
    \<and> su_state (after_messages (ex_granted @ ex_ended @ [ex_granted ! 1]) SubState_new) = STATE_TERMINATED"
proof -
  have n: "su_state SubState_new = STATE_INIT" "su_sub_state SubState_new = SUB_STATE_INIT" by (simp_all add: SubState_new_def)
  have g: "established STATE_ACTIVE" "asked STATE_ACTIVE" by (simp_all add: established_def asked_def)
  note h = subscription_history [OF n refl]
  have "granted_in (map snd ex_granted)" using h [of ex_granted] g(1) ex_values(1) by simp
  moreover have "su_state (after_messages (ex_granted @ ex_ended) SubState_new) = STATE_TERMINATED"
    using h [of ex_granted] g(2) ex_values(1,3,4) by (simp add: ex_message_def IsHeaderPresent_def)
  moreover have "su_state (after_messages [ex_granted ! 1] (after_messages (ex_granted @ ex_ended) SubState_new)) = STATE_TERMINATED"
    using h [of "ex_granted @ ex_ended"] ex_values(2) by blast
  ultimately show ?thesis by simp
qed

end
