(* ===== verification/SubscriptionRefresh.thy ===== *)
theory SubscriptionRefresh
  imports Subscription SubscriberFacts
begin

text \<open>
  The life of a subscription on the side of the subscriber: the first SUBSCRIBE and its answer, the
  refresh that the timer starts, its success, its refusal and the end of the lifetime.
\<close>

section \<open>The first request\<close>

lemmas subscription_defs = upd_method_def with_method_def upd_sub_def SetOperation_def PostMessage_def
  Subscription_SetState_def UpdateSubState_def GetOperation_def GetDialog_def

lemmas method_defs = CreateConnection_def SendNUpdateRequestEx_def adjusted_def sent_def UpdateRequestOnSent_def
  GetNextRequest_def RemovePreviousMessage_def SetPreviousRequest_def set_previous_def SetLastError_def Close_def

text \<open>The interval of the default policy, and the services a scenario needs.\<close>

definition refresh_interval :: "int \<Rightarrow> int" where
  "refresh_interval n = (if n > 1200 then n - 600 else n div 2)"

definition default_policy :: "Subscription \<Rightarrow> bool" where
  "default_policy s = (m_nPolicy s = POLICY_SPEC \<and> m_nCriteriaInterval s = 1200 \<and> m_nValueEorLt s = 50
     \<and> m_nValueGt s = 600 \<and> \<not> m_bRepeatable s)"

definition services_work :: "SubscriptionEnv \<Rightarrow> bool" where
  "services_work env = (env_Send (se_refresh env) \<and> env_CreateTimer (se_refresh env)
     \<and> env_AdjustMessage (se_refresh env) = (\<lambda>m. m) \<and> se_CreateUnsentMessage env True \<noteq> None
     \<and> se_CreateMessageBodyParts env = (\<lambda>_. True) \<and> se_CreateReceivedMessage env = (\<lambda>_. True)
     \<and> se_SetImplicitRouteHeader env = (\<lambda>c. c))"

definition subscribe_request :: "RefreshMessage \<Rightarrow> bool" where
  "subscribe_request m = (sm_method m = METHOD_SUBSCRIBE \<and> \<not> sm_response m)"

definition subscribe_answer :: "int \<Rightarrow> RefreshMessage \<Rightarrow> bool" where
  "subscribe_answer n m = (sm_method m = METHOD_SUBSCRIBE \<and> sm_response m \<and> sm_status m = 200 \<and> sm_expires m = HEADER n)"

lemma interval_ratio: "0 \<le> n \<Longrightarrow> n * 50 sdiv 100 = n div 2" for n :: int
  by (cases "n = 0") (simp_all add: signed_divide_int_def sgn_if)

lemma GetTimerInterval_default:
  "default_policy s \<Longrightarrow> 0 \<le> m_nDuration s \<Longrightarrow> m_nDuration s < 2 ^ 31 \<Longrightarrow>
   RefreshHelper_GetTimerInterval s = refresh_interval (m_nDuration s)"
  by (auto simp: RefreshHelper_GetTimerInterval_def default_policy_def refresh_interval_def Let_def interval_ratio)

lemma refresh_interval_range: "2 \<le> n \<Longrightarrow> 0 < refresh_interval n \<and> refresh_interval n < n"
  by (auto simp: refresh_interval_def)

text \<open>The timer that follows a positive duration.\<close>

lemma StartRefresh_default:
  assumes "env_CreateTimer env" and "default_policy s" and "m_nDuration s = n" and "2 \<le> n" "n < 2 ^ 31"
  shows "StartRefresh RefreshHelper_GetTimerInterval env s =
    (True, s\<lparr>m_piTimer := Some (m_nNextTimer s, refresh_interval n), m_nNextTimer := m_nNextTimer s + 1,
             m_nRemainDuration := n - refresh_interval n\<rparr>)"
proof -
  have i: "RefreshHelper_GetTimerInterval (s\<lparr>m_piTimer := None\<rparr>) = refresh_interval n"
    using GetTimerInterval_default [of "s\<lparr>m_piTimer := None\<rparr>"] assms(2-5) by (simp add: default_policy_def)
  show ?thesis
    using assms refresh_interval_range [of n]
    by (simp add: StartRefresh_def SetTimer_def Let_def i default_policy_def)
qed

text \<open>A subscription that runs: refreshed by the timer \<open>t\<close> in the dialog \<open>d\<close>.\<close>

definition sub_running :: "int \<Rightarrow> nat \<Rightarrow> nat \<Rightarrow> Subscription \<Rightarrow> bool" where
  "sub_running n d t s =
     (m_nState s = SUBSCRIPTION_ACTIVE \<and> su_state (m_pSubState s) = STATE_ACTIVE \<and> GetOperation s = NO_OPERATION
      \<and> \<not> su_instant (m_pSubState s) \<and> GetDialog s = Some d \<and> m_piTimer s = Some (t, refresh_interval n)
      \<and> m_nRemainDuration s = n - refresh_interval n \<and> m_nDuration s = n \<and> default_policy s)"

lemma Subscription_new_simps [simp]:
  "m_nState (Subscription_new ev b d) = SUBSCRIPTION_INACTIVE" "m_strEvent (Subscription_new ev b d) = ev"
  "m_method (Subscription_new ev b d) = ServiceMethod_new\<lparr>m_piDialog := d\<rparr>"
  "m_bSubscriptionInOtherDialog (Subscription_new ev b d) = (d \<noteq> None)"
  "m_pSubState (Subscription_new ev b d) = (CreateEventPackage ev SubState_new)
      \<lparr>su_config := CONFIG_USE_INITIAL_EXPIRES_ON_NO_EXPIRES_IN_200_OK\<rparr>"
  "m_aPosted (Subscription_new ev b d) = []" "m_piTimer (Subscription_new ev b d) = None"
  "m_nNextTimer (Subscription_new ev b d) = 0" "default_policy (Subscription_new ev b d)"
  "m_objNotifyMessages (Subscription_new ev b d) = []" "m_piListener (Subscription_new ev b d) = False"
  "m_bImplicitRoutingRequired (Subscription_new ev b d) = b"
  by (simp_all add: Subscription_new_def RefreshHelper_new_def RefreshHelper.defs Subscription.Subscription.defs default_policy_def)

lemma adjusted_id: "services_work env \<Longrightarrow> adjusted env c = c"
  by (simp add: adjusted_def services_work_def option.map_ident)

lemma CreateConnection_plain:
  "se_CreateConnection env d meth = Some c \<Longrightarrow> m_pNextRequest t = None \<Longrightarrow> CreateConnection env d meth t = (Some c, t)"
  by (simp add: CreateConnection_def)

lemma GetNextRequest_works:
  "services_work env \<Longrightarrow> m_pNextRequest t = None \<Longrightarrow>
   \<exists>n. GetNextRequest env t = (Some n, t\<lparr>m_pNextRequest := Some n\<rparr>)"
  by (auto simp: GetNextRequest_def services_work_def)

text \<open>A request for which there is no previous one of its kind.\<close>

lemma request_sent:
  assumes "services_work env" and "sc_message c = Some m" and "m_objPreviousMessages t k = None" and "m_pNextRequest t = None"
  shows "SendNUpdateRequestEx env k c t = (True, c, t\<lparr>m_objPreviousMessages := (m_objPreviousMessages t)(k \<mapsto>
      \<lparr> m_piSc = Some (sc_id c), m_pRequest = Some m, m_objResponses = [] \<rparr>), m_aSent := m_aSent t @ [(sc_id c, m)]\<rparr>)"
proof -
  let ?t = "t\<lparr>m_aSent := m_aSent t @ [(sc_id c, m)]\<rparr>"
  obtain n where n: "GetNextRequest env ?t = (Some n, ?t\<lparr>m_pNextRequest := Some n\<rparr>)"
    using GetNextRequest_works [OF assms(1), of ?t] assms(4) by auto
  have "env_Send (se_refresh env)" using assms(1) by (simp add: services_work_def)
  moreover have "m_pNextRequest t = None" "sent c t = ?t" using assms(2,4) by (simp_all add: sent_def)
  ultimately show ?thesis
    using assms(2,3) n by (cases t) (simp add: SendNUpdateRequestEx_def adjusted_id [OF assms(1)] UpdateRequestOnSent_def Let_def
        RemovePreviousMessage_def SetPreviousRequest_def set_previous_def)
qed

lemma first_request_state:
  assumes "su_state t = STATE_INIT" and "su_operation t = OPERATION_CREATE" and "sm_expires m = HEADER n" and "n \<noteq> 0"
    and "sm_event m = HEADER ev" and "subscribe_request m"
  shows "SubscriberState_UpdateState (Some m) t = (True, t\<lparr>su_state := STATE_SUBSCRIBING, su_duration := n,
     su_message := Some (m\<lparr>sm_allow := []\<rparr>),
     su_event_package := (su_event_package t)\<lparr>ep_event_header := Some ev, ep_initial_duration := n\<rparr>\<rparr>)"
  using assms
  by (simp add: SubscriberState_UpdateState_def sub_update_def UpdateOnSubscribeRequest_def request_duration_def
      SetInitialDuration_def SetEventHeader_def StoreMessage_def IsHeaderPresent_def sub_TranslateMessage_def Let_def
      subscribe_request_def)

text \<open>The first request: what is sent and the state it leaves.\<close>

lemma submit_first:
  assumes "services_work env" and "s = Subscription_new ev b None"
    and "se_CreateConnection env None METHOD_SUBSCRIBE = Some c" and "sc_message c = Some m"
    and "subscribe_request m" and "sm_expires m = NO_HEADER" and "r = m\<lparr>sm_event := HEADER ev, sm_expires := HEADER 3600\<rparr>"
  shows "Subscribe env s =
    (True, s\<lparr>m_nState := SUBSCRIPTION_PENDING,
      m_pSubState := (m_pSubState s)\<lparr>su_state := STATE_SUBSCRIBING, su_operation := OPERATION_CREATE, su_duration := 3600,
        su_message := Some (r\<lparr>sm_allow := []\<rparr>),
        su_event_package := (su_event_package (m_pSubState s))\<lparr>ep_event_header := Some ev, ep_initial_duration := 3600\<rparr>\<rparr>,
      m_method := ServiceMethod_new\<lparr>m_objPreviousMessages := [SUBSCRIPTION_SUBSCRIBE \<mapsto>
          \<lparr> m_piSc = Some (sc_id c), m_pRequest = Some r, m_objResponses = [] \<rparr>],
        m_aSent := [(sc_id c, r)]\<rparr>\<rparr>)"
proof -
  let ?c = "c\<lparr>sc_message := Some r\<rparr>" and ?t = "m_pSubState s\<lparr>su_operation := OPERATION_CREATE\<rparr>"
  have x: "subscribe_expires s = 3600"
    by (simp add: assms(2) subscribe_expires_def CreateEventPackage_def SubState_new_def EventPackage_new_def)
  have c: "with_method (CreateConnection env None METHOD_SUBSCRIBE) s = (Some c, s)"
    using CreateConnection_plain [OF assms(3), of "m_method s"] by (simp add: with_method_def assms(2) ServiceMethod_new_def)
  have e: "SetEventAndExpires ev 3600 False c = ?c"
    using assms(4,6,7) by (simp add: SetEventAndExpires_def Let_def IsHeaderPresent_def)
  have q: "SendNUpdateRequest env SUBSCRIPTION_SUBSCRIBE ?c (m_method s) =
    (True, ?c, (m_method s)\<lparr>m_objPreviousMessages := [SUBSCRIPTION_SUBSCRIBE \<mapsto>
          \<lparr> m_piSc = Some (sc_id c), m_pRequest = Some r, m_objResponses = [] \<rparr>], m_aSent := [(sc_id c, r)]\<rparr>)"
    using request_sent [OF assms(1), of ?c r "m_method s" SUBSCRIPTION_SUBSCRIBE]
    by (simp add: assms(2) ServiceMethod_new_def)
  have u: "SubscriberState_UpdateState (Some r) ?t = (True, ?t\<lparr>su_state := STATE_SUBSCRIBING, su_duration := 3600,
     su_message := Some (r\<lparr>sm_allow := []\<rparr>),
     su_event_package := (su_event_package ?t)\<lparr>ep_event_header := Some ev, ep_initial_duration := 3600\<rparr>\<rparr>)"
    by (rule first_request_state)
      (use assms(5,7) in \<open>simp_all add: assms(2) CreateEventPackage_def SubState_new_def subscribe_request_def\<close>)
  have n: "m_nState s = SUBSCRIPTION_INACTIVE" "\<not> su_instant (m_pSubState s)" "GetOperation s \<noteq> OPERATION_IMPLICIT_REFRESH"
    "GetDialog s = None" "m_strEvent s = ev" "\<not> m_bSubscriptionInOtherDialog s"
    by (simp_all add: assms(2) GetOperation_def GetDialog_def CreateEventPackage_def SubState_new_def)
  have mm: "m_method s = ServiceMethod_new" by (simp add: assms(2)) (simp add: ServiceMethod_new_def)
  have "Subscribe env s = submit env SUBSCRIPTION_SUBSCRIBE
      (\<lambda>s. if m_nState s = SUBSCRIPTION_INACTIVE then OPERATION_CREATE else OPERATION_REFRESH) ?c
      (\<lambda>piScc s. if m_nState s = SUBSCRIPTION_INACTIVE \<and> m_bSubscriptionInOtherDialog s
                 then upd_method (CheckNCreateDialog env piScc True False) s else s) s"
    using n(3,4) by (simp add: Subscribe_def n(1,2,5) c x e)
  also have "\<dots> = (True, s\<lparr>m_nState := SUBSCRIPTION_PENDING,
      m_pSubState := ?t\<lparr>su_state := STATE_SUBSCRIBING, su_duration := 3600, su_message := Some (r\<lparr>sm_allow := []\<rparr>),
        su_event_package := (su_event_package ?t)\<lparr>ep_event_header := Some ev, ep_initial_duration := 3600\<rparr>\<rparr>,
      m_method := (m_method s)\<lparr>m_objPreviousMessages := [SUBSCRIPTION_SUBSCRIBE \<mapsto>
          \<lparr> m_piSc = Some (sc_id c), m_pRequest = Some r, m_objResponses = [] \<rparr>],
        m_aSent := [(sc_id c, r)], m_eLastError := IMS_NO_ERROR\<rparr>\<rparr>)"
    using u by (simp add: submit_def q subscription_defs SetLastError_def n(1,6))
  finally show ?thesis by (simp add: mm) (simp add: ServiceMethod_new_def)
qed

lemma accepted_state:
  assumes "su_state t \<in> {STATE_SUBSCRIBING, STATE_PENDING, STATE_ACTIVE}" and "\<not> su_instant t"
    and "subscribe_answer n a" and "0 \<le> n"
  shows "SubscriberState_UpdateState (Some a) t =
    (True, t\<lparr>su_state := STATE_ACTIVE, su_duration_updated := True, su_duration := n\<rparr>)"
  using assms
  by (cases "su_state t") (auto simp: SubscriberState_UpdateState_def sub_update_def UpdateOnSubscribeResponse_def
      response_duration_def sub_TranslateMessage_def sub_table_def subscribe_answer_def Is1XX_def IsFinalSuccess_def
      IsHeaderPresent_def)

text \<open>The timer is started anew by an accepted request.\<close>

lemma timer_restarted:
  assumes "services_work env" and "default_policy s" and "sc_message c = Some a" and "subscribe_answer n a"
    and "2 \<le> n" "n < 2 ^ 31" and "su_state (m_pSubState s) = STATE_ACTIVE" and "su_duration_updated (m_pSubState s)"
    and "su_duration (m_pSubState s) = n"
  shows "Subscriber_UpdateOnMessageReceived env c s =
    (True, s\<lparr>m_nDuration := n, m_piTimer := Some (m_nNextTimer s, refresh_interval n), m_nNextTimer := m_nNextTimer s + 1,
             m_nRemainDuration := n - refresh_interval n\<rparr>)"
proof -
  have "env_CreateTimer (se_refresh env)" using assms(1) by (simp add: services_work_def)
  then have "Subscriber_StartRefresh env (StopRefresh (SetDuration n s)) =
      (True, s\<lparr>m_nDuration := n, m_piTimer := Some (m_nNextTimer s, refresh_interval n),
        m_nNextTimer := m_nNextTimer s + 1, m_nRemainDuration := n - refresh_interval n\<rparr>)"
    using StartRefresh_default [of "se_refresh env" "StopRefresh (SetDuration n s)" n] assms(2,5,6)
    by (simp add: Subscriber_StartRefresh_def StopRefresh_def SetDuration_def default_policy_def)
  then show ?thesis
    using assms by (simp add: Subscriber_UpdateOnMessageReceived_def IsTerminated_def subscribe_answer_def IsFinalSuccess_def)
qed

lemma ResetChallengeCount_other:
  "m_piDialog (ResetChallengeCount c t) = m_piDialog t" "m_objPreviousMessages (ResetChallengeCount c t) = m_objPreviousMessages t"
  "m_aSent (ResetChallengeCount c t) = m_aSent t" "m_pNextRequest (ResetChallengeCount c t) = m_pNextRequest t"
  by (auto simp: ResetChallengeCount_def split: option.split)

text \<open>The answer to the first request.\<close>

lemma first_answer:
  assumes "services_work env" and "default_policy s" and "m_nState s = SUBSCRIPTION_PENDING"
    and "su_state (m_pSubState s) = STATE_SUBSCRIBING" and "\<not> su_instant (m_pSubState s)"
    and "GetOperation s = OPERATION_CREATE" and "GetDialog s = None" and "\<not> m_bSubscriptionInOtherDialog s"
    and "sc_message a = Some m" and "subscribe_answer n m" and "2 \<le> n" "n < 2 ^ 31"
    and "se_DialogState env (se_DialogOf env (sc_id a)) = DIALOG_CONFIRMED"
    and "s' = Subscription_NotifyResponse env a s"
  shows "sub_running n (se_DialogOf env (sc_id a)) (m_nNextTimer s) s' \<and> m_aPosted s' = m_aPosted s @ [AMSG_STARTED]
    \<and> m_aSent (m_method s') = m_aSent (m_method s)"
proof -
  have w: "se_CreateMessageBodyParts env m" "se_CreateReceivedMessage env m" using assms(1) by (simp_all add: services_work_def)
  have st: "sm_status m = 200" "sm_method m = METHOD_SUBSCRIBE" using assms(10) by (simp_all add: subscribe_answer_def)
  define s1 where "s1 = upd_method (ResetChallengeCount a) s"
  define s2 where "s2 = s1\<lparr>m_pSubState := (m_pSubState s)\<lparr>su_state := STATE_ACTIVE, su_duration_updated := True, su_duration := n\<rparr>\<rparr>"
  define s3 where "s3 = UpdateResponse env a s2"
  have u: "UpdateSubState (Some m) s1 = (True, s2)"
    using accepted_state [of "m_pSubState s" n m] assms(4,5,10,11)
    by (simp add: UpdateSubState_def s1_def s2_def upd_method_def)
  have s3: "s3 = s2\<lparr>m_method := m_method s3\<rparr>"
    by (simp add: s3_def UpdateResponse_def with_method_def split: option.split prod.split)
  have m3: "m_piDialog (m_method s3) = None \<and> m_aSent (m_method s3) = m_aSent (m_method s)"
  proof -
    have "m_piDialog (m_method s2) = None" "m_aSent (m_method s2) = m_aSent (m_method s)"
      using assms(7) by (simp_all add: s2_def s1_def upd_method_def ResetChallengeCount_other GetDialog_def)
    then show ?thesis
      by (auto simp: s3_def UpdateResponse_def with_method_def UpdateResponseOnReceived_def AddPreviousResponse_def
          set_previous_def SetLastError_def split: option.split prod.split bool.split)
  qed
  have f: "m_nNextTimer s3 = m_nNextTimer s" "default_policy s3" "m_nState s3 = SUBSCRIPTION_PENDING"
    "m_pSubState s3 = (m_pSubState s)\<lparr>su_state := STATE_ACTIVE, su_duration_updated := True, su_duration := n\<rparr>"
    "m_aPosted s3 = m_aPosted s"
    using assms(2,3) by (subst s3, simp add: s2_def s1_def upd_method_def default_policy_def)+
  have "s' = final_response env OPERATION_CREATE 200 a s3"
    using assms(6,9) w u st
    by (simp add: assms(14) Subscription_NotifyResponse_def Method_ClientConnection_NotifyResponse_def
        NotifySipResponse_def Let_def Is1XX_def s3_def flip: s1_def)
      (simp add: s1_def upd_method_def GetOperation_def)
  moreover have "Subscriber_UpdateOnMessageReceived env a s3 =
      (True, s3\<lparr>m_nDuration := n, m_piTimer := Some (m_nNextTimer s, refresh_interval n), m_nNextTimer := m_nNextTimer s + 1,
      m_nRemainDuration := n - refresh_interval n\<rparr>)"
    using timer_restarted [OF assms(1) f(2) assms(9-12)] f by simp
  ultimately show ?thesis
    using assms(2,5,6,13) m3 f
    by (auto simp: final_response_def Let_def IsFinalSuccess_def subscription_defs CheckNCreateDialog_def sub_running_def
        Subscription_CloseConnection_def operation_method_def CloseConnection_def set_previous_def Close_def
        default_policy_def split: option.split)
qed

text \<open>C26:
  A subscription from the first request to its refresh timer. Over a working service \<open>Subscribe\<close> sends
  one request with the event and an Expires of 3600; a 200 that grants \<open>n\<close> seconds makes the
  subscription active in the dialog of the response, posts that it has started and arms the timer:
  600 seconds before the end of more than 1200, at the half of less.
\<close>

theorem subscription_started:
  assumes "services_work env" and "se_CreateConnection env None METHOD_SUBSCRIBE = Some c" and "sc_message c = Some m"
    and "subscribe_request m" and "sm_expires m = NO_HEADER"
    and "sc_id r = sc_id c" and "sc_message r = Some a" and "subscribe_answer n a" and "2 \<le> n" and "n < 2 ^ 31"
    and "se_DialogState env (se_DialogOf env (sc_id c)) = DIALOG_CONFIRMED"
  shows "case Subscribe env (Subscription_new ev b None) of (ok, s1) \<Rightarrow>
    ok \<and> m_nState s1 = SUBSCRIPTION_PENDING \<and> m_aPosted s1 = []
    \<and> (let s2 = Subscription_NotifyResponse env r s1
       in sub_running n (se_DialogOf env (sc_id c)) 0 s2 \<and> m_aPosted s2 = [AMSG_STARTED]
          \<and> m_aSent (m_method s2) = [(sc_id c, m\<lparr>sm_event := HEADER ev, sm_expires := HEADER 3600\<rparr>)])"
proof -
  obtain s1 where s1: "Subscribe env (Subscription_new ev b None) = (True, s1)"
    "m_nState s1 = SUBSCRIPTION_PENDING" "su_state (m_pSubState s1) = STATE_SUBSCRIBING" "\<not> su_instant (m_pSubState s1)"
    "GetOperation s1 = OPERATION_CREATE" "GetDialog s1 = None" "\<not> m_bSubscriptionInOtherDialog s1" "m_aPosted s1 = []"
    "m_nNextTimer s1 = 0" "default_policy s1"
    "m_aSent (m_method s1) = [(sc_id c, m\<lparr>sm_event := HEADER ev, sm_expires := HEADER 3600\<rparr>)]"
    using submit_first [OF assms(1) refl assms(2-5) refl]
    by (auto simp: GetOperation_def GetDialog_def ServiceMethod_new_def CreateEventPackage_def SubState_new_def default_policy_def)
      (use Subscription_new_simps(9) in \<open>auto simp: default_policy_def\<close>)
  show ?thesis
    using first_answer [OF assms(1) s1(10,2-7) assms(7-10) _ refl] assms(6,11) s1 by (simp add: Let_def)
qed

section \<open>The refresh\<close>

definition refreshing :: "int \<Rightarrow> nat \<Rightarrow> Subscription \<Rightarrow> bool" where
  "refreshing k d s =
     (m_nState s = SUBSCRIPTION_ACTIVE \<and> su_state (m_pSubState s) = STATE_ACTIVE
      \<and> GetOperation s = OPERATION_IMPLICIT_REFRESH \<and> \<not> su_instant (m_pSubState s) \<and> GetDialog s = Some d
      \<and> m_piTimer s = None \<and> m_nRemainDuration s = k \<and> 0 < k \<and> default_policy s)"

lemma resubscribe_state:
  assumes "su_state t = STATE_ACTIVE" and "su_operation t = OPERATION_IMPLICIT_REFRESH" and "subscribe_request m"
  shows "\<exists>k. SubscriberState_UpdateState (Some m) t = (True, t\<lparr>su_duration := k\<rparr>)"
proof -
  have "\<exists>k. t = t\<lparr>su_duration := k\<rparr>" by (rule exI [of _ "su_duration t"]) simp
  then show ?thesis
    using assms by (cases "sm_expires m")
      (auto simp: SubscriberState_UpdateState_def sub_update_def UpdateOnSubscribeRequest_def request_duration_def
        sub_TranslateMessage_def sub_table_def subscribe_request_def Let_def)
qed

lemma refresh_sent:
  assumes "services_work env" and "sub_running n d t s" and "2 \<le> n" and "m_piRefreshListener s \<longrightarrow> se_NotifyTimerExpired env"
    and "se_CreateConnection env (Some d) METHOD_SUBSCRIBE = Some c" and "sc_message c = Some m"
    and "su_message (m_pSubState s) = Some k" and "se_CopyHeadersAndBodyParts env m k = Some q" and "subscribe_request q"
    and "s' = Subscriber_TimerExpired env t s"
  shows "refreshing (n - refresh_interval n) d s' \<and> m_aSent (m_method s') = m_aSent (m_method s) @ [(sc_id c, q)]
    \<and> m_piRefreshSc s' = Some (sc_id c) \<and> m_aPosted s' = m_aPosted s \<and> m_nNextTimer s' = m_nNextTimer s
    \<and> su_message (m_pSubState s') = Some k"
proof -
  let ?s = "s\<lparr>m_piTimer := None\<rparr>"
  let ?t = "m_pSubState s\<lparr>su_operation := OPERATION_IMPLICIT_REFRESH\<rparr>"
  obtain j where j: "SubscriberState_UpdateState (Some q) ?t = (True, ?t\<lparr>su_duration := j\<rparr>)"
    using resubscribe_state [of ?t q] assms(2,9) by (auto simp: sub_running_def)
  have w: "env_Send (se_refresh env)" "env_AdjustMessage (se_refresh env) = (\<lambda>m. m)" "se_SetImplicitRouteHeader env = (\<lambda>c. c)"
    using assms(1) by (simp_all add: services_work_def)
  have p: "0 < n - refresh_interval n" using refresh_interval_range [OF assms(3)] by simp
  have s': "s' = Subscriber_RefreshStarted env ?s"
    using assms(2) p by (simp add: assms(10) Subscriber_TimerExpired_def Timer_TimerExpired_def Let_def sub_running_def
        default_policy_def)
  define s1 where "s1 = (if m_piRefreshListener s then note_event REFRESH_STARTED ?s else ?s)"
  define s2 where "s2 = SetOperation OPERATION_IMPLICIT_REFRESH s1"
  let ?c = "c\<lparr>sc_message := Some q\<rparr>"
  define s3 where "s3 = upd_method (sent ?c) (SetConnection (Some (sc_id c)) (note_event (REQUEST_SENT (sc_id c)) s2))"
  have s1: "m_pSubState s1 = m_pSubState s" "m_method s1 = m_method s" "m_nState s1 = SUBSCRIPTION_ACTIVE" "m_piTimer s1 = None"
    "m_nRemainDuration s1 = n - refresh_interval n" "m_aPosted s1 = m_aPosted s" "m_nNextTimer s1 = m_nNextTimer s"
    "default_policy s1" "m_piRefreshListener s1 = m_piRefreshListener s"
    using assms(2) by (simp_all add: s1_def note_event_def sub_running_def default_policy_def)
  have s2: "m_pSubState s2 = ?t" "m_method s2 = m_method s" "m_nState s2 = SUBSCRIPTION_ACTIVE" "m_piTimer s2 = None"
    "m_nRemainDuration s2 = n - refresh_interval n" "m_aPosted s2 = m_aPosted s" "m_nNextTimer s2 = m_nNextTimer s"
    "default_policy s2" "GetDialog s2 = Some d"
    using s1 assms(2) by (simp_all add: s2_def SetOperation_def upd_sub_def default_policy_def GetDialog_def sub_running_def)
  have s3: "m_pSubState s3 = ?t" "m_aSent (m_method s3) = m_aSent (m_method s) @ [(sc_id c, q)]" "m_nState s3 = SUBSCRIPTION_ACTIVE"
    "m_piTimer s3 = None" "m_nRemainDuration s3 = n - refresh_interval n" "m_aPosted s3 = m_aPosted s"
    "m_nNextTimer s3 = m_nNextTimer s" "default_policy s3" "GetDialog s3 = Some d" "m_piRefreshSc s3 = Some (sc_id c)"
    using s2 by (simp_all add: s3_def upd_method_def sent_def SetConnection_def note_event_def default_policy_def GetDialog_def
        Let_def split: option.split)
  have r: "refresh_request env c s2 = Some ?c" using assms(6-8) s2(1) by (simp add: refresh_request_def)
  have q: "SubscriberRefreshHelper_SendRefreshRequest env ?c s2 = (True, ?c, s3)"
    using w by (simp add: SubscriberRefreshHelper_SendRefreshRequest_def RefreshHelper_SendRefreshRequest_def s3_def)
  have "Subscription_RefreshStarted env ?s = (True, s3\<lparr>m_pSubState := ?t\<lparr>su_duration := j\<rparr>\<rparr>)"
  proof -
    have "m_nState ?s = SUBSCRIPTION_ACTIVE" using assms(2) by (simp add: sub_running_def)
    moreover have "m_piRefreshListener s1 \<longrightarrow> se_NotifyTimerExpired env" using assms(4) s1(9) by simp
    moreover have "se_CreateConnection env (GetDialog s2) METHOD_SUBSCRIBE = Some c" using assms(5) s2(9) by simp
    moreover have "UpdateSubState (Some q) s3 = (True, s3\<lparr>m_pSubState := ?t\<lparr>su_duration := j\<rparr>\<rparr>)"
      using j s3(1) by (simp add: UpdateSubState_def)
    moreover have "(if m_piRefreshListener ?s then note_event REFRESH_STARTED ?s else ?s) = s1" by (simp add: s1_def)
    ultimately show ?thesis
      using r q w(3) by (simp add: Subscription_RefreshStarted_def Let_def flip: s2_def)
  qed
  then have "s' = s3\<lparr>m_pSubState := ?t\<lparr>su_duration := j\<rparr>\<rparr>" by (simp add: s' Subscriber_RefreshStarted_def)
  then show ?thesis
    using s3 p assms(2,7) by (simp add: refreshing_def sub_running_def GetOperation_def GetDialog_def default_policy_def)
qed

lemma refresh_renewed:
  assumes "services_work env" and "refreshing k d s" and "sc_message a = Some m" and "subscribe_answer n m"
    and "2 \<le> n" "n < 2 ^ 31" and "se_DialogState env d \<noteq> DIALOG_TERMINATED"
    and "s' = Subscriber_ClientConnection_NotifyResponse env e a s"
  shows "sub_running n d (m_nNextTimer s) s' \<and> m_aPosted s' = m_aPosted s \<and> m_piRefreshSc s' = None
    \<and> m_aSent (m_method s') = m_aSent (m_method s) \<and> su_message (m_pSubState s') = su_message (m_pSubState s)"
proof -
  have w: "se_CreateMessageBodyParts env m" using assms(1) by (simp add: services_work_def)
  have st: "sm_status m = 200" "sm_method m = METHOD_SUBSCRIBE" using assms(4) by (simp_all add: subscribe_answer_def)
  define s1 where "s1 = (if m_piRefreshListener s then note_event (REFRESH_COMPLETED (sc_id a) 0) s else s)"
  have s1: "m_pSubState s1 = m_pSubState s" "m_nNextTimer s1 = m_nNextTimer s" "default_policy s1" "m_nState s1 = SUBSCRIPTION_ACTIVE"
    "m_method s1 = m_method s" "m_aPosted s1 = m_aPosted s"
    using assms(2) by (simp_all add: s1_def note_event_def refreshing_def default_policy_def)
  have u: "UpdateSubState (Some m) s1 = (True, s1\<lparr>m_pSubState := (m_pSubState s)\<lparr>su_state := STATE_ACTIVE,
      su_duration_updated := True, su_duration := n\<rparr>\<rparr>)"
    using accepted_state [of "m_pSubState s" n m] assms(2,4,5) by (simp add: UpdateSubState_def s1 refreshing_def)
  define s2 where "s2 = s1\<lparr>m_pSubState := (m_pSubState s)\<lparr>su_state := STATE_ACTIVE, su_duration_updated := True,
      su_duration := n, su_operation := NO_OPERATION\<rparr>, m_method := ResetChallengeCount a (m_method s)\<rparr>"
  have c: "Subscription_RefreshCompleted env a 0 s = (a, s2)"
    using u assms(2,3,7) st s1(5)
    by (simp add: Subscription_RefreshCompleted_def Let_def s2_def CheckDialogNCallListener_def refreshing_def
        subscription_defs ResetChallengeCount_other flip: s1_def)
  have "Subscriber_RefreshCompleted env a 0 s = s2\<lparr>m_nDuration := n, m_piTimer := Some (m_nNextTimer s, refresh_interval n),
      m_nNextTimer := m_nNextTimer s + 1, m_nRemainDuration := n - refresh_interval n\<rparr>"
    using timer_restarted [OF assms(1) _ assms(3-6), of "StopRefresh s2"] s1 st assms(3)
    by (simp add: Subscriber_RefreshCompleted_def c Let_def IsFinalSuccess_def StopRefresh_def s2_def default_policy_def)
  then have "s' = SetConnection None (s2\<lparr>m_nDuration := n, m_piTimer := Some (m_nNextTimer s, refresh_interval n),
      m_nNextTimer := m_nNextTimer s + 1, m_nRemainDuration := n - refresh_interval n\<rparr>)"
    using w st assms(3) by (simp add: assms(8) Subscriber_ClientConnection_NotifyResponse_def Let_def)
  then show ?thesis
    using assms(2) s1 by (auto simp: sub_running_def refreshing_def s2_def SetConnection_def note_event_def
        default_policy_def GetOperation_def GetDialog_def ResetChallengeCount_other Let_def split: option.split)
qed

text \<open>
  A refusal that leaves the subscription: the time that remains is waited for. A challenge is one when
  the request cannot be repeated.
\<close>

definition refused :: "SubscriptionEnv \<Rightarrow> ISipConnection \<Rightarrow> RefreshMessage \<Rightarrow> bool" where
  "refused env b m = (sm_method m = METHOD_SUBSCRIBE \<and> sm_response m \<and> 300 \<le> sm_status m \<and> sm_status m \<noteq> 481
     \<and> (sm_status m \<in> {401, 407} \<longrightarrow> se_InitResubmissionRequest env b = None))"

lemma refused_state:
  "su_state t = STATE_ACTIVE \<Longrightarrow> su_operation t \<noteq> OPERATION_REMOVE \<Longrightarrow> refused env b m \<Longrightarrow>
   SubscriberState_UpdateState (Some m) t = (True, t\<lparr>su_duration_updated := False\<rparr>)"
  by (auto simp: SubscriberState_UpdateState_def sub_update_def UpdateOnSubscribeResponse_def sub_TranslateMessage_def
      sub_table_def refused_def Is1XX_def IsFinalSuccess_def)

lemma unanswered_challenge:
  "se_InitResubmissionRequest env b = None \<Longrightarrow> Subscription_RespondToChallenge env b s = (False, b, s)"
  by (simp add: Subscription_RespondToChallenge_def RespondToChallenge_def Let_def)

lemma refresh_refused:
  assumes "services_work env" and "refreshing k d s" and "sc_message a = Some m" and "refused env a m"
    and "se_DialogState env d \<noteq> DIALOG_TERMINATED"
    and "s' = Subscriber_ClientConnection_NotifyResponse env e a s"
  shows "m_nState s' = SUBSCRIPTION_ACTIVE \<and> m_piTimer s' = Some (m_nNextTimer s, k) \<and> m_nRemainDuration s' = 0
    \<and> m_aPosted s' = m_aPosted s \<and> \<not> m_bRepeatable s'"
proof -
  have w: "se_CreateMessageBodyParts env m" "env_CreateTimer (se_refresh env)" using assms(1) by (simp_all add: services_work_def)
  have st: "\<not> IsFinalSuccess (sm_status m)" "200 \<le> sm_status m" "sm_method m = METHOD_SUBSCRIBE"
    using assms(4) by (auto simp: refused_def IsFinalSuccess_def)
  have ch: "Subscription_RespondToChallenge env a v = (False, a, v)" if "sm_status m \<in> {401, 407}" for v
    using that assms(4) by (intro unanswered_challenge) (simp add: refused_def)
  define s1 where "s1 = (if m_piRefreshListener s then note_event (REFRESH_COMPLETED (sc_id a) 0) s else s)"
  have s1: "m_pSubState s1 = m_pSubState s" "m_nNextTimer s1 = m_nNextTimer s" "m_nState s1 = SUBSCRIPTION_ACTIVE"
    "m_method s1 = m_method s" "m_aPosted s1 = m_aPosted s" "m_nRemainDuration s1 = k" "\<not> m_bRepeatable s1"
    using assms(2) by (simp_all add: s1_def note_event_def refreshing_def default_policy_def)
  have u: "UpdateSubState (Some m) s1 = (True, s1\<lparr>m_pSubState := (m_pSubState s)\<lparr>su_duration_updated := False\<rparr>\<rparr>)"
    using refused_state [of "m_pSubState s" env a m] assms(2,4) by (simp add: UpdateSubState_def s1 refreshing_def GetOperation_def)
  define s2 where "s2 = s1\<lparr>m_pSubState := (m_pSubState s)\<lparr>su_duration_updated := False, su_operation := NO_OPERATION\<rparr>,
    m_method := ResetChallengeCount a (m_method s)\<rparr>"
  have c: "Subscription_RefreshCompleted env a 0 s = (a, s2)"
    using u assms(2,3,5) ch s1(4)
    by (simp add: Subscription_RefreshCompleted_def Let_def s2_def CheckDialogNCallListener_def refreshing_def
        subscription_defs ResetChallengeCount_other flip: s1_def)
  have "Subscriber_RefreshCompleted env a 0 s = s2\<lparr>m_piTimer := Some (m_nNextTimer s, k), m_nNextTimer := m_nNextTimer s + 1,
      m_nRemainDuration := 0\<rparr>"
    using assms(2,3) s1 st w by (simp add: Subscriber_RefreshCompleted_def c Let_def Subscriber_UpdateOnMessageReceived_def
        IsTerminated_def ConsumeRemainedTime_def StopRefresh_def SetTimer_def s2_def refreshing_def)
  then have "s' \<in> {s2\<lparr>m_piTimer := Some (m_nNextTimer s, k), m_nNextTimer := m_nNextTimer s + 1, m_nRemainDuration := 0\<rparr>,
      SetConnection None (s2\<lparr>m_piTimer := Some (m_nNextTimer s, k), m_nNextTimer := m_nNextTimer s + 1,
      m_nRemainDuration := 0\<rparr>)}"
    using w st assms(3) by (simp add: assms(6) Subscriber_ClientConnection_NotifyResponse_def Let_def)
  then show ?thesis
    using s1 by (auto simp: s2_def SetConnection_def note_event_def Let_def split: option.splits)
qed

text \<open>A 481: the other end has no such subscription.\<close>

definition no_subscription :: "RefreshMessage \<Rightarrow> bool" where
  "no_subscription m = (sm_method m = METHOD_SUBSCRIBE \<and> sm_response m \<and> sm_status m = 481)"

lemma no_subscription_state:
  "su_state t = STATE_ACTIVE \<Longrightarrow> no_subscription m \<Longrightarrow>
   SubscriberState_UpdateState (Some m) t = (True, t\<lparr>su_duration_updated := False, su_state := STATE_TERMINATED\<rparr>)"
  by (auto simp: SubscriberState_UpdateState_def sub_update_def UpdateOnSubscribeResponse_def sub_TranslateMessage_def
      sub_table_def no_subscription_def Is1XX_def IsFinalSuccess_def)

lemma refresh_unknown:
  assumes "services_work env" and "refreshing k d s" and "sc_message a = Some m" and "no_subscription m"
    and "s' = Subscriber_ClientConnection_NotifyResponse env e a s"
  shows "m_nState s' = SUBSCRIPTION_ACTIVE \<and> m_piTimer s' = None \<and> su_state (m_pSubState s') = STATE_TERMINATED
    \<and> m_aPosted s' = m_aPosted s @ (if se_DialogState env d = DIALOG_TERMINATED then [AMSG_TERMINATED] else [])"
proof -
  have w: "se_CreateMessageBodyParts env m" using assms(1) by (simp add: services_work_def)
  have st: "\<not> IsFinalSuccess (sm_status m)" "sm_status m = 481" "sm_method m = METHOD_SUBSCRIBE"
    using assms(4) by (auto simp: no_subscription_def IsFinalSuccess_def)
  define p where "p = (if se_DialogState env d = DIALOG_TERMINATED then [AMSG_TERMINATED] else [])"
  define s1 where "s1 = (if m_piRefreshListener s then note_event (REFRESH_COMPLETED (sc_id a) 0) s else s)"
  have s1: "m_pSubState s1 = m_pSubState s" "m_nState s1 = SUBSCRIPTION_ACTIVE" "m_piTimer s1 = None"
    "m_method s1 = m_method s" "m_aPosted s1 = m_aPosted s"
    using assms(2) by (simp_all add: s1_def note_event_def refreshing_def)
  have u: "UpdateSubState (Some m) s1 = (True, s1\<lparr>m_pSubState := (m_pSubState s)\<lparr>su_duration_updated := False,
      su_state := STATE_TERMINATED\<rparr>\<rparr>)"
    using no_subscription_state [of "m_pSubState s" m] assms(2,4) by (simp add: UpdateSubState_def s1 refreshing_def)
  define s2 where "s2 = s1\<lparr>m_pSubState := (m_pSubState s)\<lparr>su_duration_updated := False, su_state := STATE_TERMINATED,
      su_operation := NO_OPERATION\<rparr>, m_method := ResetChallengeCount a (m_method s), m_aPosted := m_aPosted s @ p\<rparr>"
  have c: "Subscription_RefreshCompleted env a 0 s = (a, s2)"
    using u assms(2,3) st s1
    by (cases s1; auto simp: Subscription_RefreshCompleted_def Let_def s2_def CheckDialogNCallListener_def refreshing_def
        subscription_defs ResetChallengeCount_other p_def simp flip: s1_def)
  have "Subscriber_RefreshCompleted env a 0 s = s2"
    using assms(3) s1 st by (simp add: Subscriber_RefreshCompleted_def c Let_def Subscriber_UpdateOnMessageReceived_def
        IsTerminated_def StopRefresh_def s2_def)
  then have "s' = SetConnection None s2"
    using w st assms(3) by (simp add: assms(5) Subscriber_ClientConnection_NotifyResponse_def Let_def)
  then show ?thesis
    using s1 by (auto simp: s2_def p_def SetConnection_def note_event_def Let_def split: option.split)
qed

lemma lifetime_over:
  assumes "m_nState s = SUBSCRIPTION_ACTIVE" and "m_piTimer s = Some (t, k)" and "m_nRemainDuration s = 0"
    and "s' = Subscriber_TimerExpired env t s"
  shows "m_nState s' = SUBSCRIPTION_INACTIVE \<and> m_piTimer s' = None \<and> su_state (m_pSubState s') = STATE_INIT
    \<and> GetDialog s' = None \<and> m_aPosted s' = m_aPosted s @ [AMSG_TERMINATED]"
  using assms by (simp add: Subscriber_TimerExpired_def Timer_TimerExpired_def Let_def Subscription_RefreshTerminated_def
      subscription_defs note_event_def DestroyDialog_def SubState_Clear_def SetEventHeader_def SetInitialDuration_def)

text \<open>C27:
  The refresh of a running subscription. When its timer expires it sends one SUBSCRIBE in its dialog,
  with the headers of the request that it has stored. A 200 makes it run again with the new lifetime.
  A refusal other than 481, also a challenge when the request cannot be repeated with credentials,
  leaves it active for what remains of its lifetime; then it is inactive, its state and dialog are
  gone and its end is posted. After a 481 its state is terminated and no timer runs, but it stays
  active, and its end is posted if and only if the dialog has ended by then (\<open>env'\<close> is the service
  at that time). A challenge that is answered is not covered.
\<close>

theorem subscription_refreshed:
  assumes "services_work env" and "sub_running n d t s" and "2 \<le> n" and "m_piRefreshListener s \<longrightarrow> se_NotifyTimerExpired env"
    and "se_CreateConnection env (Some d) METHOD_SUBSCRIBE = Some c" and "sc_message c = Some m"
    and "su_message (m_pSubState s) = Some k" and "se_CopyHeadersAndBodyParts env m k = Some q" and "subscribe_request q"
    and "se_DialogState env d \<noteq> DIALOG_TERMINATED"
    and "sc_message a = Some ma" and "subscribe_answer n' ma" and "2 \<le> n'" and "n' < 2 ^ 31"
    and "sc_message b = Some mb" and "refused env b mb"
    and "services_work env'" and "sc_message g = Some mg" and "no_subscription mg"
  shows "let s1 = Subscriber_TimerExpired env t s;
      s2 = Subscriber_ClientConnection_NotifyResponse env e a s1;
      s3 = Subscriber_ClientConnection_NotifyResponse env e b s1;
      s4 = Subscriber_TimerExpired env (m_nNextTimer s) s3;
      s5 = Subscriber_ClientConnection_NotifyResponse env' e g s1
    in m_aSent (m_method s1) = m_aSent (m_method s) @ [(sc_id c, q)] \<and> m_aPosted s1 = m_aPosted s
      \<and> sub_running n' d (m_nNextTimer s) s2 \<and> m_aPosted s2 = m_aPosted s \<and> m_aSent (m_method s2) = m_aSent (m_method s1)
      \<and> m_nState s3 = SUBSCRIPTION_ACTIVE \<and> m_piTimer s3 = Some (m_nNextTimer s, n - refresh_interval n)
      \<and> m_aPosted s3 = m_aPosted s
      \<and> m_nState s4 = SUBSCRIPTION_INACTIVE \<and> m_piTimer s4 = None \<and> su_state (m_pSubState s4) = STATE_INIT
      \<and> GetDialog s4 = None \<and> m_aPosted s4 = m_aPosted s @ [AMSG_TERMINATED]
      \<and> m_nState s5 = SUBSCRIPTION_ACTIVE \<and> m_piTimer s5 = None \<and> su_state (m_pSubState s5) = STATE_TERMINATED
      \<and> m_aPosted s5 = m_aPosted s @ (if se_DialogState env' d = DIALOG_TERMINATED then [AMSG_TERMINATED] else [])"
proof -
  note 1 = refresh_sent [OF assms(1-9) refl]
  note 2 = refresh_renewed [OF assms(1) _ assms(11-14,10) refl, of "n - refresh_interval n" "Subscriber_TimerExpired env t s" e]
  note 3 = refresh_refused [OF assms(1) _ assms(15,16,10) refl, of "n - refresh_interval n" "Subscriber_TimerExpired env t s" e]
  note 4 = lifetime_over [OF _ _ _ refl, of "Subscriber_ClientConnection_NotifyResponse env e b (Subscriber_TimerExpired env t s)"
      "m_nNextTimer s" "n - refresh_interval n" env]
  note 5 = refresh_unknown [OF assms(17) _ assms(18,19) refl, of "n - refresh_interval n" d "Subscriber_TimerExpired env t s" e]
  show ?thesis unfolding Let_def using 1 2 3 4 5 by simp
qed

section \<open>A concrete service\<close>

definition ex_service :: SubscriptionEnv where
  "ex_service =
     \<lparr> se_refresh = \<lparr> env_SipConfigV = None, env_TimerValueB = 32000, env_TimerValueF = 32000, env_TimerValueT1 = 500,
         env_UpdateByReInvite = False, env_CreateTimer = True, env_SetHeader = True, env_Send = True,
         env_AdjustMessage = (\<lambda>m. m), env_RefreshStarted = True \<rparr>,
       se_DialogOf = (\<lambda>c. c div 10), se_DialogState = (\<lambda>_. DIALOG_CONFIRMED),
       se_CreateConnection = (\<lambda>_ k. Some \<lparr> sc_id = 70, sc_message = Some
         \<lparr> sm_method = k, sm_response = False, sm_status = 0, sm_session_expires = NO_HEADER, sm_min_se = NO_HEADER,
           sm_supported = [], sm_require = [], sm_allow = [], sm_expires = NO_HEADER, sm_event = NO_HEADER,
           sm_subscription_state = NO_HEADER, sm_retry_after = False \<rparr>, sc_dialog = None \<rparr>),
       se_SetImplicitRouteHeader = (\<lambda>c. c), se_CopyHeadersAndBodyParts = (\<lambda>m n. Some n),
       se_CreateUnsentMessage = (\<lambda>_. Some
         \<lparr> sm_method = METHOD_INVALID, sm_response = False, sm_status = 0, sm_session_expires = NO_HEADER,
           sm_min_se = NO_HEADER, sm_supported = [], sm_require = [], sm_allow = [], sm_expires = NO_HEADER,
           sm_event = NO_HEADER, sm_subscription_state = NO_HEADER, sm_retry_after = False \<rparr>),
       se_CreateReceivedMessage = (\<lambda>_. True), se_CreateMessageBodyParts = (\<lambda>_. True),
       se_CreateResponse = (\<lambda>_ c. Some c),
       se_SendResponse = (\<lambda>n c. Some (c\<lparr>sc_message := map_option (\<lambda>m. m\<lparr>sm_response := True, sm_status := n\<rparr>) (sc_message c)\<rparr>)),
       se_AuthenticationChallenge = (\<lambda>_. None), se_SubscriberConfig = True,
       se_InitResubmissionRequest = (\<lambda>_. None), se_SetCredentials = True,
       se_NotifyTimerExpired = True, se_ValidateRequestUri = True, se_HandleOptions = True, se_IsServiceOpen = True,
       se_ForkedAccepted = True, se_IsSameDialog = (=) \<rparr>"

definition ex_sub_message :: "SipMethod \<Rightarrow> bool \<Rightarrow> int \<Rightarrow> int header \<Rightarrow> RefreshMessage" where
  "ex_sub_message k r n x = \<lparr> sm_method = k, sm_response = r, sm_status = n, sm_session_expires = NO_HEADER,
     sm_min_se = NO_HEADER, sm_supported = [], sm_require = [], sm_allow = [], sm_expires = x,
     sm_event = NO_HEADER, sm_subscription_state = NO_HEADER, sm_retry_after = False \<rparr>"

definition ex_on :: "RefreshMessage \<Rightarrow> ISipConnection" where
  "ex_on m = \<lparr> sc_id = 70, sc_message = Some m, sc_dialog = None \<rparr>"

lemma ex_service_simps [simp]:
  "services_work ex_service" "se_DialogState ex_service d = DIALOG_CONFIRMED" "se_NotifyTimerExpired ex_service"
  "se_CreateConnection ex_service dlg k = Some (ex_on (ex_sub_message k False 0 NO_HEADER))"
  "se_CopyHeadersAndBodyParts ex_service m n = Some n" "se_DialogOf ex_service c = c div 10"
  by (simp_all add: ex_service_def services_work_def ex_on_def ex_sub_message_def)

text \<open>The same service when the dialogs have ended.\<close>

definition ex_service_ended :: SubscriptionEnv where
  "ex_service_ended = ex_service\<lparr>se_DialogState := \<lambda>_. DIALOG_TERMINATED\<rparr>"

lemma ex_service_ended_simps:
  "services_work ex_service_ended" "se_DialogState ex_service_ended d = DIALOG_TERMINATED"
  by (simp_all add: ex_service_ended_def ex_service_def services_work_def)

lemma ex_sub_message_simps [simp]:
  "sc_message (ex_on m) = Some m" "sc_id (ex_on m) = 70"
  "sm_method (ex_sub_message k r n x) = k" "sm_response (ex_sub_message k r n x) = r" "sm_status (ex_sub_message k r n x) = n"
  "sm_expires (ex_sub_message k r n x) = x"
  by (simp_all add: ex_on_def ex_sub_message_def)

abbreviation "ex_accepted n \<equiv> ex_sub_message METHOD_SUBSCRIBE True 200 (HEADER n)"

definition ex_subscribed :: Subscription where
  "ex_subscribed = Subscription_NotifyResponse ex_service (ex_on (ex_accepted 1800))
     (snd (Subscribe ex_service (Subscription_new (Some ''reg'') False None)))"

lemma ex_subscribe_values:
  "subscribe_request (ex_sub_message METHOD_SUBSCRIBE False 0 NO_HEADER)" "subscribe_answer n (ex_accepted n)"
  "refused ex_service b (ex_sub_message METHOD_SUBSCRIBE True 503 NO_HEADER)"
  "no_subscription (ex_sub_message METHOD_SUBSCRIBE True 481 NO_HEADER)"
  by (simp_all add: subscribe_request_def subscribe_answer_def refused_def no_subscription_def)

theorem subscription_started_witness:
  "sub_running 1800 7 0 ex_subscribed \<and> m_aPosted ex_subscribed = [AMSG_STARTED]"
  using subscription_started [OF ex_service_simps(1) ex_service_simps(4) _ ex_subscribe_values(1) _ _ _ ex_subscribe_values(2),
      of "ex_on (ex_accepted 1800)" 1800 "Some ''reg''" False]
  by (simp add: ex_subscribed_def Let_def split: prod.splits)

lemma ex_subscribed_running:
  "sub_running 1800 7 0 ex_subscribed \<and> su_message (m_pSubState ex_subscribed) =
     Some (ex_sub_message METHOD_SUBSCRIBE False 0 (HEADER 3600)\<lparr>sm_event := HEADER (Some ''reg'')\<rparr>)
   \<and> m_nNextTimer ex_subscribed = 1"
  by code_simp

lemma ex_resubscribe:
  "subscribe_request (ex_sub_message METHOD_SUBSCRIBE False 0 (HEADER 3600)\<lparr>sm_event := HEADER (Some ''reg'')\<rparr>)"
  by (simp add: subscribe_request_def)

lemma ex_refreshing: "refreshing 600 7 (Subscriber_TimerExpired ex_service 0 ex_subscribed)"
  using refresh_sent [OF ex_service_simps(1) ex_subscribed_running [THEN conjunct1] _ _ ex_service_simps(4) _
      ex_subscribed_running [THEN conjunct2, THEN conjunct1] ex_service_simps(5) ex_resubscribe refl]
  by (simp add: refresh_interval_def)

theorem subscription_refreshed_witness:
  "let s1 = Subscriber_TimerExpired ex_service 0 ex_subscribed;
      s2 = Subscriber_ClientConnection_NotifyResponse ex_service 0 (ex_on (ex_accepted 600)) s1;
      s3 = Subscriber_ClientConnection_NotifyResponse ex_service 0 (ex_on (ex_sub_message METHOD_SUBSCRIBE True 503 NO_HEADER)) s1;
      s5 = Subscriber_ClientConnection_NotifyResponse ex_service_ended 0
        (ex_on (ex_sub_message METHOD_SUBSCRIBE True 481 NO_HEADER)) s1
    in sub_running 600 7 1 s2 \<and> m_piTimer s3 = Some (1, 600)
      \<and> m_nState s5 = SUBSCRIPTION_ACTIVE \<and> m_piTimer s5 = None \<and> AMSG_TERMINATED \<in> set (m_aPosted s5)"
proof -
  let ?k = "ex_sub_message METHOD_SUBSCRIBE False 0 (HEADER 3600)\<lparr>sm_event := HEADER (Some ''reg'')\<rparr>"
  have k: "su_message (m_pSubState ex_subscribed) = Some ?k" "subscribe_request ?k" "m_nNextTimer ex_subscribed = 1"
    using ex_subscribed_running by (simp_all add: subscribe_request_def)
  show ?thesis
    using subscription_refreshed [where a = "ex_on (ex_accepted 600)" and n' = 600
          and b = "ex_on (ex_sub_message METHOD_SUBSCRIBE True 503 NO_HEADER)"
          and g = "ex_on (ex_sub_message METHOD_SUBSCRIBE True 481 NO_HEADER)",
        OF ex_service_simps(1) ex_subscribed_running [THEN conjunct1] _ _ ex_service_simps(4) _ k(1)
        ex_service_simps(5) k(2) _ _ ex_subscribe_values(2) _ _ _ ex_subscribe_values(3)
        ex_service_ended_simps(1) _ ex_subscribe_values(4)] k(3)
    by (simp add: Let_def refresh_interval_def ex_service_ended_simps(2))
qed

end
