(* ===== verification/SubscriptionEvents.thy ===== *)
theory SubscriptionEvents
  imports SubscriptionRefresh
begin

text \<open>
  What can happen to a subscription while no request of its own is open, and two courses of events that
  leave it in a state that the listener does not expect: a request made during the implicit refresh,
  and a NOTIFY that ends the subscription before the answer to its SUBSCRIBE.
\<close>

section \<open>Events\<close>




section \<open>A request during the implicit refresh\<close>

lemma basic_state_kept [simp]:
  "m_nState (upd_method f s) = m_nState s" "m_nState (upd_sub g s) = m_nState s"
  "m_nState (SetOperation op s) = m_nState s" "m_nState (PostMessage a s) = m_nState s"
  "m_nState (snd (UpdateSubState m s)) = m_nState s" "m_nState (snd (with_method h s)) = m_nState s"
  "m_nState (note_event e s) = m_nState s" "m_nState (SetConnection i s) = m_nState s"
  "m_nState (StopRefresh s) = m_nState s" "m_nState (SetDuration n s) = m_nState s"
  "m_nState (call k s) = m_nState s" "m_nState (reject env n c s) = m_nState s"
  by (simp_all add: subscription_defs note_event_def SetConnection_def StopRefresh_def SetDuration_def call_def
      reject_def Let_def split: option.split prod.split)

lemma refresh_state_kept [simp]:
  "m_nState (snd (SetTimer r n s)) = m_nState s" "m_nState (snd (StartRefresh f r s)) = m_nState s"
  "m_nState (snd (ConsumeRemainedTime r s)) = m_nState s"
  by (auto simp: SetTimer_def StartRefresh_def ConsumeRemainedTime_def StopRefresh_def Let_def split: prod.split bool.split)

lemma subscriber_state_kept [simp]:
  "m_nState (snd (Subscriber_UpdateOnMessageReceived env c s)) = m_nState s"
  "m_nState (snd (Subscriber_UpdateOnMessageSent env c s)) = m_nState s"
  "m_nState (CheckDialogNCallListener env s) = m_nState s"
  by (simp_all add: Subscriber_UpdateOnMessageReceived_def Subscriber_UpdateOnMessageSent_def Subscriber_StartRefresh_def
      CheckDialogNCallListener_def Let_def split: option.split)

lemma UpdateSubState_pair: "UpdateSubState m s = (ok, s') \<Longrightarrow> m_nState s' = m_nState s"
  using basic_state_kept(5) [of m s] by simp

lemma challenge_state_kept:
  "m_nState (snd (snd (Subscription_SendRequestToChallenge env c s))) = m_nState s"
  by (auto simp: Subscription_SendRequestToChallenge_def Let_def dest: UpdateSubState_pair split: prod.split)

lemma respond_state_kept [simp]:
  "m_nState (snd (snd (Subscription_RespondToChallenge env c s))) = m_nState s"
  by (auto simp: Subscription_RespondToChallenge_def RespondToChallenge_def Let_def split: option.split prod.split bool.split)
    (metis challenge_state_kept snd_conv)+

lemma pending_refresh_ends [simp]:
  "m_nState s = SUBSCRIPTION_PENDING \<Longrightarrow> m_nState (Subscription_RefreshTerminated s) = SUBSCRIPTION_PENDING"
  by (simp add: Subscription_RefreshTerminated_def Let_def)

lemma pending_refresh_completed [simp]:
  assumes "m_nState s = SUBSCRIPTION_PENDING"
  shows "m_nState (snd (Subscription_RefreshCompleted env c n s)) = SUBSCRIPTION_PENDING"
    "m_nState (Subscriber_RefreshCompleted env c n s) = SUBSCRIPTION_PENDING"
proof -
  have r: "Subscription_RespondToChallenge env c t = (b, c', t') \<Longrightarrow> m_nState t' = m_nState t" for t b c' t'
    using respond_state_kept [of env c t] by simp
  show 1: "m_nState (snd (Subscription_RefreshCompleted env c n s)) = SUBSCRIPTION_PENDING"
    using assms by (auto simp: Subscription_RefreshCompleted_def Let_def dest!: UpdateSubState_pair r
        split: prod.split bool.split)
  show "m_nState (Subscriber_RefreshCompleted env c n s) = SUBSCRIPTION_PENDING"
    using 1 by (auto simp: Subscriber_RefreshCompleted_def Let_def split: prod.split)
qed




lemma notify_state_kept [simp]:
  "m_nState (snd (Dialog_NotifyRequest env c s)) = m_nState s"
  by (auto simp: Dialog_NotifyRequest_def answer_notify_def Let_def dest!: UpdateSubState_pair
      split: option.split prod.split bool.split)





section \<open>A NOTIFY that ends the subscription\<close>

definition terminating_notify :: "SubscriptionEnv \<Rightarrow> ISipConnection \<Rightarrow> RefreshMessage \<Rightarrow> ISipConnection \<Rightarrow> RefreshMessage \<Rightarrow> bool" where
  "terminating_notify env c m c' m' =
     (sc_message c = Some m \<and> sm_method m = METHOD_NOTIFY \<and> \<not> sm_response m \<and> IsHeaderPresent (sm_event m)
      \<and> ExtractSubStateValue (sm_subscription_state m) = SUB_STATE_TERMINATED \<and> se_ValidateRequestUri env
      \<and> se_CreateReceivedMessage env m \<and> se_SendResponse env 200 c = Some c' \<and> sc_message c' = Some m'
      \<and> sm_method m' = METHOD_NOTIFY \<and> sm_response m' \<and> sm_status m' = 200)"

lemma terminating_request:
  assumes "sm_method m = METHOD_NOTIFY" and "\<not> sm_response m" and "IsHeaderPresent (sm_event m)"
    and "ExtractSubStateValue (sm_subscription_state m) = SUB_STATE_TERMINATED"
    and "u = snd (SubscriberState_UpdateState (Some m) t)"
  shows "fst (SubscriberState_UpdateState (Some m) t) \<and> su_sub_state u = SUB_STATE_TERMINATED \<and> su_instant u = su_instant t
    \<and> su_operation u = su_operation t
    \<and> su_state u = (if su_state t = STATE_SUBSCRIBING then STATE_TERMINATED else su_state t)"
proof -
  obtain ss where ss: "sm_subscription_state m = HEADER ss"
    using assms(4) by (cases "sm_subscription_state m") (simp_all add: ExtractSubStateValue_def)
  define v where "v = UpdateOnNotifyRequest m (t\<lparr>su_duration_updated := False\<rparr>)"
  have v: "fst v" "su_state (snd v) = su_state t" "su_sub_state (snd v) = SUB_STATE_TERMINATED"
    "su_instant (snd v) = su_instant t" "su_operation (snd v) = su_operation t"
    using assms(3,4) ss by (simp_all add: v_def UpdateOnNotifyRequest_def SetEventHeader_def Let_def)
  have tr: "sub_TranslateMessage m (snd v) = MESSAGE_NOTIFY_TERMINATED"
    using assms(1,2) v by (simp add: sub_TranslateMessage_def)
  have "SubscriberState_UpdateState (Some m) t = (True,
      if sub_table (su_state t) MESSAGE_NOTIFY_TERMINATED \<noteq> STATE_INVALID
      then (snd v)\<lparr>su_state := sub_table (su_state t) MESSAGE_NOTIFY_TERMINATED\<rparr> else snd v)"
    using assms(1,2) v tr by (cases v) (simp add: SubscriberState_UpdateState_def sub_update_def v_def Let_def)
  then show ?thesis using assms(5) v by (cases "su_state t") (simp_all add: sub_table_def)
qed

lemma terminating_response:
  assumes "sm_method m = METHOD_NOTIFY" and "sm_response m" and "sm_status m = 200" and "su_sub_state t = SUB_STATE_TERMINATED"
    and "su_state t \<in> {STATE_TERMINATED, STATE_PENDING, STATE_ACTIVE}"
  shows "SubscriberState_UpdateState (Some m) t = (True, t\<lparr>su_state := STATE_TERMINATED\<rparr>)"
  using assms by (cases "su_state t") (auto simp: SubscriberState_UpdateState_def sub_update_def UpdateOnNotifyResponse_def
      sub_TranslateMessage_def sub_table_def Is1XX_def IsFinalSuccess_def Let_def)

text \<open>The notification is answered and announced, with the end; the state of the subscription is kept.\<close>

lemma notified_of_end:
  assumes "terminating_notify env c m c' m'" and "su_state (m_pSubState s) \<in> {STATE_SUBSCRIBING, STATE_PENDING, STATE_ACTIVE}"
    and "s' = snd (Dialog_NotifyRequest env c s)"
  shows "m_nState s' = m_nState s \<and> su_state (m_pSubState s') = STATE_TERMINATED \<and> m_piTimer s' = None
    \<and> m_aPosted s' = m_aPosted s @ [AMSG_NOTIFY_RECEIVED, AMSG_TERMINATED]
    \<and> m_objNotifyMessages s' = m_objNotifyMessages s @ [m] \<and> GetOperation s' = GetOperation s
    \<and> su_instant (m_pSubState s') = su_instant (m_pSubState s)"
proof -
  define s1 where "s1 = upd_method (CheckNCreateDialog env c (m_nState s \<noteq> SUBSCRIPTION_ACTIVE \<and> m_bSubscriptionInOtherDialog s) False)
    (upd_method (CheckNCreateDialog env c False False) s)"
  have s1: "m_pSubState s1 = m_pSubState s" "m_aPosted s1 = m_aPosted s" "m_objNotifyMessages s1 = m_objNotifyMessages s"
    by (simp_all add: s1_def upd_method_def)
  define u where "u = snd (SubscriberState_UpdateState (Some m) (m_pSubState s))"
  note n = assms(1) [unfolded terminating_notify_def]
  have u: "SubscriberState_UpdateState (Some m) (m_pSubState s) = (True, u)" "su_sub_state u = SUB_STATE_TERMINATED"
    "su_state u \<in> {STATE_TERMINATED, STATE_PENDING, STATE_ACTIVE}" "su_instant u = su_instant (m_pSubState s)"
    "su_operation u = su_operation (m_pSubState s)"
    using terminating_request [OF _ _ _ _ u_def] n assms(2)
    by (auto simp: u_def prod_eq_iff split: if_splits)
  have r: "SubscriberState_UpdateState (Some m') u = (True, u\<lparr>su_state := STATE_TERMINATED\<rparr>)"
    using terminating_response [OF _ _ _ u(2,3)] n by blast
  have "snd (Dialog_NotifyRequest env c s) = snd (answer_notify env m c (s1\<lparr>m_pSubState := u\<rparr>))"
    using n u(1) s1(1) by (simp add: Dialog_NotifyRequest_def Let_def UpdateSubState_def flip: s1_def)
      (simp add: s1_def upd_method_def)
  then show ?thesis
    using n r s1 u(4,5) unfolding assms(3)
    by (simp add: answer_notify_def Let_def UpdateSubState_def upd_method_def PostMessage_def IsTerminated_def
        Subscriber_UpdateOnMessageSent_def StopRefresh_def GetOperation_def)
      (simp add: s1_def upd_method_def)
qed

text \<open>The answer to the SUBSCRIBE of a subscription that has ended.\<close>

lemma late_answer_state:
  assumes "subscribe_answer n a" and "su_state t = STATE_TERMINATED"
  shows "SubscriberState_UpdateState (Some a) t = (True, t\<lparr>su_duration_updated := False\<rparr>)"
  using assms by (simp add: SubscriberState_UpdateState_def sub_update_def UpdateOnSubscribeResponse_def subscribe_answer_def
      sub_TranslateMessage_def Is1XX_def IsFinalSuccess_def Let_def)

text \<open>C30:
  A NOTIFY that ends a subscription may overtake the answer to its SUBSCRIBE. The listener is then told of
  the notification, the end and the start in this order, and the subscription is active although its
  state says terminated: no timer is armed, and nothing will end it.
\<close>

theorem ended_before_started:
  assumes "m_nState s = SUBSCRIPTION_PENDING" and "GetOperation s = OPERATION_CREATE"
    and "su_state (m_pSubState s) = STATE_SUBSCRIBING" and "terminating_notify env c m c' m'"
    and "sc_message r = Some a" and "subscribe_answer n a" and "se_CreateMessageBodyParts env a"
  shows "let s1 = snd (Dialog_NotifyRequest env c s); s2 = Subscription_NotifyResponse env r s1
    in m_nState s1 = SUBSCRIPTION_PENDING \<and> m_nState s2 = SUBSCRIPTION_ACTIVE
      \<and> su_state (m_pSubState s2) = STATE_TERMINATED \<and> m_piTimer s2 = None
      \<and> m_aPosted s2 = m_aPosted s @ [AMSG_NOTIFY_RECEIVED, AMSG_TERMINATED, AMSG_STARTED]"
proof -
  define s1 where "s1 = snd (Dialog_NotifyRequest env c s)"
  have s1: "m_nState s1 = SUBSCRIPTION_PENDING" "GetOperation s1 = OPERATION_CREATE"
    "su_state (m_pSubState s1) = STATE_TERMINATED" "m_piTimer s1 = None"
    "m_aPosted s1 = m_aPosted s @ [AMSG_NOTIFY_RECEIVED, AMSG_TERMINATED]"
    using notified_of_end [OF assms(4) _ s1_def] assms(1-3) by simp_all
  have a: "sm_method a = METHOD_SUBSCRIBE" "sm_status a = 200" using assms(6) by (simp_all add: subscribe_answer_def)
  define s2 where "s2 = (upd_method (ResetChallengeCount r) s1)\<lparr>m_pSubState := (m_pSubState s1)\<lparr>su_duration_updated := False\<rparr>\<rparr>"
  define s3 where "s3 = UpdateResponse env r s2"
  have u: "UpdateSubState (Some a) (upd_method (ResetChallengeCount r) s1) = (True, s2)"
    using late_answer_state [OF assms(6) s1(3)] by (simp add: UpdateSubState_def s2_def upd_method_def)
  have e: "s3 = s2\<lparr>m_method := m_method s3\<rparr>"
    by (simp add: s3_def UpdateResponse_def with_method_def split: option.split prod.split)
  have s3: "m_nState s3 = SUBSCRIPTION_PENDING" "su_state (m_pSubState s3) = STATE_TERMINATED" "m_aPosted s3 = m_aPosted s1"
    by (subst e, simp add: s2_def upd_method_def s1)+
  have "Subscription_NotifyResponse env r s1 = final_response env OPERATION_CREATE 200 r s3"
    using assms(5,7) a u s1(2)
    by (simp add: Subscription_NotifyResponse_def Method_ClientConnection_NotifyResponse_def NotifySipResponse_def
        Let_def Is1XX_def GetOperation_def upd_method_def flip: s3_def)
  then show ?thesis
    unfolding Let_def s1_def [symmetric]
    using assms(5) a s1 s3
    by (simp add: final_response_def Let_def IsFinalSuccess_def subscription_defs Subscriber_UpdateOnMessageReceived_def
        IsTerminated_def StopRefresh_def Subscription_CloseConnection_def split: option.split)
qed

text \<open>
  The one notification of an instant subscription does not make it inactive: it is announced with the
  end, but the subscription stays active, and every further \<open>Poll\<close> or \<open>Subscribe\<close> fails.
\<close>

theorem polled_subscription_spent:
  assumes "m_nState s = SUBSCRIPTION_ACTIVE" and "su_instant (m_pSubState s)"
    and "su_state (m_pSubState s) \<in> {STATE_PENDING, STATE_ACTIVE}" and "terminating_notify env c m c' m'"
  shows "let s1 = snd (Dialog_NotifyRequest env c s)
    in m_aPosted s1 = m_aPosted s @ [AMSG_NOTIFY_RECEIVED, AMSG_TERMINATED] \<and> m_nState s1 = SUBSCRIPTION_ACTIVE
      \<and> Poll env' s1 = failure IMS_ILLEGAL_STATE s1 \<and> Subscribe env' s1 = failure IMS_INVALID_OPERATION s1"
  using notified_of_end [OF assms(4) _ refl, of s] assms(1-3) unfolding Let_def
  by (simp add: Poll_def Subscribe_def)

definition ex_notify :: ISipConnection where
  "ex_notify = ex_on (ex_sub_message METHOD_NOTIFY False 0 NO_HEADER\<lparr>sm_event := HEADER (Some ''reg''),
     sm_subscription_state := HEADER \<lparr> ss_value = Some ''terminated'', ss_expires = None, ss_reason = None \<rparr>\<rparr>)"

lemma ex_terminating_notify:
  "\<exists>m c' m'. terminating_notify ex_service ex_notify m c' m'"
  by (simp add: terminating_notify_def ex_notify_def ex_service_def ex_sub_message_def ex_on_def IsHeaderPresent_def
      ExtractSubStateValue_def) code_simp

definition ex_subscribing :: Subscription where
  "ex_subscribing = snd (Subscribe ex_service (Subscription_new (Some ''reg'') False None))"

lemma ex_subscribing_state:
  "m_nState ex_subscribing = SUBSCRIPTION_PENDING \<and> GetOperation ex_subscribing = OPERATION_CREATE
   \<and> su_state (m_pSubState ex_subscribing) = STATE_SUBSCRIBING"
  by code_simp

theorem ended_before_started_witness:
  "m_nState (Subscription_NotifyResponse ex_service (ex_on (ex_accepted 1800))
     (snd (Dialog_NotifyRequest ex_service ex_notify ex_subscribing))) = SUBSCRIPTION_ACTIVE"
proof -
  obtain m c' m' where n: "terminating_notify ex_service ex_notify m c' m'" using ex_terminating_notify by blast
  have s: "m_nState ex_subscribing = SUBSCRIPTION_PENDING" "GetOperation ex_subscribing = OPERATION_CREATE"
    "su_state (m_pSubState ex_subscribing) = STATE_SUBSCRIBING"
    using ex_subscribing_state by blast+
  show ?thesis
    using ended_before_started [OF s n _ ex_subscribe_values(2), of "ex_on (ex_accepted 1800)" 1800]
    by (simp add: Let_def ex_service_def)
qed

definition ex_polled :: Subscription where
  "ex_polled = Subscription_NotifyResponse ex_service (ex_on (ex_accepted 0))
     (snd (Poll ex_service (Subscription_new (Some ''reg'') False None)))"

lemma ex_polled_state:
  "m_nState ex_polled = SUBSCRIPTION_ACTIVE \<and> su_instant (m_pSubState ex_polled)
   \<and> su_state (m_pSubState ex_polled) = STATE_ACTIVE"
  by code_simp

theorem polled_subscription_spent_witness:
  "fst (Poll ex_service (snd (Dialog_NotifyRequest ex_service ex_notify ex_polled))) = False"
proof -
  obtain m c' m' where n: "terminating_notify ex_service ex_notify m c' m'" using ex_terminating_notify by blast
  have s: "m_nState ex_polled = SUBSCRIPTION_ACTIVE" "su_instant (m_pSubState ex_polled)"
    "su_state (m_pSubState ex_polled) \<in> {STATE_PENDING, STATE_ACTIVE}"
    using ex_polled_state by auto
  show ?thesis using polled_subscription_spent [OF s n, of ex_service] by (simp add: Let_def failure_def)
qed

end
