(* ===== verification/Spec2Isabelle.thy ===== *)
theory Spec2Isabelle
  imports SipCleanUp SipTable SipServerResponses SipMatching SipMachines SdpOffers
    ImsBase64 DigestFacts MtcQosFacts AStringNumber CallState RefreshTimers SubscriptionEvents
begin

text \<open>
  Verification of the signalling core of ImsStack, the native IMS protocol stack: the SIP
  transaction layer, the negotiation of sessions by SDP offers and answers, the preconditions of calls
  on network resources, calls, session timers and subscriptions, and the conversions of numbers, the
  encodings of bytes and the digests that they use. All paths below are under
  \<open>src/native/libimsstack\<close>.

  \<^bold>\<open>The program.\<close> A user of the stack (the TU: \<open>engine\<close>, on behalf of the applications of
  \<open>enabler\<close>) hands SIP messages to \<open>SipStackManager\<close> (\<open>protocol/sip\<close>), which sends them as they are or
  through a transaction. A transaction (\<open>protocol/sip/txn\<close>) is found in the table of
  \<open>SipStackState\<close> by its \<open>SipTxnKey\<close>; an event (a message sent, a message received, a timer, a
  transport error) goes to the machine of its type, which sends, retransmits, starts timers, and
  says what the TU is to be told. What the messages carry, offers and answers, is negotiated by
  \<open>protocol/sdp/offeranswer\<close> and \<open>engine/core\<close>: \<open>SdpOaState\<close> follows the exchange of a session
  and keeps its views, \<open>SessionParameter\<close> compares two descriptions. A session that is up is
  refreshed by its \<open>SessionRefreshHelper\<close>, which reads and writes the headers of session timers;
  \<open>CallState\<close> says whether it is being set up, up, or being ended. Whether the called user may be
  alerted, and what becomes of a call without a bearer, is decided by the \<open>MtcPreconditionManager\<close> of
  \<open>enabler/mtc\<close>, which both ends tell of their resources in the SDP. A \<open>Subscription\<close> sends SUBSCRIBE and
  receives NOTIFY through the common part of all methods, \<open>ServiceMethod\<close>; its \<open>SubscriberState\<close>
  follows the messages, and its refresh helper repeats the request in time.

  \<^bold>\<open>The transaction layer.\<close> One state, the record \<open>SipStack\<close> of theory \<open>SipTxn\<close>, holds what the C++ keeps
  in objects and singletons: the transaction objects by number (fields named as the members of
  class \<open>SipTxn\<close>), the table, the keys of reliable provisional responses, the armed timers, the
  error that \<open>SipStackError\<close> variables carry, and the outputs in order (packets, callbacks). An
  environment record stands for what the source calls and this repository's SIP layer does not
  define: the TU's callbacks, the encoding of messages, the network, the timer service.

  \<^item> \<open>SipPrelude\<close>: hints and the generic lemmas that the theories share.
  \<^item> \<open>SipString\<close> (\<open>sip/platform/SipString.cpp\<close>), \<open>SipMsg\<close> (\<open>sip/msg\<close>: what transactions read of a
    message), \<open>SipTimers\<close> (\<open>SipConfiguration\<close>, \<open>SipTxnTimerValues\<close>), \<open>SipKey\<close> (\<open>SipTxnKey.cpp\<close>), \<open>SipTxnUtil\<close>
    (\<open>SipTxnUtil.cpp\<close>), \<open>ImsMap\<close> (\<open>platform/interface/util/ImsMap.h\<close>), \<open>SipStackState\<close>
    (\<open>engine/sipcore/SipStackState.cpp\<close>, \<open>SipStackTransaction.cpp\<close>): the data.
  \<^item> \<open>SipTxn\<close> (\<open>SipTxn.cpp\<close>, construction, reference counts, the callbacks of
    \<open>engine/sipcore/SipTransactionCallback.cpp\<close>), \<open>SipTxnTimeout\<close> (timers and \<open>CbkTxnTimeout\<close>).
  \<^item> \<open>SipInviteClientTxn\<close>, \<open>SipInviteServerTxn\<close>, \<open>SipNonInviteClientTxn\<close>, \<open>SipNonInviteServerTxn\<close>
    (the files of the same names) and \<open>SipTxnFsm\<close> (\<open>SipTxn::InvokeFsm\<close>): the machines, one
    definition per handler and one per state table.
  \<^item> \<open>SipTxnHandler\<close> (\<open>SipTxnHandler.cpp\<close>) and \<open>SipStackManager\<close> (\<open>SipStackManager.cpp\<close>,
    \<open>SipTransportHandler.cpp\<close>): sending, receiving, terminating; \<open>SipCleanUp\<close> (the end of
    \<open>SipStackState\<close>).

  What is shown. \<open>SipTable\<close>: the hashed table refines one list of entries (locale \<open>txn_store\<close> of
  \<open>SipStackState\<close>, interpreted on it; \<open>finite_map\<close> does the same for \<open>ImsMap\<close>), copying of keys, the search and the deletion of the keys of
  reliable responses, timer values. \<open>SipMatching\<close>: which keys match, so which messages belong
  together. \<open>SipMachines\<close>: the machines refine the abstract ones of RFC 3261 and RFC 6026, and refuse
  other events. \<open>SipInvariant\<close>, \<open>SipRefCount\<close>, \<open>SipReach\<close>: an invariant of the whole stack, kept by
  every operation of the interface in any order (messages sent and received, expiries,
  termination, transport errors): the table is well-formed, what it refers to is
  alive, states and types agree. \<open>SipClientCalls\<close>, \<open>SipServerCalls\<close>, \<open>SipServerResponses\<close>, with
  \<open>SipSchedule\<close>, \<open>SipRetransmission\<close>, \<open>SipCallFacts\<close> and the concrete stack of \<open>SipExample\<close>: whole
  calls from the interface to the outputs, with the retransmissions and the durations for which the
  timer service is asked. \<open>SipCleanUp\<close>: taking down a table that is not empty uses a deleted entry.

  \<^bold>\<open>Offer and answer.\<close>

  \<^item> \<open>SdpParam\<close> (\<open>protocol/sdp/offeranswer/SdpParameter.cpp\<close>, \<open>SdpMedia.cpp\<close>, \<open>SdpMediaFormat.cpp\<close>,
    \<open>SdpAvCodec.cpp\<close>, \<open>SdpMediaGroup.cpp\<close>), \<open>SdpMediaParam\<close> (\<open>SdpMediaParameter.cpp\<close>),
    \<open>SdpSession\<close> (\<open>SdpSessionParameter.cpp\<close>, \<open>engine/core/SessionParameter.cpp\<close>): a description as
    both sides know it, and its comparison with the peer's.
  \<^item> \<open>SdpOaState\<close> (\<open>engine/core/SdpOaState.cpp\<close>): the record of the same name, its state tables
    \<open>STATE_SENT\<close> and \<open>STATE_RECEIVED\<close>, and one definition per operation. A view is an optional
    \<open>SessionParameter\<close>; a dereference of a null one is the value \<open>Inl NULL_VIEW\<close>.

  What is shown. \<open>SdpNegotiation\<close>: m-lines, directions and formats of what is negotiated (media
  outside the five known types are compared by the code, and so here, only by being outside), the
  number of the session version. \<open>SdpOffers\<close>: the exchange refines the model of RFC 3264 in which at most one
  offer is outstanding; glare, malformed bodies, answers, proposals.

  \<^bold>\<open>Preconditions.\<close>

  \<^item> \<open>Precondition\<close> (\<open>protocol/sdp/offeranswer/SdpPrecondition.cpp\<close> and its two kinds): the attributes of
    RFC 3312, written and read.
  \<^item> \<open>QosStatusTable\<close> (\<open>enabler/mtc/precondition/QosStatusTable.cpp\<close>): the records of current, desired and
    confirmed status, a list in the order of the code; \<open>PreconditionSdp\<close> (\<open>SdpPreconditionHelper.cpp\<close>): from
    the table into a description and back.
  \<^item> \<open>MtcPrecondition\<close> (\<open>MtcPreconditionManager.cpp\<close>, \<open>QosTimer.cpp\<close>): the record of the manager, with the
    information of each session in a map, its timers, and the list of what the listener is told. The
    call, its configuration and the radio are a context that is read.

  What is shown. \<open>Precondition\<close>: reading undoes writing. \<open>QosFacts\<close>: the table seen as a view, on which
  an exchange of descriptions makes the two ends agree; when a status counts as met. \<open>MtcQosFacts\<close>: what every
  sequence of the manager's operations keeps, when a call may alert, and what is told when a bearer
  comes, stays away or is given up for WLAN.

  \<^bold>\<open>Calls.\<close> \<open>CoreMessage\<close> is what \<open>engine/core\<close> sees of a message: its method, status and parsed
  headers. \<open>CallState\<close> (\<open>engine/core/CallState.cpp\<close>) has the two tables and \<open>UpdateState\<close>. What is shown:
  the call states of two ends mirror each other as long as no BYE overtakes a re-INVITE, and what
  happens when one does.

  \<^bold>\<open>Session timers.\<close>

  \<^item> \<open>RefreshHelper\<close> (\<open>engine/core/util/RefreshHelper.cpp\<close>): the record of the base class, the intervals
    of its policies, its timer and its connection. Virtual functions of the derived class are
    arguments of the operations that call them.
  \<^item> \<open>SessionRefresh\<close> (\<open>engine/core/SessionRefreshHelper.cpp\<close>): the record extended by the members of the
    derived class, one definition per function, large ones in the parts that the code has. A message is its
    parsed headers; \<open>RefreshEnv\<close> holds the configuration of the service, whether timers and
    headers can be set and requests sent, the message mediator, and what the listener answers. The calls
    of the listener are the list \<open>m_aEvents\<close>.

  What is shown. \<open>RefreshTimers\<close>: both ends agree on the interval and on who refreshes, the timer
  expires once and for the right side, and a refresh refused with 422 is not repeated.

  \<^bold>\<open>Subscriptions.\<close>

  \<^item> \<open>ServiceMethod\<close> (\<open>engine/core/base/Method.cpp\<close>, \<open>ServiceMethod.cpp\<close>): the dialog, the answers to
    challenges, the previous messages of each kind with their connections, requests and responses.
  \<^item> \<open>SubscriberState\<close> (\<open>SubState.cpp\<close>, \<open>SubscriberState.cpp\<close>, \<open>util/EventPackage.cpp\<close>): the state, its
    table, and the durations that SUBSCRIBE and NOTIFY set.
  \<^item> \<open>Subscription\<close> (\<open>Subscription.cpp\<close>, \<open>SubscriberRefreshHelper.cpp\<close>): the record extends that of the
    refresh helper, whose virtual functions call back into the subscription. The service, dialogs,
    authentication and the construction of messages are \<open>ServiceEnv\<close> and \<open>SubscriptionEnv\<close>; posted
    messages and calls of the listener are lists.

  What is shown. \<open>SubscriberFacts\<close>: what every sequence of messages makes of a subscription, in terms of
  the messages alone (asked for, granted, ended); the state table follows the code, not RFC 6665, so a
  2xx alone makes a subscription active or pending. \<open>SubscriptionRefresh\<close>: from \<open>Subscribe\<close> to the
  timer, through its refresh, refusal, a 481 and the end. \<open>SubscriptionEvents\<close>: in any course of
  events a request made during a refresh is lost and the subscription stuck; a NOTIFY that overtakes
  the answer to SUBSCRIBE, and what is left of a polled subscription.

  \<^bold>\<open>Numbers.\<close> \<open>AStringNumber\<close> (\<open>platform/util/AString.cpp\<close>): the conversions between texts and integers of
  16, 32 and 64 bits in every base; which texts are numbers, and that numbers come back.

  \<^bold>\<open>Base64.\<close> \<open>ImsBase64\<close> (\<open>platform/util/ImsBase64.cpp\<close>, \<open>AString::ToBase64\<close>, \<open>AString::FromBase64\<close>): the
  encoders against the groups of three bytes, both round trips, and reads past the end of the text
  (the decoder's memory is a list, beyond which a read is \<open>None\<close>).

  \<^bold>\<open>Digests.\<close> \<open>BlockHash\<close> is what \<open>ImsMd5.cpp\<close> and \<open>ImsSha1.cpp\<close> (\<open>platform/util\<close>) have in common: the context,
  feeding, padding and finishing, with the function that absorbs a block as an argument; its locale shows
  that the pieces in which a text is fed do not matter. \<open>ImsDigest\<close> has those functions, HMAC
  (\<open>ImsHmac.cpp\<close>) and the responses of HTTP authentication (\<open>ImsDigest.cpp\<close>), on 32-bit words. What is shown.
  \<open>DigestFacts\<close>: they are those of RFC 1321, FIPS 180-4, RFC 2104 and RFC 2617, each stated in the
  notation of its standard.

  \<^bold>\<open>Loops and integers.\<close> All loops recurse over lists, with three exceptions that are partial functions,
  whose value \<open>None\<close> is a loop that does not end: the search of reliable responses, whose 16-bit position
  can wrap (\<open>SearchTxnKey_loop\<close>), the loop over the blocks of a digest, whose 32-bit position can
  (\<open>block_loop\<close>), and the two loops over the table that is taken down (\<open>CleanUp_loop\<close>). The theorems about them
  say when they return. The decoder of Base64 recurses over the position that remains. Timer values and
  their doubling are 32-bit words. The scenarios that run timers name the number of expiries they follow, and show that the transaction is over after them; no fuel is used.

  \<^bold>\<open>Not modelled.\<close> Parsing and encoding of SIP and SDP (the model takes parsed messages; encoding is
  a parameter), memory exhaustion but where a constructor reports it on its own, the mutex of the
  table (operations are atomic), tracing. Of the offer/answer component: the group check under
  \<open>F_MEDIA_GROUP\<close>, which is set only in states in which \<open>HandleOffer\<close> is never called, and the
  creation of capabilities from the configuration. Of session timers: a listener that calls the
  helper again from its callback, and responses that cannot be received or parsed. Of subscriptions:
  the identities of the peer, privacy, caller preferences, failed allocations. The TU's dialogs and the
  sessions themselves, registration, service and enabler layers, media, platform services, and the Java half of the stack are planned or
  out of scope, as the component list says.
\<close>

end
